(* ===== verification/Prelude.thy ===== *)
theory Prelude
  imports Main "HOL-Library.Word"
begin

text \<open>
  Shared vocabulary of the development: names for the machine integers of the Rust code,
  collections of simplification rules the components extend, and the facts on lists, options
  and association lists that several components use.

  Integers.  \<open>u8\<close>, \<open>u32\<close>, \<open>u64\<close> are words of that width.  Arithmetic is that of a release build
  of the workspace (\<open>[profile.release]\<close> sets no \<open>overflow-checks\<close>): it wraps around.

  Time.  A \<open>chrono::DateTime<Utc>\<close> is represented by its millisecond timestamp, an \<open>int\<close>; a
  \<open>std::time::Duration\<close> by its length in nanoseconds, a \<open>nat\<close>.
\<close>

unbundle bit_operations_syntax

type_synonym u8 = "8 word"
type_synonym u16 = "16 word"
type_synonym u32 = "32 word"
type_synonym u64 = "64 word"
type_synonym datetime = int
type_synonym duration = nat

text \<open>
  \<open>text_simps\<close>: equations of the string routines on closed strings; \<open>core_simps\<close>: the constructors
  of the core types; \<open>client_simps\<close>: the small steps of the orchestrator.
\<close>

named_theorems text_simps
named_theorems core_simps
named_theorems client_simps

section \<open>Lists\<close>

text \<open>\<open>Iterator::position\<close>: the index of the first element that satisfies a predicate.\<close>

fun position :: "('a \<Rightarrow> bool) \<Rightarrow> 'a list \<Rightarrow> nat option" where
  "position p [] = None"
| "position p (x # xs) = (if p x then Some 0 else map_option Suc (position p xs))"

lemma position_None: "position p xs = None \<longleftrightarrow> (\<forall>x\<in>set xs. \<not> p x)"
  by (induction xs) auto

lemma position_Some:
  "position p xs = Some i \<Longrightarrow> i < length xs \<and> p (xs ! i) \<and> (\<forall>j<i. \<not> p (xs ! j))"
  by (induction xs arbitrary: i) (auto split: if_splits simp: less_Suc_eq_0_disj nth_Cons')

lemma map_option_plus_0 [simp]: "map_option ((+) (0::nat)) x = x"
  by (cases x) auto

lemma position_append:
  "position p (xs @ ys) =
     (case position p xs of Some i \<Rightarrow> Some i | None \<Rightarrow> map_option ((+) (length xs)) (position p ys))"
  by (induction xs)
    (auto simp: option.map_comp comp_def fun_eq_iff option.map_ident split: option.split
       intro!: option.map_cong)

lemma position_takeWhile:
  "position p xs = Some i \<Longrightarrow> takeWhile (\<lambda>x. \<not> p x) xs = take i xs"
  by (induction xs arbitrary: i) (auto split: if_splits)

text \<open>Updating the first element that satisfies a predicate: \<open>iter_mut().find(p)\<close> and an assignment.\<close>

fun update_first :: "('a \<Rightarrow> bool) \<Rightarrow> ('a \<Rightarrow> 'a) \<Rightarrow> 'a list \<Rightarrow> 'a list" where
  "update_first p f [] = []"
| "update_first p f (x # xs) = (if p x then f x # xs else x # update_first p f xs)"

lemma length_update_first [simp]: "length (update_first p f xs) = length xs"
  by (induction xs) auto

lemma update_first_none: "\<not> (\<exists>x\<in>set xs. p x) \<Longrightarrow> update_first p f xs = xs"
  by (induction xs) auto

lemma map_update_first:
  "(\<And>x. g (f x) = g x) \<Longrightarrow> map g (update_first p f xs) = map g xs"
  by (induction xs) auto

lemma find_update_first_same:
  "(\<And>x. p x \<Longrightarrow> p (f x)) \<Longrightarrow> find p (update_first p f xs) = map_option f (find p xs)"
  by (induction xs) auto

lemma find_update_first_other:
  "(\<And>x. p x \<Longrightarrow> \<not> q x \<and> \<not> q (f x)) \<Longrightarrow> find q (update_first p f xs) = find q xs"
  by (induction xs) auto

lemma update_first_append:
  "update_first p f (xs @ ys) =
     (if \<exists>x\<in>set xs. p x then update_first p f xs @ ys else xs @ update_first p f ys)"
  by (induction xs) auto

lemma set_update_first:
  "set (update_first p f xs) \<subseteq> set xs \<union> f ` {x \<in> set xs. p x}"
  by (induction xs) auto

lemma find_append:
  "find p (xs @ ys) = (case find p xs of Some x \<Rightarrow> Some x | None \<Rightarrow> find p ys)"
  by (induction xs) auto

lemma find_SomeD: "find p xs = Some x \<Longrightarrow> x \<in> set xs \<and> p x"
  by (induction xs) (auto split: if_splits)

lemma find_None_set: "find p xs = None \<longleftrightarrow> (\<forall>x\<in>set xs. \<not> p x)"
  by (auto simp: find_None_iff)

lemma find_unique:
  "\<lbrakk>x \<in> set xs; p x; \<And>y. y \<in> set xs \<Longrightarrow> p y \<Longrightarrow> y = x\<rbrakk> \<Longrightarrow> find p xs = Some x"
proof (cases "find p xs")
  case None
  assume "x \<in> set xs" "p x"
  with None show ?thesis by (simp add: find_None_set)
next
  case (Some z)
  assume "\<And>y. y \<in> set xs \<Longrightarrow> p y \<Longrightarrow> y = x"
  then have "z = x" using find_SomeD [OF Some] by blast
  with Some show ?thesis by simp
qed

section \<open>Association lists in insertion order\<close>

text \<open>
  The maps whose order the code observes (\<open>serde_json::Map\<close> with \<open>preserve_order\<close>) are association
  lists.  \<open>alist_put\<close> keeps the position of an existing key and appends a new one.
\<close>

fun alist_put :: "'k \<Rightarrow> 'v \<Rightarrow> ('k \<times> 'v) list \<Rightarrow> ('k \<times> 'v) list" where
  "alist_put k v [] = [(k, v)]"
| "alist_put k v ((k', v') # m) = (if k = k' then (k, v) # m else (k', v') # alist_put k v m)"

lemma map_of_alist_put [simp]: "map_of (alist_put k v m) = (map_of m)(k \<mapsto> v)"
  by (induction k v m rule: alist_put.induct) auto

lemma keys_alist_put:
  "map fst (alist_put k v m) =
     (if k \<in> set (map fst m) then map fst m else map fst m @ [k])"
  by (induction k v m rule: alist_put.induct) auto

lemma distinct_alist_put [simp]:
  "distinct (map fst m) \<Longrightarrow> distinct (map fst (alist_put k v m))"
  by (simp add: keys_alist_put)

text \<open>
  \<open>swap_remove\<close>: the entry goes, and the last entry takes its place.  This is what
  \<open>serde_json::Map::remove\<close> does under \<open>preserve_order\<close>.
\<close>

definition alist_swap_remove :: "'k \<Rightarrow> ('k \<times> 'v) list \<Rightarrow> ('k \<times> 'v) list" where
  "alist_swap_remove k m =
     (case position (\<lambda>e. fst e = k) m of
        None \<Rightarrow> m
      | Some i \<Rightarrow> if Suc i = length m then butlast m else (butlast m)[i := last m])"

lemma alist_swap_remove_absent: "k \<notin> set (map fst m) \<Longrightarrow> alist_swap_remove k m = m"
proof -
  assume "k \<notin> set (map fst m)"
  then have "position (\<lambda>e. fst e = k) m = None" by (auto simp: position_None)
  then show ?thesis by (simp add: alist_swap_remove_def)
qed

lemma alist_swap_remove_split:
  assumes "k \<notin> fst ` set xs"
  shows "alist_swap_remove k (xs @ (k, v) # ys) =
           (if ys = [] then xs else xs @ last ys # butlast ys)"
proof -
  have "position (\<lambda>e. fst e = k) (xs @ (k, v) # ys) = Some (length xs)"
  proof -
    have "position (\<lambda>e. fst e = k) xs = None" using assms by (auto simp: position_None)
    then show ?thesis by (simp add: position_append)
  qed
  then show ?thesis
    by (cases ys rule: rev_cases) (simp_all add: alist_swap_remove_def butlast_append)
qed

text \<open>A swap-remove leaves the entries under the other keys, in some order.\<close>

lemma set_alist_swap_remove:
  assumes "distinct (map fst m)"
  shows "set (alist_swap_remove k m) = {e \<in> set m. fst e \<noteq> k}"
    and "distinct (map fst (alist_swap_remove k m))"
proof -
  have "set (alist_swap_remove k m) = {e \<in> set m. fst e \<noteq> k}
          \<and> distinct (map fst (alist_swap_remove k m))"
  proof (cases "k \<in> set (map fst m)")
    case False
    then show ?thesis using assms by (auto simp: alist_swap_remove_absent)
  next
    case True
    then obtain v where "(k, v) \<in> set m" by auto
    then obtain xs ys where m: "m = xs @ (k, v) # ys" by (meson split_list)
    with assms have "k \<notin> fst ` set xs" "k \<notin> fst ` set ys" by auto
    with assms m show ?thesis
      by (cases ys rule: rev_cases) (auto simp: alist_swap_remove_split)
  qed
  then show "set (alist_swap_remove k m) = {e \<in> set m. fst e \<noteq> k}"
    and "distinct (map fst (alist_swap_remove k m))" by blast+
qed

lemma map_of_swap_remove:
  assumes "distinct (map fst m)"
  shows "map_of (alist_swap_remove k m) = (map_of m)(k := None)"
proof
  fix j
  show "map_of (alist_swap_remove k m) j = ((map_of m)(k := None)) j"
  proof (cases "((map_of m)(k := None)) j")
    case None
    then have "\<nexists>v. (j, v) \<in> set (alist_swap_remove k m)"
      using assms by (auto simp: set_alist_swap_remove split: if_splits)
    then show ?thesis using None by (auto simp: map_of_eq_None_iff)
  next
    case (Some v)
    then have "(j, v) \<in> set (alist_swap_remove k m)"
      using assms by (auto simp: set_alist_swap_remove split: if_splits dest: map_of_SomeD)
    then show ?thesis using Some set_alist_swap_remove(2) [OF assms, of k]
      by (metis map_of_eq_Some_iff)
  qed
qed

lemma bind_eq_Inr:
  "(case r of Inl e \<Rightarrow> Inl e | Inr x \<Rightarrow> f x) = Inr y \<longleftrightarrow> (\<exists>x. r = Inr x \<and> f x = Inr y)"
  by (cases r) auto

section \<open>Incremental parsers\<close>

text \<open>
  The contract of a parser that takes complete items off the front of its input: \<open>step\<close> is one item with
  what follows it, more input does not change an item that was complete, and \<open>norm\<close> is what is kept of an
  input without a complete item.  Feeding the input in pieces, each time behind what was kept, is then
  the same as parsing it at once.
\<close>

locale incremental_parser =
  fixes step :: "'b list \<Rightarrow> ('a list \<times> 'b list) option"
    and norm :: "'b list \<Rightarrow> 'b list"
    and run :: "'b list \<Rightarrow> 'a list \<times> 'b list"
  assumes run_step: "run a =
      (case step a of None \<Rightarrow> ([], norm a)
       | Some (x, r) \<Rightarrow> (case run r of (xs, t) \<Rightarrow> (x @ xs, t)))"
    and step_shorter: "step a = Some (x, r) \<Longrightarrow> length r < length a"
    and step_more: "step a = Some (x, r) \<Longrightarrow> step (a @ b) = Some (x, r @ b)"
    and step_norm: "step (norm a @ b) = step (a @ b)"
    and norm_norm: "norm (norm a @ b) = norm (a @ b)"
begin

lemma run_norm: "run (norm a @ b) = run (a @ b)"
  by (cases "step (a @ b)")
    (simp_all add: run_step [of "norm a @ b"] run_step [of "a @ b"] step_norm norm_norm)

lemma run_append:
  "run (a @ b) = (case run a of (e1, t) \<Rightarrow> (case run (t @ b) of (e2, t2) \<Rightarrow> (e1 @ e2, t2)))"
proof (induction "length a" arbitrary: a rule: less_induct)
  case less
  show ?case
  proof (cases "step a")
    case None
    then have "run a = ([], norm a)" by (simp add: run_step [of a])
    then show ?thesis by (simp add: run_norm)
  next
    case (Some xr)
    obtain x r where xr: "xr = (x, r)" by (cases xr)
    have "run (a @ b) = (case run (r @ b) of (xs, t) \<Rightarrow> (x @ xs, t))"
      using step_more Some xr by (simp add: run_step [of "a @ b"])
    moreover have "run a = (case run r of (xs, t) \<Rightarrow> (x @ xs, t))"
      using Some xr by (simp add: run_step [of a])
    moreover have "length r < length a" using step_shorter Some xr by blast
    ultimately show ?thesis using less by (simp split: prod.splits)
  qed
qed

fun feed :: "'b list \<Rightarrow> 'b list list \<Rightarrow> 'a list \<times> 'b list" where
  "feed tail [] = ([], tail)"
| "feed tail (c # cs) =
     (case run (tail @ c) of (e, tail') \<Rightarrow> (case feed tail' cs of (es, t) \<Rightarrow> (e @ es, t)))"

lemma feed_concat: "cs \<noteq> [] \<Longrightarrow> feed tail cs = run (tail @ concat cs)"
proof (induction cs arbitrary: tail)
  case Nil
  then show ?case by simp
next
  case (Cons c cs)
  show ?case
  proof (cases "cs = []")
    case True
    then show ?thesis by (simp split: prod.split)
  next
    case False
    then show ?thesis using Cons.IH run_append [of "tail @ c" "concat cs"] by (simp split: prod.splits)
  qed
qed

end

end
