(* ===== verification/Text.thy ===== *)
theory Text
  imports Prelude
begin

text \<open>
  The string operations of the Rust standard library that the code uses.  A \<open>&str\<close> is the list of
  its UTF-8 bytes, one \<open>char\<close> per byte, so lengths and indices are byte lengths and byte indices as
  in Rust.  \<open>trim\<close> removes the code points with the Unicode property White_Space, given by their
  UTF-8 encodings.
\<close>

section \<open>Searching and splitting\<close>

fun starts_with :: "string \<Rightarrow> string \<Rightarrow> bool" where
  "starts_with [] s = True"
| "starts_with (p # ps) [] = False"
| "starts_with (p # ps) (c # cs) = (p = c \<and> starts_with ps cs)"

lemma starts_with_iff: "starts_with p s \<longleftrightarrow> (\<exists>r. s = p @ r)"
  by (induction p s rule: starts_with.induct) auto

lemma starts_with_append [simp]: "starts_with p (p @ r)"
  by (simp add: starts_with_iff)

text \<open>\<open>str::find\<close> with a string pattern: the byte index of the first occurrence.\<close>

fun find_str :: "string \<Rightarrow> string \<Rightarrow> nat option" where
  "find_str p [] = (if p = [] then Some 0 else None)"
| "find_str p (c # cs) =
     (if starts_with p (c # cs) then Some 0 else map_option Suc (find_str p cs))"

lemma find_str_Some:
  "find_str p s = Some i \<Longrightarrow> i \<le> length s \<and> starts_with p (drop i s)"
  by (induction s arbitrary: i) (auto split: if_splits)

lemma find_str_bound:
  assumes "find_str p s = Some i"
  shows "i + length p \<le> length s"
proof -
  from find_str_Some [OF assms] obtain r where "i \<le> length s" "drop i s = p @ r"
    by (auto simp: starts_with_iff)
  then show ?thesis by (metis add.commute diff_add_inverse2 le_add1 le_add_diff_inverse2 length_append length_drop nat_add_left_cancel_le)
qed

lemma find_str_None: "find_str p s = None \<Longrightarrow> \<not> starts_with p (drop i s)"
proof (induction s arbitrary: i)
  case Nil
  then show ?case by (cases p) (auto split: if_splits)
next
  case (Cons c cs)
  then show ?case by (cases i) (auto split: if_splits)
qed

lemma find_str_first: "find_str p s = Some i \<Longrightarrow> j < i \<Longrightarrow> \<not> starts_with p (drop j s)"
proof (induction s arbitrary: i j)
  case Nil
  then show ?case by (auto split: if_splits)
next
  case (Cons c cs)
  then show ?case by (cases j) (auto split: if_splits)
qed

definition contains_str :: "string \<Rightarrow> string \<Rightarrow> bool" where
  "contains_str p s = (find_str p s \<noteq> None)"

text \<open>\<open>str::split_once\<close> at a character: the parts before and after its first occurrence.\<close>

fun split_once :: "char \<Rightarrow> string \<Rightarrow> (string \<times> string) option" where
  "split_once d [] = None"
| "split_once d (c # cs) =
     (if c = d then Some ([], cs) else map_option (apfst ((#) c)) (split_once d cs))"

lemma split_once_Some:
  "split_once d s = Some (a, b) \<longleftrightarrow> s = a @ d # b \<and> d \<notin> set a"
proof (induction s arbitrary: a)
  case Nil
  show ?case by simp
next
  case (Cons c cs)
  then show ?case by (cases a) auto
qed

lemma split_once_None: "split_once d s = None \<longleftrightarrow> d \<notin> set s"
  by (induction s) auto

lemma split_once_append: "d \<notin> set a \<Longrightarrow> split_once d (a @ d # b) = Some (a, b)"
  by (simp add: split_once_Some)

text \<open>\<open>str::split\<close> at a character, and \<open>[&str]::join\<close>.\<close>

fun split_on :: "char \<Rightarrow> string \<Rightarrow> string list" where
  "split_on d [] = [[]]"
| "split_on d (c # cs) =
     (if c = d then [] # split_on d cs
      else (case split_on d cs of [] \<Rightarrow> [[c]] | w # ws \<Rightarrow> (c # w) # ws))"

fun join_with :: "string \<Rightarrow> string list \<Rightarrow> string" where
  "join_with sep [] = []"
| "join_with sep [w] = w"
| "join_with sep (w # ws) = w @ sep @ join_with sep ws"

lemma split_on_nonempty [simp]: "split_on d s \<noteq> []"
  by (induction s) (auto split: list.split)

lemma split_on_append: "split_on d (a @ d # b) = split_on d a @ split_on d b"
  by (induction a) (auto split: list.splits)

lemma split_on_no_sep: "d \<notin> set a \<Longrightarrow> split_on d a = [a]"
  by (induction a) (auto split: list.splits)

lemma split_on_line: "d \<notin> set l \<Longrightarrow> split_on d (l @ d # s) = l # split_on d s"
  by (induction l) (auto split: list.split)

lemma join_with_Cons: "ws \<noteq> [] \<Longrightarrow> join_with sep (w # ws) = w @ sep @ join_with sep ws"
  by (cases ws) auto

lemma join_split_on: "join_with [d] (split_on d s) = s"
proof (induction s)
  case Nil
  show ?case by simp
next
  case (Cons c cs)
  obtain w ws where w: "split_on d cs = w # ws"
    by (cases "split_on d cs") auto
  show ?case
  proof (cases "c = d")
    case True
    then show ?thesis using Cons.IH by (simp add: join_with_Cons)
  next
    case False
    then show ?thesis using Cons.IH w by (cases ws) auto
  qed
qed

section \<open>Trimming\<close>

text \<open>The UTF-8 encodings of the code points with the property White_Space.\<close>

definition ascii_ws :: "char \<Rightarrow> bool" where
  "ascii_ws c \<longleftrightarrow> c \<in> {CHR 0x09, CHR 0x0A, CHR 0x0B, CHR 0x0C, CHR 0x0D, CHR '' ''}"

definition wide_ws :: "string list" where
  "wide_ws =
     [[CHR 0xC2, CHR 0x85], [CHR 0xC2, CHR 0xA0], [CHR 0xE1, CHR 0x9A, CHR 0x80],
      [CHR 0xE2, CHR 0x80, CHR 0x80], [CHR 0xE2, CHR 0x80, CHR 0x81], [CHR 0xE2, CHR 0x80, CHR 0x82],
      [CHR 0xE2, CHR 0x80, CHR 0x83], [CHR 0xE2, CHR 0x80, CHR 0x84], [CHR 0xE2, CHR 0x80, CHR 0x85],
      [CHR 0xE2, CHR 0x80, CHR 0x86], [CHR 0xE2, CHR 0x80, CHR 0x87], [CHR 0xE2, CHR 0x80, CHR 0x88],
      [CHR 0xE2, CHR 0x80, CHR 0x89], [CHR 0xE2, CHR 0x80, CHR 0x8A], [CHR 0xE2, CHR 0x80, CHR 0xA8],
      [CHR 0xE2, CHR 0x80, CHR 0xA9], [CHR 0xE2, CHR 0x80, CHR 0xAF], [CHR 0xE2, CHR 0x81, CHR 0x9F],
      [CHR 0xE3, CHR 0x80, CHR 0x80]]"

text \<open>The number of leading bytes that are one white-space character of \<open>seqs\<close>, 0 for none.\<close>

definition ws_len :: "string list \<Rightarrow> string \<Rightarrow> nat" where
  "ws_len seqs s =
     (case s of [] \<Rightarrow> 0
      | c # _ \<Rightarrow> if ascii_ws c then 1
                 else (case find (\<lambda>w. starts_with w s) seqs of None \<Rightarrow> 0 | Some w \<Rightarrow> length w))"

function strip_ws :: "string list \<Rightarrow> string \<Rightarrow> string" where
  "strip_ws seqs s = (if ws_len seqs s = 0 then s else strip_ws seqs (drop (ws_len seqs s) s))"
  by pat_completeness auto
termination
  by (relation "measure (\<lambda>(seqs, s). length s)") (auto simp: ws_len_def split: list.splits)

declare strip_ws.simps [simp del]

definition trim_start :: "string \<Rightarrow> string" where
  "trim_start = strip_ws wide_ws"

definition trim_end :: "string \<Rightarrow> string" where
  "trim_end s = rev (strip_ws (map rev wide_ws) (rev s))"

definition trim :: "string \<Rightarrow> string" where
  "trim s = trim_end (trim_start s)"

lemma strip_ws_suffix: "\<exists>p. s = p @ strip_ws seqs s"
proof (induction seqs s rule: strip_ws.induct)
  case (1 seqs s)
  show ?case
  proof (cases "ws_len seqs s = 0")
    case True
    then show ?thesis by (simp add: strip_ws.simps [of seqs s])
  next
    case False
    with "1.IH" obtain p where "drop (ws_len seqs s) s = p @ strip_ws seqs (drop (ws_len seqs s) s)"
      by blast
    with False have "s = (take (ws_len seqs s) s @ p) @ strip_ws seqs s"
      by (metis append.assoc append_take_drop_id strip_ws.simps)
    then show ?thesis by blast
  qed
qed

lemma strip_ws_idem [simp]: "strip_ws seqs (strip_ws seqs s) = strip_ws seqs s"
proof (induction seqs s rule: strip_ws.induct)
  case (1 seqs s)
  then show ?case by (cases "ws_len seqs s = 0") (simp_all add: strip_ws.simps [of seqs s])
qed

lemma length_strip_ws: "length (strip_ws seqs s) \<le> length s"
  by (metis le_add2 length_append strip_ws_suffix)

lemma length_trim: "length (trim s) \<le> length s"
  unfolding trim_def trim_end_def trim_start_def
  by (metis length_rev length_strip_ws order_trans)

lemma strip_ws_Nil [simp]: "strip_ws seqs [] = []"
  by (simp add: strip_ws.simps [of seqs "[]"] ws_len_def)

lemma trim_Nil [simp]: "trim [] = []"
  by (simp add: trim_def trim_end_def trim_start_def)

text \<open>A first byte that is printable ASCII stops the left trim, a last one the right trim.\<close>

definition plain_char :: "char \<Rightarrow> bool" where
  "plain_char c \<longleftrightarrow> \<not> ascii_ws c \<and> c \<notin> hd ` set wide_ws \<and> c \<notin> last ` set wide_ws"

lemma ws_len_plain:
  assumes "\<not> ascii_ws c" and "\<And>w. w \<in> set seqs \<Longrightarrow> w \<noteq> [] \<and> hd w \<noteq> c"
  shows "ws_len seqs (c # s) = 0"
proof -
  have "find (\<lambda>w. starts_with w (c # s)) seqs = None"
    using assms(2) by (fastforce simp: find_None_set starts_with_iff Cons_eq_append_conv)
  with assms(1) show ?thesis by (simp add: ws_len_def)
qed

lemma wide_ws_nonempty: "w \<in> set wide_ws \<Longrightarrow> w \<noteq> []"
  by (auto simp: wide_ws_def)

lemma trim_start_plain: "plain_char c \<Longrightarrow> trim_start (c # s) = c # s"
proof -
  assume c: "plain_char c"
  have "ws_len wide_ws (c # s) = 0"
    using c by (intro ws_len_plain) (auto simp: plain_char_def dest: wide_ws_nonempty)
  then show ?thesis by (simp add: trim_start_def strip_ws.simps)
qed

lemma trim_end_plain: "plain_char c \<Longrightarrow> trim_end (s @ [c]) = s @ [c]"
proof -
  assume c: "plain_char c"
  have "ws_len (map rev wide_ws) (c # rev s) = 0"
    using c by (intro ws_len_plain) (auto simp: plain_char_def hd_rev dest: wide_ws_nonempty)
  then show ?thesis by (simp add: trim_end_def strip_ws.simps)
qed

lemma trim_plain:
  assumes "s \<noteq> []" "plain_char (hd s)" "plain_char (last s)"
  shows "trim s = s"
proof -
  have "trim_start s = s" using assms trim_start_plain [of "hd s" "tl s"] by simp
  moreover have "trim_end s = s"
    using assms trim_end_plain [of "last s" "butlast s"] by simp
  ultimately show ?thesis by (simp add: trim_def)
qed

end
