(* ===== verification/Bytes.thy ===== *)
theory Bytes
  imports Text
begin

text \<open>
  Byte-level helpers of the standard library: \<open>to_le_bytes\<close>/\<open>to_be_bytes\<close> and their inverses, the bytes
  of a string, and the decimal and hexadecimal formatting of integers.

  \<open>frame_codec\<close> is the contract of a self-delimiting encoding: decoding the encoding of a value
  followed by anything returns the value and what follows.  It gives the decoding of any
  concatenation of encodings once.
\<close>

section \<open>Integers as bytes\<close>

definition word_to_le :: "nat \<Rightarrow> 'a::len word \<Rightarrow> u8 list" where
  "word_to_le n w = map (\<lambda>i. ucast (drop_bit (8 * i) w)) [0..<n]"

definition word_to_be :: "nat \<Rightarrow> 'a::len word \<Rightarrow> u8 list" where
  "word_to_be n w = rev (word_to_le n w)"

fun le_to_word :: "u8 list \<Rightarrow> 'a::len word" where
  "le_to_word [] = 0"
| "le_to_word (b # bs) = ucast b OR push_bit 8 (le_to_word bs)"

definition be_to_word :: "u8 list \<Rightarrow> 'a::len word" where
  "be_to_word bs = le_to_word (rev bs)"

lemma length_word_to_le [simp]: "length (word_to_le n w) = n"
  by (simp add: word_to_le_def)

lemma length_word_to_be [simp]: "length (word_to_be n w) = n"
  by (simp add: word_to_be_def)

lemma word_to_le_Suc: "word_to_le (Suc n) w = ucast w # word_to_le n (drop_bit 8 w)"
proof -
  have "[0..<Suc n] = 0 # map Suc [0..<n]" by (simp add: map_Suc_upt upt_conv_Cons)
  then show ?thesis by (simp add: word_to_le_def comp_def drop_bit_drop_bit add.commute)
qed

lemma le_to_word_to_le: "le_to_word (word_to_le n w) = take_bit (8 * n) (w :: 'a::len word)"
proof (induction n arbitrary: w)
  case 0
  show ?case by (simp add: word_to_le_def)
next
  case (Suc n)
  show ?case
    by (rule bit_eqI)
      (auto simp: word_to_le_Suc Suc.IH bit_simps le_diff_conv2 less_diff_conv2 not_less)
qed

lemma le_roundtrip: "LENGTH('a) \<le> 8 * n \<Longrightarrow> le_to_word (word_to_le n w) = (w :: 'a::len word)"
  by (simp add: le_to_word_to_le take_bit_word_eq_self)

lemma be_roundtrip: "LENGTH('a) \<le> 8 * n \<Longrightarrow> be_to_word (word_to_be n w) = (w :: 'a::len word)"
  by (simp add: be_to_word_def word_to_be_def le_roundtrip)

section \<open>Strings and bytes\<close>

definition byte_of :: "char \<Rightarrow> u8" where
  "byte_of c = of_nat (of_char c)"

definition char_of_byte :: "u8 \<Rightarrow> char" where
  "char_of_byte b = char_of (unat b)"

definition str_bytes :: "string \<Rightarrow> u8 list" where
  "str_bytes s = map byte_of s"

definition bytes_str :: "u8 list \<Rightarrow> string" where
  "bytes_str bs = map char_of_byte bs"

lemma char_of_byte_of [simp]: "char_of_byte (byte_of c) = c"
proof -
  have "of_char c < (256 :: nat)" by simp
  then have "unat (of_nat (of_char c) :: u8) = of_char c"
    by (simp add: unat_of_nat take_bit_nat_eq_self)
  then show ?thesis by (simp add: char_of_byte_def byte_of_def)
qed

lemma byte_of_char_of [simp]: "byte_of (char_of_byte b) = b"
proof -
  have "unat b < 2 ^ LENGTH(8)" by (rule unsigned_less)
  then have "unat b < 256" by simp
  then have "of_char (char_of (unat b)) = unat b"
    by (simp add: of_char_of take_bit_eq_mod)
  then show ?thesis by (simp add: char_of_byte_def byte_of_def)
qed

lemma bytes_str_bytes [simp]: "bytes_str (str_bytes s) = s"
  by (simp add: bytes_str_def str_bytes_def comp_def)

lemma str_bytes_bytes [simp]: "str_bytes (bytes_str b) = b"
  by (simp add: bytes_str_def str_bytes_def comp_def)

lemma length_str_bytes [simp]: "length (str_bytes s) = length s"
  by (simp add: str_bytes_def)

section \<open>Formatting\<close>

definition digit_char :: "nat \<Rightarrow> char" where
  "digit_char n = (if n < 10 then char_of (48 + n) else char_of (87 + n))"

text \<open>Decimal, as \<open>u64::to_string\<close> prints it.\<close>

fun dec_of :: "nat \<Rightarrow> string" where
  "dec_of n = (if n < 10 then [digit_char n] else dec_of (n div 10) @ [digit_char (n mod 10)])"

declare dec_of.simps [simp del]

text \<open>The two lower-case hex digits of a byte, \<open>{b:02x}\<close>.\<close>

definition hex_byte :: "u8 \<Rightarrow> string" where
  "hex_byte b = [digit_char (unat b div 16), digit_char (unat b mod 16)]"

definition hex_of :: "u8 list \<Rightarrow> string" where
  "hex_of bs = concat (map hex_byte bs)"

lemma length_hex_of: "length (hex_of bs) = 2 * length bs"
  by (induction bs) (auto simp: hex_of_def hex_byte_def)

text \<open>Reading a decimal numeral back.\<close>

definition is_digit :: "char \<Rightarrow> bool" where
  "is_digit c \<longleftrightarrow> 48 \<le> (of_char c :: nat) \<and> (of_char c :: nat) \<le> 57"

definition digit_val :: "char \<Rightarrow> nat" where
  "digit_val c = of_char c - 48"

definition dec_value :: "string \<Rightarrow> nat" where
  "dec_value s = foldl (\<lambda>n c. 10 * n + digit_val c) 0 s"

lemma of_char_digit_char: "n < 10 \<Longrightarrow> (of_char (digit_char n) :: nat) = 48 + n"
  by (simp add: digit_char_def of_char_of take_bit_eq_mod)

lemma is_digit_digit_char: "n < 10 \<Longrightarrow> is_digit (digit_char n)"
  by (simp add: is_digit_def of_char_digit_char)

lemma digit_val_digit_char: "n < 10 \<Longrightarrow> digit_val (digit_char n) = n"
  by (simp add: digit_val_def of_char_digit_char)

lemma dec_of_digits: "\<forall>c\<in>set (dec_of n). is_digit c"
proof (induction n rule: dec_of.induct)
  case (1 n)
  then show ?case
    by (cases "n < 10") (auto simp: dec_of.simps [of n] is_digit_digit_char)
qed

lemma dec_of_nonempty [simp]: "dec_of n \<noteq> []"
  by (subst dec_of.simps) simp

lemma dec_value_dec_of: "dec_value (dec_of n) = n"
proof (induction n rule: dec_of.induct)
  case (1 n)
  show ?case
  proof (cases "n < 10")
    case True
    then show ?thesis by (simp add: dec_of.simps [of n] dec_value_def digit_val_digit_char)
  next
    case False
    then have "foldl (\<lambda>n c. 10 * n + digit_val c) 0 (dec_of (n div 10)) = n div 10"
      using "1" by (simp add: dec_value_def)
    with False show ?thesis
      by (simp add: dec_of.simps [of n] dec_value_def digit_val_digit_char)
  qed
qed

lemma dec_of_inj: "dec_of n = dec_of m \<longleftrightarrow> n = m"
  by (metis dec_value_dec_of)

section \<open>Self-delimiting encodings\<close>

locale frame_codec =
  fixes encode :: "'a \<Rightarrow> 'b list"
    and decode :: "'b list \<Rightarrow> ('a \<times> 'b list) option"
    and ok :: "'a \<Rightarrow> bool"
  assumes decode_encode: "ok x \<Longrightarrow> decode (encode x @ rest) = Some (x, rest)"
begin

lemma decode_encode_alone: "ok x \<Longrightarrow> decode (encode x) = Some (x, [])"
  using decode_encode [of x "[]"] by simp

lemma encode_inj: "ok x \<Longrightarrow> ok y \<Longrightarrow> encode x = encode y \<Longrightarrow> x = y"
  by (metis decode_encode_alone option.inject prod.inject)

lemma encode_prefix_free:
  "ok x \<Longrightarrow> ok y \<Longrightarrow> encode x @ r = encode y @ s \<Longrightarrow> x = y \<and> r = s"
  by (metis decode_encode option.inject prod.inject)

text \<open>Any reader that takes decoded items off the front while there are any reads them all back.\<close>

lemma decode_sequence:
  assumes "\<And>bs. reader bs = (case decode bs of None \<Rightarrow> [] | Some (x, rest) \<Rightarrow> x # reader rest)"
    and "list_all ok xs"
  shows "reader (concat (map encode xs) @ rest) = xs @ reader rest"
  using assms(2)
proof (induction xs)
  case Nil
  show ?case by simp
next
  case (Cons x xs)
  then show ?case
    using assms(1) [of "encode x @ concat (map encode xs) @ rest"] by (simp add: decode_encode)
qed

end

end
