(* ===== verification/Utf8.thy ===== *)
theory Utf8
  imports Bytes
begin

text \<open>
  UTF-8 validation and lossy decoding as the standard library does them: \<open>String::from_utf8\<close> accepts
  exactly the well-formed byte sequences, and \<open>String::from_utf8_lossy\<close> replaces each maximal
  ill-formed part by U+FFFD.  Strings are their UTF-8 bytes, so a valid input decodes to itself.
\<close>

definition utf8_width :: "u8 \<Rightarrow> nat" where
  "utf8_width b =
     (if b < 0x80 then 1 else if 0xC2 \<le> b \<and> b \<le> 0xDF then 2
      else if 0xE0 \<le> b \<and> b \<le> 0xEF then 3 else if 0xF0 \<le> b \<and> b \<le> 0xF4 then 4 else 0)"

definition utf8_cont :: "u8 \<Rightarrow> bool" where
  "utf8_cont b \<longleftrightarrow> 0x80 \<le> b \<and> b \<le> 0xBF"

text \<open>The range of the second byte depends on the first.\<close>

definition utf8_second :: "u8 \<Rightarrow> u8 \<Rightarrow> bool" where
  "utf8_second b0 b1 \<longleftrightarrow>
     (if b0 = 0xE0 then 0xA0 \<le> b1 \<and> b1 \<le> 0xBF
      else if b0 = 0xED then 0x80 \<le> b1 \<and> b1 \<le> 0x9F
      else if b0 = 0xF0 then 0x90 \<le> b1 \<and> b1 \<le> 0xBF
      else if b0 = 0xF4 then 0x80 \<le> b1 \<and> b1 \<le> 0x8F
      else utf8_cont b1)"

text \<open>
  One step at the head of a non-empty input: whether it starts with a well-formed character, and how
  many bytes the character, or the maximal ill-formed part, takes.
\<close>

definition utf8_step :: "u8 \<Rightarrow> u8 list \<Rightarrow> bool \<times> nat" where
  "utf8_step b0 bs =
     (let w = utf8_width b0 in
      if w = 0 then (False, 1)
      else if w = 1 then (True, 1)
      else (case bs of
              [] \<Rightarrow> (False, 1)
            | b1 # bs1 \<Rightarrow>
                if \<not> utf8_second b0 b1 then (False, 1)
                else if w = 2 then (True, 2)
                else (case bs1 of
                        [] \<Rightarrow> (False, 2)
                      | b2 # bs2 \<Rightarrow>
                          if \<not> utf8_cont b2 then (False, 2)
                          else if w = 3 then (True, 3)
                          else (case bs2 of
                                  [] \<Rightarrow> (False, 3)
                                | b3 # _ \<Rightarrow> if utf8_cont b3 then (True, 4) else (False, 3)))))"

lemma utf8_step_bounds:
  "0 < snd (utf8_step b bs) \<and> snd (utf8_step b bs) \<le> Suc (length bs)"
  by (auto simp: utf8_step_def Let_def split: list.split)

lemma utf8_step_pos: "(ok, n) = utf8_step b bs \<Longrightarrow> 0 < n"
  using utf8_step_bounds [of b bs] by (metis snd_conv)

function utf8_valid :: "u8 list \<Rightarrow> bool" where
  "utf8_valid [] = True"
| "utf8_valid (b # bs) =
     (fst (utf8_step b bs) \<and> utf8_valid (drop (snd (utf8_step b bs)) (b # bs)))"
  by pat_completeness auto
termination
  by (relation "measure length") (use utf8_step_bounds in \<open>auto simp: diff_less\<close>)

definition replacement :: "u8 list" where
  "replacement = [0xEF, 0xBF, 0xBD]"

function utf8_lossy :: "u8 list \<Rightarrow> u8 list" where
  "utf8_lossy [] = []"
| "utf8_lossy (b # bs) =
     (let (ok, n) = utf8_step b bs
      in (if ok then take n (b # bs) else replacement) @ utf8_lossy (drop n (b # bs)))"
  by pat_completeness auto
termination
  by (relation "measure length") (auto dest: utf8_step_pos)

declare utf8_valid.simps(2) [simp del] utf8_lossy.simps(2) [simp del]

lemma utf8_lossy_valid: "utf8_valid bs \<Longrightarrow> utf8_lossy bs = bs"
proof (induction bs rule: utf8_valid.induct)
  case 1
  show ?case by simp
next
  case (2 b bs)
  then show ?case by (simp add: utf8_valid.simps(2) utf8_lossy.simps(2) split_beta Let_def)
qed

text \<open>A well-formed character stays one when more input follows.\<close>

lemma utf8_step_append:
  "fst (utf8_step b bs) \<Longrightarrow> utf8_step b (bs @ cs) = utf8_step b bs"
  by (auto simp: utf8_step_def Let_def split: list.splits if_splits)

lemma utf8_step_take:
  "fst (utf8_step b bs) \<Longrightarrow>
   utf8_step b (take (snd (utf8_step b bs) - 1) bs @ cs) = utf8_step b bs"
proof (cases bs)
  case Nil
  assume "fst (utf8_step b bs)"
  with Nil show ?thesis by (simp add: utf8_step_def Let_def split: if_splits)
next
  case (Cons b1 bs1)
  assume ok: "fst (utf8_step b bs)"
  show ?thesis
  proof (cases bs1)
    case Nil
    with Cons ok show ?thesis by (simp add: utf8_step_def Let_def split: if_splits)
  next
    case (Cons b2 bs2)
    with \<open>bs = b1 # bs1\<close> ok show ?thesis
      by (cases bs2) (simp_all add: utf8_step_def Let_def split: if_splits)
  qed
qed

lemma utf8_valid_append: "utf8_valid xs \<Longrightarrow> utf8_valid ys \<Longrightarrow> utf8_valid (xs @ ys)"
proof (induction xs rule: utf8_valid.induct)
  case 1
  then show ?case by simp
next
  case (2 b bs)
  have "drop (snd (utf8_step b bs)) (b # bs) @ ys = drop (snd (utf8_step b bs)) (b # bs @ ys)"
    using utf8_step_bounds [of b bs] by (simp flip: append_Cons)
  with "2" show ?case by (simp add: utf8_valid.simps(2) utf8_step_append)
qed

lemma utf8_valid_ascii: "\<forall>b\<in>set bs. b < 0x80 \<Longrightarrow> utf8_valid bs"
  by (induction bs) (auto simp: utf8_valid.simps(2) utf8_step_def utf8_width_def)

lemma utf8_valid_replacement: "utf8_valid replacement"
  by (simp add: replacement_def utf8_valid.simps(2) utf8_step_def utf8_width_def utf8_second_def
      utf8_cont_def)

lemma utf8_valid_lossy: "utf8_valid (utf8_lossy bs)"
proof (induction bs rule: utf8_lossy.induct)
  case 1
  show ?case by simp
next
  case (2 b bs)
  obtain ok n where s: "utf8_step b bs = (ok, n)" by (cases "utf8_step b bs")
  have tail: "utf8_valid (utf8_lossy (drop n (b # bs)))" using "2" s by simp
  have "utf8_valid (if ok then take n (b # bs) else replacement)"
  proof (cases ok)
    case True
    have n: "0 < n" using utf8_step_bounds [of b bs] s by simp
    then have "take n (b # bs) = b # take (n - 1) bs" by (simp add: take_Cons')
    moreover have "utf8_step b (take (n - 1) bs) = (ok, n)"
      using utf8_step_take [of b bs "[]"] s True by simp
    ultimately have "utf8_valid (take n (b # bs))"
      using True n by (simp add: utf8_valid.simps(2))
    with True show ?thesis by simp
  next
    case False
    then show ?thesis by (simp add: utf8_valid_replacement)
  qed
  then show ?case using tail s by (simp add: utf8_lossy.simps(2) utf8_valid_append)
qed

lemma utf8_lossy_idem [simp]: "utf8_lossy (utf8_lossy bs) = utf8_lossy bs"
  by (simp add: utf8_lossy_valid utf8_valid_lossy)

definition from_utf8 :: "u8 list \<Rightarrow> string option" where
  "from_utf8 bs = (if utf8_valid bs then Some (bytes_str bs) else None)"

definition from_utf8_lossy :: "u8 list \<Rightarrow> string" where
  "from_utf8_lossy bs = bytes_str (utf8_lossy bs)"

lemma from_utf8_Some: "from_utf8 bs = Some s \<longleftrightarrow> utf8_valid bs \<and> bs = str_bytes s"
  by (auto simp: from_utf8_def)

definition str_ok :: "string \<Rightarrow> bool" where
  "str_ok s \<longleftrightarrow> utf8_valid (str_bytes s)"

lemma from_utf8_str_bytes: "str_ok s \<Longrightarrow> from_utf8 (str_bytes s) = Some s"
  by (simp add: str_ok_def from_utf8_def)

lemma from_utf8_lossy_str_bytes: "str_ok s \<Longrightarrow> from_utf8_lossy (str_bytes s) = s"
  by (simp add: str_ok_def from_utf8_lossy_def utf8_lossy_valid)

lemma str_ok_lossy: "str_ok (from_utf8_lossy bs)"
  by (simp add: str_ok_def from_utf8_lossy_def utf8_valid_lossy)

section \<open>Characters\<close>

text \<open>
  \<open>str::chars\<close>: the UTF-8 bytes of each character in turn; collecting characters is concatenation.
\<close>

function split_chars :: "u8 list \<Rightarrow> u8 list list" where
  "split_chars [] = []"
| "split_chars (b # bs) =
     take (snd (utf8_step b bs)) (b # bs) # split_chars (drop (snd (utf8_step b bs)) (b # bs))"
  by pat_completeness auto
termination
  by (relation "measure length") (use utf8_step_bounds in \<open>auto simp: diff_less\<close>)

definition chars :: "string \<Rightarrow> string list" where
  "chars s = map bytes_str (split_chars (str_bytes s))"

lemma concat_split_chars: "concat (split_chars bs) = bs"
  by (induction bs rule: split_chars.induct) (simp_all del: take.simps drop.simps)

lemma concat_chars [simp]: "concat (chars s) = s"
proof -
  have "concat (map bytes_str xs) = bytes_str (concat xs)" for xs
    by (induction xs) (simp_all add: bytes_str_def)
  then show ?thesis by (simp add: chars_def concat_split_chars)
qed

text \<open>\<open>s.chars().take(n).collect()\<close>.\<close>

definition take_chars :: "nat \<Rightarrow> string \<Rightarrow> string" where
  "take_chars n s = concat (take n (chars s))"

end
