(* ===== verification/Capabilities.thy ===== *)
theory Capabilities
  imports Text
begin

text \<open>
  Provider identity and capability enums (\<open>gravity-core/src/capabilities.rs\<close>) and the
  \<open>provider/model\<close> identifier (\<open>gravity-core/src/model_id.rs\<close>).

  \<open>wire_names\<close> is the contract of an enum with a table of wire names: every variant is listed and
  no two variants share a name.  It gives the parser that searches the table
  (\<open>ProviderName::from_str\<close>) its round trips.
\<close>

section \<open>Enums with a table of names\<close>

locale wire_names =
  fixes all_variants :: "'a list"
    and name_of :: "'a \<Rightarrow> string"
  assumes all_complete: "x \<in> set all_variants"
    and names_distinct: "distinct (map name_of all_variants)"
begin

lemma name_inj: "name_of x = name_of y \<longleftrightarrow> x = y"
  using names_distinct all_complete by (auto simp: distinct_map inj_on_def)

lemma parse_print: "find (\<lambda>p. name_of p = name_of x) all_variants = Some x"
  by (rule find_unique) (auto simp: all_complete name_inj)

lemma parse_sound: "find (\<lambda>p. name_of p = s) all_variants = Some x \<longleftrightarrow> name_of x = s"
  using parse_print by (auto dest: find_SomeD)

lemma parse_reject: "find (\<lambda>p. name_of p = s) all_variants = None \<longleftrightarrow> (\<forall>x. name_of x \<noteq> s)"
  using all_complete by (auto simp: find_None_set)

end

section \<open>Providers\<close>

datatype provider_name =
    Antigravity | Chatgpt | Claude | Gemini | Codex | Perplexity | Kiro | Glm | Openrouter
  | AnthropicApi | OpenaiApi | Groq | Mistral | Together | Deepseek | Xai | Cohere | Ollama
  | Qwen | Minimax | Vertex | Windsurf | Cursor | GeminiCli | Litellm | Fireworks | Cerebras
  | Sambanova | Hyperbolic | NvidiaNim | LlamaCpp | Huggingface | LocalTransformers

fun provider_as_str :: "provider_name \<Rightarrow> string" where
  "provider_as_str Antigravity = ''antigravity''"
| "provider_as_str Chatgpt = ''chatgpt''"
| "provider_as_str Claude = ''claude''"
| "provider_as_str Gemini = ''gemini''"
| "provider_as_str Codex = ''codex''"
| "provider_as_str Perplexity = ''perplexity''"
| "provider_as_str Kiro = ''kiro''"
| "provider_as_str Glm = ''glm''"
| "provider_as_str Openrouter = ''openrouter''"
| "provider_as_str AnthropicApi = ''anthropic_api''"
| "provider_as_str OpenaiApi = ''openai_api''"
| "provider_as_str Groq = ''groq''"
| "provider_as_str Mistral = ''mistral''"
| "provider_as_str Together = ''together''"
| "provider_as_str Deepseek = ''deepseek''"
| "provider_as_str Xai = ''xai''"
| "provider_as_str Cohere = ''cohere''"
| "provider_as_str Ollama = ''ollama''"
| "provider_as_str Qwen = ''qwen''"
| "provider_as_str Minimax = ''minimax''"
| "provider_as_str Vertex = ''vertex''"
| "provider_as_str Windsurf = ''windsurf''"
| "provider_as_str Cursor = ''cursor''"
| "provider_as_str GeminiCli = ''gemini_cli''"
| "provider_as_str Litellm = ''litellm''"
| "provider_as_str Fireworks = ''fireworks''"
| "provider_as_str Cerebras = ''cerebras''"
| "provider_as_str Sambanova = ''sambanova''"
| "provider_as_str Hyperbolic = ''hyperbolic''"
| "provider_as_str NvidiaNim = ''nvidia_nim''"
| "provider_as_str LlamaCpp = ''llama_cpp''"
| "provider_as_str Huggingface = ''huggingface''"
| "provider_as_str LocalTransformers = ''local_transformers''"

text \<open>\<open>ProviderName::all\<close>: every variant in declaration order.\<close>

definition provider_all :: "provider_name list" where
  "provider_all =
     [Antigravity, Chatgpt, Claude, Gemini, Codex, Perplexity, Kiro, Glm, Openrouter,
      AnthropicApi, OpenaiApi, Groq, Mistral, Together, Deepseek, Xai, Cohere, Ollama,
      Qwen, Minimax, Vertex, Windsurf, Cursor, GeminiCli, Litellm, Fireworks, Cerebras,
      Sambanova, Hyperbolic, NvidiaNim, LlamaCpp, Huggingface, LocalTransformers]"

datatype unknown_provider = UnknownProvider string

definition provider_from_str :: "string \<Rightarrow> unknown_provider + provider_name" where
  "provider_from_str s =
     (case find (\<lambda>p. provider_as_str p = s) provider_all of
        None \<Rightarrow> Inl (UnknownProvider s)
      | Some p \<Rightarrow> Inr p)"

interpretation provider_names: wire_names provider_all provider_as_str
proof
  show "x \<in> set provider_all" for x by (cases x) (simp_all add: provider_all_def)
  show "distinct (map provider_as_str provider_all)" by code_simp
qed

lemma provider_from_str_iff: "provider_from_str s = Inr p \<longleftrightarrow> s = provider_as_str p"
  using provider_names.parse_sound [of s p]
  by (auto simp: provider_from_str_def split: option.splits)

lemma provider_from_as_str [simp]: "provider_from_str (provider_as_str p) = Inr p"
  by (simp add: provider_from_str_iff)

lemma provider_from_str_error:
  "provider_from_str s = Inl e \<longleftrightarrow> e = UnknownProvider s \<and> s \<notin> range provider_as_str"
  using provider_names.parse_reject [of s]
  by (auto simp: provider_from_str_def split: option.splits dest: find_SomeD)

text \<open>No provider name holds the separator of a model id.\<close>

lemma provider_no_slash: "CHR ''/'' \<notin> set (provider_as_str p)"
  by (cases p) simp_all

section \<open>Capabilities\<close>

datatype tool_support_mode = ToolNative | ToolJsonEmulated | ToolNone
datatype history_mode = Stateless | Stateful | HistAuto
datatype remote_session_mode = SessNone | SessRequired | SessOptional
datatype structured_output_mode = OutNative | OutJsonInstruction | OutNone

record provider_capabilities =
  cap_provider :: provider_name
  tool_support :: tool_support_mode
  structured_output :: structured_output_mode
  remote_session :: remote_session_mode
  supports_system_prompt :: bool
  supports_stateful_history :: bool
  requires_remote_checkpoint :: bool
  default_history_mode :: history_mode
  supports_image_generation :: bool

section \<open>Model identifiers\<close>

record model_id =
  mid_provider :: provider_name
  mid_model :: string

datatype model_id_parse_error = MissingSeparator | EmptyModel | UnknownProviderId string

definition model_id_new :: "provider_name \<Rightarrow> string \<Rightarrow> model_id_parse_error + model_id" where
  "model_id_new p m =
     (if m = [] then Inl EmptyModel else Inr \<lparr>mid_provider = p, mid_model = m\<rparr>)"

definition model_id_parse :: "string \<Rightarrow> model_id_parse_error + model_id" where
  "model_id_parse value =
     (case split_once CHR ''/'' value of
        None \<Rightarrow> Inl MissingSeparator
      | Some (provider, model) \<Rightarrow>
          if model = [] then Inl EmptyModel
          else (case provider_from_str provider of
                  Inl _ \<Rightarrow> Inl (UnknownProviderId provider)
                | Inr p \<Rightarrow> Inr \<lparr>mid_provider = p, mid_model = model\<rparr>))"

definition model_id_full_name :: "model_id \<Rightarrow> string" where
  "model_id_full_name m = provider_as_str (mid_provider m) @ ''/'' @ mid_model m"

text \<open>The type invariant the constructors keep: the model half is never empty.\<close>

definition model_id_ok :: "model_id \<Rightarrow> bool" where
  "model_id_ok m \<longleftrightarrow> mid_model m \<noteq> []"

lemma model_id_parse_full_name:
  "model_id_ok m \<Longrightarrow> model_id_parse (model_id_full_name m) = Inr m"
  by (simp add: model_id_parse_def model_id_full_name_def model_id_ok_def
      split_once_append provider_no_slash)

lemma model_id_parse_Inr:
  "model_id_parse s = Inr m \<longleftrightarrow> s = model_id_full_name m \<and> model_id_ok m"
proof
  assume "model_id_parse s = Inr m"
  then show "s = model_id_full_name m \<and> model_id_ok m"
    by (auto simp: model_id_parse_def model_id_full_name_def model_id_ok_def split_once_Some
        provider_from_str_iff split: option.splits if_splits sum.splits)
qed (simp add: model_id_parse_full_name)

text \<open>
  \<open>ModelId::parse\<close> accepts exactly the strings \<open>full_name\<close> prints for a well-formed id (the first
  \<open>/\<close> separates, so a model may hold further slashes), and reports each malformed string with the
  error of the first check that fails: no separator, then an empty model, then an unknown provider.
\<close>

theorem model_id_parse_spec:
  "(model_id_parse s = Inr m \<longleftrightarrow> s = model_id_full_name m \<and> model_id_ok m)
   \<and> (model_id_parse s = Inl MissingSeparator \<longleftrightarrow> CHR ''/'' \<notin> set s)
   \<and> (model_id_parse s = Inl EmptyModel \<longleftrightarrow> (\<exists>p. s = p @ ''/'' \<and> CHR ''/'' \<notin> set p))
   \<and> (model_id_parse s = Inl (UnknownProviderId p) \<longleftrightarrow>
        (\<exists>r. s = p @ CHR ''/'' # r \<and> CHR ''/'' \<notin> set p \<and> r \<noteq> [] \<and> p \<notin> range provider_as_str))"
proof (cases "split_once CHR ''/'' s")
  case None
  then have "CHR ''/'' \<notin> set s" by (simp add: split_once_None)
  with None show ?thesis
    by (auto simp: model_id_parse_def model_id_full_name_def)
next
  case (Some ab)
  then obtain a b where ab: "split_once CHR ''/'' s = Some (a, b)" by (cases ab) auto
  then have s: "s = a @ CHR ''/'' # b" "CHR ''/'' \<notin> set a" by (simp_all add: split_once_Some)
  have split: "(s = p @ CHR ''/'' # r \<and> CHR ''/'' \<notin> set p) \<longleftrightarrow> p = a \<and> r = b" for p r
    using ab split_once_Some [of "CHR ''/''" s p r] by auto
  have "(\<exists>p. s = p @ ''/'' \<and> CHR ''/'' \<notin> set p) \<longleftrightarrow> b = []"
    using split [of _ "[]"] by auto
  moreover have "(\<exists>r. s = p @ CHR ''/'' # r \<and> CHR ''/'' \<notin> set p \<and> r \<noteq> [] \<and> p \<notin> range provider_as_str)
      \<longleftrightarrow> p = a \<and> b \<noteq> [] \<and> a \<notin> range provider_as_str"
    using split [of p] by blast
  moreover have "model_id_parse s = Inl (UnknownProviderId p) \<longleftrightarrow>
      p = a \<and> b \<noteq> [] \<and> a \<notin> range provider_as_str"
    and "model_id_parse s = Inl EmptyModel \<longleftrightarrow> b = []"
    and "model_id_parse s \<noteq> Inl MissingSeparator"
    using provider_from_str_error [of a] provider_from_str_iff [of a]
    by (auto simp: model_id_parse_def ab split: sum.splits)
  ultimately show ?thesis
    using s(1) model_id_parse_Inr [of s m] by simp
qed

end
