(* ===== verification/Json.thy ===== *)
theory Json
  imports Text
begin

text \<open>
  \<open>serde_json::Value\<close> as the code sees it, and \<open>gravity-core/src/metadata.rs\<close>.

  The workspace enables \<open>preserve_order\<close>, so an object is an association list in insertion order
  with distinct keys: inserting an existing key keeps its place, and \<open>remove\<close> is a swap-remove.
  A number is one of the three representations of \<open>serde_json::Number\<close>; a float is its bit pattern.

  The printer, the parser and the float conversion of \<open>serde_json\<close> are not part of the
  repository: they are the fields of a \<open>serde\<close> record that the definitions take as an argument.
\<close>

datatype json_number = PosInt u64 | NegInt u64 | Float u64

datatype json =
    JNull
  | JBool bool
  | JNumber json_number
  | JString string
  | JArray "json list"
  | JObject "(string \<times> json) list"

type_synonym jmap = "(string \<times> json) list"

record serde =
  to_compact :: "json \<Rightarrow> string"
  to_pretty :: "json \<Rightarrow> string"
  from_text :: "string \<Rightarrow> json option"
  stream_next :: "string \<Rightarrow> (json \<times> nat) option"
  number_f64 :: "json_number \<Rightarrow> u64 option"

text \<open>
  \<open>from_text\<close> is \<open>from_str::<Value>(..).ok()\<close>; \<open>stream_next\<close> is the first value of
  \<open>Deserializer::from_str(..).into_iter()\<close> with the \<open>byte_offset\<close> after it; \<open>number_f64\<close> is \<open>Number::as_f64\<close>.
\<close>

fun is_object :: "json \<Rightarrow> bool" where
  "is_object (JObject _) = True"
| "is_object _ = False"

fun is_null :: "json \<Rightarrow> bool" where
  "is_null JNull = True"
| "is_null _ = False"

fun as_str :: "json \<Rightarrow> string option" where
  "as_str (JString s) = Some s"
| "as_str _ = None"

fun as_bool :: "json \<Rightarrow> bool option" where
  "as_bool (JBool b) = Some b"
| "as_bool _ = None"

fun as_array :: "json \<Rightarrow> json list option" where
  "as_array (JArray a) = Some a"
| "as_array _ = None"

fun as_object :: "json \<Rightarrow> jmap option" where
  "as_object (JObject m) = Some m"
| "as_object _ = None"

text \<open>\<open>Value::get\<close> with a string index: a field of an object, nothing on other values.\<close>

fun jget :: "json \<Rightarrow> string \<Rightarrow> json option" where
  "jget (JObject m) k = map_of m k"
| "jget _ k = None"

text \<open>The number accessors: an integer keeps its representation, any number is a float.\<close>

fun as_u64 :: "json \<Rightarrow> u64 option" where
  "as_u64 (JNumber (PosInt n)) = Some n"
| "as_u64 _ = None"

fun as_i64 :: "json \<Rightarrow> u64 option" where
  "as_i64 (JNumber (PosInt n)) = (if n < 0x8000000000000000 then Some n else None)"
| "as_i64 (JNumber (NegInt n)) = Some n"
| "as_i64 _ = None"

fun as_f64 :: "serde \<Rightarrow> json \<Rightarrow> u64 option" where
  "as_f64 sj (JNumber n) = number_f64 sj n"
| "as_f64 sj _ = None"

text \<open>The chain \<open>get(k).and_then(Value::as_str)\<close>.\<close>

definition jget_str :: "json \<Rightarrow> string \<Rightarrow> string option" where
  "jget_str v k = Option.bind (jget v k) as_str"

lemma as_object_Some [simp]: "as_object v = Some m \<longleftrightarrow> v = JObject m"
  by (cases v) auto

lemma as_str_Some [simp]: "as_str v = Some s \<longleftrightarrow> v = JString s"
  by (cases v) auto

lemma as_array_Some [simp]: "as_array v = Some s \<longleftrightarrow> v = JArray s"
  by (cases v) auto

lemma as_bool_Some [simp]: "as_bool v = Some b \<longleftrightarrow> v = JBool b"
  by (cases v) auto

lemma is_object_iff: "is_object v \<longleftrightarrow> (\<exists>m. v = JObject m)"
  by (cases v) auto

text \<open>Values whose objects have distinct keys, as every \<open>serde_json::Value\<close> does.\<close>

fun json_ok :: "json \<Rightarrow> bool" where
  "json_ok (JArray xs) \<longleftrightarrow> (\<forall>x\<in>set xs. json_ok x)"
| "json_ok (JObject m) \<longleftrightarrow> distinct (map fst m) \<and> (\<forall>e\<in>set m. json_ok (snd e))"
| "json_ok _ \<longleftrightarrow> True"

section \<open>Key-value stores\<close>

text \<open>
  The contract the code uses of its string-keyed bags: a fresh store is empty, a lookup sees the last
  insertion under its key, and insertion keeps every other key.
\<close>

locale key_store =
  fixes fresh :: 'm
    and put :: "'k \<Rightarrow> 'v \<Rightarrow> 'm \<Rightarrow> 'm"
    and look :: "'m \<Rightarrow> 'k \<Rightarrow> 'v option"
  assumes look_fresh: "look fresh k = None"
    and look_put: "look (put k v m) k' = (if k = k' then Some v else look m k')"
begin

lemma look_put_same: "look (put k v m) k = Some v"
  by (simp add: look_put)

lemma look_puts:
  "look (fold (\<lambda>(k, v). put k v) kvs m) k =
     (case map_of (rev kvs) k of Some v \<Rightarrow> Some v | None \<Rightarrow> look m k)"
  by (induction kvs arbitrary: m) (auto simp: look_put map_add_def split: option.splits)

end

section \<open>Metadata\<close>

type_synonym metadata = "jmap option"

definition metadata_new :: metadata where
  "metadata_new = None"

definition metadata_is_empty :: "metadata \<Rightarrow> bool" where
  "metadata_is_empty md = (case md of None \<Rightarrow> True | Some m \<Rightarrow> m = [])"

definition metadata_len :: "metadata \<Rightarrow> nat" where
  "metadata_len md = (case md of None \<Rightarrow> 0 | Some m \<Rightarrow> length m)"

definition metadata_get :: "metadata \<Rightarrow> string \<Rightarrow> json option" where
  "metadata_get md k = Option.bind md (\<lambda>m. map_of m k)"

definition metadata_insert :: "string \<Rightarrow> json \<Rightarrow> metadata \<Rightarrow> metadata" where
  "metadata_insert k v md = Some (alist_put k v (case md of None \<Rightarrow> [] | Some m \<Rightarrow> m))"

definition metadata_from_map :: "jmap \<Rightarrow> metadata" where
  "metadata_from_map m = (if m = [] then None else Some m)"

definition metadata_ok :: "metadata \<Rightarrow> bool" where
  "metadata_ok md \<longleftrightarrow> (case md of None \<Rightarrow> True | Some m \<Rightarrow> distinct (map fst m))"

interpretation metadata: key_store metadata_new metadata_insert metadata_get
  by unfold_locales
    (auto simp: metadata_new_def metadata_insert_def metadata_get_def split: option.split)

interpretation json_map: key_store "[]" alist_put "map_of :: jmap \<Rightarrow> string \<Rightarrow> json option"
  by unfold_locales auto

lemma metadata_ok_insert: "metadata_ok md \<Longrightarrow> metadata_ok (metadata_insert k v md)"
  by (auto simp: metadata_ok_def metadata_insert_def split: option.splits)

lemma metadata_get_new [simp]: "metadata_get metadata_new k = None"
  by (rule metadata.look_fresh)

lemma metadata_is_empty_iff: "metadata_is_empty md \<longleftrightarrow> (\<forall>k. metadata_get md k = None)"
  by (cases md; auto simp: metadata_is_empty_def metadata_get_def map_of_eq_None_iff)

lemma metadata_len_0: "metadata_len md = 0 \<longleftrightarrow> metadata_is_empty md"
  by (cases md) (auto simp: metadata_len_def metadata_is_empty_def)

end
