(* ===== verification/Core.thy ===== *)
theory Core
  imports Capabilities Json
begin

text \<open>
  The canonical schema of \<open>gravity-core\<close>: tools (\<open>tool.rs\<close>), messages (\<open>message.rs\<close>), requests
  (\<open>request.rs\<close>), responses and usage (\<open>response.rs\<close>), stream events (\<open>stream.rs\<close>), model infos
  (\<open>model_info.rs\<close>) and the error hierarchy with its retry classification (\<open>error.rs\<close>).

  A \<open>f32\<close> or \<open>f64\<close> is its bit pattern; a \<open>SmallVec\<close> is a list; \<open>Bytes\<close> is a list of \<open>u8\<close>.
\<close>

section \<open>Tools\<close>

record tool_definition =
  td_name :: string
  td_description :: string
  td_input_schema :: jmap

record tool_call =
  tc_id :: string
  tc_name :: string
  tc_arguments :: jmap

record tool_output =
  to_content :: json
  to_is_error :: bool
  to_structured :: "json option"
  to_metadata :: metadata

record executed_tool_call =
  ex_call :: tool_call
  ex_output :: tool_output
  ex_duration_ms :: "u64 option"

record tool_result =
  tr_tool_call_id :: string
  tr_name :: string
  tr_content :: json
  tr_is_error :: bool
  tr_structured :: "json option"

definition tool_output_ok :: "json \<Rightarrow> tool_output" where
  "tool_output_ok content =
     \<lparr>to_content = content, to_is_error = False,
      to_structured = (if is_object content then Some content else None),
      to_metadata = metadata_new\<rparr>"

definition tool_output_error :: "string \<Rightarrow> tool_output" where
  "tool_output_error message =
     (let structured = JObject (alist_put ''error'' (JString message) [])
      in \<lparr>to_content = structured, to_is_error = True, to_structured = Some structured,
          to_metadata = metadata_new\<rparr>)"

fun from_handler_return :: "json \<Rightarrow> tool_output" where
  "from_handler_return (JObject m) =
     \<lparr>to_content = JObject m,
      to_is_error = (map_of m ''error'' \<noteq> None \<or> map_of m ''ok'' = Some (JBool False)
                     \<or> map_of m ''success'' = Some (JBool False)),
      to_structured = Some (JObject m), to_metadata = metadata_new\<rparr>"
| "from_handler_return value =
     \<lparr>to_content = value, to_is_error = False, to_structured = None, to_metadata = metadata_new\<rparr>"

text \<open>\<open>Value::to_string\<close> is the compact printer.\<close>

fun to_wire :: "serde \<Rightarrow> tool_output \<Rightarrow> string" where
  "to_wire sj out =
     (case to_content out of
        JObject m \<Rightarrow> to_compact sj (JObject m)
      | JArray a \<Rightarrow> to_compact sj (JArray a)
      | JString s \<Rightarrow> s
      | JNull \<Rightarrow> ''null''
      | other \<Rightarrow> to_compact sj other)"

definition result_from_output :: "tool_call \<Rightarrow> tool_output \<Rightarrow> tool_result" where
  "result_from_output call out =
     \<lparr>tr_tool_call_id = tc_id call, tr_name = tc_name call, tr_content = to_content out,
      tr_is_error = to_is_error out, tr_structured = to_structured out\<rparr>"

text \<open>
  The client copies a result back into an output when it records an executed call
  (\<open>run_afc\<close>, \<open>run_json_emulated\<close>).
\<close>

definition output_of_result :: "tool_result \<Rightarrow> tool_output" where
  "output_of_result r =
     \<lparr>to_content = tr_content r, to_is_error = tr_is_error r, to_structured = tr_structured r,
      to_metadata = metadata_new\<rparr>"

lemma result_from_output_simps [core_simps]:
  "tr_tool_call_id (result_from_output c out) = tc_id c"
  "tr_name (result_from_output c out) = tc_name c"
  "tr_content (result_from_output c out) = to_content out"
  "tr_is_error (result_from_output c out) = to_is_error out"
  by (simp_all add: result_from_output_def)

lemma output_of_result_of_output:
  "to_metadata out = metadata_new \<Longrightarrow> output_of_result (result_from_output c out) = out"
  by (simp add: output_of_result_def result_from_output_def)

lemma tool_output_error_is_error [core_simps]: "to_is_error (tool_output_error m)"
  by (simp add: tool_output_error_def Let_def)

text \<open>
  A handler's error object is recognised as an error again: \<open>from_handler_return\<close> is the identity on
  what \<open>error\<close> builds, so wrapping an error twice does not lose the flag.
\<close>

lemma from_handler_return_error:
  "from_handler_return (to_content (tool_output_error m)) = tool_output_error m"
  by (simp add: tool_output_error_def Let_def)

lemma from_handler_return_ok:
  "\<not> to_is_error (from_handler_return v) \<Longrightarrow> from_handler_return v = tool_output_ok v"
  by (cases v) (simp_all add: tool_output_ok_def)

section \<open>Messages\<close>

datatype role = RSystem | RUser | RAssistant | RTool

record image_url =
  iu_url :: string
  iu_detail :: "string option"

record input_file =
  if_file_name :: string
  if_mime_type :: string
  if_data :: "u8 list"

datatype content_part =
  PText string | PImageUrl image_url | PJson jmap | PInputFile input_file

datatype content = CText string | CParts "content_part list"

fun content_as_text :: "content \<Rightarrow> string" where
  "content_as_text (CText s) = s"
| "content_as_text (CParts _) = []"

record message =
  msg_role :: role
  msg_content :: "content option"
  msg_name :: "string option"
  msg_tool_calls :: "tool_call list"
  msg_tool_result :: "tool_result option"
  msg_metadata :: metadata

definition message_bare :: "role \<Rightarrow> content option \<Rightarrow> message" where
  "message_bare r c =
     \<lparr>msg_role = r, msg_content = c, msg_name = None, msg_tool_calls = [],
      msg_tool_result = None, msg_metadata = metadata_new\<rparr>"

definition message_user :: "string \<Rightarrow> message" where
  "message_user s = message_bare RUser (Some (CText s))"

definition message_assistant :: "string \<Rightarrow> message" where
  "message_assistant s = message_bare RAssistant (Some (CText s))"

definition message_system :: "string \<Rightarrow> message" where
  "message_system s = message_bare RSystem (Some (CText s))"

definition message_tool_result :: "tool_result \<Rightarrow> message" where
  "message_tool_result r =
     \<lparr>msg_role = RTool, msg_content = None, msg_name = None, msg_tool_calls = [],
      msg_tool_result = Some r, msg_metadata = metadata_new\<rparr>"

definition message_assistant_with_tools :: "content option \<Rightarrow> tool_call list \<Rightarrow> message" where
  "message_assistant_with_tools c calls =
     \<lparr>msg_role = RAssistant, msg_content = c, msg_name = None, msg_tool_calls = calls,
      msg_tool_result = None, msg_metadata = metadata_new\<rparr>"

definition message_text :: "message \<Rightarrow> string" where
  "message_text m = (case msg_content m of None \<Rightarrow> [] | Some c \<Rightarrow> content_as_text c)"

definition message_validate :: "message \<Rightarrow> string + unit" where
  "message_validate m =
     (if msg_role m = RTool \<and> msg_tool_result m = None
      then Inl ''tool messages require `tool_result`'' else Inr ())"

lemmas message_defs =
  message_bare_def message_user_def message_assistant_def message_system_def
  message_tool_result_def message_assistant_with_tools_def

lemma message_text_simps [core_simps]:
  "message_text (message_user s) = s"
  "message_text (message_assistant s) = s"
  "message_text (message_system s) = s"
  "message_text (message_tool_result r) = []"
  by (simp_all add: message_defs message_text_def)

lemma message_validate_simps [core_simps]:
  "message_validate (message_user s) = Inr ()"
  "message_validate (message_assistant s) = Inr ()"
  "message_validate (message_system s) = Inr ()"
  "message_validate (message_tool_result r) = Inr ()"
  "message_validate (message_assistant_with_tools c calls) = Inr ()"
  by (simp_all add: message_defs message_validate_def)

section \<open>Requests\<close>

datatype function_calling = FcAuto | FcManual

datatype response_format = FmtFree | FmtJsonSchema jmap

fun is_constrained :: "response_format \<Rightarrow> bool" where
  "is_constrained (FmtJsonSchema _) = True"
| "is_constrained FmtFree = False"

fun is_free :: "response_format \<Rightarrow> bool" where
  "is_free FmtFree = True"
| "is_free _ = False"

record sampling =
  sm_temperature :: "u32 option"
  sm_max_tokens :: "u32 option"
  sm_top_p :: "u32 option"
  sm_stop :: "string list"
  sm_seed :: "u64 option"
  sm_frequency_penalty :: "u32 option"
  sm_presence_penalty :: "u32 option"

definition sampling_default :: sampling where
  "sampling_default =
     \<lparr>sm_temperature = None, sm_max_tokens = None, sm_top_p = None, sm_stop = [], sm_seed = None,
      sm_frequency_penalty = None, sm_presence_penalty = None\<rparr>"

definition sampling_is_empty :: "sampling \<Rightarrow> bool" where
  "sampling_is_empty s \<longleftrightarrow>
     sm_temperature s = None \<and> sm_max_tokens s = None \<and> sm_top_p s = None \<and> sm_stop s = []
     \<and> sm_seed s = None \<and> sm_frequency_penalty s = None \<and> sm_presence_penalty s = None"

lemma sampling_is_empty_iff: "sampling_is_empty s \<longleftrightarrow> s = sampling_default"
  by (cases s) (auto simp: sampling_is_empty_def sampling_default_def)

record chat_request =
  rq_model :: model_id
  rq_messages :: "message list"
  rq_system_prompt :: "string option"
  rq_tools :: "tool_definition list"
  rq_function_calling :: function_calling
  rq_response_format :: response_format
  rq_history_mode :: "history_mode option"
  rq_stream :: bool
  rq_sampling :: sampling
  rq_metadata :: metadata

definition chat_request_new :: "model_id \<Rightarrow> message list \<Rightarrow> chat_request" where
  "chat_request_new model messages =
     \<lparr>rq_model = model, rq_messages = messages, rq_system_prompt = None, rq_tools = [],
      rq_function_calling = FcAuto, rq_response_format = FmtFree, rq_history_mode = None,
      rq_stream = False, rq_sampling = sampling_default, rq_metadata = metadata_new\<rparr>"

fun validate_messages :: "message list \<Rightarrow> string + unit" where
  "validate_messages [] = Inr ()"
| "validate_messages (m # ms) =
     (case message_validate m of Inl e \<Rightarrow> Inl e | Inr _ \<Rightarrow> validate_messages ms)"

definition request_validate :: "chat_request \<Rightarrow> string + unit" where
  "request_validate req = validate_messages (rq_messages req)"

text \<open>A well-shaped transcript: every tool message carries its result.\<close>

definition transcript_ok :: "message list \<Rightarrow> bool" where
  "transcript_ok ms \<longleftrightarrow> (\<forall>m\<in>set ms. msg_role m = RTool \<longrightarrow> msg_tool_result m \<noteq> None)"

lemma validate_messages_iff: "validate_messages ms = Inr () \<longleftrightarrow> transcript_ok ms"
  by (induction ms) (auto simp: message_validate_def transcript_ok_def)

lemma request_validate_iff: "request_validate req = Inr () \<longleftrightarrow> transcript_ok (rq_messages req)"
  by (simp add: request_validate_def validate_messages_iff)

lemma transcript_ok_append [simp]:
  "transcript_ok (xs @ ys) \<longleftrightarrow> transcript_ok xs \<and> transcript_ok ys"
  by (auto simp: transcript_ok_def)

lemma transcript_ok_simps [simp]:
  "transcript_ok []"
  "transcript_ok (message_user s # ms) = transcript_ok ms"
  "transcript_ok (message_assistant s # ms) = transcript_ok ms"
  "transcript_ok (message_tool_result r # ms) = transcript_ok ms"
  "transcript_ok (message_assistant_with_tools c calls # ms) = transcript_ok ms"
  by (auto simp: transcript_ok_def message_defs)

section \<open>Responses\<close>

record usage =
  us_input_tokens :: "u32 option"
  us_output_tokens :: "u32 option"
  us_total_tokens :: "u32 option"

definition usage_default :: usage where
  "usage_default = \<lparr>us_input_tokens = None, us_output_tokens = None, us_total_tokens = None\<rparr>"

definition or_zero :: "u32 option \<Rightarrow> u32" where
  "or_zero x = (case x of None \<Rightarrow> 0 | Some n \<Rightarrow> n)"

definition usage_total :: "usage \<Rightarrow> u32" where
  "usage_total u =
     (case us_total_tokens u of
        Some t \<Rightarrow> t
      | None \<Rightarrow> or_zero (us_input_tokens u) + or_zero (us_output_tokens u))"

lemma usage_total_exact:
  "us_total_tokens u = None \<Longrightarrow>
   unat (or_zero (us_input_tokens u)) + unat (or_zero (us_output_tokens u)) < 2 ^ 32 \<Longrightarrow>
   unat (usage_total u) = unat (or_zero (us_input_tokens u)) + unat (or_zero (us_output_tokens u))"
  by (simp add: usage_total_def unat_word_ariths)

record chat_response =
  rs_model :: string
  rs_message :: message
  rs_usage :: usage
  rs_tool_calls_executed :: "executed_tool_call list"
  rs_provider_response_id :: "string option"
  rs_finish_reason :: "string option"
  rs_metadata :: metadata

definition response_text :: "chat_response \<Rightarrow> string" where
  "response_text r = message_text (rs_message r)"

definition response_tool_calls :: "chat_response \<Rightarrow> tool_call list" where
  "response_tool_calls r = msg_tool_calls (rs_message r)"

datatype stream_event =
    TextDelta "u8 list"
  | ToolCallStarted string
  | UsageEvent usage
  | Done chat_response

fun stream_as_text :: "stream_event \<Rightarrow> u8 list option" where
  "stream_as_text (TextDelta b) = Some b"
| "stream_as_text _ = None"

record model_info =
  mi_id :: string
  mi_display_name :: "string option"
  mi_description :: "string option"
  mi_tags :: "string list"

definition model_info_bare :: "string \<Rightarrow> model_info" where
  "model_info_bare i =
     \<lparr>mi_id = i, mi_display_name = None, mi_description = None, mi_tags = []\<rparr>"

definition model_info_named :: "string \<Rightarrow> string \<Rightarrow> model_info" where
  "model_info_named i d =
     \<lparr>mi_id = i, mi_display_name = Some d, mi_description = None, mi_tags = []\<rparr>"

end
