(* ===== verification/Errors.thy ===== *)
theory Errors
  imports Core
begin

text \<open>
  The error hierarchy and its retry classification (\<open>gravity-core/src/error.rs\<close>).  The predicates
  drive the orchestrator: \<open>should_failover\<close> rotates to another account, \<open>is_transient_rate_limit\<close>
  retries the same account, \<open>invalidates_checkpoint\<close> drops the remote session.
\<close>

datatype provider_error_kind =
  RateLimit | QuotaExceeded | Authentication | Server | BadRequest | Transient | OtherKind

record provider_error =
  pe_provider :: provider_name
  pe_kind :: provider_error_kind
  pe_code :: string
  pe_message :: string
  pe_status :: "u16 option"
  pe_retry_after :: "duration option"
  pe_details :: metadata

datatype error =
    Configuration string
  | Validation string string
  | ProviderNotRegistered provider_name
  | ModelRouting string
  | AccountSelection string
  | ConversationError string
  | ProviderErr provider_error
  | Network string

definition unsupported :: "string \<Rightarrow> error" where
  "unsupported what = Validation (''operation not supported: '' @ what) ''unsupported''"

definition provider_error_new ::
    "provider_name \<Rightarrow> provider_error_kind \<Rightarrow> string \<Rightarrow> string \<Rightarrow> provider_error" where
  "provider_error_new p k code message =
     \<lparr>pe_provider = p, pe_kind = k, pe_code = code, pe_message = message, pe_status = None,
      pe_retry_after = None, pe_details = metadata_new\<rparr>"

definition kind_of_status :: "u16 \<Rightarrow> provider_error_kind" where
  "kind_of_status s =
     (if s = 429 then RateLimit
      else if s = 401 \<or> s = 403 then Authentication
      else if 500 \<le> s \<and> s \<le> 599 then Server
      else if 400 \<le> s \<and> s \<le> 499 then BadRequest
      else OtherKind)"

definition with_status :: "u16 \<Rightarrow> provider_error \<Rightarrow> provider_error" where
  "with_status s e =
     (let e' = e\<lparr>pe_status := Some s\<rparr>
      in if pe_kind e' = OtherKind then e'\<lparr>pe_kind := kind_of_status s\<rparr> else e')"

definition with_retry_after :: "duration \<Rightarrow> provider_error \<Rightarrow> provider_error" where
  "with_retry_after d e = e\<lparr>pe_retry_after := Some d\<rparr>"

definition is_transient_rate_limit :: "provider_error \<Rightarrow> bool" where
  "is_transient_rate_limit e \<longleftrightarrow>
     pe_kind e = RateLimit \<and> pe_retry_after e = None
     \<and> pe_code e \<noteq> ''usage_limit_reached'' \<and> pe_code e \<noteq> ''quota_exceeded''"

definition pe_should_failover :: "provider_error \<Rightarrow> bool" where
  "pe_should_failover e \<longleftrightarrow>
     pe_kind e \<in> {RateLimit, Server, Transient, QuotaExceeded, Authentication}"

definition invalidates_checkpoint :: "provider_error \<Rightarrow> bool" where
  "invalidates_checkpoint e \<longleftrightarrow>
     (case pe_status e of None \<Rightarrow> False | Some s \<Rightarrow> s = 401 \<or> s = 403 \<or> s = 404 \<or> s = 409)"

fun should_failover :: "error \<Rightarrow> bool" where
  "should_failover (ProviderErr p) = pe_should_failover p"
| "should_failover (Network _) = True"
| "should_failover _ = False"

text \<open>The printed form of an error (\<open>thiserror\<close>'s \<open>Display\<close>).\<close>

fun error_kind_name :: "provider_error_kind \<Rightarrow> string" where
  "error_kind_name RateLimit = ''RateLimit''"
| "error_kind_name QuotaExceeded = ''QuotaExceeded''"
| "error_kind_name Authentication = ''Authentication''"
| "error_kind_name Server = ''Server''"
| "error_kind_name BadRequest = ''BadRequest''"
| "error_kind_name Transient = ''Transient''"
| "error_kind_name OtherKind = ''Other''"

fun error_text :: "error \<Rightarrow> string" where
  "error_text (Configuration m) = ''configuration: '' @ m"
| "error_text (Validation m code) = ''validation ['' @ code @ '']: '' @ m"
| "error_text (ProviderNotRegistered p) = ''provider '' @ provider_as_str p @ '' is not registered''"
| "error_text (ModelRouting m) = ''model routing: '' @ m"
| "error_text (AccountSelection m) = ''account selection: '' @ m"
| "error_text (ConversationError m) = ''conversation: '' @ m"
| "error_text (ProviderErr e) =
     error_kind_name (pe_kind e) @ '' from '' @ provider_as_str (pe_provider e)
     @ '' ['' @ pe_code e @ '']: '' @ pe_message e"
| "error_text (Network m) = ''network: '' @ m"

lemma transient_should_failover: "is_transient_rate_limit e \<Longrightarrow> pe_should_failover e"
  by (simp add: is_transient_rate_limit_def pe_should_failover_def)

lemma with_status_simps [core_simps]:
  "pe_status (with_status s e) = Some s"
  "pe_code (with_status s e) = pe_code e"
  "pe_retry_after (with_status s e) = pe_retry_after e"
  "pe_kind (with_status s e) = (if pe_kind e = OtherKind then kind_of_status s else pe_kind e)"
  by (simp_all add: with_status_def Let_def)

lemma with_retry_after_not_transient: "\<not> is_transient_rate_limit (with_retry_after d e)"
  by (simp add: is_transient_rate_limit_def with_retry_after_def)

text \<open>
  How an HTTP status decides retry policy.  For an error whose kind is still to be inferred,
  \<open>with_status\<close> makes it rotate to another account exactly for 429, 401, 403 and the 5xx range, and
  retried on the same account exactly for a 429 that carries no \<open>Retry-After\<close> and no cap code; whatever
  its kind, it drops the remote checkpoint exactly for 401, 403, 404 and 409.  A kind that was
  already known is kept.
\<close>

theorem status_classification:
  "pe_should_failover (with_status s (e\<lparr>pe_kind := OtherKind\<rparr>))
     = (s = 429 \<or> s = 401 \<or> s = 403 \<or> (500 \<le> s \<and> s \<le> 599))
   \<and> is_transient_rate_limit (with_status s (e\<lparr>pe_kind := OtherKind\<rparr>))
     = (s = 429 \<and> pe_retry_after e = None
        \<and> pe_code e \<notin> {''usage_limit_reached'', ''quota_exceeded''})
   \<and> invalidates_checkpoint (with_status s e) = (s \<in> {401, 403, 404, 409})
   \<and> pe_kind (with_status s (with_status t e)) =
       (if pe_kind e = OtherKind \<and> kind_of_status t = OtherKind then kind_of_status s
        else pe_kind (with_status t e))"
proof (intro conjI)
  show "pe_should_failover (with_status s (e\<lparr>pe_kind := OtherKind\<rparr>))
     = (s = 429 \<or> s = 401 \<or> s = 403 \<or> (500 \<le> s \<and> s \<le> 599))"
    by (simp add: pe_should_failover_def kind_of_status_def core_simps)
  show "is_transient_rate_limit (with_status s (e\<lparr>pe_kind := OtherKind\<rparr>))
     = (s = 429 \<and> pe_retry_after e = None
        \<and> pe_code e \<notin> {''usage_limit_reached'', ''quota_exceeded''})"
    by (auto simp add: is_transient_rate_limit_def kind_of_status_def core_simps)
  show "invalidates_checkpoint (with_status s e) = (s \<in> {401, 403, 404, 409})"
    by (auto simp: invalidates_checkpoint_def core_simps)
qed (simp add: core_simps)

end
