(* ===== verification/Sse.thy ===== *)
theory Sse
  imports Utf8 Text Errors
begin

text \<open>
  The line decoder and the Server-Sent-Events parser of \<open>gravity-http/src/sse.rs\<close>.

  A byte stream is the list of its items, each an error or a chunk of the body; the stream a
  \<open>try_stream!\<close> block yields is the list of its items, which ends after an error.  The local variables
  of a block that live across a suspension (the buffer of partial lines, the event being built) are
  arguments of its recursive function.
\<close>

section \<open>Lines\<close>

definition memchr :: "u8 \<Rightarrow> u8 list \<Rightarrow> nat option" where
  "memchr needle haystack = position (\<lambda>b. b = needle) haystack"

definition strip_cr :: "u8 list \<Rightarrow> u8 list" where
  "strip_cr line = (if line \<noteq> [] \<and> last line = 0x0D then butlast line else line)"

text \<open>The inner loop: the complete lines of the buffer, and what is left in it.\<close>

function take_lines :: "u8 list \<Rightarrow> u8 list list \<times> u8 list" where
  "take_lines buf =
     (case memchr 0x0A buf of
        None \<Rightarrow> ([], buf)
      | Some pos \<Rightarrow>
          (let (ls, rest) = take_lines (drop (pos + 1) buf)
           in (strip_cr (take pos buf) # ls, rest)))"
  by pat_completeness auto
termination
  by (relation "measure length") (auto simp: memchr_def dest: position_Some)

declare take_lines.simps [simp del]

fun lines_from :: "u8 list \<Rightarrow> (error + u8 list) list \<Rightarrow> (error + u8 list) list" where
  "lines_from buf [] = (if buf = [] then [] else [Inr buf])"
| "lines_from buf (Inl e # _) = [Inl e]"
| "lines_from buf (Inr chunk # cs) =
     (let (ls, buf') = take_lines (buf @ chunk) in map Inr ls @ lines_from buf' cs)"

definition lines :: "(error + u8 list) list \<Rightarrow> (error + u8 list) list" where
  "lines stream = lines_from [] stream"

lemma take_lines_no_newline: "0x0A \<notin> set bs \<Longrightarrow> take_lines bs = ([], bs)"
proof -
  assume "0x0A \<notin> set bs"
  then have "memchr 0x0A bs = None" by (auto simp: memchr_def position_None)
  then show ?thesis by (simp add: take_lines.simps [of bs])
qed

lemma take_lines_newline:
  assumes "0x0A \<notin> set l"
  shows "take_lines (l @ 0x0A # bs) = (strip_cr l # fst (take_lines bs), snd (take_lines bs))"
proof -
  have "position (\<lambda>b. b = 0x0A) l = None" using assms by (auto simp: position_None)
  then have "memchr 0x0A (l @ 0x0A # bs) = Some (length l)"
    by (simp add: memchr_def position_append)
  then show ?thesis by (simp add: take_lines.simps [of "l @ 0x0A # bs"] split_beta)
qed

lemma newline_cases:
  obtains "0x0A \<notin> set bs" | l r where "bs = l @ (0x0A :: u8) # r" "0x0A \<notin> set l"
  by (metis split_list_first)

lemma take_lines_induct [case_names none line]:
  assumes "\<And>bs. 0x0A \<notin> set bs \<Longrightarrow> P bs"
    and "\<And>l bs. 0x0A \<notin> set l \<Longrightarrow> P bs \<Longrightarrow> P (l @ (0x0A :: u8) # bs)"
  shows "P bs"
proof (induction "length bs" arbitrary: bs rule: less_induct)
  case less
  show ?case
  proof (cases bs rule: newline_cases)
    case 1
    then show ?thesis by (rule assms(1))
  next
    case (2 l r)
    then have "P r" using less by simp
    with 2 show ?thesis using assms(2) by blast
  qed
qed

lemma take_lines_rest: "0x0A \<notin> set (snd (take_lines bs))"
  by (induction bs rule: take_lines_induct) (simp_all add: take_lines_no_newline take_lines_newline)

text \<open>Scanning in two parts is scanning at once.\<close>

lemma take_lines_append:
  "take_lines (a @ b) =
     (fst (take_lines a) @ fst (take_lines (snd (take_lines a) @ b)),
      snd (take_lines (snd (take_lines a) @ b)))"
  by (induction a rule: take_lines_induct) (simp_all add: take_lines_no_newline take_lines_newline)

definition last_line :: "u8 list \<Rightarrow> u8 list list" where
  "last_line buf = (if buf = [] then [] else [buf])"

lemma lines_from_chunks:
  assumes "0x0A \<notin> set buf"
  shows "lines_from buf (map Inr cs) =
     map Inr (fst (take_lines (buf @ concat cs)) @ last_line (snd (take_lines (buf @ concat cs))))"
  using assms
proof (induction cs arbitrary: buf)
  case Nil
  then show ?case by (simp add: last_line_def take_lines_no_newline)
next
  case (Cons c cs)
  let ?T = "take_lines (buf @ c)"
  have "take_lines (buf @ c @ concat cs) =
      (fst ?T @ fst (take_lines (snd ?T @ concat cs)), snd (take_lines (snd ?T @ concat cs)))"
    using take_lines_append [of "buf @ c" "concat cs"] by simp
  then show ?case using Cons.IH [OF take_lines_rest, of "buf @ c"]
    by (simp add: split_beta)
qed

lemma lines_chunks:
  "lines (map Inr cs) =
     map Inr (fst (take_lines (concat cs)) @ last_line (snd (take_lines (concat cs))))"
  using lines_from_chunks [of "[]" cs] by (simp add: lines_def)

lemma lines_from_error:
  assumes "0x0A \<notin> set buf"
  shows "lines_from buf (map Inr cs @ Inl e # rest) =
     map Inr (fst (take_lines (buf @ concat cs))) @ [Inl e]"
  using assms
proof (induction cs arbitrary: buf)
  case Nil
  then show ?case by (simp add: take_lines_no_newline)
next
  case (Cons c cs)
  let ?T = "take_lines (buf @ c)"
  have "take_lines (buf @ c @ concat cs) =
      (fst ?T @ fst (take_lines (snd ?T @ concat cs)), snd (take_lines (snd ?T @ concat cs)))"
    using take_lines_append [of "buf @ c" "concat cs"] by simp
  then show ?case using Cons.IH [OF take_lines_rest, of "buf @ c"]
    by (simp add: split_beta)
qed

section \<open>Events\<close>

record sse_event =
  sse_event_name :: "string option"
  sse_data :: string

definition sse_empty :: sse_event where
  "sse_empty = \<lparr>sse_event_name = None, sse_data = []\<rparr>"

definition is_done :: "sse_event \<Rightarrow> bool" where
  "is_done ev \<longleftrightarrow> trim (sse_data ev) = ''[DONE]''"

definition split_field :: "u8 list \<Rightarrow> u8 list \<times> u8 list" where
  "split_field line =
     (case memchr 0x3A line of
        Some idx \<Rightarrow>
          (let value = drop (idx + 1) line
           in (take idx line,
               if value \<noteq> [] \<and> hd value = 0x20 then tl value else value))
      | None \<Rightarrow> (line, []))"

text \<open>One turn of the loop of \<open>events\<close>: the event it yields, if any, and the new locals.\<close>

definition event_line :: "sse_event \<Rightarrow> bool \<Rightarrow> u8 list \<Rightarrow> sse_event option \<times> sse_event \<times> bool" where
  "event_line cur have_data line =
     (if line = [] then
        (if have_data then (Some cur, sse_empty, False) else (None, cur, have_data))
      else if hd line = 0x3A then (None, cur, have_data)
      else
        (let (field, value) = split_field line
         in if field = str_bytes ''data'' then
              (None,
               cur\<lparr>sse_data := (if have_data then sse_data cur @ [CHR 0x0A] else sse_data cur)
                                 @ from_utf8_lossy value\<rparr>,
               True)
            else if field = str_bytes ''event'' then
              (None, cur\<lparr>sse_event_name := Some (from_utf8_lossy value)\<rparr>, have_data)
            else (None, cur, have_data)))"

fun events_from :: "sse_event \<Rightarrow> bool \<Rightarrow> (error + u8 list) list \<Rightarrow> (error + sse_event) list" where
  "events_from cur have_data [] = (if have_data then [Inr cur] else [])"
| "events_from cur have_data (Inl e # _) = [Inl e]"
| "events_from cur have_data (Inr line # ls) =
     (case event_line cur have_data line of
        (None, cur', have') \<Rightarrow> events_from cur' have' ls
      | (Some ev, cur', have') \<Rightarrow> Inr ev # events_from cur' have' ls)"

definition events :: "(error + u8 list) list \<Rightarrow> (error + sse_event) list" where
  "events stream = events_from sse_empty False (lines stream)"

section \<open>The server's side\<close>

definition field_line :: "string \<Rightarrow> string \<Rightarrow> string" where
  "field_line f v = f @ '': '' @ v"

text \<open>An event as a server writes it: the name, one field per line of the data, and a blank line.\<close>

definition event_lines :: "sse_event \<Rightarrow> string list" where
  "event_lines ev =
     (case sse_event_name ev of None \<Rightarrow> [] | Some n \<Rightarrow> [field_line ''event'' n])
     @ map (field_line ''data'') (split_on (CHR 0x0A) (sse_data ev)) @ [[]]"

definition wire_lines :: "string list \<Rightarrow> u8 list" where
  "wire_lines ls = str_bytes (concat (map (\<lambda>l. l @ [CHR 0x0A]) ls))"

definition line_ok :: "string \<Rightarrow> bool" where
  "line_ok l \<longleftrightarrow> str_ok l \<and> CHR 0x0A \<notin> set l \<and> (l = [] \<or> last l \<noteq> CHR 0x0D)"

definition event_ok :: "sse_event \<Rightarrow> bool" where
  "event_ok ev \<longleftrightarrow>
     list_all line_ok (split_on (CHR 0x0A) (sse_data ev))
   \<and> (case sse_event_name ev of None \<Rightarrow> True | Some n \<Rightarrow> line_ok n)"

lemma byte_of_inj: "byte_of a = byte_of b \<longleftrightarrow> a = b"
  by (metis char_of_byte_of)

lemma byte_of_newline: "byte_of (CHR 0x0A) = 0x0A" "byte_of (CHR 0x0D) = 0x0D"
  by code_simp+

lemma str_bytes_newline: "0x0A \<in> set (str_bytes l) \<longleftrightarrow> CHR 0x0A \<in> set l"
  unfolding str_bytes_def set_map byte_of_newline(1) [symmetric]
  by (auto simp: image_iff byte_of_inj)

lemma str_bytes_append: "str_bytes (a @ b) = str_bytes a @ str_bytes b"
  by (simp add: str_bytes_def)

lemma strip_cr_str: "l = [] \<or> last l \<noteq> CHR 0x0D \<Longrightarrow> strip_cr (str_bytes l) = str_bytes l"
  by (cases l rule: rev_cases)
    (auto simp: strip_cr_def str_bytes_def simp flip: byte_of_newline byte_of_inj)

lemma take_lines_wire:
  assumes "\<forall>l\<in>set ls. CHR 0x0A \<notin> set l \<and> (l = [] \<or> last l \<noteq> CHR 0x0D)"
  shows "take_lines (wire_lines ls) = (map str_bytes ls, [])"
  using assms
proof (induction ls)
  case Nil
  show ?case by (simp add: wire_lines_def str_bytes_def take_lines_no_newline)
next
  case (Cons l ls)
  have "wire_lines (l # ls) = str_bytes l @ 0x0A # wire_lines ls"
    by (simp add: wire_lines_def str_bytes_def byte_of_newline)
  moreover have "0x0A \<notin> set (str_bytes l)" using Cons.prems by (simp add: str_bytes_newline)
  ultimately show ?case using Cons by (simp add: take_lines_newline strip_cr_str)
qed

lemma split_field_space:
  assumes "0x3A \<notin> set f"
  shows "split_field (f @ 0x3A # 0x20 # v) = (f, v)"
proof -
  have "position (\<lambda>b. b = 0x3A) f = None" using assms by (auto simp: position_None)
  then have "memchr 0x3A (f @ 0x3A # 0x20 # v) = Some (length f)"
    by (simp add: memchr_def position_append)
  then show ?thesis by (simp add: split_field_def)
qed

lemma event_line_data:
  assumes "str_ok v"
  shows "event_line cur have_data (str_bytes (field_line ''data'' v)) =
     (None, cur\<lparr>sse_data := (if have_data then sse_data cur @ [CHR 0x0A] else sse_data cur) @ v\<rparr>, True)"
proof -
  have d: "str_bytes (field_line ''data'' v) = str_bytes ''data'' @ 0x3A # 0x20 # str_bytes v"
    unfolding field_line_def str_bytes_append by (simp add: str_bytes_def) code_simp
  have n: "0x3A \<notin> set (str_bytes ''data'')" "hd (str_bytes ''data'') \<noteq> 0x3A"
    "str_bytes ''data'' \<noteq> []" by code_simp+
  then show ?thesis
    using assms unfolding d
    by (simp add: event_line_def split_field_space Let_def from_utf8_lossy_str_bytes)
qed

lemma event_line_event:
  assumes "str_ok n"
  shows "event_line cur have_data (str_bytes (field_line ''event'' n)) =
     (None, cur\<lparr>sse_event_name := Some n\<rparr>, have_data)"
proof -
  have d: "str_bytes (field_line ''event'' n) = str_bytes ''event'' @ 0x3A # 0x20 # str_bytes n"
    unfolding field_line_def str_bytes_append by (simp add: str_bytes_def) code_simp
  have n: "0x3A \<notin> set (str_bytes ''event'')" "hd (str_bytes ''event'') \<noteq> 0x3A"
    "str_bytes ''event'' \<noteq> []" "str_bytes ''event'' \<noteq> str_bytes ''data''" by code_simp+
  then show ?thesis
    using assms unfolding d
    by (simp add: event_line_def split_field_space Let_def from_utf8_lossy_str_bytes)
qed

lemma event_line_blank: "event_line cur True (str_bytes []) = (Some cur, sse_empty, False)"
  by (simp add: event_line_def str_bytes_def)

lemma events_from_data_lines:
  "list_all str_ok ls \<Longrightarrow>
   events_from cur True (map Inr (map (\<lambda>l. str_bytes (field_line ''data'' l)) ls) @ rest) =
     events_from (cur\<lparr>sse_data := sse_data cur @ concat (map (\<lambda>l. CHR 0x0A # l) ls)\<rparr>) True rest"
proof (induction ls arbitrary: cur)
  case Nil
  show ?case by simp
next
  case (Cons l ls)
  then have "str_ok l" by simp
  with Cons show ?case by (simp add: event_line_data)
qed

lemma join_with_newline: "join_with [d] (w # ws) = w @ concat (map (\<lambda>l. d # l) ws)"
  by (induction ws arbitrary: w) simp_all

lemma events_from_event:
  assumes "event_ok ev"
  shows "events_from sse_empty False (map Inr (map str_bytes (event_lines ev)) @ rest) =
           Inr ev # events_from sse_empty False rest"
proof -
  obtain w ws where w: "split_on (CHR 0x0A) (sse_data ev) = w # ws"
    by (cases "split_on (CHR 0x0A) (sse_data ev)") auto
  then have data: "sse_data ev = w @ concat (map (\<lambda>l. CHR 0x0A # l) ws)"
    using join_split_on [of "CHR 0x0A" "sse_data ev"] by (simp add: join_with_newline)
  have ok: "str_ok w" "list_all str_ok ws"
    using assms w by (auto simp: event_ok_def line_ok_def list_all_iff)
  have "events_from cur False (map Inr (map str_bytes (map (field_line ''data'') (w # ws) @ [[]])) @ rest) =
      Inr (cur\<lparr>sse_data := sse_data ev\<rparr>) # events_from sse_empty False rest"
    if "sse_data cur = []" for cur
    using that ok events_from_data_lines [OF ok(2), of "cur\<lparr>sse_data := w\<rparr>" "Inr [] # rest"]
      event_line_blank
    by (simp add: event_line_data data comp_def str_bytes_def [of "[]"])
  note tail = this
  show ?thesis
  proof (cases "sse_event_name ev")
    case None
    then show ?thesis using tail [of sse_empty] w by (simp add: event_lines_def sse_empty_def)
  next
    case (Some n)
    then have "str_ok n" using assms by (simp add: event_ok_def line_ok_def)
    then show ?thesis
      using tail [of "sse_empty\<lparr>sse_event_name := Some n\<rparr>"] w Some
      by (simp add: event_lines_def sse_empty_def event_line_event)
  qed
qed

lemma event_lines_clean:
  assumes "event_ok ev" and "l \<in> set (event_lines ev)"
  shows "CHR 0x0A \<notin> set l \<and> (l = [] \<or> last l \<noteq> CHR 0x0D)"
  using assms by (auto simp: event_lines_def event_ok_def line_ok_def list_all_iff field_line_def split: option.splits if_splits)

lemma wire_lines_append: "wire_lines (a @ b) = wire_lines a @ wire_lines b"
  by (simp add: wire_lines_def str_bytes_def)

text \<open>
  The decoders do not see chunk boundaries.  However the body is cut into chunks, the lines and the
  events are those of the body as one chunk; when the stream fails, the lines completed before the
  failure come first, then the error, and nothing after it.
\<close>

theorem sse_chunk_invariance:
  "lines (map Inr cs) = lines [Inr (concat cs)]
   \<and> events (map Inr cs) = events [Inr (concat cs)]
   \<and> lines (map Inr cs @ Inl e # rest) = map Inr (fst (take_lines (concat cs))) @ [Inl e]
   \<and> (\<exists>evs. events (map Inr cs @ Inl e # rest) = map Inr evs @ [Inl e])"
proof -
  have eq: "lines (map Inr cs) = lines [Inr (concat cs)]"
    using lines_chunks [of cs] lines_chunks [of "[concat cs]"] by simp
  have err: "lines (map Inr cs @ Inl e # rest) = map Inr (fst (take_lines (concat cs))) @ [Inl e]"
    using lines_from_error [of "[]" cs e rest] by (simp add: lines_def)
  have "\<exists>evs. events_from cur b (map Inr ls @ [Inl e]) = map Inr evs @ [Inl e]" for cur b ls
  proof (induction ls arbitrary: cur b)
    case Nil
    show ?case by (rule exI [of _ "[]"]) simp
  next
    case (Cons l ls)
    obtain o' c' b' where s: "event_line cur b l = (o', c', b')" by (cases "event_line cur b l")
    obtain evs where "events_from c' b' (map Inr ls @ [Inl e]) = map Inr evs @ [Inl e]"
      using Cons by blast
    then show ?case
      using s by (cases o') (auto intro: exI [of _ evs] exI [of _ "the o' # evs"])
  qed
  then show ?thesis using eq err by (simp add: events_def)
qed

lemma events_wire:
  assumes "\<forall>ev\<in>set evs. event_ok ev"
    and "concat cs = concat (map (\<lambda>ev. wire_lines (event_lines ev)) evs)"
  shows "events (map Inr cs) = map Inr evs"
proof -
  have "concat (map (\<lambda>ev. wire_lines (event_lines ev)) evs) = wire_lines (concat (map event_lines evs))"
    by (induction evs) (simp_all add: wire_lines_append, simp add: wire_lines_def str_bytes_def)
  moreover have "\<forall>l\<in>set (concat (map event_lines evs)).
      CHR 0x0A \<notin> set l \<and> (l = [] \<or> last l \<noteq> CHR 0x0D)"
    using assms(1) event_lines_clean by auto
  ultimately have "lines (map Inr cs) = map Inr (map str_bytes (concat (map event_lines evs)))"
    using lines_chunks [of cs] assms(2) take_lines_wire by (simp add: last_line_def)
  moreover have "events_from sse_empty False (map Inr (map str_bytes (concat (map event_lines evs))))
      = map Inr evs"
    using assms(1)
  proof (induction evs)
    case Nil
    show ?case by simp
  next
    case (Cons ev evs)
    then show ?case
      using events_from_event [of ev "map Inr (map str_bytes (concat (map event_lines evs)))"] by simp
  qed
  ultimately show ?thesis by (simp add: events_def)
qed

text \<open>
  What a server writes is what the client reads.  For events whose lines are well-formed text (no
  line feed inside a field, no carriage return at its end), written with one \<open>data:\<close> field per line of
  the payload, the parser returns exactly these events, however the bytes are cut into chunks.
\<close>

theorem sse_roundtrip:
  assumes "\<forall>ev\<in>set evs. event_ok ev"
    and "concat cs = concat (map (\<lambda>ev. wire_lines (event_lines ev)) evs)"
  shows "events (map Inr cs) = map Inr evs"
  using assms by (rule events_wire)

lemma sse_roundtrip_witness:
  "events (map Inr [str_bytes ''event: a'', str_bytes [CHR 0x0A, CHR ''d''],
                    str_bytes (''ata: x'' @ [CHR 0x0A, CHR 0x0A])]) =
     [Inr \<lparr>sse_event_name = Some ''a'', sse_data = ''x''\<rparr>]"
proof -
  have "\<forall>ev\<in>set [\<lparr>sse_event_name = Some ''a'', sse_data = ''x''\<rparr>]. event_ok ev" by code_simp
  moreover have "concat [str_bytes ''event: a'', str_bytes [CHR 0x0A, CHR ''d''],
                    str_bytes (''ata: x'' @ [CHR 0x0A, CHR 0x0A])]
      = concat (map (\<lambda>ev. wire_lines (event_lines ev)) [\<lparr>sse_event_name = Some ''a'', sse_data = ''x''\<rparr>])"
    by code_simp
  ultimately have "events (map Inr [str_bytes ''event: a'', str_bytes [CHR 0x0A, CHR ''d''],
                    str_bytes (''ata: x'' @ [CHR 0x0A, CHR 0x0A])])
      = map Inr [\<lparr>sse_event_name = Some ''a'', sse_data = ''x''\<rparr>]"
    by (rule sse_roundtrip)
  then show ?thesis by simp
qed

text \<open>
  A blank line after an \<open>event:\<close> field without data does not reset the name: it is given to the next
  event, while the grammar the module cites clears it.
\<close>

lemma dataless_event_name_survives:
  "events [Inr (wire_lines [''event: ping'', [], ''data: x'', []])] =
     [Inr \<lparr>sse_event_name = Some ''ping'', sse_data = ''x''\<rparr>]"
proof -
  have "lines [Inr (wire_lines [''event: ping'', [], ''data: x'', []])] =
      map Inr (map str_bytes [''event: ping'', [], ''data: x'', []])"
    using lines_chunks [of "[wire_lines [''event: ping'', [], ''data: x'', []]]"]
      take_lines_wire [of "[''event: ping'', [], ''data: x'', []]"] by (simp add: last_line_def)
  moreover have "events_from sse_empty False (map Inr (map str_bytes [''event: ping'', [], ''data: x'', []]))
      = [Inr \<lparr>sse_event_name = Some ''ping'', sse_data = ''x''\<rparr>]"
    by code_simp
  ultimately show ?thesis by (simp add: events_def)
qed

end
