(* ===== verification/Http.thy ===== *)
theory Http
  imports Sse Json
begin

text \<open>
  The HTTP layer: impersonation profiles (\<open>gravity-http/src/profile.rs\<close>), requests, responses and the
  client cache (\<open>client.rs\<close>), and the transport interface with its recording mock (\<open>transport.rs\<close>).

  \<open>wreq\<close> is outside the repository.  What building a client can refuse, how header names and values are
  parsed, and what the network answers are parameters; a \<open>wreq::Client\<close> is an identity (a clone is the
  same client, with the same connections and cookies), and building one makes a fresh identity.
\<close>

section \<open>Profiles\<close>

datatype profile =
  Chrome | ChromeLatest | Chrome131 | Chrome124 | ChromeEdge | Firefox | Firefox133 | Safari
  | Go | GoTls | GoBoring

definition profile_from_name :: "string \<Rightarrow> profile" where
  "profile_from_name name =
     (if name \<in> {''chrome'', ''chrome136''} then Chrome
      else if name \<in> {''chrome_latest'', ''chrome146'', ''chrome142'', ''chrome137''} then ChromeLatest
      else if name = ''chrome131'' then Chrome131
      else if name \<in> {''chrome124'', ''chrome_old''} then Chrome124
      else if name \<in> {''chrome_edge'', ''edge'', ''edge101''} then ChromeEdge
      else if name \<in> {''firefox'', ''firefox147'', ''firefox136''} then Firefox
      else if name = ''firefox133'' then Firefox133
      else if name \<in> {''safari'', ''safari18_0'', ''safari18_4''} then Safari
      else if name = ''go'' then Go
      else if name = ''go_tls'' then GoTls
      else if name = ''go_boring'' then GoBoring
      else Chrome)"

fun user_agent :: "profile \<Rightarrow> string" where
  "user_agent GoTls = ''Go-http-client/2.0''"
| "user_agent GoBoring = ''Go-http-client/2.0''"
| "user_agent Go = ''Go-http-client/2.0''"
| "user_agent _ = ''''"

definition is_custom :: "profile \<Rightarrow> bool" where
  "is_custom p \<longleftrightarrow> p \<in> {Go, GoTls, GoBoring}"

datatype emulation =
  EmuChrome136 | EmuChrome137 | EmuChrome131 | EmuChrome124 | EmuEdge101 | EmuFirefox136
  | EmuFirefox133 | EmuSafari18

fun browser_emulation :: "profile \<Rightarrow> emulation option" where
  "browser_emulation Chrome = Some EmuChrome136"
| "browser_emulation ChromeLatest = Some EmuChrome137"
| "browser_emulation Chrome131 = Some EmuChrome131"
| "browser_emulation Chrome124 = Some EmuChrome124"
| "browser_emulation ChromeEdge = Some EmuEdge101"
| "browser_emulation Firefox = Some EmuFirefox136"
| "browser_emulation Firefox133 = Some EmuFirefox133"
| "browser_emulation Safari = Some EmuSafari18"
| "browser_emulation _ = None"

definition cipher_name :: "u16 \<Rightarrow> string option" where
  "cipher_name suite =
     map_of [(0xC02B, ''ECDHE-ECDSA-AES128-GCM-SHA256''),
             (0xC02F, ''ECDHE-RSA-AES128-GCM-SHA256''),
             (0xC02C, ''ECDHE-ECDSA-AES256-GCM-SHA384''),
             (0xC030, ''ECDHE-RSA-AES256-GCM-SHA384''),
             (0xCCA9, ''ECDHE-ECDSA-CHACHA20-POLY1305''),
             (0xCCA8, ''ECDHE-RSA-CHACHA20-POLY1305''),
             (0xC013, ''ECDHE-RSA-AES128-SHA''),
             (0xC014, ''ECDHE-RSA-AES256-SHA''),
             (0x009C, ''AES128-GCM-SHA256''),
             (0x009D, ''AES256-GCM-SHA384''),
             (0x002F, ''AES128-SHA''),
             (0x0035, ''AES256-SHA'')] suite"

definition go_cipher_list :: "u16 list \<Rightarrow> string" where
  "go_cipher_list suites = join_with '':'' (List.map_filter cipher_name suites)"

definition go_tls_suites :: "u16 list" where
  "go_tls_suites =
     [0xC02B, 0xC02F, 0xC02C, 0xC030, 0xCCA9, 0xCCA8, 0xC013, 0xC014, 0x009C, 0x009D, 0x002F, 0x0035]"

definition go_boring_suites :: "u16 list" where
  "go_boring_suites =
     [0xC02B, 0xC02F, 0xC02C, 0xC030, 0xC013, 0xC014, 0x009C, 0x009D, 0x002F, 0x0035]"

datatype tls_version = Tls12 | Tls13

record tls_config =
  tls_cipher_list :: string
  tls_min :: tls_version
  tls_max :: tls_version
  tls_grease :: bool
  tls_permute :: bool

definition go_emulation :: "profile \<Rightarrow> tls_config" where
  "go_emulation p =
     \<lparr>tls_cipher_list = go_cipher_list (if p = GoBoring then go_boring_suites else go_tls_suites),
      tls_min = Tls12, tls_max = Tls13, tls_grease = False, tls_permute = False\<rparr>"

definition emulation_provider :: "profile \<Rightarrow> emulation + tls_config" where
  "emulation_provider p =
     (case browser_emulation p of Some emu \<Rightarrow> Inl emu | None \<Rightarrow> Inr (go_emulation p))"

text \<open>
  The two Go fingerprints.  A profile is emulated by a browser template unless it is one of the
  three Go profiles, whose handshake spans TLS 1.2 to 1.3 with no GREASE and no permutation; the suites
  of \<open>go_boring\<close> are those of \<open>go_tls\<close> in order without the ChaCha20 ones, every suite has a name, and
  no name offered by \<open>go_boring\<close> is a ChaCha20 one.
\<close>

theorem go_profiles:
  "(is_custom p \<longleftrightarrow> browser_emulation p = None)
   \<and> emulation_provider GoBoring = Inr (go_emulation GoBoring)
   \<and> go_boring_suites = filter (\<lambda>s. s \<notin> {0xCCA8, 0xCCA9}) go_tls_suites
   \<and> list_all (\<lambda>s. cipher_name s \<noteq> None) go_tls_suites
   \<and> split_on (CHR '':'') (tls_cipher_list (go_emulation GoBoring)) =
       List.map_filter cipher_name go_boring_suites
   \<and> list_all (\<lambda>n. \<not> contains_str ''CHACHA20'' n)
       (split_on (CHR '':'') (tls_cipher_list (go_emulation GoBoring)))
   \<and> list_ex (contains_str ''CHACHA20'') (split_on (CHR '':'') (tls_cipher_list (go_emulation GoTls)))"
proof -
  have "is_custom p \<longleftrightarrow> browser_emulation p = None"
    by (cases p) (simp_all add: is_custom_def)
  moreover have "split_on (CHR '':'') (tls_cipher_list (go_emulation GoBoring)) =
       List.map_filter cipher_name go_boring_suites
   \<and> list_all (\<lambda>n. \<not> contains_str ''CHACHA20'' n)
       (split_on (CHR '':'') (tls_cipher_list (go_emulation GoBoring)))
   \<and> list_ex (contains_str ''CHACHA20'') (split_on (CHR '':'') (tls_cipher_list (go_emulation GoTls)))"
    by code_simp
  moreover have "go_boring_suites = filter (\<lambda>s. s \<notin> {0xCCA8, 0xCCA9}) go_tls_suites
   \<and> list_all (\<lambda>s. cipher_name s \<noteq> None) go_tls_suites" by code_simp
  moreover have "emulation_provider GoBoring = Inr (go_emulation GoBoring)"
    by (simp add: emulation_provider_def)
  ultimately show ?thesis by blast
qed

section \<open>Requests and responses\<close>

datatype http_method = GET | POST | OtherMethod string

record http_request =
  rq_method :: http_method
  rq_url :: string
  rq_profile :: profile
  rq_headers :: "(string \<times> string) list"
  rq_body :: "u8 list option"
  rq_timeout_ms :: u32
  rq_proxy :: "string option"
  rq_verify_ssl :: bool
  rq_cookie_store :: bool

definition request_new :: "http_method \<Rightarrow> string \<Rightarrow> http_request" where
  "request_new method url =
     \<lparr>rq_method = method, rq_url = url, rq_profile = Chrome, rq_headers = [], rq_body = None,
      rq_timeout_ms = 60000, rq_proxy = None, rq_verify_ssl = True, rq_cookie_store = False\<rparr>"

definition request_get :: "string \<Rightarrow> http_request" where
  "request_get url = request_new GET url"

definition request_post :: "string \<Rightarrow> http_request" where
  "request_post url = request_new POST url"

definition with_profile :: "profile \<Rightarrow> http_request \<Rightarrow> http_request" where
  "with_profile p r = r\<lparr>rq_profile := p\<rparr>"

definition with_header :: "string \<Rightarrow> string \<Rightarrow> http_request \<Rightarrow> http_request" where
  "with_header name v r = r\<lparr>rq_headers := rq_headers r @ [(name, v)]\<rparr>"

definition with_body :: "u8 list \<Rightarrow> http_request \<Rightarrow> http_request" where
  "with_body b r = r\<lparr>rq_body := Some b\<rparr>"

definition with_json :: "serde \<Rightarrow> json \<Rightarrow> http_request \<Rightarrow> http_request" where
  "with_json sj v r =
     with_header ''content-type'' ''application/json'' (r\<lparr>rq_body := Some (str_bytes (to_compact sj v))\<rparr>)"

definition with_timeout_ms :: "u32 \<Rightarrow> http_request \<Rightarrow> http_request" where
  "with_timeout_ms ms r = r\<lparr>rq_timeout_ms := ms\<rparr>"

definition with_proxy :: "string option \<Rightarrow> http_request \<Rightarrow> http_request" where
  "with_proxy p r = r\<lparr>rq_proxy := p\<rparr>"

definition with_cookie_store :: "bool \<Rightarrow> http_request \<Rightarrow> http_request" where
  "with_cookie_store b r = r\<lparr>rq_cookie_store := b\<rparr>"

record http_response =
  rp_status :: u16
  rp_headers :: "(string \<times> string) list"
  rp_body :: "u8 list"

definition is_success :: "http_response \<Rightarrow> bool" where
  "is_success r \<longleftrightarrow> 200 \<le> rp_status r \<and> rp_status r < 300"

definition response_text_lossy :: "http_response \<Rightarrow> string" where
  "response_text_lossy r = from_utf8_lossy (rp_body r)"

definition response_json :: "serde \<Rightarrow> http_response \<Rightarrow> error + json" where
  "response_json sj r =
     (case Option.bind (from_utf8 (rp_body r)) (from_text sj) of
        None \<Rightarrow> Inl (Network ''invalid JSON response'')
      | Some v \<Rightarrow> Inr v)"

definition response_header :: "http_response \<Rightarrow> string \<Rightarrow> string option" where
  "response_header r name = map_of (rp_headers r) name"

section \<open>The client cache\<close>

record client_key =
  ck_profile :: profile
  ck_proxy :: "string option"
  ck_verify_ssl :: bool
  ck_cookie_store :: bool

record http_client =
  hc_cache :: "client_key \<rightharpoonup> nat"
  hc_built :: nat

definition http_client_new :: http_client where
  "http_client_new = \<lparr>hc_cache = Map.empty, hc_built = 0\<rparr>"

text \<open>
  What the \<open>wreq\<close> crate refuses, with the text of its error, and the quoted form \<open>{:?}\<close> of a string.
\<close>

record wreq =
  wq_proxy_error :: "string \<Rightarrow> string option"
  wq_build_error :: "client_key \<Rightarrow> string option"
  wq_header_name :: "string \<Rightarrow> string + string"
  wq_header_value :: "string \<Rightarrow> string + string"
  wq_debug :: "string \<Rightarrow> string"

definition proxy_refused :: "wreq \<Rightarrow> string option \<Rightarrow> error option" where
  "proxy_refused wq proxy =
     Option.bind proxy
       (\<lambda>p. map_option (\<lambda>e. Network (''invalid proxy '' @ wq_debug wq p @ '': '' @ e)) (wq_proxy_error wq p))"

definition key_of_request :: "http_request \<Rightarrow> client_key" where
  "key_of_request r =
     \<lparr>ck_profile = rq_profile r, ck_proxy = rq_proxy r, ck_verify_ssl = rq_verify_ssl r,
      ck_cookie_store = rq_cookie_store r\<rparr>"

definition client_for :: "wreq \<Rightarrow> http_request \<Rightarrow> http_client \<Rightarrow> (error + nat) \<times> http_client" where
  "client_for wq req hc =
     (let key = key_of_request req
      in (case hc_cache hc key of
            Some c \<Rightarrow> (Inr c, hc)
          | None \<Rightarrow>
              (case proxy_refused wq (rq_proxy req) of
                 Some e \<Rightarrow> (Inl e, hc)
               | None \<Rightarrow>
                   (case wq_build_error wq key of
                      Some e \<Rightarrow> (Inl (Network (''failed to build HTTP client: '' @ e)), hc)
                    | None \<Rightarrow>
                        (Inr (hc_built hc),
                         \<lparr>hc_cache = (hc_cache hc)(key \<mapsto> hc_built hc), hc_built = hc_built hc + 1\<rparr>)))))"

record prepared =
  pp_client :: nat
  pp_method :: http_method
  pp_url :: string
  pp_headers :: "(string \<times> string) list"
  pp_timeout :: duration
  pp_body :: "u8 list option"

fun parse_headers :: "wreq \<Rightarrow> (string \<times> string) list \<Rightarrow> error + (string \<times> string) list" where
  "parse_headers wq [] = Inr []"
| "parse_headers wq ((name, v) # hs) =
     (case wq_header_name wq name of
        Inl e \<Rightarrow> Inl (Network (''invalid header name '' @ wq_debug wq name @ '': '' @ e))
      | Inr hn \<Rightarrow>
          (case wq_header_value wq v of
             Inl e \<Rightarrow> Inl (Network (''invalid header value for '' @ wq_debug wq name @ '': '' @ e))
           | Inr hv \<Rightarrow>
               (case parse_headers wq hs of Inl e \<Rightarrow> Inl e | Inr r \<Rightarrow> Inr ((hn, hv) # r))))"

definition prepare :: "wreq \<Rightarrow> http_request \<Rightarrow> http_client \<Rightarrow> (error + prepared) \<times> http_client" where
  "prepare wq req hc =
     (case client_for wq req hc of
        (Inl e, hc') \<Rightarrow> (Inl e, hc')
      | (Inr c, hc') \<Rightarrow>
          (case parse_headers wq (rq_headers req) of
             Inl e \<Rightarrow> (Inl e, hc')
           | Inr hs \<Rightarrow>
               (Inr \<lparr>pp_client = c, pp_method = rq_method req, pp_url = rq_url req, pp_headers = hs,
                     pp_timeout = unat (rq_timeout_ms req) * 1000000, pp_body = rq_body req\<rparr>, hc')))"

text \<open>Keys map to distinct clients that exist.\<close>

definition cache_ok :: "http_client \<Rightarrow> bool" where
  "cache_ok hc \<longleftrightarrow>
     (\<forall>k c. hc_cache hc k = Some c \<longrightarrow> c < hc_built hc) \<and> inj_on (hc_cache hc) (dom (hc_cache hc))"

lemma cache_ok_new: "cache_ok http_client_new"
  by (simp add: cache_ok_def http_client_new_def)

lemma client_for_cases:
  obtains (hit) c where "client_for wq req hc = (Inr c, hc)" "hc_cache hc (key_of_request req) = Some c"
  | (failed) e where "client_for wq req hc = (Inl e, hc)"
  | (built) "hc_cache hc (key_of_request req) = None"
      "client_for wq req hc = (Inr (hc_built hc),
         \<lparr>hc_cache = (hc_cache hc)(key_of_request req \<mapsto> hc_built hc), hc_built = hc_built hc + 1\<rparr>)"
proof -
  have "(\<exists>c. client_for wq req hc = (Inr c, hc) \<and> hc_cache hc (key_of_request req) = Some c)
      \<or> (\<exists>e. client_for wq req hc = (Inl e, hc))
      \<or> (hc_cache hc (key_of_request req) = None
          \<and> client_for wq req hc = (Inr (hc_built hc),
              \<lparr>hc_cache = (hc_cache hc)(key_of_request req \<mapsto> hc_built hc), hc_built = hc_built hc + 1\<rparr>))"
    by (auto simp: client_for_def Let_def split: option.split)
  then show thesis using hit failed built by blast
qed

lemma cache_ok_client_for:
  assumes "cache_ok hc" and "client_for wq req hc = (r, hc')"
  shows "cache_ok hc'" and "hc_cache hc \<subseteq>\<^sub>m hc_cache hc'"
    and "r = Inr c \<Longrightarrow> hc_cache hc' (key_of_request req) = Some c"
proof -
  have "cache_ok hc' \<and> hc_cache hc \<subseteq>\<^sub>m hc_cache hc'
      \<and> (r = Inr c \<longrightarrow> hc_cache hc' (key_of_request req) = Some c)"
  proof (cases rule: client_for_cases [of wq req hc])
    case (built)
    have "\<forall>k. hc_cache hc k \<noteq> Some (hc_built hc)"
      using assms(1) by (auto simp: cache_ok_def)
    then have "inj_on ((hc_cache hc)(key_of_request req \<mapsto> hc_built hc))
        (insert (key_of_request req) (dom (hc_cache hc)))"
      using assms(1) built(1) by (auto simp: cache_ok_def inj_on_def)
    then show ?thesis
      using assms built by (auto simp: cache_ok_def map_le_def less_Suc_eq split: if_splits)
  qed (use assms in auto)
  then show "cache_ok hc'" and "hc_cache hc \<subseteq>\<^sub>m hc_cache hc'"
    and "r = Inr c \<Longrightarrow> hc_cache hc' (key_of_request req) = Some c" by blast+
qed

fun clients_for :: "wreq \<Rightarrow> http_request list \<Rightarrow> http_client \<Rightarrow> (http_request \<times> nat) list \<times> http_client" where
  "clients_for wq [] hc = ([], hc)"
| "clients_for wq (req # reqs) hc =
     (let (r, hc1) = client_for wq req hc; (rs, hc2) = clients_for wq reqs hc1
      in ((case r of Inl _ \<Rightarrow> rs | Inr c \<Rightarrow> (req, c) # rs), hc2))"

lemma clients_for_cached:
  "cache_ok hc \<Longrightarrow> clients_for wq reqs hc = (rs, hc') \<Longrightarrow>
   cache_ok hc' \<and> hc_cache hc \<subseteq>\<^sub>m hc_cache hc'
   \<and> (\<forall>(req, c)\<in>set rs. hc_cache hc' (key_of_request req) = Some c)"
proof (induction reqs arbitrary: hc rs hc')
  case Nil
  then show ?case by simp
next
  case (Cons req reqs)
  obtain r hc1 where c: "client_for wq req hc = (r, hc1)" by (cases "client_for wq req hc")
  obtain rs2 hc2 where cs: "clients_for wq reqs hc1 = (rs2, hc2)" by (cases "clients_for wq reqs hc1")
  note step = cache_ok_client_for [OF Cons.prems(1) c]
  have hc2: "hc2 = hc'" using Cons.prems(2) c cs by (simp add: Let_def)
  have IH: "cache_ok hc2" "hc_cache hc1 \<subseteq>\<^sub>m hc_cache hc2"
    "\<forall>(req, c)\<in>set rs2. hc_cache hc2 (key_of_request req) = Some c"
    using Cons.IH [OF step(1) cs] by blast+
  have "hc_cache hc2 (key_of_request req) = Some c0" if "r = Inr c0" for c0
    using step(3) [OF that] IH(2) by (auto simp: map_le_def dom_def)
  then show ?case
    using Cons.prems(2) c cs IH step(2) hc2 by (auto simp: Let_def intro: map_le_trans split: sum.splits)
qed

text \<open>
  Which requests share a client.  Over any sequence of requests on a fresh client, two successful
  lookups return the same underlying client exactly when profile, proxy, TLS verification and cookie
  setting agree: connections and cookies are never shared across these, and never duplicated within.
\<close>

theorem clients_shared_by_key:
  "\<forall>(r1, c1)\<in>set (fst (clients_for wq reqs http_client_new)).
   \<forall>(r2, c2)\<in>set (fst (clients_for wq reqs http_client_new)).
     c1 = c2 \<longleftrightarrow> rq_profile r1 = rq_profile r2 \<and> rq_proxy r1 = rq_proxy r2
                \<and> rq_verify_ssl r1 = rq_verify_ssl r2 \<and> rq_cookie_store r1 = rq_cookie_store r2"
proof -
  obtain rs hc where c: "clients_for wq reqs http_client_new = (rs, hc)"
    by (cases "clients_for wq reqs http_client_new")
  from clients_for_cached [OF cache_ok_new c]
  have ok: "inj_on (hc_cache hc) (dom (hc_cache hc))"
    and mem: "\<forall>(req, c)\<in>set rs. hc_cache hc (key_of_request req) = Some c"
    by (auto simp: cache_ok_def)
  have "c1 = c2 \<longleftrightarrow> key_of_request r1 = key_of_request r2" if "(r1, c1) \<in> set rs" "(r2, c2) \<in> set rs" for r1 c1 r2 c2
  proof -
    have "hc_cache hc (key_of_request r1) = Some c1" "hc_cache hc (key_of_request r2) = Some c2"
      using mem that by auto
    then show ?thesis using ok by (metis domI inj_onD option.inject)
  qed
  then show ?thesis using c by (fastforce simp: key_of_request_def)
qed

definition lenient_wreq :: wreq where
  "lenient_wreq =
     \<lparr>wq_proxy_error = \<lambda>_. None, wq_build_error = \<lambda>_. None, wq_header_name = Inr, wq_header_value = Inr, wq_debug = \<lambda>s. s\<rparr>"

lemma clients_shared_by_key_witness:
  "fst (clients_for lenient_wreq
          [request_get ''https://a'', with_cookie_store True (request_get ''https://a'')] http_client_new) =
     [(request_get ''https://a'', 0), (with_cookie_store True (request_get ''https://a''), 1)]
   \<and> rq_cookie_store (request_get ''https://a'')
       \<noteq> rq_cookie_store (with_cookie_store True (request_get ''https://a''))"
proof -
  let ?a = "request_get ''https://a''" and ?c = "with_cookie_store True (request_get ''https://a'')"
  have "key_of_request ?c \<noteq> key_of_request ?a"
    by (simp add: key_of_request_def with_cookie_store_def request_get_def request_new_def)
  moreover have "rq_proxy ?a = None" "rq_proxy ?c = None"
    by (simp_all add: with_cookie_store_def request_get_def request_new_def)
  ultimately have e: "fst (clients_for lenient_wreq [?a, ?c] http_client_new) = [(?a, 0), (?c, 1)]"
    by (simp add: client_for_def proxy_refused_def http_client_new_def lenient_wreq_def Let_def)
  have "(0 :: nat) = 1 \<longleftrightarrow> rq_profile ?a = rq_profile ?c \<and> rq_proxy ?a = rq_proxy ?c
      \<and> rq_verify_ssl ?a = rq_verify_ssl ?c \<and> rq_cookie_store ?a = rq_cookie_store ?c"
    using clients_shared_by_key [of lenient_wreq "[?a, ?c]"] unfolding e by simp
  then have "rq_cookie_store ?a \<noteq> rq_cookie_store ?c"
    by (simp add: with_cookie_store_def request_get_def request_new_def)
  then show ?thesis using e by blast
qed

section \<open>Transports\<close>

text \<open>
  The seam between the providers and the network: an operation that takes a request and answers with
  a response, changing the transport's state.  The contract the tests rely on is that every request is
  captured, in order.
\<close>

locale recording_transport =
  fixes deliver :: "http_request \<Rightarrow> 't \<Rightarrow> (error + 'r) \<times> 't"
    and captured :: "'t \<Rightarrow> http_request list"
  assumes captured_deliver: "captured (snd (deliver req t)) = captured t @ [req]"
begin

definition deliver_all :: "http_request list \<Rightarrow> 't \<Rightarrow> 't" where
  "deliver_all reqs t = fold (\<lambda>r t. snd (deliver r t)) reqs t"

lemma captured_all: "captured (deliver_all reqs t) = captured t @ reqs"
  by (induction reqs arbitrary: t) (simp_all add: deliver_all_def captured_deliver)

end

record mock_transport =
  mk_requests :: "http_request list"
  mk_status :: u16
  mk_body :: "u8 list"

definition mock_with_status :: "u16 \<Rightarrow> u8 list \<Rightarrow> mock_transport" where
  "mock_with_status status body = \<lparr>mk_requests = [], mk_status = status, mk_body = body\<rparr>"

definition mock_ok :: "u8 list \<Rightarrow> mock_transport" where
  "mock_ok body = mock_with_status 200 body"

definition mock_record :: "http_request \<Rightarrow> mock_transport \<Rightarrow> mock_transport" where
  "mock_record req t = t\<lparr>mk_requests := mk_requests t @ [req]\<rparr>"

definition mock_last :: "mock_transport \<Rightarrow> http_request option" where
  "mock_last t = (if mk_requests t = [] then None else Some (last (mk_requests t)))"

definition mock_send :: "http_request \<Rightarrow> mock_transport \<Rightarrow> (error + http_response) \<times> mock_transport" where
  "mock_send req t =
     (let t' = mock_record req t
      in (Inr \<lparr>rp_status = mk_status t', rp_headers = [], rp_body = mk_body t'\<rparr>, t'))"

definition mock_stream ::
    "http_request \<Rightarrow> mock_transport
       \<Rightarrow> (error + u16 \<times> (string \<times> string) list \<times> (error + u8 list) list) \<times> mock_transport" where
  "mock_stream req t =
     (let t' = mock_record req t in (Inr (mk_status t', [], [Inr (mk_body t')]), t'))"

interpretation mock_send: recording_transport mock_send mk_requests
  by unfold_locales (simp add: mock_send_def mock_record_def Let_def)

interpretation mock_stream: recording_transport mock_stream mk_requests
  by unfold_locales (simp add: mock_stream_def mock_record_def Let_def)

lemma mock_last_sent:
  "reqs \<noteq> [] \<Longrightarrow> mock_last (mock_send.deliver_all reqs t) = Some (last reqs)"
  using mock_send.captured_all [of reqs t] by (simp add: mock_last_def)

end
