(* ===== verification/Conversations.thy ===== *)
theory Conversations
  imports Errors
begin

text \<open>
  Canonical histories and remote-session checkpoints (\<open>gravity-core/src/conversation.rs\<close>).

  \<open>slot_table\<close> is the contract of the checkpoint list of one conversation: a table with at most one
  slot per (provider, account), whose dead slots are invisible.  Its operations simulate updates of a
  map, which gives what a lookup returns after any run of operations.
\<close>

section \<open>Conversations\<close>

record canonical_turn =
  ct_turn_id :: string
  ct_request :: "message list"
  ct_response :: "message list"
  ct_created_at :: datetime
  ct_metadata :: metadata

record conversation =
  cv_key :: string
  cv_history_mode :: history_mode
  cv_system_prompt :: "string option"
  cv_title :: "string option"
  cv_persistent :: bool
  cv_turns :: "canonical_turn list"
  cv_history_version :: u64
  cv_metadata :: metadata

definition conversation_new :: "string \<Rightarrow> conversation" where
  "conversation_new key =
     \<lparr>cv_key = key, cv_history_mode = HistAuto, cv_system_prompt = None, cv_title = None,
      cv_persistent = False, cv_turns = [], cv_history_version = 0, cv_metadata = metadata_new\<rparr>"

definition append_turn :: "canonical_turn \<Rightarrow> conversation \<Rightarrow> conversation" where
  "append_turn turn c =
     c\<lparr>cv_turns := cv_turns c @ [turn], cv_history_version := cv_history_version c + 1\<rparr>"

definition turn_messages :: "canonical_turn \<Rightarrow> message list" where
  "turn_messages t = ct_request t @ ct_response t"

definition iter_messages :: "bool \<Rightarrow> conversation \<Rightarrow> message list" where
  "iter_messages include_system_prompt c =
     (if include_system_prompt
      then (case cv_system_prompt c of None \<Rightarrow> [] | Some sp \<Rightarrow> [message_system sp]) else [])
     @ concat (map turn_messages (cv_turns c))"

text \<open>The version counts the turns (modulo the width of the counter).\<close>

definition conversation_ok :: "conversation \<Rightarrow> bool" where
  "conversation_ok c \<longleftrightarrow> cv_history_version c = of_nat (length (cv_turns c))"

lemma conversation_ok_new [simp]: "conversation_ok (conversation_new key)"
  by (simp add: conversation_ok_def conversation_new_def)

lemma conversation_ok_append: "conversation_ok c \<Longrightarrow> conversation_ok (append_turn t c)"
  by (simp add: conversation_ok_def append_turn_def)

lemma append_turn_simps [core_simps]:
  "cv_turns (append_turn t c) = cv_turns c @ [t]"
  "cv_key (append_turn t c) = cv_key c"
  "cv_system_prompt (append_turn t c) = cv_system_prompt c"
  "cv_persistent (append_turn t c) = cv_persistent c"
  "iter_messages b (append_turn t c) = iter_messages b c @ turn_messages t"
  by (simp_all add: append_turn_def iter_messages_def)

lemma fold_append_turn:
  "cv_turns (fold append_turn ts c) = cv_turns c @ ts
   \<and> cv_history_version (fold append_turn ts c) = cv_history_version c + of_nat (length ts)
   \<and> iter_messages b (fold append_turn ts c) = iter_messages b c @ concat (map turn_messages ts)"
  by (induction ts arbitrary: c) (simp_all add: core_simps, simp add: append_turn_def)

text \<open>
  A conversation built by appending turns holds exactly those turns in order, its version is
  their number, and its flattened history is the requests and responses turn by turn.  Two
  prefixes of the same history that differ in length by less than the counter's range have
  different versions, so a checkpoint pinned to a version detects every later turn.
\<close>

theorem history_version_counts_turns:
  assumes "n < m" and "m \<le> length ts" and "m - n < 2 ^ 64"
  shows "cv_turns (fold append_turn ts (conversation_new key)) = ts
   \<and> cv_history_version (fold append_turn ts (conversation_new key)) = of_nat (length ts)
   \<and> iter_messages False (fold append_turn ts (conversation_new key)) =
       concat (map turn_messages ts)
   \<and> cv_history_version (fold append_turn (take n ts) (conversation_new key))
       \<noteq> cv_history_version (fold append_turn (take m ts) (conversation_new key))"
proof -
  have "of_nat m - of_nat n \<noteq> (0 :: u64)"
  proof -
    have "unat (of_nat (m - n) :: u64) = m - n"
      using assms(3) by (simp add: unat_of_nat take_bit_nat_eq_self)
    with assms(1) have "of_nat (m - n) \<noteq> (0 :: u64)" by (metis unat_0 zero_less_diff less_numeral_extra(3))
    with assms(1) show ?thesis by simp
  qed
  then have "of_nat n \<noteq> (of_nat m :: u64)" by auto
  with assms show ?thesis
    using fold_append_turn [of _ "conversation_new key"]
    by (simp add: conversation_new_def iter_messages_def)
qed

definition sample_turn :: "string \<Rightarrow> canonical_turn" where
  "sample_turn i =
     \<lparr>ct_turn_id = i, ct_request = [message_user ''q''], ct_response = [message_assistant ''a''],
      ct_created_at = 0, ct_metadata = metadata_new\<rparr>"

theorem history_version_counts_turns_witness:
  "cv_history_version (fold append_turn [sample_turn ''1'', sample_turn ''2''] (conversation_new ''k'')) = 2
   \<and> cv_history_version (fold append_turn (take 1 [sample_turn ''1'', sample_turn ''2'']) (conversation_new ''k''))
     \<noteq> cv_history_version (fold append_turn (take 2 [sample_turn ''1'', sample_turn ''2'']) (conversation_new ''k''))"
  using history_version_counts_turns
    [of 1 2 "[sample_turn ''1'', sample_turn ''2'']" "''k''"]
  by auto

section \<open>Checkpoint tables\<close>

locale slot_table =
  fixes fresh :: 's
    and put :: "'v \<Rightarrow> 's \<Rightarrow> 's"
    and drop_key :: "'k \<Rightarrow> 's \<Rightarrow> 's"
    and look :: "'s \<Rightarrow> 'k \<Rightarrow> 'v option"
    and key_of :: "'v \<Rightarrow> 'k"
    and live :: "'v \<Rightarrow> bool"
    and inv :: "'s \<Rightarrow> bool"
  assumes inv_fresh: "inv fresh"
    and inv_put: "inv s \<Longrightarrow> inv (put v s)"
    and inv_drop: "inv s \<Longrightarrow> inv (drop_key k s)"
    and look_fresh: "look fresh k = None"
    and look_put: "inv s \<Longrightarrow> look (put v s) =
          (look s)(key_of v := (if live v then Some v else None))"
    and look_drop: "inv s \<Longrightarrow> look (drop_key k s) = (look s)(k := None)"
begin

text \<open>An operation is an insertion (\<open>Inl\<close>) or an invalidation (\<open>Inr\<close>); \<open>op_key\<close> is the slot it touches.\<close>

definition step :: "'v + 'k \<Rightarrow> 's \<Rightarrow> 's" where
  "step op s = (case op of Inl v \<Rightarrow> put v s | Inr k \<Rightarrow> drop_key k s)"

definition op_key :: "'v + 'k \<Rightarrow> 'k" where
  "op_key op = (case op of Inl v \<Rightarrow> key_of v | Inr k \<Rightarrow> k)"

definition op_value :: "'v + 'k \<Rightarrow> 'v option" where
  "op_value op = (case op of Inl v \<Rightarrow> if live v then Some v else None | Inr k \<Rightarrow> None)"

lemma inv_run: "inv s \<Longrightarrow> inv (fold step ops s)"
  by (induction ops arbitrary: s) (auto simp: step_def inv_put inv_drop split: sum.split)

lemma look_step: "inv s \<Longrightarrow> look (step op s) = (look s)(op_key op := op_value op)"
  by (auto simp: step_def op_key_def op_value_def look_put look_drop split: sum.split)

lemma look_run:
  "inv s \<Longrightarrow> look (fold step ops s) k =
     (case find (\<lambda>op. op_key op = k) (rev ops) of Some op \<Rightarrow> op_value op | None \<Rightarrow> look s k)"
proof (induction ops rule: rev_induct)
  case Nil
  then show ?case by simp
next
  case (snoc op ops)
  then show ?case by (simp add: look_step inv_run)
qed

end

record checkpoint =
  cp_conversation_key :: string
  cp_provider :: provider_name
  cp_account_id :: string
  cp_remote_conversation_id :: "string option"
  cp_remote_parent_id :: "string option"
  cp_remote_metadata :: metadata
  cp_history_version :: u64
  cp_updated_at :: datetime
  cp_is_valid :: bool

record runtime_state =
  rt_canonical :: conversation
  rt_checkpoints :: "checkpoint list"

definition runtime_new :: "conversation \<Rightarrow> runtime_state" where
  "runtime_new c = \<lparr>rt_canonical = c, rt_checkpoints = []\<rparr>"

definition cp_key :: "checkpoint \<Rightarrow> provider_name \<times> string" where
  "cp_key c = (cp_provider c, cp_account_id c)"

definition invalidate :: "provider_name \<Rightarrow> string \<Rightarrow> runtime_state \<Rightarrow> runtime_state" where
  "invalidate p a s =
     s\<lparr>rt_checkpoints := map (\<lambda>c. if cp_provider c = p \<and> cp_account_id c = a
                                   then c\<lparr>cp_is_valid := False\<rparr> else c) (rt_checkpoints s)\<rparr>"

definition get_checkpoint :: "runtime_state \<Rightarrow> provider_name \<Rightarrow> string \<Rightarrow> checkpoint option" where
  "get_checkpoint s p a =
     find (\<lambda>c. cp_provider c = p \<and> cp_account_id c = a \<and> cp_is_valid c) (rt_checkpoints s)"

definition upsert_checkpoint :: "checkpoint \<Rightarrow> runtime_state \<Rightarrow> runtime_state" where
  "upsert_checkpoint cp s =
     (let same = (\<lambda>c. cp_provider c = cp_provider cp \<and> cp_account_id c = cp_account_id cp)
      in s\<lparr>rt_checkpoints :=
             (if (\<exists>c\<in>set (rt_checkpoints s). same c)
              then update_first same (\<lambda>_. cp) (rt_checkpoints s)
              else rt_checkpoints s @ [cp])\<rparr>)"

text \<open>At most one checkpoint per (provider, account).\<close>

definition checkpoints_ok :: "runtime_state \<Rightarrow> bool" where
  "checkpoints_ok s \<longleftrightarrow> distinct (map cp_key (rt_checkpoints s))"

lemma cp_key_eq: "cp_provider c = cp_provider d \<and> cp_account_id c = cp_account_id d \<longleftrightarrow> cp_key c = cp_key d"
  by (simp add: cp_key_def)

lemma get_checkpoint_keyed:
  "get_checkpoint s p a = find (\<lambda>c. cp_key c = (p, a) \<and> cp_is_valid c) (rt_checkpoints s)"
  by (simp add: get_checkpoint_def cp_key_def)

lemma map_key_update_first:
  "map cp_key (update_first (\<lambda>c. cp_key c = cp_key cp) (\<lambda>_. cp) cs) = map cp_key cs"
  by (induction cs) auto

lemma checkpoints_ok_upsert: "checkpoints_ok s \<Longrightarrow> checkpoints_ok (upsert_checkpoint cp s)"
  by (auto simp: checkpoints_ok_def upsert_checkpoint_def Let_def cp_key_eq map_key_update_first)

lemma map_key_invalidate:
  "map cp_key (rt_checkpoints (invalidate p a s)) = map cp_key (rt_checkpoints s)"
  by (simp add: invalidate_def cp_key_def comp_def)

lemma checkpoints_ok_invalidate: "checkpoints_ok s \<Longrightarrow> checkpoints_ok (invalidate p a s)"
  by (simp add: checkpoints_ok_def map_key_invalidate)

lemma find_live_update_first:
  assumes "distinct (map cp_key cs)" and "\<exists>c\<in>set cs. cp_key c = cp_key cp"
  shows "find (\<lambda>c. cp_key c = k \<and> cp_is_valid c) (update_first (\<lambda>c. cp_key c = cp_key cp) (\<lambda>_. cp) cs) =
     (if k = cp_key cp then (if cp_is_valid cp then Some cp else None)
      else find (\<lambda>c. cp_key c = k \<and> cp_is_valid c) cs)"
  using assms
proof (induction cs)
  case Nil
  then show ?case by simp
next
  case (Cons c cs)
  show ?case
  proof (cases "cp_key c = cp_key cp")
    case True
    with Cons.prems(1) have "find (\<lambda>c. cp_key c = cp_key cp \<and> cp_is_valid c) cs = None"
      by (auto simp: find_None_set image_iff)
    with True show ?thesis by auto
  next
    case False
    with Cons show ?thesis by auto
  qed
qed

lemma get_upsert:
  assumes "checkpoints_ok s"
  shows "get_checkpoint (upsert_checkpoint cp s) p a =
     (if (p, a) = cp_key cp then (if cp_is_valid cp then Some cp else None)
      else get_checkpoint s p a)"
proof (cases "\<exists>c\<in>set (rt_checkpoints s). cp_key c = cp_key cp")
  case True
  with assms show ?thesis
    by (simp add: get_checkpoint_keyed upsert_checkpoint_def Let_def cp_key_eq checkpoints_ok_def
        find_live_update_first)
next
  case False
  then have "find (\<lambda>c. cp_key c = cp_key cp \<and> cp_is_valid c) (rt_checkpoints s) = None"
    by (auto simp: find_None_set)
  with False show ?thesis
    by (auto simp: get_checkpoint_keyed upsert_checkpoint_def Let_def cp_key_eq find_append
        split: option.splits)
qed

lemma find_map_invalid:
  "find (\<lambda>c. cp_key c = k \<and> cp_is_valid c)
     (map (\<lambda>c. if cp_provider c = p \<and> cp_account_id c = a then c\<lparr>cp_is_valid := False\<rparr> else c) cs) =
   (if k = (p, a) then None else find (\<lambda>c. cp_key c = k \<and> cp_is_valid c) cs)"
  by (induction cs) (auto simp: cp_key_def)

lemma get_invalidate:
  "get_checkpoint (invalidate p a s) p' a' =
     (if (p', a') = (p, a) then None else get_checkpoint s p' a')"
  by (simp add: get_checkpoint_keyed invalidate_def find_map_invalid)

lemma get_new: "get_checkpoint (runtime_new c) p a = None"
  by (simp add: get_checkpoint_def runtime_new_def)

lemma checkpoints_ok_new: "checkpoints_ok (runtime_new c)"
  by (simp add: checkpoints_ok_def runtime_new_def)

interpretation checkpoints: slot_table "runtime_new c" upsert_checkpoint
    "\<lambda>(p, a). invalidate p a" "\<lambda>s (p, a). get_checkpoint s p a" cp_key cp_is_valid checkpoints_ok
  for c
  by unfold_locales
    (auto simp: checkpoints_ok_new checkpoints_ok_upsert checkpoints_ok_invalidate get_new
      get_upsert get_invalidate fun_eq_iff split: if_splits)

text \<open>A run of checkpoint operations: \<open>Inl\<close> is \<open>upsert_checkpoint\<close>, \<open>Inr\<close> is \<open>invalidate\<close>.\<close>

definition checkpoint_op :: "checkpoint + provider_name \<times> string \<Rightarrow> runtime_state \<Rightarrow> runtime_state" where
  "checkpoint_op op s =
     (case op of Inl cp \<Rightarrow> upsert_checkpoint cp s | Inr (p, a) \<Rightarrow> invalidate p a s)"

definition checkpoint_op_key :: "checkpoint + provider_name \<times> string \<Rightarrow> provider_name \<times> string" where
  "checkpoint_op_key op = (case op of Inl cp \<Rightarrow> cp_key cp | Inr k \<Rightarrow> k)"

lemma checkpoint_op_step: "checkpoint_op = checkpoints.step"
  by (auto simp: fun_eq_iff checkpoint_op_def checkpoints.step_def split: sum.split)

text \<open>
  After any run of upserts and invalidations, the table has one slot per (provider, account), and
  a lookup returns the checkpoint of the last operation on its key when that was an upsert of a
  valid checkpoint, and nothing when it was an invalidation, an invalid upsert, or when no
  operation touched the key.
\<close>

theorem checkpoint_table_run:
  "checkpoints_ok (fold checkpoint_op ops (runtime_new c))
   \<and> get_checkpoint (fold checkpoint_op ops (runtime_new c)) p a =
       (case find (\<lambda>op. checkpoint_op_key op = (p, a)) (rev ops) of
          Some (Inl cp) \<Rightarrow> if cp_is_valid cp then Some cp else None
        | _ \<Rightarrow> None)"
proof -
  have keys: "checkpoint_op_key = checkpoints.op_key"
    by (simp add: fun_eq_iff checkpoint_op_key_def checkpoints.op_key_def)
  have "checkpoints_ok (fold checkpoint_op ops (runtime_new c))"
    unfolding checkpoint_op_step by (rule checkpoints.inv_run) (rule checkpoints_ok_new)
  moreover have "get_checkpoint (fold checkpoint_op ops (runtime_new c)) p a =
      (case find (\<lambda>op. checkpoint_op_key op = (p, a)) (rev ops) of
         Some op \<Rightarrow> checkpoints.op_value op | None \<Rightarrow> get_checkpoint (runtime_new c) p a)"
    using checkpoints.look_run [OF checkpoints_ok_new, of ops c "(p, a)"]
    unfolding checkpoint_op_step keys by (simp split: option.splits)
  ultimately show ?thesis
    by (auto simp: get_new checkpoints.op_value_def split: option.split sum.split)
qed

end
