(* ===== verification/Accounts.thy ===== *)
theory Accounts
  imports Capabilities Json
begin

text \<open>
  The account, credential and transport data of \<open>gravity-core/src/accounts.rs\<close>, with the constructors'
  defaults and the access paths through the bundles of a file.

  A \<open>BTreeMap\<close> is a finite map from keys to values; the optional fields are \<open>option\<close>s.
\<close>

section \<open>Data\<close>

record quota_window =
  qw_limit :: "u64 option"
  qw_remaining :: "u64 option"
  qw_reset_at :: "datetime option"

record quota_state =
  qs_requests :: "quota_window option"
  qs_tokens :: "quota_window option"
  qs_concurrency_limit :: "u32 option"
  qs_cooldown_until :: "datetime option"
  qs_last_rate_limit_at :: "datetime option"

definition quota_state_default :: quota_state where
  "quota_state_default =
     \<lparr>qs_requests = None, qs_tokens = None, qs_concurrency_limit = None, qs_cooldown_until = None,
      qs_last_rate_limit_at = None\<rparr>"

record rotation_state =
  rs_state :: string
  rs_consecutive_failures :: u32
  rs_last_error_code :: "string option"
  rs_last_error_at :: "datetime option"
  rs_last_ok_at :: "datetime option"
  rs_cooldown_until :: "datetime option"

definition rotation_state_default :: rotation_state where
  "rotation_state_default =
     \<lparr>rs_state = ''healthy'', rs_consecutive_failures = 0, rs_last_error_code = None,
      rs_last_error_at = None, rs_last_ok_at = None, rs_cooldown_until = None\<rparr>"

record transport_config =
  tp_base_url :: string
  tp_timeout_ms :: u32
  tp_impersonate :: "string option"
  tp_proxy_url :: "string option"
  tp_verify_ssl :: bool
  tp_extra_headers :: "string \<rightharpoonup> string"

record auth_config =
  au_kind :: string
  au_secret_ref :: string
  au_account_label :: "string option"
  au_org_id :: "string option"
  au_device_id :: "string option"
  au_routing_hint :: "string option"
  au_chatgpt_account_id :: "string option"
  au_refresh_secret_ref :: "string option"
  au_extra :: metadata

datatype credential_kind = ApiKey | Oauth | Session | SignedHmac | OtherCredential

definition kind_parsed :: "auth_config \<Rightarrow> credential_kind" where
  "kind_parsed a =
     (if au_kind a = ''api_key'' then ApiKey
      else if au_kind a = ''oauth'' then Oauth
      else if au_kind a = ''session'' then Session
      else if au_kind a = ''signed_hmac'' then SignedHmac
      else OtherCredential)"

definition inline_secret :: "auth_config \<Rightarrow> string \<Rightarrow> string option" where
  "inline_secret a key = Option.bind (metadata_get (au_extra a) key) as_str"

record provider_defaults =
  df_tool_support :: tool_support_mode
  df_structured_output :: structured_output_mode
  df_remote_session_mode :: remote_session_mode
  df_supports_system_prompt :: bool
  df_default_history_mode :: history_mode

record provider_account =
  pa_account_id :: string
  pa_provider :: provider_name
  pa_enabled :: bool
  pa_pool :: string
  pa_priority :: int
  pa_weight :: u32
  pa_auth :: auth_config
  pa_transport :: transport_config
  pa_rotation_state :: rotation_state
  pa_quota :: quota_state
  pa_defaults :: provider_defaults
  pa_metadata :: metadata

text \<open>The comparison is on \<open>u64\<close>, so a time before 1970 counts as far in the future.\<close>

definition in_cooldown :: "provider_account \<Rightarrow> u64 \<Rightarrow> bool" where
  "in_cooldown a now =
     (case rs_cooldown_until (pa_rotation_state a) of
        None \<Rightarrow> False
      | Some t \<Rightarrow> now < of_int t)"

record model_route_candidate =
  rc_provider :: provider_name
  rc_pool :: string
  rc_weight :: u32

record model_route =
  mr_selector :: string
  mr_candidates :: "model_route_candidate list"

record email_bundle =
  eb_email :: string
  eb_enabled :: bool
  eb_display_name :: "string option"
  eb_providers :: "provider_account list"
  eb_model_routes :: "model_route list"
  eb_metadata :: metadata

record secret_record =
  sr_secret_ref :: string
  sr_ciphertext :: string
  sr_updated_at :: "datetime option"

record security_config =
  sc_secrets_encrypted :: bool
  sc_encryption :: string
  sc_age_recipient :: "string option"

definition security_config_default :: security_config where
  "security_config_default =
     \<lparr>sc_secrets_encrypted = True, sc_encryption = ''age-v1'', sc_age_recipient = None\<rparr>"

record accounts_file =
  af_schema_version :: u32
  af_security :: security_config
  af_emails :: "email_bundle list"
  af_secrets :: "secret_record list"

definition accounts_file_default :: accounts_file where
  "accounts_file_default =
     \<lparr>af_schema_version = 4, af_security = security_config_default, af_emails = [], af_secrets = []\<rparr>"

section \<open>Access paths\<close>

definition iter_accounts :: "accounts_file \<Rightarrow> provider_account list" where
  "iter_accounts f = concat (map eb_providers (af_emails f))"

definition find_account :: "accounts_file \<Rightarrow> string \<Rightarrow> provider_account option" where
  "find_account f account_id = find (\<lambda>a. pa_account_id a = account_id) (iter_accounts f)"

text \<open>
  \<open>iter_accounts_mut().find(..)\<close> followed by an assignment through the reference: the first account
  with the id, over the bundles in order, is updated in its bundle.
\<close>

fun update_bundles ::
    "(provider_account \<Rightarrow> bool) \<Rightarrow> (provider_account \<Rightarrow> provider_account) \<Rightarrow> email_bundle list
       \<Rightarrow> email_bundle list" where
  "update_bundles p f [] = []"
| "update_bundles p f (b # bs) =
     (if list_ex p (eb_providers b) then b\<lparr>eb_providers := update_first p f (eb_providers b)\<rparr> # bs
      else b # update_bundles p f bs)"

definition update_account ::
    "string \<Rightarrow> (provider_account \<Rightarrow> provider_account) \<Rightarrow> accounts_file \<Rightarrow> accounts_file" where
  "update_account account_id f file =
     file\<lparr>af_emails := update_bundles (\<lambda>a. pa_account_id a = account_id) f (af_emails file)\<rparr>"

lemma concat_update_bundles:
  "concat (map eb_providers (update_bundles p f bs)) = update_first p f (concat (map eb_providers bs))"
  by (induction bs) (auto simp: update_first_append list_ex_iff)

lemma iter_update_account:
  "iter_accounts (update_account k f file) =
     update_first (\<lambda>a. pa_account_id a = k) f (iter_accounts file)"
  by (simp add: iter_accounts_def update_account_def concat_update_bundles)

lemma update_account_frame [simp]:
  "af_secrets (update_account k f file) = af_secrets file"
  "af_security (update_account k f file) = af_security file"
  "af_schema_version (update_account k f file) = af_schema_version file"
  by (simp_all add: update_account_def)

lemma update_bundles_shape:
  "map (\<lambda>b. (eb_email b, eb_enabled b, eb_model_routes b, eb_metadata b, length (eb_providers b)))
     (update_bundles p f bs) =
   map (\<lambda>b. (eb_email b, eb_enabled b, eb_model_routes b, eb_metadata b, length (eb_providers b))) bs"
  by (induction bs) auto

section \<open>Stores with an update in place\<close>

text \<open>
  What the manager and the orchestrator need of the accounts: an update through an id changes what that
  id finds, by the update, and nothing another id finds.  \<open>keeps f\<close> says that an update leaves the key
  of a record alone.
\<close>

locale account_store =
  fixes seek :: "'s \<Rightarrow> 'k \<Rightarrow> 'a option"
    and change :: "'k \<Rightarrow> ('a \<Rightarrow> 'a) \<Rightarrow> 's \<Rightarrow> 's"
    and keeps :: "('a \<Rightarrow> 'a) \<Rightarrow> bool"
  assumes seek_change:
    "keeps f \<Longrightarrow> seek (change k f s) k' = (if k = k' then map_option f (seek s k) else seek s k')"
    and change_absent: "seek s k = None \<Longrightarrow> change k f s = s"
begin

definition run :: "('k \<times> ('a \<Rightarrow> 'a)) list \<Rightarrow> 's \<Rightarrow> 's" where
  "run es s = fold (\<lambda>(k, f). change k f) es s"

text \<open>A run of updates acts on each record by its own updates, in order, whatever the interleaving.\<close>

lemma seek_run:
  "(\<forall>(k, f)\<in>set es. keeps f) \<Longrightarrow>
   seek (run es s) k = map_option (fold (\<lambda>e. snd e) (filter (\<lambda>e. fst e = k) es)) (seek s k)"
proof (induction es arbitrary: s)
  case Nil
  then show ?case by (simp add: run_def option.map_ident)
next
  case (Cons e es)
  obtain k' f where e: "e = (k', f)" by (cases e)
  have "run (e # es) s = run es (change k' f s)" by (simp add: run_def e)
  moreover have "seek (change k' f s) k = (if k' = k then map_option f (seek s k') else seek s k)"
    using Cons.prems e by (intro seek_change) auto
  ultimately show ?case
    using Cons e by (auto simp: option.map_comp comp_def)
qed

lemma seek_run_absent: "seek s k = None \<Longrightarrow> (\<forall>(k, f)\<in>set es. keeps f) \<Longrightarrow> seek (run es s) k = None"
  by (simp add: seek_run)

end

definition keeps_id :: "(provider_account \<Rightarrow> provider_account) \<Rightarrow> bool" where
  "keeps_id f \<longleftrightarrow> (\<forall>a. pa_account_id (f a) = pa_account_id a)"

lemma keeps_idI: "(\<And>a. pa_account_id (f a) = pa_account_id a) \<Longrightarrow> keeps_id f"
  by (simp add: keeps_id_def)

lemma find_update_account:
  assumes "keeps_id f"
  shows "find_account (update_account k f s) k' =
           (if k = k' then map_option f (find_account s k) else find_account s k')"
proof (cases "k = k'")
  case True
  with assms show ?thesis
    by (simp add: find_account_def iter_update_account keeps_id_def find_update_first_same)
next
  case False
  with assms have "find (\<lambda>a. pa_account_id a = k')
      (update_first (\<lambda>a. pa_account_id a = k) f (iter_accounts s)) =
    find (\<lambda>a. pa_account_id a = k') (iter_accounts s)"
    by (intro find_update_first_other) (auto simp: keeps_id_def)
  with False show ?thesis by (simp add: find_account_def iter_update_account)
qed

lemma update_bundles_absent:
  "\<forall>a\<in>set (concat (map eb_providers bs)). \<not> p a \<Longrightarrow> update_bundles p f bs = bs"
  by (induction bs) (auto simp: list_ex_iff)

lemma update_account_absent: "find_account s k = None \<Longrightarrow> update_account k f s = s"
  by (simp add: update_account_def find_account_def iter_accounts_def find_None_set
      update_bundles_absent)

interpretation accounts: account_store find_account update_account keeps_id
  by unfold_locales (auto simp: find_update_account update_account_absent)

text \<open>A plain account, for concrete instances.\<close>

definition sample_account :: "string \<Rightarrow> provider_name \<Rightarrow> int \<Rightarrow> provider_account" where
  "sample_account k p pr =
     \<lparr>pa_account_id = k, pa_provider = p, pa_enabled = True, pa_pool = ''default'', pa_priority = pr,
      pa_weight = 1,
      pa_auth = \<lparr>au_kind = ''api_key'', au_secret_ref = ''ref'', au_account_label = None, au_org_id = None,
                 au_device_id = None, au_routing_hint = None, au_chatgpt_account_id = None,
                 au_refresh_secret_ref = None, au_extra = metadata_new\<rparr>,
      pa_transport = \<lparr>tp_base_url = ''https://api.example.com'', tp_timeout_ms = 60000,
                      tp_impersonate = None, tp_proxy_url = None, tp_verify_ssl = True,
                      tp_extra_headers = Map.empty\<rparr>,
      pa_rotation_state = rotation_state_default, pa_quota = quota_state_default,
      pa_defaults = \<lparr>df_tool_support = ToolNative, df_structured_output = OutNone,
                     df_remote_session_mode = SessNone, df_supports_system_prompt = True,
                     df_default_history_mode = HistAuto\<rparr>,
      pa_metadata = metadata_new\<rparr>"

end
