(* ===== verification/Providers.thy ===== *)
theory Providers
  imports Conversations Accounts Errors
begin

text \<open>
  The provider interface and its registry: \<open>gravity-providers/src/provider.rs\<close>, \<open>context.rs\<close> and
  \<open>registry.rs\<close>.

  A \<open>dyn Provider\<close> is a record of its methods.  An asynchronous method is a state-passing function over
  the world \<open>'w\<close> outside the client (the network, the remote sessions, the clock): awaiting it runs it
  to its result.  The transport and the environment of a context are part of the world.
\<close>

section \<open>Contexts\<close>

record chat_ctx =
  cx_account :: provider_account
  cx_secret :: string
  cx_conversation :: conversation
  cx_checkpoint :: "checkpoint option"
  cx_request :: chat_request

definition impersonate_or :: "chat_ctx \<Rightarrow> string \<Rightarrow> string" where
  "impersonate_or cx dflt =
     (case tp_impersonate (pa_transport (cx_account cx)) of None \<Rightarrow> dflt | Some p \<Rightarrow> p)"

definition ctx_proxy :: "chat_ctx \<Rightarrow> string option" where
  "ctx_proxy cx = tp_proxy_url (pa_transport (cx_account cx))"

definition ctx_timeout_ms :: "chat_ctx \<Rightarrow> u32" where
  "ctx_timeout_ms cx = tp_timeout_ms (pa_transport (cx_account cx))"

section \<open>Providers\<close>

type_synonym event_stream = "(error + stream_event) list"

record 'w authenticator =
  at_validate :: "provider_account \<Rightarrow> 'w \<Rightarrow> (error + bool) \<times> 'w"
  at_refresh :: "provider_account \<Rightarrow> 'w \<Rightarrow> (error + unit) \<times> provider_account \<times> 'w"

record 'w provider =
  pv_capabilities :: provider_capabilities
  pv_list_models :: "string list"
  pv_discover_models :: "chat_ctx \<Rightarrow> 'w \<Rightarrow> (error + model_info list) \<times> 'w"
  pv_normalize_system_prompt :: "string option \<Rightarrow> string option"
  pv_open_checkpoint :: "chat_ctx \<Rightarrow> 'w \<Rightarrow> (error + checkpoint option) \<times> 'w"
  pv_chat :: "chat_ctx \<Rightarrow> 'w \<Rightarrow> (error + chat_response) \<times> 'w"
  pv_chat_stream :: "chat_ctx \<Rightarrow> 'w \<Rightarrow> (error + event_stream) \<times> 'w"
  pv_authenticator :: "'w authenticator option"

text \<open>The provided methods of the trait.\<close>

definition default_discover_models ::
    "string list \<Rightarrow> chat_ctx \<Rightarrow> 'w \<Rightarrow> (error + model_info list) \<times> 'w" where
  "default_discover_models models cx w = (Inr (map model_info_bare models), w)"

definition default_normalize_system_prompt :: "string option \<Rightarrow> string option" where
  "default_normalize_system_prompt sp =
     (case map_option trim sp of None \<Rightarrow> None | Some s \<Rightarrow> if s = [] then None else Some s)"

definition default_open_checkpoint :: "chat_ctx \<Rightarrow> 'w \<Rightarrow> (error + checkpoint option) \<times> 'w" where
  "default_open_checkpoint cx w = (Inr None, w)"

definition default_chat_stream ::
    "(chat_ctx \<Rightarrow> 'w \<Rightarrow> (error + chat_response) \<times> 'w) \<Rightarrow> chat_ctx \<Rightarrow> 'w \<Rightarrow> (error + event_stream) \<times> 'w" where
  "default_chat_stream chat cx w =
     (case chat cx w of
        (Inl e, w') \<Rightarrow> (Inl e, w')
      | (Inr resp, w') \<Rightarrow> (Inr [Inr (Done resp)], w'))"

definition default_refresh ::
    "provider_account \<Rightarrow> 'w \<Rightarrow> (error + unit) \<times> provider_account \<times> 'w" where
  "default_refresh a w = (Inl (unsupported ''credential refresh''), a, w)"

section \<open>The registry\<close>

type_synonym 'w registry = "provider_name \<Rightarrow> 'w provider option"

definition registry_provider :: "'w registry \<Rightarrow> provider_name \<Rightarrow> error + 'w provider" where
  "registry_provider reg name =
     (case reg name of None \<Rightarrow> Inl (ProviderNotRegistered name) | Some p \<Rightarrow> Inr p)"

definition registry_has :: "'w registry \<Rightarrow> provider_name \<Rightarrow> bool" where
  "registry_has reg name \<longleftrightarrow> reg name \<noteq> None"

definition iter_capabilities :: "'w registry \<Rightarrow> (provider_name \<times> provider_capabilities) list" where
  "iter_capabilities reg =
     List.map_filter (\<lambda>n. map_option (\<lambda>p. (n, pv_capabilities p)) (reg n)) provider_all"

definition registry_len :: "'w registry \<Rightarrow> nat" where
  "registry_len reg = length (filter (registry_has reg) provider_all)"

definition registry_is_empty :: "'w registry \<Rightarrow> bool" where
  "registry_is_empty reg \<longleftrightarrow> registry_len reg = 0"

definition registry_new :: "'w registry" where
  "registry_new = (\<lambda>_. None)"

definition registry_add :: "'w provider \<Rightarrow> 'w registry \<Rightarrow> 'w registry" where
  "registry_add p reg = reg(cap_provider (pv_capabilities p) \<mapsto> p)"

definition registry_build :: "'w provider list \<Rightarrow> 'w registry" where
  "registry_build ps = fold registry_add ps registry_new"

text \<open>A registry is a store keyed by the provider's own name.\<close>

interpretation registry: key_store registry_new "\<lambda>n p reg. reg(n \<mapsto> p)" "\<lambda>reg. reg"
  by unfold_locales (auto simp: registry_new_def)

lemma registry_build_lookup:
  "registry_build ps n = find (\<lambda>p. cap_provider (pv_capabilities p) = n) (rev ps)"
proof (induction ps rule: rev_induct)
  case Nil
  show ?case by (simp add: registry_build_def registry_new_def)
next
  case (snoc p ps)
  then show ?case by (auto simp: registry_build_def registry_add_def)
qed

lemma registry_len_iter: "registry_len reg = length (iter_capabilities reg)"
proof -
  have "length (List.map_filter (\<lambda>n. map_option (\<lambda>p. (n, pv_capabilities p)) (reg n)) ns)
      = length (filter (registry_has reg) ns)" for ns
    by (induction ns) (auto simp: List.map_filter_simps registry_has_def)
  then show ?thesis by (simp add: registry_len_def iter_capabilities_def)
qed

text \<open>
  The registry.  After registering any sequence of adapters, a name finds the last adapter that
  declares it, its lookup fails with \<open>ProviderNotRegistered\<close> exactly when none does, an adapter found
  under a name declares that name, and the capability listing has one entry per registered name, with
  that adapter's capabilities.
\<close>

theorem registry_lookup:
  "registry_provider (registry_build ps) n =
     (case filter (\<lambda>p. cap_provider (pv_capabilities p) = n) ps of
        [] \<Rightarrow> Inl (ProviderNotRegistered n)
      | qs \<Rightarrow> Inr (last qs))
   \<and> registry_len (registry_build ps) = length (iter_capabilities (registry_build ps))
   \<and> map fst (iter_capabilities (registry_build ps)) = filter (registry_has (registry_build ps)) provider_all
   \<and> list_all (\<lambda>(m, c). cap_provider c = m) (iter_capabilities (registry_build ps))"
proof -
  let ?reg = "registry_build ps"
  have f: "find P (rev xs) = (if filter P xs = [] then None else Some (last (filter P xs)))"
    for P and xs :: "'a provider list"
    by (induction xs rule: rev_induct) auto
  have "registry_provider ?reg n =
     (case filter (\<lambda>p. cap_provider (pv_capabilities p) = n) ps of
        [] \<Rightarrow> Inl (ProviderNotRegistered n) | qs \<Rightarrow> Inr (last qs))"
    by (simp add: registry_provider_def registry_build_lookup f split: list.split)
  moreover have "map fst (iter_capabilities ?reg) = filter (registry_has ?reg) provider_all"
  proof -
    have "map fst (List.map_filter (\<lambda>n. map_option (\<lambda>p. (n, pv_capabilities p)) (?reg n)) ns)
        = filter (registry_has ?reg) ns" for ns
      by (induction ns) (auto simp: List.map_filter_simps registry_has_def)
    then show ?thesis by (simp add: iter_capabilities_def)
  qed
  moreover have "cap_provider (pv_capabilities p) = m" if "?reg m = Some p" for m p
    using that find_SomeD [of _ "rev ps" p] by (auto simp: registry_build_lookup)
  then have "list_all (\<lambda>(m, c). cap_provider c = m) (iter_capabilities ?reg)"
    by (auto simp: iter_capabilities_def list_all_iff List.map_filter_def)
  ultimately show ?thesis using registry_len_iter by blast
qed

end
