(* ===== verification/Derive.thy ===== *)
theory Derive
  imports Http Providers "HOL-Library.Monad_Syntax"
begin

text \<open>
  What the provider adapters get from \<open>serde\<close> besides the text of a value: the \<open>json!\<close> forms of numbers
  and options, and the readers that \<open>#[derive(Deserialize)]\<close> writes for a struct, as functions on the
  value of the text.  A text that repeats a field of a struct, which a derived reader refuses, has
  no value of its own here.

  Also the parts every HTTP adapter shares: the network it sends through, the base address, and the
  error it makes of a refused request.
\<close>

section \<open>Writing\<close>

definition json_u32 :: "u32 \<Rightarrow> json" where
  "json_u32 n = JNumber (PosInt (ucast n))"

definition json_i64 :: "u64 \<Rightarrow> json" where
  "json_i64 n = JNumber (if sint n < 0 then NegInt n else PosInt n)"

text \<open>\<open>skip_serializing_if\<close> with \<open>Option::is_none\<close> and with \<open>Vec::is_empty\<close>.\<close>

definition opt_field :: "string \<Rightarrow> ('a \<Rightarrow> json) \<Rightarrow> 'a option \<Rightarrow> jmap" where
  "opt_field k f x = (case x of None \<Rightarrow> [] | Some v \<Rightarrow> [(k, f v)])"

definition list_field :: "string \<Rightarrow> ('a \<Rightarrow> json) \<Rightarrow> 'a list \<Rightarrow> jmap" where
  "list_field k f xs = (if xs = [] then [] else [(k, JArray (map f xs))])"

lemma map_of_opt_field [simp]:
  "map_of (opt_field k f x) k' = (if k' = k then map_option f x else None)"
  by (simp add: opt_field_def split: option.split)

lemma map_of_list_field [simp]:
  "map_of (list_field k f xs) k' = (if k' = k \<and> xs \<noteq> [] then Some (JArray (map f xs)) else None)"
  by (simp add: list_field_def)

section \<open>Reading\<close>

text \<open>
  The fields of a struct: of an object by name, of an array by position, an array longer than the
  struct being refused.
\<close>

definition struct_fields :: "string list \<Rightarrow> json \<Rightarrow> (string \<Rightarrow> json option) option" where
  "struct_fields names v =
     (case v of
        JObject m \<Rightarrow> Some (map_of m)
      | JArray xs \<Rightarrow> if length xs \<le> length names then Some (map_of (zip names xs)) else None
      | _ \<Rightarrow> None)"

text \<open>\<open>#[serde(default)]\<close>, \<open>Option\<close>, \<open>Vec\<close>, \<open>String\<close> and \<open>u32\<close>.\<close>

definition de_default :: "'a \<Rightarrow> (json \<Rightarrow> 'a option) \<Rightarrow> json option \<Rightarrow> 'a option" where
  "de_default dflt f v = (case v of None \<Rightarrow> Some dflt | Some j \<Rightarrow> f j)"

definition de_option :: "(json \<Rightarrow> 'a option) \<Rightarrow> json \<Rightarrow> 'a option option" where
  "de_option f j = (if is_null j then Some None else map_option Some (f j))"

definition de_list :: "(json \<Rightarrow> 'a option) \<Rightarrow> json \<Rightarrow> 'a list option" where
  "de_list f j = (case j of JArray xs \<Rightarrow> those (map f xs) | _ \<Rightarrow> None)"

fun de_u32 :: "json \<Rightarrow> u32 option" where
  "de_u32 (JNumber (PosInt n)) = (if n < 0x100000000 then Some (ucast n) else None)"
| "de_u32 _ = None"

lemma de_u32_json [simp]: "de_u32 (json_u32 n) = Some n"
proof -
  have "uint n < 2 ^ 32" using uint_bounded [of n] by simp
  then have "(ucast n :: u64) < 0x100000000" by (simp add: word_less_alt uint_up_ucast is_up)
  moreover have "ucast (ucast n :: u64) = n" by (simp add: ucast_up_ucast_id is_up)
  ultimately show ?thesis by (simp add: json_u32_def)
qed

lemma those_map_Some [simp]: "those (map (\<lambda>x. Some (f x)) xs) = Some (map f xs)"
  by (induction xs) simp_all

lemma those_map_inverse:
  assumes "\<And>x. x \<in> set xs \<Longrightarrow> f (g x) = Some (h x)"
  shows "those (map f (map g xs)) = Some (map h xs)"
  using assms by (induction xs) simp_all

section \<open>The adapters' surroundings\<close>

text \<open>
  \<open>ctx.http\<close>: a buffered exchange, and a streamed one with its status, headers and body chunks.  The
  printed form of a reader's error is a parameter.
\<close>

record 'w net =
  nt_send :: "http_request \<Rightarrow> 'w \<Rightarrow> (error + http_response) \<times> 'w"
  nt_stream :: "http_request \<Rightarrow> 'w \<Rightarrow>
     (error + u16 \<times> (string \<times> string) list \<times> (error + u8 list) list) \<times> 'w"
  nt_serde :: serde
  nt_bad_json :: "u8 list \<Rightarrow> string"

text \<open>\<open>serde_json::from_slice::<Value>\<close>.\<close>

definition value_of_bytes :: "serde \<Rightarrow> u8 list \<Rightarrow> json option" where
  "value_of_bytes sj bs = Option.bind (from_utf8 bs) (from_text sj)"

lemma value_of_bytes_text: "str_ok s \<Longrightarrow> value_of_bytes sj (str_bytes s) = from_text sj s"
  by (simp add: value_of_bytes_def from_utf8_str_bytes)

definition trim_slashes :: "string \<Rightarrow> string" where
  "trim_slashes s = rev (dropWhile (\<lambda>c. c = CHR ''/'') (rev s))"

lemma trim_slashes_spec:
  "\<exists>n. s = trim_slashes s @ replicate n (CHR ''/'')"
  "trim_slashes s \<noteq> [] \<Longrightarrow> last (trim_slashes s) \<noteq> CHR ''/''"
proof -
  have "s = trim_slashes s @ rev (takeWhile (\<lambda>c. c = CHR ''/'') (rev s))"
    unfolding trim_slashes_def rev_append [symmetric] takeWhile_dropWhile_id by simp
  moreover have "rev (takeWhile (\<lambda>c. c = CHR ''/'') (rev s)) =
      replicate (length (takeWhile (\<lambda>c. c = CHR ''/'') (rev s))) (CHR ''/'')"
    by (rule replicate_eqI) (auto dest: set_takeWhileD)
  ultimately show "\<exists>n. s = trim_slashes s @ replicate n (CHR ''/'')" by metis
  show "trim_slashes s \<noteq> [] \<Longrightarrow> last (trim_slashes s) \<noteq> CHR ''/''"
    using hd_dropWhile [of "\<lambda>c. c = CHR ''/''" "rev s"] by (simp add: trim_slashes_def last_rev)
qed

text \<open>The error of a request that was answered but refused; the kind follows from the status.\<close>

definition status_error :: "provider_name \<Rightarrow> string \<Rightarrow> u16 \<Rightarrow> string \<Rightarrow> error" where
  "status_error p code status body =
     ProviderErr (with_status status
       (provider_error_new p OtherKind code
          (''request failed ('' @ dec_of (unat status) @ ''): '' @ take_chars 500 body)))"

lemma status_error_failover:
  "should_failover (status_error p code s body) =
     (s = 429 \<or> s = 401 \<or> s = 403 \<or> (500 \<le> s \<and> s \<le> 599))"
  by (simp add: status_error_def pe_should_failover_def kind_of_status_def provider_error_new_def core_simps)

text \<open>The counters of a reply.\<close>

definition usage_of :: "u32 option \<Rightarrow> u32 option \<Rightarrow> u32 option \<Rightarrow> usage" where
  "usage_of i o' t = \<lparr>us_input_tokens = i, us_output_tokens = o', us_total_tokens = t\<rparr>"

end
