(* ===== verification/Floats.thy ===== *)
theory Floats
  imports Prelude
begin

text \<open>
  The casts between \<open>f32\<close> and \<open>f64\<close> on bit patterns, as the language defines them for finite values: widening
  is exact, narrowing rounds to nearest, ties to even, and overflows to infinity.

  A finite \<open>f32\<close> with exponent field \<open>e\<close> and fraction \<open>m\<close> is \<open>(m + 2^23) * 2^(e - 150)\<close>, or \<open>m * 2^(-149)\<close> when
  \<open>e\<close> is 0; a \<open>f64\<close> likewise with 52, 1075 and 1074.
\<close>

definition f32_exponent :: "nat \<Rightarrow> nat" where
  "f32_exponent n = n div 2 ^ 23 mod 2 ^ 8"

definition f32_finite :: "u32 \<Rightarrow> bool" where
  "f32_finite x \<longleftrightarrow> f32_exponent (unat x) \<noteq> 255"

text \<open>The number of bits of a significand.\<close>

fun bit_length :: "nat \<Rightarrow> nat" where
  "bit_length n = (if n = 0 then 0 else Suc (bit_length (n div 2)))"

declare bit_length.simps [simp del]

lemma bit_length_bounds: "0 < n \<Longrightarrow> 2 ^ (bit_length n - 1) \<le> n \<and> n < 2 ^ bit_length n"
proof (induction n rule: bit_length.induct)
  case (1 n)
  show ?case
  proof (cases "n = 1")
    case True
    then show ?thesis by (simp add: bit_length.simps)
  next
    case False
    then have d: "0 < n div 2" using 1(2) by (simp add: div_greater_zero_iff)
    then have ih: "2 ^ (bit_length (n div 2) - 1) \<le> n div 2" "n div 2 < 2 ^ bit_length (n div 2)"
      using 1 by auto
    moreover have "0 < bit_length (n div 2)" using d by (subst bit_length.simps) simp
    then have "(2 :: nat) ^ bit_length (n div 2) = 2 * 2 ^ (bit_length (n div 2) - 1)"
      by (simp flip: power_Suc)
    moreover have "bit_length n = Suc (bit_length (n div 2))" using 1(2) by (simp add: bit_length.simps [of n])
    ultimately show ?thesis by simp linarith
  qed
qed

definition f32_to_f64_nat :: "nat \<Rightarrow> nat" where
  "f32_to_f64_nat n =
     (let s = n div 2 ^ 31; e = f32_exponent n; m = n mod 2 ^ 23;
          sig = (if e = 0 then m else m + 2 ^ 23);
          scale = (if e = 0 then 1 else e)
      in s * 2 ^ 63 +
         (if sig = 0 then 0
          else (scale + bit_length sig + 872) * 2 ^ 52 + (sig * 2 ^ (53 - bit_length sig) - 2 ^ 52)))"

definition f32_to_f64 :: "u32 \<Rightarrow> u64" where
  "f32_to_f64 x = word_of_nat (f32_to_f64_nat (unat x))"

text \<open>Division by a power of two, rounding to nearest, ties to even.\<close>

definition round_even :: "nat \<Rightarrow> nat \<Rightarrow> nat" where
  "round_even a k =
     (let q = a div 2 ^ k; r = a mod 2 ^ k
      in if 2 * r > 2 ^ k \<or> 2 * r = 2 ^ k \<and> odd q then q + 1 else q)"

lemma round_even_exact: "round_even (a * 2 ^ k) k = a"
  by (simp add: round_even_def)

definition f64_to_f32_nat :: "nat \<Rightarrow> nat" where
  "f64_to_f32_nat n =
     (let s = n div 2 ^ 63; e = n div 2 ^ 52 mod 2 ^ 11; m = n mod 2 ^ 52;
          sig = (if e = 0 then m else m + 2 ^ 52);
          scale = (if e = 0 then 1 else e);
          k = max 29 (926 - scale)
      in s * 2 ^ 31 + min (255 * 2 ^ 23) ((scale + k - 926) * 2 ^ 23 + round_even sig k))"

definition f64_to_f32 :: "u64 \<Rightarrow> u32" where
  "f64_to_f32 x = word_of_nat (f64_to_f32_nat (unat x))"

section \<open>Widening loses nothing\<close>

lemma bit_length_eq: "2 ^ b \<le> n \<Longrightarrow> n < 2 ^ Suc b \<Longrightarrow> bit_length n = Suc b"
proof -
  assume n: "2 ^ b \<le> n" "n < 2 ^ Suc b"
  have "0 < n" using n(1) by (rule less_le_trans [rotated]) simp
  note l = bit_length_bounds [OF this]
  have "2 ^ b < (2 :: nat) ^ bit_length n" using n(1) l by linarith
  moreover have "(2 :: nat) ^ (bit_length n - 1) < 2 ^ Suc b" using n(2) l by linarith
  ultimately show ?thesis by (auto dest: power_less_imp_less_exp [rotated] simp del: power_Suc)
qed

lemma bit_length_less: "0 < n \<Longrightarrow> n < 2 ^ b \<Longrightarrow> bit_length n \<le> b"
proof -
  assume n: "0 < n" "n < 2 ^ b"
  have "(2 :: nat) ^ (bit_length n - 1) < 2 ^ b" using bit_length_bounds [OF n(1)] n(2) by linarith
  then have "bit_length n - 1 < b" by (rule power_less_imp_less_exp [rotated]) simp
  then show ?thesis by simp
qed

lemma bit_length_pos: "0 < n \<Longrightarrow> 0 < bit_length n"
  by (simp add: bit_length.simps [of n])

lemma normalised:
  assumes "0 < sig" and "bit_length sig \<le> 53"
  shows "2 ^ 52 \<le> sig * 2 ^ (53 - bit_length sig)" and "sig * 2 ^ (53 - bit_length sig) < 2 ^ 53"
proof -
  let ?l = "bit_length sig"
  note b = bit_length_bounds [OF assms(1)]
  have "(2 :: nat) ^ (?l - 1) * 2 ^ (53 - ?l) = 2 ^ 52"
    using assms bit_length_pos [OF assms(1)] by (simp flip: power_add)
  then show "2 ^ 52 \<le> sig * 2 ^ (53 - ?l)" using b by (metis mult_le_mono1)
  have "(2 :: nat) ^ ?l * 2 ^ (53 - ?l) = 2 ^ 53" using assms by (simp flip: power_add)
  then show "sig * 2 ^ (53 - ?l) < 2 ^ 53" using b
    by (metis mult_less_mono1 zero_less_numeral zero_less_power)
qed

text \<open>The fields of a packed double.\<close>

lemma double_fields:
  fixes s x f :: nat
  assumes "x < 2 ^ 11" and "f < 2 ^ 52"
  shows "(s * 2 ^ 63 + (x * 2 ^ 52 + f)) div 2 ^ 63 = s"
    and "(s * 2 ^ 63 + (x * 2 ^ 52 + f)) div 2 ^ 52 mod 2 ^ 11 = x"
    and "(s * 2 ^ 63 + (x * 2 ^ 52 + f)) mod 2 ^ 52 = f"
proof -
  have eq: "s * 2 ^ 63 + (x * 2 ^ 52 + f) = f + (s * 2 ^ 11 + x) * 2 ^ 52" by simp
  have y: "x * 2 ^ 52 + f < 2 ^ 63" using assms by simp
  have d: "(f + k * 2 ^ 52) div 2 ^ 52 = k" "(f + k * 2 ^ 52) mod 2 ^ 52 = f" for k
    using assms(2) by simp_all
  have "(s * 2 ^ 63 + (x * 2 ^ 52 + f)) div 2 ^ 63 = s + (x * 2 ^ 52 + f) div 2 ^ 63"
    by (rule div_mult_self3) simp
  then show "(s * 2 ^ 63 + (x * 2 ^ 52 + f)) div 2 ^ 63 = s" using y by simp
  show "(s * 2 ^ 63 + (x * 2 ^ 52 + f)) div 2 ^ 52 mod 2 ^ 11 = x"
    "(s * 2 ^ 63 + (x * 2 ^ 52 + f)) mod 2 ^ 52 = f"
    unfolding eq d using assms(1) by simp_all
qed

lemma narrow_widen_nat:
  assumes n: "n < 2 ^ 32" and e: "f32_exponent n \<noteq> 255"
  shows "f64_to_f32_nat (f32_to_f64_nat n) = n" and "f32_to_f64_nat n < 2 ^ 64"
proof -
  define s where "s = n div 2 ^ 31"
  define e' where "e' = f32_exponent n"
  define m where "m = n mod 2 ^ 23"
  define sig where "sig = (if e' = 0 then m else m + 2 ^ 23)"
  define scale where "scale = (if e' = 0 then 1 else e')"
  have s: "s \<le> 1" using n less_mult_imp_div_less [of n 2 "2 ^ 31"] by (simp add: s_def)
  have "s = n div 2 ^ 23 div 2 ^ 8" by (simp add: s_def div_mult2_eq [symmetric])
  then have "n div 2 ^ 23 = s * 2 ^ 8 + e'" by (simp only: e'_def f32_exponent_def div_mult_mod_eq)
  moreover have "n = n div 2 ^ 23 * 2 ^ 23 + m" by (simp only: m_def div_mult_mod_eq)
  ultimately have n_eq: "n = s * 2 ^ 31 + e' * 2 ^ 23 + m" by simp
  have "e' < 256" by (simp add: e'_def f32_exponent_def)
  then have e_lt: "e' < 255" using e by (simp add: e'_def)
  have m: "m < 2 ^ 23" by (simp add: m_def)
  have n_sig: "n = s * 2 ^ 31 + ((scale - 1) * 2 ^ 23 + sig)"
    using n_eq by (auto simp: sig_def scale_def algebra_simps)
  have w: "f32_to_f64_nat n = s * 2 ^ 63 +
         (if sig = 0 then 0
          else (scale + bit_length sig + 872) * 2 ^ 52 + (sig * 2 ^ (53 - bit_length sig) - 2 ^ 52))"
    unfolding f32_to_f64_nat_def Let_def s_def e'_def m_def sig_def scale_def by simp
  show "f64_to_f32_nat (f32_to_f64_nat n) = n" "f32_to_f64_nat n < 2 ^ 64"
  proof -
    show "f64_to_f32_nat (f32_to_f64_nat n) = n"
    proof (cases "sig = 0")
      case True
      then have "n = s * 2 ^ 31" using n_sig by (auto simp: sig_def scale_def split: if_splits)
      moreover have "f32_to_f64_nat n = s * 2 ^ 63 + (0 * 2 ^ 52 + 0)" using True by (simp add: w)
      then have "f64_to_f32_nat (f32_to_f64_nat n) =
          s * 2 ^ 31 + min (255 * 2 ^ 23) ((1 + max 29 (926 - 1) - 926) * 2 ^ 23 + round_even 0 (max 29 (926 - 1)))"
        unfolding f64_to_f32_nat_def Let_def by (simp only: double_fields [of 0 0 s]) simp
      moreover have "round_even 0 k = 0" for k using round_even_exact [of 0 k] by simp
      ultimately show ?thesis by simp
    next
      case False
      define l where "l = bit_length sig"
      define x where "x = scale + l + 872"
      define f where "f = sig * 2 ^ (53 - l) - 2 ^ 52"
      have l: "if e' = 0 then 1 \<le> l \<and> l \<le> 23 else l = 24"
        using False m bit_length_pos [of sig] bit_length_less [of sig 23] bit_length_eq [of 23 sig]
        by (auto simp: l_def sig_def)
      then have l_le: "l \<le> 53" by (auto split: if_splits)
      have f: "f < 2 ^ 52" "f + 2 ^ 52 = sig * 2 ^ (53 - l)"
        using normalised [of sig] False l_le by (auto simp: f_def l_def)
      have x: "x < 2 ^ 11" "x \<noteq> 0" using l e_lt by (auto simp: x_def scale_def split: if_splits)
      have k: "max 29 (926 - x) = 53 - l" "x + (53 - l) - 926 = scale - 1"
        using l by (auto simp: x_def scale_def split: if_splits)
      have le: "(scale - 1) * 2 ^ 23 + sig \<le> 255 * 2 ^ 23"
        using e_lt m by (auto simp: scale_def sig_def)
      have "f32_to_f64_nat n = s * 2 ^ 63 + (x * 2 ^ 52 + f)"
        using False by (simp add: w x_def f_def l_def)
      then have "f64_to_f32_nat (f32_to_f64_nat n) =
          s * 2 ^ 31 + min (255 * 2 ^ 23) ((scale - 1) * 2 ^ 23 + round_even (sig * 2 ^ (53 - l)) (53 - l))"
        unfolding f64_to_f32_nat_def Let_def by (simp only: double_fields [OF x(1) f(1)] x(2) if_False f(2) k)
      then show ?thesis using le n_sig by (simp add: round_even_exact)
    qed
    show "f32_to_f64_nat n < 2 ^ 64"
    proof (cases "sig = 0")
      case True
      then show ?thesis using s by (simp add: w)
    next
      case False
      have "bit_length sig \<le> 24" using False m by (intro bit_length_less) (auto simp: sig_def)
      moreover have "sig * 2 ^ (53 - bit_length sig) - 2 ^ 52 < 2 ^ 52"
        using normalised [of sig] False calculation by simp
      moreover have "scale \<le> 255" using e_lt by (simp add: scale_def)
      ultimately show ?thesis using False s by (simp add: w)
    qed
  qed
qed

lemma narrow_widen: "f32_finite x \<Longrightarrow> f64_to_f32 (f32_to_f64 x) = x"
proof -
  assume x: "f32_finite x"
  have "unat x < 2 ^ 32" using unsigned_less [of x] by simp
  note n = narrow_widen_nat [OF this] x [unfolded f32_finite_def]
  have "unat (f32_to_f64 x) = f32_to_f64_nat (unat x)"
    using n by (simp add: f32_to_f64_def unat_of_nat)
  then show ?thesis using n by (simp add: f64_to_f32_def)
qed

end
