(* ===== verification/Clock.thy ===== *)
theory Clock
  imports Bytes
begin

text \<open>
  Injectable time and entropy (\<open>gravity-core/src/clock.rs\<close>) and the UUIDs built on them
  (\<open>gravity-providers/src/util.rs\<close>).

  A clock is the millisecond count it returns.  A source of entropy is a state and a function
  \<open>fill\<close> that yields the requested number of bytes and the next state: the deterministic source
  keeps its SplitMix64 state between calls, the OS source reseeds at every call from the clock and the
  address of the buffer.
\<close>

section \<open>Clock\<close>

definition now_secs :: "u64 \<Rightarrow> u64" where
  "now_secs now_millis = now_millis div 1000"

definition fixed_clock :: "u64 \<Rightarrow> u64" where
  "fixed_clock t = t"

section \<open>SplitMix64\<close>

definition splitmix_mix :: "u64 \<Rightarrow> u64" where
  "splitmix_mix state =
     (let z = state;
          z = (z XOR drop_bit 30 z) * 0xBF58476D1CE4E5B9;
          z = (z XOR drop_bit 27 z) * 0x94D049BB133111EB
      in z XOR drop_bit 31 z)"

definition golden_gamma :: u64 where
  "golden_gamma = 0x9E3779B97F4A7C15"

text \<open>Filling a buffer of \<open>n\<close> bytes in chunks of eight, the last one possibly shorter.\<close>

fun splitmix_fill :: "nat \<Rightarrow> u64 \<Rightarrow> u8 list \<times> u64" where
  "splitmix_fill 0 state = ([], state)"
| "splitmix_fill (Suc n) state =
     (let state' = state + golden_gamma;
          chunk = take (Suc n) (word_to_le 8 (splitmix_mix state'));
          (rest, state'') = splitmix_fill (Suc n - 8) state'
      in (chunk @ rest, state''))"

definition seeded_fill :: "nat \<Rightarrow> u64 \<Rightarrow> u8 list \<times> u64" where
  "seeded_fill = splitmix_fill"

text \<open>\<open>OsEntropy\<close>: the seed mixes the clock with the address of the buffer; nothing is kept.\<close>

definition os_fill :: "u64 \<Rightarrow> u64 \<Rightarrow> nat \<Rightarrow> u8 list" where
  "os_fill now_millis ptr n = fst (splitmix_fill n (now_millis XOR word_rotl 17 ptr))"

definition next_u64 :: "(nat \<Rightarrow> 'e \<Rightarrow> u8 list \<times> 'e) \<Rightarrow> 'e \<Rightarrow> u64 \<times> 'e" where
  "next_u64 fill e = (let (b, e') = fill 8 e in (le_to_word b, e'))"

lemma length_splitmix_fill: "length (fst (splitmix_fill n s)) = n"
proof (induction n s rule: splitmix_fill.induct)
  case (1 s)
  show ?case by simp
next
  case (2 n s)
  then show ?case by (auto simp: Let_def split_beta)
qed

text \<open>The number of generator steps a fill takes, and the state it leaves.\<close>

definition chunks_of_8 :: "nat \<Rightarrow> nat" where
  "chunks_of_8 n = (n + 7) div 8"

lemma chunks_of_8_Suc: "chunks_of_8 (Suc n) = Suc (chunks_of_8 (Suc n - 8))"
proof (cases "n < 7")
  case True
  then have "(8 + n) div 8 = 1" by simp
  with True show ?thesis by (simp add: chunks_of_8_def)
next
  case False
  then obtain j where "n = 7 + j" by (metis le_add_diff_inverse not_less)
  then show ?thesis by (simp add: chunks_of_8_def)
qed

lemma splitmix_fill_8:
  "splitmix_fill (8 + n) s =
     (word_to_le 8 (splitmix_mix (s + golden_gamma)) @ fst (splitmix_fill n (s + golden_gamma)),
      snd (splitmix_fill n (s + golden_gamma)))"
  using splitmix_fill.simps(2) [of "7 + n" s] by (simp add: Let_def split_beta)

lemma splitmix_fill_state:
  "snd (splitmix_fill n s) = s + of_nat (chunks_of_8 n) * golden_gamma"
proof (induction n s rule: splitmix_fill.induct)
  case (1 s)
  show ?case by (simp add: chunks_of_8_def)
next
  case (2 n s)
  show ?case
    using "2" by (simp add: Let_def split_beta chunks_of_8_Suc algebra_simps)
qed

lemma splitmix_fill_append:
  "fst (splitmix_fill (8 * k + m) s) =
     fst (splitmix_fill (8 * k) s) @ fst (splitmix_fill m (snd (splitmix_fill (8 * k) s)))"
proof (induction k arbitrary: s)
  case 0
  show ?case by simp
next
  case (Suc k)
  have "8 * Suc k + m = 8 + (8 * k + m)" "8 * Suc k = 8 + 8 * k" by simp_all
  then show ?case
    using Suc.IH [of "s + golden_gamma"] by (simp only: splitmix_fill_8 fst_conv snd_conv append_assoc)
qed

text \<open>
  The deterministic source is a stream: the k-th \<open>u64\<close> drawn from seed \<open>s\<close> is the SplitMix64 output
  of \<open>s\<close> advanced k+1 times, every fill has the requested length, and filling a buffer of whole
  chunks and then another one gives the bytes of one fill of the joint length, so a run of requests
  is reproducible from the seed whatever the buffer sizes.
\<close>

theorem seeded_entropy_stream:
  "fst (next_u64 seeded_fill (s + of_nat k * golden_gamma)) = splitmix_mix (s + of_nat (Suc k) * golden_gamma)
   \<and> snd (next_u64 seeded_fill (s + of_nat k * golden_gamma)) = s + of_nat (Suc k) * golden_gamma
   \<and> length (fst (seeded_fill n s)) = n
   \<and> fst (seeded_fill (8 * k + m) s) =
       fst (seeded_fill (8 * k) s) @ fst (seeded_fill m (snd (seeded_fill (8 * k) s)))"
proof -
  have "seeded_fill 8 t = (word_to_le 8 (splitmix_mix (t + golden_gamma)), t + golden_gamma)" for t
    using splitmix_fill_8 [of 0 t] by (simp add: seeded_fill_def)
  then have "next_u64 seeded_fill t = (splitmix_mix (t + golden_gamma), t + golden_gamma)" for t
    by (simp add: next_u64_def le_roundtrip)
  then show ?thesis
    using splitmix_fill_append [of k m s] length_splitmix_fill [of n s]
    by (simp add: seeded_fill_def algebra_simps)
qed

section \<open>Sources of entropy and UUIDs\<close>

definition uuid_v4 :: "(nat \<Rightarrow> 'e \<Rightarrow> u8 list \<times> 'e) \<Rightarrow> 'e \<Rightarrow> string \<times> 'e" where
  "uuid_v4 fill e =
     (let (b, e') = fill 16 e;
          b = b[6 := (b ! 6 AND 0x0F) OR 0x40];
          b = b[8 := (b ! 8 AND 0x3F) OR 0x80]
      in (hex_of (take 4 b) @ ''-'' @ hex_of (take 2 (drop 4 b)) @ ''-'' @ hex_of (take 2 (drop 6 b))
            @ ''-'' @ hex_of (take 2 (drop 8 b)) @ ''-'' @ hex_of (drop 10 b), e'))"

locale entropy_source =
  fixes fill :: "nat \<Rightarrow> 'e \<Rightarrow> u8 list \<times> 'e"
  assumes fill_length: "length (fst (fill n e)) = n"
begin

lemma uuid_shape:
  "\<exists>b. length b = 16
     \<and> fst (uuid_v4 fill e) =
         hex_of (take 4 b) @ ''-'' @ hex_of (take 2 (drop 4 b)) @ ''-'' @ hex_of (take 2 (drop 6 b))
           @ ''-'' @ hex_of (take 2 (drop 8 b)) @ ''-'' @ hex_of (drop 10 b)
     \<and> b ! 6 AND 0xF0 = 0x40 \<and> b ! 8 AND 0xC0 = 0x80"
proof -
  obtain b e' where f: "fill 16 e = (b, e')" by (cases "fill 16 e")
  with fill_length [of 16 e] have len: "length b = 16" by simp
  let ?b = "(b[6 := (b ! 6 AND 0x0F) OR 0x40])[8 := (b ! 8 AND 0x3F) OR 0x80]"
  have v: "((x AND 0x0F) OR 0x40) AND 0xF0 = (0x40 :: u8)" for x
    by (simp add: bit.conj_disj_distrib2 and.assoc)
  have w: "((x AND 0x3F) OR 0x80) AND 0xC0 = (0x80 :: u8)" for x
    by (simp add: bit.conj_disj_distrib2 and.assoc)
  show ?thesis
    by (rule exI [of _ ?b]) (simp add: uuid_v4_def Let_def f len v w nth_list_update)
qed

lemma uuid_length: "length (fst (uuid_v4 fill e)) = 36"
  using uuid_shape [of e] by (auto simp: length_hex_of)

end

interpretation seeded: entropy_source seeded_fill
  by unfold_locales (simp add: seeded_fill_def length_splitmix_fill)

text \<open>
  \<open>uuid_v4\<close> over the deterministic source has the RFC 4122 shape: 36 characters, the dashes between
  groups of 8, 4, 4, 4 and 12 hexadecimal digits of sixteen bytes, version 4 in the high half of
  byte 6 and variant 10 in the top bits of byte 8; equal states give equal UUIDs.
\<close>

theorem uuid_v4_shape:
  "length (fst (uuid_v4 seeded_fill e)) = 36
   \<and> (\<exists>b. length b = 16
        \<and> fst (uuid_v4 seeded_fill e) =
            hex_of (take 4 b) @ ''-'' @ hex_of (take 2 (drop 4 b)) @ ''-''
              @ hex_of (take 2 (drop 6 b)) @ ''-'' @ hex_of (take 2 (drop 8 b)) @ ''-''
              @ hex_of (drop 10 b)
        \<and> b ! 6 AND 0xF0 = 0x40 \<and> b ! 8 AND 0xC0 = 0x80)"
  using seeded.uuid_length seeded.uuid_shape by blast

end
