(* ===== verification/WebEnv.thy ===== *)
theory WebEnv
  imports Derive Floats Clock
begin

text \<open>
  What the adapters of browser sessions share: the environment \<open>ctx.env\<close> they draw the time and random
  numbers from, header lists, and the exact conversion of a small integer to a float.
\<close>

text \<open>
  The clock and the entropy source are state in the world; \<open>ev_utc_now\<close> is \<open>chrono::Utc::now\<close>, which reads
  the machine's clock and not the injected one.
\<close>

record 'w env =
  ev_now_millis :: "'w \<Rightarrow> u64 \<times> 'w"
  ev_fill :: "nat \<Rightarrow> 'w \<Rightarrow> u8 list \<times> 'w"
  ev_utc_now :: "'w \<Rightarrow> datetime \<times> 'w"

definition env_u64 :: "'w env \<Rightarrow> 'w \<Rightarrow> u64 \<times> 'w" where
  "env_u64 env = next_u64 (ev_fill env)"

definition env_uuid :: "'w env \<Rightarrow> 'w \<Rightarrow> string \<times> 'w" where
  "env_uuid env = uuid_v4 (ev_fill env)"

text \<open>Several draws in a row.\<close>

primrec env_u64s :: "nat \<Rightarrow> 'w env \<Rightarrow> 'w \<Rightarrow> u64 list \<times> 'w" where
  "env_u64s 0 env w = ([], w)"
| "env_u64s (Suc n) env w =
     (case env_u64 env w of (x, w1) \<Rightarrow> case env_u64s n env w1 of (xs, w2) \<Rightarrow> (x # xs, w2))"

lemma length_env_u64s: "length (fst (env_u64s n env w)) = n"
  by (induction n arbitrary: w) (simp_all add: split_beta)

definition with_headers :: "(string \<times> string) list \<Rightarrow> http_request \<Rightarrow> http_request" where
  "with_headers hs req = fold (\<lambda>(k, v). with_header k v) hs req"

lemma with_headers_eq: "with_headers hs req = req\<lparr>rq_headers := rq_headers req @ hs\<rparr>"
  by (induction hs arbitrary: req) (auto simp: with_headers_def with_header_def)

definition json_nat :: "nat \<Rightarrow> json" where
  "json_nat n = JNumber (PosInt (word_of_nat n))"

text \<open>The bit pattern of an integer below \<open>2 ^ 53\<close>, which a \<open>f64\<close> holds exactly.\<close>

definition nat_to_f64 :: "nat \<Rightarrow> u64" where
  "nat_to_f64 n =
     (if n = 0 then 0
      else word_of_nat ((1022 + bit_length n) * 2 ^ 52 + (n * 2 ^ (53 - bit_length n) - 2 ^ 52)))"

definition role_str :: "role \<Rightarrow> string" where
  "role_str r =
     (case r of RSystem \<Rightarrow> ''system'' | RUser \<Rightarrow> ''user'' | RAssistant \<Rightarrow> ''assistant'' | RTool \<Rightarrow> ''tool'')"

text \<open>\<open>str::lines\<close>: a newline ends a line, and a carriage return before it is dropped.\<close>

definition strip_cr :: "string \<Rightarrow> string" where
  "strip_cr l = (if l \<noteq> [] \<and> last l = CHR 0x0D then butlast l else l)"

definition str_lines :: "string \<Rightarrow> string list" where
  "str_lines s =
     (let parts = split_on (CHR 0x0A) s
      in map strip_cr (butlast parts) @ (if last parts = [] then [] else [last parts]))"

definition strip_prefix :: "string \<Rightarrow> string \<Rightarrow> string option" where
  "strip_prefix p s = (if starts_with p s then Some (drop (length p) s) else None)"

lemma strip_prefix_append [simp]: "strip_prefix p (p @ s) = Some s"
  by (simp add: strip_prefix_def)

lemma str_lines_newline:
  assumes "CHR 0x0A \<notin> set l"
  shows "str_lines (l @ CHR 0x0A # s) = strip_cr l # str_lines s"
  using split_on_line [OF assms, of s] by (simp add: str_lines_def Let_def)

lemma str_lines_nil [simp]: "str_lines [] = []"
  by (simp add: str_lines_def)

lemma str_lines_unlines:
  assumes "list_all (\<lambda>l. CHR 0x0A \<notin> set l) ls"
  shows "str_lines (concat (map (\<lambda>l. l @ [CHR 0x0A]) ls)) = map strip_cr ls"
  using assms by (induction ls) (simp_all add: str_lines_newline)

lemma strip_cr_plain: "CHR 0x0D \<notin> set l \<Longrightarrow> strip_cr l = l"
  by (auto simp: strip_cr_def dest: last_in_set)

section \<open>Event lines\<close>

text \<open>A line of the stream that carries a value.\<close>

definition carries :: "serde \<Rightarrow> json \<Rightarrow> string \<Rightarrow> bool" where
  "carries sj v l \<longleftrightarrow>
     from_text sj l = Some v \<and> trim l \<noteq> ''[DONE]'' \<and> CHR 0x0A \<notin> set l \<and> CHR 0x0D \<notin> set l"

definition data_line :: "string \<Rightarrow> string" where
  "data_line l = ''data: '' @ l"

definition frames_text :: "string list \<Rightarrow> string" where
  "frames_text ls = concat (map (\<lambda>l. data_line l @ [CHR 0x0A]) ls)"

lemma str_lines_frames:
  assumes "list_all (\<lambda>l. CHR 0x0A \<notin> set l \<and> CHR 0x0D \<notin> set l) ls"
  shows "str_lines (frames_text ls @ s) = map data_line ls @ str_lines s"
  using assms
proof (induction ls)
  case Nil
  show ?case by (simp add: frames_text_def)
next
  case (Cons l ls)
  then have l: "CHR 0x0A \<notin> set (data_line l)" "CHR 0x0D \<notin> set (data_line l)" by (simp_all add: data_line_def)
  have "frames_text (l # ls) @ s = data_line l @ CHR 0x0A # (frames_text ls @ s)"
    by (simp add: frames_text_def)
  then show ?case
    using Cons l str_lines_newline [OF l(1), of "frames_text ls @ s"] strip_cr_plain [OF l(2)] by simp
qed

lemma strip_data_line: "strip_prefix ''data: '' (data_line l) = Some l"
  unfolding data_line_def by (rule strip_prefix_append)

end
