(* ===== verification/Schema.thy ===== *)
theory Schema
  imports WebEnv
begin

text \<open>
  The derived serializers of the canonical schema (\<open>gravity-core\<close>: \<open>message.rs\<close>, \<open>tool.rs\<close>, \<open>request.rs\<close>,
  \<open>response.rs\<close>, \<open>conversation.rs\<close>, \<open>model_id.rs\<close>, \<open>model_info.rs\<close>, \<open>capabilities.rs\<close>, \<open>metadata.rs\<close>), with the
  image and embedding types, as functions to and from JSON values.

  A form is a writer and a reader; \<open>wire_form\<close> is its contract: what is written is not null and reads back.
  The lists, optional fields and defaults of a struct are read back because its fields' forms keep the
  contract.  The values that do not read back are named: \<open>good\<close> holds of the others.

  Parameters: base64, the text of a date and of a single float.  \<open>lent\<close> says whether the reader lends its strings: \<open>from_str\<close> lends the strings
  that are written without an escape, a reader of a \<open>Value\<close> or of a stream lends none, and the reader of
  base64 (\<open>serde_bytes_b64.rs\<close>) takes only a lent one.
\<close>

section \<open>Forms\<close>

locale wire_form =
  fixes put :: "'a \<Rightarrow> json"
    and get :: "json \<Rightarrow> 'a option"
    and good :: "'a \<Rightarrow> bool"
  assumes get_put: "good x \<Longrightarrow> get (put x) = Some x"
    and put_not_null: "good x \<Longrightarrow> \<not> is_null (put x)"
begin

lemma put_inj: "good x \<Longrightarrow> good y \<Longrightarrow> put x = put y \<longleftrightarrow> x = y"
  by (metis get_put option.inject)

lemma get_list: "list_all good xs \<Longrightarrow> de_list get (JArray (map put xs)) = Some xs"
  unfolding de_list_def by (induction xs) (simp_all add: get_put)

lemma get_list_field:
  "list_all good xs \<Longrightarrow>
   de_default [] (de_list get) (if xs \<noteq> [] then Some (JArray (map put xs)) else None) = Some xs"
  by (simp add: get_list de_default_def)

lemma get_opt: "pred_option good x \<Longrightarrow> de_default None (de_option get) (map_option put x) = Some x"
  by (cases x) (simp_all add: de_default_def de_option_def get_put put_not_null)

end

text \<open>A unit variant: its name, or an object whose one field has the name and holds null.\<close>

fun variant_word :: "json \<Rightarrow> string option" where
  "variant_word (JString s) = Some s"
| "variant_word (JObject [(s, JNull)]) = Some s"
| "variant_word _ = None"

definition de_enum :: "'a list \<Rightarrow> ('a \<Rightarrow> string) \<Rightarrow> json \<Rightarrow> 'a option" where
  "de_enum variants name j = Option.bind (variant_word j) (\<lambda>s. find (\<lambda>x. name x = s) variants)"

sublocale wire_names < form: wire_form "\<lambda>x. JString (name_of x)" "de_enum all_variants name_of" "\<lambda>_. True"
  by unfold_locales (simp_all add: de_enum_def parse_print)

text \<open>The scalars.\<close>

interpretation string_form: wire_form JString as_str "\<lambda>_. True"
  by unfold_locales simp_all

interpretation bool_form: wire_form JBool as_bool "\<lambda>_. True"
  by unfold_locales simp_all

interpretation map_form: wire_form JObject as_object "\<lambda>_. True"
  by unfold_locales simp_all

interpretation value_form: wire_form "\<lambda>v. v" Some "\<lambda>v. \<not> is_null v"
  by unfold_locales simp_all

interpretation u32_form: wire_form json_u32 de_u32 "\<lambda>_. True"
  by unfold_locales (simp_all, simp add: json_u32_def)

definition json_u64 :: "u64 \<Rightarrow> json" where
  "json_u64 n = JNumber (PosInt n)"

interpretation u64_form: wire_form json_u64 as_u64 "\<lambda>_. True"
  by unfold_locales (simp_all add: json_u64_def)

lemma word_less_sint: "(n :: u64) < 0x8000000000000000 \<longleftrightarrow> 0 \<le> sint n"
proof -
  have u: "0 \<le> uint n" "uint n < 2 ^ 64" using uint_bounded [of n] by simp_all
  then have "uint n div 2 ^ 63 < 2" by simp
  moreover have "uint n < 2 ^ 63 \<longleftrightarrow> uint n div 2 ^ 63 = 0" using u by (auto simp: zdiv_eq_0_iff)
  moreover have "0 \<le> uint n div 2 ^ 63" using u by (simp add: pos_imp_zdiv_nonneg_iff)
  ultimately have "uint n < 2 ^ 63 \<longleftrightarrow> \<not> bit (uint n) 63" by (auto simp: bit_iff_odd elim!: oddE)
  then show ?thesis by (simp add: word_less_alt sint_uint)
qed

interpretation i64_form: wire_form json_i64 as_i64 "\<lambda>_. True"
  by unfold_locales (simp_all add: json_i64_def word_less_sint)


text \<open>
  Floats.  A writer puts a number that is not finite as null.  An integer is read by the language's cast, which rounds to
  nearest, ties to even.
\<close>

definition nat_to_f32 :: "nat \<Rightarrow> nat" where
  "nat_to_f32 n =
     (if n = 0 then 0
      else (let b = bit_length n
            in (b + 126) * 2 ^ 23
               + ((if b \<le> 24 then n * 2 ^ (24 - b) else round_even n (b - 24)) - 2 ^ 23)))"

fun de_f32 :: "json \<Rightarrow> u32 option" where
  "de_f32 (JNumber (Float x)) = Some (f64_to_f32 x)"
| "de_f32 (JNumber (PosInt n)) = Some (word_of_nat (nat_to_f32 (unat n)))"
| "de_f32 (JNumber (NegInt n)) = Some (word_of_nat (2 ^ 31 + nat_to_f32 (nat (- sint n))))"
| "de_f32 _ = None"

definition f64_finite :: "u64 \<Rightarrow> bool" where
  "f64_finite x \<longleftrightarrow> unat x div 2 ^ 52 mod 2 ^ 11 \<noteq> 2047"

definition json_f64 :: "u64 \<Rightarrow> json" where
  "json_f64 x = (if f64_finite x then JNumber (Float x) else JNull)"

fun de_f64 :: "serde \<Rightarrow> json \<Rightarrow> u64 option" where
  "de_f64 sj (JNumber (Float x)) = Some x"
| "de_f64 sj (JNumber n) = number_f64 sj n"
| "de_f64 sj _ = None"

interpretation f64_form: wire_form json_f64 "de_f64 sj" f64_finite for sj
  by unfold_locales (simp_all add: json_f64_def)

text \<open>
  The library behind the schema: the double that the text of a \<open>f32\<close> denotes (the widened number itself when a
  \<open>Value\<close> is written), standard base64, and RFC 3339 dates.
\<close>

record schema_lib =
  sl_f32 :: "u32 \<Rightarrow> u64"
  sl_b64 :: "u8 list \<Rightarrow> string"
  sl_unb64 :: "string \<Rightarrow> u8 list option"
  sl_date :: "datetime \<Rightarrow> string"
  sl_undate :: "string \<Rightarrow> datetime option"
  sl_serde :: serde

definition schema_lib_ok :: "schema_lib \<Rightarrow> bool" where
  "schema_lib_ok sl \<longleftrightarrow>
     (\<forall>x. f32_finite x \<longrightarrow> f64_to_f32 (sl_f32 sl x) = x)
   \<and> (\<forall>b. sl_unb64 sl (sl_b64 sl b) = Some b)
   \<and> (\<forall>t. sl_undate sl (sl_date sl t) = Some t)"

definition f32_json :: "schema_lib \<Rightarrow> u32 \<Rightarrow> json" where
  "f32_json sl x = (if f32_finite x then JNumber (Float (sl_f32 sl x)) else JNull)"

definition date_json :: "schema_lib \<Rightarrow> datetime \<Rightarrow> json" where
  "date_json sl t = JString (sl_date sl t)"

definition date_of :: "schema_lib \<Rightarrow> json \<Rightarrow> datetime option" where
  "date_of sl j = Option.bind (as_str j) (sl_undate sl)"

definition bytes_json :: "schema_lib \<Rightarrow> u8 list \<Rightarrow> json" where
  "bytes_json sl b = JString (sl_b64 sl b)"

definition bytes_of :: "schema_lib \<Rightarrow> bool \<Rightarrow> json \<Rightarrow> u8 list option" where
  "bytes_of sl lent j = Option.bind (if lent then as_str j else None) (sl_unb64 sl)"

interpretation f32_form: wire_form "f32_json sl" de_f32 "\<lambda>x. schema_lib_ok sl \<and> f32_finite x" for sl
  by unfold_locales (auto simp: f32_json_def schema_lib_ok_def)

interpretation date_form: wire_form "date_json sl" "date_of sl" "\<lambda>_. schema_lib_ok sl" for sl
  by unfold_locales (simp_all add: date_json_def date_of_def schema_lib_ok_def)

interpretation bytes_form: wire_form "bytes_json sl" "bytes_of sl lent" "\<lambda>_. schema_lib_ok sl \<and> lent" for sl lent
  by unfold_locales (simp_all add: bytes_json_def bytes_of_def schema_lib_ok_def)

text \<open>Metadata: transparent over an optional map, and left out when it has no entry.\<close>

definition metadata_field :: "string \<Rightarrow> metadata \<Rightarrow> jmap" where
  "metadata_field k md = (if metadata_is_empty md then [] else opt_field k JObject md)"

definition metadata_of :: "json option \<Rightarrow> metadata option" where
  "metadata_of v = de_default None (de_option as_object) v"

definition metadata_good :: "metadata \<Rightarrow> bool" where
  "metadata_good md \<longleftrightarrow> md \<noteq> Some []"

lemma metadata_good_new [simp]: "metadata_good metadata_new"
  by (simp add: metadata_good_def metadata_new_def)

lemma metadata_good_insert [simp]: "metadata_good (metadata_insert k v md)"
proof -
  have "alist_put k v m \<noteq> []" for m :: jmap by (induction k v m rule: alist_put.induct) auto
  then show ?thesis by (simp add: metadata_good_def metadata_insert_def)
qed

section \<open>Fields of a written struct\<close>

text \<open>A lookup in a written struct goes through its groups of fields.\<close>

definition first_of :: "'a option \<Rightarrow> 'a option \<Rightarrow> 'a option" where
  "first_of x y = (case x of None \<Rightarrow> y | Some v \<Rightarrow> Some v)"

lemma first_of_simps: "first_of None y = y" "first_of x None = x" "first_of (Some v) y = Some v"
  by (simp_all add: first_of_def split: option.split)

lemma map_of_groups: "(m ++ n) k = first_of (n k) (m k)"
  by (simp add: map_add_def first_of_def)

lemma map_of_metadata_field:
  "map_of (metadata_field k md) k' =
     (if k' = k \<and> \<not> metadata_is_empty md then map_option JObject md else None)"
  by (simp add: metadata_field_def)

lemma metadata_of_written:
  "metadata_good md \<Longrightarrow> metadata_of (if \<not> metadata_is_empty md then map_option JObject md else None) = Some md"
  by (cases md) (auto simp: metadata_of_def metadata_good_def metadata_is_empty_def de_default_def de_option_def)

lemmas written_fields =
  struct_fields_def map_of_groups map_of_metadata_field first_of_simps metadata_of_written

section \<open>Names\<close>

definition roles :: "role list" where
  "roles = [RSystem, RUser, RAssistant, RTool]"

interpretation role_names: wire_names roles role_str
  by unfold_locales (auto simp: roles_def role_str_def intro: role.exhaust)

definition history_modes :: "history_mode list" where
  "history_modes = [Stateless, Stateful, HistAuto]"

fun history_str :: "history_mode \<Rightarrow> string" where
  "history_str Stateless = ''stateless''"
| "history_str Stateful = ''stateful''"
| "history_str HistAuto = ''auto''"

interpretation history_names: wire_names history_modes history_str
  by unfold_locales (auto simp: history_modes_def intro: history_mode.exhaust)

definition function_callings :: "function_calling list" where
  "function_callings = [FcAuto, FcManual]"

fun calling_str :: "function_calling \<Rightarrow> string" where
  "calling_str FcAuto = ''auto''"
| "calling_str FcManual = ''manual''"

interpretation calling_names: wire_names function_callings calling_str
  by unfold_locales (auto simp: function_callings_def intro: function_calling.exhaust)

section \<open>Tools\<close>

definition tool_call_json :: "tool_call \<Rightarrow> json" where
  "tool_call_json c =
     JObject [(''id'', JString (tc_id c)), (''name'', JString (tc_name c)), (''arguments'', JObject (tc_arguments c))]"

definition tool_call_of :: "json \<Rightarrow> tool_call option" where
  "tool_call_of v =
     do { get \<leftarrow> struct_fields [''id'', ''name'', ''arguments''] v;
          i \<leftarrow> Option.bind (get ''id'') as_str;
          n \<leftarrow> Option.bind (get ''name'') as_str;
          a \<leftarrow> de_default [] as_object (get ''arguments'');
          Some \<lparr>tc_id = i, tc_name = n, tc_arguments = a\<rparr> }"

interpretation tool_call_form: wire_form tool_call_json tool_call_of "\<lambda>_. True"
  by unfold_locales (simp_all add: tool_call_json_def tool_call_of_def struct_fields_def de_default_def)

definition tool_definition_json :: "tool_definition \<Rightarrow> json" where
  "tool_definition_json t =
     JObject [(''name'', JString (td_name t)), (''description'', JString (td_description t)),
              (''input_schema'', JObject (td_input_schema t))]"

definition tool_definition_of :: "json \<Rightarrow> tool_definition option" where
  "tool_definition_of v =
     do { get \<leftarrow> struct_fields [''name'', ''description'', ''input_schema''] v;
          n \<leftarrow> Option.bind (get ''name'') as_str;
          d \<leftarrow> de_default [] as_str (get ''description'');
          s \<leftarrow> Option.bind (get ''input_schema'') as_object;
          Some \<lparr>td_name = n, td_description = d, td_input_schema = s\<rparr> }"

interpretation tool_definition_form: wire_form tool_definition_json tool_definition_of "\<lambda>_. True"
  by unfold_locales
    (simp_all add: tool_definition_json_def tool_definition_of_def struct_fields_def de_default_def)

text \<open>A structured extract that is null is written as null and read as missing.\<close>

definition structured_good :: "json option \<Rightarrow> bool" where
  "structured_good s \<longleftrightarrow> s \<noteq> Some JNull"

lemma structured_read:
  "structured_good s \<Longrightarrow> de_default None (de_option Some) (map_option (\<lambda>v. v) s) = Some s"
  by (rule value_form.get_opt) (cases s; auto simp: structured_good_def elim!: is_null.elims)

definition tool_result_json :: "tool_result \<Rightarrow> json" where
  "tool_result_json r =
     JObject ([(''tool_call_id'', JString (tr_tool_call_id r)), (''name'', JString (tr_name r)),
               (''content'', tr_content r), (''is_error'', JBool (tr_is_error r))]
              @ opt_field ''structured_content'' (\<lambda>v. v) (tr_structured r))"

definition tool_result_of :: "json \<Rightarrow> tool_result option" where
  "tool_result_of v =
     do { get \<leftarrow> struct_fields [''tool_call_id'', ''name'', ''content'', ''is_error'', ''structured_content''] v;
          i \<leftarrow> Option.bind (get ''tool_call_id'') as_str;
          n \<leftarrow> Option.bind (get ''name'') as_str;
          c \<leftarrow> get ''content'';
          e \<leftarrow> de_default False as_bool (get ''is_error'');
          s \<leftarrow> de_default None (de_option Some) (get ''structured_content'');
          Some \<lparr>tr_tool_call_id = i, tr_name = n, tr_content = c, tr_is_error = e, tr_structured = s\<rparr> }"

definition tool_result_good :: "tool_result \<Rightarrow> bool" where
  "tool_result_good r \<longleftrightarrow> structured_good (tr_structured r)"

interpretation tool_result_form: wire_form tool_result_json tool_result_of tool_result_good
  by unfold_locales
    (simp_all add: tool_result_json_def tool_result_of_def tool_result_good_def written_fields structured_read
      de_default_def [of False])

definition tool_output_json :: "tool_output \<Rightarrow> json" where
  "tool_output_json out =
     JObject ([(''content'', to_content out), (''is_error'', JBool (to_is_error out))]
              @ opt_field ''structured'' (\<lambda>v. v) (to_structured out) @ metadata_field ''metadata'' (to_metadata out))"

definition tool_output_of :: "json \<Rightarrow> tool_output option" where
  "tool_output_of v =
     do { get \<leftarrow> struct_fields [''content'', ''is_error'', ''structured'', ''metadata''] v;
          c \<leftarrow> get ''content'';
          e \<leftarrow> de_default False as_bool (get ''is_error'');
          s \<leftarrow> de_default None (de_option Some) (get ''structured'');
          md \<leftarrow> metadata_of (get ''metadata'');
          Some \<lparr>to_content = c, to_is_error = e, to_structured = s, to_metadata = md\<rparr> }"

definition tool_output_good :: "tool_output \<Rightarrow> bool" where
  "tool_output_good out \<longleftrightarrow> structured_good (to_structured out) \<and> metadata_good (to_metadata out)"

interpretation tool_output_form: wire_form tool_output_json tool_output_of tool_output_good
  by unfold_locales
    (simp_all add: tool_output_json_def tool_output_of_def tool_output_good_def written_fields structured_read
      de_default_def [of False])

definition executed_json :: "executed_tool_call \<Rightarrow> json" where
  "executed_json e =
     JObject ([(''call'', tool_call_json (ex_call e)), (''output'', tool_output_json (ex_output e))]
              @ opt_field ''duration_ms'' json_f64 (ex_duration_ms e))"

definition executed_of :: "serde \<Rightarrow> json \<Rightarrow> executed_tool_call option" where
  "executed_of sj v =
     do { get \<leftarrow> struct_fields [''call'', ''output'', ''duration_ms''] v;
          c \<leftarrow> Option.bind (get ''call'') tool_call_of;
          out \<leftarrow> Option.bind (get ''output'') tool_output_of;
          d \<leftarrow> de_default None (de_option (de_f64 sj)) (get ''duration_ms'');
          Some \<lparr>ex_call = c, ex_output = out, ex_duration_ms = d\<rparr> }"

definition executed_good :: "executed_tool_call \<Rightarrow> bool" where
  "executed_good e \<longleftrightarrow> tool_output_good (ex_output e) \<and> pred_option f64_finite (ex_duration_ms e)"

interpretation executed_form: wire_form executed_json "executed_of sj" executed_good for sj
  by unfold_locales
    (simp_all add: executed_json_def executed_of_def executed_good_def written_fields f64_form.get_opt
      tool_call_form.get_put tool_output_form.get_put)

section \<open>Messages\<close>

definition image_url_json :: "image_url \<Rightarrow> json" where
  "image_url_json u = JObject ([(''url'', JString (iu_url u))] @ opt_field ''detail'' JString (iu_detail u))"

text \<open>An optional field without a default may be missing from an object, but not from an array.\<close>

definition image_url_of :: "json \<Rightarrow> image_url option" where
  "image_url_of v =
     do { get \<leftarrow> (case v of JArray xs \<Rightarrow> if length xs = 2 then struct_fields [''url'', ''detail''] v else None
                         | _ \<Rightarrow> struct_fields [''url'', ''detail''] v);
          u \<leftarrow> Option.bind (get ''url'') as_str;
          d \<leftarrow> de_default None (de_option as_str) (get ''detail'');
          Some \<lparr>iu_url = u, iu_detail = d\<rparr> }"

lemma opt_str_read: "de_default None (de_option as_str) (map_option JString x) = Some x"
  by (rule string_form.get_opt) (cases x; simp)

interpretation image_url_form: wire_form image_url_json image_url_of "\<lambda>_. True"
  by unfold_locales (simp_all add: image_url_json_def image_url_of_def written_fields opt_str_read)

definition input_file_fields :: "schema_lib \<Rightarrow> input_file \<Rightarrow> jmap" where
  "input_file_fields sl f =
     [(''file_name'', JString (if_file_name f)), (''mime_type'', JString (if_mime_type f)),
      (''data'', bytes_json sl (if_data f))]"

definition input_file_of :: "schema_lib \<Rightarrow> bool \<Rightarrow> json \<Rightarrow> input_file option" where
  "input_file_of sl lent v =
     do { get \<leftarrow> struct_fields [''file_name'', ''mime_type'', ''data''] v;
          n \<leftarrow> Option.bind (get ''file_name'') as_str;
          t \<leftarrow> Option.bind (get ''mime_type'') as_str;
          b \<leftarrow> Option.bind (get ''data'') (bytes_of sl lent);
          Some \<lparr>if_file_name = n, if_mime_type = t, if_data = b\<rparr> }"

interpretation input_file_form: wire_form "\<lambda>f. JObject (input_file_fields sl f)" "input_file_of sl lent"
    "\<lambda>_. schema_lib_ok sl \<and> lent" for sl lent
  by unfold_locales (simp_all add: input_file_fields_def input_file_of_def struct_fields_def bytes_form.get_put)

text \<open>
  The parts of a content are tagged inside.  They are read from a buffer (the content is an untagged union), in
  which a tag may also be the position of the variant.
\<close>

fun part_json :: "schema_lib \<Rightarrow> content_part \<Rightarrow> json" where
  "part_json sl (PText s) = JObject [(''type'', JString ''text''), (''text'', JString s)]"
| "part_json sl (PImageUrl u) = JObject [(''type'', JString ''image_url''), (''image_url'', image_url_json u)]"
| "part_json sl (PJson m) = JObject [(''type'', JString ''json''), (''data'', JObject m)]"
| "part_json sl (PInputFile f) = JObject ((''type'', JString ''input_file'') # input_file_fields sl f)"

definition part_names :: "string list" where
  "part_names = [''text'', ''image_url'', ''json'', ''input_file'']"

fun part_tag :: "json \<Rightarrow> string option" where
  "part_tag (JString s) = Some s"
| "part_tag (JNumber (PosInt n)) = (if n < 4 then Some (part_names ! unat n) else None)"
| "part_tag _ = None"

fun tagged_part :: "json \<Rightarrow> (string \<times> json) option" where
  "tagged_part (JObject m) =
     map_option (\<lambda>t. (t, JObject (filter (\<lambda>e. fst e \<noteq> ''type'') m))) (Option.bind (map_of m ''type'') part_tag)"
| "tagged_part (JArray (t # xs)) = map_option (\<lambda>t. (t, JArray xs)) (part_tag t)"
| "tagged_part _ = None"

definition part_of :: "schema_lib \<Rightarrow> bool \<Rightarrow> json \<Rightarrow> content_part option" where
  "part_of sl lent v =
     do { (t, body) \<leftarrow> tagged_part v;
          if t = ''text'' then
            do { get \<leftarrow> struct_fields [''text''] body;
                 s \<leftarrow> Option.bind (get ''text'') as_str; Some (PText s) }
          else if t = ''image_url'' then
            do { get \<leftarrow> struct_fields [''image_url''] body;
                 u \<leftarrow> Option.bind (get ''image_url'') image_url_of; Some (PImageUrl u) }
          else if t = ''json'' then
            do { get \<leftarrow> struct_fields [''data''] body;
                 m \<leftarrow> Option.bind (get ''data'') as_object; Some (PJson m) }
          else if t = ''input_file'' then map_option PInputFile (input_file_of sl lent body)
          else None }"

fun part_good :: "bool \<Rightarrow> content_part \<Rightarrow> bool" where
  "part_good lent (PInputFile f) \<longleftrightarrow> lent"
| "part_good lent _ \<longleftrightarrow> True"

lemma part_read: "schema_lib_ok sl \<and> part_good lent p \<Longrightarrow> part_of sl lent (part_json sl p) = Some p"
proof (cases p)
  case (PInputFile f)
  then show "schema_lib_ok sl \<and> part_good lent p \<Longrightarrow> part_of sl lent (part_json sl p) = Some p"
    using input_file_form.get_put [of sl lent f]
    by (simp add: part_of_def) (simp add: input_file_fields_def)
qed (simp_all add: part_of_def struct_fields_def image_url_form.get_put)

lemma part_not_null: "\<not> is_null (part_json sl p)"
  by (cases p) simp_all

interpretation part_form: wire_form "part_json sl" "part_of sl lent" "\<lambda>p. schema_lib_ok sl \<and> part_good lent p" for sl lent
  by unfold_locales (simp_all add: part_read part_not_null)

fun content_json :: "schema_lib \<Rightarrow> content \<Rightarrow> json" where
  "content_json sl (CText s) = JString s"
| "content_json sl (CParts ps) = JArray (map (part_json sl) ps)"

fun content_of :: "schema_lib \<Rightarrow> bool \<Rightarrow> json \<Rightarrow> content option" where
  "content_of sl lent (JString s) = Some (CText s)"
| "content_of sl lent v = map_option CParts (de_list (part_of sl lent) v)"

fun content_good :: "bool \<Rightarrow> content \<Rightarrow> bool" where
  "content_good lent (CText s) \<longleftrightarrow> True"
| "content_good lent (CParts ps) \<longleftrightarrow> list_all (part_good lent) ps"

lemma list_all_and_const: "list_all (\<lambda>x. c \<and> p x) xs \<longleftrightarrow> xs = [] \<or> c \<and> list_all p xs"
  by (induction xs) auto

interpretation content_form: wire_form "content_json sl" "content_of sl lent"
    "\<lambda>c. schema_lib_ok sl \<and> content_good lent c" for sl lent
proof
  fix c
  assume c: "schema_lib_ok sl \<and> content_good lent c"
  show "content_of sl lent (content_json sl c) = Some c"
  proof (cases c)
    case (CParts ps)
    then show ?thesis
      using c part_form.get_list [of sl lent ps] by (simp add: list_all_and_const)
  qed simp
  show "\<not> is_null (content_json sl c)" by (cases c) simp_all
qed

definition message_json :: "schema_lib \<Rightarrow> message \<Rightarrow> json" where
  "message_json sl m =
     JObject ([(''role'', JString (role_str (msg_role m)))]
              @ opt_field ''content'' (content_json sl) (msg_content m)
              @ opt_field ''name'' JString (msg_name m)
              @ list_field ''tool_calls'' tool_call_json (msg_tool_calls m)
              @ opt_field ''tool_result'' tool_result_json (msg_tool_result m)
              @ metadata_field ''metadata'' (msg_metadata m))"

definition message_of :: "schema_lib \<Rightarrow> bool \<Rightarrow> json \<Rightarrow> message option" where
  "message_of sl lent v =
     do { get \<leftarrow> struct_fields [''role'', ''content'', ''name'', ''tool_calls'', ''tool_result'', ''metadata''] v;
          r \<leftarrow> Option.bind (get ''role'') (de_enum roles role_str);
          c \<leftarrow> de_default None (de_option (content_of sl lent)) (get ''content'');
          n \<leftarrow> de_default None (de_option as_str) (get ''name'');
          cs \<leftarrow> de_default [] (de_list tool_call_of) (get ''tool_calls'');
          tr \<leftarrow> de_default None (de_option tool_result_of) (get ''tool_result'');
          md \<leftarrow> metadata_of (get ''metadata'');
          Some \<lparr>msg_role = r, msg_content = c, msg_name = n, msg_tool_calls = cs, msg_tool_result = tr,
                msg_metadata = md\<rparr> }"

definition message_good :: "bool \<Rightarrow> message \<Rightarrow> bool" where
  "message_good lent m \<longleftrightarrow>
     pred_option (content_good lent) (msg_content m) \<and> pred_option tool_result_good (msg_tool_result m)
   \<and> metadata_good (msg_metadata m)"

lemma pred_option_and_const: "c \<and> pred_option p x \<Longrightarrow> pred_option (\<lambda>y. c \<and> p y) x"
  by (cases x) simp_all

lemma calls_read:
  "de_default [] (de_list tool_call_of) (if cs \<noteq> [] then Some (JArray (map tool_call_json cs)) else None) = Some cs"
  by (rule tool_call_form.get_list_field) (simp add: list_all_iff)

interpretation message_form: wire_form "message_json sl" "message_of sl lent"
    "\<lambda>m. schema_lib_ok sl \<and> message_good lent m" for sl lent
  by unfold_locales
    (simp_all add: message_json_def message_of_def message_good_def written_fields calls_read opt_str_read
      role_names.form.get_put content_form.get_opt pred_option_and_const tool_result_form.get_opt)

section \<open>Conversations\<close>

definition turn_json :: "schema_lib \<Rightarrow> canonical_turn \<Rightarrow> json" where
  "turn_json sl t =
     JObject ([(''turn_id'', JString (ct_turn_id t)),
               (''request'', JArray (map (message_json sl) (ct_request t))),
               (''response'', JArray (map (message_json sl) (ct_response t))),
               (''created_at'', date_json sl (ct_created_at t))]
              @ metadata_field ''metadata'' (ct_metadata t))"

definition turn_of_json :: "schema_lib \<Rightarrow> bool \<Rightarrow> json \<Rightarrow> canonical_turn option" where
  "turn_of_json sl lent v =
     do { get \<leftarrow> struct_fields [''turn_id'', ''request'', ''response'', ''created_at'', ''metadata''] v;
          i \<leftarrow> Option.bind (get ''turn_id'') as_str;
          q \<leftarrow> de_default [] (de_list (message_of sl lent)) (get ''request'');
          r \<leftarrow> de_default [] (de_list (message_of sl lent)) (get ''response'');
          t \<leftarrow> Option.bind (get ''created_at'') (date_of sl);
          md \<leftarrow> metadata_of (get ''metadata'');
          Some \<lparr>ct_turn_id = i, ct_request = q, ct_response = r, ct_created_at = t, ct_metadata = md\<rparr> }"

definition turn_good :: "bool \<Rightarrow> canonical_turn \<Rightarrow> bool" where
  "turn_good lent t \<longleftrightarrow>
     list_all (message_good lent) (ct_request t) \<and> list_all (message_good lent) (ct_response t)
   \<and> metadata_good (ct_metadata t)"

lemma messages_read:
  "schema_lib_ok sl \<Longrightarrow> list_all (message_good lent) ms \<Longrightarrow>
   de_list (message_of sl lent) (JArray (map (message_json sl) ms)) = Some ms"
  by (rule message_form.get_list) (simp add: list_all_and_const)

interpretation turn_form: wire_form "turn_json sl" "turn_of_json sl lent"
    "\<lambda>t. schema_lib_ok sl \<and> turn_good lent t" for sl lent
  by unfold_locales
    (simp_all add: turn_json_def turn_of_json_def turn_good_def written_fields messages_read date_form.get_put
      de_default_def [where dflt = "[]"])

definition conversation_json :: "schema_lib \<Rightarrow> conversation \<Rightarrow> json" where
  "conversation_json sl c =
     JObject ([(''conversation_key'', JString (cv_key c)),
               (''history_mode'', JString (history_str (cv_history_mode c)))]
              @ opt_field ''system_prompt'' JString (cv_system_prompt c)
              @ opt_field ''title'' JString (cv_title c)
              @ [(''persistent'', JBool (cv_persistent c)),
                 (''turns'', JArray (map (turn_json sl) (cv_turns c))),
                 (''history_version'', json_u64 (cv_history_version c))]
              @ metadata_field ''metadata'' (cv_metadata c))"

definition conversation_of :: "schema_lib \<Rightarrow> bool \<Rightarrow> json \<Rightarrow> conversation option" where
  "conversation_of sl lent v =
     do { get \<leftarrow> struct_fields [''conversation_key'', ''history_mode'', ''system_prompt'', ''title'', ''persistent'',
                                   ''turns'', ''history_version'', ''metadata''] v;
          k \<leftarrow> Option.bind (get ''conversation_key'') as_str;
          h \<leftarrow> de_default HistAuto (de_enum history_modes history_str) (get ''history_mode'');
          sp \<leftarrow> de_default None (de_option as_str) (get ''system_prompt'');
          ti \<leftarrow> de_default None (de_option as_str) (get ''title'');
          p \<leftarrow> de_default False as_bool (get ''persistent'');
          ts \<leftarrow> de_default [] (de_list (turn_of_json sl lent)) (get ''turns'');
          n \<leftarrow> de_default 0 as_u64 (get ''history_version'');
          md \<leftarrow> metadata_of (get ''metadata'');
          Some \<lparr>cv_key = k, cv_history_mode = h, cv_system_prompt = sp, cv_title = ti, cv_persistent = p,
                cv_turns = ts, cv_history_version = n, cv_metadata = md\<rparr> }"

definition conversation_good :: "bool \<Rightarrow> conversation \<Rightarrow> bool" where
  "conversation_good lent c \<longleftrightarrow> list_all (turn_good lent) (cv_turns c) \<and> metadata_good (cv_metadata c)"

lemma turns_read:
  "schema_lib_ok sl \<Longrightarrow> list_all (turn_good lent) ts \<Longrightarrow>
   de_list (turn_of_json sl lent) (JArray (map (turn_json sl) ts)) = Some ts"
  by (rule turn_form.get_list) (simp add: list_all_and_const)

interpretation conversation_form: wire_form "conversation_json sl" "conversation_of sl lent"
    "\<lambda>c. schema_lib_ok sl \<and> conversation_good lent c" for sl lent
  by unfold_locales
    (simp_all add: conversation_json_def conversation_of_def conversation_good_def written_fields turns_read
      opt_str_read history_names.form.get_put u64_form.get_put de_default_def [where v = "Some x" for x])

definition checkpoint_json :: "schema_lib \<Rightarrow> checkpoint \<Rightarrow> json" where
  "checkpoint_json sl c =
     JObject ([(''conversation_key'', JString (cp_conversation_key c)),
               (''provider'', JString (provider_as_str (cp_provider c))),
               (''account_id'', JString (cp_account_id c))]
              @ opt_field ''remote_conversation_id'' JString (cp_remote_conversation_id c)
              @ opt_field ''remote_parent_id'' JString (cp_remote_parent_id c)
              @ metadata_field ''remote_metadata'' (cp_remote_metadata c)
              @ [(''history_version'', json_u64 (cp_history_version c)),
                 (''updated_at'', date_json sl (cp_updated_at c)), (''is_valid'', JBool (cp_is_valid c))])"

definition checkpoint_of :: "schema_lib \<Rightarrow> json \<Rightarrow> checkpoint option" where
  "checkpoint_of sl v =
     do { get \<leftarrow> struct_fields [''conversation_key'', ''provider'', ''account_id'', ''remote_conversation_id'',
                                   ''remote_parent_id'', ''remote_metadata'', ''history_version'', ''updated_at'',
                                   ''is_valid''] v;
          k \<leftarrow> Option.bind (get ''conversation_key'') as_str;
          p \<leftarrow> Option.bind (get ''provider'') (de_enum provider_all provider_as_str);
          a \<leftarrow> Option.bind (get ''account_id'') as_str;
          rc \<leftarrow> de_default None (de_option as_str) (get ''remote_conversation_id'');
          rp \<leftarrow> de_default None (de_option as_str) (get ''remote_parent_id'');
          md \<leftarrow> metadata_of (get ''remote_metadata'');
          n \<leftarrow> de_default 0 as_u64 (get ''history_version'');
          t \<leftarrow> Option.bind (get ''updated_at'') (date_of sl);
          b \<leftarrow> de_default True as_bool (get ''is_valid'');
          Some \<lparr>cp_conversation_key = k, cp_provider = p, cp_account_id = a, cp_remote_conversation_id = rc,
                cp_remote_parent_id = rp, cp_remote_metadata = md, cp_history_version = n, cp_updated_at = t,
                cp_is_valid = b\<rparr> }"

interpretation checkpoint_form: wire_form "checkpoint_json sl" "checkpoint_of sl"
    "\<lambda>c. schema_lib_ok sl \<and> metadata_good (cp_remote_metadata c)" for sl
  by unfold_locales
    (simp_all add: checkpoint_json_def checkpoint_of_def written_fields opt_str_read u64_form.get_put
      provider_names.form.get_put date_form.get_put de_default_def [where v = "Some x" for x])

definition runtime_json :: "schema_lib \<Rightarrow> runtime_state \<Rightarrow> json" where
  "runtime_json sl s =
     JObject [(''canonical'', conversation_json sl (rt_canonical s)),
              (''checkpoints'', JArray (map (checkpoint_json sl) (rt_checkpoints s)))]"

definition runtime_of :: "schema_lib \<Rightarrow> bool \<Rightarrow> json \<Rightarrow> runtime_state option" where
  "runtime_of sl lent v =
     do { get \<leftarrow> struct_fields [''canonical'', ''checkpoints''] v;
          c \<leftarrow> Option.bind (get ''canonical'') (conversation_of sl lent);
          cs \<leftarrow> de_default [] (de_list (checkpoint_of sl)) (get ''checkpoints'');
          Some \<lparr>rt_canonical = c, rt_checkpoints = cs\<rparr> }"

definition runtime_good :: "bool \<Rightarrow> runtime_state \<Rightarrow> bool" where
  "runtime_good lent s \<longleftrightarrow>
     conversation_good lent (rt_canonical s)
   \<and> list_all (\<lambda>c. metadata_good (cp_remote_metadata c)) (rt_checkpoints s)"

lemma checkpoints_read:
  "schema_lib_ok sl \<Longrightarrow> list_all (\<lambda>c. metadata_good (cp_remote_metadata c)) cs \<Longrightarrow>
   de_list (checkpoint_of sl) (JArray (map (checkpoint_json sl) cs)) = Some cs"
  by (rule checkpoint_form.get_list) (simp add: list_all_and_const)

interpretation runtime_form: wire_form "runtime_json sl" "runtime_of sl lent"
    "\<lambda>s. schema_lib_ok sl \<and> runtime_good lent s" for sl lent
  by unfold_locales
    (simp_all add: runtime_json_def runtime_of_def runtime_good_def struct_fields_def conversation_form.get_put
      checkpoints_read de_default_def [where v = "Some x" for x])

section \<open>Requests\<close>

definition model_id_json :: "model_id \<Rightarrow> json" where
  "model_id_json m =
     JObject [(''provider'', JString (provider_as_str (mid_provider m))), (''model'', JString (mid_model m))]"

definition model_id_of :: "json \<Rightarrow> model_id option" where
  "model_id_of v =
     do { get \<leftarrow> struct_fields [''provider'', ''model''] v;
          p \<leftarrow> Option.bind (get ''provider'') (de_enum provider_all provider_as_str);
          m \<leftarrow> Option.bind (get ''model'') as_str;
          Some \<lparr>mid_provider = p, mid_model = m\<rparr> }"

interpretation model_id_form: wire_form model_id_json model_id_of "\<lambda>_. True"
  by unfold_locales
    (simp_all add: model_id_json_def model_id_of_def struct_fields_def provider_names.form.get_put)

text \<open>The derived reader does not make the check of the constructors.\<close>

lemma model_id_read_empty:
  "model_id_of (JObject [(''provider'', JString ''groq''), (''model'', JString [])]) =
     Some \<lparr>mid_provider = Groq, mid_model = []\<rparr>"
  "model_id_new Groq [] = Inl EmptyModel"
  using provider_names.parse_print [of Groq]
  by (simp_all add: model_id_of_def struct_fields_def de_enum_def model_id_new_def)

fun format_json :: "response_format \<Rightarrow> json" where
  "format_json FmtFree = JNull"
| "format_json (FmtJsonSchema m) = JObject [(''json_schema'', JObject m)]"

definition format_of :: "json \<Rightarrow> response_format option" where
  "format_of v =
     (if is_null v then Some FmtFree
      else do { get \<leftarrow> struct_fields [''json_schema''] v;
                m \<leftarrow> Option.bind (get ''json_schema'') as_object;
                Some (FmtJsonSchema m) })"

definition format_field :: "response_format \<Rightarrow> jmap" where
  "format_field f = (if is_free f then [] else [(''response_format'', format_json f)])"

lemma format_read: "de_default FmtFree format_of (map_of (format_field f) ''response_format'') = Some f"
  by (cases f) (simp_all add: format_field_def de_default_def format_of_def struct_fields_def)

lemma format_field_other: "k \<noteq> ''response_format'' \<Longrightarrow> map_of (format_field f) k = None"
  by (simp add: format_field_def)

definition sampling_json :: "schema_lib \<Rightarrow> sampling \<Rightarrow> json" where
  "sampling_json sl s =
     JObject (opt_field ''temperature'' (f32_json sl) (sm_temperature s)
              @ opt_field ''max_tokens'' json_u32 (sm_max_tokens s)
              @ opt_field ''top_p'' (f32_json sl) (sm_top_p s)
              @ list_field ''stop'' JString (sm_stop s)
              @ opt_field ''seed'' json_i64 (sm_seed s)
              @ opt_field ''frequency_penalty'' (f32_json sl) (sm_frequency_penalty s)
              @ opt_field ''presence_penalty'' (f32_json sl) (sm_presence_penalty s))"

definition sampling_of :: "json \<Rightarrow> sampling option" where
  "sampling_of v =
     do { get \<leftarrow> struct_fields [''temperature'', ''max_tokens'', ''top_p'', ''stop'', ''seed'', ''frequency_penalty'',
                                   ''presence_penalty''] v;
          t \<leftarrow> de_default None (de_option de_f32) (get ''temperature'');
          mt \<leftarrow> de_default None (de_option de_u32) (get ''max_tokens'');
          tp \<leftarrow> de_default None (de_option de_f32) (get ''top_p'');
          st \<leftarrow> de_default [] (de_list as_str) (get ''stop'');
          sd \<leftarrow> de_default None (de_option as_i64) (get ''seed'');
          fp \<leftarrow> de_default None (de_option de_f32) (get ''frequency_penalty'');
          pp \<leftarrow> de_default None (de_option de_f32) (get ''presence_penalty'');
          Some \<lparr>sm_temperature = t, sm_max_tokens = mt, sm_top_p = tp, sm_stop = st, sm_seed = sd,
                sm_frequency_penalty = fp, sm_presence_penalty = pp\<rparr> }"

definition sampling_good :: "sampling \<Rightarrow> bool" where
  "sampling_good s \<longleftrightarrow>
     pred_option f32_finite (sm_temperature s) \<and> pred_option f32_finite (sm_top_p s)
   \<and> pred_option f32_finite (sm_frequency_penalty s) \<and> pred_option f32_finite (sm_presence_penalty s)"

lemma opt_u32_read: "de_default None (de_option de_u32) (map_option json_u32 x) = Some x"
  by (rule u32_form.get_opt) (cases x; simp)

lemma opt_i64_read: "de_default None (de_option as_i64) (map_option json_i64 x) = Some x"
  by (rule i64_form.get_opt) (cases x; simp)

lemma strings_read:
  "de_default [] (de_list as_str) (if xs \<noteq> [] then Some (JArray (map JString xs)) else None) = Some xs"
  by (rule string_form.get_list_field) (simp add: list_all_iff)

interpretation sampling_form: wire_form "sampling_json sl" sampling_of "\<lambda>s. schema_lib_ok sl \<and> sampling_good s" for sl
  by unfold_locales
    (simp_all add: sampling_json_def sampling_of_def sampling_good_def written_fields f32_form.get_opt
      pred_option_and_const opt_u32_read opt_i64_read strings_read)

definition sampling_field :: "schema_lib \<Rightarrow> sampling \<Rightarrow> jmap" where
  "sampling_field sl s = (if sampling_is_empty s then [] else [(''sampling'', sampling_json sl s)])"

definition request_json :: "schema_lib \<Rightarrow> chat_request \<Rightarrow> json" where
  "request_json sl r =
     JObject ([(''model'', model_id_json (rq_model r)),
               (''messages'', JArray (map (message_json sl) (rq_messages r)))]
              @ opt_field ''system_prompt'' JString (rq_system_prompt r)
              @ list_field ''tools'' tool_definition_json (rq_tools r)
              @ [(''function_calling'', JString (calling_str (rq_function_calling r)))]
              @ format_field (rq_response_format r)
              @ opt_field ''history_mode'' (\<lambda>h. JString (history_str h)) (rq_history_mode r)
              @ [(''stream'', JBool (rq_stream r))]
              @ sampling_field sl (rq_sampling r)
              @ metadata_field ''metadata'' (rq_metadata r))"

definition request_of :: "schema_lib \<Rightarrow> bool \<Rightarrow> json \<Rightarrow> chat_request option" where
  "request_of sl lent v =
     do { get \<leftarrow> struct_fields [''model'', ''messages'', ''system_prompt'', ''tools'', ''function_calling'',
                                   ''response_format'', ''history_mode'', ''stream'', ''sampling'', ''metadata''] v;
          m \<leftarrow> Option.bind (get ''model'') model_id_of;
          ms \<leftarrow> Option.bind (get ''messages'') (de_list (message_of sl lent));
          sp \<leftarrow> de_default None (de_option as_str) (get ''system_prompt'');
          ts \<leftarrow> de_default [] (de_list tool_definition_of) (get ''tools'');
          fc \<leftarrow> de_default FcAuto (de_enum function_callings calling_str) (get ''function_calling'');
          rf \<leftarrow> de_default FmtFree format_of (get ''response_format'');
          h \<leftarrow> de_default None (de_option (de_enum history_modes history_str)) (get ''history_mode'');
          st \<leftarrow> de_default False as_bool (get ''stream'');
          sm \<leftarrow> de_default sampling_default sampling_of (get ''sampling'');
          md \<leftarrow> metadata_of (get ''metadata'');
          Some \<lparr>rq_model = m, rq_messages = ms, rq_system_prompt = sp, rq_tools = ts, rq_function_calling = fc,
                rq_response_format = rf, rq_history_mode = h, rq_stream = st, rq_sampling = sm, rq_metadata = md\<rparr> }"

definition request_good :: "bool \<Rightarrow> chat_request \<Rightarrow> bool" where
  "request_good lent r \<longleftrightarrow>
     list_all (message_good lent) (rq_messages r) \<and> sampling_good (rq_sampling r) \<and> metadata_good (rq_metadata r)"

lemma tools_read:
  "de_default [] (de_list tool_definition_of) (if ts \<noteq> [] then Some (JArray (map tool_definition_json ts)) else None) =
     Some ts"
  by (rule tool_definition_form.get_list_field) (simp add: list_all_iff)

lemma opt_history_read:
  "de_default None (de_option (de_enum history_modes history_str)) (map_option (\<lambda>h. JString (history_str h)) x) = Some x"
  by (rule history_names.form.get_opt) (cases x; simp)

lemma sampling_read:
  "schema_lib_ok sl \<Longrightarrow> sampling_good s \<Longrightarrow>
   de_default sampling_default sampling_of (map_of (sampling_field sl s) ''sampling'') = Some s"
  by (simp add: sampling_field_def de_default_def sampling_form.get_put sampling_is_empty_iff)

lemma sampling_field_other: "k \<noteq> ''sampling'' \<Longrightarrow> map_of (sampling_field sl s) k = None"
  by (simp add: sampling_field_def)

interpretation request_form: wire_form "request_json sl" "request_of sl lent"
    "\<lambda>r. schema_lib_ok sl \<and> request_good lent r" for sl lent
  by unfold_locales
    (simp_all add: request_json_def request_of_def request_good_def written_fields model_id_form.get_put
      messages_read opt_str_read tools_read calling_names.form.get_put format_read format_field_other
      opt_history_read sampling_read sampling_field_other de_default_def [where v = "Some (JString x)" for x]
      de_default_def [where v = "Some (JBool x)" for x] del: if_split cong: if_cong)

section \<open>Responses\<close>

definition usage_json :: "usage \<Rightarrow> json" where
  "usage_json u =
     JObject (opt_field ''input_tokens'' json_u32 (us_input_tokens u)
              @ opt_field ''output_tokens'' json_u32 (us_output_tokens u)
              @ opt_field ''total_tokens'' json_u32 (us_total_tokens u))"

definition usage_of_json :: "json \<Rightarrow> usage option" where
  "usage_of_json v =
     do { get \<leftarrow> struct_fields [''input_tokens'', ''output_tokens'', ''total_tokens''] v;
          i \<leftarrow> de_default None (de_option de_u32) (get ''input_tokens'');
          o' \<leftarrow> de_default None (de_option de_u32) (get ''output_tokens'');
          t \<leftarrow> de_default None (de_option de_u32) (get ''total_tokens'');
          Some \<lparr>us_input_tokens = i, us_output_tokens = o', us_total_tokens = t\<rparr> }"

interpretation usage_form: wire_form usage_json usage_of_json "\<lambda>_. True"
  by unfold_locales (simp_all add: usage_json_def usage_of_json_def written_fields opt_u32_read)

definition chat_response_json :: "schema_lib \<Rightarrow> chat_response \<Rightarrow> json" where
  "chat_response_json sl r =
     JObject ([(''model'', JString (rs_model r)), (''message'', message_json sl (rs_message r)),
               (''usage'', usage_json (rs_usage r))]
              @ list_field ''tool_calls_executed'' executed_json (rs_tool_calls_executed r)
              @ opt_field ''provider_response_id'' JString (rs_provider_response_id r)
              @ opt_field ''finish_reason'' JString (rs_finish_reason r)
              @ metadata_field ''metadata'' (rs_metadata r))"

definition chat_response_of :: "schema_lib \<Rightarrow> bool \<Rightarrow> json \<Rightarrow> chat_response option" where
  "chat_response_of sl lent v =
     do { get \<leftarrow> struct_fields [''model'', ''message'', ''usage'', ''tool_calls_executed'', ''provider_response_id'',
                                   ''finish_reason'', ''metadata''] v;
          m \<leftarrow> Option.bind (get ''model'') as_str;
          msg \<leftarrow> Option.bind (get ''message'') (message_of sl lent);
          u \<leftarrow> de_default usage_default usage_of_json (get ''usage'');
          ex \<leftarrow> de_default [] (de_list (executed_of (sl_serde sl))) (get ''tool_calls_executed'');
          i \<leftarrow> de_default None (de_option as_str) (get ''provider_response_id'');
          fr \<leftarrow> de_default None (de_option as_str) (get ''finish_reason'');
          md \<leftarrow> metadata_of (get ''metadata'');
          Some \<lparr>rs_model = m, rs_message = msg, rs_usage = u, rs_tool_calls_executed = ex,
                rs_provider_response_id = i, rs_finish_reason = fr, rs_metadata = md\<rparr> }"

definition response_good :: "bool \<Rightarrow> chat_response \<Rightarrow> bool" where
  "response_good lent r \<longleftrightarrow>
     message_good lent (rs_message r) \<and> list_all executed_good (rs_tool_calls_executed r)
   \<and> metadata_good (rs_metadata r)"

interpretation chat_response_form: wire_form "chat_response_json sl" "chat_response_of sl lent"
    "\<lambda>r. schema_lib_ok sl \<and> response_good lent r" for sl lent
  by unfold_locales
    (simp_all add: chat_response_json_def chat_response_of_def response_good_def written_fields
      message_form.get_put usage_form.get_put executed_form.get_list_field opt_str_read
      de_default_def [where v = "Some (usage_json u)" for u] del: if_split)

definition model_info_json :: "model_info \<Rightarrow> json" where
  "model_info_json m =
     JObject ([(''id'', JString (mi_id m))] @ opt_field ''display_name'' JString (mi_display_name m)
              @ opt_field ''description'' JString (mi_description m) @ list_field ''tags'' JString (mi_tags m))"

definition model_info_of :: "json \<Rightarrow> model_info option" where
  "model_info_of v =
     do { get \<leftarrow> struct_fields [''id'', ''display_name'', ''description'', ''tags''] v;
          i \<leftarrow> Option.bind (get ''id'') as_str;
          n \<leftarrow> de_default None (de_option as_str) (get ''display_name'');
          d \<leftarrow> de_default None (de_option as_str) (get ''description'');
          ts \<leftarrow> de_default [] (de_list as_str) (get ''tags'');
          Some \<lparr>mi_id = i, mi_display_name = n, mi_description = d, mi_tags = ts\<rparr> }"

interpretation model_info_form: wire_form model_info_json model_info_of "\<lambda>_. True"
  by unfold_locales
    (simp_all add: model_info_json_def model_info_of_def written_fields opt_str_read strings_read del: if_split)

section \<open>Images and embeddings\<close>

record generated_image =
  gi_data :: "u8 list"
  gi_mime_type :: string
  gi_revised_prompt :: "string option"

record image_response =
  ir_model :: string
  ir_images :: "generated_image list"
  ir_metadata :: metadata

record image_request =
  iq_model :: model_id
  iq_prompt :: string
  iq_negative_prompt :: "string option"
  iq_width :: u32
  iq_height :: u32
  iq_n :: u32
  iq_metadata :: metadata

record embeddings_reply =
  er_texts :: "string list"
  er_embeddings :: "u32 list list"
  er_provider :: string
  er_dimensions :: u32
  er_metadata :: metadata

definition default_png :: string where
  "default_png = ''image/png''"

definition default_dim :: u32 where
  "default_dim = 1024"

definition generated_image_json :: "schema_lib \<Rightarrow> generated_image \<Rightarrow> json" where
  "generated_image_json sl g =
     JObject ([(''data'', bytes_json sl (gi_data g)), (''mime_type'', JString (gi_mime_type g))]
              @ opt_field ''revised_prompt'' JString (gi_revised_prompt g))"

definition generated_image_of :: "schema_lib \<Rightarrow> bool \<Rightarrow> json \<Rightarrow> generated_image option" where
  "generated_image_of sl lent v =
     do { get \<leftarrow> struct_fields [''data'', ''mime_type'', ''revised_prompt''] v;
          b \<leftarrow> Option.bind (get ''data'') (bytes_of sl lent);
          t \<leftarrow> de_default default_png as_str (get ''mime_type'');
          p \<leftarrow> de_default None (de_option as_str) (get ''revised_prompt'');
          Some \<lparr>gi_data = b, gi_mime_type = t, gi_revised_prompt = p\<rparr> }"

interpretation generated_image_form: wire_form "generated_image_json sl" "generated_image_of sl lent"
    "\<lambda>_. schema_lib_ok sl \<and> lent" for sl lent
  by unfold_locales
    (simp_all add: generated_image_json_def generated_image_of_def written_fields bytes_form.get_put opt_str_read
      de_default_def [of default_png])

definition image_response_json :: "schema_lib \<Rightarrow> image_response \<Rightarrow> json" where
  "image_response_json sl r =
     JObject ([(''model'', JString (ir_model r)), (''images'', JArray (map (generated_image_json sl) (ir_images r)))]
              @ metadata_field ''metadata'' (ir_metadata r))"

definition image_response_of :: "schema_lib \<Rightarrow> bool \<Rightarrow> json \<Rightarrow> image_response option" where
  "image_response_of sl lent v =
     do { get \<leftarrow> struct_fields [''model'', ''images'', ''metadata''] v;
          m \<leftarrow> Option.bind (get ''model'') as_str;
          gs \<leftarrow> Option.bind (get ''images'') (de_list (generated_image_of sl lent));
          md \<leftarrow> metadata_of (get ''metadata'');
          Some \<lparr>ir_model = m, ir_images = gs, ir_metadata = md\<rparr> }"

interpretation image_response_form: wire_form "image_response_json sl" "image_response_of sl lent"
    "\<lambda>r. schema_lib_ok sl \<and> lent \<and> metadata_good (ir_metadata r)" for sl lent
  by unfold_locales
    (simp_all add: image_response_json_def image_response_of_def written_fields generated_image_form.get_list
      list_all_iff)

definition image_request_json :: "image_request \<Rightarrow> json" where
  "image_request_json q =
     JObject ([(''model'', model_id_json (iq_model q)), (''prompt'', JString (iq_prompt q))]
              @ opt_field ''negative_prompt'' JString (iq_negative_prompt q)
              @ [(''width'', json_u32 (iq_width q)), (''height'', json_u32 (iq_height q)), (''n'', json_u32 (iq_n q))]
              @ metadata_field ''metadata'' (iq_metadata q))"

definition image_request_of :: "json \<Rightarrow> image_request option" where
  "image_request_of v =
     do { get \<leftarrow> struct_fields [''model'', ''prompt'', ''negative_prompt'', ''width'', ''height'', ''n'', ''metadata''] v;
          m \<leftarrow> Option.bind (get ''model'') model_id_of;
          p \<leftarrow> Option.bind (get ''prompt'') as_str;
          np \<leftarrow> de_default None (de_option as_str) (get ''negative_prompt'');
          w \<leftarrow> de_default default_dim de_u32 (get ''width'');
          h \<leftarrow> de_default default_dim de_u32 (get ''height'');
          n \<leftarrow> de_default 1 de_u32 (get ''n'');
          md \<leftarrow> metadata_of (get ''metadata'');
          Some \<lparr>iq_model = m, iq_prompt = p, iq_negative_prompt = np, iq_width = w, iq_height = h, iq_n = n,
                iq_metadata = md\<rparr> }"

interpretation image_request_form: wire_form image_request_json image_request_of "\<lambda>q. metadata_good (iq_metadata q)"
  by unfold_locales
    (simp_all add: image_request_json_def image_request_of_def written_fields model_id_form.get_put opt_str_read
      de_default_def [where v = "Some (json_u32 n)" for n])

definition embeddings_reply_json :: "schema_lib \<Rightarrow> embeddings_reply \<Rightarrow> json" where
  "embeddings_reply_json sl r =
     JObject ([(''texts'', JArray (map JString (er_texts r))),
               (''embeddings'', JArray (map (\<lambda>xs. JArray (map (f32_json sl) xs)) (er_embeddings r))),
               (''provider'', JString (er_provider r)), (''dimensions'', json_u32 (er_dimensions r))]
              @ metadata_field ''metadata'' (er_metadata r))"

definition embeddings_reply_of :: "json \<Rightarrow> embeddings_reply option" where
  "embeddings_reply_of v =
     do { get \<leftarrow> struct_fields [''texts'', ''embeddings'', ''provider'', ''dimensions'', ''metadata''] v;
          ts \<leftarrow> Option.bind (get ''texts'') (de_list as_str);
          es \<leftarrow> Option.bind (get ''embeddings'') (de_list (de_list de_f32));
          p \<leftarrow> de_default [] as_str (get ''provider'');
          d \<leftarrow> de_default 0 de_u32 (get ''dimensions'');
          md \<leftarrow> metadata_of (get ''metadata'');
          Some \<lparr>er_texts = ts, er_embeddings = es, er_provider = p, er_dimensions = d, er_metadata = md\<rparr> }"

interpretation vector_form: wire_form "\<lambda>xs. JArray (map (f32_json sl) xs)" "de_list de_f32"
    "\<lambda>xs. schema_lib_ok sl \<and> list_all f32_finite xs" for sl
  by unfold_locales (simp_all add: f32_form.get_list list_all_and_const)

lemma vectors_read:
  "schema_lib_ok sl \<Longrightarrow> list_all (list_all f32_finite) es \<Longrightarrow>
   de_list (de_list de_f32) (JArray (map (\<lambda>xs. JArray (map (f32_json sl) xs)) es)) = Some es"
  by (rule vector_form.get_list) (simp add: list_all_and_const)

interpretation embeddings_reply_form: wire_form "embeddings_reply_json sl" embeddings_reply_of
    "\<lambda>r. schema_lib_ok sl \<and> list_all (list_all f32_finite) (er_embeddings r) \<and> metadata_good (er_metadata r)" for sl
  by unfold_locales
    (simp_all add: embeddings_reply_json_def embeddings_reply_of_def written_fields vectors_read string_form.get_list list_all_iff
      de_default_def [where v = "Some (JString x)" for x] de_default_def [where v = "Some (json_u32 n)" for n])

section \<open>What reads back\<close>

lemma de_list_exact:
  "de_list get (JArray (map put xs)) = Some xs \<longleftrightarrow> list_all (\<lambda>x. get (put x) = Some x) xs"
  by (induction xs) (auto simp: de_list_def split: option.splits)

lemma de_opt_exact:
  "de_default None (de_option get) (map_option put x) = Some x \<longleftrightarrow>
     pred_option (\<lambda>y. \<not> is_null (put y) \<and> get (put y) = Some y) x"
  by (cases x) (auto simp: de_default_def de_option_def)

lemma metadata_exact:
  "metadata_of (if \<not> metadata_is_empty md then map_option JObject md else None) = Some md \<longleftrightarrow> metadata_good md"
  by (cases md) (auto simp: metadata_of_def metadata_good_def metadata_is_empty_def de_default_def de_option_def)

lemma structured_exact:
  "de_default None (de_option Some) (map_option (\<lambda>v. v) s) = Some s \<longleftrightarrow> structured_good s"
  by (subst de_opt_exact) (cases s; auto simp: structured_good_def elim: is_null.elims)

lemma default_some: "de_default d get (Some v) = get v"
  by (simp add: de_default_def)

lemmas written_exact =
  struct_fields_def map_of_groups map_of_metadata_field first_of_simps default_some bind_eq_Some_conv

lemma tool_result_exact: "tool_result_of (tool_result_json r) = Some r \<longleftrightarrow> tool_result_good r"
  by (cases r)
    (auto simp: tool_result_json_def tool_result_of_def tool_result_good_def written_exact structured_exact
      de_default_def [of False] simp del: option.map_ident)

lemma part_exact:
  "schema_lib_ok sl \<Longrightarrow> part_of sl lent (part_json sl p) = Some p \<longleftrightarrow> part_good lent p"
  using part_read [of sl lent p]
  by (cases p) (auto simp: part_of_def input_file_fields_def input_file_of_def struct_fields_def bytes_of_def)

lemma content_exact:
  "schema_lib_ok sl \<Longrightarrow> content_of sl lent (content_json sl c) = Some c \<longleftrightarrow> content_good lent c"
  by (cases c) (simp_all add: de_list_exact part_exact)

lemma content_not_null: "\<not> is_null (content_json sl c)"
  by (cases c) simp_all

lemma message_exact:
  assumes "schema_lib_ok sl"
  shows "message_of sl lent (message_json sl m) = Some m \<longleftrightarrow> message_good lent m"
proof
  assume "message_of sl lent (message_json sl m) = Some m"
  then show "message_good lent m"
    by (cases m)
      (auto simp: message_json_def message_of_def message_good_def written_exact de_opt_exact metadata_exact
        content_exact [OF assms] tool_result_exact option.pred_set del: if_split)
qed (use assms message_form.get_put in blast)

lemma turn_exact:
  assumes "schema_lib_ok sl"
  shows "turn_of_json sl lent (turn_json sl t) = Some t \<longleftrightarrow> turn_good lent t"
proof
  assume "turn_of_json sl lent (turn_json sl t) = Some t"
  then show "turn_good lent t"
    by (cases t)
      (auto simp: turn_json_def turn_of_json_def turn_good_def written_exact metadata_exact de_list_exact
        message_exact [OF assms] simp del: if_split)
qed (use assms turn_form.get_put in blast)

lemma conversation_exact:
  assumes "schema_lib_ok sl"
  shows "conversation_of sl lent (conversation_json sl c) = Some c \<longleftrightarrow> conversation_good lent c"
proof
  assume "conversation_of sl lent (conversation_json sl c) = Some c"
  then show "conversation_good lent c"
    by (cases c)
      (auto simp: conversation_json_def conversation_of_def conversation_good_def written_exact metadata_exact
        de_list_exact turn_exact [OF assms] simp del: if_split)
qed (use assms conversation_form.get_put in blast)

lemma checkpoint_exact:
  assumes "schema_lib_ok sl"
  shows "checkpoint_of sl (checkpoint_json sl c) = Some c \<longleftrightarrow> metadata_good (cp_remote_metadata c)"
proof
  assume "checkpoint_of sl (checkpoint_json sl c) = Some c"
  then show "metadata_good (cp_remote_metadata c)"
    by (cases c)
      (auto simp: checkpoint_json_def checkpoint_of_def written_exact metadata_exact simp del: if_split)
qed (use assms checkpoint_form.get_put in blast)

lemma runtime_exact:
  assumes "schema_lib_ok sl"
  shows "runtime_of sl lent (runtime_json sl s) = Some s \<longleftrightarrow> runtime_good lent s"
proof
  assume "runtime_of sl lent (runtime_json sl s) = Some s"
  then show "runtime_good lent s"
    by (cases s)
      (auto simp: runtime_json_def runtime_of_def runtime_good_def written_exact de_list_exact
        conversation_exact [OF assms] checkpoint_exact [OF assms])
qed (use assms runtime_form.get_put in blast)

lemma f32_exact:
  assumes "schema_lib_ok sl"
  shows "de_default None (de_option de_f32) (map_option (f32_json sl) x) = Some x \<longleftrightarrow> pred_option f32_finite x"
  unfolding de_opt_exact using assms by (cases x) (auto simp: f32_json_def schema_lib_ok_def)

lemma sampling_exact:
  assumes "schema_lib_ok sl"
  shows "sampling_of (sampling_json sl s) = Some s \<longleftrightarrow> sampling_good s"
proof
  assume "sampling_of (sampling_json sl s) = Some s"
  then show "sampling_good s"
    by (cases s)
      (auto simp: sampling_json_def sampling_of_def sampling_good_def written_exact f32_exact [OF assms]
        simp del: if_split)
qed (use assms sampling_form.get_put in blast)

lemma sampling_field_exact:
  assumes "schema_lib_ok sl"
  shows "de_default sampling_default sampling_of (map_of (sampling_field sl s) ''sampling'') = Some s
     \<longleftrightarrow> sampling_good s"
proof (cases "sampling_is_empty s")
  case True
  then show ?thesis
    by (auto simp: sampling_is_empty_iff sampling_field_def de_default_def sampling_good_def)
      (simp_all add: sampling_default_def)
next
  case False
  then show ?thesis using sampling_exact [OF assms] by (simp add: sampling_field_def default_some)
qed

lemma request_exact:
  assumes "schema_lib_ok sl"
  shows "request_of sl lent (request_json sl r) = Some r \<longleftrightarrow> request_good lent r"
proof
  assume "request_of sl lent (request_json sl r) = Some r"
  then show "request_good lent r"
    by (cases r)
      (auto simp: request_json_def request_of_def request_good_def written_exact metadata_exact de_list_exact
        message_exact [OF assms] sampling_field_exact [OF assms] format_field_other sampling_field_other
        simp del: if_split)
qed (use assms request_form.get_put in blast)

text \<open>A file that does not come from a lent text refuses its whole content.\<close>

lemma owned_file_refused:
  assumes "PInputFile f \<in> set ps"
  shows "content_of sl False (content_json sl (CParts ps)) = None"
proof -
  have "part_of sl False (part_json sl (PInputFile f)) = None"
    by (simp add: part_of_def input_file_of_def input_file_fields_def struct_fields_def bytes_of_def)
  then have "those (map (part_of sl False) (map (part_json sl) ps)) = None"
    using assms by (induction ps) (auto split: option.split)
  then show ?thesis by (simp add: de_list_def)
qed


text \<open>A library that keeps its promises, and a message with a file.\<close>

definition plain_schema_lib :: "serde \<Rightarrow> schema_lib" where
  "plain_schema_lib sj =
     \<lparr>sl_f32 = f32_to_f64, sl_b64 = bytes_str, sl_unb64 = (\<lambda>s. Some (str_bytes s)),
      sl_date = (\<lambda>t. if t < 0 then CHR ''-'' # replicate (nat (- t)) CHR ''x'' else replicate (nat t) CHR ''x''),
      sl_undate = (\<lambda>s. case s of c # r \<Rightarrow> Some (if c = CHR ''-'' then - int (length r) else int (length s)) | [] \<Rightarrow> Some 0),
      sl_serde = sj\<rparr>"

lemma plain_schema_lib_ok: "schema_lib_ok (plain_schema_lib sj)"
proof -
  have "str_bytes (bytes_str b) = b" for b by (simp add: str_bytes_def bytes_str_def comp_def)
  moreover have "(case replicate (nat t) CHR ''x'' of
        c # r \<Rightarrow> Some (if c = CHR ''-'' then - int (length r) else int (length (replicate (nat t) CHR ''x'')))
      | [] \<Rightarrow> Some 0) = Some t" if "\<not> t < 0" for t
    using that by (cases "nat t") simp_all
  ultimately show ?thesis
    by (simp add: schema_lib_ok_def plain_schema_lib_def narrow_widen)
qed

definition bare_serde :: serde where
  "bare_serde =
     \<lparr>to_compact = (\<lambda>_. []), to_pretty = (\<lambda>_. []), from_text = (\<lambda>_. None), stream_next = (\<lambda>_. None),
      number_f64 = (\<lambda>_. None)\<rparr>"

definition file_message :: message where
  "file_message =
     message_bare RUser (Some (CParts [PText ''see'', PInputFile \<lparr>if_file_name = ''a.pdf'', if_mime_type = ''application/pdf'', if_data = [1, 2]\<rparr>]))"


end
