(* ===== verification/Fernet.thy ===== *)
theory Fernet
  imports Utf8 Clock Json
begin

text \<open>
  Encryption at rest: the Fernet tokens of \<open>gravity-accounts/src/crypto.rs\<close> and the machine key and
  file envelope of \<open>gravity-accounts/src/store.rs\<close>.

  The primitives of the crates \<open>base64\<close>, \<open>aes\<close>/\<open>cbc\<close> and \<open>hmac\<close>/\<open>sha2\<close> are the fields of a \<open>crypto\<close> record;
  \<open>crypto_ok\<close> states what their documentation promises.  The file system is a map from paths to
  contents with a set of paths whose access fails; the home directory is what the environment
  variables name.
\<close>

record crypto =
  b64url_encode :: "u8 list \<Rightarrow> string"
  b64url_decode :: "u8 list \<Rightarrow> u8 list option"
  b64std_encode :: "u8 list \<Rightarrow> string"
  b64std_decode :: "u8 list \<Rightarrow> u8 list option"
  aes_cbc_encrypt :: "u8 list \<Rightarrow> u8 list \<Rightarrow> u8 list \<Rightarrow> u8 list"
  aes_cbc_decrypt :: "u8 list \<Rightarrow> u8 list \<Rightarrow> u8 list \<Rightarrow> u8 list option"
  hmac_sha256 :: "u8 list \<Rightarrow> u8 list \<Rightarrow> u8 list"

definition byte_ws :: "u8 \<Rightarrow> bool" where
  "byte_ws b \<longleftrightarrow> b \<in> {0x20, 0x09, 0x0A, 0x0C, 0x0D}"

definition crypto_ok :: "crypto \<Rightarrow> bool" where
  "crypto_ok c \<longleftrightarrow>
     (\<forall>x. b64url_decode c (str_bytes (b64url_encode c x)) = Some x)
   \<and> (\<forall>x b. b \<in> set (str_bytes (b64url_encode c x)) \<longrightarrow> \<not> byte_ws b)
   \<and> (\<forall>x b. b \<in> set (str_bytes (b64url_encode c x)) \<longrightarrow> b < 0x80)
   \<and> (\<forall>x. x \<noteq> [] \<longrightarrow> b64url_encode c x \<noteq> [])
   \<and> (\<forall>k iv p. aes_cbc_decrypt c k iv (aes_cbc_encrypt c k iv p) = Some p)
   \<and> (\<forall>k iv p. 16 \<le> length (aes_cbc_encrypt c k iv p))
   \<and> (\<forall>k m. length (hmac_sha256 c k m) = 32)"

section \<open>Tokens\<close>

datatype fernet_error = InvalidKey | MalformedToken | BadSignature | BadPadding

record fernet_key =
  fk_signing :: "u8 list"
  fk_encryption :: "u8 list"

definition fernet_version :: u8 where
  "fernet_version = 0x80"

text \<open>The slice from the first to the last byte that is not ASCII white space.\<close>

definition trim_bytes :: "u8 list \<Rightarrow> u8 list" where
  "trim_bytes b =
     (let start = (case position (\<lambda>c. \<not> byte_ws c) b of None \<Rightarrow> 0 | Some i \<Rightarrow> i);
          stop = (case position (\<lambda>c. \<not> byte_ws c) (rev b) of
                    None \<Rightarrow> start | Some i \<Rightarrow> length b - i)
      in drop start (take stop b))"

definition decode_either :: "crypto \<Rightarrow> u8 list \<Rightarrow> u8 list option" where
  "decode_either c b =
     (case b64url_decode c (trim_bytes b) of
        Some r \<Rightarrow> Some r
      | None \<Rightarrow> b64std_decode c (trim_bytes b))"

definition fernet_from_base64 :: "crypto \<Rightarrow> u8 list \<Rightarrow> fernet_error + fernet_key" where
  "fernet_from_base64 c key =
     (case decode_either c key of
        None \<Rightarrow> Inl InvalidKey
      | Some raw \<Rightarrow>
          if length raw \<noteq> 32 then Inl InvalidKey
          else Inr \<lparr>fk_signing = take 16 raw, fk_encryption = drop 16 raw\<rparr>)"

definition fernet_body :: "crypto \<Rightarrow> fernet_key \<Rightarrow> u8 list \<Rightarrow> u64 \<Rightarrow> u8 list \<Rightarrow> u8 list" where
  "fernet_body c k plaintext timestamp iv =
     [fernet_version] @ word_to_be 8 timestamp @ iv
       @ aes_cbc_encrypt c (fk_encryption k) iv plaintext"

definition fernet_encrypt_with ::
    "crypto \<Rightarrow> fernet_key \<Rightarrow> u8 list \<Rightarrow> u64 \<Rightarrow> u8 list \<Rightarrow> string" where
  "fernet_encrypt_with c k plaintext timestamp iv =
     (let body = fernet_body c k plaintext timestamp iv
      in b64url_encode c (body @ hmac_sha256 c (fk_signing k) body))"

definition fernet_decrypt :: "crypto \<Rightarrow> fernet_key \<Rightarrow> u8 list \<Rightarrow> fernet_error + u8 list" where
  "fernet_decrypt c k token =
     (case decode_either c token of
        None \<Rightarrow> Inl MalformedToken
      | Some data \<Rightarrow>
          if length data < 1 + 8 + 16 + 16 + 32 \<or> data ! 0 \<noteq> fernet_version
          then Inl MalformedToken
          else
            (let signed = take (length data - 32) data;
                 tag = drop (length data - 32) data
             in if hmac_sha256 c (fk_signing k) signed \<noteq> tag then Inl BadSignature
                else
                  (let iv = take 16 (drop 9 signed);
                       ct = drop 25 signed
                   in (case aes_cbc_decrypt c (fk_encryption k) iv ct of
                         None \<Rightarrow> Inl BadPadding
                       | Some p \<Rightarrow> Inr p))))"

lemma position_Cons_0: "p x \<Longrightarrow> position p (x # xs) = Some 0"
  by simp

lemma trim_bytes_id:
  assumes "\<forall>b\<in>set bs. \<not> byte_ws b"
  shows "trim_bytes bs = bs"
proof (cases bs)
  case Nil
  then show ?thesis by (simp add: trim_bytes_def)
next
  case (Cons b bs')
  then have "b \<in> set bs" by simp
  obtain z zs where z: "rev bs = z # zs" using Cons by (cases "rev bs") auto
  then have "z \<in> set bs" by (metis list.set_intros(1) set_rev)
  have "position (\<lambda>x. \<not> byte_ws x) bs = Some 0"
    using assms \<open>b \<in> set bs\<close> Cons by simp
  moreover have "position (\<lambda>x. \<not> byte_ws x) (rev bs) = Some 0"
    unfolding z using assms \<open>z \<in> set bs\<close> by (intro position_Cons_0) blast
  ultimately show ?thesis by (simp add: trim_bytes_def)
qed

lemma decode_either_encode:
  assumes "crypto_ok c"
  shows "decode_either c (str_bytes (b64url_encode c x)) = Some x"
proof -
  have "trim_bytes (str_bytes (b64url_encode c x)) = str_bytes (b64url_encode c x)"
    using assms by (intro trim_bytes_id) (auto simp: crypto_ok_def)
  then show ?thesis using assms by (simp add: decode_either_def crypto_ok_def)
qed

lemma fernet_roundtrip:
  assumes "crypto_ok c" and "length iv = 16"
  shows "fernet_decrypt c k (str_bytes (fernet_encrypt_with c k p ts iv)) = Inr p"
proof -
  let ?ct = "aes_cbc_encrypt c (fk_encryption k) iv p"
  let ?body = "fernet_body c k p ts iv"
  let ?mac = "hmac_sha256 c (fk_signing k) ?body"
  have len: "length ?mac = 32" "16 \<le> length ?ct" using assms(1) by (auto simp: crypto_ok_def)
  have body: "length ?body = 25 + length ?ct" "?body ! 0 = fernet_version"
    "take 16 (drop 9 ?body) = iv" "drop 25 ?body = ?ct"
    using assms(2) by (simp_all add: fernet_body_def)
  have data: "decode_either c (str_bytes (fernet_encrypt_with c k p ts iv)) = Some (?body @ ?mac)"
    using assms(1) by (simp add: fernet_encrypt_with_def Let_def decode_either_encode)
  have "(?body @ ?mac) ! 0 = fernet_version" using body by (simp add: nth_append)
  moreover have "aes_cbc_decrypt c (fk_encryption k) iv ?ct = Some p"
    using assms(1) by (simp add: crypto_ok_def)
  moreover have "\<not> length ?ct < 16" using len by linarith
  ultimately show ?thesis
    by (simp add: fernet_decrypt_def data len body Let_def)
qed

text \<open>The signed part of a decoded token, and its tag.\<close>

definition token_parts :: "u8 list \<Rightarrow> u8 list \<times> u8 list" where
  "token_parts data = (take (length data - 32) data, drop (length data - 32) data)"

lemma str_ok_token: "crypto_ok c \<Longrightarrow> str_ok (b64url_encode c x)"
  unfolding str_ok_def by (rule utf8_valid_ascii) (auto simp: crypto_ok_def)

lemma retagged_rejected:
  assumes "crypto_ok c" and "fernet_decrypt c k token = Inr p" and "decode_either c token = Some data"
    and "length tag = 32" and "tag \<noteq> snd (token_parts data)"
  shows "fernet_decrypt c k (str_bytes (b64url_encode c (fst (token_parts data) @ tag))) = Inl BadSignature"
proof -
  have len: "73 \<le> length data" and v: "data ! 0 = fernet_version"
    and mac: "hmac_sha256 c (fk_signing k) (take (length data - 32) data) = drop (length data - 32) data"
    using assms(2,3) by (auto simp: fernet_decrypt_def Let_def split: if_splits)
  have "(take (length data - 32) data @ tag) ! 0 = fernet_version"
    using len v by (simp add: nth_append)
  then show ?thesis
    using len mac assms(4,5)
    by (simp add: fernet_decrypt_def token_parts_def decode_either_encode [OF assms(1)] Let_def)
qed


section \<open>The file system\<close>

record filesys =
  fs_home :: "string option"
  fs_data :: "string \<Rightarrow> string option"
  fs_mode :: "string \<Rightarrow> nat option"
  fs_denied :: "string \<Rightarrow> bool"

datatype io_error = NotFound | IoError string

definition fs_read :: "filesys \<Rightarrow> string \<Rightarrow> io_error + string" where
  "fs_read fs path =
     (if fs_denied fs path then Inl (IoError path)
      else (case fs_data fs path of None \<Rightarrow> Inl NotFound | Some b \<Rightarrow> Inr b))"

definition fs_read_to_string :: "filesys \<Rightarrow> string \<Rightarrow> io_error + string" where
  "fs_read_to_string fs path =
     (case fs_read fs path of
        Inl e \<Rightarrow> Inl e
      | Inr b \<Rightarrow> if str_ok b then Inr b else Inl (IoError path))"

definition fs_write :: "string \<Rightarrow> string \<Rightarrow> filesys \<Rightarrow> io_error + filesys" where
  "fs_write path content fs =
     (if fs_denied fs path then Inl (IoError path)
      else Inr (fs\<lparr>fs_data := (fs_data fs)(path \<mapsto> content)\<rparr>))"

definition fs_create_dir_all :: "string \<Rightarrow> filesys \<Rightarrow> io_error + unit" where
  "fs_create_dir_all path fs = (if fs_denied fs path then Inl (IoError path) else Inr ())"

definition path_join :: "string \<Rightarrow> string \<Rightarrow> string" where
  "path_join d f = d @ ''/'' @ f"

lemma fs_read_write:
  "fs_write p b fs = Inr fs' \<Longrightarrow>
   fs_read fs' q = (if q = p then Inr b else fs_read fs q)"
  by (auto simp: fs_write_def fs_read_def split: if_splits)

section \<open>The key store\<close>

datatype store_error = StoreIo string | StoreFernet fernet_error | NoHome

fun io_message :: "io_error \<Rightarrow> string" where
  "io_message NotFound = ''not found''"
| "io_message (IoError s) = s"

definition gravity_dir :: "filesys \<Rightarrow> store_error + string" where
  "gravity_dir fs =
     (case fs_home fs of None \<Rightarrow> Inl NoHome | Some h \<Rightarrow> Inr (path_join h ''.gravity''))"

definition key_path :: "filesys \<Rightarrow> store_error + string" where
  "key_path fs =
     (case gravity_dir fs of Inl e \<Rightarrow> Inl e | Inr d \<Rightarrow> Inr (path_join d ''.gravity.key''))"

text \<open>\<open>chmod 600\<close>; a failure is ignored.\<close>

definition set_owner_only :: "string \<Rightarrow> filesys \<Rightarrow> filesys" where
  "set_owner_only path fs = fs\<lparr>fs_mode := (fs_mode fs)(path \<mapsto> 384)\<rparr>"

definition stored_key :: "filesys \<Rightarrow> string \<Rightarrow> u8 list" where
  "stored_key fs path =
     (case fs_read fs path of
        Inl _ \<Rightarrow> []
      | Inr b \<Rightarrow> List.filter (\<lambda>x. \<not> byte_ws x) (str_bytes b))"

definition get_or_create_key ::
    "crypto \<Rightarrow> (nat \<Rightarrow> 'e \<Rightarrow> u8 list \<times> 'e) \<Rightarrow> 'e \<Rightarrow> filesys
       \<Rightarrow> (store_error + u8 list) \<times> 'e \<times> filesys" where
  "get_or_create_key c fill e fs =
     (case key_path fs of
        Inl err \<Rightarrow> (Inl err, e, fs)
      | Inr path \<Rightarrow>
          if stored_key fs path \<noteq> [] then (Inr (stored_key fs path), e, fs)
          else
            (let (raw, e') = fill 32 e;
                 key = b64url_encode c raw
             in (case gravity_dir fs of
                   Inl err \<Rightarrow> (Inl err, e', fs)
                 | Inr parent \<Rightarrow>
                     (case fs_create_dir_all parent fs of
                        Inl io \<Rightarrow> (Inl (StoreIo (io_message io)), e', fs)
                      | Inr _ \<Rightarrow>
                          (case fs_write path key fs of
                             Inl io \<Rightarrow> (Inl (StoreIo (io_message io)), e', fs)
                           | Inr fs' \<Rightarrow> (Inr (str_bytes key), e', set_owner_only path fs'))))))"

definition encrypt_str ::
    "crypto \<Rightarrow> (nat \<Rightarrow> 'e \<Rightarrow> u8 list \<times> 'e) \<Rightarrow> u64 \<Rightarrow> 'e \<Rightarrow> u8 list \<Rightarrow> string
       \<Rightarrow> (store_error + string) \<times> 'e" where
  "encrypt_str c fill now_ms e key plaintext =
     (case fernet_from_base64 c key of
        Inl err \<Rightarrow> (Inl (StoreFernet err), e)
      | Inr fk \<Rightarrow>
          (let (iv, e') = fill 16 e
           in (Inr (fernet_encrypt_with c fk (str_bytes plaintext) (now_secs now_ms) iv), e')))"

definition decrypt_str :: "crypto \<Rightarrow> u8 list \<Rightarrow> string \<Rightarrow> store_error + string" where
  "decrypt_str c key token =
     (case fernet_from_base64 c key of
        Inl err \<Rightarrow> Inl (StoreFernet err)
      | Inr fk \<Rightarrow>
          (case fernet_decrypt c fk (str_bytes token) of
             Inl err \<Rightarrow> Inl (StoreFernet err)
           | Inr pt \<Rightarrow>
               (case from_utf8 pt of None \<Rightarrow> Inl (StoreFernet BadPadding) | Some s \<Rightarrow> Inr s)))"

text \<open>A key the code can use: 32 bytes under one of the two alphabets.\<close>

definition usable_key :: "crypto \<Rightarrow> u8 list \<Rightarrow> bool" where
  "usable_key c key \<longleftrightarrow> (\<exists>fk. fernet_from_base64 c key = Inr fk)"

lemma usable_key_iff: "usable_key c key \<longleftrightarrow> (\<exists>raw. decode_either c key = Some raw \<and> length raw = 32)"
  by (auto simp: usable_key_def fernet_from_base64_def split: option.splits)

lemma stored_key_write:
  assumes "crypto_ok c" and "fs_write path (b64url_encode c raw) fs = Inr fs'"
  shows "stored_key (set_owner_only path fs') path = str_bytes (b64url_encode c raw)"
proof -
  have "\<forall>x\<in>set (str_bytes (b64url_encode c raw)). \<not> byte_ws x"
    using assms(1) by (auto simp: crypto_ok_def)
  moreover have "fs_read (set_owner_only path fs') path = Inr (b64url_encode c raw)"
    using assms(2) by (auto simp: fs_read_def fs_write_def set_owner_only_def split: if_splits)
  ultimately show ?thesis by (simp add: stored_key_def)
qed

lemma key_path_home:
  "fs_home fs' = fs_home fs \<Longrightarrow> key_path fs' = key_path fs"
  by (simp add: key_path_def gravity_dir_def)

lemma fs_write_home: "fs_write path b fs = Inr fs' \<Longrightarrow> fs_home fs' = fs_home fs"
  by (auto simp: fs_write_def split: if_splits)

lemma key_after_creation:
  assumes "crypto_ok c" and "length (fst (fill 32 e)) = 32"
    and "get_or_create_key c fill e fs = (Inr key, e', fs')"
  shows "\<exists>path. key_path fs = Inr path \<and> key_path fs' = Inr path
       \<and> stored_key fs' path = key \<and> key \<noteq> []
       \<and> (fs' = fs \<or> usable_key c key \<and> fs_mode fs' path = Some 384)"
proof -
  obtain path where path: "key_path fs = Inr path"
    using assms(3) by (auto simp: get_or_create_key_def split: sum.splits)
  show ?thesis
  proof (cases "stored_key fs path = []")
    case False
    then show ?thesis using assms(3) path by (auto simp: get_or_create_key_def)
  next
    case True
    obtain raw e1 where raw: "fill 32 e = (raw, e1)" by (cases "fill 32 e")
    then have len: "length raw = 32" using assms(2) by simp
    then have "raw \<noteq> []" by auto
    then have "b64url_encode c raw \<noteq> []" using assms(1) by (simp add: crypto_ok_def)
    obtain fs1 where w: "fs_write path (b64url_encode c raw) fs = Inr fs1"
      and fs': "fs' = set_owner_only path fs1" and key: "key = str_bytes (b64url_encode c raw)"
      using assms(3) path raw True
      by (auto simp: get_or_create_key_def Let_def split: sum.splits)
    have "key_path fs' = Inr path"
      using path key_path_home [of fs' fs] fs_write_home [OF w] by (simp add: fs' set_owner_only_def)
    moreover have "stored_key fs' path = key" using stored_key_write [OF assms(1) w] fs' key by simp
    moreover have "key \<noteq> []" using key \<open>b64url_encode c raw \<noteq> []\<close> by (simp add: str_bytes_def)
    moreover have "usable_key c key"
      using decode_either_encode [OF assms(1), of raw] len key by (simp add: usable_key_iff)
    ultimately show ?thesis
      using path by (simp add: fs' set_owner_only_def)
  qed
qed

lemma get_stored_key:
  "key_path fs = Inr path \<Longrightarrow> stored_key fs path \<noteq> [] \<Longrightarrow>
   get_or_create_key c fill e fs = (Inr (stored_key fs path), e, fs)"
  by (simp add: get_or_create_key_def)

text \<open>
  The machine key is made once.  Once \<open>get_or_create_key\<close> has returned a key, every later call
  returns the same key, draws no entropy and leaves the file system as it is; and a key made from 32
  random bytes is one the cipher accepts, in a file only its owner can read.
\<close>

theorem machine_key_stable:
  assumes "crypto_ok c" and "length (fst (fill 32 e)) = 32"
    and "get_or_create_key c fill e fs = (Inr key, e', fs')"
  shows "get_or_create_key c fill e2 fs' = (Inr key, e2, fs')
       \<and> (fs' = fs \<or> usable_key c key \<and> (\<exists>path. key_path fs = Inr path \<and> fs_mode fs' path = Some 384))"
  using key_after_creation [OF assms] get_stored_key [of fs' _ c fill e2] by auto

text \<open>
  A concrete instance of the primitives that meets \<open>crypto_ok\<close>: a byte is written as two letters, the
  cipher appends one block, and the tag repeats a checksum.
\<close>

fun nibbles :: "u8 list \<Rightarrow> u8 list" where
  "nibbles [] = []"
| "nibbles (b # bs) = of_nat (97 + unat b div 16) # of_nat (97 + unat b mod 16) # nibbles bs"

fun unnibbles :: "u8 list \<Rightarrow> u8 list option" where
  "unnibbles [] = Some []"
| "unnibbles [_] = None"
| "unnibbles (h # l # bs) =
     map_option ((#) (of_nat ((unat h - 97) * 16 + (unat l - 97)))) (unnibbles bs)"

definition checksum_crypto :: crypto where
  "checksum_crypto =
     \<lparr>b64url_encode = \<lambda>x. bytes_str (nibbles x),
      b64url_decode = unnibbles,
      b64std_encode = \<lambda>x. bytes_str (nibbles x),
      b64std_decode = unnibbles,
      aes_cbc_encrypt = \<lambda>k iv p. p @ replicate 16 0,
      aes_cbc_decrypt = \<lambda>k iv ct. if length ct < 16 then None else Some (take (length ct - 16) ct),
      hmac_sha256 = \<lambda>k m. replicate 32 (sum_list k + sum_list m)\<rparr>"

lemma unat_nibble: "n < 16 \<Longrightarrow> unat (of_nat (97 + n) :: u8) = 97 + n"
  by (simp add: unat_of_nat take_bit_nat_eq_self del: of_nat_add)

lemma unat_byte: "unat (b :: u8) < 256"
  using unsigned_less [of b] by simp

lemma unnibbles_nibbles: "unnibbles (nibbles bs) = Some bs"
proof (induction bs)
  case (Cons b bs)
  have "unat b div 16 < 16" using unat_byte [of b] by simp
  then show ?case
    using Cons by (simp add: unat_nibble del: of_nat_add)
qed simp

lemma nibbles_clean: "b \<in> set (nibbles bs) \<Longrightarrow> \<not> byte_ws b \<and> b < 0x80"
proof (induction bs)
  case (Cons a bs)
  have "unat a div 16 < 16" "unat a mod 16 < 16" using unat_byte [of a] by simp_all
  then have "(\<exists>n<16. b = of_nat (97 + n)) \<or> b \<in> set (nibbles bs)"
    using Cons.prems unfolding nibbles.simps set_simps by blast
  moreover have "\<not> byte_ws (of_nat (97 + n)) \<and> (of_nat (97 + n) :: u8) < 0x80" if "n < 16" for n
    using unat_nibble [OF that] that
    by (simp add: byte_ws_def word_less_nat_alt word_unat_eq_iff del: of_nat_add)
  ultimately show ?case using Cons.IH by blast
qed simp

lemma nibbles_Nil: "nibbles bs = [] \<longleftrightarrow> bs = []"
  by (cases bs) auto

lemma checksum_crypto_ok: "crypto_ok checksum_crypto"
proof -
  have "bytes_str (nibbles x) \<noteq> []" if "x \<noteq> []" for x
    using that by (simp add: bytes_str_def nibbles_Nil)
  then show ?thesis
    by (auto simp: crypto_ok_def checksum_crypto_def unnibbles_nibbles dest: nibbles_clean)
qed

lemma machine_key_stable_witness:
  "\<exists>key e' fs'.
     get_or_create_key checksum_crypto seeded_fill (7 :: u64)
       \<lparr>fs_home = Some ''/h'', fs_data = Map.empty, fs_mode = Map.empty, fs_denied = \<lambda>_. False\<rparr>
       = (Inr key, e', fs')
   \<and> get_or_create_key checksum_crypto seeded_fill 9 fs' = (Inr key, 9, fs')"
proof -
  let ?fs = "\<lparr>fs_home = Some ''/h'', fs_data = Map.empty, fs_mode = Map.empty,
               fs_denied = \<lambda>_::string. False\<rparr>"
  obtain raw e1 where f: "seeded_fill 32 7 = (raw, e1)" by (cases "seeded_fill 32 7")
  have len: "length (fst (seeded_fill 32 7)) = 32" by (simp add: seeded.fill_length)
  obtain key e' fs' where g: "get_or_create_key checksum_crypto seeded_fill 7 ?fs = (Inr key, e', fs')"
    by (simp add: get_or_create_key_def key_path_def gravity_dir_def stored_key_def fs_read_def f
        fs_create_dir_all_def fs_write_def Let_def)
  show ?thesis
    using g machine_key_stable [OF checksum_crypto_ok len g, of 9] by blast
qed

text \<open>
  What the code encrypts it can read back.  For primitives that keep their promises, a key that
  decodes to 32 bytes and a text that is a Rust string, \<open>encrypt_str\<close> succeeds, \<open>decrypt_str\<close> of its
  token gives the text, and the same token with any other tag in its place is refused.
\<close>

theorem at_rest_roundtrip:
  assumes "crypto_ok c" and "usable_key c key" and "str_ok s"
    and "length (fst (fill 16 e)) = 16"
  shows "\<exists>token. fst (encrypt_str c fill now e key s) = Inr token
           \<and> decrypt_str c key token = Inr s
           \<and> (\<forall>data tag. decode_either c (str_bytes token) = Some data \<and> length tag = 32
                 \<and> tag \<noteq> snd (token_parts data)
               \<longrightarrow> decrypt_str c key (b64url_encode c (fst (token_parts data) @ tag))
                     = Inl (StoreFernet BadSignature))"
proof -
  obtain fk where fk: "fernet_from_base64 c key = Inr fk" using assms(2) by (auto simp: usable_key_def)
  obtain iv e' where f: "fill 16 e = (iv, e')" by (cases "fill 16 e")
  then have iv: "length iv = 16" using assms(4) by simp
  let ?token = "fernet_encrypt_with c fk (str_bytes s) (now_secs now) iv"
  have ok: "fernet_decrypt c fk (str_bytes ?token) = Inr (str_bytes s)"
    using fernet_roundtrip [OF assms(1) iv] .
  have "decrypt_str c key (b64url_encode c (fst (token_parts data) @ tag)) = Inl (StoreFernet BadSignature)"
    if d: "decode_either c (str_bytes ?token) = Some data" "length tag = 32"
      "tag \<noteq> snd (token_parts data)" for data tag
    using retagged_rejected [OF assms(1) ok d] by (simp add: decrypt_str_def fk)
  moreover have "decrypt_str c key ?token = Inr s"
    by (simp add: decrypt_str_def fk ok from_utf8_str_bytes [OF assms(3)])
  ultimately show ?thesis by (auto simp: encrypt_str_def fk f)
qed

lemma at_rest_roundtrip_witness:
  "\<exists>token. fst (encrypt_str checksum_crypto seeded_fill 1000 5 (nibbles (replicate 32 1)) ''hello'')
             = Inr token
     \<and> decrypt_str checksum_crypto (nibbles (replicate 32 1)) token = Inr ''hello''"
proof -
  have key: "usable_key checksum_crypto (nibbles (replicate 32 1))"
    using decode_either_encode [OF checksum_crypto_ok, of "replicate 32 1"]
    by (simp add: usable_key_iff checksum_crypto_def)
  have s: "str_ok ''hello''" by code_simp
  have len: "length (fst (seeded_fill 16 5)) = 16" by (simp add: seeded.fill_length)
  show ?thesis using at_rest_roundtrip [where fill = seeded_fill and e = 5, OF checksum_crypto_ok key s len] by blast
qed

section \<open>The envelope of an encrypted file\<close>

definition envelope :: "string \<Rightarrow> json" where
  "envelope ciphertext =
     JObject [(''v'', JNumber (PosInt 1)), (''encrypted'', JBool True),
              (''ciphertext'', JString ciphertext)]"

definition is_encrypted_content :: "serde \<Rightarrow> string \<Rightarrow> bool" where
  "is_encrypted_content sj content =
     (if \<not> starts_with ''{'' (trim_start content) then False
      else (case Option.bind (from_text sj content)
                   (\<lambda>v. Option.bind (jget v ''encrypted'') as_bool) of
              None \<Rightarrow> False
            | Some b \<Rightarrow> b))"

definition wrap_encrypted :: "serde \<Rightarrow> string \<Rightarrow> string" where
  "wrap_encrypted sj ciphertext = to_compact sj (envelope ciphertext)"

definition unwrap_encrypted :: "serde \<Rightarrow> string \<Rightarrow> string option" where
  "unwrap_encrypted sj content =
     Option.bind (from_text sj content) (\<lambda>v. Option.bind (jget v ''ciphertext'') as_str)"

text \<open>What the code needs of the printer on a value: it parses back, and an object starts with \<open>{\<close>.\<close>

definition prints_object :: "serde \<Rightarrow> json \<Rightarrow> bool" where
  "prints_object sj v \<longleftrightarrow>
     from_text sj (to_compact sj v) = Some v \<and> starts_with ''{'' (trim_start (to_compact sj v))"

lemma wrap_encrypted_detected:
  "prints_object sj (envelope ct) \<Longrightarrow> is_encrypted_content sj (wrap_encrypted sj ct)"
  by (simp add: prints_object_def is_encrypted_content_def wrap_encrypted_def envelope_def)

lemma unwrap_wrap_encrypted:
  "prints_object sj (envelope ct) \<Longrightarrow> unwrap_encrypted sj (wrap_encrypted sj ct) = Some ct"
  by (simp add: prints_object_def unwrap_encrypted_def wrap_encrypted_def envelope_def)

end
