(* ===== verification/AccountsIo.thy ===== *)
theory AccountsIo
  imports Accounts Fernet
begin

text \<open>
  Loading and saving the accounts file with its migration (\<open>gravity-accounts/src/io.rs\<close>), the user
  configuration (\<open>config.rs\<close>) and the usage metrics (\<open>metrics.rs\<close>).

  The derived \<open>Serialize\<close> and \<open>Deserialize\<close> of a record are a \<open>codec\<close>: what is printed for a value,
  and the value read from a JSON tree.
\<close>

record 'a codec =
  cd_print :: "'a \<Rightarrow> string"
  cd_read :: "json \<Rightarrow> 'a option"

section \<open>Migration of old files\<close>

fun rewrite_provider_names :: "json \<Rightarrow> json" where
  "rewrite_provider_names (JObject m) =
     JObject (map (\<lambda>e. (fst e,
                        if fst e = ''provider'' \<and> snd e = JString ''zlm'' then JString ''glm''
                        else rewrite_provider_names (snd e))) m)"
| "rewrite_provider_names (JArray xs) = JArray (map rewrite_provider_names xs)"
| "rewrite_provider_names v = v"

definition personal_bundle :: "json \<Rightarrow> json" where
  "personal_bundle accounts =
     JObject [(''email'', JString ''personal@gravity.local''),
              (''display_name'', JString ''Personal''),
              (''providers'', accounts)]"

definition adopt_accounts :: "jmap \<Rightarrow> jmap" where
  "adopt_accounts m =
     (if map_of m ''emails'' \<noteq> None then m
      else (case map_of m ''accounts'' of
              Some accounts \<Rightarrow>
                alist_put ''emails'' (JArray [personal_bundle accounts]) (alist_swap_remove ''accounts'' m)
            | None \<Rightarrow> alist_put ''emails'' (JArray []) m))"

text \<open>\<open>entry(k).or_insert_with(..)\<close>\<close>

definition or_insert :: "string \<Rightarrow> json \<Rightarrow> jmap \<Rightarrow> jmap" where
  "or_insert k v m = (if map_of m k = None then alist_put k v m else m)"

definition migrate_value :: "json \<Rightarrow> json" where
  "migrate_value data =
     (case rewrite_provider_names data of
        JObject m \<Rightarrow> JObject (or_insert ''security'' (JObject []) (adopt_accounts m))
      | other \<Rightarrow> other)"

text \<open>No object names the provider \<open>zlm\<close>.\<close>

fun no_zlm :: "json \<Rightarrow> bool" where
  "no_zlm (JObject m) \<longleftrightarrow>
     (\<forall>e\<in>set m. \<not> (fst e = ''provider'' \<and> snd e = JString ''zlm'') \<and> no_zlm (snd e))"
| "no_zlm (JArray xs) \<longleftrightarrow> (\<forall>x\<in>set xs. no_zlm x)"
| "no_zlm v \<longleftrightarrow> True"

lemma rewrite_JString [simp]: "rewrite_provider_names v = JString s \<longleftrightarrow> v = JString s"
  by (cases v) auto

lemma no_zlm_rewrite: "no_zlm (rewrite_provider_names v)"
  by (induction v rule: rewrite_provider_names.induct) auto

lemma rewrite_no_zlm: "no_zlm v \<Longrightarrow> rewrite_provider_names v = v"
  by (induction v rule: rewrite_provider_names.induct) (auto intro!: map_idI simp: prod_eq_iff)

lemma rewrite_keys:
  "rewrite_provider_names (JObject m) = JObject m' \<Longrightarrow> map fst m' = map fst m"
  by (auto simp: comp_def)

lemma set_alist_put: "e \<in> set (alist_put k v m) \<Longrightarrow> e = (k, v) \<or> e \<in> set m"
  by (induction k v m rule: alist_put.induct) (auto split: if_splits)

lemma no_zlm_put:
  "\<lbrakk>no_zlm (JObject m); no_zlm v; \<not> (k = ''provider'' \<and> v = JString ''zlm'')\<rbrakk>
   \<Longrightarrow> no_zlm (JObject (alist_put k v m))"
  by (auto dest!: set_alist_put)

lemma no_zlm_swap_remove:
  assumes "distinct (map fst m)" and "no_zlm (JObject m)"
  shows "no_zlm (JObject (alist_swap_remove k m))"
  using assms by (simp add: set_alist_swap_remove)

lemma no_zlm_adopt:
  assumes "distinct (map fst m)" and "no_zlm (JObject m)"
  shows "no_zlm (JObject (adopt_accounts m))"
proof -
  have "no_zlm (personal_bundle accounts)" if "map_of m ''accounts'' = Some accounts" for accounts
    using assms(2) map_of_SomeD [OF that] by (auto simp: personal_bundle_def)
  then show ?thesis
    using assms no_zlm_swap_remove [OF assms, of "''accounts''"]
    unfolding adopt_accounts_def
    by (auto split: option.split simp del: no_zlm.simps(1) intro!: no_zlm_put)
qed

lemma distinct_rewrite:
  "json_ok (JObject m) \<Longrightarrow> rewrite_provider_names (JObject m) = JObject m' \<Longrightarrow> distinct (map fst m')"
  by (metis json_ok.simps(2) rewrite_keys)

lemma map_of_rewrite:
  assumes "rewrite_provider_names (JObject m) = JObject m'"
  shows "map_of m' k =
    map_option (\<lambda>v. if k = ''provider'' \<and> v = JString ''zlm'' then JString ''glm''
                    else rewrite_provider_names v) (map_of m k)"
  using assms by (induction m arbitrary: m') auto

lemma map_of_or_insert: "map_of (or_insert k v m) j = (if j = k \<and> map_of m k = None then Some v else map_of m j)"
  by (simp add: or_insert_def)

lemma map_of_adopt:
  assumes "distinct (map fst m)"
  shows "map_of (adopt_accounts m) k =
    (if map_of m ''emails'' \<noteq> None then map_of m k
     else if k = ''emails'' then
       Some (JArray (case map_of m ''accounts'' of None \<Rightarrow> [] | Some a \<Rightarrow> [personal_bundle a]))
     else if k = ''accounts'' then None
     else map_of m k)"
  using assms by (auto simp: adopt_accounts_def map_of_swap_remove split: option.split)

text \<open>
  The migration of old account files.  On every JSON value whose objects have distinct keys: no
  object of the result names the retired provider \<open>zlm\<close>; migrating again changes nothing; an object
  gains \<open>emails\<close> (its own, or one personal bundle around the old \<open>accounts\<close> list, which goes away, or
  the empty list) and \<open>security\<close>, and every other field is the renamed old one; a value that is not an
  object is only renamed.
\<close>

theorem migrate_value_correct:
  assumes "json_ok v"
  shows "no_zlm (migrate_value v)
       \<and> migrate_value (migrate_value v) = migrate_value v
       \<and> (\<not> is_object v \<longrightarrow> migrate_value v = rewrite_provider_names v)
       \<and> (is_object v \<longrightarrow>
            jget (migrate_value v) ''emails'' =
              (case (jget v ''emails'', jget v ''accounts'') of
                 (Some e, _) \<Rightarrow> Some (rewrite_provider_names e)
               | (None, Some a) \<Rightarrow> Some (JArray [personal_bundle (rewrite_provider_names a)])
               | (None, None) \<Rightarrow> Some (JArray []))
          \<and> (jget v ''emails'' = None \<longrightarrow> jget (migrate_value v) ''accounts'' = None)
          \<and> jget (migrate_value v) ''security'' =
              Some (case jget v ''security'' of None \<Rightarrow> JObject [] | Some x \<Rightarrow> rewrite_provider_names x)
          \<and> (\<forall>k. k \<notin> {''emails'', ''accounts'', ''security'', ''provider''} \<longrightarrow>
               jget (migrate_value v) k = map_option rewrite_provider_names (jget v k)))"
proof (cases "is_object v")
  case False
  then have "migrate_value v = rewrite_provider_names v"
    by (cases v) (auto simp: migrate_value_def)
  moreover have "\<not> is_object (rewrite_provider_names v)" using False by (cases v) auto
  ultimately show ?thesis
    using False no_zlm_rewrite [of v] rewrite_no_zlm [OF no_zlm_rewrite, of v]
    by (auto simp: migrate_value_def split: json.split)
next
  case True
  then obtain m where v: "v = JObject m" by (auto simp: is_object_iff)
  obtain m' where r: "rewrite_provider_names (JObject m) = JObject m'" by simp
  have d: "distinct (map fst m')" using assms distinct_rewrite [OF _ r] v by simp
  have nz: "no_zlm (JObject m')" by (metis no_zlm_rewrite r)
  let ?g = "or_insert ''security'' (JObject []) (adopt_accounts m')"
  have g: "migrate_value v = JObject ?g" by (simp only: migrate_value_def v r json.case)
  have nzg: "no_zlm (JObject ?g)"
    using no_zlm_adopt [OF d nz] no_zlm_put [OF no_zlm_adopt [OF d nz], of "JObject []" "''security''"]
    unfolding or_insert_def by (auto split: if_splits)
  have "map_of ?g ''emails'' \<noteq> None" "map_of ?g ''security'' \<noteq> None"
    by (auto simp: map_of_or_insert map_of_adopt [OF d] simp del: not_None_eq)
  then have again: "migrate_value (JObject ?g) = JObject ?g"
    using rewrite_no_zlm [OF nzg]
    by (simp add: migrate_value_def adopt_accounts_def or_insert_def)
  show ?thesis
    using True nzg again unfolding g
    by (auto simp: v map_of_or_insert map_of_adopt [OF d] map_of_rewrite [OF r] split: option.split)
qed

lemma migrate_value_correct_witness:
  "let v = JObject [(''accounts'', JArray [JObject [(''provider'', JString ''zlm'')]]), (''x'', JNull)]
   in json_ok v \<and> no_zlm (migrate_value v) \<and> jget (migrate_value v) ''x'' = Some JNull
      \<and> jget (migrate_value v) ''accounts'' = None"
  using migrate_value_correct
    [of "JObject [(''accounts'', JArray [JObject [(''provider'', JString ''zlm'')]]), (''x'', JNull)]"]
  by (simp del: no_zlm.simps)

section \<open>Loading and saving\<close>

text \<open>
  The libraries and the machine one process sees: the crates' primitives, the random source, and the
  reading of the clock, the state of the random source and the file system.  The clock stands still
  during an operation.
\<close>

record 'e platform =
  pl_crypto :: crypto
  pl_serde :: serde
  pl_fill :: "nat \<Rightarrow> 'e \<Rightarrow> u8 list \<times> 'e"

record 'e host =
  ho_now :: u64
  ho_entropy :: 'e
  ho_fs :: filesys

datatype accounts_io_error = AioIo string | AioJson string | AioStore store_error

definition parse_accounts :: "serde \<Rightarrow> accounts_file codec \<Rightarrow> string \<Rightarrow> accounts_io_error + accounts_file" where
  "parse_accounts sj cd content =
     (case from_text sj content of
        None \<Rightarrow> Inl (AioJson ''syntax'')
      | Some raw \<Rightarrow>
          (case cd_read cd (migrate_value raw) of
             None \<Rightarrow> Inl (AioJson ''shape'')
           | Some f \<Rightarrow> Inr f))"

definition host_key :: "'e platform \<Rightarrow> 'e host \<Rightarrow> (store_error + u8 list) \<times> 'e host" where
  "host_key pl h =
     (let (r, e, fs) = get_or_create_key (pl_crypto pl) (pl_fill pl) (ho_entropy h) (ho_fs h)
      in (r, h\<lparr>ho_entropy := e, ho_fs := fs\<rparr>))"

definition load_accounts ::
    "'e platform \<Rightarrow> accounts_file codec \<Rightarrow> string \<Rightarrow> 'e host
       \<Rightarrow> (accounts_io_error + accounts_file) \<times> 'e host" where
  "load_accounts pl cd path h =
     (case fs_read_to_string (ho_fs h) path of
        Inl NotFound \<Rightarrow> (Inr accounts_file_default, h)
      | Inl (IoError e) \<Rightarrow> (Inl (AioIo e), h)
      | Inr content \<Rightarrow>
          if \<not> is_encrypted_content (pl_serde pl) content
          then (parse_accounts (pl_serde pl) cd content, h)
          else
            (case unwrap_encrypted (pl_serde pl) content of
               None \<Rightarrow> (Inl (AioJson ''encrypted envelope missing ciphertext''), h)
             | Some token \<Rightarrow>
                 (case host_key pl h of
                    (Inl e, h') \<Rightarrow> (Inl (AioStore e), h')
                  | (Inr key, h') \<Rightarrow>
                      (case decrypt_str (pl_crypto pl) key token of
                         Inl e \<Rightarrow> (Inl (AioStore e), h')
                       | Inr plaintext \<Rightarrow> (parse_accounts (pl_serde pl) cd plaintext, h')))))"

text \<open>\<open>Path::parent\<close> of a path without a trailing slash.\<close>

definition path_parent :: "string \<Rightarrow> string option" where
  "path_parent p =
     (if p = [] \<or> p = ''/'' then None
      else (let q = rev (drop 1 (dropWhile (\<lambda>c. c \<noteq> CHR ''/'') (rev p)))
            in Some (if q = [] \<and> hd p = CHR ''/'' then ''/'' else q)))"

definition ensure_parent :: "string \<Rightarrow> filesys \<Rightarrow> io_error + unit" where
  "ensure_parent path fs =
     (case path_parent path of
        None \<Rightarrow> Inr ()
      | Some d \<Rightarrow> if d = [] then Inr () else fs_create_dir_all d fs)"

definition host_write :: "string \<Rightarrow> string \<Rightarrow> 'e host \<Rightarrow> (accounts_io_error + unit) \<times> 'e host" where
  "host_write path out h =
     (case fs_write path out (ho_fs h) of
        Inl e \<Rightarrow> (Inl (AioIo (io_message e)), h)
      | Inr fs \<Rightarrow> (Inr (), h\<lparr>ho_fs := fs\<rparr>))"

definition save_accounts ::
    "'e platform \<Rightarrow> accounts_file codec \<Rightarrow> accounts_file \<Rightarrow> string \<Rightarrow> bool \<Rightarrow> 'e host
       \<Rightarrow> (accounts_io_error + unit) \<times> 'e host" where
  "save_accounts pl cd accts path encrypt h =
     (case ensure_parent path (ho_fs h) of
        Inl e \<Rightarrow> (Inl (AioIo (io_message e)), h)
      | Inr _ \<Rightarrow>
          if \<not> encrypt then host_write path (cd_print cd accts) h
          else
            (case host_key pl h of
               (Inl e, h') \<Rightarrow> (Inl (AioStore e), h')
             | (Inr key, h') \<Rightarrow>
                 (case encrypt_str (pl_crypto pl) (pl_fill pl) (ho_now h') (ho_entropy h') key
                         (cd_print cd accts) of
                    (Inl e, e') \<Rightarrow> (Inl (AioStore e), h'\<lparr>ho_entropy := e'\<rparr>)
                  | (Inr token, e') \<Rightarrow>
                      host_write path (wrap_encrypted (pl_serde pl) token)
                        (h'\<lparr>ho_entropy := e'\<rparr>))))"

text \<open>
  What the serialization of one file must satisfy: the text is a string that parses to a tree the
  migration leaves alone and the reader maps back to the file, and the tree is not an envelope.
\<close>

definition codec_reads :: "serde \<Rightarrow> 'a codec \<Rightarrow> 'a \<Rightarrow> bool" where
  "codec_reads sj cd x \<longleftrightarrow>
     str_ok (cd_print cd x)
   \<and> (\<exists>v. from_text sj (cd_print cd x) = Some v \<and> cd_read cd v = Some x)"

definition accounts_readable :: "serde \<Rightarrow> accounts_file codec \<Rightarrow> accounts_file \<Rightarrow> bool" where
  "accounts_readable sj cd f \<longleftrightarrow>
     str_ok (cd_print cd f)
   \<and> (\<exists>v. from_text sj (cd_print cd f) = Some v \<and> migrate_value v = v
          \<and> jget v ''encrypted'' = None \<and> cd_read cd v = Some f)"

definition envelope_ok :: "serde \<Rightarrow> bool" where
  "envelope_ok sj \<longleftrightarrow>
     (\<forall>s. str_ok s \<longrightarrow> prints_object sj (envelope s) \<and> str_ok (to_compact sj (envelope s)))"

lemma fs_read_to_string_write:
  "fs_write p b fs = Inr fs' \<Longrightarrow> str_ok b \<Longrightarrow> fs_read_to_string fs' p = Inr b"
  by (auto simp: fs_read_to_string_def fs_write_def fs_read_def split: if_splits)

lemma parse_readable: "accounts_readable sj cd f \<Longrightarrow> parse_accounts sj cd (cd_print cd f) = Inr f"
  by (auto simp: accounts_readable_def parse_accounts_def)

lemma readable_plain: "accounts_readable sj cd f \<Longrightarrow> \<not> is_encrypted_content sj (cd_print cd f)"
  by (auto simp: accounts_readable_def is_encrypted_content_def)

lemma load_plain:
  assumes "accounts_readable sj cd f" and "host_write path (cd_print cd f) h = (Inr (), h')"
    and "pl_serde pl = sj"
  shows "load_accounts pl cd path h' = (Inr f, h')"
proof -
  obtain fs where w: "fs_write path (cd_print cd f) (ho_fs h) = Inr fs" and h': "h' = h\<lparr>ho_fs := fs\<rparr>"
    using assms(2) by (auto simp: host_write_def split: sum.splits)
  have "fs_read_to_string (ho_fs h') path = Inr (cd_print cd f)"
    using fs_read_to_string_write [OF w] assms(1) h' by (simp add: accounts_readable_def)
  then show ?thesis
    using readable_plain [OF assms(1)] parse_readable [OF assms(1)] assms(3)
    by (simp add: load_accounts_def)
qed

lemma stored_key_other:
  "fs_write path b fs = Inr fs' \<Longrightarrow> kp \<noteq> path \<Longrightarrow> stored_key fs' kp = stored_key fs kp"
  by (simp add: stored_key_def fs_read_write)

lemma load_encrypted:
  assumes c: "crypto_ok (pl_crypto pl)" and fill: "entropy_source (pl_fill pl)"
    and env: "envelope_ok (pl_serde pl)" and rd: "accounts_readable (pl_serde pl) cd f"
    and key: "host_key pl h = (Inr key, h1)" and kp: "key_path (ho_fs h) \<noteq> Inr path"
    and tok: "encrypt_str (pl_crypto pl) (pl_fill pl) now (ho_entropy h1) key (cd_print cd f) = (Inr token, e1)"
    and wr: "host_write path (wrap_encrypted (pl_serde pl) token) (h1\<lparr>ho_entropy := e1\<rparr>) = (Inr (), h')"
  shows "load_accounts pl cd path h' = (Inr f, h')"
proof -
  note fill_length = entropy_source.fill_length [OF fill]
  obtain kpath where k: "key_path (ho_fs h) = Inr kpath" "key_path (ho_fs h1) = Inr kpath"
      "stored_key (ho_fs h1) kpath = key" "key \<noteq> []"
    using key key_after_creation [where fill = "pl_fill pl" and e = "ho_entropy h" and fs = "ho_fs h"
        and key = key, OF c fill_length]
    by (auto simp: host_key_def split: prod.splits)
  obtain fk iv where fk: "fernet_from_base64 (pl_crypto pl) key = Inr fk" and iv: "length iv = 16"
      and token: "token = fernet_encrypt_with (pl_crypto pl) fk (str_bytes (cd_print cd f)) (now_secs now) iv"
    using tok fill_length [of 16 "ho_entropy h1"]
    by (auto simp: encrypt_str_def split: sum.splits prod.splits)
  have okt: "str_ok token" unfolding token fernet_encrypt_with_def Let_def by (rule str_ok_token [OF c])
  have p: "prints_object (pl_serde pl) (envelope token)" "str_ok (wrap_encrypted (pl_serde pl) token)"
    using env okt by (auto simp: envelope_ok_def wrap_encrypted_def)
  obtain fs where w: "fs_write path (wrap_encrypted (pl_serde pl) token) (ho_fs h1) = Inr fs"
      and h': "h' = h1\<lparr>ho_entropy := e1, ho_fs := fs\<rparr>"
    using wr by (auto simp: host_write_def split: sum.splits)
  have "kpath \<noteq> path" using k(1) kp by auto
  then have "stored_key fs kpath = key" using stored_key_other [OF w] k(3) by simp
  moreover have "key_path fs = Inr kpath" using key_path_home [OF fs_write_home [OF w]] k(2) by simp
  ultimately have again: "host_key pl h' = (Inr key, h')"
    using get_stored_key [of fs kpath "pl_crypto pl" "pl_fill pl" e1] k(4)
    by (simp add: host_key_def h')
  have "decrypt_str (pl_crypto pl) key token = Inr (cd_print cd f)"
    using fernet_roundtrip [OF c iv] rd fk token
    by (simp add: decrypt_str_def from_utf8_str_bytes accounts_readable_def)
  moreover have "fs_read_to_string (ho_fs h') path = Inr (wrap_encrypted (pl_serde pl) token)"
    using fs_read_to_string_write [OF w p(2)] by (simp add: h')
  ultimately show ?thesis
    using again wrap_encrypted_detected [OF p(1)] unwrap_wrap_encrypted [OF p(1)] parse_readable [OF rd]
    by (simp add: load_accounts_def)
qed

text \<open>
  What is saved is what is loaded.  For a file whose serialization reads back, a path other than
  that of the machine key, and primitives and libraries that keep their promises: if \<open>save_accounts\<close>
  succeeds, with or without encryption, \<open>load_accounts\<close> of the path returns the file, and reading it
  creates no key and draws no entropy.
\<close>

theorem save_load_roundtrip:
  assumes "crypto_ok (pl_crypto pl)" and "entropy_source (pl_fill pl)"
    and "envelope_ok (pl_serde pl)" and "accounts_readable (pl_serde pl) cd f"
    and "key_path (ho_fs h) \<noteq> Inr path"
    and "save_accounts pl cd f path encrypt h = (Inr (), h')"
  shows "load_accounts pl cd path h' = (Inr f, h')"
proof (cases encrypt)
  case False
  then show ?thesis
    using assms(6) load_plain [OF assms(4), of path h h' pl]
    by (auto simp: save_accounts_def split: sum.splits)
next
  case True
  then show ?thesis
    using assms(6) load_encrypted [OF assms(1-4) _ assms(5)]
    by (auto simp: save_accounts_def split: sum.splits prod.splits)
qed

text \<open>A small concrete instance: a printer and parser for two kinds of value, and a host with a home.\<close>

definition sample_tree :: json where
  "sample_tree = JObject [(''emails'', JArray []), (''security'', JObject [])]"

definition sample_serde :: serde where
  "sample_serde =
     \<lparr>to_compact = \<lambda>v. (case jget_str v ''ciphertext'' of Some s \<Rightarrow> ''{C'' @ s | None \<Rightarrow> ''{F}''),
      to_pretty = \<lambda>v. ''{F}'',
      from_text = \<lambda>s. if s = ''{F}'' then Some sample_tree
                     else if starts_with ''{C'' s then Some (envelope (drop 2 s)) else None,
      stream_next = \<lambda>_. None, number_f64 = \<lambda>_. None\<rparr>"

definition sample_codec :: "'a \<Rightarrow> 'a codec" where
  "sample_codec x = \<lparr>cd_print = \<lambda>_. ''{F}'', cd_read = \<lambda>_. Some x\<rparr>"

definition sample_platform :: "u64 platform" where
  "sample_platform =
     \<lparr>pl_crypto = checksum_crypto, pl_serde = sample_serde, pl_fill = seeded_fill\<rparr>"

definition sample_fs :: filesys where
  "sample_fs = \<lparr>fs_home = Some ''/h'',
     fs_data = [''/h/.gravity/.gravity.key'' \<mapsto> replicate 64 (CHR ''b'')],
     fs_mode = Map.empty, fs_denied = \<lambda>_. False\<rparr>"

definition sample_host :: "u64 host" where
  "sample_host = \<lparr>ho_now = 1000, ho_entropy = 7, ho_fs = sample_fs\<rparr>"

lemma utf8_valid_cons_ascii: "b < 0x80 \<Longrightarrow> utf8_valid (b # bs) = utf8_valid bs"
  by (simp add: utf8_valid.simps(2) utf8_step_def utf8_width_def)

lemma envelope_ok_sample: "envelope_ok sample_serde"
proof -
  have "prints_object sample_serde (envelope s) \<and> str_ok (to_compact sample_serde (envelope s))"
    if "str_ok s" for s
  proof -
    have "to_compact sample_serde (envelope s) = ''{C'' @ s"
      by (simp add: sample_serde_def envelope_def jget_str_def)
    moreover have "byte_of (CHR ''{'') < 0x80" "byte_of (CHR ''C'') < 0x80" by code_simp+
    moreover have "plain_char (CHR ''{'')" by code_simp
    ultimately show ?thesis
      using that
      by (simp add: prints_object_def str_ok_def str_bytes_def utf8_valid_cons_ascii sample_serde_def
          trim_start_plain)
  qed
  then show ?thesis by (simp add: envelope_ok_def)
qed

lemma accounts_readable_sample:
  "accounts_readable sample_serde (sample_codec accounts_file_default) accounts_file_default"
proof -
  have "str_ok ''{F}''" by code_simp
  moreover have "migrate_value sample_tree = sample_tree" by code_simp
  ultimately show ?thesis
    by (simp add: accounts_readable_def sample_codec_def sample_serde_def) (simp add: sample_tree_def)
qed

lemma sample_save_encrypted:
  "fst (save_accounts sample_platform (sample_codec accounts_file_default) accounts_file_default
          ''/h/a'' True sample_host) = Inr ()"
proof -
  let ?key = "str_bytes (replicate 64 (CHR ''b''))"
  have kp: "key_path sample_fs = Inr ''/h/.gravity/.gravity.key''" by code_simp
  have sk: "stored_key sample_fs ''/h/.gravity/.gravity.key'' = ?key" by code_simp
  have "?key \<noteq> []" by (simp add: str_bytes_def)
  then have hk: "host_key sample_platform sample_host = (Inr ?key, sample_host)"
    using get_stored_key [OF kp, of checksum_crypto seeded_fill 7] sk
    by (simp add: host_key_def sample_platform_def sample_host_def)
  have "fernet_from_base64 checksum_crypto ?key = Inr \<lparr>fk_signing = replicate 16 0x11, fk_encryption = replicate 16 0x11\<rparr>"
    by code_simp
  moreover obtain iv e where "seeded_fill 16 7 = (iv, e)" by (cases "seeded_fill 16 7")
  moreover have "ensure_parent ''/h/a'' (ho_fs sample_host) = Inr ()" by code_simp
  ultimately show ?thesis
    by (simp add: save_accounts_def hk) (simp add: encrypt_str_def host_write_def fs_write_def
        sample_platform_def sample_host_def sample_fs_def)
qed

lemma save_load_roundtrip_witness:
  "\<exists>h'. save_accounts sample_platform (sample_codec accounts_file_default) accounts_file_default
           ''/h/a'' True sample_host = (Inr (), h')
       \<and> load_accounts sample_platform (sample_codec accounts_file_default) ''/h/a'' h'
           = (Inr accounts_file_default, h')"
proof -
  obtain h' where s: "save_accounts sample_platform (sample_codec accounts_file_default)
      accounts_file_default ''/h/a'' True sample_host = (Inr (), h')"
    using sample_save_encrypted by (metis prod.collapse)
  have "crypto_ok (pl_crypto sample_platform)" "entropy_source (pl_fill sample_platform)"
    "envelope_ok (pl_serde sample_platform)"
    "accounts_readable (pl_serde sample_platform) (sample_codec accounts_file_default) accounts_file_default"
    using checksum_crypto_ok seeded.entropy_source_axioms envelope_ok_sample accounts_readable_sample
    by (simp_all add: sample_platform_def)
  moreover have "key_path (ho_fs sample_host) \<noteq> Inr ''/h/a''" by code_simp
  ultimately show ?thesis using save_load_roundtrip s by blast
qed

end
