(* ===== verification/Manager.thy ===== *)
theory Manager
  imports AccountsIo "HOL-Library.Multiset"
begin

text \<open>
  The account manager, \<open>gravity-accounts/src/manager.rs\<close>: selection of the accounts for a provider,
  resolution of secrets, persistence, and the health state that the orchestrator's failover drives.

  The clock of the environment is read once per operation (\<open>now\<close>); the function
  \<open>DateTime::from_timestamp_millis\<close> of \<open>chrono\<close>, which fails outside the range of dates, is the
  parameter \<open>from_millis\<close>.
\<close>

section \<open>The order of selection\<close>

text \<open>
  \<open>a.priority.cmp(&b.priority).then(b.weight.cmp(&a.weight))\<close> as a linear order: the lower priority
  first, then the higher weight.
\<close>

datatype selection_rank = Rank (rank_priority: int) (rank_weight: u32)

instantiation selection_rank :: linorder
begin

definition less_eq_selection_rank :: "selection_rank \<Rightarrow> selection_rank \<Rightarrow> bool" where
  "less_eq_selection_rank a b \<longleftrightarrow>
     rank_priority a < rank_priority b
     \<or> rank_priority a = rank_priority b \<and> rank_weight b \<le> rank_weight a"

definition less_selection_rank :: "selection_rank \<Rightarrow> selection_rank \<Rightarrow> bool" where
  "less_selection_rank a b \<longleftrightarrow>
     rank_priority a < rank_priority b
     \<or> rank_priority a = rank_priority b \<and> rank_weight b < rank_weight a"

instance
  by intro_classes
    (auto simp: less_eq_selection_rank_def less_selection_rank_def selection_rank.expand)

end

definition selection_rank_of :: "provider_account \<Rightarrow> selection_rank" where
  "selection_rank_of a = Rank (pa_priority a) (pa_weight a)"

section \<open>Operations\<close>

record manager =
  mg_accounts :: accounts_file
  mg_path :: string
  mg_encrypt_on_save :: bool

datatype manager_error = MgIo accounts_io_error | MgStore store_error | MgSecretNotFound string

definition path_exists :: "filesys \<Rightarrow> string \<Rightarrow> bool" where
  "path_exists fs p \<longleftrightarrow> fs_data fs p \<noteq> None"

definition manager_load ::
    "'e platform \<Rightarrow> accounts_file codec \<Rightarrow> string \<Rightarrow> 'e host \<Rightarrow> (manager_error + manager) \<times> 'e host" where
  "manager_load pl cd path h =
     (case load_accounts pl cd path h of
        (Inl e, h') \<Rightarrow> (Inl (MgIo e), h')
      | (Inr accts, h') \<Rightarrow>
          (Inr \<lparr>mg_accounts = accts, mg_path = path,
                mg_encrypt_on_save =
                  sc_secrets_encrypted (af_security accts)
                  \<or> (case key_path (ho_fs h') of Inl _ \<Rightarrow> False | Inr p \<Rightarrow> path_exists (ho_fs h') p)\<rparr>,
           h'))"

definition manager_load_default ::
    "'e platform \<Rightarrow> accounts_file codec \<Rightarrow> 'e host \<Rightarrow> (manager_error + manager) \<times> 'e host" where
  "manager_load_default pl cd h =
     (case gravity_dir (ho_fs h) of
        Inl e \<Rightarrow> (Inl (MgStore e), h)
      | Inr d \<Rightarrow> manager_load pl cd (path_join d ''accounts.json'') h)"

definition manager_in_memory :: "accounts_file \<Rightarrow> manager" where
  "manager_in_memory accts =
     \<lparr>mg_accounts = accts, mg_path = ''/dev/null'', mg_encrypt_on_save = False\<rparr>"

definition selectable :: "provider_name \<Rightarrow> u64 \<Rightarrow> provider_account \<Rightarrow> bool" where
  "selectable p now a \<longleftrightarrow> pa_provider a = p \<and> pa_enabled a \<and> \<not> in_cooldown a now"

definition accounts_for :: "manager \<Rightarrow> u64 \<Rightarrow> provider_name \<Rightarrow> provider_account list" where
  "accounts_for mgr now p =
     sort_key selection_rank_of
       (filter (selectable p now)
          (concat (map eb_providers (filter eb_enabled (af_emails (mg_accounts mgr))))))"

definition manager_get :: "manager \<Rightarrow> string \<Rightarrow> provider_account option" where
  "manager_get mgr account_id = find_account (mg_accounts mgr) account_id"

fun first_inline :: "auth_config \<Rightarrow> string list \<Rightarrow> string option" where
  "first_inline auth [] = None"
| "first_inline auth (k # ks) =
     (case inline_secret auth k of Some v \<Rightarrow> Some v | None \<Rightarrow> first_inline auth ks)"

definition inline_keys :: "string list" where
  "inline_keys = [''api_key'', ''token'', ''access_token'', ''session_key'']"

definition resolve_secret ::
    "'e platform \<Rightarrow> manager \<Rightarrow> auth_config \<Rightarrow> 'e host \<Rightarrow> (manager_error + string) \<times> 'e host" where
  "resolve_secret pl mgr auth h =
     (case first_inline auth inline_keys of
        Some v \<Rightarrow> (Inr v, h)
      | None \<Rightarrow>
          (case find (\<lambda>s. sr_secret_ref s = au_secret_ref auth) (af_secrets (mg_accounts mgr)) of
             None \<Rightarrow> (Inl (MgSecretNotFound (au_secret_ref auth)), h)
           | Some rec \<Rightarrow>
               (case host_key pl h of
                  (Inl e, h') \<Rightarrow> (Inl (MgStore e), h')
                | (Inr key, h') \<Rightarrow>
                    (case decrypt_str (pl_crypto pl) key (sr_ciphertext rec) of
                       Inl e \<Rightarrow> (Inl (MgStore e), h')
                     | Inr plaintext \<Rightarrow> (Inr plaintext, h')))))"

definition manager_save ::
    "'e platform \<Rightarrow> accounts_file codec \<Rightarrow> manager \<Rightarrow> 'e host \<Rightarrow> (manager_error + unit) \<times> 'e host" where
  "manager_save pl cd mgr h =
     (case save_accounts pl cd (mg_accounts mgr) (mg_path mgr) (mg_encrypt_on_save mgr) h of
        (Inl e, h') \<Rightarrow> (Inl (MgIo e), h')
      | (Inr _, h') \<Rightarrow> (Inr (), h'))"

definition manager_reload ::
    "'e platform \<Rightarrow> accounts_file codec \<Rightarrow> manager \<Rightarrow> 'e host
       \<Rightarrow> (manager_error + unit) \<times> manager \<times> 'e host" where
  "manager_reload pl cd mgr h =
     (case load_accounts pl cd (mg_path mgr) h of
        (Inl e, h') \<Rightarrow> (Inl (MgIo e), mgr, h')
      | (Inr accts, h') \<Rightarrow> (Inr (), mgr\<lparr>mg_accounts := accts\<rparr>, h'))"

text \<open>The account a mutable reference leads to, and the assignment through it.\<close>

definition with_account ::
    "string \<Rightarrow> (provider_account \<Rightarrow> provider_account) \<Rightarrow> manager \<Rightarrow> manager" where
  "with_account account_id f mgr =
     mgr\<lparr>mg_accounts := update_account account_id f (mg_accounts mgr)\<rparr>"

definition manager_now :: "(int \<Rightarrow> datetime option) \<Rightarrow> datetime \<Rightarrow> u64 \<Rightarrow> datetime" where
  "manager_now from_millis utc_now now =
     (case from_millis (sint now) of Some t \<Rightarrow> t | None \<Rightarrow> utc_now)"

definition healthy_after :: "datetime \<Rightarrow> provider_account \<Rightarrow> provider_account" where
  "healthy_after t a =
     a\<lparr>pa_rotation_state := (pa_rotation_state a)
         \<lparr>rs_state := ''healthy'', rs_consecutive_failures := 0, rs_cooldown_until := None,
          rs_last_error_code := None, rs_last_ok_at := Some t\<rparr>\<rparr>"

definition mark_success ::
    "(int \<Rightarrow> datetime option) \<Rightarrow> datetime \<Rightarrow> u64 \<Rightarrow> string \<Rightarrow> manager \<Rightarrow> manager" where
  "mark_success from_millis utc_now now account_id mgr =
     with_account account_id (healthy_after (manager_now from_millis utc_now now)) mgr"

text \<open>The end of the cooldown: both terms are cast to \<open>i64\<close> and added with wrap-around.\<close>

definition cooldown_end :: "(int \<Rightarrow> datetime option) \<Rightarrow> u64 \<Rightarrow> duration \<Rightarrow> datetime option" where
  "cooldown_end from_millis now cooldown =
     from_millis (sint (now + word_of_nat (cooldown div 1000000)))"

definition failed_after ::
    "datetime \<Rightarrow> string \<Rightarrow> datetime option \<Rightarrow> bool \<Rightarrow> provider_account \<Rightarrow> provider_account" where
  "failed_after t code until zero a =
     a\<lparr>pa_rotation_state := (pa_rotation_state a)
         \<lparr>rs_consecutive_failures := rs_consecutive_failures (pa_rotation_state a) + 1,
          rs_last_error_code := Some code, rs_last_error_at := Some t, rs_cooldown_until := until,
          rs_state := (if zero then ''degraded'' else ''cooldown'')\<rparr>\<rparr>"

definition mark_failure ::
    "(int \<Rightarrow> datetime option) \<Rightarrow> datetime \<Rightarrow> u64 \<Rightarrow> string \<Rightarrow> string \<Rightarrow> duration \<Rightarrow> manager \<Rightarrow> manager" where
  "mark_failure from_millis utc_now now account_id code cooldown mgr =
     with_account account_id
       (failed_after (manager_now from_millis utc_now now) code
          (cooldown_end from_millis now cooldown) (cooldown = 0)) mgr"

definition update_auth :: "string \<Rightarrow> auth_config \<Rightarrow> manager \<Rightarrow> bool \<times> manager" where
  "update_auth account_id new_auth mgr =
     (case manager_get mgr account_id of
        None \<Rightarrow> (False, mgr)
      | Some _ \<Rightarrow> (True, with_account account_id (\<lambda>a. a\<lparr>pa_auth := new_auth\<rparr>) mgr))"

definition set_enabled :: "string \<Rightarrow> bool \<Rightarrow> manager \<Rightarrow> bool \<times> manager" where
  "set_enabled account_id enabled mgr =
     (case manager_get mgr account_id of
        None \<Rightarrow> (False, mgr)
      | Some _ \<Rightarrow> (True, with_account account_id (\<lambda>a. a\<lparr>pa_enabled := enabled\<rparr>) mgr))"

section \<open>Selection\<close>

text \<open>The accounts of the enabled bundles, in file order.\<close>

definition enabled_accounts :: "manager \<Rightarrow> provider_account list" where
  "enabled_accounts mgr =
     concat (map eb_providers (filter eb_enabled (af_emails (mg_accounts mgr))))"

lemma accounts_for_eq:
  "accounts_for mgr now p = sort_key selection_rank_of (filter (selectable p now) (enabled_accounts mgr))"
  by (simp add: accounts_for_def enabled_accounts_def)

lemma selection_rank_le:
  "selection_rank_of a \<le> selection_rank_of b \<longleftrightarrow>
     pa_priority a < pa_priority b \<or> pa_priority a = pa_priority b \<and> pa_weight b \<le> pa_weight a"
  by (simp add: selection_rank_of_def less_eq_selection_rank_def)

text \<open>
  C35.  Account selection.  \<open>accounts_for\<close> returns exactly the enabled accounts of the provider in
  enabled bundles that are not cooling down, each as often as the file has it; of two results the
  earlier has a lower priority, or the same priority and at least the weight; and accounts of equal
  priority and weight keep their order in the file.
\<close>

theorem accounts_for_correct:
  "mset (accounts_for mgr now p) =
     {# a \<in># mset (enabled_accounts mgr). pa_provider a = p \<and> pa_enabled a \<and> \<not> in_cooldown a now #}
   \<and> sorted_wrt (\<lambda>a b. pa_priority a < pa_priority b
                      \<or> pa_priority a = pa_priority b \<and> pa_weight b \<le> pa_weight a)
        (accounts_for mgr now p)
   \<and> filter (\<lambda>a. pa_priority a = pr \<and> pa_weight a = w) (accounts_for mgr now p) =
       filter (\<lambda>a. pa_priority a = pr \<and> pa_weight a = w \<and> selectable p now a) (enabled_accounts mgr)"
proof -
  let ?xs = "accounts_for mgr now p"
  have "sorted (map selection_rank_of ?xs)" by (simp add: accounts_for_eq)
  then have "sorted_wrt (\<lambda>a b. selection_rank_of a \<le> selection_rank_of b) ?xs"
    by (simp add: sorted_map)
  moreover have "filter (\<lambda>a. selection_rank_of a = Rank pr w) ?xs =
      filter (\<lambda>a. selection_rank_of a = Rank pr w) (filter (selectable p now) (enabled_accounts mgr))"
    unfolding accounts_for_eq by (rule sort_key_stable)
  moreover have "mset ?xs = {# a \<in># mset (enabled_accounts mgr). selectable p now a #}"
    by (simp add: accounts_for_eq)
  moreover have "selection_rank_of a = Rank pr w \<longleftrightarrow> pa_priority a = pr \<and> pa_weight a = w" for a
    by (simp add: selection_rank_of_def)
  ultimately show ?thesis
    by (simp add: selection_rank_le selectable_def [abs_def] conj_comms conj_left_commute)
qed

section \<open>Health\<close>

lemma with_account_get:
  "keeps_id f \<Longrightarrow>
   manager_get (with_account k f mgr) k' =
     (if k = k' then map_option f (manager_get mgr k) else manager_get mgr k')"
  by (simp add: manager_get_def with_account_def find_update_account)

lemma keeps_id_health [simp]:
  "keeps_id (healthy_after t)" "keeps_id (failed_after t code until zero)"
  by (auto simp: keeps_id_def healthy_after_def failed_after_def)

text \<open>The dates the code meets, up to the year 9999, are in the range of \<open>chrono\<close>.\<close>

definition year_9999 :: int where
  "year_9999 = 253402300799999"

definition millis_ok :: "(int \<Rightarrow> datetime option) \<Rightarrow> bool" where
  "millis_ok from_millis \<longleftrightarrow> (\<forall>t. 0 \<le> t \<and> t \<le> year_9999 \<longrightarrow> from_millis t = Some t)"

lemma uint_add_small:
  assumes "uint (now :: u64) + int n \<le> year_9999"
  shows "uint (now + word_of_nat n) = uint now + int n"
    and "sint (now + word_of_nat n) = uint now + int n"
    and "of_int (uint now + int n) = now + word_of_nat n"
proof -
  have w: "(of_int (uint now + int n) :: u64) = now + word_of_nat n" by simp
  have "uint (of_int (uint now + int n) :: u64) = uint now + int n"
    using assms by (simp add: uint_word_of_int year_9999_def del: of_int_add)
  then show u: "uint (now + word_of_nat n) = uint now + int n" using w by simp
  show "sint (now + word_of_nat n) = uint now + int n"
  proof -
    have "0 \<le> uint now + int n" by simp
    then have "- (2 ^ 63) \<le> uint now + int n" by (rule order_trans [rotated]) simp
    moreover have "uint now + int n < 2 ^ 63" using assms by (simp add: year_9999_def)
    ultimately have "- (2 ^ 63) \<le> uint now + int n" "uint now + int n < 2 ^ 63" by blast+
    then show ?thesis using u by (simp add: sint_uint signed_take_bit_int_eq_self)
  qed
  show "of_int (uint now + int n) = now + word_of_nat n" by (rule w)
qed

lemma cooldown_end_ok:
  assumes "millis_ok from_millis" and "uint now + int (cooldown div 1000000) \<le> year_9999"
  shows "cooldown_end from_millis now cooldown = Some (uint now + int (cooldown div 1000000))"
  using assms uint_add_small(2) [OF assms(2)]
  by (simp add: cooldown_end_def millis_ok_def)

text \<open>
  C34.  Failure opens a cooldown window of the requested length.  Marking a failure of a known account,
  at a time and with a cooldown that end before the year 10000: until the end of the window the account
  is not selected for any provider, from then on it counts as cooled down; its failure count is one
  more (modulo 2^32) and the code is recorded; a success then closes the window at once and resets the
  count; and no other account changes in either step.
\<close>

theorem failure_cooldown_window:
  assumes "manager_get mgr k = Some a" and "millis_ok from_millis"
    and "uint now + int (cooldown div 1000000) \<le> year_9999"
    and "mgr' = mark_failure from_millis utc_now now k code cooldown mgr"
  shows "\<exists>a'. manager_get mgr' k = Some a'
       \<and> (\<forall>t. in_cooldown a' t \<longleftrightarrow> uint t < uint now + int (cooldown div 1000000))
       \<and> (\<forall>t p. uint t < uint now + int (cooldown div 1000000) \<longrightarrow> a' \<notin> set (accounts_for mgr' t p))
       \<and> rs_consecutive_failures (pa_rotation_state a') = rs_consecutive_failures (pa_rotation_state a) + 1
       \<and> rs_last_error_code (pa_rotation_state a') = Some code
       \<and> (\<exists>a''. manager_get (mark_success from_millis utc_now now2 k mgr') k = Some a''
              \<and> (\<forall>t. \<not> in_cooldown a'' t) \<and> rs_consecutive_failures (pa_rotation_state a'') = 0)
       \<and> (\<forall>k2. k2 \<noteq> k \<longrightarrow> manager_get mgr' k2 = manager_get mgr k2
              \<and> manager_get (mark_success from_millis utc_now now2 k mgr') k2 = manager_get mgr k2)"
proof -
  let ?f = "failed_after (manager_now from_millis utc_now now) code
              (cooldown_end from_millis now cooldown) (cooldown = 0)"
  have get': "manager_get mgr' k2 = (if k2 = k then Some (?f a) else manager_get mgr k2)" for k2
    using assms(1,4) by (simp add: mark_failure_def with_account_get)
  have cd: "in_cooldown (?f a) t \<longleftrightarrow> uint t < uint now + int (cooldown div 1000000)" for t
    using cooldown_end_ok [OF assms(2,3)] uint_add_small(1,3) [OF assms(3)]
    by (simp add: in_cooldown_def failed_after_def word_less_alt del: of_int_add)
  have "?f a \<notin> set (accounts_for mgr' t p)" if "uint t < uint now + int (cooldown div 1000000)" for t p
    using that cd by (auto simp: accounts_for_eq selectable_def)
  moreover have "rs_consecutive_failures (pa_rotation_state (?f a))
      = rs_consecutive_failures (pa_rotation_state a) + 1"
    "rs_last_error_code (pa_rotation_state (?f a)) = Some code" by (simp_all add: failed_after_def)
  moreover have "manager_get (mark_success from_millis utc_now now2 k mgr') k2 =
      (if k2 = k then Some (healthy_after (manager_now from_millis utc_now now2) (?f a))
       else manager_get mgr k2)" for k2
    using get' by (simp add: mark_success_def with_account_get)
  moreover have "\<not> in_cooldown (healthy_after t0 b) t"
    "rs_consecutive_failures (pa_rotation_state (healthy_after t0 b)) = 0" for t0 b t
    by (simp_all add: in_cooldown_def healthy_after_def)
  ultimately show ?thesis using get' cd by simp
qed

definition sample_manager :: manager where
  "sample_manager = manager_in_memory
     (accounts_file_default\<lparr>af_emails :=
        [\<lparr>eb_email = ''e@x'', eb_enabled = True, eb_display_name = None,
          eb_providers = [sample_account ''lo'' Groq 100, sample_account ''hi'' Groq 10],
          eb_model_routes = [], eb_metadata = metadata_new\<rparr>]\<rparr>)"

lemma failure_cooldown_window_witness:
  "\<exists>a'. manager_get (mark_failure Some 0 1000 ''hi'' ''429'' 5000000000 sample_manager) ''hi'' = Some a'
      \<and> in_cooldown a' 5999 \<and> \<not> in_cooldown a' 6000"
proof -
  have g: "manager_get sample_manager ''hi'' = Some (sample_account ''hi'' Groq 10)"
    by (simp add: manager_get_def sample_manager_def manager_in_memory_def find_account_def
        iter_accounts_def sample_account_def)
  have "millis_ok Some" by (simp add: millis_ok_def)
  moreover have "uint (1000 :: u64) + int (5000000000 div 1000000) \<le> year_9999"
    by (simp add: year_9999_def)
  ultimately obtain a' where
    "manager_get (mark_failure Some 0 1000 ''hi'' ''429'' 5000000000 sample_manager) ''hi'' = Some a'"
    "\<forall>t. in_cooldown a' t \<longleftrightarrow> uint t < uint (1000 :: u64) + int (5000000000 div 1000000)"
    using failure_cooldown_window [OF g _ _ refl, where utc_now = 0] by blast
  then show ?thesis by simp
qed

text \<open>
  The health operations the failover performs, as events.
\<close>

datatype health_event = Succeeded u64 string | Failed u64 string string duration

fun event_account :: "health_event \<Rightarrow> string" where
  "event_account (Succeeded now k) = k"
| "event_account (Failed now k code cooldown) = k"

fun is_failure :: "health_event \<Rightarrow> bool" where
  "is_failure (Failed now k code cooldown) = True"
| "is_failure (Succeeded now k) = False"

fun health_step ::
    "(int \<Rightarrow> datetime option) \<Rightarrow> datetime \<Rightarrow> health_event \<Rightarrow> manager \<Rightarrow> manager" where
  "health_step fm un (Succeeded now k) mgr = mark_success fm un now k mgr"
| "health_step fm un (Failed now k code cooldown) mgr = mark_failure fm un now k code cooldown mgr"

fun health_effect ::
    "(int \<Rightarrow> datetime option) \<Rightarrow> datetime \<Rightarrow> health_event \<Rightarrow> provider_account \<Rightarrow> provider_account" where
  "health_effect fm un (Succeeded now k) = healthy_after (manager_now fm un now)"
| "health_effect fm un (Failed now k code cooldown) =
     failed_after (manager_now fm un now) code (cooldown_end fm now cooldown) (cooldown = 0)"

lemma health_run:
  "mg_accounts (fold (health_step fm un) es mgr) =
     accounts.run (map (\<lambda>e. (event_account e, health_effect fm un e)) es) (mg_accounts mgr)"
proof (induction es arbitrary: mgr)
  case Nil
  then show ?case by (simp add: accounts.run_def)
next
  case (Cons e es)
  have "mg_accounts (health_step fm un e mgr) =
      update_account (event_account e) (health_effect fm un e) (mg_accounts mgr)"
    by (cases e) (simp_all add: mark_success_def mark_failure_def with_account_def)
  with Cons show ?case by (simp add: accounts.run_def)
qed

lemma keeps_id_effect: "keeps_id (health_effect fm un e)"
  by (cases e) simp_all

lemma effect_failures:
  "rs_consecutive_failures (pa_rotation_state (health_effect fm un e a)) =
     (if is_failure e then rs_consecutive_failures (pa_rotation_state a) + 1 else 0)"
  by (cases e) (simp_all add: healthy_after_def failed_after_def)

lemma effect_frame:
  "pa_account_id (health_effect fm un e a) = pa_account_id a
   \<and> pa_enabled (health_effect fm un e a) = pa_enabled a
   \<and> pa_priority (health_effect fm un e a) = pa_priority a
   \<and> pa_weight (health_effect fm un e a) = pa_weight a
   \<and> pa_provider (health_effect fm un e a) = pa_provider a
   \<and> pa_auth (health_effect fm un e a) = pa_auth a
   \<and> pa_transport (health_effect fm un e a) = pa_transport a"
  by (cases e) (simp_all add: healthy_after_def failed_after_def)

text \<open>The events of one account, and the failures after its last success.\<close>

definition own_events :: "string \<Rightarrow> health_event list \<Rightarrow> health_event list" where
  "own_events k es = filter (\<lambda>e. event_account e = k) es"

definition trailing_failures :: "health_event list \<Rightarrow> nat" where
  "trailing_failures es = length (takeWhile is_failure (rev es))"

lemma fold_failures:
  "rs_consecutive_failures (pa_rotation_state (fold (health_effect fm un) es a)) =
     (if \<forall>e\<in>set es. is_failure e then rs_consecutive_failures (pa_rotation_state a) + of_nat (length es)
      else of_nat (trailing_failures es))"
proof (induction es rule: rev_induct)
  case Nil
  then show ?case by simp
next
  case (snoc e es)
  have "is_failure e' \<Longrightarrow> trailing_failures (es @ [e']) = Suc (trailing_failures es)" for e'
    by (simp add: trailing_failures_def)
  moreover have "\<not> is_failure e' \<Longrightarrow> trailing_failures (es @ [e']) = 0" for e'
    by (simp add: trailing_failures_def)
  ultimately show ?case using snoc by (simp add: effect_failures algebra_simps)
qed

lemma fold_effect_frame:
  "let a' = fold (health_effect fm un) es a
   in pa_enabled a' = pa_enabled a \<and> pa_priority a' = pa_priority a \<and> pa_weight a' = pa_weight a
      \<and> pa_provider a' = pa_provider a \<and> pa_auth a' = pa_auth a \<and> pa_transport a' = pa_transport a"
  by (induction es arbitrary: a) (simp_all add: Let_def effect_frame)

lemma filter_map_pairs:
  "map snd (filter (\<lambda>x. fst x = k) (map (\<lambda>e. (event_account e, f e)) es)) = map f (own_events k es)"
  by (induction es) (simp_all add: own_events_def)

lemma health_run_get:
  "manager_get (fold (health_step fm un) es mgr) k =
     map_option (fold (health_effect fm un) (own_events k es)) (manager_get mgr k)"
proof -
  let ?es = "map (\<lambda>e. (event_account e, health_effect fm un e)) es"
  have "\<forall>(k, f)\<in>set ?es. keeps_id f" by (auto simp: keeps_id_effect)
  from accounts.seek_run [OF this, of "mg_accounts mgr" k]
  have "manager_get (fold (health_step fm un) es mgr) k =
      map_option (fold (\<lambda>e. snd e) (filter (\<lambda>e. fst e = k) ?es)) (manager_get mgr k)"
    by (simp add: manager_get_def health_run)
  moreover have "fold (\<lambda>e. snd e) xs = fold id (map snd xs)" for xs :: "(string \<times> (provider_account \<Rightarrow> provider_account)) list"
    by (simp add: fold_map comp_def id_def)
  moreover have "fold id (map f ys) = fold f ys" for f :: "health_event \<Rightarrow> provider_account \<Rightarrow> provider_account" and ys
    by (simp add: fold_map comp_def)
  ultimately show ?thesis by (simp add: filter_map_pairs)
qed

text \<open>
  Health bookkeeping under any interleaving.  After any sequence of successes and failures of any
  accounts, what an id finds is its old account with the effects of its own events in order: its
  failure count is the number of failures since its last success (modulo 2^32), added to the old count
  when it had none; and its credentials, transport, provider, enablement and rank are as before.
  Unknown ids change nothing.
\<close>

theorem health_bookkeeping:
  "manager_get (fold (health_step fm un) es mgr) k =
     map_option (fold (health_effect fm un) (own_events k es)) (manager_get mgr k)
   \<and> (case (manager_get (fold (health_step fm un) es mgr) k, manager_get mgr k) of
        (Some a', Some a) \<Rightarrow>
          rs_consecutive_failures (pa_rotation_state a') =
            (if list_all is_failure (own_events k es)
             then rs_consecutive_failures (pa_rotation_state a) + of_nat (length (own_events k es))
             else of_nat (trailing_failures (own_events k es)))
          \<and> pa_enabled a' = pa_enabled a \<and> pa_priority a' = pa_priority a
          \<and> pa_weight a' = pa_weight a \<and> pa_provider a' = pa_provider a
          \<and> pa_auth a' = pa_auth a \<and> pa_transport a' = pa_transport a
      | (None, None) \<Rightarrow> True
      | _ \<Rightarrow> False)"
  using fold_effect_frame [of fm un "own_events k es"]
  by (auto simp: health_run_get fold_failures list_all_iff Let_def split: option.split)

section \<open>Secrets and updates\<close>

text \<open>
  Where a secret comes from.  An inline value in \<open>auth.extra\<close> is returned as it is, the first of
  \<open>api_key\<close>, \<open>token\<close>, \<open>access_token\<close>, \<open>session_key\<close> that holds a string, without touching the
  machine; otherwise the first stored record with the reference is decrypted with the machine key; and
  a reference with no record is \<open>SecretNotFound\<close>, with no key created.
\<close>

theorem resolve_secret_order:
  "resolve_secret pl mgr auth h =
     (case List.map_filter (inline_secret auth) [''api_key'', ''token'', ''access_token'', ''session_key''] of
        v # _ \<Rightarrow> (Inr v, h)
      | [] \<Rightarrow>
          (case filter (\<lambda>s. sr_secret_ref s = au_secret_ref auth) (af_secrets (mg_accounts mgr)) of
             [] \<Rightarrow> (Inl (MgSecretNotFound (au_secret_ref auth)), h)
           | rec # _ \<Rightarrow>
               (case fst (host_key pl h) of
                  Inl e \<Rightarrow> Inl (MgStore e)
                | Inr key \<Rightarrow>
                    (case decrypt_str (pl_crypto pl) key (sr_ciphertext rec) of
                       Inl e \<Rightarrow> Inl (MgStore e) | Inr s \<Rightarrow> Inr s),
                snd (host_key pl h))))"
proof -
  have inl: "first_inline auth ks =
      (case List.map_filter (inline_secret auth) ks of [] \<Rightarrow> None | v # _ \<Rightarrow> Some v)" for ks
    by (induction ks) (auto simp: List.map_filter_simps split: option.split)
  have f: "find q xs = (case filter q xs of [] \<Rightarrow> None | x # _ \<Rightarrow> Some x)" for q and xs :: "secret_record list"
    by (induction xs) auto
  obtain r h' where hk: "host_key pl h = (r, h')" by (cases "host_key pl h")
  show ?thesis
    unfolding resolve_secret_def inline_keys_def inl f hk fst_conv snd_conv
    by (cases "List.map_filter (inline_secret auth) [''api_key'', ''token'', ''access_token'', ''session_key'']";
        cases "filter (\<lambda>s. sr_secret_ref s = au_secret_ref auth) (af_secrets (mg_accounts mgr))"; cases r)
      (simp_all split: sum.split del: List.map_filter_simps)
qed

text \<open>
  \<open>set_enabled\<close> and \<open>update_auth\<close> report whether the id exists; when it does not, nothing changes;
  when it does, exactly that field of what the id finds changes, no other id finds anything else, and
  a disabled account is never selected.
\<close>

theorem manager_updates:
  "manager_get (snd (set_enabled k b mgr)) k' =
     (if k' = k then map_option (\<lambda>a. a\<lparr>pa_enabled := b\<rparr>) (manager_get mgr k) else manager_get mgr k')
   \<and> manager_get (snd (update_auth k au mgr)) k' =
     (if k' = k then map_option (\<lambda>a. a\<lparr>pa_auth := au\<rparr>) (manager_get mgr k) else manager_get mgr k')
   \<and> (fst (set_enabled k b mgr) \<longleftrightarrow> manager_get mgr k \<noteq> None)
   \<and> (fst (update_auth k au mgr) \<longleftrightarrow> manager_get mgr k \<noteq> None)
   \<and> map_option (\<lambda>a. a \<in> set (accounts_for (snd (set_enabled k False mgr)) t p))
        (manager_get (snd (set_enabled k False mgr)) k) \<in> {None, Some False}"
proof -
  have k: "keeps_id (\<lambda>a. a\<lparr>pa_enabled := b\<rparr>)" "keeps_id (\<lambda>a. a\<lparr>pa_auth := au\<rparr>)" for b
    by (simp_all add: keeps_id_def)
  have "a\<lparr>pa_enabled := False\<rparr> \<notin> set (accounts_for m t p)" for a m
    by (simp add: accounts_for_eq selectable_def)
  then show ?thesis
    by (auto simp: set_enabled_def update_auth_def with_account_get [OF k(1)] with_account_get [OF k(2)]
        split: option.split)
qed

end
