(* ===== verification/UserFiles.thy ===== *)
theory UserFiles
  imports AccountsIo
begin

text \<open>
  The user configuration (\<open>gravity-accounts/src/config.rs\<close>) and the usage metrics (\<open>metrics.rs\<close>), two
  files of the gravity directory that are read leniently: what cannot be read counts as the default.
  A \<open>BTreeMap\<close> is a finite map; the process mutex makes each operation atomic.
\<close>

section \<open>Files of the gravity directory\<close>

definition gravity_file :: "string \<Rightarrow> filesys \<Rightarrow> store_error + string" where
  "gravity_file name fs =
     (case gravity_dir fs of Inl e \<Rightarrow> Inl e | Inr d \<Rightarrow> Inr (path_join d name))"

text \<open>\<open>path.ok().and_then(read).and_then(parse).unwrap_or_default()\<close>\<close>

definition read_or :: "serde \<Rightarrow> 'a codec \<Rightarrow> 'a \<Rightarrow> string \<Rightarrow> filesys \<Rightarrow> 'a" where
  "read_or sj cd dflt name fs =
     (case gravity_file name fs of
        Inl _ \<Rightarrow> dflt
      | Inr p \<Rightarrow>
          (case fs_read_to_string fs p of
             Inl _ \<Rightarrow> dflt
           | Inr s \<Rightarrow>
               (case Option.bind (from_text sj s) (cd_read cd) of None \<Rightarrow> dflt | Some x \<Rightarrow> x)))"

definition write_file :: "'a codec \<Rightarrow> string \<Rightarrow> 'a \<Rightarrow> filesys \<Rightarrow> (store_error + unit) \<times> filesys" where
  "write_file cd name x fs =
     (case gravity_file name fs of
        Inl e \<Rightarrow> (Inl e, fs)
      | Inr path \<Rightarrow>
          (case ensure_parent path fs of
             Inl e \<Rightarrow> (Inl (StoreIo (io_message e)), fs)
           | Inr _ \<Rightarrow>
               (case fs_write path (cd_print cd x) fs of
                  Inl e \<Rightarrow> (Inl (StoreIo (io_message e)), fs)
                | Inr fs' \<Rightarrow> (Inr (), fs'))))"

lemma write_file_ok:
  assumes "write_file cd name x fs = (Inr (), fs')"
  shows "\<exists>p. gravity_file name fs = Inr p \<and> fs_write p (cd_print cd x) fs = Inr fs'"
  using assms by (auto simp: write_file_def split: sum.splits)

lemma write_file_err: "write_file cd name x fs = (Inl e, fs') \<Longrightarrow> fs' = fs"
  by (auto simp: write_file_def split: sum.splits)

lemma gravity_file_home: "fs_home fs' = fs_home fs \<Longrightarrow> gravity_file name fs' = gravity_file name fs"
  by (simp add: gravity_file_def gravity_dir_def)

lemma path_join_eq [simp]: "path_join d a = path_join d b \<longleftrightarrow> a = b"
  by (simp add: path_join_def)

lemma gravity_file_inj:
  "gravity_file a fs = Inr p \<Longrightarrow> gravity_file b fs = Inr q \<Longrightarrow> p = q \<longleftrightarrow> a = b"
  by (auto simp: gravity_file_def split: sum.splits)

text \<open>A file that was written and reads back is what is read; another file of the directory is as before.\<close>

lemma read_or_write:
  assumes "write_file cd name x fs = (Inr (), fs')" and "codec_reads sj cd x"
  shows "read_or sj cd dflt name fs' = x"
    and "n \<noteq> name \<Longrightarrow> read_or sj' cd' d n fs' = read_or sj' cd' d n fs"
proof -
  obtain p where p: "gravity_file name fs = Inr p" and w: "fs_write p (cd_print cd x) fs = Inr fs'"
    using write_file_ok [OF assms(1)] by blast
  have g: "gravity_file n fs' = gravity_file n fs" for n
    by (rule gravity_file_home [OF fs_write_home [OF w]])
  have r: "fs_read_to_string fs' p = Inr (cd_print cd x)"
    using fs_read_to_string_write [OF w] assms(2) by (simp add: codec_reads_def)
  show "read_or sj cd dflt name fs' = x"
    using assms(2) by (auto simp: read_or_def g p r codec_reads_def)
  show "read_or sj' cd' d n fs' = read_or sj' cd' d n fs" if "n \<noteq> name"
  proof (cases "gravity_file n fs")
    case (Inr q)
    then have "q \<noteq> p" using gravity_file_inj [OF p Inr] that by blast
    then have "fs_read_to_string fs' q = fs_read_to_string fs q"
      using fs_read_write [OF w, of q] by (simp add: fs_read_to_string_def)
    then show ?thesis by (simp add: read_or_def g Inr)
  qed (simp add: read_or_def g)
qed

section \<open>Configuration\<close>

record config =
  cf_autocomplete :: bool
  cf_default_model :: "string option"
  cf_stream :: bool
  cf_log_level :: string
  cf_proxy :: "string option"

definition config_default :: config where
  "config_default =
     \<lparr>cf_autocomplete = False, cf_default_model = None, cf_stream = True, cf_log_level = ''WARNING'',
      cf_proxy = None\<rparr>"

definition config_load :: "serde \<Rightarrow> config codec \<Rightarrow> filesys \<Rightarrow> config" where
  "config_load sj cd = read_or sj cd config_default ''config.json''"

definition config_save :: "config codec \<Rightarrow> config \<Rightarrow> filesys \<Rightarrow> (store_error + unit) \<times> filesys" where
  "config_save cd = write_file cd ''config.json''"

section \<open>Metrics\<close>

record model_metrics =
  mm_requests :: u64
  mm_input_tokens :: u64
  mm_output_tokens :: u64
  mm_total_tokens :: u64

type_synonym metrics = "string \<rightharpoonup> model_metrics"

definition metrics_zero :: model_metrics where
  "metrics_zero = \<lparr>mm_requests = 0, mm_input_tokens = 0, mm_output_tokens = 0, mm_total_tokens = 0\<rparr>"

definition load_metrics :: "serde \<Rightarrow> metrics codec \<Rightarrow> filesys \<Rightarrow> metrics" where
  "load_metrics sj cd = read_or sj cd Map.empty ''metrics.json''"

definition save_metrics :: "metrics codec \<Rightarrow> metrics \<Rightarrow> filesys \<Rightarrow> (store_error + unit) \<times> filesys" where
  "save_metrics cd = write_file cd ''metrics.json''"

definition add_usage :: "string \<Rightarrow> u64 \<Rightarrow> u64 \<Rightarrow> u64 \<Rightarrow> metrics \<Rightarrow> metrics" where
  "add_usage model i o' t data =
     (let entry = (case data model of None \<Rightarrow> metrics_zero | Some e \<Rightarrow> e)
      in data(model \<mapsto>
           \<lparr>mm_requests = mm_requests entry + 1,
            mm_input_tokens = mm_input_tokens entry + i,
            mm_output_tokens = mm_output_tokens entry + o',
            mm_total_tokens = mm_total_tokens entry + (if 0 < t then t else i + o')\<rparr>))"

definition record_usage ::
    "serde \<Rightarrow> metrics codec \<Rightarrow> string \<Rightarrow> u64 \<Rightarrow> u64 \<Rightarrow> u64 \<Rightarrow> filesys \<Rightarrow> filesys" where
  "record_usage sj cd model i o' t fs =
     snd (save_metrics cd (add_usage model i o' t (load_metrics sj cd fs)) fs)"

definition reset_metrics :: "serde \<Rightarrow> metrics codec \<Rightarrow> string option \<Rightarrow> filesys \<Rightarrow> filesys" where
  "reset_metrics sj cd model fs =
     (case model of
        Some m \<Rightarrow> snd (save_metrics cd ((load_metrics sj cd fs)(m := None)) fs)
      | None \<Rightarrow> snd (save_metrics cd Map.empty fs))"

text \<open>
  The atomic operations on the file.  A reset of one model forgets it, a reset without a model forgets
  all.
\<close>

datatype metrics_op = Use string u64 u64 u64 | Reset "string option"

fun metrics_step :: "serde \<Rightarrow> metrics codec \<Rightarrow> metrics_op \<Rightarrow> filesys \<Rightarrow> filesys" where
  "metrics_step sj cd (Use m i o' t) fs = record_usage sj cd m i o' t fs"
| "metrics_step sj cd (Reset m) fs = reset_metrics sj cd m fs"

text \<open>The abstract counter table and its operations.\<close>

fun table_step :: "metrics_op \<Rightarrow> metrics \<Rightarrow> metrics" where
  "table_step (Use m i o' t) d = add_usage m i o' t d"
| "table_step (Reset (Some m)) d = d(m := None)"
| "table_step (Reset None) d = Map.empty"

text \<open>The metrics file can be written.\<close>

definition metrics_writable :: "filesys \<Rightarrow> bool" where
  "metrics_writable fs \<longleftrightarrow>
     (\<exists>p. gravity_file ''metrics.json'' fs = Inr p \<and> \<not> fs_denied fs p
        \<and> ensure_parent p fs = Inr ())"

lemma save_writable:
  assumes "metrics_writable fs"
  shows "\<exists>fs'. save_metrics cd d fs = (Inr (), fs') \<and> metrics_writable fs'"
proof -
  obtain p where p: "gravity_file ''metrics.json'' fs = Inr p" "\<not> fs_denied fs p" "ensure_parent p fs = Inr ()"
    using assms by (auto simp: metrics_writable_def)
  let ?fs = "fs\<lparr>fs_data := (fs_data fs)(p \<mapsto> cd_print cd d)\<rparr>"
  have "save_metrics cd d fs = (Inr (), ?fs)"
    using p by (simp add: save_metrics_def write_file_def fs_write_def)
  moreover have "metrics_writable ?fs"
    using p gravity_file_home [of ?fs fs]
    by (auto simp: metrics_writable_def ensure_parent_def fs_create_dir_all_def split: option.splits)
  ultimately show ?thesis by blast
qed

lemma metrics_step_table:
  assumes "metrics_writable fs" and "codec_reads sj cd (table_step op (load_metrics sj cd fs))"
  shows "metrics_writable (metrics_step sj cd op fs)"
    and "load_metrics sj cd (metrics_step sj cd op fs) = table_step op (load_metrics sj cd fs)"
    and "config_load sj cd' (metrics_step sj cd op fs) = config_load sj cd' fs"
proof -
  let ?d = "table_step op (load_metrics sj cd fs)"
  obtain fs' where w: "save_metrics cd ?d fs = (Inr (), fs')" and ok: "metrics_writable fs'"
    using save_writable [OF assms(1)] by blast
  have "metrics_step sj cd op fs = snd (save_metrics cd ?d fs)"
    by (cases "(op, load_metrics sj cd fs)" rule: table_step.cases)
      (auto simp: record_usage_def reset_metrics_def)
  then have step: "metrics_step sj cd op fs = fs'" using w by simp
  show "metrics_writable (metrics_step sj cd op fs)" using ok step by simp
  show "load_metrics sj cd (metrics_step sj cd op fs) = ?d"
    unfolding step load_metrics_def using w assms(2)
    by (intro read_or_write(1)) (simp_all add: save_metrics_def load_metrics_def)
  have "''config.json'' \<noteq> ''metrics.json''" by simp
  then show "config_load sj cd' (metrics_step sj cd op fs) = config_load sj cd' fs"
    unfolding step config_load_def using w assms(2)
    by (intro read_or_write(2)) (auto simp: save_metrics_def)
qed

text \<open>The tables a run of operations goes through all read back.\<close>

fun tables_readable :: "serde \<Rightarrow> metrics codec \<Rightarrow> metrics_op list \<Rightarrow> metrics \<Rightarrow> bool" where
  "tables_readable sj cd [] d \<longleftrightarrow> True"
| "tables_readable sj cd (op # ops) d \<longleftrightarrow>
     codec_reads sj cd (table_step op d) \<and> tables_readable sj cd ops (table_step op d)"

text \<open>
  The metrics file implements a table of counters.  While the file can be written and the tables
  read back, any sequence of recorded calls and resets leaves on disk exactly the table the same
  operations compute on the counters (each call adds 1 to the requests, its tokens to the sums, and to
  the total the reported total or, when that is zero, input plus output, all modulo 2^64), and it
  leaves the configuration as it is.
\<close>

theorem metrics_refine_table:
  assumes "metrics_writable fs" and "tables_readable sj cd ops (load_metrics sj cd fs)"
  shows "load_metrics sj cd (fold (metrics_step sj cd) ops fs) = fold table_step ops (load_metrics sj cd fs)
       \<and> config_load sj cd' (fold (metrics_step sj cd) ops fs) = config_load sj cd' fs"
  using assms
proof (induction ops arbitrary: fs)
  case Nil
  then show ?case by simp
next
  case (Cons op ops)
  then have "codec_reads sj cd (table_step op (load_metrics sj cd fs))" by simp
  note step = metrics_step_table [OF Cons.prems(1) this]
  show ?case using Cons.IH [OF step(1)] Cons.prems(2) step(2) step(3) [of cd'] by simp
qed

lemma metrics_refine_table_witness:
  "load_metrics sample_serde (sample_codec (add_usage ''m'' 3 4 0 Map.empty))
     (metrics_step sample_serde (sample_codec (add_usage ''m'' 3 4 0 Map.empty)) (Use ''m'' 3 4 0) sample_fs)
   = [''m'' \<mapsto> \<lparr>mm_requests = 1, mm_input_tokens = 3, mm_output_tokens = 4, mm_total_tokens = 7\<rparr>]"
proof -
  let ?cd = "sample_codec (add_usage ''m'' 3 4 0 Map.empty)"
  have "gravity_file ''metrics.json'' sample_fs = Inr ''/h/.gravity/metrics.json''"
    "ensure_parent ''/h/.gravity/metrics.json'' sample_fs = Inr ()" by code_simp+
  then have w: "metrics_writable sample_fs" by (simp add: metrics_writable_def sample_fs_def)
  have l: "load_metrics sample_serde ?cd sample_fs = Map.empty"
    by (simp add: load_metrics_def read_or_def gravity_file_def gravity_dir_def sample_fs_def
        path_join_def fs_read_to_string_def fs_read_def)
  have "str_ok ''{F}''" by code_simp
  then have "codec_reads sample_serde ?cd (add_usage ''m'' 3 4 0 Map.empty)"
    by (simp add: codec_reads_def sample_codec_def sample_serde_def)
  then have "tables_readable sample_serde ?cd [Use ''m'' 3 4 0] (load_metrics sample_serde ?cd sample_fs)"
    by (simp add: l)
  note run = metrics_refine_table [OF w this, THEN conjunct1]
  have "load_metrics sample_serde ?cd (metrics_step sample_serde ?cd (Use ''m'' 3 4 0) sample_fs)
      = add_usage ''m'' 3 4 0 Map.empty"
    using run by (simp only: fold_simps l table_step.simps)
  also have "... = [''m'' \<mapsto> \<lparr>mm_requests = 1, mm_input_tokens = 3, mm_output_tokens = 4,
                              mm_total_tokens = 7\<rparr>]"
    by (simp add: add_usage_def metrics_zero_def)
  finally show ?thesis .
qed

text \<open>
  Configuration: what \<open>save\<close> wrote successfully is what \<open>load\<close> returns, a failed \<open>save\<close> changes
  nothing, and without a home, a readable file or a valid content \<open>load\<close> is the default.
\<close>

theorem config_save_load:
  assumes "codec_reads sj cd c"
  shows "(case config_save cd c fs of
            (Inr _, fs') \<Rightarrow> config_load sj cd fs' = c
          | (Inl _, fs') \<Rightarrow> fs' = fs)
       \<and> (fs_home fs = None \<longrightarrow> config_load sj cd fs = config_default
            \<and> config_save cd c fs = (Inl NoHome, fs))"
proof -
  have "fs' = fs" if "config_save cd c fs = (Inl e, fs')" for e fs'
    using that write_file_err [of cd "''config.json''" c fs e fs'] by (simp add: config_save_def)
  moreover have "config_load sj cd fs' = c" if "config_save cd c fs = (Inr (), fs')" for fs'
    using that read_or_write(1) [OF _ assms] unfolding config_save_def config_load_def by blast
  ultimately show ?thesis
    by (auto simp: config_load_def config_save_def read_or_def write_file_def gravity_file_def
        gravity_dir_def split: sum.split prod.split)
qed

lemma config_save_load_witness:
  "config_load sample_serde (sample_codec config_default)
     (snd (config_save (sample_codec config_default) config_default sample_fs)) = config_default"
proof -
  have "str_ok ''{F}''" by code_simp
  then have r: "codec_reads sample_serde (sample_codec config_default) config_default"
    by (simp add: codec_reads_def sample_codec_def sample_serde_def)
  have "fst (config_save (sample_codec config_default) config_default sample_fs) = Inr ()"
    by code_simp
  then show ?thesis
    using config_save_load [OF r, of sample_fs] by (auto split: prod.splits sum.splits)
qed

end
