(* ===== verification/Sessions.thy ===== *)
theory Sessions
  imports Conversations Manager UserFiles
begin

text \<open>
  The conversation store of the orchestrator (\<open>record_turn\<close>, \<open>history\<close>, \<open>start_persistent\<close> and
  \<open>conversation\<close> of \<open>gravity-client/src/client.rs\<close>, with the conversation files under the gravity
  directory).

  The mutex around the table makes each operation atomic.  The host of \<open>AccountsIo\<close> provides the clock
  reading, the entropy and the files; the derived serializers of a runtime state are a codec.
\<close>

section \<open>State and operations\<close>

record 'e session_env =
  sn_serde :: serde
  sn_codec :: "runtime_state codec"
  sn_fill :: "nat \<Rightarrow> 'e \<Rightarrow> u8 list \<times> 'e"
  sn_from_millis :: "int \<Rightarrow> datetime option"
  sn_utc_now :: datetime

record 'e sessions =
  se_table :: "string \<rightharpoonup> runtime_state"
  se_host :: "'e host"

definition safe_char :: "char \<Rightarrow> char" where
  "safe_char c = (if c = CHR ''/'' \<or> c = CHR '':'' \<or> c = CHR 0x5C then CHR ''_'' else c)"

definition conversation_path :: "string \<Rightarrow> filesys \<Rightarrow> string option" where
  "conversation_path key fs =
     (case gravity_dir fs of
        Inl _ \<Rightarrow> None
      | Inr d \<Rightarrow> Some (path_join (path_join d ''history'') (map safe_char key @ ''.json'')))"

definition load_conversation :: "'e session_env \<Rightarrow> string \<Rightarrow> filesys \<Rightarrow> runtime_state option" where
  "load_conversation env key fs =
     (case conversation_path key fs of
        None \<Rightarrow> None
      | Some path \<Rightarrow>
          (case fs_read_to_string fs path of
             Inl _ \<Rightarrow> None
           | Inr raw \<Rightarrow> Option.bind (from_text (sn_serde env) raw) (cd_read (sn_codec env))))"

definition save_conversation ::
    "'e session_env \<Rightarrow> string \<Rightarrow> runtime_state \<Rightarrow> filesys \<Rightarrow> (io_error + unit) \<times> filesys" where
  "save_conversation env key state fs =
     (case conversation_path key fs of
        None \<Rightarrow> (Inr (), fs)
      | Some path \<Rightarrow>
          (case ensure_parent path fs of
             Inl e \<Rightarrow> (Inl e, fs)
           | Inr _ \<Rightarrow>
               (case fs_write path (cd_print (sn_codec env) state) fs of
                  Inl e \<Rightarrow> (Inl e, fs)
                | Inr fs' \<Rightarrow> (Inr (), fs'))))"

definition entry_or_new :: "string \<Rightarrow> 'e sessions \<Rightarrow> runtime_state" where
  "entry_or_new key st =
     (case se_table st key of Some s \<Rightarrow> s | None \<Rightarrow> runtime_new (conversation_new key))"

definition turn_of ::
    "'e session_env \<Rightarrow> message list \<Rightarrow> message \<Rightarrow> 'e host \<Rightarrow> canonical_turn \<times> 'e host" where
  "turn_of env request_messages response h =
     (let now = manager_now (sn_from_millis env) (sn_utc_now env) (ho_now h);
          (i, e) = sn_fill env 16 (ho_entropy h)
      in (\<lparr>ct_turn_id = hex_of i, ct_request = request_messages, ct_response = [response],
           ct_created_at = now, ct_metadata = metadata_new\<rparr>, h\<lparr>ho_entropy := e\<rparr>))"

definition record_turn ::
    "'e session_env \<Rightarrow> string \<Rightarrow> message list \<Rightarrow> message \<Rightarrow> 'e sessions \<Rightarrow> 'e sessions" where
  "record_turn env key request_messages response st =
     (let (turn, h) = turn_of env request_messages response (se_host st);
          s = entry_or_new key st;
          s' = s\<lparr>rt_canonical := append_turn turn (rt_canonical s)\<rparr>;
          h' = (if cv_persistent (rt_canonical s')
                then h\<lparr>ho_fs := snd (save_conversation env key s' (ho_fs h))\<rparr> else h)
      in \<lparr>se_table = (se_table st)(key \<mapsto> s'), se_host = h'\<rparr>)"

definition history :: "'e session_env \<Rightarrow> string \<Rightarrow> 'e sessions \<Rightarrow> message list" where
  "history env key st =
     (case se_table st key of
        Some s \<Rightarrow> iter_messages True (rt_canonical s)
      | None \<Rightarrow>
          (case load_conversation env key (ho_fs (se_host st)) of
             Some s \<Rightarrow> iter_messages True (rt_canonical s)
           | None \<Rightarrow> []))"

definition start_persistent ::
    "'e session_env \<Rightarrow> string \<Rightarrow> string option \<Rightarrow> 'e sessions \<Rightarrow> 'e sessions" where
  "start_persistent env key system_prompt st =
     (let s = (case se_table st key of
                 Some s \<Rightarrow> s
               | None \<Rightarrow>
                   (case load_conversation env key (ho_fs (se_host st)) of
                      Some s \<Rightarrow> s
                    | None \<Rightarrow> runtime_new ((conversation_new key)\<lparr>cv_persistent := True\<rparr>)));
          c = (rt_canonical s)\<lparr>cv_persistent := True\<rparr>;
          c' = (case system_prompt of None \<Rightarrow> c | Some _ \<Rightarrow> c\<lparr>cv_system_prompt := system_prompt\<rparr>)
      in st\<lparr>se_table := (se_table st)(key \<mapsto> s\<lparr>rt_canonical := c'\<rparr>)\<rparr>)"

definition conversation_entry :: "string \<Rightarrow> 'e sessions \<Rightarrow> conversation \<times> 'e sessions" where
  "conversation_entry key st =
     (let s = entry_or_new key st in (rt_canonical s, st\<lparr>se_table := (se_table st)(key \<mapsto> s)\<rparr>))"

section \<open>Histories\<close>

lemma rt_canonical_upd: "rt_canonical (s\<lparr>rt_canonical := c\<rparr>) = c"
  by simp

lemma record_turn_table:
  "\<exists>turn. turn_messages turn = ms @ [r]
     \<and> se_table (record_turn env k ms r st) =
         (se_table st)(k \<mapsto> (entry_or_new k st)\<lparr>rt_canonical := append_turn turn (rt_canonical (entry_or_new k st))\<rparr>)"
  by (intro exI [of _ "fst (turn_of env ms r (se_host st))"])
    (auto simp: record_turn_def turn_of_def turn_messages_def Let_def split: prod.splits)

text \<open>A recorded turn: its key, the messages of the request and the response.\<close>

type_synonym turn_record = "string \<times> message list \<times> message"

definition record_turns :: "'e session_env \<Rightarrow> turn_record list \<Rightarrow> 'e sessions \<Rightarrow> 'e sessions" where
  "record_turns env ts st = fold (\<lambda>(k, ms, r). record_turn env k ms r) ts st"

definition turns_of :: "string \<Rightarrow> turn_record list \<Rightarrow> message list" where
  "turns_of k ts = concat (map (\<lambda>(_, ms, r). ms @ [r]) (filter (\<lambda>t. fst t = k) ts))"

text \<open>The messages the table holds for a key; a key without an entry would get a fresh one.\<close>

definition table_messages :: "string \<Rightarrow> 'e sessions \<Rightarrow> message list" where
  "table_messages k st = iter_messages True (rt_canonical (entry_or_new k st))"

lemma entry_record_turn:
  "table_messages k (record_turn env k' ms r st) =
     table_messages k st @ (if k' = k then ms @ [r] else [])
   \<and> (se_table (record_turn env k' ms r st) k = None \<longleftrightarrow> se_table st k = None \<and> k' \<noteq> k)"
proof -
  obtain turn where "turn_messages turn = ms @ [r]"
    "se_table (record_turn env k' ms r st) =
       (se_table st)(k' \<mapsto> (entry_or_new k' st)\<lparr>rt_canonical := append_turn turn (rt_canonical (entry_or_new k' st))\<rparr>)"
    using record_turn_table [of ms r env k' st] by blast
  then show ?thesis
    by (auto simp: table_messages_def entry_or_new_def append_turn_simps)
qed

lemma record_turns_table:
  "table_messages k (record_turns env ts st) = table_messages k st @ turns_of k ts
   \<and> (se_table (record_turns env ts st) k = None \<longleftrightarrow> se_table st k = None \<and> k \<notin> fst ` set ts)"
proof (induction ts arbitrary: st)
  case Nil
  then show ?case by (simp add: record_turns_def turns_of_def)
next
  case (Cons t ts)
  obtain k' ms r where t: "t = (k', ms, r)" by (cases t)
  have "record_turns env (t # ts) st = record_turns env ts (record_turn env k' ms r st)"
    by (simp add: record_turns_def t)
  then show ?case
    using Cons [of "record_turn env k' ms r st"] entry_record_turn [of k env k' ms r st]
    by (auto simp: turns_of_def t)
qed

lemma history_table:
  "history env k st = (if se_table st k = None
     then (case load_conversation env k (ho_fs (se_host st)) of
             Some s \<Rightarrow> iter_messages True (rt_canonical s) | None \<Rightarrow> [])
     else table_messages k st)"
  by (auto simp: history_def table_messages_def entry_or_new_def split: option.split)

text \<open>
  C36.  Histories accumulate per key.  After any interleaving of recorded turns, the history of a key that
  is open or has a turn is what the table held for it before (nothing, for a key that was not open),
  followed by its own requests and responses in order; turns of other keys do not show.
\<close>

theorem history_accumulates:
  "if se_table st k = None \<and> k \<notin> fst ` set ts
   then se_table (record_turns env ts st) k = None
   else history env k (record_turns env ts st) =
          (case se_table st k of None \<Rightarrow> [] | Some s \<Rightarrow> iter_messages True (rt_canonical s)) @ turns_of k ts"
proof (cases "se_table st k")
  case None
  then have "table_messages k st = []"
    by (simp add: table_messages_def entry_or_new_def runtime_new_def conversation_new_def iter_messages_def)
  then show ?thesis
    using record_turns_table [of k env ts st] None by (simp add: history_table)
next
  case (Some s)
  then have "table_messages k st = iter_messages True (rt_canonical s)"
    by (simp add: table_messages_def entry_or_new_def)
  then show ?thesis
    using record_turns_table [of k env ts st] Some by (auto simp: history_table)
qed

section \<open>Files\<close>

text \<open>A state whose file can be written and reads back.\<close>

definition storable :: "'e session_env \<Rightarrow> string \<Rightarrow> runtime_state \<Rightarrow> filesys \<Rightarrow> bool" where
  "storable env k s fs \<longleftrightarrow>
     (case conversation_path k fs of
        None \<Rightarrow> False
      | Some p \<Rightarrow> ensure_parent p fs = Inr () \<and> \<not> fs_denied fs p
                 \<and> codec_reads (sn_serde env) (sn_codec env) s)"

lemma conversation_path_home:
  "fs_home fs' = fs_home fs \<Longrightarrow> conversation_path k fs' = conversation_path k fs"
  by (simp add: conversation_path_def gravity_dir_def)

lemma conversation_path_eq:
  "conversation_path k fs = Some p \<Longrightarrow>
   conversation_path j fs = Some p \<longleftrightarrow> map safe_char j = map safe_char k"
  by (auto simp: conversation_path_def split: sum.splits)

lemma load_save_conversation:
  assumes "storable env k s fs"
  shows "load_conversation env j (snd (save_conversation env k s fs)) =
     (if map safe_char j = map safe_char k then Some s else load_conversation env j fs)"
proof -
  obtain p where p: "conversation_path k fs = Some p" and e: "ensure_parent p fs = Inr ()"
    and d: "\<not> fs_denied fs p" and c: "codec_reads (sn_serde env) (sn_codec env) s"
    using assms by (auto simp: storable_def split: option.splits)
  obtain fs' where w: "fs_write p (cd_print (sn_codec env) s) fs = Inr fs'"
    using d by (simp add: fs_write_def)
  have s: "snd (save_conversation env k s fs) = fs'"
    by (simp add: save_conversation_def p e w)
  have path: "conversation_path j fs' = conversation_path j fs" for j
    by (rule conversation_path_home [OF fs_write_home [OF w]])
  show ?thesis
  proof (cases "map safe_char j = map safe_char k")
    case True
    then have "conversation_path j fs' = Some p" using path conversation_path_eq [OF p] by simp
    moreover have "fs_read_to_string fs' p = Inr (cd_print (sn_codec env) s)"
      using fs_read_to_string_write [OF w] c by (simp add: codec_reads_def)
    ultimately show ?thesis using s True c by (auto simp: load_conversation_def codec_reads_def)
  next
    case False
    then have "conversation_path j fs \<noteq> Some p" using conversation_path_eq [OF p] by blast
    then have "q \<noteq> p \<Longrightarrow> fs_read_to_string fs' q = fs_read_to_string fs q" for q
      using fs_read_write [OF w, of q] by (simp add: fs_read_to_string_def)
    then show ?thesis
      using s False path \<open>conversation_path j fs \<noteq> Some p\<close>
      by (auto simp: load_conversation_def split: option.split)
  qed
qed

definition reopened :: "'e sessions \<Rightarrow> 'e sessions" where
  "reopened st = st\<lparr>se_table := Map.empty\<rparr>"

lemma record_turn_files:
  assumes "se_table st k = Some s" and "cv_persistent (rt_canonical s)"
  shows "\<exists>s'. se_table (record_turn env k ms r st) k = Some s'
     \<and> ho_fs (se_host (record_turn env k ms r st)) =
         snd (save_conversation env k s' (ho_fs (se_host st)))"
  using assms
  by (auto simp: record_turn_def turn_of_def entry_or_new_def Let_def append_turn_simps split: prod.splits)

text \<open>
  A persistent conversation survives a restart.  After a turn of an open persistent conversation
  whose file can be written, a new client on the same machine has the same history for it, opening it
  as persistent again continues from there, and every key with another file name has the file it had.
\<close>

theorem persistent_survives_restart:
  assumes "se_table st k = Some s" and "cv_persistent (rt_canonical s)"
    and "st' = record_turn env k ms r st"
    and "storable env k (the (se_table st' k)) (ho_fs (se_host st))"
  shows "history env k (reopened st') = history env k st'
       \<and> history env k (start_persistent env k None (reopened st')) = history env k st'
       \<and> (map safe_char j = map safe_char k
          \<or> load_conversation env j (ho_fs (se_host st')) = load_conversation env j (ho_fs (se_host st)))"
proof -
  obtain s' where s': "se_table st' k = Some s'"
    and f: "ho_fs (se_host st') = snd (save_conversation env k s' (ho_fs (se_host st)))"
    using record_turn_files [OF assms(1,2), of env ms r] assms(3) by blast
  have l: "load_conversation env j (ho_fs (se_host st')) =
      (if map safe_char j = map safe_char k then Some s' else load_conversation env j (ho_fs (se_host st)))" for j
    unfolding f by (rule load_save_conversation) (use assms(4) s' in simp)
  have "history env k (reopened st') = history env k st'"
    using s' l [of k] by (simp add: history_def reopened_def)
  moreover have "history env k (start_persistent env k None (reopened st')) = history env k st'"
    using s' l [of k]
    by (simp add: history_def start_persistent_def reopened_def Let_def iter_messages_def)
  ultimately show ?thesis using l [of j] by auto
qed

text \<open>A small instance: one open persistent conversation, and the turn that is recorded in it.\<close>

definition sample_conversation :: conversation where
  "sample_conversation = (conversation_new ''k'')\<lparr>cv_persistent := True\<rparr>"

definition recorded_turn :: canonical_turn where
  "recorded_turn =
     \<lparr>ct_turn_id = hex_of (replicate 16 0), ct_request = [message_user ''q''],
      ct_response = [message_assistant ''a''], ct_created_at = 1000, ct_metadata = metadata_new\<rparr>"

definition sample_sessions :: "u64 sessions" where
  "sample_sessions = \<lparr>se_table = [''k'' \<mapsto> runtime_new sample_conversation], se_host = sample_host\<rparr>"

definition sample_env :: "u64 session_env" where
  "sample_env =
     \<lparr>sn_serde = sample_serde,
      sn_codec = sample_codec (runtime_new (append_turn recorded_turn sample_conversation)),
      sn_fill = \<lambda>n e. (replicate n 0, e), sn_from_millis = Some, sn_utc_now = 0\<rparr>"

lemma sample_recorded:
  "se_table (record_turn sample_env ''k'' [message_user ''q''] (message_assistant ''a'') sample_sessions) =
     [''k'' \<mapsto> runtime_new (append_turn recorded_turn sample_conversation)]"
proof -
  have "turn_of sample_env [message_user ''q''] (message_assistant ''a'') sample_host = (recorded_turn, sample_host)"
    by (simp add: turn_of_def sample_env_def recorded_turn_def sample_host_def manager_now_def Let_def)
  then show ?thesis
    by (simp add: record_turn_def sample_sessions_def entry_or_new_def runtime_new_def Let_def)
qed

lemma persistent_survives_restart_witness:
  "history sample_env ''k''
     (reopened (record_turn sample_env ''k'' [message_user ''q''] (message_assistant ''a'') sample_sessions)) =
   [message_user ''q'', message_assistant ''a'']"
proof -
  let ?st' = "record_turn sample_env ''k'' [message_user ''q''] (message_assistant ''a'') sample_sessions"
  have k: "se_table sample_sessions ''k'' = Some (runtime_new sample_conversation)"
    by (simp add: sample_sessions_def)
  have p: "cv_persistent (rt_canonical (runtime_new sample_conversation))"
    by (simp add: runtime_new_def sample_conversation_def)
  have path: "conversation_path ''k'' sample_fs = Some ''/h/.gravity/history/k.json''" by code_simp
  have "ensure_parent ''/h/.gravity/history/k.json'' sample_fs = Inr ()" by code_simp
  moreover have "str_ok ''{F}''" by code_simp
  ultimately have s: "storable sample_env ''k'' (the (se_table ?st' ''k'')) (ho_fs (se_host sample_sessions))"
    unfolding sample_recorded
    using path
    by (simp add: storable_def sample_sessions_def sample_host_def codec_reads_def sample_env_def
        sample_codec_def sample_serde_def) (simp add: sample_fs_def)
  have "history sample_env ''k'' (reopened ?st') = history sample_env ''k'' ?st'"
    using persistent_survives_restart [OF k p refl s, of "''k''"] by blast
  moreover have "history sample_env ''k'' ?st' = [message_user ''q'', message_assistant ''a'']"
    by (simp add: history_def sample_recorded runtime_new_def append_turn_simps turn_messages_def
        recorded_turn_def) (simp add: sample_conversation_def conversation_new_def iter_messages_def)
  ultimately show ?thesis by simp
qed

text \<open>
  Two keys that differ only in a slash, a colon or a backslash have one file: after both were saved, the
  first reads back the conversation of the second.
\<close>

lemma conversation_keys_collide:
  assumes "map safe_char j = map safe_char k" and "storable env k s fs"
  shows "load_conversation env j (snd (save_conversation env k s fs)) = Some s"
  using load_save_conversation [OF assms(2), of j] assms(1) by simp

lemma colliding_keys: "map safe_char ''a/b'' = map safe_char ''a:b'' \<and> map safe_char ''a/b'' = map safe_char ''a_b''"
  by (simp add: safe_char_def)

text \<open>
  A key that was not opened starts from an empty conversation: the turns its file holds disappear from
  its history with the first recorded turn.
\<close>

lemma record_turn_shadows_file:
  assumes "se_table st k = None" and "load_conversation env k (ho_fs (se_host st)) = Some s"
  shows "history env k st = iter_messages True (rt_canonical s)"
    and "history env k (record_turn env k ms r st) = ms @ [r]"
proof -
  show "history env k st = iter_messages True (rt_canonical s)"
    using assms by (simp add: history_def)
  have "table_messages k st = []"
    using assms(1)
    by (simp add: table_messages_def entry_or_new_def runtime_new_def conversation_new_def iter_messages_def)
  then show "history env k (record_turn env k ms r st) = ms @ [r]"
    using entry_record_turn [of k env k ms r st] by (auto simp: history_table)
qed

end
