(* ===== verification/Stored.thy ===== *)
theory Stored
  imports Schema Sessions "HOL-Library.List_Lexorder" "HOL-Library.Char_ord"
begin

text \<open>
  The derived serializers of the files: the accounts (\<open>gravity-core/src/accounts.rs\<close>), the configuration
  (\<open>gravity-accounts/src/config.rs\<close>), the metrics (\<open>metrics.rs\<close>) and the conversations, as codecs, and what the
  operations on the files guarantee with them.

  A \<open>BTreeMap\<close> is written in the order of its keys.  \<open>from_value\<close> (the accounts) lends no strings, \<open>from_str\<close> (the
  other files) lends those without an escape, which base64 has none of.
\<close>

section \<open>Forms\<close>

definition tree_json :: "('a \<Rightarrow> json) \<Rightarrow> (string \<rightharpoonup> 'a) \<Rightarrow> jmap" where
  "tree_json put m = map (\<lambda>k. (k, put (the (m k)))) (sorted_list_of_set (dom m))"

definition tree_of :: "(json \<Rightarrow> 'a option) \<Rightarrow> json \<Rightarrow> (string \<rightharpoonup> 'a) option" where
  "tree_of get j =
     Option.bind (as_object j)
       (\<lambda>m. map_option map_of (those (map (\<lambda>e. map_option (Pair (fst e)) (get (snd e))) m)))"

context wire_form
begin

lemma get_tree:
  assumes "finite (dom m)" and "\<forall>x\<in>ran m. good x"
  shows "tree_of get (JObject (tree_json put m)) = Some m"
proof -
  let ?ks = "sorted_list_of_set (dom m)"
  have g: "get (put (the (m k))) = Some (the (m k))" if "k \<in> set ?ks" for k
    using that assms by (auto intro!: get_put ranI)
  have "those (map (\<lambda>e. map_option (Pair (fst e)) (get (snd e))) (tree_json put m)) =
      Some (map (\<lambda>k. (k, the (m k))) ?ks)"
    unfolding tree_json_def by (rule those_map_inverse) (simp add: g)
  moreover have "map_of (map (\<lambda>k. (k, the (m k))) ?ks) = m"
    using assms(1) by (auto simp: fun_eq_iff map_of_map_restrict restrict_map_def domIff)
  ultimately show ?thesis by (simp add: tree_of_def)
qed

end

definition json_i32 :: "int \<Rightarrow> json" where
  "json_i32 n = JNumber (if n < 0 then NegInt (word_of_int n) else PosInt (word_of_int n))"

fun de_i32 :: "json \<Rightarrow> int option" where
  "de_i32 (JNumber (PosInt n)) = (if uint n < 2 ^ 31 then Some (uint n) else None)"
| "de_i32 (JNumber (NegInt n)) = (if - (2 ^ 31) \<le> sint n then Some (sint n) else None)"
| "de_i32 _ = None"

definition i32_range :: "int \<Rightarrow> bool" where
  "i32_range n \<longleftrightarrow> - (2 ^ 31) \<le> n \<and> n < 2 ^ 31"

interpretation i32_form: wire_form json_i32 de_i32 i32_range
proof
  fix n
  assume n: "i32_range n"
  have "sint (word_of_int n :: u64) = n" if "n < 0"
    using n that by (simp add: signed_of_int i32_range_def signed_take_bit_int_eq_self)
  moreover have "uint (word_of_int n :: u64) = n" if "\<not> n < 0"
    using n that by (simp add: uint_word_of_int i32_range_def)
  ultimately show "de_i32 (json_i32 n) = Some n" using n by (simp add: json_i32_def i32_range_def)
qed (simp add: json_i32_def)

definition tool_supports :: "tool_support_mode list" where
  "tool_supports = [ToolNative, ToolJsonEmulated, ToolNone]"

fun support_word :: "tool_support_mode \<Rightarrow> string" where
  "support_word ToolNative = ''native''"
| "support_word ToolJsonEmulated = ''json_emulated''"
| "support_word ToolNone = ''none''"

interpretation support_names: wire_names tool_supports support_word
  by unfold_locales (auto simp: tool_supports_def intro: tool_support_mode.exhaust)

definition structured_outputs :: "structured_output_mode list" where
  "structured_outputs = [OutNative, OutJsonInstruction, OutNone]"

fun output_word :: "structured_output_mode \<Rightarrow> string" where
  "output_word OutNative = ''native''"
| "output_word OutJsonInstruction = ''json_instruction''"
| "output_word OutNone = ''none''"

interpretation output_names: wire_names structured_outputs output_word
  by unfold_locales (auto simp: structured_outputs_def intro: structured_output_mode.exhaust)

definition session_modes :: "remote_session_mode list" where
  "session_modes = [SessNone, SessRequired, SessOptional]"

fun session_word :: "remote_session_mode \<Rightarrow> string" where
  "session_word SessNone = ''none''"
| "session_word SessRequired = ''required''"
| "session_word SessOptional = ''optional''"

interpretation session_names: wire_names session_modes session_word
  by unfold_locales (auto simp: session_modes_def intro: remote_session_mode.exhaust)

section \<open>Accounts\<close>

definition quota_window_json :: "schema_lib \<Rightarrow> quota_window \<Rightarrow> json" where
  "quota_window_json sl q =
     JObject (opt_field ''limit'' json_u64 (qw_limit q) @ opt_field ''remaining'' json_u64 (qw_remaining q)
              @ opt_field ''reset_at'' (date_json sl) (qw_reset_at q))"

definition quota_window_of :: "schema_lib \<Rightarrow> json \<Rightarrow> quota_window option" where
  "quota_window_of sl v =
     do { get \<leftarrow> struct_fields [''limit'', ''remaining'', ''reset_at''] v;
          l \<leftarrow> de_default None (de_option as_u64) (get ''limit'');
          r \<leftarrow> de_default None (de_option as_u64) (get ''remaining'');
          t \<leftarrow> de_default None (de_option (date_of sl)) (get ''reset_at'');
          Some \<lparr>qw_limit = l, qw_remaining = r, qw_reset_at = t\<rparr> }"

lemma opt_u64_read: "de_default None (de_option as_u64) (map_option json_u64 x) = Some x"
  by (rule u64_form.get_opt) (cases x; simp)

lemma opt_date_read:
  "schema_lib_ok sl \<Longrightarrow> de_default None (de_option (date_of sl)) (map_option (date_json sl) x) = Some x"
  by (rule date_form.get_opt) (cases x; simp)

interpretation quota_window_form: wire_form "quota_window_json sl" "quota_window_of sl" "\<lambda>_. schema_lib_ok sl" for sl
  by unfold_locales
    (simp_all add: quota_window_json_def quota_window_of_def written_fields opt_u64_read opt_date_read)

definition quota_json :: "schema_lib \<Rightarrow> quota_state \<Rightarrow> json" where
  "quota_json sl q =
     JObject (opt_field ''requests'' (quota_window_json sl) (qs_requests q)
              @ opt_field ''tokens'' (quota_window_json sl) (qs_tokens q)
              @ opt_field ''concurrency_limit'' json_u32 (qs_concurrency_limit q)
              @ opt_field ''cooldown_until'' (date_json sl) (qs_cooldown_until q)
              @ opt_field ''last_rate_limit_at'' (date_json sl) (qs_last_rate_limit_at q))"

definition quota_of :: "schema_lib \<Rightarrow> json \<Rightarrow> quota_state option" where
  "quota_of sl v =
     do { get \<leftarrow> struct_fields [''requests'', ''tokens'', ''concurrency_limit'', ''cooldown_until'',
                                   ''last_rate_limit_at''] v;
          r \<leftarrow> de_default None (de_option (quota_window_of sl)) (get ''requests'');
          t \<leftarrow> de_default None (de_option (quota_window_of sl)) (get ''tokens'');
          c \<leftarrow> de_default None (de_option de_u32) (get ''concurrency_limit'');
          cd \<leftarrow> de_default None (de_option (date_of sl)) (get ''cooldown_until'');
          l \<leftarrow> de_default None (de_option (date_of sl)) (get ''last_rate_limit_at'');
          Some \<lparr>qs_requests = r, qs_tokens = t, qs_concurrency_limit = c, qs_cooldown_until = cd,
                qs_last_rate_limit_at = l\<rparr> }"

lemma opt_window_read:
  "schema_lib_ok sl \<Longrightarrow>
   de_default None (de_option (quota_window_of sl)) (map_option (quota_window_json sl) x) = Some x"
  by (rule quota_window_form.get_opt) (cases x; simp)

interpretation quota_form: wire_form "quota_json sl" "quota_of sl" "\<lambda>_. schema_lib_ok sl" for sl
  by unfold_locales
    (simp_all add: quota_json_def quota_of_def written_fields opt_u32_read opt_date_read opt_window_read)

definition rotation_json :: "schema_lib \<Rightarrow> rotation_state \<Rightarrow> json" where
  "rotation_json sl r =
     JObject ([(''state'', JString (rs_state r)), (''consecutive_failures'', json_u32 (rs_consecutive_failures r))]
              @ opt_field ''last_error_code'' JString (rs_last_error_code r)
              @ opt_field ''last_error_at'' (date_json sl) (rs_last_error_at r)
              @ opt_field ''last_ok_at'' (date_json sl) (rs_last_ok_at r)
              @ opt_field ''cooldown_until'' (date_json sl) (rs_cooldown_until r))"

definition rotation_of :: "schema_lib \<Rightarrow> json \<Rightarrow> rotation_state option" where
  "rotation_of sl v =
     do { get \<leftarrow> struct_fields [''state'', ''consecutive_failures'', ''last_error_code'', ''last_error_at'', ''last_ok_at'',
                                   ''cooldown_until''] v;
          s \<leftarrow> de_default ''healthy'' as_str (get ''state'');
          n \<leftarrow> de_default 0 de_u32 (get ''consecutive_failures'');
          c \<leftarrow> de_default None (de_option as_str) (get ''last_error_code'');
          e \<leftarrow> de_default None (de_option (date_of sl)) (get ''last_error_at'');
          k \<leftarrow> de_default None (de_option (date_of sl)) (get ''last_ok_at'');
          cd \<leftarrow> de_default None (de_option (date_of sl)) (get ''cooldown_until'');
          Some \<lparr>rs_state = s, rs_consecutive_failures = n, rs_last_error_code = c, rs_last_error_at = e,
                rs_last_ok_at = k, rs_cooldown_until = cd\<rparr> }"

interpretation rotation_form: wire_form "rotation_json sl" "rotation_of sl" "\<lambda>_. schema_lib_ok sl" for sl
  by unfold_locales
    (simp_all add: rotation_json_def rotation_of_def written_fields default_some opt_str_read opt_date_read)

definition headers_field :: "(string \<rightharpoonup> string) \<Rightarrow> jmap" where
  "headers_field m = (if dom m = {} then [] else [(''extra_headers'', JObject (tree_json JString m))])"

definition transport_json :: "transport_config \<Rightarrow> json" where
  "transport_json t =
     JObject ([(''base_url'', JString (tp_base_url t)), (''timeout_ms'', json_u32 (tp_timeout_ms t))]
              @ opt_field ''impersonate'' JString (tp_impersonate t)
              @ opt_field ''proxy_url'' JString (tp_proxy_url t)
              @ [(''verify_ssl'', JBool (tp_verify_ssl t))]
              @ headers_field (tp_extra_headers t))"

definition transport_of :: "json \<Rightarrow> transport_config option" where
  "transport_of v =
     do { get \<leftarrow> struct_fields [''base_url'', ''timeout_ms'', ''impersonate'', ''proxy_url'', ''verify_ssl'',
                                   ''extra_headers''] v;
          u \<leftarrow> Option.bind (get ''base_url'') as_str;
          t \<leftarrow> de_default 60000 de_u32 (get ''timeout_ms'');
          i \<leftarrow> de_default None (de_option as_str) (get ''impersonate'');
          p \<leftarrow> de_default None (de_option as_str) (get ''proxy_url'');
          b \<leftarrow> de_default True as_bool (get ''verify_ssl'');
          hs \<leftarrow> de_default Map.empty (tree_of as_str) (get ''extra_headers'');
          Some \<lparr>tp_base_url = u, tp_timeout_ms = t, tp_impersonate = i, tp_proxy_url = p, tp_verify_ssl = b,
                tp_extra_headers = hs\<rparr> }"

definition transport_good :: "transport_config \<Rightarrow> bool" where
  "transport_good t \<longleftrightarrow> finite (dom (tp_extra_headers t))"

lemma headers_read:
  "finite (dom m) \<Longrightarrow>
   de_default Map.empty (tree_of as_str) (map_of (headers_field m) ''extra_headers'') = Some m"
  using string_form.get_tree [of m] by (auto simp: headers_field_def de_default_def)

lemma headers_field_other: "k \<noteq> ''extra_headers'' \<Longrightarrow> map_of (headers_field m) k = None"
  by (simp add: headers_field_def)

interpretation transport_form: wire_form transport_json transport_of transport_good
  by unfold_locales
    (simp_all add: transport_json_def transport_of_def transport_good_def written_fields default_some opt_str_read
      headers_read headers_field_other)

definition auth_json :: "auth_config \<Rightarrow> json" where
  "auth_json a =
     JObject ([(''kind'', JString (au_kind a)), (''secret_ref'', JString (au_secret_ref a))]
              @ opt_field ''account_label'' JString (au_account_label a)
              @ opt_field ''org_id'' JString (au_org_id a)
              @ opt_field ''device_id'' JString (au_device_id a)
              @ opt_field ''routing_hint'' JString (au_routing_hint a)
              @ opt_field ''chatgpt_account_id'' JString (au_chatgpt_account_id a)
              @ opt_field ''refresh_secret_ref'' JString (au_refresh_secret_ref a)
              @ metadata_field ''extra'' (au_extra a))"

definition auth_of :: "json \<Rightarrow> auth_config option" where
  "auth_of v =
     do { get \<leftarrow> struct_fields [''kind'', ''secret_ref'', ''account_label'', ''org_id'', ''device_id'', ''routing_hint'',
                                   ''chatgpt_account_id'', ''refresh_secret_ref'', ''extra''] v;
          k \<leftarrow> Option.bind (get ''kind'') as_str;
          r \<leftarrow> Option.bind (get ''secret_ref'') as_str;
          l \<leftarrow> de_default None (de_option as_str) (get ''account_label'');
          g \<leftarrow> de_default None (de_option as_str) (get ''org_id'');
          d \<leftarrow> de_default None (de_option as_str) (get ''device_id'');
          h \<leftarrow> de_default None (de_option as_str) (get ''routing_hint'');
          c \<leftarrow> de_default None (de_option as_str) (get ''chatgpt_account_id'');
          f \<leftarrow> de_default None (de_option as_str) (get ''refresh_secret_ref'');
          x \<leftarrow> metadata_of (get ''extra'');
          Some \<lparr>au_kind = k, au_secret_ref = r, au_account_label = l, au_org_id = g, au_device_id = d,
                au_routing_hint = h, au_chatgpt_account_id = c, au_refresh_secret_ref = f, au_extra = x\<rparr> }"

interpretation auth_form: wire_form auth_json auth_of "\<lambda>a. metadata_good (au_extra a)"
  by unfold_locales (simp_all add: auth_json_def auth_of_def written_fields opt_str_read)

definition defaults_json :: "provider_defaults \<Rightarrow> json" where
  "defaults_json d =
     JObject [(''tool_support'', JString (support_word (df_tool_support d))),
              (''structured_output'', JString (output_word (df_structured_output d))),
              (''remote_session_mode'', JString (session_word (df_remote_session_mode d))),
              (''supports_system_prompt'', JBool (df_supports_system_prompt d)),
              (''default_history_mode'', JString (history_str (df_default_history_mode d)))]"

definition defaults_of :: "json \<Rightarrow> provider_defaults option" where
  "defaults_of v =
     do { get \<leftarrow> struct_fields [''tool_support'', ''structured_output'', ''remote_session_mode'',
                                   ''supports_system_prompt'', ''default_history_mode''] v;
          t \<leftarrow> Option.bind (get ''tool_support'') (de_enum tool_supports support_word);
          so \<leftarrow> Option.bind (get ''structured_output'') (de_enum structured_outputs output_word);
          r \<leftarrow> Option.bind (get ''remote_session_mode'') (de_enum session_modes session_word);
          sp \<leftarrow> Option.bind (get ''supports_system_prompt'') as_bool;
          h \<leftarrow> de_default HistAuto (de_enum history_modes history_str) (get ''default_history_mode'');
          Some \<lparr>df_tool_support = t, df_structured_output = so, df_remote_session_mode = r,
                df_supports_system_prompt = sp, df_default_history_mode = h\<rparr> }"

interpretation defaults_form: wire_form defaults_json defaults_of "\<lambda>_. True"
  by unfold_locales
    (simp_all add: defaults_json_def defaults_of_def struct_fields_def default_some support_names.form.get_put
      output_names.form.get_put session_names.form.get_put history_names.form.get_put)

definition account_json :: "schema_lib \<Rightarrow> provider_account \<Rightarrow> json" where
  "account_json sl a =
     JObject ([(''account_id'', JString (pa_account_id a)),
               (''provider'', JString (provider_as_str (pa_provider a))),
               (''enabled'', JBool (pa_enabled a)), (''pool'', JString (pa_pool a)),
               (''priority'', json_i32 (pa_priority a)), (''weight'', json_u32 (pa_weight a)),
               (''auth'', auth_json (pa_auth a)), (''transport'', transport_json (pa_transport a)),
               (''rotation_state'', rotation_json sl (pa_rotation_state a)), (''quota'', quota_json sl (pa_quota a)),
               (''defaults'', defaults_json (pa_defaults a))]
              @ metadata_field ''metadata'' (pa_metadata a))"

definition account_of :: "schema_lib \<Rightarrow> json \<Rightarrow> provider_account option" where
  "account_of sl v =
     do { get \<leftarrow> struct_fields [''account_id'', ''provider'', ''enabled'', ''pool'', ''priority'', ''weight'', ''auth'',
                                   ''transport'', ''rotation_state'', ''quota'', ''defaults'', ''metadata''] v;
          i \<leftarrow> Option.bind (get ''account_id'') as_str;
          p \<leftarrow> Option.bind (get ''provider'') (de_enum provider_all provider_as_str);
          e \<leftarrow> de_default True as_bool (get ''enabled'');
          pl \<leftarrow> de_default ''default'' as_str (get ''pool'');
          pr \<leftarrow> de_default 100 de_i32 (get ''priority'');
          w \<leftarrow> de_default 1 de_u32 (get ''weight'');
          au \<leftarrow> Option.bind (get ''auth'') auth_of;
          t \<leftarrow> Option.bind (get ''transport'') transport_of;
          r \<leftarrow> de_default rotation_state_default (rotation_of sl) (get ''rotation_state'');
          q \<leftarrow> de_default quota_state_default (quota_of sl) (get ''quota'');
          d \<leftarrow> Option.bind (get ''defaults'') defaults_of;
          md \<leftarrow> metadata_of (get ''metadata'');
          Some \<lparr>pa_account_id = i, pa_provider = p, pa_enabled = e, pa_pool = pl, pa_priority = pr, pa_weight = w,
                pa_auth = au, pa_transport = t, pa_rotation_state = r, pa_quota = q, pa_defaults = d,
                pa_metadata = md\<rparr> }"

definition account_good :: "provider_account \<Rightarrow> bool" where
  "account_good a \<longleftrightarrow>
     i32_range (pa_priority a) \<and> transport_good (pa_transport a) \<and> metadata_good (au_extra (pa_auth a))
   \<and> metadata_good (pa_metadata a)"

interpretation account_form: wire_form "account_json sl" "account_of sl"
    "\<lambda>a. schema_lib_ok sl \<and> account_good a" for sl
  by unfold_locales
    (simp_all add: account_json_def account_of_def account_good_def written_fields default_some
      provider_names.form.get_put i32_form.get_put auth_form.get_put transport_form.get_put rotation_form.get_put
      quota_form.get_put defaults_form.get_put)

definition route_candidate_json :: "model_route_candidate \<Rightarrow> json" where
  "route_candidate_json c =
     JObject [(''provider'', JString (provider_as_str (rc_provider c))), (''pool'', JString (rc_pool c)),
              (''weight'', json_u32 (rc_weight c))]"

definition route_candidate_of :: "json \<Rightarrow> model_route_candidate option" where
  "route_candidate_of v =
     do { get \<leftarrow> struct_fields [''provider'', ''pool'', ''weight''] v;
          p \<leftarrow> Option.bind (get ''provider'') (de_enum provider_all provider_as_str);
          pl \<leftarrow> de_default ''default'' as_str (get ''pool'');
          w \<leftarrow> de_default 1 de_u32 (get ''weight'');
          Some \<lparr>rc_provider = p, rc_pool = pl, rc_weight = w\<rparr> }"

interpretation route_candidate_form: wire_form route_candidate_json route_candidate_of "\<lambda>_. True"
  by unfold_locales
    (simp_all add: route_candidate_json_def route_candidate_of_def struct_fields_def default_some
      provider_names.form.get_put)

definition route_json :: "model_route \<Rightarrow> json" where
  "route_json r =
     JObject [(''selector'', JString (mr_selector r)),
              (''candidates'', JArray (map route_candidate_json (mr_candidates r)))]"

definition route_of :: "json \<Rightarrow> model_route option" where
  "route_of v =
     do { get \<leftarrow> struct_fields [''selector'', ''candidates''] v;
          s \<leftarrow> Option.bind (get ''selector'') as_str;
          cs \<leftarrow> Option.bind (get ''candidates'') (de_list route_candidate_of);
          Some \<lparr>mr_selector = s, mr_candidates = cs\<rparr> }"

lemma candidates_read: "de_list route_candidate_of (JArray (map route_candidate_json cs)) = Some cs"
  by (rule route_candidate_form.get_list) (simp add: list_all_iff)

interpretation route_form: wire_form route_json route_of "\<lambda>_. True"
  by unfold_locales (simp_all add: route_json_def route_of_def struct_fields_def candidates_read)

definition bundle_json :: "schema_lib \<Rightarrow> email_bundle \<Rightarrow> json" where
  "bundle_json sl b =
     JObject ([(''email'', JString (eb_email b)), (''enabled'', JBool (eb_enabled b))]
              @ opt_field ''display_name'' JString (eb_display_name b)
              @ [(''providers'', JArray (map (account_json sl) (eb_providers b))),
                 (''model_routes'', JArray (map route_json (eb_model_routes b)))]
              @ metadata_field ''metadata'' (eb_metadata b))"

definition bundle_of :: "schema_lib \<Rightarrow> json \<Rightarrow> email_bundle option" where
  "bundle_of sl v =
     do { get \<leftarrow> struct_fields [''email'', ''enabled'', ''display_name'', ''providers'', ''model_routes'', ''metadata''] v;
          m \<leftarrow> Option.bind (get ''email'') as_str;
          e \<leftarrow> de_default True as_bool (get ''enabled'');
          d \<leftarrow> de_default None (de_option as_str) (get ''display_name'');
          ps \<leftarrow> de_default [] (de_list (account_of sl)) (get ''providers'');
          rs \<leftarrow> de_default [] (de_list route_of) (get ''model_routes'');
          md \<leftarrow> metadata_of (get ''metadata'');
          Some \<lparr>eb_email = m, eb_enabled = e, eb_display_name = d, eb_providers = ps, eb_model_routes = rs,
                eb_metadata = md\<rparr> }"

definition bundle_good :: "email_bundle \<Rightarrow> bool" where
  "bundle_good b \<longleftrightarrow> list_all account_good (eb_providers b) \<and> metadata_good (eb_metadata b)"

lemma accounts_read:
  "schema_lib_ok sl \<Longrightarrow> list_all account_good as \<Longrightarrow>
   de_list (account_of sl) (JArray (map (account_json sl) as)) = Some as"
  by (rule account_form.get_list) (simp add: list_all_and_const)

lemma routes_read: "de_list route_of (JArray (map route_json rs)) = Some rs"
  by (rule route_form.get_list) (simp add: list_all_iff)

interpretation bundle_form: wire_form "bundle_json sl" "bundle_of sl" "\<lambda>b. schema_lib_ok sl \<and> bundle_good b" for sl
  by unfold_locales
    (simp_all add: bundle_json_def bundle_of_def bundle_good_def written_fields default_some opt_str_read
      accounts_read routes_read)

definition secret_record_json :: "schema_lib \<Rightarrow> secret_record \<Rightarrow> json" where
  "secret_record_json sl r =
     JObject ([(''secret_ref'', JString (sr_secret_ref r)), (''ciphertext'', JString (sr_ciphertext r))]
              @ opt_field ''updated_at'' (date_json sl) (sr_updated_at r))"

definition secret_record_of :: "schema_lib \<Rightarrow> json \<Rightarrow> secret_record option" where
  "secret_record_of sl v =
     do { get \<leftarrow> struct_fields [''secret_ref'', ''ciphertext'', ''updated_at''] v;
          r \<leftarrow> Option.bind (get ''secret_ref'') as_str;
          c \<leftarrow> Option.bind (get ''ciphertext'') as_str;
          t \<leftarrow> de_default None (de_option (date_of sl)) (get ''updated_at'');
          Some \<lparr>sr_secret_ref = r, sr_ciphertext = c, sr_updated_at = t\<rparr> }"

interpretation secret_form: wire_form "secret_record_json sl" "secret_record_of sl" "\<lambda>_. schema_lib_ok sl" for sl
  by unfold_locales (simp_all add: secret_record_json_def secret_record_of_def written_fields opt_date_read)

definition security_json :: "security_config \<Rightarrow> json" where
  "security_json s =
     JObject ([(''secrets_encrypted'', JBool (sc_secrets_encrypted s)), (''encryption'', JString (sc_encryption s))]
              @ opt_field ''age_recipient'' JString (sc_age_recipient s))"

definition security_of :: "json \<Rightarrow> security_config option" where
  "security_of v =
     do { get \<leftarrow> struct_fields [''secrets_encrypted'', ''encryption'', ''age_recipient''] v;
          b \<leftarrow> de_default True as_bool (get ''secrets_encrypted'');
          e \<leftarrow> de_default ''age-v1'' as_str (get ''encryption'');
          a \<leftarrow> de_default None (de_option as_str) (get ''age_recipient'');
          Some \<lparr>sc_secrets_encrypted = b, sc_encryption = e, sc_age_recipient = a\<rparr> }"

interpretation security_form: wire_form security_json security_of "\<lambda>_. True"
  by unfold_locales (simp_all add: security_json_def security_of_def written_fields default_some opt_str_read)

definition accounts_json :: "schema_lib \<Rightarrow> accounts_file \<Rightarrow> json" where
  "accounts_json sl f =
     JObject [(''schema_version'', json_u32 (af_schema_version f)), (''security'', security_json (af_security f)),
              (''emails'', JArray (map (bundle_json sl) (af_emails f))),
              (''secrets'', JArray (map (secret_record_json sl) (af_secrets f)))]"

definition accounts_of :: "schema_lib \<Rightarrow> json \<Rightarrow> accounts_file option" where
  "accounts_of sl v =
     do { get \<leftarrow> struct_fields [''schema_version'', ''security'', ''emails'', ''secrets''] v;
          n \<leftarrow> de_default 4 de_u32 (get ''schema_version'');
          s \<leftarrow> de_default security_config_default security_of (get ''security'');
          es \<leftarrow> de_default [] (de_list (bundle_of sl)) (get ''emails'');
          rs \<leftarrow> de_default [] (de_list (secret_record_of sl)) (get ''secrets'');
          Some \<lparr>af_schema_version = n, af_security = s, af_emails = es, af_secrets = rs\<rparr> }"

definition accounts_good :: "accounts_file \<Rightarrow> bool" where
  "accounts_good f \<longleftrightarrow> list_all bundle_good (af_emails f)"

lemma bundles_read:
  "schema_lib_ok sl \<Longrightarrow> list_all bundle_good bs \<Longrightarrow> de_list (bundle_of sl) (JArray (map (bundle_json sl) bs)) = Some bs"
  by (rule bundle_form.get_list) (simp add: list_all_and_const)

lemma secrets_read: "schema_lib_ok sl \<Longrightarrow> de_list (secret_record_of sl) (JArray (map (secret_record_json sl) rs)) = Some rs"
  by (rule secret_form.get_list) (simp add: list_all_iff)

interpretation accounts_form: wire_form "accounts_json sl" "accounts_of sl"
    "\<lambda>f. schema_lib_ok sl \<and> accounts_good f" for sl
  by unfold_locales
    (simp_all add: accounts_json_def accounts_of_def accounts_good_def struct_fields_def default_some
      security_form.get_put bundles_read secrets_read)

section \<open>Configuration and metrics\<close>

definition config_json :: "config \<Rightarrow> json" where
  "config_json c =
     JObject ([(''autocomplete'', JBool (cf_autocomplete c))]
              @ opt_field ''default_model'' JString (cf_default_model c)
              @ [(''stream'', JBool (cf_stream c)), (''log_level'', JString (cf_log_level c))]
              @ opt_field ''proxy'' JString (cf_proxy c))"

definition config_of :: "json \<Rightarrow> config option" where
  "config_of v =
     do { get \<leftarrow> struct_fields [''autocomplete'', ''default_model'', ''stream'', ''log_level'', ''proxy''] v;
          a \<leftarrow> de_default False as_bool (get ''autocomplete'');
          m \<leftarrow> de_default None (de_option as_str) (get ''default_model'');
          s \<leftarrow> de_default True as_bool (get ''stream'');
          l \<leftarrow> de_default ''WARNING'' as_str (get ''log_level'');
          p \<leftarrow> de_default None (de_option as_str) (get ''proxy'');
          Some \<lparr>cf_autocomplete = a, cf_default_model = m, cf_stream = s, cf_log_level = l, cf_proxy = p\<rparr> }"

interpretation config_form: wire_form config_json config_of "\<lambda>_. True"
  by unfold_locales (simp_all add: config_json_def config_of_def written_fields default_some opt_str_read)

definition model_metrics_json :: "model_metrics \<Rightarrow> json" where
  "model_metrics_json m =
     JObject [(''requests'', json_u64 (mm_requests m)), (''input_tokens'', json_u64 (mm_input_tokens m)),
              (''output_tokens'', json_u64 (mm_output_tokens m)), (''total_tokens'', json_u64 (mm_total_tokens m))]"

definition model_metrics_of :: "json \<Rightarrow> model_metrics option" where
  "model_metrics_of v =
     do { get \<leftarrow> struct_fields [''requests'', ''input_tokens'', ''output_tokens'', ''total_tokens''] v;
          r \<leftarrow> de_default 0 as_u64 (get ''requests'');
          i \<leftarrow> de_default 0 as_u64 (get ''input_tokens'');
          o' \<leftarrow> de_default 0 as_u64 (get ''output_tokens'');
          t \<leftarrow> de_default 0 as_u64 (get ''total_tokens'');
          Some \<lparr>mm_requests = r, mm_input_tokens = i, mm_output_tokens = o', mm_total_tokens = t\<rparr> }"

interpretation model_metrics_form: wire_form model_metrics_json model_metrics_of "\<lambda>_. True"
  by unfold_locales
    (simp_all add: model_metrics_json_def model_metrics_of_def struct_fields_def default_some u64_form.get_put)

definition metrics_json :: "metrics \<Rightarrow> json" where
  "metrics_json d = JObject (tree_json model_metrics_json d)"

interpretation metrics_form: wire_form metrics_json "tree_of model_metrics_of" "\<lambda>d. finite (dom d)"
  by unfold_locales (simp_all add: metrics_json_def model_metrics_form.get_tree)

section \<open>Codecs\<close>

definition file_codec :: "serde \<Rightarrow> ('a \<Rightarrow> json) \<Rightarrow> (json \<Rightarrow> 'a option) \<Rightarrow> 'a codec" where
  "file_codec sj put get = \<lparr>cd_print = (\<lambda>x. to_pretty sj (put x)), cd_read = get\<rparr>"

definition accounts_codec :: "schema_lib \<Rightarrow> serde \<Rightarrow> accounts_file codec" where
  "accounts_codec sl sj = file_codec sj (accounts_json sl) (accounts_of sl)"

definition config_codec :: "serde \<Rightarrow> config codec" where
  "config_codec sj = file_codec sj config_json config_of"

definition metrics_codec :: "serde \<Rightarrow> metrics codec" where
  "metrics_codec sj = file_codec sj metrics_json (tree_of model_metrics_of)"

definition runtime_codec :: "schema_lib \<Rightarrow> serde \<Rightarrow> runtime_state codec" where
  "runtime_codec sl sj = file_codec sj (runtime_json sl) (runtime_of sl True)"

text \<open>The promise of the printer: its text is a string that is parsed to the value.\<close>

definition pretty_reads :: "serde \<Rightarrow> json \<Rightarrow> bool" where
  "pretty_reads sj v \<longleftrightarrow> str_ok (to_pretty sj v) \<and> from_text sj (to_pretty sj v) = Some v"

context wire_form
begin

lemma codec_reads_good:
  "good x \<Longrightarrow> pretty_reads sj (put x) \<Longrightarrow> codec_reads sj (file_codec sj put get) x"
  by (simp add: codec_reads_def pretty_reads_def file_codec_def get_put)

end

lemmas stored_codecs = accounts_codec_def config_codec_def metrics_codec_def runtime_codec_def

lemma accounts_shape_fixed:
  "no_zlm (accounts_json sl f) \<Longrightarrow> migrate_value (accounts_json sl f) = accounts_json sl f"
  using rewrite_no_zlm [of "accounts_json sl f"]
  by (simp add: migrate_value_def accounts_json_def adopt_accounts_def or_insert_def)

lemma accounts_codec_readable:
  assumes "schema_lib_ok sl" and "accounts_good f" and "no_zlm (accounts_json sl f)"
    and "pretty_reads sj (accounts_json sl f)"
  shows "accounts_readable sj (accounts_codec sl sj) f"
proof -
  have "jget (accounts_json sl f) ''encrypted'' = None" by (simp add: accounts_json_def)
  then show ?thesis
    using assms accounts_shape_fixed [OF assms(3)] accounts_form.get_put [of sl f]
    by (simp add: accounts_readable_def pretty_reads_def accounts_codec_def file_codec_def)
qed

section \<open>The operations on the files\<close>

text \<open>The configuration and the counters need no assumption on the values.\<close>

lemma config_kept:
  assumes "pretty_reads sj (config_json c)" and "config_save (config_codec sj) c fs = (Inr (), fs')"
  shows "config_load sj (config_codec sj) fs' = c"
  using config_save_load [of sj "config_codec sj" c fs] config_form.codec_reads_good [OF _ assms(1)] assms(2)
  by (simp add: config_codec_def)

lemma finite_table_step: "finite (dom d) \<Longrightarrow> finite (dom (table_step op d))"
  by (cases "(op, d)" rule: table_step.cases) (simp_all add: add_usage_def Let_def)

lemma metrics_kept:
  assumes "metrics_writable fs" and "finite (dom (load_metrics sj (metrics_codec sj) fs))"
    and "\<And>d. finite (dom d) \<Longrightarrow> pretty_reads sj (metrics_json d)"
  shows "load_metrics sj (metrics_codec sj) (fold (metrics_step sj (metrics_codec sj)) ops fs) =
           fold table_step ops (load_metrics sj (metrics_codec sj) fs)"
proof -
  have "tables_readable sj (metrics_codec sj) ops d" if "finite (dom d)" for d
    using that
  proof (induction ops arbitrary: d)
    case (Cons op ops)
    have "codec_reads sj (metrics_codec sj) (table_step op d)"
      unfolding metrics_codec_def
      by (rule metrics_form.codec_reads_good) (use Cons.prems finite_table_step assms(3) in auto)
    then show ?case using Cons finite_table_step by simp
  qed simp
  then show ?thesis using metrics_refine_table [OF assms(1)] assms(2) by blast
qed

subsection \<open>Accounts\<close>

lemma effect_good: "account_good (health_effect fm un e a) \<longleftrightarrow> account_good a"
  by (cases e) (simp_all add: account_good_def healthy_after_def failed_after_def)

lemma update_first_all:
  "list_all p xs \<Longrightarrow> (\<And>x. p x \<Longrightarrow> p (f x)) \<Longrightarrow> list_all p (update_first q f xs)"
  by (induction xs) auto

lemma update_bundles_good:
  "(\<And>a. account_good a \<Longrightarrow> account_good (f a)) \<Longrightarrow> list_all bundle_good bs \<Longrightarrow>
   list_all bundle_good (update_bundles p f bs)"
  by (induction bs) (auto simp: bundle_good_def intro: update_first_all)

lemma health_step_good:
  "accounts_good (mg_accounts mgr) \<Longrightarrow> accounts_good (mg_accounts (health_step fm un e mgr))"
proof -
  have "mg_accounts (health_step fm un e mgr) =
      update_account (event_account e) (health_effect fm un e) (mg_accounts mgr)"
    by (cases e) (simp_all add: mark_success_def mark_failure_def with_account_def)
  then show "accounts_good (mg_accounts mgr) \<Longrightarrow> accounts_good (mg_accounts (health_step fm un e mgr))"
    by (simp add: accounts_good_def update_account_def update_bundles_good effect_good)
qed

lemma health_run_good:
  "accounts_good (mg_accounts mgr) \<Longrightarrow> accounts_good (mg_accounts (fold (health_step fm un) es mgr))"
  by (induction es arbitrary: mgr) (simp_all add: health_step_good)

lemma health_run_path: "mg_path (fold (health_step fm un) es mgr) = mg_path mgr"
proof (induction es arbitrary: mgr)
  case (Cons e es)
  have "mg_path (health_step fm un e mgr) = mg_path mgr"
    by (cases e) (simp_all add: mark_success_def mark_failure_def with_account_def)
  then show ?case using Cons by simp
qed simp

text \<open>
  C4.  Health survives a restart.  After any successes and failures of any accounts, if the manager's
  file can be saved, encrypted or not, a manager that is loaded from it has the same accounts, so it
  selects the same ones at every time, and its lookups find what the events made of the old accounts: a cooldown
  that was opened before the restart holds after it.
\<close>

theorem health_survives_restart:
  assumes "crypto_ok (pl_crypto pl)" and "entropy_source (pl_fill pl)" and "envelope_ok (pl_serde pl)"
    and "schema_lib_ok sl" and "cd = accounts_codec sl (pl_serde pl)"
    and "mgr' = fold (health_step fm un) es mgr" and "accounts_good (mg_accounts mgr)"
    and "no_zlm (accounts_json sl (mg_accounts mgr'))"
    and "pretty_reads (pl_serde pl) (accounts_json sl (mg_accounts mgr'))"
    and "key_path (ho_fs h) \<noteq> Inr (mg_path mgr)"
    and "manager_save pl cd mgr' h = (Inr (), h')"
  shows "\<exists>again. manager_load pl cd (mg_path mgr) h' = (Inr again, h')
           \<and> mg_accounts again = mg_accounts mgr' \<and> mg_path again = mg_path mgr'
           \<and> (\<forall>now p. accounts_for again now p = accounts_for mgr' now p)
           \<and> (\<forall>k. manager_get again k =
                    map_option (fold (health_effect fm un) (own_events k es)) (manager_get mgr k))"
proof -
  have path: "mg_path mgr' = mg_path mgr" by (simp add: assms(6) health_run_path)
  have "accounts_good (mg_accounts mgr')" using assms(6,7) health_run_good by blast
  then have rd: "accounts_readable (pl_serde pl) cd (mg_accounts mgr')"
    using accounts_codec_readable assms(4,5,8,9) by blast
  have "save_accounts pl cd (mg_accounts mgr') (mg_path mgr) (mg_encrypt_on_save mgr') h = (Inr (), h')"
    using assms(11) path by (auto simp: manager_save_def split: prod.splits sum.splits)
  then have load: "load_accounts pl cd (mg_path mgr) h' = (Inr (mg_accounts mgr'), h')"
    using save_load_roundtrip [OF assms(1-3) rd assms(10)] by blast
  have "\<And>k. manager_get mgr' k = map_option (fold (health_effect fm un) (own_events k es)) (manager_get mgr k)"
    unfolding assms(6) by (rule health_run_get)
  then show ?thesis by (simp add: manager_load_def load path accounts_for_def manager_get_def)
qed

text \<open>Where no free-form value is kept, nothing names the retired provider.\<close>

lemma no_zlm_append: "no_zlm (JObject (xs @ ys)) \<longleftrightarrow> no_zlm (JObject xs) \<and> no_zlm (JObject ys)"
  by auto

lemma no_zlm_opt:
  "no_zlm (JObject (opt_field k f x)) \<longleftrightarrow>
     pred_option (\<lambda>y. \<not> (k = ''provider'' \<and> f y = JString ''zlm'') \<and> no_zlm (f y)) x"
  by (cases x) (simp_all add: opt_field_def)

lemmas no_zlm_fields = no_zlm_append no_zlm_opt

lemma provider_not_zlm: "provider_as_str p \<noteq> ''zlm''"
  by (cases p) simp_all

lemma no_zlm_scalars:
  "no_zlm (json_u32 n)" "no_zlm (json_u64 m)" "no_zlm (json_i32 i)" "no_zlm (date_json sl t)"
  by (simp_all add: json_u32_def json_u64_def json_i32_def date_json_def)

definition plain_account :: "provider_account \<Rightarrow> bool" where
  "plain_account a \<longleftrightarrow>
     au_extra (pa_auth a) = None \<and> tp_extra_headers (pa_transport a) = Map.empty \<and> pa_metadata a = None"

lemma no_zlm_quota: "no_zlm (quota_json sl q)"
proof -
  have "no_zlm (quota_window_json sl w)" for w
    by (simp add: quota_window_json_def no_zlm_fields no_zlm_scalars option.pred_True del: no_zlm.simps(1))
  then show ?thesis
    by (simp add: quota_json_def no_zlm_fields no_zlm_scalars option.pred_True del: no_zlm.simps(1))
qed

lemma no_zlm_account: "plain_account a \<Longrightarrow> no_zlm (account_json sl a)"
proof -
  assume a: "plain_account a"
  have "no_zlm (auth_json (pa_auth a))"
    unfolding auth_json_def no_zlm_fields
    using a by (simp add: plain_account_def metadata_field_def metadata_is_empty_def option.pred_True)
  moreover have "no_zlm (transport_json (pa_transport a))"
    unfolding transport_json_def no_zlm_fields
    using a by (simp add: plain_account_def headers_field_def option.pred_True no_zlm_scalars)
  moreover have "no_zlm (rotation_json sl (pa_rotation_state a))"
    unfolding rotation_json_def no_zlm_fields by (simp add: option.pred_True no_zlm_scalars)
  moreover have "no_zlm (defaults_json (pa_defaults a))" by (simp add: defaults_json_def)
  ultimately show ?thesis
    unfolding account_json_def no_zlm_fields
    using a by (simp add: plain_account_def metadata_field_def metadata_is_empty_def no_zlm_quota no_zlm_scalars
        provider_not_zlm)
qed

definition plain_bundle :: "email_bundle \<Rightarrow> bool" where
  "plain_bundle b \<longleftrightarrow> list_all plain_account (eb_providers b) \<and> eb_metadata b = None"

lemma no_zlm_bundle: "plain_bundle b \<Longrightarrow> no_zlm (bundle_json sl b)"
proof -
  assume b: "plain_bundle b"
  have "no_zlm (route_json r)" for r
    by (simp add: route_json_def route_candidate_json_def provider_not_zlm no_zlm_scalars)
  then show ?thesis
    unfolding bundle_json_def no_zlm_fields
    using b by (simp add: plain_bundle_def metadata_field_def metadata_is_empty_def option.pred_True no_zlm_account
        list_all_iff)
qed

lemma no_zlm_accounts: "list_all plain_bundle (af_emails f) \<Longrightarrow> no_zlm (accounts_json sl f)"
proof -
  have "no_zlm (secret_record_json sl r)" for r
    unfolding secret_record_json_def no_zlm_fields by (simp add: option.pred_True no_zlm_scalars)
  moreover have "no_zlm (security_json s)" for s
    unfolding security_json_def no_zlm_fields by (simp add: option.pred_True)
  ultimately show "list_all plain_bundle (af_emails f) \<Longrightarrow> no_zlm (accounts_json sl f)"
    by (simp add: accounts_json_def no_zlm_bundle no_zlm_scalars list_all_iff)
qed

text \<open>A printer and parser for one tree and for envelopes, and a manager whose account is failed.\<close>

definition mirror_serde :: "json \<Rightarrow> serde" where
  "mirror_serde v =
     sample_serde\<lparr>from_text := (\<lambda>s. if s = ''{F}'' then Some v
                                   else if starts_with ''{C'' s then Some (envelope (drop 2 s)) else None)\<rparr>"

lemma mirror_simps [simp]:
  "to_pretty (mirror_serde v) w = ''{F}''" "from_text (mirror_serde v) ''{F}'' = Some v"
  "to_compact (mirror_serde v) w = to_compact sample_serde w"
  by (simp_all add: mirror_serde_def sample_serde_def)

lemma mirror_reads [simp]: "pretty_reads (mirror_serde v) v"
  by (simp add: pretty_reads_def) code_simp

lemma envelope_ok_mirror: "envelope_ok (mirror_serde v)"
proof -
  have "from_text (mirror_serde v) (to_compact sample_serde (envelope s)) = Some (envelope s)" for s
  proof -
    have "to_compact sample_serde (envelope s) = ''{C'' @ s"
      by (simp add: sample_serde_def envelope_def jget_str_def)
    then show ?thesis by (simp add: mirror_serde_def)
  qed
  then show ?thesis
    using envelope_ok_sample by (simp add: envelope_ok_def prints_object_def)
qed

definition stored_manager :: manager where
  "stored_manager = sample_manager\<lparr>mg_path := ''/h/a''\<rparr>"

definition stored_events :: "health_event list" where
  "stored_events = [Failed 1000 ''hi'' ''429'' 5000000000]"

definition stored_lib :: schema_lib where
  "stored_lib = plain_schema_lib bare_serde"

definition stored_platform :: "u64 platform" where
  "stored_platform =
     sample_platform\<lparr>pl_serde :=
       mirror_serde (accounts_json stored_lib
         (mg_accounts (fold (health_step Some 0) stored_events stored_manager)))\<rparr>"

lemma stored_accounts_good: "accounts_good (mg_accounts stored_manager)"
  by (simp add: stored_manager_def sample_manager_def manager_in_memory_def accounts_good_def bundle_good_def
      account_good_def sample_account_def i32_range_def transport_good_def)

lemma health_survives_restart_witness:
  "\<exists>again h'. manager_load stored_platform (accounts_codec stored_lib (pl_serde stored_platform)) ''/h/a'' h' = (Inr again, h')
     \<and> accounts_for again 5999 Groq = accounts_for (fold (health_step Some 0) stored_events stored_manager) 5999 Groq"
proof -
  let ?mgr = "fold (health_step Some 0) stored_events stored_manager"
  let ?cd = "accounts_codec stored_lib (pl_serde stored_platform)"
  have libs: "crypto_ok (pl_crypto stored_platform)" "entropy_source (pl_fill stored_platform)"
    "envelope_ok (pl_serde stored_platform)" "schema_lib_ok stored_lib"
    using checksum_crypto_ok seeded.entropy_source_axioms envelope_ok_mirror plain_schema_lib_ok
    by (simp_all add: stored_platform_def stored_lib_def sample_platform_def)
  have zlm: "no_zlm (accounts_json stored_lib (mg_accounts ?mgr))"
  proof -
    have "list_all plain_bundle (af_emails (mg_accounts ?mgr))"
      by (simp add: stored_events_def stored_manager_def sample_manager_def manager_in_memory_def mark_failure_def
          with_account_def update_account_def failed_after_def sample_account_def plain_account_def plain_bundle_def
          metadata_new_def)
    then show ?thesis by (rule no_zlm_accounts)
  qed
  have reads: "pretty_reads (pl_serde stored_platform) (accounts_json stored_lib (mg_accounts ?mgr))"
    by (simp add: stored_platform_def)
  have key: "key_path (ho_fs sample_host) \<noteq> Inr (mg_path stored_manager)"
    by (simp add: stored_manager_def) code_simp
  obtain h' where save: "manager_save stored_platform ?cd ?mgr sample_host = (Inr (), h')"
  proof -
    have "ensure_parent ''/h/a'' sample_fs = Inr ()" by code_simp
    moreover have "mg_encrypt_on_save ?mgr = False" "mg_path ?mgr = ''/h/a''"
      by (simp_all add: stored_events_def stored_manager_def sample_manager_def manager_in_memory_def
          mark_failure_def with_account_def)
    ultimately have "fst (manager_save stored_platform ?cd ?mgr sample_host) = Inr ()"
      by (simp add: manager_save_def save_accounts_def host_write_def fs_write_def sample_host_def)
        (simp add: sample_fs_def)
    then show ?thesis by (intro that) (simp add: prod_eq_iff)
  qed
  show ?thesis
    using health_survives_restart [OF libs refl refl stored_accounts_good zlm reads key save]
    by (auto simp: stored_manager_def)
qed

subsection \<open>Conversations\<close>

lemma record_turn_good:
  assumes "se_table st k = Some s" and "runtime_good True s" and "list_all (message_good True) (ms @ [r])"
    and "st' = record_turn env k ms r st"
  shows "runtime_good True (the (se_table st' k))"
    and "history env k st' = iter_messages True (rt_canonical s) @ ms @ [r]"
proof -
  obtain t h where t: "turn_of env ms r (se_host st) = (t, h)" by fastforce
  then have tg: "turn_good True t" "turn_messages t = ms @ [r]"
    using assms(3) by (auto simp: turn_of_def turn_good_def turn_messages_def Let_def split: prod.splits)
  have se: "the (se_table st' k) = s\<lparr>rt_canonical := append_turn t (rt_canonical s)\<rparr>"
    using assms(1,4) t by (simp add: record_turn_def entry_or_new_def Let_def)
  show "runtime_good True (the (se_table st' k))"
    unfolding se using assms(2) tg(1) by (simp add: runtime_good_def conversation_good_def append_turn_def)
  have "history env k st' = iter_messages True (rt_canonical (the (se_table st' k)))"
    using assms(4) t by (simp add: history_def record_turn_def Let_def)
  then show "history env k st' = iter_messages True (rt_canonical s) @ ms @ [r]"
    unfolding se using tg(2) by (simp add: append_turn_simps)
qed

text \<open>
  C18.  A persistent conversation is kept.  After a turn of an open persistent conversation that is good, of good
  messages, whose file can be written: the history is the old one, the messages of the request and the
  response; it is what a new client on the same machine sees, before and after it opens the conversation;
  and the state is good again, for the next turn.
\<close>

theorem persistent_history_kept:
  assumes "schema_lib_ok sl" and "sn_codec env = runtime_codec sl (sn_serde env)"
    and "se_table st k = Some s" and "cv_persistent (rt_canonical s)"
    and "runtime_good True s" and "list_all (message_good True) (ms @ [r])"
    and "conversation_path k (ho_fs (se_host st)) = Some p"
    and "ensure_parent p (ho_fs (se_host st)) = Inr ()" and "\<not> fs_denied (ho_fs (se_host st)) p"
    and "st' = record_turn env k ms r st"
    and "pretty_reads (sn_serde env) (runtime_json sl (the (se_table st' k)))"
  shows "history env k st' = iter_messages True (rt_canonical s) @ ms @ [r]
       \<and> history env k (reopened st') = history env k st'
       \<and> history env k (start_persistent env k None (reopened st')) = history env k st'
       \<and> runtime_good True (the (se_table st' k))"
proof -
  note good = record_turn_good [OF assms(3,5,6,10)]
  have "codec_reads (sn_serde env) (sn_codec env) (the (se_table st' k))"
    unfolding assms(2) runtime_codec_def
    by (rule runtime_form.codec_reads_good) (use assms(1,11) good(1) in auto)
  then have "storable env k (the (se_table st' k)) (ho_fs (se_host st))"
    using assms(7-9) by (simp add: storable_def)
  from persistent_survives_restart [OF assms(3,4,10) this, of k] good show ?thesis by blast
qed

definition stored_state :: runtime_state where
  "stored_state = runtime_new (append_turn recorded_turn sample_conversation)"

definition stored_env :: "u64 session_env" where
  "stored_env =
     sample_env\<lparr>sn_serde := mirror_serde (runtime_json stored_lib stored_state),
                sn_codec := runtime_codec stored_lib (mirror_serde (runtime_json stored_lib stored_state))\<rparr>"

lemma stored_recorded:
  "se_table (record_turn stored_env ''k'' [message_user ''q''] (message_assistant ''a'') sample_sessions) =
     [''k'' \<mapsto> stored_state]"
proof -
  have "turn_of stored_env [message_user ''q''] (message_assistant ''a'') sample_host = (recorded_turn, sample_host)"
    by (simp add: turn_of_def stored_env_def sample_env_def recorded_turn_def sample_host_def manager_now_def Let_def)
  then show ?thesis
    by (simp add: record_turn_def sample_sessions_def entry_or_new_def runtime_new_def stored_state_def Let_def)
qed

lemma persistent_history_kept_witness:
  "history stored_env ''k''
     (reopened (record_turn stored_env ''k'' [message_user ''q''] (message_assistant ''a'') sample_sessions)) =
   [message_user ''q'', message_assistant ''a'']"
proof -
  let ?st' = "record_turn stored_env ''k'' [message_user ''q''] (message_assistant ''a'') sample_sessions"
  have lib: "schema_lib_ok stored_lib" unfolding stored_lib_def by (rule plain_schema_lib_ok)
  have env: "sn_codec stored_env = runtime_codec stored_lib (sn_serde stored_env)" by (simp add: stored_env_def)
  have k: "se_table sample_sessions ''k'' = Some (runtime_new sample_conversation)"
    by (simp add: sample_sessions_def)
  have p: "cv_persistent (rt_canonical (runtime_new sample_conversation))"
    by (simp add: runtime_new_def sample_conversation_def)
  have g: "runtime_good True (runtime_new sample_conversation)"
    by (simp add: runtime_good_def runtime_new_def conversation_good_def sample_conversation_def conversation_new_def)
  have ms: "list_all (message_good True) ([message_user ''q''] @ [message_assistant ''a''])"
    by (simp add: message_good_def message_defs)
  have path: "conversation_path ''k'' (ho_fs (se_host sample_sessions)) = Some ''/h/.gravity/history/k.json''"
    by (simp add: sample_sessions_def sample_host_def) code_simp
  have parent: "ensure_parent ''/h/.gravity/history/k.json'' (ho_fs (se_host sample_sessions)) = Inr ()"
    by (simp add: sample_sessions_def sample_host_def) code_simp
  have open_fs: "\<not> fs_denied (ho_fs (se_host sample_sessions)) ''/h/.gravity/history/k.json''"
    by (simp add: sample_sessions_def sample_host_def sample_fs_def)
  have reads: "pretty_reads (sn_serde stored_env) (runtime_json stored_lib (the (se_table ?st' ''k'')))"
    unfolding stored_recorded by (simp add: stored_env_def)
  have "iter_messages True (rt_canonical (runtime_new sample_conversation)) = []"
    by (simp add: runtime_new_def sample_conversation_def conversation_new_def iter_messages_def)
  then show ?thesis
    using persistent_history_kept [OF lib env k p g ms path parent open_fs refl reads] by simp
qed

end
