(* ===== verification/Transport.thy ===== *)
theory Transport
  imports WebEnv
begin

text \<open>
  What the adapters' network and environment are in production and in tests: \<open>HttpClient::send\<close> and
  \<open>HttpClient::stream\<close> (\<open>gravity-http/src/client.rs\<close>) over the client cache of theory \<open>Http\<close>, the recording transport
  as a network (\<open>transport.rs\<close>), and \<open>Env::system\<close> and \<open>Env::fixed\<close> (\<open>gravity-core/src/clock.rs\<close>).
\<close>

section \<open>Sending\<close>

text \<open>
  The \<open>wreq\<close> crate: what it refuses before it sends, the exchange of a prepared request for a response,
  and the two ways to read the body of a response, at once or in chunks.
\<close>

record ('r, 'v) http_crate =
  hx_checks :: wreq
  hx_send :: "prepared \<Rightarrow> 'v \<Rightarrow> (string + 'r) \<times> 'v"
  hx_status :: "'r \<Rightarrow> u16"
  hx_headers :: "'r \<Rightarrow> (string \<times> string) list"
  hx_bytes :: "'r \<Rightarrow> string + u8 list"
  hx_chunks :: "'r \<Rightarrow> (string + u8 list) list"

text \<open>The cache is in the world, next to whatever the crate acts on.\<close>

definition exchange ::
    "('r, 'v) http_crate \<Rightarrow> http_request \<Rightarrow> http_client \<times> 'v \<Rightarrow> (error + 'r) \<times> (http_client \<times> 'v)" where
  "exchange hx req w =
     (case prepare (hx_checks hx) req (fst w) of
        (Inl e, hc) \<Rightarrow> (Inl e, (hc, snd w))
      | (Inr p, hc) \<Rightarrow>
          (case hx_send hx p (snd w) of
             (Inl e, v) \<Rightarrow> (Inl (Network (''request to '' @ rq_url req @ '' failed: '' @ e)), (hc, v))
           | (Inr r, v) \<Rightarrow> (Inr r, (hc, v))))"

definition http_send ::
    "('r, 'v) http_crate \<Rightarrow> http_request \<Rightarrow> http_client \<times> 'v \<Rightarrow> (error + http_response) \<times> (http_client \<times> 'v)" where
  "http_send hx req w =
     (case exchange hx req w of
        (Inl e, w') \<Rightarrow> (Inl e, w')
      | (Inr r, w') \<Rightarrow>
          (case hx_bytes hx r of
             Inl e \<Rightarrow> (Inl (Network (''reading body from '' @ rq_url req @ '' failed: '' @ e)), w')
           | Inr body \<Rightarrow>
               (Inr \<lparr>rp_status = hx_status hx r, rp_headers = hx_headers hx r, rp_body = body\<rparr>, w')))"

definition stream_chunk :: "string \<Rightarrow> string + u8 list \<Rightarrow> error + u8 list" where
  "stream_chunk url c =
     (case c of Inl e \<Rightarrow> Inl (Network (''stream from '' @ url @ '' failed: '' @ e)) | Inr b \<Rightarrow> Inr b)"

definition http_stream ::
    "('r, 'v) http_crate \<Rightarrow> http_request \<Rightarrow> http_client \<times> 'v
       \<Rightarrow> (error + u16 \<times> (string \<times> string) list \<times> (error + u8 list) list) \<times> (http_client \<times> 'v)" where
  "http_stream hx req w =
     (case exchange hx req w of
        (Inl e, w') \<Rightarrow> (Inl e, w')
      | (Inr r, w') \<Rightarrow>
          (Inr (hx_status hx r, hx_headers hx r, map (stream_chunk (rq_url req)) (hx_chunks hx r)), w'))"

section \<open>Transports\<close>

text \<open>
  A \<open>Transport\<close> answers a request at once or as a stream.  Its contract: both act on the world in the same
  way, both fail or neither does, and a buffered body is what the chunks of the stream carry.
\<close>

locale transport_laws =
  fixes send :: "http_request \<Rightarrow> 'w \<Rightarrow> (error + http_response) \<times> 'w"
    and stream :: "http_request \<Rightarrow> 'w
       \<Rightarrow> (error + u16 \<times> (string \<times> string) list \<times> (error + u8 list) list) \<times> 'w"
    and good :: "'w \<Rightarrow> bool"
  assumes refused: "stream req w = (Inl e, w') \<Longrightarrow> send req w = (Inl e, w')"
    and buffered: "stream req w = (Inr (status, hs, map Inr cs), w') \<Longrightarrow>
        send req w = (Inr \<lparr>rp_status = status, rp_headers = hs, rp_body = concat cs\<rparr>, w')"
    and cut: "stream req w = (Inr (status, hs, map Inr cs @ Inl e # rest), w') \<Longrightarrow>
        \<exists>e'. send req w = (Inl e', w')"
    and good_stream: "good w \<Longrightarrow> good (snd (stream req w))"
begin

lemma stream_world: "snd (send req w) = snd (stream req w)"
proof -
  obtain r w' where s: "stream req w = (r, w')" by (cases "stream req w")
  show ?thesis
  proof (cases r)
    case (Inl e)
    then show ?thesis using s refused by simp
  next
    case (Inr reply)
    then obtain status hs es where reply: "r = Inr (status, hs, es)" by (cases reply) auto
    consider cs where "es = map Inr cs" | cs e rest where "es = map Inr cs @ Inl e # rest"
    proof (induction es arbitrary: thesis)
      case Nil
      show ?case using Nil(1) [of "[]"] by simp
    next
      case (Cons x es)
      show ?case
      proof (cases x)
        case (Inl e)
        then show ?thesis using Cons.prems(2) [of "[]"] by simp
      next
        case (Inr c)
        show ?thesis
        proof (rule Cons.IH)
          show thesis if "es = map Inr cs" for cs using Cons.prems(1) [of "c # cs"] Inr that by simp
          show thesis if "es = map Inr cs @ Inl e # rest" for cs e rest
            using Cons.prems(2) [of "c # cs" e rest] Inr that by simp
        qed
      qed
    qed
    then show ?thesis
    proof cases
      case 1
      then show ?thesis using s reply buffered [of req w status hs cs w'] by simp
    next
      case (2 cs e rest)
      then obtain e' where "send req w = (Inl e', w')" using s reply cut [of req w status hs cs e rest w'] by auto
      then show ?thesis using s by simp
    qed
  qed
qed

lemma good_send: "good w \<Longrightarrow> good (snd (send req w))"
  using good_stream by (simp add: stream_world)

text \<open>Any series of requests, buffered or streamed, keeps what every stream keeps.\<close>

definition act :: "bool \<times> http_request \<Rightarrow> 'w \<Rightarrow> 'w" where
  "act r w = (if fst r then snd (stream (snd r) w) else snd (send (snd r) w))"

lemma good_run: "good w \<Longrightarrow> good (fold act rs w)"
  by (induction rs arbitrary: w) (simp_all add: act_def good_send good_stream)

end

text \<open>
  The documented behaviour of the crate's two readers: the buffered body is the chunks in a row, and a body
  with a broken chunk cannot be buffered.
\<close>

definition readers_agree :: "('r, 'v) http_crate \<Rightarrow> bool" where
  "readers_agree hx \<longleftrightarrow>
     (\<forall>r cs. hx_chunks hx r = map Inr cs \<longrightarrow> hx_bytes hx r = Inr (concat cs))
   \<and> (\<forall>r cs e rest. hx_chunks hx r = map Inr cs @ Inl e # rest \<longrightarrow> (\<exists>e'. hx_bytes hx r = Inl e'))"

lemma stream_chunk_Inr [simp]: "stream_chunk url c = Inr b \<longleftrightarrow> c = Inr b"
  by (cases c) (simp_all add: stream_chunk_def)

lemma stream_chunk_Inl: "stream_chunk url c = Inl e \<Longrightarrow> \<exists>e'. c = Inl e'"
  by (cases c) (simp_all add: stream_chunk_def)

lemma stream_chunks: "map (stream_chunk url) cs = map Inr bs \<Longrightarrow> cs = map Inr bs"
  by (induction cs arbitrary: bs) (auto simp: map_eq_Cons_conv Cons_eq_map_conv)

text \<open>A request never spoils the cache, and never drops a client from it.\<close>

lemma exchange_cache:
  assumes "cache_ok (fst w)"
  shows "cache_ok (fst (snd (exchange hx req w)))"
    and "hc_cache (fst w) \<subseteq>\<^sub>m hc_cache (fst (snd (exchange hx req w)))"
proof -
  obtain r hc where c: "client_for (hx_checks hx) req (fst w) = (r, hc)"
    by (cases "client_for (hx_checks hx) req (fst w)")
  then have "fst (snd (exchange hx req w)) = hc"
    by (simp add: exchange_def prepare_def split: sum.split prod.split)
  then show "cache_ok (fst (snd (exchange hx req w)))"
    and "hc_cache (fst w) \<subseteq>\<^sub>m hc_cache (fst (snd (exchange hx req w)))"
    using cache_ok_client_for [OF assms c] by simp_all
qed

lemma http_transport:
  fixes hx :: "('r, 'v) http_crate"
  assumes "readers_agree hx"
  shows "transport_laws (http_send hx) (http_stream hx) (\<lambda>w. cache_ok (fst w))"
proof
  fix req w e w'
  assume "http_stream hx req w = (Inl e, w')"
  then show "http_send hx req w = (Inl e, w')"
    by (auto simp: http_stream_def http_send_def split: sum.splits prod.splits)
next
  fix req w status hs cs w'
  assume s: "http_stream hx req w = (Inr (status, hs, map Inr cs), w')"
  then obtain r where r: "exchange hx req w = (Inr r, w')" "status = hx_status hx r" "hs = hx_headers hx r"
      "map (stream_chunk (rq_url req)) (hx_chunks hx r) = map Inr cs"
    by (auto simp: http_stream_def split: sum.splits prod.splits)
  have "hx_bytes hx r = Inr (concat cs)"
    using assms stream_chunks [OF r(4)] by (simp add: readers_agree_def)
  then show "http_send hx req w = (Inr \<lparr>rp_status = status, rp_headers = hs, rp_body = concat cs\<rparr>, w')"
    using r by (simp add: http_send_def)
next
  fix req w status hs cs e rest w'
  assume "http_stream hx req w = (Inr (status, hs, map Inr cs @ Inl e # rest), w')"
  then obtain r where r: "exchange hx req w = (Inr r, w')"
      "map (stream_chunk (rq_url req)) (hx_chunks hx r) = map Inr cs @ Inl e # rest"
    by (auto simp: http_stream_def split: sum.splits prod.splits)
  from r(2) obtain xs y ys where chunks: "hx_chunks hx r = xs @ y # ys"
      "map (stream_chunk (rq_url req)) xs = map Inr cs" "stream_chunk (rq_url req) y = Inl e"
    by (auto simp: map_eq_append_conv map_eq_Cons_conv)
  obtain e' where "y = Inl e'" using stream_chunk_Inl [OF chunks(3)] by blast
  then obtain e'' where "hx_bytes hx r = Inl e''"
    using assms chunks(1) stream_chunks [OF chunks(2)] unfolding readers_agree_def by blast
  then show "\<exists>e'. http_send hx req w = (Inl e', w')" using r(1) by (simp add: http_send_def)
next
  fix req and w :: "http_client \<times> 'v"
  assume "cache_ok (fst w)"
  moreover have "snd (http_stream hx req w) = snd (exchange hx req w)"
    by (simp add: http_stream_def split: sum.split prod.split)
  ultimately show "cache_ok (fst (snd (http_stream hx req w)))" by (simp add: exchange_cache(1))
qed

text \<open>
  The promise holds for a crate that gathers the chunks it reads; whatever it sends with, its client is a
  transport.
\<close>

fun gathered :: "(string + u8 list) list \<Rightarrow> string + u8 list" where
  "gathered [] = Inr []"
| "gathered (Inl e # cs) = Inl e"
| "gathered (Inr b # cs) = (case gathered cs of Inl e \<Rightarrow> Inl e | Inr bs \<Rightarrow> Inr (b @ bs))"

definition chunk_crate ::
    "wreq \<Rightarrow> (prepared \<Rightarrow> 'v \<Rightarrow> (string + u16 \<times> (string \<times> string) list \<times> (string + u8 list) list) \<times> 'v)
       \<Rightarrow> (u16 \<times> (string \<times> string) list \<times> (string + u8 list) list, 'v) http_crate" where
  "chunk_crate checks send =
     \<lparr>hx_checks = checks, hx_send = send, hx_status = fst, hx_headers = fst \<circ> snd,
      hx_bytes = gathered \<circ> snd \<circ> snd, hx_chunks = snd \<circ> snd\<rparr>"

lemma gathered_all: "gathered (map Inr cs) = Inr (concat cs)"
  by (induction cs) simp_all

lemma gathered_cut: "gathered (map Inr cs @ Inl e # rest) = Inl e"
  by (induction cs) simp_all

lemma chunk_crate_agrees: "readers_agree (chunk_crate checks send)"
  by (simp add: readers_agree_def chunk_crate_def gathered_all gathered_cut)

interpretation client: transport_laws "http_send (chunk_crate checks send)" "http_stream (chunk_crate checks send)"
    "\<lambda>w. cache_ok (fst w)" for checks send
  by (rule http_transport) (rule chunk_crate_agrees)

interpretation mock: transport_laws mock_send mock_stream "\<lambda>t. mk_status t = status \<and> mk_body t = body" for status body
proof
  show "\<exists>e'. mock_send req t = (Inl e', t')"
    if "mock_stream req t = (Inr (st, hs, map Inr cs @ Inl e # rest), t')" for req t st hs cs e rest t'
    using that by (cases cs) (auto simp: mock_stream_def Let_def)
qed (auto simp: mock_send_def mock_stream_def mock_record_def Let_def map_eq_Cons_conv)

text \<open>
  So however requests are sent through the client, no two of them share a connection unless they agree in
  profile, proxy, verification and cookies.
\<close>

lemma http_runs_cached:
  assumes "readers_agree hx"
  shows "cache_ok (fst (fold (transport_laws.act (http_send hx) (http_stream hx)) rs (http_client_new, v)))"
  using transport_laws.good_run [OF http_transport [OF assms], of "(http_client_new, v)" rs] by (simp add: cache_ok_new)

definition http_net :: "('r, 'v) http_crate \<Rightarrow> serde \<Rightarrow> (u8 list \<Rightarrow> string) \<Rightarrow> (http_client \<times> 'v) net" where
  "http_net hx sj bad =
     \<lparr>nt_send = http_send hx, nt_stream = http_stream hx, nt_serde = sj, nt_bad_json = bad\<rparr>"

definition mock_net :: "serde \<Rightarrow> (u8 list \<Rightarrow> string) \<Rightarrow> mock_transport net" where
  "mock_net sj bad = \<lparr>nt_send = mock_send, nt_stream = mock_stream, nt_serde = sj, nt_bad_json = bad\<rparr>"

section \<open>The environment\<close>

text \<open>\<open>SystemClock\<close>: milliseconds since the epoch at 64 bits, and zero for a machine whose clock is before it.\<close>

definition system_now_millis :: "int \<Rightarrow> u64" where
  "system_now_millis ms = (if ms < 0 then 0 else word_of_int ms)"

text \<open>What the machine gives: its clock, the address of the buffer to fill, and \<open>chrono::Utc::now\<close>.\<close>

record 'w machine =
  mc_clock :: "'w \<Rightarrow> int \<times> 'w"
  mc_address :: "'w \<Rightarrow> u64 \<times> 'w"
  mc_utc_now :: "'w \<Rightarrow> datetime \<times> 'w"

definition env_system :: "'w machine \<Rightarrow> 'w env" where
  "env_system mc =
     \<lparr>ev_now_millis = \<lambda>w. (case mc_clock mc w of (t, w') \<Rightarrow> (system_now_millis t, w')),
      ev_fill = \<lambda>n w.
        (case mc_clock mc w of (t, w1) \<Rightarrow>
           (case mc_address mc w1 of (p, w2) \<Rightarrow> (os_fill (system_now_millis t) p n, w2))),
      ev_utc_now = mc_utc_now mc\<rparr>"

text \<open>The fixed environment: its world is the state of the seeded generator, the seed at first.\<close>

definition env_fixed :: "u64 \<Rightarrow> (u64 \<Rightarrow> datetime \<times> u64) \<Rightarrow> u64 env" where
  "env_fixed millis utc_now =
     \<lparr>ev_now_millis = \<lambda>w. (fixed_clock millis, w), ev_fill = seeded_fill, ev_utc_now = utc_now\<rparr>"

text \<open>
  The production entropy is a function of the clock and of an address: a second identifier that is made in the
  same millisecond in a buffer at the same address is the first one again.
\<close>

lemma system_uuid_repeats:
  assumes "mc_clock mc w1 = (t, v1)" and "mc_address mc v1 = (p, u1)"
    and "mc_clock mc w2 = (t, v2)" and "mc_address mc v2 = (p, u2)"
  shows "fst (env_uuid (env_system mc) w1) = fst (env_uuid (env_system mc) w2)"
  using assms by (simp add: env_uuid_def uuid_v4_def env_system_def Let_def)

end
