(* ===== verification/Urls.thy ===== *)
theory Urls
  imports Bytes
begin

text \<open>
  The form encoding that the adapters of \<open>glm/build.rs\<close> and \<open>gemini/provider.rs\<close> write their queries in, and a
  reader of it: what a server decodes is what was encoded.
\<close>

definition unreserved :: "char \<Rightarrow> bool" where
  "unreserved c \<longleftrightarrow>
     (let n = (of_char c :: nat)
      in 65 \<le> n \<and> n \<le> 90 \<or> 97 \<le> n \<and> n \<le> 122 \<or> 48 \<le> n \<and> n \<le> 57
         \<or> c = CHR ''-'' \<or> c = CHR ''_'' \<or> c = CHR ''.'' \<or> c = CHR ''~'')"

definition upper_digit :: "nat \<Rightarrow> char" where
  "upper_digit n = (if n < 10 then char_of (48 + n) else char_of (55 + n))"

definition encode_byte :: "char \<Rightarrow> string" where
  "encode_byte c =
     (if unreserved c then [c]
      else if c = CHR '' '' then ''%20''
      else [CHR ''%'', upper_digit (of_char c div 16), upper_digit (of_char c mod 16)])"

definition urlencode :: "string \<Rightarrow> string" where
  "urlencode s = concat (map encode_byte s)"

definition query_string :: "(string \<times> string) list \<Rightarrow> string" where
  "query_string params = join_with ''&'' (map (\<lambda>(k, v). urlencode k @ ''='' @ urlencode v) params)"

section \<open>Reading a query\<close>

definition upper_value :: "char \<Rightarrow> nat" where
  "upper_value c = (let n = of_char c in if n < 65 then n - 48 else n - 55)"

fun urldecode :: "string \<Rightarrow> string" where
  "urldecode (c # a # b # s) =
     (if c = CHR ''%'' then char_of (16 * upper_value a + upper_value b) # urldecode s
      else c # urldecode (a # b # s))"
| "urldecode s = s"

definition parse_query :: "string \<Rightarrow> (string \<times> string) list" where
  "parse_query q =
     map (\<lambda>p. case split_once (CHR ''='') p of
                 Some (k, v) \<Rightarrow> (urldecode k, urldecode v)
               | None \<Rightarrow> (urldecode p, [])) (split_on (CHR ''&'') q)"

lemma of_char_small [simp]: "n < 256 \<Longrightarrow> (of_char (char_of (n :: nat) :: char) :: nat) = n"
  by (simp add: of_char_of take_bit_eq_mod)

lemma of_char_upper_digit: "n < 16 \<Longrightarrow> (of_char (upper_digit n) :: nat) = (if n < 10 then 48 + n else 55 + n)"
  by (simp add: upper_digit_def)

lemma upper_value_digit: "n < 16 \<Longrightarrow> upper_value (upper_digit n) = n"
  by (simp add: upper_value_def of_char_upper_digit Let_def)

lemma of_char_bound: "(of_char (c :: char) :: nat) < 256"
  by simp

lemma urldecode_plain: "c \<noteq> CHR ''%'' \<Longrightarrow> urldecode (c # s) = c # urldecode s"
  by (cases s rule: urldecode.cases) (cases s; auto)+

lemma urldecode_encode_byte: "urldecode (encode_byte c @ s) = c # urldecode s"
proof -
  have "unreserved c \<Longrightarrow> c \<noteq> CHR ''%''" by (auto simp: unreserved_def)
  moreover have "char_of (16 * upper_value (upper_digit (of_char c div 16)) + upper_value (upper_digit (of_char c mod 16))) = c"
  proof -
    have "(of_char c :: nat) div 16 < 16" using of_char_bound [of c] by linarith
    then show ?thesis by (simp add: upper_value_digit)
  qed
  moreover have "char_of (16 * upper_value (CHR ''2'') + upper_value (CHR ''0'')) = CHR '' ''" by code_simp
  ultimately show ?thesis by (simp add: encode_byte_def urldecode_plain)
qed

lemma urldecode_urlencode: "urldecode (urlencode s) = s"
proof -
  have "urldecode (urlencode s @ []) = s @ urldecode []"
    by (induction s) (simp_all add: urlencode_def urldecode_encode_byte)
  then show ?thesis by simp
qed

text \<open>No separator of a query survives the encoding.\<close>

lemma upper_digit_plain: "n < 16 \<Longrightarrow> upper_digit n \<notin> {CHR ''&'', CHR ''='', CHR ''?'', CHR ''#''}"
  using of_char_upper_digit [of n] by (auto split: if_splits)

lemma urlencode_plain: "set (urlencode s) \<inter> {CHR ''&'', CHR ''='', CHR ''?'', CHR ''#''} = {}"
proof -
  have "set (encode_byte c) \<inter> {CHR ''&'', CHR ''='', CHR ''?'', CHR ''#''} = {}" for c
  proof -
    have "(of_char c :: nat) div 16 < 16" using of_char_bound [of c] by linarith
    then have "upper_digit (of_char c div 16) \<notin> {CHR ''&'', CHR ''='', CHR ''?'', CHR ''#''}"
      "upper_digit (of_char c mod 16) \<notin> {CHR ''&'', CHR ''='', CHR ''?'', CHR ''#''}"
      by (intro upper_digit_plain; simp)+
    moreover have "unreserved c \<Longrightarrow> c \<notin> {CHR ''&'', CHR ''='', CHR ''?'', CHR ''#''}"
      by (auto simp: unreserved_def)
    ultimately show ?thesis by (auto simp: encode_byte_def)
  qed
  then show ?thesis unfolding urlencode_def by (induction s) auto
qed

lemma split_on_join:
  assumes "ws \<noteq> []" and "list_all (\<lambda>w. d \<notin> set w) ws"
  shows "split_on d (join_with [d] ws) = ws"
  using assms
proof (induction ws)
  case (Cons w ws)
  have line: "split_on d (w @ d # s) = w # split_on d s" "split_on d w = [w]" for s
    using Cons.prems(2) by (induction w) auto
  show ?case
  proof (cases "ws = []")
    case True
    then show ?thesis by (simp add: line)
  next
    case False
    then show ?thesis using Cons by (simp add: join_with_Cons line)
  qed
qed simp

lemma parse_query_string:
  assumes "params \<noteq> []"
  shows "parse_query (query_string params) = params"
proof -
  let ?pair = "\<lambda>(k, v). urlencode k @ ''='' @ urlencode v"
  have plain: "CHR ''&'' \<notin> set (?pair p)" for p
    using urlencode_plain [of "fst p"] urlencode_plain [of "snd p"] by (cases p) auto
  have "split_on (CHR ''&'') (query_string params) = map ?pair params"
    unfolding query_string_def using assms plain by (intro split_on_join) (simp_all add: list_all_iff)
  moreover have "(case split_once (CHR ''='') (?pair p) of
      Some (k, v) \<Rightarrow> (urldecode k, urldecode v) | None \<Rightarrow> (urldecode (?pair p), [])) = p" for p
  proof -
    obtain k v where p: "p = (k, v)" by (cases p)
    have "split_once (CHR ''='') (urlencode k @ CHR ''='' # urlencode v) = Some (urlencode k, urlencode v)"
      using urlencode_plain [of k] by (intro split_once_append) auto
    then show ?thesis by (simp add: p urldecode_urlencode)
  qed
  then have "map (\<lambda>p. case split_once (CHR ''='') p of
      Some (k, v) \<Rightarrow> (urldecode k, urldecode v) | None \<Rightarrow> (urldecode p, [])) (map ?pair params) = params"
    unfolding map_map comp_def by (simp only: list.map_ident)
  ultimately show ?thesis by (simp only: parse_query_def)
qed

end
