(* ===== verification/Auth.thy ===== *)
theory Auth
  imports WebEnv Urls
begin

text \<open>
  The authenticators that renew an account's OAuth token: \<open>codex/auth.rs\<close>, \<open>gemini_cli/auth.rs\<close>,
  \<open>antigravity/auth.rs\<close> and \<open>kiro/auth.rs\<close> of \<open>gravity-providers\<close>.

  They send through a client of their own, a \<open>net\<close>, and read the system clock; the Google client credentials
  are fixed when the program is built.
\<close>

section \<open>What the authenticators share\<close>

record 'w oauth =
  oa_net :: "'w net"
  oa_since_epoch :: "'w \<Rightarrow> duration option \<times> 'w"

record oauth_app =
  app_client_id :: string
  app_client_secret :: string

definition secret_of :: "provider_account \<Rightarrow> string \<Rightarrow> string option" where
  "secret_of a k = inline_secret (pa_auth a) k"

definition set_extra :: "string \<Rightarrow> json \<Rightarrow> provider_account \<Rightarrow> provider_account" where
  "set_extra k v a = a\<lparr>pa_auth := (pa_auth a)\<lparr>au_extra := metadata_insert k v (au_extra (pa_auth a))\<rparr>\<rparr>"

text \<open>\<open>map(|k| !k.is_empty()).unwrap_or(false)\<close>\<close>

definition present :: "string option \<Rightarrow> bool" where
  "present s = (case s of None \<Rightarrow> False | Some k \<Rightarrow> k \<noteq> [])"

definition refresh_failed :: "provider_name \<Rightarrow> string \<Rightarrow> string \<Rightarrow> u16 \<Rightarrow> error" where
  "refresh_failed p code name status =
     ProviderErr (provider_error_new p Authentication code
       (name @ '' token refresh failed (status '' @ dec_of (unat status) @ '')''))"

text \<open>The request for a token: sent, its status checked, its body read as a value.\<close>

definition token_exchange ::
    "'w net \<Rightarrow> (http_response \<Rightarrow> bool) \<Rightarrow> (u16 \<Rightarrow> error) \<Rightarrow> http_request \<Rightarrow> 'w \<Rightarrow> (error + json) \<times> 'w" where
  "token_exchange net accepted refused req w =
     (case nt_send net req w of
        (Inl e, w') \<Rightarrow> (Inl (Network (error_text e)), w')
      | (Inr resp, w') \<Rightarrow>
          (if \<not> accepted resp then Inl (refused (rp_status resp))
           else (case value_of_bytes (nt_serde net) (rp_body resp) of
                   None \<Rightarrow> Inl (Network (nt_bad_json net (rp_body resp)))
                 | Some v \<Rightarrow> Inr v), w'))"

definition status_200 :: "http_response \<Rightarrow> bool" where
  "status_200 resp \<longleftrightarrow> rp_status resp = 200"

section \<open>Codex\<close>

definition codex_client_id :: string where
  "codex_client_id = ''app_EMoamEEZ73f0CkXaXp7hrann''"

definition codex_validate :: "provider_account \<Rightarrow> 'w \<Rightarrow> (error + bool) \<times> 'w" where
  "codex_validate a w = (Inr (present (secret_of a ''api_key'')), w)"

definition codex_token_request :: "serde \<Rightarrow> string option \<Rightarrow> string \<Rightarrow> http_request" where
  "codex_token_request sj proxy rt =
     with_body (str_bytes (to_compact sj
         (JObject [(''client_id'', JString codex_client_id), (''refresh_token'', JString rt),
                   (''grant_type'', JString ''refresh_token'')])))
       (with_proxy proxy
         (with_header ''content-type'' ''application/json''
           (with_profile Chrome (request_post ''https://auth.openai.com/oauth/token''))))"

definition codex_refresh ::
    "'w oauth \<Rightarrow> provider_account \<Rightarrow> 'w \<Rightarrow> (error + unit) \<times> provider_account \<times> 'w" where
  "codex_refresh oa a w =
     (case secret_of a ''refresh_token'' of
        None \<Rightarrow> (Inl (Configuration ''Codex: no refresh_token stored''), a, w)
      | Some rt \<Rightarrow>
          (case token_exchange (oa_net oa) status_200 (refresh_failed Codex ''codex_refresh_failed'' ''Codex'')
                  (codex_token_request (nt_serde (oa_net oa)) (tp_proxy_url (pa_transport a)) rt) w of
             (Inl e, w') \<Rightarrow> (Inl e, a, w')
           | (Inr data, w') \<Rightarrow>
               (case jget_str data ''access_token'' of
                  None \<Rightarrow> (Inl (Configuration ''Codex refresh: no access_token in response''), a, w')
                | Some new_access \<Rightarrow>
                    (let a1 = set_extra ''api_key'' (JString new_access) a
                     in (Inr (), (case jget_str data ''refresh_token'' of
                                    None \<Rightarrow> a1 | Some new_rt \<Rightarrow> set_extra ''refresh_token'' (JString new_rt) a1), w')))))"

definition codex_authenticator :: "'w oauth \<Rightarrow> 'w authenticator" where
  "codex_authenticator oa = \<lparr>at_validate = codex_validate, at_refresh = codex_refresh oa\<rparr>"

section \<open>Gemini CLI\<close>

text \<open>The form is put together without encoding its values.\<close>

definition google_form :: "oauth_app \<Rightarrow> string \<Rightarrow> string" where
  "google_form app rt =
     ''client_id='' @ app_client_id app @ ''&client_secret='' @ app_client_secret app
       @ ''&refresh_token='' @ rt @ ''&grant_type=refresh_token''"

definition google_token_request :: "oauth_app \<Rightarrow> string option \<Rightarrow> string \<Rightarrow> http_request" where
  "google_token_request app proxy rt =
     with_body (str_bytes (google_form app rt))
       (with_proxy proxy
         (with_header ''content-type'' ''application/x-www-form-urlencoded''
           (with_profile Chrome (request_post ''https://oauth2.googleapis.com/token''))))"

definition gemini_cli_validate :: "provider_account \<Rightarrow> 'w \<Rightarrow> (error + bool) \<times> 'w" where
  "gemini_cli_validate a w = (Inr (present (secret_of a ''access_token'')), w)"

text \<open>\<open>expires_at\<close> is in seconds; the sum wraps around.\<close>

definition expiry_secs :: "duration option \<Rightarrow> u64 \<Rightarrow> u64" where
  "expiry_secs now expires_in =
     (case now of None \<Rightarrow> 0 | Some d \<Rightarrow> word_of_nat (d div 1000000000)) + expires_in"

definition gemini_cli_refresh ::
    "oauth_app \<Rightarrow> 'w oauth \<Rightarrow> provider_account \<Rightarrow> 'w \<Rightarrow> (error + unit) \<times> provider_account \<times> 'w" where
  "gemini_cli_refresh app oa a w =
     (case secret_of a ''refresh_token'' of
        None \<Rightarrow> (Inl (Configuration ''GeminiCLI: no refresh_token stored''), a, w)
      | Some rt \<Rightarrow>
          (case token_exchange (oa_net oa) status_200
                  (refresh_failed GeminiCli ''gemini_cli_refresh_failed'' ''GeminiCLI'')
                  (google_token_request app (tp_proxy_url (pa_transport a)) rt) w of
             (Inl e, w') \<Rightarrow> (Inl e, a, w')
           | (Inr data, w') \<Rightarrow>
               (case jget_str data ''access_token'' of
                  None \<Rightarrow> (Inl (Configuration ''GeminiCLI refresh: no access_token''), a, w')
                | Some new_access \<Rightarrow>
                    (let a1 = set_extra ''api_key'' (JString new_access) (set_extra ''access_token'' (JString new_access) a);
                         (a2, w2) =
                           (case Option.bind (jget data ''expires_in'') as_i64 of
                              None \<Rightarrow> (a1, w')
                            | Some exp \<Rightarrow>
                                (case oa_since_epoch oa w' of
                                   (now, w2) \<Rightarrow> (set_extra ''expires_at'' (json_i64 (expiry_secs now exp)) a1, w2)));
                         a3 = (case jget_str data ''refresh_token'' of
                                 None \<Rightarrow> a2 | Some new_rt \<Rightarrow> set_extra ''refresh_token'' (JString new_rt) a2)
                     in (Inr (), a3, w2)))))"

definition gemini_cli_authenticator :: "oauth_app \<Rightarrow> 'w oauth \<Rightarrow> 'w authenticator" where
  "gemini_cli_authenticator app oa = \<lparr>at_validate = gemini_cli_validate, at_refresh = gemini_cli_refresh app oa\<rparr>"

section \<open>Antigravity\<close>

definition antigravity_validate :: "provider_account \<Rightarrow> 'w \<Rightarrow> (error + bool) \<times> 'w" where
  "antigravity_validate a w =
     (Inr (present (case secret_of a ''access_token'' of Some k \<Rightarrow> Some k | None \<Rightarrow> secret_of a ''api_key'')), w)"

definition antigravity_refresh ::
    "oauth_app \<Rightarrow> 'w oauth \<Rightarrow> provider_account \<Rightarrow> 'w \<Rightarrow> (error + unit) \<times> provider_account \<times> 'w" where
  "antigravity_refresh app oa a w =
     (case secret_of a ''refresh_token'' of
        None \<Rightarrow> (Inl (Configuration ''AntiGravity: no refresh_token stored''), a, w)
      | Some rt \<Rightarrow>
          (case token_exchange (oa_net oa) status_200
                  (refresh_failed Antigravity ''antigravity_refresh_failed'' ''AntiGravity'')
                  (google_token_request app (tp_proxy_url (pa_transport a)) rt) w of
             (Inl e, w') \<Rightarrow> (Inl e, a, w')
           | (Inr data, w') \<Rightarrow>
               (case jget_str data ''access_token'' of
                  None \<Rightarrow> (Inl (Configuration ''AntiGravity refresh: no access_token''), a, w')
                | Some new_access \<Rightarrow>
                    (let a1 = set_extra ''api_key'' (JString new_access) (set_extra ''access_token'' (JString new_access) a)
                     in (Inr (), (case jget_str data ''refresh_token'' of
                                    None \<Rightarrow> a1 | Some new_rt \<Rightarrow> set_extra ''refresh_token'' (JString new_rt) a1), w')))))"

definition antigravity_authenticator :: "oauth_app \<Rightarrow> 'w oauth \<Rightarrow> 'w authenticator" where
  "antigravity_authenticator app oa =
     \<lparr>at_validate = antigravity_validate, at_refresh = antigravity_refresh app oa\<rparr>"

section \<open>Kiro\<close>

text \<open>A refresh token is stored with its method, and for \<open>idc\<close> with the client's credentials, between bars.\<close>

definition decode_refresh_token :: "string \<Rightarrow> string \<times> string \<times> string option \<times> string option" where
  "decode_refresh_token encoded =
     (let parts = split_on (CHR ''|'') encoded
      in if length parts < 2 then (encoded, ''desktop'', None, None)
         else if last parts = ''idc'' then
           (parts ! 0, ''idc'', Some (parts ! 1), if length parts > 2 then Some (parts ! 2) else None)
         else if last parts = ''social'' then (parts ! 0, ''social'', None, None)
         else (parts ! 0, ''desktop'', None, None))"

definition encode_refresh_token :: "string \<Rightarrow> string \<Rightarrow> string option \<Rightarrow> string option \<Rightarrow> string" where
  "encode_refresh_token rt method cid cs =
     (case (cid, cs) of
        (Some i, Some s) \<Rightarrow>
          if method = ''idc'' then rt @ ''|'' @ i @ ''|'' @ s @ ''|idc''
          else if method = ''social'' then rt @ ''|social'' else rt @ ''|desktop''
      | _ \<Rightarrow> if method = ''social'' then rt @ ''|social'' else rt @ ''|desktop'')"

definition kiro_validate :: "provider_account \<Rightarrow> 'w \<Rightarrow> (error + bool) \<times> 'w" where
  "kiro_validate a w = (Inr (present (secret_of a ''access_token'')), w)"

definition or_secret :: "string option \<Rightarrow> provider_account \<Rightarrow> string \<Rightarrow> string option" where
  "or_secret s a k = (case s of Some v \<Rightarrow> Some v | None \<Rightarrow> secret_of a k)"

text \<open>The address, the payload and the user agent of each method.\<close>

definition kiro_region :: "provider_account \<Rightarrow> string" where
  "kiro_region a = (case secret_of a ''region'' of Some r \<Rightarrow> r | None \<Rightarrow> ''us-east-1'')"

definition kiro_idc_target :: "provider_account \<Rightarrow> string \<Rightarrow> string \<Rightarrow> string \<Rightarrow> string \<times> json \<times> string" where
  "kiro_idc_target a rt cid cs =
     (let r = (case or_secret (secret_of a ''oidc_region'') a ''idc_region'' of Some r \<Rightarrow> r | None \<Rightarrow> kiro_region a)
      in (''https://oidc.'' @ r @ ''.amazonaws.com/token'',
          JObject [(''refreshToken'', JString rt), (''clientId'', JString cid), (''clientSecret'', JString cs),
                   (''grantType'', JString ''refresh_token'')],
          ''aws-sdk-js/3.738.0 ua/2.1 os/other lang/js md/browser#unknown_unknown api/sso-oidc#3.738.0 m/E KiroIDE''))"

definition kiro_desktop_target :: "provider_account \<Rightarrow> string \<Rightarrow> string \<Rightarrow> string \<times> json \<times> string" where
  "kiro_desktop_target a method rt =
     (''https://prod.'' @ kiro_region a @ ''.auth.desktop.kiro.dev/refreshToken'',
      JObject [(''refreshToken'', JString rt)],
      if method = ''social'' then ''KiroIDE-0.6.4''
      else ''aws-sdk-js/3.0.0 KiroIDE-0.1.0 os/other lang/js md/nodejs/18.0.0'')"

definition kiro_target ::
    "provider_account \<Rightarrow> string \<Rightarrow> string \<Rightarrow> string option \<Rightarrow> string option \<Rightarrow> error + string \<times> json \<times> string" where
  "kiro_target a method rt client_id client_secret =
     (if method = ''idc'' then
        (case or_secret client_id a ''client_id'' of
           None \<Rightarrow> Inl (Configuration ''Kiro IDC: missing client_id'')
         | Some cid \<Rightarrow>
             (case or_secret client_secret a ''client_secret'' of
                None \<Rightarrow> Inl (Configuration ''Kiro IDC: missing client_secret'')
              | Some cs \<Rightarrow> Inr (kiro_idc_target a rt cid cs)))
      else Inr (kiro_desktop_target a method rt))"

definition kiro_token_request :: "serde \<Rightarrow> string option \<Rightarrow> string \<times> json \<times> string \<Rightarrow> http_request" where
  "kiro_token_request sj proxy target =
     (case target of (url, payload, ua) \<Rightarrow>
        with_body (str_bytes (to_compact sj payload))
          (with_proxy proxy
            (with_headers [(''content-type'', ''application/json''), (''accept'', ''application/json''),
                           (''amz-sdk-request'', ''attempt=1; max=1''), (''x-amzn-kiro-agent-mode'', ''vibe''),
                           (''user-agent'', ua), (''connection'', ''close'')]
              (with_profile Chrome (request_post url)))))"

text \<open>\<open>data.get(a).or_else(|| data.get(b))\<close>\<close>

definition either_field :: "json \<Rightarrow> string \<Rightarrow> string \<Rightarrow> json option" where
  "either_field data k k' = (case jget data k of Some v \<Rightarrow> Some v | None \<Rightarrow> jget data k')"

definition expiry_millis :: "duration option \<Rightarrow> u64 \<Rightarrow> u64" where
  "expiry_millis now exp =
     (case now of None \<Rightarrow> 0 | Some d \<Rightarrow> word_of_nat (d div 1000000)) + exp * 1000"

definition kiro_store ::
    "'w oauth \<Rightarrow> string \<Rightarrow> string \<Rightarrow> json \<Rightarrow> string \<Rightarrow> provider_account \<Rightarrow> 'w \<Rightarrow> provider_account \<times> 'w" where
  "kiro_store oa method rt data new_access a w =
     (let a1 = set_extra ''api_key'' (JString new_access) (set_extra ''access_token'' (JString new_access) a);
          new_rt = (case Option.bind (either_field data ''refresh_token'' ''refreshToken'') as_str of
                      Some r \<Rightarrow> r | None \<Rightarrow> rt);
          a2 = set_extra ''refresh_token'' (JString (encode_refresh_token new_rt method None None)) a1
      in (case Option.bind (either_field data ''expires_in'' ''expiresIn'') as_i64 of
            None \<Rightarrow> (a2, w)
          | Some exp \<Rightarrow>
              (case oa_since_epoch oa w of
                 (now, w') \<Rightarrow> (set_extra ''expires_at'' (json_i64 (expiry_millis now exp)) a2, w'))))"

definition kiro_method :: "provider_account \<Rightarrow> string \<Rightarrow> string" where
  "kiro_method a decoded = (case secret_of a ''auth_method'' of Some m \<Rightarrow> m | None \<Rightarrow> decoded)"

definition kiro_refresh ::
    "'w oauth \<Rightarrow> provider_account \<Rightarrow> 'w \<Rightarrow> (error + unit) \<times> provider_account \<times> 'w" where
  "kiro_refresh oa a w =
     (case secret_of a ''refresh_token'' of
        None \<Rightarrow> (Inl (Configuration ''Kiro: no refresh_token stored''), a, w)
      | Some raw_rt \<Rightarrow>
          (case decode_refresh_token raw_rt of
             (rt, decoded, client_id, client_secret) \<Rightarrow>
               (case kiro_target a (kiro_method a decoded) rt client_id client_secret of
                  Inl e \<Rightarrow> (Inl e, a, w)
                | Inr target \<Rightarrow>
                    (case token_exchange (oa_net oa) is_success (refresh_failed Kiro ''kiro_refresh_failed'' ''Kiro'')
                            (kiro_token_request (nt_serde (oa_net oa)) (tp_proxy_url (pa_transport a)) target) w of
                       (Inl e, w') \<Rightarrow> (Inl e, a, w')
                     | (Inr data, w') \<Rightarrow>
                         (case Option.bind (either_field data ''access_token'' ''accessToken'') as_str of
                            None \<Rightarrow> (Inl (Configuration ''Kiro refresh: no access_token''), a, w')
                          | Some new_access \<Rightarrow>
                              (case kiro_store oa (kiro_method a decoded) rt data new_access a w' of
                                 (a', w2) \<Rightarrow> (Inr (), a', w2)))))))"

definition kiro_authenticator :: "'w oauth \<Rightarrow> 'w authenticator" where
  "kiro_authenticator oa = \<lparr>at_validate = kiro_validate, at_refresh = kiro_refresh oa\<rparr>"

end
