(* ===== verification/Afc.thy ===== *)
theory Afc
  imports Core "HOL-Library.Multiset"
begin

text \<open>
  Automatic function calling: the tool registry and the parallel executor of
  \<open>gravity-client/src/afc.rs\<close>.

  A handler is a state-passing function over the world; \<open>Inl\<close> is a panic with its message.  The
  executor is a step relation: a task acquires one of the eight permits, its handler runs to its end,
  and the joins are taken in the order the tasks finished.  \<open>execute_in_order\<close> is the function that runs
  a given completion order; the client uses it with an order the scheduler chooses.
\<close>

section \<open>The tool registry\<close>

type_synonym 'w tool_handler = "jmap \<Rightarrow> 'w \<Rightarrow> (string + tool_output) \<times> 'w"
type_synonym 'w tool_registry = "(string \<times> 'w tool_handler) list"

definition max_tool_workers :: nat where
  "max_tool_workers = 8"

definition tools_new :: "'w tool_registry" where
  "tools_new = []"

definition tools_register :: "string \<Rightarrow> 'w tool_handler \<Rightarrow> 'w tool_registry \<Rightarrow> 'w tool_registry" where
  "tools_register name h reg = alist_put name h reg"

definition tools_register_fn ::
    "string \<Rightarrow> (jmap \<Rightarrow> string + tool_output) \<Rightarrow> 'w tool_registry \<Rightarrow> 'w tool_registry" where
  "tools_register_fn name f reg = tools_register name (\<lambda>args w. (f args, w)) reg"

definition tools_contains :: "'w tool_registry \<Rightarrow> string \<Rightarrow> bool" where
  "tools_contains reg name \<longleftrightarrow> map_of reg name \<noteq> None"

definition tools_len :: "'w tool_registry \<Rightarrow> nat" where
  "tools_len reg = length reg"

definition tools_is_empty :: "'w tool_registry \<Rightarrow> bool" where
  "tools_is_empty reg \<longleftrightarrow> reg = []"

interpretation tools: key_store tools_new tools_register "map_of :: 'w tool_registry \<Rightarrow> string \<Rightarrow> 'w tool_handler option"
  by unfold_locales (auto simp: tools_new_def tools_register_def)

lemma tools_contains_register:
  "tools_contains (tools_register n h reg) m \<longleftrightarrow> m = n \<or> tools_contains reg m"
  by (simp add: tools_contains_def tools.look_put)

section \<open>One call\<close>

definition no_handler_message :: "string \<Rightarrow> string" where
  "no_handler_message name =
     ''no handler registered for tool '' @ [CHR 0x27] @ name @ [CHR 0x27]"

definition run_call :: "'w tool_registry \<Rightarrow> tool_call \<Rightarrow> 'w \<Rightarrow> (string + tool_result) \<times> 'w" where
  "run_call reg call w =
     (case map_of reg (tc_name call) of
        None \<Rightarrow> (Inr (result_from_output call (tool_output_error (no_handler_message (tc_name call)))), w)
      | Some h \<Rightarrow>
          (case h (tc_arguments call) w of
             (Inl msg, w') \<Rightarrow> (Inl msg, w')
           | (Inr out, w') \<Rightarrow> (Inr (result_from_output call out), w')))"

definition panic_result :: "string \<Rightarrow> tool_result" where
  "panic_result msg =
     \<lparr>tr_tool_call_id = [], tr_name = [], tr_content = JObject [(''error'', JString msg)],
      tr_is_error = True, tr_structured = None\<rparr>"

text \<open>
  A finished task is joined: its result goes to its slot, a panic to the first slot that is empty.
\<close>

fun join_one :: "nat \<times> (string + tool_result) \<Rightarrow> tool_result option list \<Rightarrow> tool_result option list" where
  "join_one (idx, Inr res) results = results[idx := Some res]"
| "join_one (idx, Inl msg) results =
     update_first (\<lambda>s. s = None) (\<lambda>_. Some (panic_result msg)) results"

text \<open>\<open>map(|r| r.expect(..))\<close>: an empty slot is a panic of the executor.\<close>

definition collect_results :: "tool_result option list \<Rightarrow> tool_result list option" where
  "collect_results results =
     (if None \<in> set results then None else Some (map the results))"

fun complete_all ::
    "'w tool_registry \<Rightarrow> tool_call list \<Rightarrow> nat list \<Rightarrow> 'w
       \<Rightarrow> (nat \<times> (string + tool_result)) list \<times> 'w" where
  "complete_all reg calls [] w = ([], w)"
| "complete_all reg calls (i # is) w =
     (let (r, w') = run_call reg (calls ! i) w; (js, w'') = complete_all reg calls is w'
      in ((i, r) # js, w''))"

definition execute_in_order ::
    "'w tool_registry \<Rightarrow> tool_call list \<Rightarrow> nat list \<Rightarrow> 'w \<Rightarrow> tool_result list option \<times> 'w" where
  "execute_in_order reg calls order w =
     (let (js, w') = complete_all reg calls order w
      in (collect_results (fold join_one js (replicate (length calls) None)), w'))"

section \<open>The concurrent executor\<close>

record 'w exec_state =
  es_waiting :: "nat list"
  es_running :: "nat list"
  es_finished :: "(nat \<times> (string + tool_result)) list"
  es_results :: "tool_result option list"
  es_order :: "nat list"
  es_world :: 'w

definition exec_init :: "tool_call list \<Rightarrow> 'w \<Rightarrow> 'w exec_state" where
  "exec_init calls w =
     \<lparr>es_waiting = [0..<length calls], es_running = [], es_finished = [],
      es_results = replicate (length calls) None, es_order = [], es_world = w\<rparr>"

inductive tool_step :: "'w tool_registry \<Rightarrow> tool_call list \<Rightarrow> 'w exec_state \<Rightarrow> 'w exec_state \<Rightarrow> bool"
  for reg :: "'w tool_registry" and calls :: "tool_call list" where
  acquire: "i \<in> set (es_waiting s) \<Longrightarrow> length (es_running s) < max_tool_workers \<Longrightarrow>
     tool_step reg calls s
       (s\<lparr>es_waiting := remove1 i (es_waiting s), es_running := i # es_running s\<rparr>)"
| finish: "i \<in> set (es_running s) \<Longrightarrow> run_call reg (calls ! i) (es_world s) = (r, w') \<Longrightarrow>
     tool_step reg calls s
       (s\<lparr>es_running := remove1 i (es_running s), es_finished := es_finished s @ [(i, r)],
         es_order := es_order s @ [i], es_world := w'\<rparr>)"
| join: "es_finished s = j # js \<Longrightarrow>
     tool_step reg calls s (s\<lparr>es_finished := js, es_results := join_one j (es_results s)\<rparr>)"

inductive_cases tool_stepE: "tool_step reg calls s s'"

definition exec_final :: "'w exec_state \<Rightarrow> bool" where
  "exec_final s \<longleftrightarrow> es_waiting s = [] \<and> es_running s = [] \<and> es_finished s = []"

text \<open>
  The invariant: every task is in one place; the tasks that finished did so as in a sequential run in
  their order of completion; and the results are the joins of a prefix of them.
\<close>

definition exec_inv :: "'w tool_registry \<Rightarrow> tool_call list \<Rightarrow> 'w \<Rightarrow> 'w exec_state \<Rightarrow> bool" where
  "exec_inv reg calls w0 s \<longleftrightarrow>
     mset (es_waiting s) + mset (es_running s) + mset (es_order s) = mset [0..<length calls]
   \<and> length (es_running s) \<le> max_tool_workers
   \<and> (\<exists>joined. complete_all reg calls (es_order s) w0 = (joined @ es_finished s, es_world s)
        \<and> es_results s = fold join_one joined (replicate (length calls) None))"

lemma complete_all_append:
  "complete_all reg calls (xs @ ys) w =
     (let (js, w') = complete_all reg calls xs w; (ks, w'') = complete_all reg calls ys w'
      in (js @ ks, w''))"
  by (induction xs arbitrary: w) (simp_all add: split_beta Let_def)

lemma map_fst_complete_all: "map fst (fst (complete_all reg calls order w)) = order"
  by (induction order arbitrary: w) (simp_all add: split_beta Let_def)

lemma exec_inv_init: "exec_inv reg calls w (exec_init calls w)"
  by (simp add: exec_inv_def exec_init_def)

lemma exec_inv_step: "tool_step reg calls s s' \<Longrightarrow> exec_inv reg calls w0 s \<Longrightarrow> exec_inv reg calls w0 s'"
proof (induction rule: tool_step.induct)
  case (acquire i s)
  then show ?case by (simp add: exec_inv_def)
next
  case (finish i s r w')
  have "mset (es_running s) = add_mset i (mset (remove1 i (es_running s)))"
    using finish by simp
  then have m: "mset (es_waiting s) + mset (remove1 i (es_running s)) + mset (es_order s @ [i])
      = mset (es_waiting s) + mset (es_running s) + mset (es_order s)"
    by (simp del: mset_remove1)
  have "length (remove1 i (es_running s)) \<le> length (es_running s)"
    by (simp add: length_remove1)
  moreover obtain joined where inv:
    "mset (es_waiting s) + mset (es_running s) + mset (es_order s) = mset [0..<length calls]"
    "length (es_running s) \<le> max_tool_workers"
    "complete_all reg calls (es_order s) w0 = (joined @ es_finished s, es_world s)"
    "es_results s = fold join_one joined (replicate (length calls) None)"
    using finish by (auto simp: exec_inv_def)
  moreover have "complete_all reg calls (es_order s @ [i]) w0 = (joined @ es_finished s @ [(i, r)], w')"
    using finish(2) inv(3) by (simp add: complete_all_append)
  ultimately show ?case
    unfolding exec_inv_def using m
    by (intro conjI exI [of _ joined]) (simp_all del: mset_remove1 mset_append mset_upt)
next
  case (join s j js)
  then obtain joined where
    "complete_all reg calls (es_order s) w0 = (joined @ j # js, es_world s)"
    "es_results s = fold join_one joined (replicate (length calls) None)"
    by (auto simp: exec_inv_def)
  then have "complete_all reg calls (es_order s) w0 = ((joined @ [j]) @ js, es_world s)"
    "join_one j (es_results s) = fold join_one (joined @ [j]) (replicate (length calls) None)"
    by simp_all
  with join show ?case unfolding exec_inv_def by fastforce
qed

lemma exec_inv_reachable:
  "(tool_step reg calls)\<^sup>*\<^sup>* (exec_init calls w) s \<Longrightarrow> exec_inv reg calls w s"
  by (induction rule: rtranclp_induct) (auto intro: exec_inv_init exec_inv_step)

text \<open>Every step uses up work.\<close>

definition exec_work :: "'w exec_state \<Rightarrow> nat" where
  "exec_work s = 3 * length (es_waiting s) + 2 * length (es_running s) + length (es_finished s)"

lemma exec_work_step: "tool_step reg calls s s' \<Longrightarrow> exec_work s = Suc (exec_work s')"
proof (induction rule: tool_step.induct)
  case (acquire i s)
  then obtain m where "length (es_waiting s) = Suc m" by (cases "es_waiting s") auto
  with acquire show ?case by (simp add: exec_work_def length_remove1)
next
  case (finish i s r w')
  then obtain m where "length (es_running s) = Suc m" by (cases "es_running s") auto
  with finish show ?case by (simp add: exec_work_def length_remove1)
next
  case (join s j js)
  then show ?case by (simp add: exec_work_def)
qed

lemma exec_progress: "\<not> exec_final s \<Longrightarrow> \<exists>s'. tool_step reg calls s s'"
proof -
  assume nf: "\<not> exec_final s"
  show ?thesis
  proof (cases "es_finished s")
    case (Cons j js)
    then show ?thesis by (blast intro: tool_step.join)
  next
    case Nil
    show ?thesis
    proof (cases "es_running s")
      case (Cons i rs)
      obtain r w' where "run_call reg (calls ! i) (es_world s) = (r, w')"
        by (cases "run_call reg (calls ! i) (es_world s)")
      moreover have "i \<in> set (es_running s)" using Cons by simp
      ultimately show ?thesis by (blast intro: tool_step.finish)
    next
      case running: Nil
      then obtain i where "i \<in> set (es_waiting s)"
        using nf Nil by (cases "es_waiting s") (auto simp: exec_final_def)
      moreover have "length (es_running s) < max_tool_workers"
        using running by (simp add: max_tool_workers_def)
      ultimately show ?thesis by (blast intro: tool_step.acquire)
    qed
  qed
qed

text \<open>
  C17.  The executor is bounded, live and ends.  In every reachable state at most eight handlers run; a
  reachable state where work is left can always step; and a run has at most three steps per call, so
  every run that goes on reaches a final state.
\<close>

theorem executor_bounded_live:
  assumes "((tool_step reg calls) ^^ n) (exec_init calls w) s"
  shows "length (es_running s) \<le> 8
       \<and> n + exec_work s = 3 * length calls
       \<and> (exec_final s \<or> (\<exists>s'. tool_step reg calls s s'))
       \<and> (exec_final s \<longleftrightarrow> n = 3 * length calls)"
proof -
  have reach: "(tool_step reg calls)\<^sup>*\<^sup>* (exec_init calls w) s"
    using assms by (rule relpowp_imp_rtranclp)
  have work: "n + exec_work s = 3 * length calls" using assms
  proof (induction n arbitrary: s)
    case 0
    then show ?case by (auto simp: exec_work_def exec_init_def)
  next
    case (Suc n)
    then obtain s1 where "((tool_step reg calls) ^^ n) (exec_init calls w) s1" "tool_step reg calls s1 s"
      by auto
    then show ?case using Suc.IH exec_work_step by fastforce
  qed
  have "exec_work s = 0 \<longleftrightarrow> exec_final s" by (auto simp: exec_work_def exec_final_def)
  then show ?thesis
    using work exec_inv_reachable [OF reach] exec_progress [of s]
    by (auto simp: exec_inv_def max_tool_workers_def)
qed

lemma executor_bounded_live_witness:
  "\<exists>s. ((tool_step [] [\<lparr>tc_id = ''1'', tc_name = ''f'', tc_arguments = []\<rparr>]) ^^ 1)
        (exec_init [\<lparr>tc_id = ''1'', tc_name = ''f'', tc_arguments = []\<rparr>] ()) s
      \<and> length (es_running s) \<le> 8 \<and> 1 + exec_work s = 3 \<and> \<not> exec_final s"
proof -
  let ?calls = "[\<lparr>tc_id = ''1'', tc_name = ''f'', tc_arguments = []\<rparr>]"
  let ?s = "exec_init ?calls ()"
  let ?t = "?s\<lparr>es_waiting := remove1 0 (es_waiting ?s), es_running := 0 # es_running ?s\<rparr>"
  have "tool_step [] ?calls ?s ?t"
    by (rule tool_step.acquire) (simp_all add: exec_init_def max_tool_workers_def)
  then have step: "((tool_step [] ?calls) ^^ 1) ?s ?t" by auto
  show ?thesis
    using executor_bounded_live [OF step] step by auto
qed

section \<open>Results\<close>

text \<open>Handlers that return for every argument in every world.\<close>

definition tools_total :: "'w tool_registry \<Rightarrow> bool" where
  "tools_total reg \<longleftrightarrow> (\<forall>e\<in>set reg. \<forall>args w. \<exists>out w'. snd e args w = (Inr out, w'))"

lemma run_call_total:
  assumes "tools_total reg"
  shows "\<exists>r w'. run_call reg c w = (Inr r, w') \<and> tr_tool_call_id r = tc_id c \<and> tr_name r = tc_name c"
proof (cases "map_of reg (tc_name c)")
  case None
  then show ?thesis by (simp add: run_call_def core_simps)
next
  case (Some h)
  then have "(tc_name c, h) \<in> set reg" by (rule map_of_SomeD)
  then obtain out w' where "h (tc_arguments c) w = (Inr out, w')"
    using assms unfolding tools_total_def by fastforce
  then show ?thesis by (simp add: run_call_def Some core_simps)
qed

lemma complete_all_total:
  assumes "tools_total reg"
  shows "\<forall>j\<in>set (fst (complete_all reg calls order w)).
           \<exists>r. snd j = Inr r \<and> tr_tool_call_id r = tc_id (calls ! fst j) \<and> tr_name r = tc_name (calls ! fst j)"
proof (induction order arbitrary: w)
  case Nil
  then show ?case by simp
next
  case (Cons i order)
  obtain r w' where "run_call reg (calls ! i) w = (Inr r, w')"
    "tr_tool_call_id r = tc_id (calls ! i)" "tr_name r = tc_name (calls ! i)"
    using run_call_total [OF assms] by blast
  then show ?case using Cons [of w'] by (simp add: split_beta Let_def)
qed

lemma length_join_one [simp]: "length (join_one j rs) = length rs"
  by (cases "(j, rs)" rule: join_one.cases) simp_all

lemma length_fold_join [simp]: "length (fold join_one js rs) = length rs"
  by (induction js arbitrary: rs) simp_all

lemma fold_join_nth:
  assumes "\<forall>j\<in>set js. \<exists>r. snd j = Inr r" and "k < length rs" and "distinct (map fst js)"
  shows "fold join_one js rs ! k =
           (case map_of js k of Some x \<Rightarrow> Some (projr x) | None \<Rightarrow> rs ! k)"
  using assms
proof (induction js arbitrary: rs)
  case Nil
  then show ?case by simp
next
  case (Cons j js)
  obtain i r where j: "j = (i, Inr r)" using Cons.prems(1) by (cases j) auto
  have "fold join_one (j # js) rs ! k =
      (case map_of js k of Some x \<Rightarrow> Some (projr x) | None \<Rightarrow> rs[i := Some r] ! k)"
    using Cons.IH [of "rs[i := Some r]"] Cons.prems j by simp
  moreover have "map_of js i = None" using Cons.prems(3) j by (auto simp: map_of_eq_None_iff)
  ultimately show ?case using j Cons.prems(2) by (auto split: option.splits)
qed

lemma mset_upt_distinct: "mset order = mset [0..<n] \<Longrightarrow> distinct order \<and> set order = {0..<n}"
  by (metis distinct_upt mset_eq_imp_distinct_iff mset_eq_setD set_upt)

text \<open>In any order of completion, a total registry fills every slot with the result of its own call.\<close>

lemma execute_in_order_slots:
  assumes "tools_total reg" and "mset order = mset [0..<length calls]"
  shows "\<exists>js w'. complete_all reg calls order w = (js, w')
       \<and> execute_in_order reg calls order w =
           (Some (map (\<lambda>k. projr (the (map_of js k))) [0..<length calls]), w')
       \<and> (\<forall>k<length calls. \<exists>r. map_of js k = Some (Inr r)
             \<and> tr_tool_call_id r = tc_id (calls ! k) \<and> tr_name r = tc_name (calls ! k))"
proof -
  obtain js w' where c: "complete_all reg calls order w = (js, w')" by (cases "complete_all reg calls order w")
  have keys: "map fst js = order" using map_fst_complete_all [of reg calls order w] c by simp
  have ok: "\<forall>j\<in>set js. \<exists>r. snd j = Inr r \<and> tr_tool_call_id r = tc_id (calls ! fst j) \<and> tr_name r = tc_name (calls ! fst j)"
    using complete_all_total [OF assms(1), of calls order w] c by simp
  have d: "distinct (map fst js)" "set (map fst js) = {0..<length calls}"
    using mset_upt_distinct [OF assms(2)] keys by simp_all
  let ?rs = "fold join_one js (replicate (length calls) None)"
  have slot: "\<exists>r. map_of js k = Some (Inr r) \<and> tr_tool_call_id r = tc_id (calls ! k)
      \<and> tr_name r = tc_name (calls ! k)" if k: "k < length calls" for k
  proof -
    obtain x where "(k, x) \<in> set js" using d(2) k by (metis (no_types, lifting) atLeast0LessThan imageE lessThan_iff list.set_map prod.collapse)
    then show ?thesis using ok d(1) by (fastforce simp: map_of_eq_Some_iff)
  qed
  have ok': "\<forall>j\<in>set js. \<exists>r. snd j = Inr r" using ok by blast
  have "?rs ! k = Some (projr (the (map_of js k)))" if "k < length calls" for k
    using slot [OF that] fold_join_nth [of js k "replicate (length calls) None", OF ok'] d(1) that by auto
  then have rs: "?rs = map (\<lambda>k. Some (projr (the (map_of js k)))) [0..<length calls]"
    by (intro nth_equalityI) simp_all
  have "None \<notin> set ?rs" unfolding rs by auto
  then have "collect_results ?rs = Some (map (\<lambda>k. projr (the (map_of js k))) [0..<length calls])"
    unfolding collect_results_def rs by simp
  then show ?thesis using c slot by (auto simp: execute_in_order_def)
qed

lemma execute_in_order_ids:
  assumes "tools_total reg" and "mset order = mset [0..<length calls]"
  shows "\<exists>rs w'. execute_in_order reg calls order w = (Some rs, w') \<and> length rs = length calls
           \<and> map tr_tool_call_id rs = map tc_id calls"
proof -
  obtain js w' where "complete_all reg calls order w = (js, w')"
    and "execute_in_order reg calls order w =
      (Some (map (\<lambda>k. projr (the (map_of js k))) [0..<length calls]), w')"
    and slot: "\<forall>k<length calls. \<exists>r. map_of js k = Some (Inr r)
             \<and> tr_tool_call_id r = tc_id (calls ! k) \<and> tr_name r = tc_name (calls ! k)"
    using execute_in_order_slots [OF assms, of w] by auto
  moreover have "map tr_tool_call_id (map (\<lambda>k. projr (the (map_of js k))) [0..<length calls]) = map tc_id calls"
    using slot by (auto intro!: nth_equalityI)
  ultimately show ?thesis by simp
qed

text \<open>
  C9.  The parallel executor returns one result per call, in the order of the calls.  Every run of the
  concurrent executor that reaches its final state did what the sequential function does for the order
  in which the tasks finished, a permutation of the calls; and when no handler panics, that is a list of
  results, one per call in the original order, each carrying its call's id and name, whatever the
  schedule; a call without a handler gets an error result.
\<close>

theorem executor_in_call_order:
  assumes "(tool_step reg calls)\<^sup>*\<^sup>* (exec_init calls w) s" and "exec_final s" and "tools_total reg"
  shows "mset (es_order s) = mset [0..<length calls]
       \<and> (\<exists>rs. execute_in_order reg calls (es_order s) w = (Some rs, es_world s)
            \<and> es_results s = map Some rs
            \<and> map tr_tool_call_id rs = map tc_id calls \<and> map tr_name rs = map tc_name calls
            \<and> (\<forall>k<length calls. map_of reg (tc_name (calls ! k)) = None \<longrightarrow> tr_is_error (rs ! k)))"
proof -
  have inv: "exec_inv reg calls w s" by (rule exec_inv_reachable [OF assms(1)])
  have order: "mset (es_order s) = mset [0..<length calls]"
    using inv assms(2) by (simp add: exec_inv_def exec_final_def)
  obtain js where js: "complete_all reg calls (es_order s) w = (js, es_world s)"
    and res: "es_results s = fold join_one js (replicate (length calls) None)"
    using inv assms(2) by (auto simp: exec_inv_def exec_final_def)
  obtain rs where rs: "execute_in_order reg calls (es_order s) w = (Some rs, es_world s)"
    and rs_def: "rs = map (\<lambda>k. projr (the (map_of js k))) [0..<length calls]"
    and slot: "\<forall>k<length calls. \<exists>r. map_of js k = Some (Inr r)
             \<and> tr_tool_call_id r = tc_id (calls ! k) \<and> tr_name r = tc_name (calls ! k)"
    using execute_in_order_slots [OF assms(3) order, of w] js by auto
  have "collect_results (es_results s) = Some rs"
    using rs js res by (simp add: execute_in_order_def)
  then have "es_results s = map Some rs"
    unfolding collect_results_def by (auto split: if_splits intro!: nth_equalityI) (metis nth_mem option.collapse)
  moreover have "map tr_tool_call_id rs = map tc_id calls" "map tr_name rs = map tc_name calls"
    using slot by (auto simp: rs_def intro!: nth_equalityI)
  moreover have "tr_is_error (rs ! k)" if k: "k < length calls" "map_of reg (tc_name (calls ! k)) = None" for k
  proof -
    have call: "x = Inr (result_from_output (calls ! k) (tool_output_error (no_handler_message (tc_name (calls ! k)))))"
      if "(k, x) \<in> set (fst (complete_all reg calls order v))" for x order v
      using that k(2) by (induction order arbitrary: v) (auto simp: split_beta Let_def run_call_def)
    obtain r where "map_of js k = Some (Inr r)" using slot k(1) by blast
    then show ?thesis
      using call [of "Inr r" "es_order s" w] js k(1) map_of_SomeD [of js k "Inr r"]
      by (simp add: rs_def core_simps)
  qed
  ultimately show ?thesis using order rs by blast
qed

definition sample_call :: "string \<Rightarrow> string \<Rightarrow> tool_call" where
  "sample_call k name = \<lparr>tc_id = k, tc_name = name, tc_arguments = []\<rparr>"

lemma executor_in_call_order_witness:
  "\<exists>s. (tool_step [] [sample_call ''1'' ''f''])\<^sup>*\<^sup>* (exec_init [sample_call ''1'' ''f''] ()) s \<and> exec_final s
     \<and> (\<exists>rs. es_results s = map Some rs \<and> map tr_tool_call_id rs = [''1''] \<and> tr_is_error (rs ! 0))"
proof -
  let ?c = "[sample_call ''1'' ''f'']"
  let ?r = "result_from_output (sample_call ''1'' ''f'') (tool_output_error (no_handler_message ''f''))"
  let ?s0 = "exec_init ?c ()"
  let ?s1 = "?s0\<lparr>es_waiting := remove1 0 (es_waiting ?s0), es_running := 0 # es_running ?s0\<rparr>"
  let ?s2 = "?s1\<lparr>es_running := remove1 0 (es_running ?s1), es_finished := es_finished ?s1 @ [(0, Inr ?r)],
                 es_order := es_order ?s1 @ [0], es_world := ()\<rparr>"
  let ?s3 = "?s2\<lparr>es_finished := [], es_results := join_one (0, Inr ?r) (es_results ?s2)\<rparr>"
  have "tool_step [] ?c ?s0 ?s1"
    by (rule tool_step.acquire) (simp_all add: exec_init_def max_tool_workers_def)
  moreover have "tool_step [] ?c ?s1 ?s2"
    by (rule tool_step.finish) (simp_all add: exec_init_def run_call_def sample_call_def)
  moreover have "tool_step [] ?c ?s2 ?s3"
    by (rule tool_step.join) (simp add: exec_init_def)
  ultimately have r: "(tool_step [] ?c)\<^sup>*\<^sup>* ?s0 ?s3"
    by (rule converse_rtranclp_into_rtranclp
        [OF _ converse_rtranclp_into_rtranclp [OF _ r_into_rtranclp [of "tool_step [] ?c"]]])
  have f: "exec_final ?s3" by (simp add: exec_final_def exec_init_def)
  obtain s where r': "(tool_step [] ?c)\<^sup>*\<^sup>* ?s0 s" and f': "exec_final s" using r f by blast
  have t: "tools_total []" by (simp add: tools_total_def)
  note result = executor_in_call_order [OF r' f' t, THEN conjunct2]
  then obtain rs where rs: "es_results s = map Some rs" "map tr_tool_call_id rs = map tc_id ?c"
    "\<forall>k<length ?c. map_of [] (tc_name (?c ! k)) = (None :: unit tool_handler option) \<longrightarrow> tr_is_error (rs ! k)"
    by (elim exE conjE) (rule that)
  then have "es_results s = map Some rs \<and> map tr_tool_call_id rs = [''1''] \<and> tr_is_error (rs ! 0)"
    by (simp add: sample_call_def)
  then have "\<exists>rs. es_results s = map Some rs \<and> map tr_tool_call_id rs = [''1''] \<and> tr_is_error (rs ! 0)" ..
  with r' f' show ?thesis by (intro exI [of _ s] conjI)
qed

text \<open>Handlers that do not depend on the world give the same results under every schedule.\<close>

definition tools_stateless :: "'w tool_registry \<Rightarrow> bool" where
  "tools_stateless reg \<longleftrightarrow> (\<forall>e\<in>set reg. \<forall>args. \<exists>out. \<forall>w. snd e args w = (Inr out, w))"

lemma run_call_stateless:
  "tools_stateless reg \<Longrightarrow> \<exists>r. \<forall>w. run_call reg c w = (Inr r, w)"
proof (cases "map_of reg (tc_name c)")
  case (Some h)
  assume "tools_stateless reg"
  moreover have "(tc_name c, h) \<in> set reg" using Some by (rule map_of_SomeD)
  ultimately obtain out where "\<forall>w. h (tc_arguments c) w = (Inr out, w)"
    unfolding tools_stateless_def by fastforce
  then show ?thesis by (simp add: run_call_def Some)
qed (simp add: run_call_def)

lemma complete_all_stateless:
  assumes "tools_stateless reg"
  shows "complete_all reg calls order w = (map (\<lambda>i. (i, fst (run_call reg (calls ! i) w))) order, w)"
proof (induction order)
  case (Cons i order)
  obtain r where "\<forall>w. run_call reg (calls ! i) w = (Inr r, w)" using run_call_stateless [OF assms] by blast
  then show ?case using Cons by simp
qed simp

text \<open>
  A panicking handler is joined into the first empty slot, not its own.  When it finishes before an
  earlier call, the earlier result overwrites it and its own slot stays empty, so the executor itself
  panics instead of returning an error result for the call.
\<close>

lemma handler_panic_escapes:
  fixes ok boom :: "unit tool_handler"
  defines "ok \<equiv> \<lambda>args w. (Inr (tool_output_ok JNull), w)"
    and "boom \<equiv> \<lambda>args w. (Inl ''boom'', w)"
  shows "fst (execute_in_order [(''ok'', ok), (''boom'', boom)]
                [sample_call ''1'' ''ok'', sample_call ''2'' ''boom''] [1, 0] ()) = None"
    and "fst (execute_in_order [(''ok'', ok), (''boom'', boom)]
                [sample_call ''1'' ''ok'', sample_call ''2'' ''boom''] [0, 1] ()) =
         Some [result_from_output (sample_call ''1'' ''ok'') (tool_output_ok JNull), panic_result ''boom'']"
  by (simp_all add: ok_def boom_def execute_in_order_def run_call_def sample_call_def
      collect_results_def)

end
