(* ===== verification/StructuredOutput.thy ===== *)
theory StructuredOutput
  imports Core
begin

text \<open>
  Pulling JSON out of model text (\<open>gravity-core/src/structured_output.rs\<close>) and the tool envelopes of
  providers without native tools (\<open>gravity-core/src/tool_emulation.rs\<close>).
\<close>

section \<open>Structured output\<close>

definition lf :: char where
  "lf = CHR 0x0A"

definition build_structured_output_instruction :: "serde \<Rightarrow> json \<Rightarrow> string" where
  "build_structured_output_instruction sj schema =
     join_with [lf]
       [''Return only valid JSON that matches this schema exactly.'',
        ''Do not wrap the JSON in markdown fences.'',
        ''Do not include any prose before or after the JSON.'',
        ''JSON schema:'',
        to_pretty sj schema]"

lemma find_str_shorter:
  "find_str p s = Some i \<Longrightarrow> p \<noteq> [] \<Longrightarrow> i < length s"
proof -
  assume i: "find_str p s = Some i" and p: "p \<noteq> []"
  then have "starts_with p (drop i s)" using find_str_Some by blast
  then have "drop i s \<noteq> []" using p by (auto simp: starts_with_iff)
  then show "i < length s" by simp
qed

function strip_details :: "string \<Rightarrow> string" where
  "strip_details rest =
     (case find_str ''<details'' rest of
        None \<Rightarrow> rest
      | Some start \<Rightarrow>
          take start rest @
          (case find_str ''</details>'' (drop start rest) of
             None \<Rightarrow> []
           | Some stop \<Rightarrow> strip_details (drop (stop + 10) (drop start rest))))"
  by pat_completeness auto
termination
  by (relation "measure length") (auto dest: find_str_shorter)

declare strip_details.simps [simp del]

definition unfence :: "string \<Rightarrow> string" where
  "unfence stripped =
     (if \<not> starts_with ''```'' stripped then stripped
      else
        (let ls = tl (split_on lf stripped);
             ls' = (if ls \<noteq> [] \<and> trim (last ls) = ''```'' then butlast ls else ls)
         in trim (join_with [lf] ls')))"

fun scan_payload :: "serde \<Rightarrow> string \<Rightarrow> json option" where
  "scan_payload sj [] = None"
| "scan_payload sj (c # cs) =
     (if c \<noteq> CHR ''{'' \<and> c \<noteq> CHR ''['' then scan_payload sj cs
      else (case stream_next sj (c # cs) of
              Some (v, consumed) \<Rightarrow>
                if trim (drop consumed (c # cs)) = [] then Some v else scan_payload sj cs
            | None \<Rightarrow> scan_payload sj cs))"

definition extract_json_payload :: "serde \<Rightarrow> string \<Rightarrow> json option" where
  "extract_json_payload sj txt = scan_payload sj (unfence (trim (strip_details txt)))"

section \<open>Tool envelopes\<close>

datatype tool_envelope = EnvToolCall string jmap | EnvFinal json

definition tool_spec :: "tool_definition \<Rightarrow> json" where
  "tool_spec t =
     JObject [(''name'', JString (td_name t)), (''description'', JString (td_description t)),
              (''input_schema'', JObject (td_input_schema t))]"

definition build_json_tool_instruction :: "serde \<Rightarrow> tool_definition list \<Rightarrow> json option \<Rightarrow> string" where
  "build_json_tool_instruction sj tools final_schema =
     join_with [lf]
       ([''You are operating in Gravity JSON tool mode.'',
         ''Gravity will execute tool calls for you and send the tool result back.'',
         ''You do have access to the tools listed below.'',
         ''Never say that you cannot access tools.'',
         ''Return exactly one JSON object and nothing else.'',
         ''Do not output prose, explanations, analysis, or markdown.'',
         ''In this session, raw JSON is the only correct output format.'',
         ''Available tools:'',
         to_pretty sj (JArray (map tool_spec tools)),
         ''If you need a tool, return {\"type\":\"tool_call\",\"tool\":{\"name\":\"<tool name>\",\"arguments\":{...}}}.'',
         (if final_schema \<noteq> None
          then ''Return {\"type\":\"final\",\"content\": <JSON matching the final schema>}.''
          else ''Return {\"type\":\"final\",\"content\":\"<your final answer>\"}.''),
         ''Only call one tool at a time.'',
         ''Do not use markdown fences.'',
         ''Example tool call: {\"type\":\"tool_call\",\"tool\":{\"name\":\"example_tool\",\"arguments\":{\"x\":1}}}'',
         ''Example final: {\"type\":\"final\",\"content\":\"done\"}'']
        @ (case final_schema of
             None \<Rightarrow> []
           | Some schema \<Rightarrow> [''Final content schema:'', to_pretty sj schema]))"

definition envelope_of_json :: "json \<Rightarrow> tool_envelope option" where
  "envelope_of_json payload =
     (case as_object payload of
        None \<Rightarrow> None
      | Some obj \<Rightarrow>
          (case Option.bind (map_of obj ''type'') as_str of
             None \<Rightarrow> None
           | Some ty \<Rightarrow>
               if ty = ''tool_call'' then
                 (case Option.bind (map_of obj ''tool'') as_object of
                    None \<Rightarrow> None
                  | Some tl' \<Rightarrow>
                      (case map_option trim (Option.bind (map_of tl' ''name'') as_str) of
                         None \<Rightarrow> None
                       | Some name \<Rightarrow>
                           if name = [] then None
                           else Some (EnvToolCall name
                                  (case Option.bind (map_of tl' ''arguments'') as_object of
                                     None \<Rightarrow> [] | Some a \<Rightarrow> a))))
               else if ty = ''final'' then map_option EnvFinal (map_of obj ''content'')
               else None))"

definition parse_tool_envelope :: "serde \<Rightarrow> string \<Rightarrow> tool_envelope option" where
  "parse_tool_envelope sj txt = Option.bind (extract_json_payload sj txt) envelope_of_json"

section \<open>What a model may wrap a payload in\<close>

text \<open>The value is printed as an object, and the stream reader takes exactly the printed text.\<close>

definition stream_reads :: "serde \<Rightarrow> json \<Rightarrow> bool" where
  "stream_reads sj v \<longleftrightarrow>
     (\<exists>body. to_compact sj v = CHR ''{'' # body @ [CHR ''}''])
   \<and> stream_next sj (to_compact sj v) = Some (v, length (to_compact sj v))"

lemma plain_chars:
  "plain_char (CHR ''{'')" "plain_char (CHR ''}'')" "plain_char (CHR ''`'')"
  by code_simp+

lemma trim_plain_text: "plain_char a \<Longrightarrow> plain_char b \<Longrightarrow> trim (a # s @ [b]) = a # s @ [b]"
  using trim_start_plain [of a "s @ [b]"] trim_end_plain [of b "a # s"] by (simp add: trim_def)

lemma trim_end_ws:
  assumes "plain_char b" and "\<forall>c\<in>set ws. ascii_ws c"
  shows "trim_end (s @ b # ws) = s @ [b]"
  using assms(2)
proof (induction ws rule: rev_induct)
  case Nil
  show ?case using trim_end_plain [OF assms(1), of s] by simp
next
  case (snoc w ws)
  have "ws_len (map rev wide_ws) (w # rev ws @ b # rev s) = 1" using snoc.prems by (simp add: ws_len_def)
  then have "trim_end (s @ b # ws @ [w]) = trim_end (s @ b # ws)"
    by (simp add: trim_end_def strip_ws.simps [of _ "w # rev ws @ b # rev s"])
  with snoc show ?case by simp
qed

lemma strip_details_none: "find_str ''<details'' s = None \<Longrightarrow> strip_details s = s"
  by (simp add: strip_details.simps)

lemma scan_payload_prose:
  "\<forall>c\<in>set pre. c \<noteq> CHR ''{'' \<and> c \<noteq> CHR ''['' \<Longrightarrow> scan_payload sj (pre @ s) = scan_payload sj s"
  by (induction pre) auto

lemma scan_payload_printed:
  assumes "stream_reads sj v"
  shows "scan_payload sj (to_compact sj v) = Some v"
proof -
  obtain body where p: "to_compact sj v = CHR ''{'' # body @ [CHR ''}'']"
    and n: "stream_next sj (to_compact sj v) = Some (v, length (to_compact sj v))"
    using assms by (auto simp: stream_reads_def)
  then show ?thesis by (simp add: p) 
qed

text \<open>Prose without brackets before the payload, white space after it.\<close>

definition prose_reply :: "string \<Rightarrow> string \<Rightarrow> string \<Rightarrow> bool" where
  "prose_reply pre p post \<longleftrightarrow>
     (pre = [] \<or> plain_char (hd pre)) \<and> (\<forall>c\<in>set pre. c \<noteq> CHR ''{'' \<and> c \<noteq> CHR ''['')
   \<and> (\<forall>c\<in>set post. ascii_ws c) \<and> \<not> starts_with ''```'' (pre @ p)
   \<and> find_str ''<details'' (pre @ p @ post) = None"

lemma extract_prose:
  assumes "stream_reads sj v" and "prose_reply pre (to_compact sj v) post"
  shows "extract_json_payload sj (pre @ to_compact sj v @ post) = Some v"
proof -
  obtain body where p: "to_compact sj v = CHR ''{'' # body @ [CHR ''}'']"
    using assms(1) by (auto simp: stream_reads_def)
  have "trim_start (pre @ to_compact sj v @ post) = pre @ to_compact sj v @ post"
    using assms(2) plain_chars trim_start_plain
    by (cases pre) (simp_all add: prose_reply_def p)
  moreover have "trim_end (pre @ to_compact sj v @ post) = pre @ to_compact sj v"
    using trim_end_ws [OF plain_chars(2), of post "pre @ CHR ''{'' # body"] assms(2)
    by (simp add: p prose_reply_def)
  ultimately show ?thesis
    using assms scan_payload_prose [of pre sj "to_compact sj v"] scan_payload_printed [OF assms(1)]
    by (simp add: extract_json_payload_def strip_details_none prose_reply_def trim_def unfence_def)
qed

text \<open>A markdown fence with a language tag.\<close>

definition fenced :: "string \<Rightarrow> string \<Rightarrow> string" where
  "fenced lang p = ''```'' @ lang @ lf # p @ lf # ''```''"

lemma extract_fenced:
  assumes "stream_reads sj v" and "lf \<notin> set lang"
    and "find_str ''<details'' (fenced lang (to_compact sj v)) = None"
  shows "extract_json_payload sj (fenced lang (to_compact sj v)) = Some v"
proof -
  let ?p = "to_compact sj v"
  obtain body where p: "?p = CHR ''{'' # body @ [CHR ''}'']"
    using assms(1) by (auto simp: stream_reads_def)
  have "trim (fenced lang ?p) = fenced lang ?p"
    using trim_plain_text [OF plain_chars(3) plain_chars(3), of "''``'' @ lang @ lf # ?p @ lf # ''``''"]
    by (simp add: fenced_def)
  moreover have "split_on lf (fenced lang ?p) = (''```'' @ lang) # split_on lf ?p @ [''```'']"
  proof -
    have "split_on lf (fenced lang ?p) = split_on lf (''```'' @ lang) @ split_on lf ?p @ split_on lf ''```''"
      using split_on_append [of lf "''```'' @ lang" "?p @ lf # ''```''"] split_on_append [of lf ?p "''```''"]
      by (simp add: fenced_def)
    moreover have "split_on lf (''```'' @ lang) = [''```'' @ lang]" "split_on lf ''```'' = [''```'']"
      using assms(2) by (intro split_on_no_sep; simp add: lf_def)+
    ultimately show ?thesis by simp
  qed
  moreover have "trim ''```'' = ''```''"
    using trim_plain_text [OF plain_chars(3) plain_chars(3), of "''`''"] by simp
  moreover have "trim ?p = ?p" using trim_plain_text [OF plain_chars(1,2)] by (simp add: p)
  moreover have "starts_with ''```'' (fenced lang ?p)" by (simp add: fenced_def)
  ultimately have "unfence (trim (strip_details (fenced lang ?p))) = ?p"
    using strip_details_none [OF assms(3)] by (simp add: unfence_def Let_def join_split_on)
  then show ?thesis using scan_payload_printed [OF assms(1)] by (simp add: extract_json_payload_def)
qed

section \<open>Round trips\<close>

definition call_envelope :: "string \<Rightarrow> jmap \<Rightarrow> json" where
  "call_envelope name args =
     JObject [(''type'', JString ''tool_call''),
              (''tool'', JObject [(''name'', JString name), (''arguments'', JObject args)])]"

definition final_envelope :: "json \<Rightarrow> json" where
  "final_envelope content = JObject [(''type'', JString ''final''), (''content'', content)]"

lemma envelope_of_json_call:
  "trim name = name \<Longrightarrow> name \<noteq> [] \<Longrightarrow> envelope_of_json (call_envelope name args) = Some (EnvToolCall name args)"
  by (simp add: envelope_of_json_def call_envelope_def)

lemma envelope_of_json_final: "envelope_of_json (final_envelope content) = Some (EnvFinal content)"
  by (simp add: envelope_of_json_def final_envelope_def)

text \<open>
  The tool protocol is read back.  A model that follows the injected instruction is understood:
  the printed call of a named tool, and the printed final answer, are parsed to the same call and the
  same answer, whether they stand alone, follow prose without brackets, are followed by white space, or
  are fenced as markdown with any language tag; and a call whose name is blank is no call.
\<close>

theorem envelope_roundtrip:
  assumes "trim name = name" and "name \<noteq> []"
    and "\<forall>v\<in>{call_envelope name args, final_envelope content, call_envelope '' '' args}. stream_reads sj v
           \<and> prose_reply pre (to_compact sj v) post
           \<and> find_str ''<details'' (fenced lang (to_compact sj v)) = None"
    and "lf \<notin> set lang"
  shows "parse_tool_envelope sj (pre @ to_compact sj (call_envelope name args) @ post)
           = Some (EnvToolCall name args)
       \<and> parse_tool_envelope sj (fenced lang (to_compact sj (call_envelope name args)))
           = Some (EnvToolCall name args)
       \<and> parse_tool_envelope sj (pre @ to_compact sj (final_envelope content) @ post)
           = Some (EnvFinal content)
       \<and> parse_tool_envelope sj (fenced lang (to_compact sj (final_envelope content)))
           = Some (EnvFinal content)
       \<and> parse_tool_envelope sj (pre @ to_compact sj (call_envelope '' '' args) @ post) = None"
proof -
  have "trim '' '' = []" by code_simp
  then have "envelope_of_json (call_envelope '' '' args) = None"
    by (simp add: envelope_of_json_def call_envelope_def)
  then show ?thesis
    using assms extract_prose extract_fenced envelope_of_json_call [OF assms(1,2)] envelope_of_json_final
    by (simp add: parse_tool_envelope_def)
qed

definition envelope_serde :: serde where
  "envelope_serde =
     \<lparr>to_compact = \<lambda>v. if v = call_envelope ''t'' [] then ''{c}''
                       else if v = final_envelope JNull then ''{f}'' else ''{b}'',
      to_pretty = \<lambda>v. [],
      from_text = \<lambda>s. None,
      stream_next = \<lambda>s. if s = ''{c}'' then Some (call_envelope ''t'' [], 3)
                        else if s = ''{f}'' then Some (final_envelope JNull, 3)
                        else if s = ''{b}'' then Some (call_envelope '' '' [], 3) else None,
      number_f64 = \<lambda>_. None\<rparr>"

lemma envelope_roundtrip_witness:
  "parse_tool_envelope envelope_serde (''So: '' @ ''{c}'' @ '' '') = Some (EnvToolCall ''t'' [])
   \<and> parse_tool_envelope envelope_serde (fenced ''json'' ''{f}'') = Some (EnvFinal JNull)"
proof -
  have c: "to_compact envelope_serde (call_envelope ''t'' []) = ''{c}''"
    "to_compact envelope_serde (final_envelope JNull) = ''{f}''"
    "to_compact envelope_serde (call_envelope '' '' []) = ''{b}''"
    by (simp_all add: envelope_serde_def call_envelope_def final_envelope_def)
  have "stream_reads envelope_serde (call_envelope ''t'' [])"
    "stream_reads envelope_serde (final_envelope JNull)"
    "stream_reads envelope_serde (call_envelope '' '' [])"
    unfolding stream_reads_def c by (simp_all add: envelope_serde_def)
  moreover have "prose_reply ''So: '' ''{c}'' '' ''" "prose_reply ''So: '' ''{f}'' '' ''"
    "prose_reply ''So: '' ''{b}'' '' ''"
    "find_str ''<details'' (fenced ''json'' ''{c}'') = None"
    "find_str ''<details'' (fenced ''json'' ''{f}'') = None"
    "find_str ''<details'' (fenced ''json'' ''{b}'') = None" by code_simp+
  ultimately have h: "\<forall>v\<in>{call_envelope ''t'' [], final_envelope JNull, call_envelope '' '' []}.
      stream_reads envelope_serde v \<and> prose_reply ''So: '' (to_compact envelope_serde v) '' ''
      \<and> find_str ''<details'' (fenced ''json'' (to_compact envelope_serde v)) = None"
    by (simp add: c)
  have t: "trim ''t'' = ''t''" "lf \<notin> set ''json''" by code_simp+
  show ?thesis using envelope_roundtrip [OF t(1) _ h t(2)] by (simp add: c)
qed

end
