(* ===== verification/Client.thy ===== *)
theory Client
  imports Providers Afc StructuredOutput Bytes
begin

text \<open>
  The orchestrator of \<open>gravity-client/src/client.rs\<close>: the tool loops around one account and the
  retry and failover over a list of accounts.

  The world \<open>'w\<close> is what lies outside the client.  A provider call, a tool handler and a sleep are
  functions on it; \<open>cl_schedule\<close> is the order in which the runtime happens to finish the handlers of one
  batch.  \<open>Panic\<close> is a panic of the client's own task (a handler batch with an empty slot).
\<close>

section \<open>The client\<close>

datatype 'a outcome = Ok 'a | Err error | Panic

record retry_policy =
  pol_rate_limit_max_retries :: u32
  pol_rate_limit_delay :: duration
  pol_max_afc_iterations :: u32

definition retry_policy_default :: retry_policy where
  "retry_policy_default =
     \<lparr>pol_rate_limit_max_retries = 5, pol_rate_limit_delay = 3000000000, pol_max_afc_iterations = 20\<rparr>"

record resolved_account =
  ra_account :: provider_account
  ra_secret :: string

record 'w client =
  cl_registry :: "'w registry"
  cl_tools :: "'w tool_registry"
  cl_policy :: retry_policy
  cl_serde :: serde
  cl_schedule :: "tool_call list \<Rightarrow> 'w \<Rightarrow> nat list"
  cl_sleep :: "duration \<Rightarrow> 'w \<Rightarrow> 'w"

definition client_ctx ::
    "chat_request \<Rightarrow> resolved_account \<Rightarrow> conversation \<Rightarrow> checkpoint option \<Rightarrow> chat_ctx" where
  "client_ctx req cand conv cp =
     \<lparr>cx_account = ra_account cand, cx_secret = ra_secret cand, cx_conversation = conv,
      cx_checkpoint = cp, cx_request = req\<rparr>"

definition execute_tools :: "'w client \<Rightarrow> tool_call list \<Rightarrow> 'w \<Rightarrow> tool_result list option \<times> 'w" where
  "execute_tools cl calls w = execute_in_order (cl_tools cl) calls (cl_schedule cl calls w) w"

section \<open>The tool loops\<close>

definition max_rounds :: "'w client \<Rightarrow> nat" where
  "max_rounds cl = unat (pol_max_afc_iterations (cl_policy cl))"

definition afc_exhausted :: "'w client \<Rightarrow> chat_request \<Rightarrow> error" where
  "afc_exhausted cl base =
     ProviderErr (provider_error_new (mid_provider (rq_model base)) provider_error_kind.OtherKind ''afc_loop_exhausted''
       (''AFC did not converge within '' @ dec_of (max_rounds cl) @ '' iterations''))"

definition executed_call :: "tool_call \<times> tool_result \<Rightarrow> executed_tool_call" where
  "executed_call cr =
     \<lparr>ex_call = fst cr, ex_output = output_of_result (snd cr), ex_duration_ms = None\<rparr>"

definition round_messages :: "chat_response \<Rightarrow> tool_call list \<Rightarrow> tool_result list \<Rightarrow> message list" where
  "round_messages resp calls results =
     message_assistant_with_tools (msg_content (rs_message resp)) calls
       # map (\<lambda>cr. message_tool_result (snd cr)) (zip calls results)"

definition runnable :: "'w client \<Rightarrow> bool \<Rightarrow> tool_call list \<Rightarrow> bool" where
  "runnable cl auto calls \<longleftrightarrow>
     auto \<and> calls \<noteq> [] \<and> list_all (\<lambda>c. tools_contains (cl_tools cl) (tc_name c)) calls"

definition attach_executed :: "executed_tool_call list \<Rightarrow> chat_response \<Rightarrow> chat_response" where
  "attach_executed executed resp =
     (if executed \<noteq> [] then resp\<lparr>rs_tool_calls_executed := executed\<rparr> else resp)"

primrec afc_loop ::
    "nat \<Rightarrow> 'w client \<Rightarrow> 'w provider \<Rightarrow> chat_request \<Rightarrow> resolved_account \<Rightarrow> conversation
       \<Rightarrow> checkpoint option \<Rightarrow> message list \<Rightarrow> executed_tool_call list \<Rightarrow> 'w
       \<Rightarrow> chat_response outcome \<times> 'w" where
  "afc_loop 0 cl p base cand conv cp messages executed w = (Err (afc_exhausted cl base), w)"
| "afc_loop (Suc n) cl p base cand conv cp messages executed w =
     (case pv_chat p (client_ctx (base\<lparr>rq_messages := messages\<rparr>) cand conv cp) w of
        (Inl e, w1) \<Rightarrow> (Err e, w1)
      | (Inr resp, w1) \<Rightarrow>
          (let calls = msg_tool_calls (rs_message resp)
           in if \<not> runnable cl (rq_function_calling base = FcAuto) calls
              then (Ok (attach_executed executed resp), w1)
              else
                (case execute_tools cl calls w1 of
                   (None, w2) \<Rightarrow> (Panic, w2)
                 | (Some results, w2) \<Rightarrow>
                     afc_loop n cl p base cand conv cp
                       (messages @ round_messages resp calls results)
                       (executed @ map executed_call (zip calls results)) w2)))"

definition finalize_emulated :: "string \<Rightarrow> string \<Rightarrow> executed_tool_call list \<Rightarrow> chat_response" where
  "finalize_emulated model_full txt executed =
     \<lparr>rs_model = model_full, rs_message = message_assistant txt, rs_usage = usage_default,
      rs_tool_calls_executed = executed, rs_provider_response_id = None,
      rs_finish_reason = Some ''stop'', rs_metadata = metadata_new\<rparr>"

text \<open>The text of a final envelope: a string as it is, another value printed.\<close>

definition final_text :: "serde \<Rightarrow> json \<Rightarrow> string" where
  "final_text sj content = (case content of JString s \<Rightarrow> s | other \<Rightarrow> to_compact sj other)"

definition emulated_call :: "executed_tool_call list \<Rightarrow> string \<Rightarrow> jmap \<Rightarrow> tool_call" where
  "emulated_call executed name args =
     \<lparr>tc_id = ''emu-'' @ dec_of (length executed), tc_name = name, tc_arguments = args\<rparr>"

definition emulated_feedback :: "serde \<Rightarrow> string \<Rightarrow> tool_result \<Rightarrow> string" where
  "emulated_feedback sj name r =
     ''Tool result for '' @ name @ '': '' @ to_compact sj (tr_content r) @ [lf]
       @ ''Continue. Reply with one JSON object.''"

primrec emulated_loop ::
    "nat \<Rightarrow> 'w client \<Rightarrow> 'w provider \<Rightarrow> chat_request \<Rightarrow> resolved_account \<Rightarrow> conversation
       \<Rightarrow> checkpoint option \<Rightarrow> message list \<Rightarrow> executed_tool_call list \<Rightarrow> 'w
       \<Rightarrow> chat_response outcome \<times> 'w" where
  "emulated_loop 0 cl p base cand conv cp messages executed w = (Err (afc_exhausted cl base), w)"
| "emulated_loop (Suc n) cl p base cand conv cp messages executed w =
     (case pv_chat p (client_ctx (base\<lparr>rq_messages := messages, rq_function_calling := FcManual\<rparr>) cand conv cp) w of
        (Inl e, w1) \<Rightarrow> (Err e, w1)
      | (Inr resp, w1) \<Rightarrow>
          (let txt = response_text resp; model_full = model_id_full_name (rq_model base)
           in case parse_tool_envelope (cl_serde cl) txt of
                Some (EnvFinal content) \<Rightarrow>
                  (Ok (finalize_emulated model_full (final_text (cl_serde cl) content) executed), w1)
              | Some (EnvToolCall name args) \<Rightarrow>
                  if \<not> tools_contains (cl_tools cl) name
                  then (Ok (finalize_emulated model_full txt executed), w1)
                  else
                    (let call = emulated_call executed name args
                     in case execute_tools cl [call] w1 of
                          (None, w2) \<Rightarrow> (Panic, w2)
                        | (Some [], w2) \<Rightarrow> (Panic, w2)
                        | (Some (result # _), w2) \<Rightarrow>
                            emulated_loop n cl p base cand conv cp
                              (messages @ [message_assistant txt,
                                           message_user (emulated_feedback (cl_serde cl) name result)])
                              (executed @ [executed_call (call, result)]) w2)
              | None \<Rightarrow> (Ok (finalize_emulated model_full txt executed), w1)))"

definition run_json_emulated ::
    "'w client \<Rightarrow> 'w provider \<Rightarrow> chat_request \<Rightarrow> resolved_account \<Rightarrow> conversation
       \<Rightarrow> checkpoint option \<Rightarrow> 'w \<Rightarrow> chat_response outcome \<times> 'w" where
  "run_json_emulated cl p base cand conv cp w =
     emulated_loop (max_rounds cl) cl p base cand conv cp
       (rq_messages base @ [message_user (build_json_tool_instruction (cl_serde cl) (rq_tools base) None)])
       [] w"

definition use_emulation :: "'w client \<Rightarrow> 'w provider \<Rightarrow> chat_request \<Rightarrow> bool" where
  "use_emulation cl p base \<longleftrightarrow>
     rq_function_calling base = FcAuto \<and> rq_tools base \<noteq> []
   \<and> tool_support (pv_capabilities p) = ToolJsonEmulated
   \<and> list_ex (\<lambda>t. tools_contains (cl_tools cl) (td_name t)) (rq_tools base)"

definition run_afc ::
    "'w client \<Rightarrow> 'w provider \<Rightarrow> chat_request \<Rightarrow> resolved_account \<Rightarrow> conversation
       \<Rightarrow> checkpoint option \<Rightarrow> 'w \<Rightarrow> chat_response outcome \<times> 'w" where
  "run_afc cl p base cand conv cp w =
     (if use_emulation cl p base then run_json_emulated cl p base cand conv cp w
      else afc_loop (max_rounds cl) cl p base cand conv cp (rq_messages base) [] w)"

section \<open>Retry and failover over a list of accounts\<close>

text \<open>What an error leads to: another try on the same account, the next account, or the end.\<close>

datatype decision = Retry "checkpoint option" | Failover "checkpoint option" | GiveUp

fun after_error :: "retry_policy \<Rightarrow> bool \<Rightarrow> nat \<Rightarrow> checkpoint option \<Rightarrow> error \<Rightarrow> decision" where
  "after_error pol is_last attempt cp (ProviderErr pe) =
     (let cp' = (if invalidates_checkpoint pe then None else cp)
      in if is_transient_rate_limit pe \<and> attempt < unat (pol_rate_limit_max_retries pol) then Retry cp'
         else if pe_should_failover pe \<and> \<not> is_last then Failover cp'
         else GiveUp)"
| "after_error pol is_last attempt cp err =
     (if should_failover err \<and> \<not> is_last then Failover cp else GiveUp)"

datatype verdict = Return "chat_response outcome" | NextAccount error "checkpoint option"

lemma after_error_Retry:
  "after_error pol l attempt cp err = Retry cp' \<Longrightarrow> attempt < unat (pol_rate_limit_max_retries pol)"
  by (cases "(pol, l, attempt, cp, err)" rule: after_error.cases) (auto simp: Let_def split: if_splits)

text \<open>
  Stateful providers: a checkpoint is opened when there is none.  The result is the checkpoint to use,
  or the error that moves on to the next account.
\<close>

definition ensure_checkpoint ::
    "'w provider \<Rightarrow> chat_request \<Rightarrow> conversation \<Rightarrow> resolved_account \<Rightarrow> checkpoint option \<Rightarrow> 'w
       \<Rightarrow> (error + checkpoint option) \<times> 'w" where
  "ensure_checkpoint p req conv cand cp w =
     (if requires_remote_checkpoint (pv_capabilities p) \<and> cp = None
      then pv_open_checkpoint p (client_ctx req cand conv None) w
      else (Inr cp, w))"

function try_candidate ::
    "'w client \<Rightarrow> 'w provider \<Rightarrow> chat_request \<Rightarrow> conversation \<Rightarrow> resolved_account \<Rightarrow> bool \<Rightarrow> nat
       \<Rightarrow> checkpoint option \<Rightarrow> 'w \<Rightarrow> verdict \<times> 'w" where
  "try_candidate cl p req conv cand is_last attempt cp w =
     (case ensure_checkpoint p req conv cand cp w of
        (Inl e, w1) \<Rightarrow> (NextAccount e cp, w1)
      | (Inr cp1, w1) \<Rightarrow>
          (case run_afc cl p req cand conv cp1 w1 of
             (Ok resp, w2) \<Rightarrow> (Return (Ok resp), w2)
           | (Panic, w2) \<Rightarrow> (Return Panic, w2)
           | (Err err, w2) \<Rightarrow>
               (case after_error (cl_policy cl) is_last attempt cp1 err of
                  Retry cp2 \<Rightarrow>
                    try_candidate cl p req conv cand is_last (attempt + 1) cp2
                      (cl_sleep cl (pol_rate_limit_delay (cl_policy cl)) w2)
                | Failover cp2 \<Rightarrow> (NextAccount err cp2, w2)
                | GiveUp \<Rightarrow> (Return (Err err), w2))))"
  by pat_completeness auto
termination
proof (relation "measure (\<lambda>(cl, p, req, conv, cand, is_last, attempt, cp, w).
         unat (pol_rate_limit_max_retries (cl_policy cl)) - attempt)", goal_cases)
  case 1
  show ?case by simp
next
  case (2 cl p req conv cand is_last attempt cp w x1 x2 b)
  then show ?case by (auto dest!: after_error_Retry)
qed

declare try_candidate.simps [simp del]

fun over_candidates ::
    "'w client \<Rightarrow> 'w provider \<Rightarrow> chat_request \<Rightarrow> conversation \<Rightarrow> resolved_account list
       \<Rightarrow> error option \<Rightarrow> checkpoint option \<Rightarrow> 'w \<Rightarrow> chat_response outcome \<times> 'w" where
  "over_candidates cl p req conv [] last_err cp w =
     (Err (case last_err of Some e \<Rightarrow> e | None \<Rightarrow> AccountSelection ''all candidate accounts failed''), w)"
| "over_candidates cl p req conv (cand # cands) last_err cp w =
     (case try_candidate cl p req conv cand (cands = []) 0 cp w of
        (Return r, w') \<Rightarrow> (r, w')
      | (NextAccount e cp', w') \<Rightarrow> over_candidates cl p req conv cands (Some e) cp' w')"

definition no_accounts_message :: "provider_name \<Rightarrow> string" where
  "no_accounts_message name = ''no accounts available for provider '' @ provider_as_str name"

definition chat_over ::
    "'w client \<Rightarrow> chat_request \<Rightarrow> resolved_account list \<Rightarrow> conversation \<Rightarrow> 'w
       \<Rightarrow> chat_response outcome \<times> 'w" where
  "chat_over cl req cands conv w =
     (case request_validate req of
        Inl m \<Rightarrow> (Err (Validation m ''invalid_request''), w)
      | Inr _ \<Rightarrow>
          (case registry_provider (cl_registry cl) (mid_provider (rq_model req)) of
             Inl e \<Rightarrow> (Err e, w)
           | Inr p \<Rightarrow>
               if cands = []
               then (Err (AccountSelection (no_accounts_message (mid_provider (rq_model req)))), w)
               else over_candidates cl p req conv cands None None w))"

section \<open>The tool loop as a bounded iteration\<close>

text \<open>
  One round of the loop as a transition between loop states (transcript, executed calls, world), and
  the outcome of a state in which the loop ends.
\<close>

type_synonym 'w loop_state = "message list \<times> executed_tool_call list \<times> 'w"

inductive afc_round ::
    "'w client \<Rightarrow> 'w provider \<Rightarrow> chat_request \<Rightarrow> resolved_account \<Rightarrow> conversation \<Rightarrow> checkpoint option
       \<Rightarrow> 'w loop_state \<Rightarrow> 'w loop_state \<Rightarrow> bool"
  for cl p base cand conv cp where
  round: "\<lbrakk>pv_chat p (client_ctx (base\<lparr>rq_messages := messages\<rparr>) cand conv cp) w = (Inr resp, w1);
     runnable cl (rq_function_calling base = FcAuto) (msg_tool_calls (rs_message resp));
     execute_tools cl (msg_tool_calls (rs_message resp)) w1 = (Some results, w2)\<rbrakk>
   \<Longrightarrow> afc_round cl p base cand conv cp (messages, executed, w)
        (messages @ round_messages resp (msg_tool_calls (rs_message resp)) results,
         executed @ map executed_call (zip (msg_tool_calls (rs_message resp)) results), w2)"

inductive_simps afc_round_simps:
  "afc_round cl p base cand conv cp (messages, executed, w) s'"

inductive_cases afc_roundE: "afc_round cl p base cand conv cp s s'"

definition afc_stop ::
    "'w client \<Rightarrow> 'w provider \<Rightarrow> chat_request \<Rightarrow> resolved_account \<Rightarrow> conversation \<Rightarrow> checkpoint option
       \<Rightarrow> 'w loop_state \<Rightarrow> (chat_response outcome \<times> 'w) option" where
  "afc_stop cl p base cand conv cp s =
     (case s of (messages, executed, w) \<Rightarrow>
        (case pv_chat p (client_ctx (base\<lparr>rq_messages := messages\<rparr>) cand conv cp) w of
           (Inl e, w1) \<Rightarrow> Some (Err e, w1)
         | (Inr resp, w1) \<Rightarrow>
             if \<not> runnable cl (rq_function_calling base = FcAuto) (msg_tool_calls (rs_message resp))
             then Some (Ok (attach_executed executed resp), w1)
             else (case execute_tools cl (msg_tool_calls (rs_message resp)) w1 of
                     (None, w2) \<Rightarrow> Some (Panic, w2)
                   | (Some _, _) \<Rightarrow> None)))"

lemma afc_loop_step:
  "afc_stop cl p base cand conv cp (messages, executed, w) = Some r \<Longrightarrow>
   afc_loop (Suc n) cl p base cand conv cp messages executed w = r"
  by (auto simp: afc_stop_def Let_def split: prod.splits sum.splits option.splits if_splits)

lemma afc_loop_round:
  "afc_round cl p base cand conv cp (messages, executed, w) (messages', executed', w') \<Longrightarrow>
   afc_loop (Suc n) cl p base cand conv cp messages executed w =
   afc_loop n cl p base cand conv cp messages' executed' w'"
  by (auto simp: afc_round_simps Let_def)

lemma afc_stop_or_round:
  "afc_stop cl p base cand conv cp s = None \<Longrightarrow> \<exists>s'. afc_round cl p base cand conv cp s s'"
proof -
  assume "afc_stop cl p base cand conv cp s = None"
  then show ?thesis
    by (cases s) (auto simp: afc_stop_def afc_round_simps split: prod.splits sum.splits option.splits if_splits)
qed

lemma afc_round_not_stop:
  "afc_round cl p base cand conv cp s s' \<Longrightarrow> afc_stop cl p base cand conv cp s = None"
  by (erule afc_roundE) (auto simp: afc_stop_def)

lemma afc_round_deterministic:
  "afc_round cl p base cand conv cp s s' \<Longrightarrow> afc_round cl p base cand conv cp s s'' \<Longrightarrow> s'' = s'"
  by (auto elim!: afc_roundE)

lemma afc_loop_iterates:
  "(\<exists>k<n. \<exists>s. ((afc_round cl p base cand conv cp) ^^ k) (messages, executed, w) s
       \<and> afc_stop cl p base cand conv cp s = Some (afc_loop n cl p base cand conv cp messages executed w))
   \<or> (\<exists>s. ((afc_round cl p base cand conv cp) ^^ n) (messages, executed, w) s
       \<and> afc_loop n cl p base cand conv cp messages executed w = (Err (afc_exhausted cl base), snd (snd s)))"
proof (induction n arbitrary: messages executed w)
  case 0
  then show ?case by auto
next
  case (Suc n)
  let ?R = "afc_round cl p base cand conv cp"
  show ?case
  proof (cases "afc_stop cl p base cand conv cp (messages, executed, w)")
    case (Some r)
    then have "afc_loop (Suc n) cl p base cand conv cp messages executed w = r" by (rule afc_loop_step)
    then show ?thesis using Some
      by (intro disjI1 exI [of _ 0]) (auto simp del: afc_loop.simps)
  next
    case None
    then obtain m' e' w' where r: "?R (messages, executed, w) (m', e', w')"
      using afc_stop_or_round by (metis prod_cases3)
    have eq: "afc_loop (Suc n) cl p base cand conv cp messages executed w =
        afc_loop n cl p base cand conv cp m' e' w'" by (rule afc_loop_round [OF r])
    have pow: "(?R ^^ Suc k) (messages, executed, w) s" if "(?R ^^ k) (m', e', w') s" for k s
      using r that by (rule relpowp_Suc_I2)
    show ?thesis
      using Suc.IH [of m' e' w'] pow unfolding eq by (meson Suc_mono)
  qed
qed

section \<open>Transcripts\<close>

text \<open>
  What one round adds: the assistant's calls, then one tool message per call with the call's id, in
  the order of the calls.
\<close>

definition answered_round :: "message list \<Rightarrow> bool" where
  "answered_round ms \<longleftrightarrow>
     (\<exists>content calls results.
        ms = message_assistant_with_tools content calls # map message_tool_result results
      \<and> calls \<noteq> [] \<and> map tr_tool_call_id results = map tc_id calls)"

definition schedule_ok :: "'w client \<Rightarrow> bool" where
  "schedule_ok cl \<longleftrightarrow> (\<forall>calls w. mset (cl_schedule cl calls w) = mset [0..<length calls])"

lemma execute_tools_total:
  assumes "schedule_ok cl" and "tools_total (cl_tools cl)"
  shows "\<exists>results w'. execute_tools cl calls w = (Some results, w')
           \<and> length results = length calls \<and> map tr_tool_call_id results = map tc_id calls"
proof -
  have "mset (cl_schedule cl calls w) = mset [0..<length calls]"
    using assms(1) by (simp add: schedule_ok_def)
  from execute_in_order_ids [OF assms(2) this, of w] show ?thesis
    by (auto simp: execute_tools_def)
qed

lemma map_zip_snd: "length xs = length ys \<Longrightarrow> map (\<lambda>z. f (snd z)) (zip xs ys) = map f ys"
  by (induction xs ys rule: list_induct2) simp_all

lemma map_zip_fst: "length xs = length ys \<Longrightarrow> map (\<lambda>z. f (fst z)) (zip xs ys) = map f xs"
  by (induction xs ys rule: list_induct2) simp_all

lemma round_answered:
  assumes "schedule_ok cl" and "tools_total (cl_tools cl)" and "calls \<noteq> []"
    and "execute_tools cl calls w = (Some results, w')"
  shows "answered_round (round_messages resp calls results)"
proof -
  have r: "map tr_tool_call_id results = map tc_id calls" "length results = length calls"
    using execute_tools_total [OF assms(1,2), of calls w] assms(4) by auto
  then have "map (\<lambda>cr. message_tool_result (snd cr)) (zip calls results) = map message_tool_result results"
    by (simp add: map_zip_snd)
  then show ?thesis using r(1) assms(3) by (auto simp: answered_round_def round_messages_def)
qed

lemma afc_rounds_invariant:
  assumes "schedule_ok cl" and "tools_total (cl_tools cl)"
    and "((afc_round cl p base cand conv cp) ^^ k) (messages0, [], w0) (messages, executed, w)"
  shows "\<exists>rounds. messages = messages0 @ concat rounds \<and> length rounds = k
           \<and> list_all answered_round rounds
           \<and> map (tc_id \<circ> ex_call) executed =
               concat (map (\<lambda>r. map tc_id (msg_tool_calls (hd r))) rounds)"
  using assms(3)
proof (induction k arbitrary: messages executed w)
  case 0
  then show ?case by simp
next
  case (Suc k)
  then obtain m e v where k: "((afc_round cl p base cand conv cp) ^^ k) (messages0, [], w0) (m, e, v)"
    and r: "afc_round cl p base cand conv cp (m, e, v) (messages, executed, w)"
    by (auto elim!: relpowp_Suc_E)
  from Suc.IH [OF k] obtain rounds where IH: "m = messages0 @ concat rounds" "length rounds = k"
    "list_all answered_round rounds"
    "map (tc_id \<circ> ex_call) e = concat (map (\<lambda>r. map tc_id (msg_tool_calls (hd r))) rounds)" by blast
  obtain resp results w1 where
    step: "messages = m @ round_messages resp (msg_tool_calls (rs_message resp)) results"
      "executed = e @ map executed_call (zip (msg_tool_calls (rs_message resp)) results)"
    and ne: "msg_tool_calls (rs_message resp) \<noteq> []"
    and ex: "execute_tools cl (msg_tool_calls (rs_message resp)) w1 = (Some results, w)"
    using r by (auto simp: afc_round_simps runnable_def)
  let ?round = "round_messages resp (msg_tool_calls (rs_message resp)) results"
  have "length results = length (msg_tool_calls (rs_message resp))"
    using execute_tools_total [OF assms(1,2), of "msg_tool_calls (rs_message resp)" w1] ex by auto
  then have "map (tc_id \<circ> ex_call) (map executed_call (zip (msg_tool_calls (rs_message resp)) results))
      = map tc_id (msg_tool_calls (rs_message resp))"
    by (simp add: executed_call_def comp_def map_zip_fst)
  moreover have "msg_tool_calls (hd ?round) = msg_tool_calls (rs_message resp)"
    by (simp add: round_messages_def message_assistant_with_tools_def message_bare_def)
  moreover have "answered_round ?round" by (rule round_answered [OF assms(1,2) ne ex])
  ultimately show ?case
    using IH step by (intro exI [of _ "rounds @ [?round]"]) (simp add: comp_def)
qed

text \<open>
  C5.  The tool loop.  With total handlers and any schedule, \<open>run_afc\<close> with native tools ends in one of
  two ways.  Either after some k rounds, fewer than the limit, the provider's reply to the transcript so
  far decides: an error is passed on, and a reply with no runnable calls is returned with the executed
  calls attached; or all rounds of the limit were tool rounds and the result is \<open>afc_loop_exhausted\<close>.
  The transcript of every request is the caller's messages followed by the rounds, and in each round
  every call of the assistant is answered, with its id, directly after it and in order; the executed
  calls are those of the rounds in order.
\<close>

theorem afc_loop_correct:
  assumes "schedule_ok cl" and "tools_total (cl_tools cl)" and "\<not> use_emulation cl p base"
    and "run_afc cl p base cand conv cp w = (out, w')"
  shows "\<exists>k rounds executed wk.
       ((afc_round cl p base cand conv cp) ^^ k) (rq_messages base, [], w)
          (rq_messages base @ concat rounds, executed, wk)
     \<and> length rounds = k \<and> list_all answered_round rounds
     \<and> map (tc_id \<circ> ex_call) executed = concat (map (\<lambda>r. map tc_id (msg_tool_calls (hd r))) rounds)
     \<and> (if k < max_rounds cl then
          (case pv_chat p (client_ctx (base\<lparr>rq_messages := rq_messages base @ concat rounds\<rparr>) cand conv cp) wk of
             (Inl e, w1) \<Rightarrow> out = Err e \<and> w' = w1
           | (Inr resp, w1) \<Rightarrow>
               \<not> runnable cl (rq_function_calling base = FcAuto) (msg_tool_calls (rs_message resp))
               \<and> out = Ok (attach_executed executed resp) \<and> w' = w1)
        else k = max_rounds cl \<and> out = Err (afc_exhausted cl base) \<and> w' = wk)"
proof -
  let ?R = "afc_round cl p base cand conv cp" and ?s0 = "(rq_messages base, [] :: executed_tool_call list, w)"
  have loop: "afc_loop (max_rounds cl) cl p base cand conv cp (rq_messages base) [] w = (out, w')"
    using assms(3,4) by (simp add: run_afc_def)
  from afc_loop_iterates [of "max_rounds cl" cl p base cand conv cp "rq_messages base" "[]" w]
  consider (stop) k s where "k < max_rounds cl" "(?R ^^ k) ?s0 s"
      "afc_stop cl p base cand conv cp s = Some (out, w')"
    | (out) s where "(?R ^^ max_rounds cl) ?s0 s" "(out, w') = (Err (afc_exhausted cl base), snd (snd s))"
    unfolding loop by metis
  then show ?thesis
  proof cases
    case stop
    obtain messages executed wk where s: "s = (messages, executed, wk)" by (cases s)
    obtain rounds where rounds: "messages = rq_messages base @ concat rounds" "length rounds = k"
      "list_all answered_round rounds"
      "map (tc_id \<circ> ex_call) executed = concat (map (\<lambda>r. map tc_id (msg_tool_calls (hd r))) rounds)"
      using afc_rounds_invariant [OF assms(1,2) stop(2)[unfolded s]] by blast
    have "execute_tools cl calls v \<noteq> (None, v')" for calls v v'
      using execute_tools_total [OF assms(1,2), of calls v] by auto
    then have "case pv_chat p (client_ctx (base\<lparr>rq_messages := messages\<rparr>) cand conv cp) wk of
             (Inl e, w1) \<Rightarrow> out = Err e \<and> w' = w1
           | (Inr resp, w1) \<Rightarrow>
               \<not> runnable cl (rq_function_calling base = FcAuto) (msg_tool_calls (rs_message resp))
               \<and> out = Ok (attach_executed executed resp) \<and> w' = w1"
      using stop(3) unfolding s
      by (auto simp: afc_stop_def split: prod.splits sum.splits option.splits if_splits)
    then show ?thesis
      using stop(1,2) rounds unfolding s
      by (intro exI [of _ k] exI [of _ rounds] exI [of _ executed] exI [of _ wk] conjI) simp_all
  next
    case out
    obtain messages executed wk where s: "s = (messages, executed, wk)" by (cases s)
    obtain rounds where "messages = rq_messages base @ concat rounds" "length rounds = max_rounds cl"
      "list_all answered_round rounds"
      "map (tc_id \<circ> ex_call) executed = concat (map (\<lambda>r. map tc_id (msg_tool_calls (hd r))) rounds)"
      using afc_rounds_invariant [OF assms(1,2) out(1)[unfolded s]] by blast
    then show ?thesis using out unfolding s by (intro exI [of _ "max_rounds cl"] exI) auto
  qed
qed

section \<open>How often a provider is called\<close>

text \<open>
  A counter of the provider's chat calls in the world: a call adds one, and nothing else the client
  does changes it.
\<close>

definition counts_chats :: "('w \<Rightarrow> nat) \<Rightarrow> 'w client \<Rightarrow> 'w provider \<Rightarrow> bool" where
  "counts_chats cnt cl p \<longleftrightarrow>
     (\<forall>cx w. cnt (snd (pv_chat p cx w)) = Suc (cnt w))
   \<and> (\<forall>cx w. cnt (snd (pv_open_checkpoint p cx w)) = cnt w)
   \<and> (\<forall>calls w. cnt (snd (execute_tools cl calls w)) = cnt w)
   \<and> (\<forall>d w. cnt (cl_sleep cl d w) = cnt w)"

lemma counts_chatsD:
  assumes "counts_chats cnt cl p"
  shows "pv_chat p cx w = (r, w') \<Longrightarrow> cnt w' = Suc (cnt w)"
    and "pv_open_checkpoint p cx w = (r', w') \<Longrightarrow> cnt w' = cnt w"
    and "execute_tools cl calls w = (r'', w') \<Longrightarrow> cnt w' = cnt w"
    and "cnt (cl_sleep cl d w) = cnt w"
  using assms unfolding counts_chats_def by (metis snd_conv)+

lemma afc_loop_calls:
  assumes "counts_chats cnt cl p"
  shows "cnt (snd (afc_loop n cl p base cand conv cp messages executed w)) \<le> cnt w + n"
proof (induction n arbitrary: messages executed w)
  case 0
  show ?case by simp
next
  case (Suc n)
  obtain r w1 where c: "pv_chat p (client_ctx (base\<lparr>rq_messages := messages\<rparr>) cand conv cp) w = (r, w1)"
    by (cases "pv_chat p (client_ctx (base\<lparr>rq_messages := messages\<rparr>) cand conv cp) w")
  have w1: "cnt w1 = Suc (cnt w)" by (rule counts_chatsD(1) [OF assms c])
  show ?case
  proof (cases r)
    case (Inl e)
    then show ?thesis using c w1 by simp
  next
    case (Inr resp)
    obtain t w2 where t: "execute_tools cl (msg_tool_calls (rs_message resp)) w1 = (t, w2)"
      by (cases "execute_tools cl (msg_tool_calls (rs_message resp)) w1")
    have w2: "cnt w2 = Suc (cnt w)" using counts_chatsD(3) [OF assms t] w1 by simp
    have "cnt (snd (afc_loop n cl p base cand conv cp m e w2)) \<le> Suc (cnt w) + n" for m e
      using Suc [of m e w2] w2 by simp
    then show ?thesis using c w1 w2 t Inr by (cases t) (simp_all add: Let_def)
  qed
qed

lemma emulated_loop_calls:
  assumes "counts_chats cnt cl p"
  shows "cnt (snd (emulated_loop n cl p base cand conv cp messages executed w)) \<le> cnt w + n"
proof (induction n arbitrary: messages executed w)
  case 0
  show ?case by simp
next
  case (Suc n)
  let ?cx = "client_ctx (base\<lparr>rq_messages := messages, rq_function_calling := FcManual\<rparr>) cand conv cp"
  obtain r w1 where c: "pv_chat p ?cx w = (r, w1)" by (cases "pv_chat p ?cx w")
  have w1: "cnt w1 = Suc (cnt w)" by (rule counts_chatsD(1) [OF assms c])
  have IH: "cnt (snd (emulated_loop n cl p base cand conv cp m e w2)) \<le> Suc (cnt w) + n"
    if "execute_tools cl calls w1 = (t, w2)" for calls t w2 m e
    using Suc [of m e w2] counts_chatsD(3) [OF assms that] w1 by simp
  show ?case
    using c w1 counts_chatsD(3) [OF assms]
    by (auto simp: Let_def split: sum.split option.split tool_envelope.split prod.split list.split dest: IH)
qed

lemma run_afc_calls:
  "counts_chats cnt cl p \<Longrightarrow> cnt (snd (run_afc cl p base cand conv cp w)) \<le> cnt w + max_rounds cl"
  by (simp add: run_afc_def run_json_emulated_def afc_loop_calls emulated_loop_calls)

definition max_tries :: "'w client \<Rightarrow> nat" where
  "max_tries cl = Suc (unat (pol_rate_limit_max_retries (cl_policy cl)))"

lemma ensure_checkpoint_calls:
  "counts_chats cnt cl p \<Longrightarrow> cnt (snd (ensure_checkpoint p req conv cand cp w)) = cnt w"
  by (simp add: ensure_checkpoint_def counts_chats_def)

lemma try_candidate_calls:
  assumes "counts_chats cnt cl p" and "attempt \<le> unat (pol_rate_limit_max_retries (cl_policy cl))"
  shows "cnt (snd (try_candidate cl p req conv cand is_last attempt cp w))
           \<le> cnt w + (max_tries cl - attempt) * max_rounds cl"
  using assms(2)
proof (induction "max_tries cl - attempt" arbitrary: attempt cp w)
  case 0
  then show ?case by (simp add: max_tries_def)
next
  case (Suc d)
  obtain r w1 where e: "ensure_checkpoint p req conv cand cp w = (r, w1)"
    by (cases "ensure_checkpoint p req conv cand cp w")
  have w1: "cnt w1 = cnt w" using ensure_checkpoint_calls [OF assms(1)] e by (metis snd_conv)
  have tries: "max_tries cl - attempt = Suc d" "max_tries cl - Suc attempt = d"
    using Suc.hyps(2) by simp_all
  show ?case
  proof (cases r)
    case (Inl err)
    then show ?thesis using e w1 by (simp add: try_candidate.simps [of cl p req conv cand is_last attempt])
  next
    case (Inr cp1)
    obtain out w2 where o: "run_afc cl p req cand conv cp1 w1 = (out, w2)"
      by (cases "run_afc cl p req cand conv cp1 w1")
    have w2: "cnt w2 \<le> cnt w + max_rounds cl"
      using run_afc_calls [OF assms(1), of req cand conv cp1 w1] o w1 by simp
    then have w2': "cnt w2 \<le> cnt w + Suc d * max_rounds cl" by simp
    show ?thesis
    proof (cases out)
      case (Err err)
      show ?thesis
      proof (cases "after_error (cl_policy cl) is_last attempt cp1 err")
        case (Retry cp2)
        let ?w3 = "cl_sleep cl (pol_rate_limit_delay (cl_policy cl)) w2"
        have "attempt + 1 \<le> unat (pol_rate_limit_max_retries (cl_policy cl))"
          using after_error_Retry [OF Retry] by simp
        then have "cnt (snd (try_candidate cl p req conv cand is_last (attempt + 1) cp2 ?w3))
            \<le> cnt ?w3 + (max_tries cl - (attempt + 1)) * max_rounds cl"
          using Suc.hyps by (intro Suc.hyps(1)) simp_all
        then show ?thesis
          using e Inr o Err Retry tries w2 counts_chatsD(4) [OF assms(1)]
          by (simp add: try_candidate.simps [of cl p req conv cand is_last attempt])
      qed (use e Inr o Err tries w2' in \<open>simp_all add: try_candidate.simps [of cl p req conv cand is_last attempt]\<close>)
    qed (use e Inr o tries w2' in \<open>simp_all add: try_candidate.simps [of cl p req conv cand is_last attempt]\<close>)
  qed
qed

lemma over_candidates_calls:
  assumes "counts_chats cnt cl p"
  shows "cnt (snd (over_candidates cl p req conv cands last_err cp w))
           \<le> cnt w + length cands * (max_tries cl * max_rounds cl)"
proof (induction cands arbitrary: last_err cp w)
  case Nil
  show ?case by simp
next
  case (Cons cand cands)
  obtain v w1 where t: "try_candidate cl p req conv cand (cands = []) 0 cp w = (v, w1)"
    by (cases "try_candidate cl p req conv cand (cands = []) 0 cp w")
  have w1: "cnt w1 \<le> cnt w + max_tries cl * max_rounds cl"
    using try_candidate_calls [OF assms, of 0 req conv cand "cands = []" cp w] t by simp
  show ?case
  proof (cases v)
    case (Return r)
    then show ?thesis using t w1 by simp
  next
    case (NextAccount e cp')
    then show ?thesis using t w1 Cons [of "Some e" cp' w1] by simp
  qed
qed

text \<open>
  C16.  The work of one chat is bounded.  Whatever the provider, the tools and the accounts answer,
  \<open>chat_over\<close> returns, and it calls the provider's chat at most (accounts) times (retries + 1) times
  (tool rounds) times; with the default policy, 120 times per account.
\<close>

theorem chat_over_bounded:
  assumes "reg_p = registry_provider (cl_registry cl) (mid_provider (rq_model req))"
    and "case reg_p of Inl _ \<Rightarrow> True | Inr p \<Rightarrow> counts_chats cnt cl p"
  shows "cnt (snd (chat_over cl req cands conv w))
           \<le> cnt w + length cands * ((unat (pol_rate_limit_max_retries (cl_policy cl)) + 1)
                                      * unat (pol_max_afc_iterations (cl_policy cl)))"
proof (cases reg_p)
  case (Inl e)
  then show ?thesis using assms(1) by (simp add: chat_over_def split: sum.split)
next
  case (Inr p)
  then have c: "counts_chats cnt cl p" using assms(2) by simp
  have "cnt (snd (chat_over cl req cands conv w)) \<le> cnt w + length cands * (max_tries cl * max_rounds cl)"
    using over_candidates_calls [OF c, of req conv cands None None w] Inr assms(1)
    by (auto simp: chat_over_def split: sum.split)
  then show ?thesis by (simp add: max_tries_def max_rounds_def)
qed

end
