(* ===== verification/Failover.thy ===== *)
theory Failover
  imports Client
begin

text \<open>
  What the retry and failover of \<open>chat_over\<close> guarantee: where an outcome comes from, how a provider that
  is down is handled, and what carries over from one account to the next.
\<close>

section \<open>Where an outcome comes from\<close>

lemma try_candidate_Return:
  "try_candidate cl p req conv cand is_last attempt cp w = (Return out, w') \<Longrightarrow>
   \<exists>cp1 w1. run_afc cl p req cand conv cp1 w1 = (out, w')"
proof (induction "unat (pol_rate_limit_max_retries (cl_policy cl)) - attempt" arbitrary: attempt cp w
    rule: less_induct)
  case less
  note unf = try_candidate.simps [of cl p req conv cand is_last attempt]
  obtain r w1 where e: "ensure_checkpoint p req conv cand cp w = (r, w1)"
    by (cases "ensure_checkpoint p req conv cand cp w")
  obtain cp1 where r: "r = Inr cp1" using less.prems e by (cases r) (auto simp: unf)
  obtain o' w2 where o: "run_afc cl p req cand conv cp1 w1 = (o', w2)"
    by (cases "run_afc cl p req cand conv cp1 w1")
  show ?case
  proof (cases "\<exists>err cp2. o' = Err err \<and> after_error (cl_policy cl) is_last attempt cp1 err = Retry cp2")
    case True
    then obtain err cp2 where t: "o' = Err err" "after_error (cl_policy cl) is_last attempt cp1 err = Retry cp2"
      by blast
    have "attempt < unat (pol_rate_limit_max_retries (cl_policy cl))"
      by (rule after_error_Retry [OF t(2)])
    moreover have "try_candidate cl p req conv cand is_last (attempt + 1) cp2
        (cl_sleep cl (pol_rate_limit_delay (cl_policy cl)) w2) = (Return out, w')"
      using less.prems e r o t by (simp add: unf)
    ultimately show ?thesis by (intro less.hyps) auto
  next
    case False
    then have "o' = out" "w2 = w'"
      using less.prems e r o by (auto simp: unf split: outcome.splits decision.splits)
    then show ?thesis using o by blast
  qed
qed

lemma try_candidate_Next:
  "try_candidate cl p req conv cand is_last attempt cp w = (NextAccount err cp', w') \<Longrightarrow>
   (\<exists>cp1 w1. run_afc cl p req cand conv cp1 w1 = (Err err, w') \<and> should_failover err \<and> \<not> is_last)
   \<or> (\<exists>w1. pv_open_checkpoint p (client_ctx req cand conv None) w1 = (Inl err, w'))"
proof (induction "unat (pol_rate_limit_max_retries (cl_policy cl)) - attempt" arbitrary: attempt cp w
    rule: less_induct)
  case less
  note unf = try_candidate.simps [of cl p req conv cand is_last attempt]
  obtain r w1 where e: "ensure_checkpoint p req conv cand cp w = (r, w1)"
    by (cases "ensure_checkpoint p req conv cand cp w")
  show ?case
  proof (cases r)
    case (Inl er)
    then have "pv_open_checkpoint p (client_ctx req cand conv None) w = (Inl err, w')"
      using less.prems e by (auto simp: unf ensure_checkpoint_def split: if_splits)
    then show ?thesis by blast
  next
    case (Inr cp1)
    obtain o' w2 where o: "run_afc cl p req cand conv cp1 w1 = (o', w2)"
      by (cases "run_afc cl p req cand conv cp1 w1")
    obtain er where er: "o' = Err er" using less.prems e Inr o by (cases o') (auto simp: unf)
    show ?thesis
    proof (cases "after_error (cl_policy cl) is_last attempt cp1 er")
      case (Retry cp2)
      have "attempt < unat (pol_rate_limit_max_retries (cl_policy cl))" by (rule after_error_Retry [OF Retry])
      moreover have "try_candidate cl p req conv cand is_last (attempt + 1) cp2
          (cl_sleep cl (pol_rate_limit_delay (cl_policy cl)) w2) = (NextAccount err cp', w')"
        using less.prems e Inr o er Retry by (simp add: unf)
      ultimately show ?thesis by (intro less.hyps) auto
    next
      case (Failover cp2)
      then have "er = err" "w2 = w'" using less.prems e Inr o er by (auto simp: unf)
      moreover have "should_failover er \<and> \<not> is_last"
        using Failover by (cases "(cl_policy cl, is_last, attempt, cp1, er)" rule: after_error.cases)
          (auto simp: Let_def split: if_splits)
      ultimately show ?thesis using o er by blast
    next
      case GiveUp
      then show ?thesis using less.prems e Inr o er by (simp add: unf)
    qed
  qed
qed

definition outcome_of_candidate ::
    "'w client \<Rightarrow> 'w provider \<Rightarrow> chat_request \<Rightarrow> conversation \<Rightarrow> resolved_account \<Rightarrow> chat_response outcome
       \<Rightarrow> 'w \<Rightarrow> bool" where
  "outcome_of_candidate cl p req conv cand out w' \<longleftrightarrow>
     (\<exists>cp w1. run_afc cl p req cand conv cp w1 = (out, w'))
   \<or> (\<exists>e w1. out = Err e \<and> pv_open_checkpoint p (client_ctx req cand conv None) w1 = (Inl e, w'))"

lemma over_candidates_provenance:
  "over_candidates cl p req conv cands last_err cp w = (out, w') \<Longrightarrow>
   (\<exists>cand\<in>set cands. outcome_of_candidate cl p req conv cand out w')
   \<or> (cands = [] \<and> w' = w \<and> out = Err (case last_err of Some e \<Rightarrow> e
          | None \<Rightarrow> AccountSelection ''all candidate accounts failed''))"
proof (induction cands arbitrary: last_err cp w)
  case Nil
  then show ?case by auto
next
  case (Cons cand cands)
  obtain v w1 where t: "try_candidate cl p req conv cand (cands = []) 0 cp w = (v, w1)"
    by (cases "try_candidate cl p req conv cand (cands = []) 0 cp w")
  show ?case
  proof (cases v)
    case (Return r)
    then have "r = out" "w1 = w'" using Cons.prems t by auto
    then show ?thesis using try_candidate_Return [of cl p req conv cand] t Return
      by (auto simp: outcome_of_candidate_def)
  next
    case (NextAccount e cp')
    then have o: "over_candidates cl p req conv cands (Some e) cp' w1 = (out, w')"
      using Cons.prems t by simp
    have here: "outcome_of_candidate cl p req conv cand (Err e) w1"
      using try_candidate_Next [OF t [unfolded NextAccount]] unfolding outcome_of_candidate_def by blast
    show ?thesis using Cons.IH [OF o] here by auto
  qed
qed

text \<open>
  C1.  An outcome is some account's own.  If \<open>chat_over\<close> returns an answer, it is the result of running
  the tool loop on one of the candidates, and nothing is done after that run; an error is an invalid
  request, an unregistered provider or an empty candidate list, reported in this order and without any
  call, or else the error of a run on a candidate or of opening its session, and the last thing done.
\<close>

theorem chat_over_provenance:
  "case chat_over cl req cands conv w of (out, w') \<Rightarrow>
     (case (request_validate req, registry_provider (cl_registry cl) (mid_provider (rq_model req))) of
        (Inl m, _) \<Rightarrow> out = Err (Validation m ''invalid_request'') \<and> w' = w
      | (Inr _, Inl e) \<Rightarrow> out = Err e \<and> w' = w
      | (Inr _, Inr p) \<Rightarrow>
          if cands = []
          then out = Err (AccountSelection (no_accounts_message (mid_provider (rq_model req)))) \<and> w' = w
          else (\<exists>cand\<in>set cands. outcome_of_candidate cl p req conv cand out w'))"
proof -
  obtain out w' where o: "chat_over cl req cands conv w = (out, w')"
    by (cases "chat_over cl req cands conv w")
  show ?thesis
  proof (cases "request_validate req")
    case (Inl m)
    then show ?thesis using o by (simp add: chat_over_def)
  next
    case valid: (Inr u)
    show ?thesis
    proof (cases "registry_provider (cl_registry cl) (mid_provider (rq_model req))")
      case (Inl e)
      then show ?thesis using o valid by (simp add: chat_over_def)
    next
      case (Inr p)
      then show ?thesis
        using o valid over_candidates_provenance [of cl p req conv cands None None w out w']
        by (auto simp: chat_over_def)
    qed
  qed
qed

section \<open>A provider that is down\<close>

definition always_fails :: "'w provider \<Rightarrow> error \<Rightarrow> bool" where
  "always_fails p e \<longleftrightarrow> (\<forall>cx w. fst (pv_chat p cx w) = Inl e)"

fun transient_error :: "error \<Rightarrow> bool" where
  "transient_error (ProviderErr pe) = is_transient_rate_limit pe"
| "transient_error _ = False"

lemma run_afc_fails:
  assumes "counts_chats cnt cl p" and "always_fails p e" and "0 < max_rounds cl"
  shows "\<exists>w'. run_afc cl p req cand conv cp w = (Err e, w') \<and> cnt w' = Suc (cnt w)"
proof -
  obtain n where n: "max_rounds cl = Suc n" using assms(3) by (cases "max_rounds cl") auto
  have chat: "\<exists>w'. pv_chat p cx w = (Inl e, w') \<and> cnt w' = Suc (cnt w)" for cx
    using assms(1,2) unfolding counts_chats_def always_fails_def by (metis prod.collapse)
  then show ?thesis
    using chat unfolding run_afc_def run_json_emulated_def n
    by (auto split: prod.split) (metis (no_types, lifting) fst_conv snd_conv sum.case(1) prod.case)+
qed

lemma ensure_checkpoint_stateless:
  "\<not> requires_remote_checkpoint (pv_capabilities p) \<Longrightarrow> ensure_checkpoint p req conv cand cp w = (Inr cp, w)"
  by (simp add: ensure_checkpoint_def)

text \<open>Tries left on one account when every call fails with \<open>e\<close>.\<close>

lemma try_candidate_down:
  assumes "counts_chats cnt cl p" and "always_fails p e" and "0 < max_rounds cl"
    and "\<not> requires_remote_checkpoint (pv_capabilities p)"
    and "attempt \<le> unat (pol_rate_limit_max_retries (cl_policy cl))"
  shows "\<exists>cp' w'. try_candidate cl p req conv cand is_last attempt cp w =
             ((if should_failover e \<and> \<not> is_last then NextAccount e cp' else Return (Err e)), w')
           \<and> cnt w' = cnt w + (if transient_error e then max_tries cl - attempt else 1)"
  using assms(5)
proof (induction "max_tries cl - attempt" arbitrary: attempt cp w)
  case 0
  then show ?case by (simp add: max_tries_def)
next
  case (Suc d)
  note unf = try_candidate.simps [of cl p req conv cand is_last attempt cp w]
    ensure_checkpoint_stateless [OF assms(4)]
  obtain w2 where o: "run_afc cl p req cand conv cp w = (Err e, w2)" and w2: "cnt w2 = Suc (cnt w)"
    using run_afc_fails [OF assms(1-3)] by blast
  show ?case
  proof (cases "after_error (cl_policy cl) is_last attempt cp e")
    case (Retry cp2)
    let ?w3 = "cl_sleep cl (pol_rate_limit_delay (cl_policy cl)) w2"
    have less: "attempt < unat (pol_rate_limit_max_retries (cl_policy cl))" by (rule after_error_Retry [OF Retry])
    have tr: "transient_error e"
      using Retry by (cases "(cl_policy cl, is_last, attempt, cp, e)" rule: after_error.cases)
        (auto simp: Let_def split: if_splits)
    have d: "d = max_tries cl - (attempt + 1)" using Suc.hyps(2) by simp
    have next': "attempt + 1 \<le> unat (pol_rate_limit_max_retries (cl_policy cl))" using less by simp
    obtain cp' w' where IH: "try_candidate cl p req conv cand is_last (attempt + 1) cp2 ?w3 =
             ((if should_failover e \<and> \<not> is_last then NextAccount e cp' else Return (Err e)), w')"
        "cnt w' = cnt ?w3 + (max_tries cl - (attempt + 1))"
      using Suc.hyps(1) [OF d next', of cp2 ?w3] tr d by auto
    then show ?thesis
      using o Retry w2 counts_chatsD(4) [OF assms(1)] tr Suc.hyps(2) unfolding unf by auto
  next
    case (Failover cp2)
    then have "should_failover e \<and> \<not> is_last"
      "transient_error e \<Longrightarrow> attempt = unat (pol_rate_limit_max_retries (cl_policy cl))"
      using Suc.prems by (cases "(cl_policy cl, is_last, attempt, cp, e)" rule: after_error.cases;
          auto simp: Let_def split: if_splits)+
    then show ?thesis using o Failover w2 unfolding unf by (auto simp: max_tries_def)
  next
    case GiveUp
    then have "\<not> (should_failover e \<and> \<not> is_last)"
      "transient_error e \<Longrightarrow> attempt = unat (pol_rate_limit_max_retries (cl_policy cl))"
      using Suc.prems by (cases "(cl_policy cl, is_last, attempt, cp, e)" rule: after_error.cases;
          auto simp: Let_def transient_should_failover split: if_splits)+
    then show ?thesis using o GiveUp w2 unfolding unf by (auto simp: max_tries_def)
  qed
qed

definition tries_when_down :: "'w client \<Rightarrow> error \<Rightarrow> nat \<Rightarrow> nat" where
  "tries_when_down cl e n =
     (if transient_error e then n * max_tries cl else if should_failover e then n else 1)"

lemma over_candidates_down:
  assumes "counts_chats cnt cl p" and "always_fails p e" and "0 < max_rounds cl"
    and "\<not> requires_remote_checkpoint (pv_capabilities p)" and "cands \<noteq> []"
  shows "\<exists>w'. over_candidates cl p req conv cands last_err cp w = (Err e, w')
            \<and> cnt w' = cnt w + tries_when_down cl e (length cands)"
  using assms(5)
proof (induction cands arbitrary: last_err cp w)
  case Nil
  then show ?case by simp
next
  case (Cons cand cands)
  have tf: "transient_error e \<Longrightarrow> should_failover e"
    by (cases e rule: transient_error.cases) (auto intro: transient_should_failover)
  obtain cp' w1 where t: "try_candidate cl p req conv cand (cands = []) 0 cp w =
        ((if should_failover e \<and> cands \<noteq> [] then NextAccount e cp' else Return (Err e)), w1)"
      "cnt w1 = cnt w + (if transient_error e then max_tries cl else 1)"
    using try_candidate_down [OF assms(1-4), of 0 req conv cand "cands = []" cp w] by auto
  show ?case
  proof (cases "should_failover e \<and> cands \<noteq> []")
    case True
    then obtain w' where "over_candidates cl p req conv cands (Some e) cp' w1 = (Err e, w')"
      "cnt w' = cnt w1 + tries_when_down cl e (length cands)"
      using Cons.IH by blast
    then show ?thesis using t True by (simp add: tries_when_down_def)
  next
    case False
    then show ?thesis using t tf by (auto simp: tries_when_down_def)
  qed
qed

text \<open>
  C13.  A provider that is down.  When every call of a stateless provider fails with the same error, a
  valid request over n accounts ends with that error after exactly: n times (retries + 1) calls for a
  transient rate limit, n calls for another error that warrants failover, and one call otherwise.
\<close>

theorem outage_exact:
  assumes "request_validate req = Inr ()" and "cl_registry cl (mid_provider (rq_model req)) = Some p"
    and "cands \<noteq> []" and "counts_chats cnt cl p" and "always_fails p e"
    and "0 < pol_max_afc_iterations (cl_policy cl)"
    and "\<not> requires_remote_checkpoint (pv_capabilities p)"
  shows "\<exists>w'. chat_over cl req cands conv w = (Err e, w')
       \<and> cnt w' = cnt w +
           (if transient_error e
            then length cands * (unat (pol_rate_limit_max_retries (cl_policy cl)) + 1)
            else if should_failover e then length cands else 1)"
proof -
  have "0 < max_rounds cl"
    using assms(6) by (simp add: max_rounds_def word_less_nat_alt)
  from over_candidates_down [OF assms(4,5) this assms(7,3)]
  show ?thesis using assms(1-3)
    by (auto simp: chat_over_def registry_provider_def tries_when_down_def max_tries_def)
qed

section \<open>A concrete deployment\<close>

text \<open>
  A provider whose world is the log of the calls it received: the account of each call and the account
  of the checkpoint it carried.  It answers through a script of replies, then with the last one.
\<close>

type_synonym call_log = "(string \<times> string option) list"

definition sample_caps :: "bool \<Rightarrow> provider_capabilities" where
  "sample_caps remote =
     \<lparr>cap_provider = Claude, tool_support = ToolNative, structured_output = OutNone,
      remote_session = SessNone, supports_system_prompt = True, supports_stateful_history = False,
      requires_remote_checkpoint = remote, default_history_mode = HistAuto,
      supports_image_generation = False\<rparr>"

definition sample_checkpoint :: "chat_ctx \<Rightarrow> checkpoint" where
  "sample_checkpoint cx =
     \<lparr>cp_conversation_key = ''k'', cp_provider = Claude,
      cp_account_id = pa_account_id (cx_account cx), cp_remote_conversation_id = None,
      cp_remote_parent_id = None, cp_remote_metadata = metadata_new, cp_history_version = 0,
      cp_updated_at = 0, cp_is_valid = True\<rparr>"

definition sample_reply :: "tool_call list \<Rightarrow> chat_response" where
  "sample_reply calls =
     \<lparr>rs_model = ''m'', rs_message = message_assistant_with_tools (Some (CText ''hi'')) calls,
      rs_usage = usage_default, rs_tool_calls_executed = [], rs_provider_response_id = None,
      rs_finish_reason = None, rs_metadata = metadata_new\<rparr>"

definition scripted_provider :: "bool \<Rightarrow> (error + chat_response) list \<Rightarrow> call_log provider" where
  "scripted_provider remote replies =
     \<lparr>pv_capabilities = sample_caps remote, pv_list_models = [],
      pv_discover_models = default_discover_models [],
      pv_normalize_system_prompt = default_normalize_system_prompt,
      pv_open_checkpoint = (if remote then \<lambda>cx w. (Inr (Some (sample_checkpoint cx)), w)
                            else default_open_checkpoint),
      pv_chat = \<lambda>cx w. (replies ! min (length w) (length replies - 1),
                        w @ [(pa_account_id (cx_account cx), map_option cp_account_id (cx_checkpoint cx))]),
      pv_chat_stream = \<lambda>cx w. (Inr [], w), pv_authenticator = None\<rparr>"

definition echo_tool :: "call_log tool_handler" where
  "echo_tool args w = (Inr (tool_output_ok (JObject args)), w)"

definition sample_client :: "bool \<Rightarrow> (error + chat_response) list \<Rightarrow> call_log client" where
  "sample_client remote replies =
     \<lparr>cl_registry = registry_build [scripted_provider remote replies],
      cl_tools = [(''f'', echo_tool)],
      cl_policy = retry_policy_default, cl_serde = envelope_serde,
      cl_schedule = \<lambda>calls w. [0..<length calls], cl_sleep = \<lambda>d w. w\<rparr>"

definition sample_request :: chat_request where
  "sample_request = chat_request_new \<lparr>mid_provider = Claude, mid_model = ''m''\<rparr> [message_user ''hi'']"

definition sample_candidate :: "string \<Rightarrow> resolved_account" where
  "sample_candidate k = \<lparr>ra_account = sample_account k Claude 1, ra_secret = []\<rparr>"

lemma sample_registry:
  "cl_registry (sample_client remote replies) Claude = Some (scripted_provider remote replies)"
  "registry_provider (cl_registry (sample_client remote replies)) Claude = Inr (scripted_provider remote replies)"
  by (simp_all add: sample_client_def registry_provider_def registry_build_lookup scripted_provider_def
      sample_caps_def)

lemma sample_request_simps:
  "mid_provider (rq_model sample_request) = Claude" "request_validate sample_request = Inr ()"
  "rq_tools sample_request = []" "rq_messages sample_request = [message_user ''hi'']"
  by (simp_all add: sample_request_def chat_request_new_def request_validate_def message_validate_def
      message_user_def message_bare_def)

lemma sample_schedule: "schedule_ok (sample_client remote replies)"
  by (simp add: schedule_ok_def sample_client_def)

lemma sample_tools: "tools_total (cl_tools (sample_client remote replies))"
  by (simp add: tools_total_def sample_client_def echo_tool_def)

lemma sample_counts:
  "counts_chats length (sample_client remote replies) (scripted_provider remote replies)"
proof -
  have "snd (complete_all [(''f'', echo_tool)] calls order w) = w" for calls order w
    by (induction order arbitrary: w) (auto simp: Let_def split_beta run_call_def echo_tool_def)
  then show ?thesis
    by (auto simp: counts_chats_def scripted_provider_def execute_tools_def sample_client_def
        execute_in_order_def split_beta default_open_checkpoint_def)
qed

lemma chat_over_bounded_witness:
  "length (snd (chat_over (sample_client True [Inl (Network ''down'')]) sample_request
             [sample_candidate ''a'', sample_candidate ''b''] (conversation_new ''k'') [])) \<le> 240"
proof -
  let ?cl = "sample_client True [Inl (Network ''down'')]"
  have "case registry_provider (cl_registry ?cl) (mid_provider (rq_model sample_request)) of
      Inl _ \<Rightarrow> True | Inr p \<Rightarrow> counts_chats length ?cl p"
    using sample_counts by (simp add: sample_request_simps sample_registry)
  from chat_over_bounded [OF refl this, of "[sample_candidate ''a'', sample_candidate ''b'']" "conversation_new ''k''" "[]"]
  show ?thesis by (simp add: sample_client_def retry_policy_default_def)
qed

lemma outage_exact_witness:
  "\<exists>w'. chat_over (sample_client False [Inl (Network ''down'')]) sample_request
         [sample_candidate ''a'', sample_candidate ''b''] (conversation_new ''k'') []
       = (Err (Network ''down''), w') \<and> length w' = 2"
proof -
  let ?cl = "sample_client False [Inl (Network ''down'')]" and ?p = "scripted_provider False [Inl (Network ''down'')]"
  have "cl_registry ?cl (mid_provider (rq_model sample_request)) = Some ?p"
    by (simp add: sample_request_simps sample_registry)
  moreover have "always_fails ?p (Network ''down'')"
    by (simp add: always_fails_def scripted_provider_def)
  moreover have "0 < pol_max_afc_iterations (cl_policy ?cl)" "\<not> requires_remote_checkpoint (pv_capabilities ?p)"
    by (simp_all add: sample_client_def retry_policy_default_def scripted_provider_def sample_caps_def)
  ultimately show ?thesis
    using outage_exact [OF sample_request_simps(2) _ _ sample_counts, of False "[Inl (Network ''down'')]"
        "[sample_candidate ''a'', sample_candidate ''b'']" "Network ''down''" "conversation_new ''k''" "[]"]
    by (simp add: numeral_2_eq_2)
qed

lemma afc_loop_correct_witness:
  "\<exists>out w' k rounds executed.
     run_afc (sample_client False [Inr (sample_reply [sample_call ''1'' ''f'']), Inr (sample_reply [])])
        (scripted_provider False [Inr (sample_reply [sample_call ''1'' ''f'']), Inr (sample_reply [])])
        sample_request (sample_candidate ''a'') (conversation_new ''k'') None [] = (out, w')
   \<and> length rounds = k \<and> list_all answered_round rounds
   \<and> map (tc_id \<circ> ex_call) (executed :: executed_tool_call list) = concat (map (\<lambda>r. map tc_id (msg_tool_calls (hd r))) rounds)"
proof -
  let ?s = "[Inr (sample_reply [sample_call ''1'' ''f'']), Inr (sample_reply [])] :: (error + chat_response) list"
  have ne: "\<not> use_emulation (sample_client False ?s) (scripted_provider False ?s) sample_request"
    by (simp add: use_emulation_def sample_request_simps)
  obtain out w' where r: "run_afc (sample_client False ?s) (scripted_provider False ?s) sample_request
      (sample_candidate ''a'') (conversation_new ''k'') None [] = (out, w')"
    by (cases "run_afc (sample_client False ?s) (scripted_provider False ?s) sample_request
      (sample_candidate ''a'') (conversation_new ''k'') None []")
  from afc_loop_correct [OF sample_schedule sample_tools ne r] show ?thesis
    by (intro exI [of _ out] exI [of _ w']) (elim exE conjE, intro exI conjI, rule r, assumption+)
qed

section \<open>What carries over between accounts\<close>

text \<open>
  The checkpoint variable of \<open>chat_over\<close> outlives the loop over the accounts.  After the first account's
  request fails with an error that does not invalidate the session (here the network), the second
  account is used with the session that was opened for the first.
\<close>

lemma sample_run:
  fixes w :: call_log and cand :: resolved_account
  defines "log \<equiv> \<lambda>cp. w @ [(pa_account_id (ra_account cand), map_option cp_account_id cp)]"
  shows "replies ! min (length w) (length replies - 1) = Inl e \<Longrightarrow>
           run_afc (sample_client remote replies) (scripted_provider remote replies) sample_request cand conv cp w
             = (Err e, log cp)"
    and "replies ! min (length w) (length replies - 1) = Inr (sample_reply []) \<Longrightarrow>
           run_afc (sample_client remote replies) (scripted_provider remote replies) sample_request cand conv cp w
             = (Ok (sample_reply []), log cp)"
proof -
  have "0 < max_rounds (sample_client remote replies)"
    by (simp add: max_rounds_def sample_client_def retry_policy_default_def)
  then obtain m where n: "max_rounds (sample_client remote replies) = Suc m"
    by (cases "max_rounds (sample_client remote replies)") auto
  have c: "pv_chat (scripted_provider remote replies) (client_ctx req cand conv cp) w =
      (replies ! min (length w) (length replies - 1), log cp)" for req cp
    by (simp add: scripted_provider_def client_ctx_def log_def)
  have e: "\<not> use_emulation (sample_client remote replies) (scripted_provider remote replies) sample_request"
    by (simp add: use_emulation_def sample_request_simps)
  show "replies ! min (length w) (length replies - 1) = Inl e \<Longrightarrow>
           run_afc (sample_client remote replies) (scripted_provider remote replies) sample_request cand conv cp w
             = (Err e, log cp)"
    by (simp add: run_afc_def e n c)
  show "replies ! min (length w) (length replies - 1) = Inr (sample_reply []) \<Longrightarrow>
           run_afc (sample_client remote replies) (scripted_provider remote replies) sample_request cand conv cp w
             = (Ok (sample_reply []), log cp)"
    by (simp add: run_afc_def e n c runnable_def attach_executed_def sample_reply_def
        message_assistant_with_tools_def message_bare_def Let_def)
qed

lemma checkpoint_crosses_accounts:
  "snd (chat_over (sample_client True [Inl (Network ''down''), Inr (sample_reply [])]) sample_request
          [sample_candidate ''a'', sample_candidate ''b''] (conversation_new ''k'') []) =
     [(''a'', Some ''a''), (''b'', Some ''a'')]"
proof -
  let ?r = "[Inl (Network ''down''), Inr (sample_reply [])] :: (error + chat_response) list"
  let ?p = "scripted_provider True ?r" and ?a = "sample_candidate ''a''" and ?b = "sample_candidate ''b''"
  let ?cp = "sample_checkpoint (client_ctx sample_request ?a (conversation_new ''k'') None)"
  have "ensure_checkpoint ?p sample_request (conversation_new ''k'') ?a None [] = (Inr (Some ?cp), [])"
    by (simp add: ensure_checkpoint_def scripted_provider_def sample_caps_def)
  moreover have "ensure_checkpoint ?p sample_request (conversation_new ''k'') ?b (Some ?cp) w = (Inr (Some ?cp), w)" for w
    by (simp add: ensure_checkpoint_def)
  moreover have "cp_account_id ?cp = ''a''"
    by (simp add: sample_checkpoint_def client_ctx_def sample_candidate_def sample_account_def)
  moreover have "pa_account_id (ra_account ?a) = ''a''" "pa_account_id (ra_account ?b) = ''b''"
    by (simp_all add: sample_candidate_def sample_account_def)
  ultimately show ?thesis
    by (simp add: chat_over_def sample_request_simps sample_registry try_candidate.simps sample_run)
qed

end
