(* ===== verification/Managed.thy ===== *)
theory Managed
  imports Failover Manager UserFiles
begin

text \<open>
  The stateful entry points of the orchestrator (\<open>gravity-client/src/client.rs\<close>): a chat that selects
  its accounts from an \<open>AccountManager\<close>, refreshes credentials once, and writes the health of every
  account it tried back to the manager and to disk; and the model discovery next to it.

  A \<open>gateway\<close> is the client with its surroundings; an \<open>office\<close> is the state a call changes: the manager
  behind its mutex, the machine the files live on, and the world of the providers.  The clock is a
  reading of the world, so it can advance while a provider answers; \<open>gw_utc_now\<close> is the system clock that
  \<open>now()\<close> falls back to outside the range of dates.
\<close>

section \<open>State\<close>

record ('w, 'e) gateway =
  gw_client :: "'w client"
  gw_platform :: "'e platform"
  gw_accounts_codec :: "accounts_file codec"
  gw_metrics_codec :: "metrics codec"
  gw_from_millis :: "int \<Rightarrow> datetime option"
  gw_utc_now :: "'w \<Rightarrow> datetime"
  gw_clock :: "'w \<Rightarrow> u64"

record ('w, 'e) office =
  of_manager :: manager
  of_host :: "'e host"
  of_world :: 'w

section \<open>Failures\<close>

definition default_cooldown :: duration where
  "default_cooldown = 300000000000"

fun classify_failure :: "error \<Rightarrow> string \<times> duration \<times> bool" where
  "classify_failure (ProviderErr pe) =
     (pe_code pe,
      (if pe_kind pe = RateLimit \<or> pe_kind pe = QuotaExceeded
       then (case pe_retry_after pe of Some d \<Rightarrow> d | None \<Rightarrow> default_cooldown) else 0),
      pe_should_failover pe)"
| "classify_failure (Network _) = (''network'', 0, True)"
| "classify_failure _ = (''error'', 0, False)"

section \<open>Accounts for a chat\<close>

definition defaults_of_capabilities :: "provider_capabilities \<Rightarrow> provider_defaults" where
  "defaults_of_capabilities caps =
     \<lparr>df_tool_support = tool_support caps, df_structured_output = structured_output caps,
      df_remote_session_mode = remote_session caps,
      df_supports_system_prompt = supports_system_prompt caps,
      df_default_history_mode = default_history_mode caps\<rparr>"

definition anon_account :: "provider_name \<Rightarrow> provider_capabilities \<Rightarrow> provider_account" where
  "anon_account provider caps =
     \<lparr>pa_account_id = ''auto-anon-'' @ provider_as_str (cap_provider caps),
      pa_provider = provider, pa_enabled = True, pa_pool = ''auto-anon'', pa_priority = - 1,
      pa_weight = 1,
      pa_auth =
        \<lparr>au_kind = ''anonymous'', au_secret_ref = [], au_account_label = Some ''auto-anon'',
         au_org_id = None, au_device_id = None, au_routing_hint = None,
         au_chatgpt_account_id = None, au_refresh_secret_ref = None, au_extra = metadata_new\<rparr>,
      pa_transport =
        \<lparr>tp_base_url = [], tp_timeout_ms = 60000, tp_impersonate = Some ''chrome136'',
         tp_proxy_url = None, tp_verify_ssl = True, tp_extra_headers = Map.empty\<rparr>,
      pa_rotation_state = rotation_state_default, pa_quota = quota_state_default,
      pa_defaults = defaults_of_capabilities caps, pa_metadata = metadata_new\<rparr>"

definition anon_fallback :: "'w registry \<Rightarrow> provider_name \<Rightarrow> resolved_account option" where
  "anon_fallback reg provider =
     (if provider = Perplexity \<or> provider = Chatgpt \<or> provider = Glm then
        (case registry_provider reg provider of
           Inl _ \<Rightarrow> None
         | Inr p \<Rightarrow> Some \<lparr>ra_account = anon_account provider (pv_capabilities p), ra_secret = []\<rparr>)
      else None)"

text \<open>\<open>resolve_secret(..).map(expose).unwrap_or_default()\<close>\<close>

definition secret_or_empty :: "'e platform \<Rightarrow> manager \<Rightarrow> auth_config \<Rightarrow> 'e host \<Rightarrow> string \<times> 'e host" where
  "secret_or_empty pl mgr auth h =
     (case resolve_secret pl mgr auth h of (Inl _, h') \<Rightarrow> ([], h') | (Inr s, h') \<Rightarrow> (s, h'))"

fun resolve_candidates ::
    "'e platform \<Rightarrow> manager \<Rightarrow> provider_account list \<Rightarrow> 'e host
       \<Rightarrow> (string \<times> resolved_account) list \<times> 'e host" where
  "resolve_candidates pl mgr [] h = ([], h)"
| "resolve_candidates pl mgr (a # as) h =
     (let (s, h1) = secret_or_empty pl mgr (pa_auth a) h;
          (cs, h2) = resolve_candidates pl mgr as h1
      in ((pa_account_id a, \<lparr>ra_account = a, ra_secret = s\<rparr>) # cs, h2))"

section \<open>Writing health back\<close>

definition save_ignoring ::
    "('w, 'e) gateway \<Rightarrow> ('w, 'e) office \<Rightarrow> ('w, 'e) office" where
  "save_ignoring gw st =
     st\<lparr>of_host := snd (manager_save (gw_platform gw) (gw_accounts_codec gw) (of_manager st)
                         ((of_host st)\<lparr>ho_now := gw_clock gw (of_world st)\<rparr>))\<rparr>"

definition note_usage :: "('w, 'e) gateway \<Rightarrow> chat_response \<Rightarrow> ('w, 'e) office \<Rightarrow> ('w, 'e) office" where
  "note_usage gw resp st =
     st\<lparr>of_host := (of_host st)
         \<lparr>ho_fs := record_usage (pl_serde (gw_platform gw)) (gw_metrics_codec gw) (rs_model resp)
                    (ucast (or_zero (us_input_tokens (rs_usage resp))))
                    (ucast (or_zero (us_output_tokens (rs_usage resp))))
                    (ucast (or_zero (us_total_tokens (rs_usage resp)))) (ho_fs (of_host st))\<rparr>\<rparr>"

definition note_success ::
    "('w, 'e) gateway \<Rightarrow> string \<Rightarrow> chat_response \<Rightarrow> ('w, 'e) office \<Rightarrow> ('w, 'e) office" where
  "note_success gw account_id resp st =
     (let st1 = note_usage gw resp st;
          st2 = st1\<lparr>of_manager := mark_success (gw_from_millis gw) (gw_utc_now gw (of_world st1))
                      (gw_clock gw (of_world st1)) account_id (of_manager st1)\<rparr>
      in save_ignoring gw st2)"

definition note_failure ::
    "('w, 'e) gateway \<Rightarrow> string \<Rightarrow> error \<Rightarrow> ('w, 'e) office \<Rightarrow> ('w, 'e) office" where
  "note_failure gw account_id err st =
     (let (code, cooldown, failover) = classify_failure err
      in save_ignoring gw
           (st\<lparr>of_manager := mark_failure (gw_from_millis gw) (gw_utc_now gw (of_world st))
                 (gw_clock gw (of_world st)) account_id code cooldown (of_manager st)\<rparr>))"

section \<open>One account\<close>

datatype managed_verdict = Answer "chat_response outcome" | TryNext error

text \<open>A failure is recorded, then it moves on to the next account or ends the chat.\<close>

definition settle ::
    "('w, 'e) gateway \<Rightarrow> string \<Rightarrow> bool \<Rightarrow> error \<Rightarrow> ('w, 'e) office \<Rightarrow> managed_verdict \<times> ('w, 'e) office" where
  "settle gw account_id is_last err st =
     ((if snd (snd (classify_failure err)) \<and> \<not> is_last then TryNext err else Answer (Err err)),
      note_failure gw account_id err st)"

definition is_auth_failure :: "error \<Rightarrow> bool" where
  "is_auth_failure err \<longleftrightarrow>
     (case err of ProviderErr pe \<Rightarrow> pe_kind pe = Authentication | _ \<Rightarrow> False)"

text \<open>
  The refresh of rejected credentials: the new credentials go into the manager and to disk, and the
  account to retry with carries them with their secret.
\<close>

definition refresh_account ::
    "('w, 'e) gateway \<Rightarrow> 'w provider \<Rightarrow> string \<Rightarrow> resolved_account \<Rightarrow> error \<Rightarrow> ('w, 'e) office
       \<Rightarrow> resolved_account option \<times> ('w, 'e) office" where
  "refresh_account gw p account_id cand err st =
     (if is_auth_failure err then
        (case pv_authenticator p of
           None \<Rightarrow> (None, st)
         | Some auth \<Rightarrow>
             (case at_refresh auth (ra_account cand) (of_world st) of
                (Inl _, _, w') \<Rightarrow> (None, st\<lparr>of_world := w'\<rparr>)
              | (Inr _, a, w') \<Rightarrow>
                  let st1 = st\<lparr>of_world := w',
                               of_manager := snd (update_auth account_id (pa_auth a) (of_manager st))\<rparr>;
                      st2 = save_ignoring gw st1;
                      (s, h) = secret_or_empty (gw_platform gw) (of_manager st2) (pa_auth a) (of_host st2)
                  in (Some \<lparr>ra_account = a, ra_secret = s\<rparr>, st2\<lparr>of_host := h\<rparr>)))
      else (None, st))"

text \<open>\<open>provider.open_checkpoint(&ctx).await.ok().flatten()\<close>\<close>

definition managed_checkpoint ::
    "'w provider \<Rightarrow> chat_request \<Rightarrow> conversation \<Rightarrow> resolved_account \<Rightarrow> ('w, 'e) office
       \<Rightarrow> checkpoint option \<times> ('w, 'e) office" where
  "managed_checkpoint p req conv cand st =
     (if requires_remote_checkpoint (pv_capabilities p) then
        (case pv_open_checkpoint p (client_ctx req cand conv None) (of_world st) of
           (Inl _, w') \<Rightarrow> (None, st\<lparr>of_world := w'\<rparr>)
         | (Inr cp, w') \<Rightarrow> (cp, st\<lparr>of_world := w'\<rparr>))
      else (None, st))"

definition managed_run ::
    "('w, 'e) gateway \<Rightarrow> 'w provider \<Rightarrow> chat_request \<Rightarrow> conversation \<Rightarrow> resolved_account
       \<Rightarrow> checkpoint option \<Rightarrow> ('w, 'e) office \<Rightarrow> chat_response outcome \<times> ('w, 'e) office" where
  "managed_run gw p req conv cand cp st =
     (case run_afc (gw_client gw) p req cand conv cp (of_world st) of
        (out, w') \<Rightarrow> (out, st\<lparr>of_world := w'\<rparr>))"

definition managed_candidate ::
    "('w, 'e) gateway \<Rightarrow> 'w provider \<Rightarrow> chat_request \<Rightarrow> conversation \<Rightarrow> string \<Rightarrow> resolved_account
       \<Rightarrow> bool \<Rightarrow> ('w, 'e) office \<Rightarrow> managed_verdict \<times> ('w, 'e) office" where
  "managed_candidate gw p req conv account_id cand is_last st =
     (let (cp, st1) = managed_checkpoint p req conv cand st
      in case managed_run gw p req conv cand cp st1 of
           (Ok resp, st2) \<Rightarrow> (Answer (Ok resp), note_success gw account_id resp st2)
         | (Panic, st2) \<Rightarrow> (Answer Panic, st2)
         | (Err err, st2) \<Rightarrow>
             (case refresh_account gw p account_id cand err st2 of
                (None, st3) \<Rightarrow> settle gw account_id is_last err st3
              | (Some cand', st3) \<Rightarrow>
                  (case managed_run gw p req conv cand' cp st3 of
                     (Ok resp, st4) \<Rightarrow> (Answer (Ok resp), note_success gw account_id resp st4)
                   | (Panic, st4) \<Rightarrow> (Answer Panic, st4)
                   | (Err retry_err, st4) \<Rightarrow> settle gw account_id is_last retry_err st4)))"

section \<open>The chat\<close>

fun managed_over ::
    "('w, 'e) gateway \<Rightarrow> 'w provider \<Rightarrow> chat_request \<Rightarrow> conversation \<Rightarrow> (string \<times> resolved_account) list
       \<Rightarrow> error option \<Rightarrow> ('w, 'e) office \<Rightarrow> chat_response outcome \<times> ('w, 'e) office" where
  "managed_over gw p req conv [] last_err st =
     (Err (case last_err of Some e \<Rightarrow> e | None \<Rightarrow> AccountSelection ''all accounts failed''), st)"
| "managed_over gw p req conv ((account_id, cand) # cands) last_err st =
     (case managed_candidate gw p req conv account_id cand (cands = []) st of
        (Answer out, st') \<Rightarrow> (out, st')
      | (TryNext e, st') \<Rightarrow> managed_over gw p req conv cands (Some e) st')"

definition no_usable_message :: "provider_name \<Rightarrow> string" where
  "no_usable_message name = ''no usable accounts for provider '' @ provider_as_str name"

definition managed_candidates ::
    "('w, 'e) gateway \<Rightarrow> provider_name \<Rightarrow> ('w, 'e) office
       \<Rightarrow> (error + (string \<times> resolved_account) list) \<times> ('w, 'e) office" where
  "managed_candidates gw name st =
     (let (cs, h) = resolve_candidates (gw_platform gw) (of_manager st)
                      (accounts_for (of_manager st) (gw_clock gw (of_world st)) name) (of_host st);
          st' = st\<lparr>of_host := h\<rparr>
      in if cs = [] then
           (case anon_fallback (cl_registry (gw_client gw)) name of
              Some anon \<Rightarrow> (Inr [(''auto-anon'', anon)], st')
            | None \<Rightarrow> (Inl (AccountSelection (no_usable_message name)), st'))
         else (Inr cs, st'))"

definition chat_with_manager ::
    "('w, 'e) gateway \<Rightarrow> chat_request \<Rightarrow> conversation \<Rightarrow> ('w, 'e) office
       \<Rightarrow> chat_response outcome \<times> ('w, 'e) office" where
  "chat_with_manager gw req conv st =
     (case request_validate req of
        Inl m \<Rightarrow> (Err (Validation m ''invalid_request''), st)
      | Inr _ \<Rightarrow>
          (case registry_provider (cl_registry (gw_client gw)) (mid_provider (rq_model req)) of
             Inl e \<Rightarrow> (Err e, st)
           | Inr p \<Rightarrow>
               (case managed_candidates gw (mid_provider (rq_model req)) st of
                  (Inl e, st') \<Rightarrow> (Err e, st')
                | (Inr cands, st') \<Rightarrow> managed_over gw p req conv cands None st')))"

section \<open>What a chat leaves in the manager\<close>

text \<open>The updates a chat makes: a health event at a reading of the system clock, or new credentials.\<close>

datatype desk_event = Health datetime health_event | Rekeyed string auth_config

fun desk_step :: "(int \<Rightarrow> datetime option) \<Rightarrow> desk_event \<Rightarrow> manager \<Rightarrow> manager" where
  "desk_step fm (Health un e) mgr = health_step fm un e mgr"
| "desk_step fm (Rekeyed k auth) mgr = snd (update_auth k auth mgr)"

fun desk_account :: "desk_event \<Rightarrow> string" where
  "desk_account (Health un e) = event_account e"
| "desk_account (Rekeyed k auth) = k"

text \<open>
  The events of one attempt on an account: at most one change of its credentials, then a success when it
  answered, a failure with the code and the cooldown of the error when it failed.
\<close>

definition rekeyings :: "string \<Rightarrow> desk_event list \<Rightarrow> bool" where
  "rekeyings k es \<longleftrightarrow> es = [] \<or> (\<exists>auth. es = [Rekeyed k auth])"

definition failure_event :: "datetime \<Rightarrow> u64 \<Rightarrow> string \<Rightarrow> error \<Rightarrow> desk_event" where
  "failure_event un t k err =
     (case classify_failure err of (code, cooldown, failover) \<Rightarrow> Health un (Failed t k code cooldown))"

fun attempt_events :: "string \<Rightarrow> managed_verdict \<Rightarrow> desk_event list \<Rightarrow> bool" where
  "attempt_events k (Answer (Ok resp)) es \<longleftrightarrow>
     (\<exists>r un t. rekeyings k r \<and> es = r @ [Health un (Succeeded t k)])"
| "attempt_events k (Answer (Err err)) es \<longleftrightarrow>
     (\<exists>r un t. rekeyings k r \<and> es = r @ [failure_event un t k err])"
| "attempt_events k (TryNext err) es \<longleftrightarrow>
     (\<exists>r un t. rekeyings k r \<and> es = r @ [failure_event un t k err])"
| "attempt_events k (Answer Panic) es \<longleftrightarrow> rekeyings k es"

definition warrants_failover :: "error \<Rightarrow> bool" where
  "warrants_failover err \<longleftrightarrow> snd (snd (classify_failure err))"

lemma warrants_failover_iff: "warrants_failover err \<longleftrightarrow> should_failover err"
  by (cases err) (simp_all add: warrants_failover_def)

lemma save_ignoring_manager [simp]: "of_manager (save_ignoring gw st) = of_manager st"
  by (simp add: save_ignoring_def)

lemma of_manager_notes:
  "\<exists>un t. of_manager (note_success gw k resp st) =
     desk_step (gw_from_millis gw) (Health un (Succeeded t k)) (of_manager st)"
  "\<exists>un t. of_manager (note_failure gw k err st) =
     desk_step (gw_from_millis gw) (failure_event un t k err) (of_manager st)"
proof -
  show "\<exists>un t. of_manager (note_success gw k resp st) =
     desk_step (gw_from_millis gw) (Health un (Succeeded t k)) (of_manager st)"
    by (intro exI [of _ "gw_utc_now gw (of_world st)"] exI [of _ "gw_clock gw (of_world st)"])
      (simp add: note_success_def note_usage_def Let_def)
  show "\<exists>un t. of_manager (note_failure gw k err st) =
     desk_step (gw_from_millis gw) (failure_event un t k err) (of_manager st)"
    by (intro exI [of _ "gw_utc_now gw (of_world st)"] exI [of _ "gw_clock gw (of_world st)"])
      (simp add: note_failure_def failure_event_def split: prod.split)
qed

lemma managed_checkpoint_manager:
  "managed_checkpoint p req conv cand st = (cp, st') \<Longrightarrow> of_manager st' = of_manager st"
  by (auto simp: managed_checkpoint_def split: if_splits prod.splits sum.splits)

lemma managed_run_manager:
  "managed_run gw p req conv cand cp st = (out, st') \<Longrightarrow> of_manager st' = of_manager st"
  by (auto simp: managed_run_def split: prod.splits)

lemma refresh_events:
  assumes "refresh_account gw p k cand err st = (r, st')"
  shows "\<exists>es. rekeyings k es \<and> of_manager st' = fold (desk_step fm) es (of_manager st)"
proof (cases "of_manager st' = of_manager st")
  case True
  then show ?thesis by (auto simp: rekeyings_def)
next
  case False
  then obtain auth where "of_manager st' = snd (update_auth k auth (of_manager st))"
    using assms unfolding refresh_account_def
    by (auto simp: Let_def split: if_splits option.splits prod.splits sum.splits)
  then have "of_manager st' = fold (desk_step fm) [Rekeyed k auth] (of_manager st)" by simp
  then show ?thesis unfolding rekeyings_def by blast
qed

lemma settle_events:
  assumes "settle gw k is_last err st = (v, st')" and "rekeyings k r"
    and "of_manager st = fold (desk_step (gw_from_millis gw)) r m"
  shows "\<exists>es. attempt_events k v es \<and> of_manager st' = fold (desk_step (gw_from_millis gw)) es m
           \<and> v = (if warrants_failover err \<and> \<not> is_last then TryNext err else Answer (Err err))"
proof -
  obtain un t where "of_manager (note_failure gw k err st) =
      desk_step (gw_from_millis gw) (failure_event un t k err) (of_manager st)"
    using of_manager_notes(2) [of gw k err st] by blast
  then have "of_manager st' = fold (desk_step (gw_from_millis gw)) (r @ [failure_event un t k err]) m"
    using assms(1,3) by (auto simp: settle_def)
  moreover have "attempt_events k v (r @ [failure_event un t k err])"
    using assms(1,2) by (auto simp: settle_def; blast)
  ultimately show ?thesis using assms(1) by (auto simp: settle_def warrants_failover_def)
qed

lemma success_events:
  assumes "rekeyings k r" and "of_manager st = fold (desk_step (gw_from_millis gw)) r m"
  shows "\<exists>es. attempt_events k (Answer (Ok resp)) es
           \<and> of_manager (note_success gw k resp st) = fold (desk_step (gw_from_millis gw)) es m"
proof -
  obtain un t where "of_manager (note_success gw k resp st) =
      desk_step (gw_from_millis gw) (Health un (Succeeded t k)) (of_manager st)"
    using of_manager_notes(1) [of gw k resp st] by blast
  then have "of_manager (note_success gw k resp st) =
      fold (desk_step (gw_from_millis gw)) (r @ [Health un (Succeeded t k)]) m"
    using assms(2) by simp
  moreover have "attempt_events k (Answer (Ok resp)) (r @ [Health un (Succeeded t k)])"
    using assms(1) by auto
  ultimately show ?thesis by blast
qed

definition verdict_ok :: "bool \<Rightarrow> managed_verdict \<Rightarrow> bool" where
  "verdict_ok is_last v \<longleftrightarrow>
     (case v of TryNext e \<Rightarrow> warrants_failover e \<and> \<not> is_last
      | Answer (Err e) \<Rightarrow> warrants_failover e \<longrightarrow> is_last
      | _ \<Rightarrow> True)"

lemma managed_candidate_events:
  assumes "managed_candidate gw p req conv k cand is_last st = (v, st')"
  shows "\<exists>es. attempt_events k v es
           \<and> of_manager st' = fold (desk_step (gw_from_millis gw)) es (of_manager st)
           \<and> verdict_ok is_last v"
proof -
  let ?step = "desk_step (gw_from_millis gw)"
  obtain cp st1 where cp: "managed_checkpoint p req conv cand st = (cp, st1)"
    by (cases "managed_checkpoint p req conv cand st")
  obtain out st2 where run: "managed_run gw p req conv cand cp st1 = (out, st2)"
    by (cases "managed_run gw p req conv cand cp st1")
  have m2: "of_manager st2 = fold ?step [] (of_manager st)"
    using managed_checkpoint_manager [OF cp] managed_run_manager [OF run] by simp
  have none: "rekeyings k []" by (simp add: rekeyings_def)
  show ?thesis
  proof (cases out)
    case (Ok resp)
    then show ?thesis using assms cp run success_events [OF none m2]
      by (auto simp: managed_candidate_def verdict_ok_def)
  next
    case Panic
    then show ?thesis using assms cp run m2 none
      by (auto simp: managed_candidate_def verdict_ok_def intro!: exI [of _ "[]"])
  next
    case (Err err)
    obtain c st3 where r: "refresh_account gw p k cand err st2 = (c, st3)"
      by (cases "refresh_account gw p k cand err st2")
    obtain es where es: "rekeyings k es" "of_manager st3 = fold ?step es (of_manager st)"
      using refresh_events [OF r, of "gw_from_millis gw"] m2 by auto
    show ?thesis
    proof (cases c)
      case None
      then have "settle gw k is_last err st3 = (v, st')"
        using assms cp run Err r by (simp add: managed_candidate_def)
      from settle_events [OF this es] show ?thesis by (auto simp: verdict_ok_def)
    next
      case (Some cand')
      obtain out2 st4 where run2: "managed_run gw p req conv cand' cp st3 = (out2, st4)"
        by (cases "managed_run gw p req conv cand' cp st3")
      have m4: "of_manager st4 = fold ?step es (of_manager st)"
        using managed_run_manager [OF run2] es(2) by simp
      have go: "managed_candidate gw p req conv k cand is_last st =
          (case out2 of Ok resp \<Rightarrow> (Answer (Ok resp), note_success gw k resp st4)
           | Panic \<Rightarrow> (Answer Panic, st4)
           | Err retry_err \<Rightarrow> settle gw k is_last retry_err st4)"
        using cp run Err r Some run2 by (simp add: managed_candidate_def split: outcome.split)
      show ?thesis
      proof (cases out2)
        case (Ok resp)
        then show ?thesis using assms go success_events [OF es(1) m4] by (auto simp: verdict_ok_def)
      next
        case Panic
        then show ?thesis using assms go m4 es(1) by (auto simp: verdict_ok_def)
      next
        case (Err retry_err)
        then have "settle gw k is_last retry_err st4 = (v, st')" using assms go by simp
        from settle_events [OF this es(1) m4] show ?thesis by (auto simp: verdict_ok_def)
      qed
    qed
  qed
qed

text \<open>
  A complete record of a chat over the candidates: the accounts tried are a prefix of the selection,
  each with its verdict and its events; all but the last moved on with an error that warrants failover,
  the last one gave the outcome, and it was the last candidate unless the outcome ends every chat.
\<close>

definition chat_record ::
    "string list \<Rightarrow> chat_response outcome \<Rightarrow> (string \<times> managed_verdict \<times> desk_event list) list \<Rightarrow> bool" where
  "chat_record ids out attempts \<longleftrightarrow>
     attempts \<noteq> []
   \<and> map fst attempts = take (length attempts) ids
   \<and> list_all (\<lambda>(k, v, es). attempt_events k v es) attempts
   \<and> list_all (\<lambda>(k, v, es). \<exists>e. v = TryNext e \<and> should_failover e) (butlast attempts)
   \<and> fst (snd (last attempts)) = Answer out
   \<and> (case out of Err e \<Rightarrow> should_failover e \<longrightarrow> length attempts = length ids | _ \<Rightarrow> True)"

lemma managed_over_record:
  assumes "managed_over gw p req conv cands last_err st = (out, st')" and "cands \<noteq> []"
  shows "\<exists>attempts. chat_record (map fst cands) out attempts
           \<and> of_manager st' = fold (desk_step (gw_from_millis gw)) (concat (map (snd \<circ> snd) attempts))
                                (of_manager st)"
  using assms
proof (induction cands arbitrary: last_err st)
  case Nil
  then show ?case by simp
next
  case (Cons c cands)
  obtain k cand where c: "c = (k, cand)" by (cases c)
  obtain v st1 where m: "managed_candidate gw p req conv k cand (cands = []) st = (v, st1)"
    by (cases "managed_candidate gw p req conv k cand (cands = []) st")
  obtain es where es: "attempt_events k v es"
    "of_manager st1 = fold (desk_step (gw_from_millis gw)) es (of_manager st)"
    "verdict_ok (cands = []) v"
    using managed_candidate_events [OF m] by blast
  show ?case
  proof (cases v)
    case (Answer o1)
    then have "o1 = out" "st1 = st'" using Cons.prems c m by simp_all
    then show ?thesis using es Answer c
      by (intro exI [of _ "[(k, v, es)]"])
        (auto simp: chat_record_def verdict_ok_def warrants_failover_iff split: outcome.splits)
  next
    case (TryNext e)
    then have e: "should_failover e" "cands \<noteq> []"
      using es(3) by (auto simp: verdict_ok_def warrants_failover_iff)
    have "managed_over gw p req conv cands (Some e) st1 = (out, st')"
      using Cons.prems c m TryNext by simp
    from Cons.IH [OF this e(2)] obtain attempts where a: "chat_record (map fst cands) out attempts"
      "of_manager st' = fold (desk_step (gw_from_millis gw)) (concat (map (snd \<circ> snd) attempts)) (of_manager st1)"
      by blast
    have "chat_record (map fst (c # cands)) out ((k, v, es) # attempts)"
      using a(1) es(1) TryNext e(1) c by (auto simp: chat_record_def split: outcome.splits)
    moreover have "of_manager st' =
        fold (desk_step (gw_from_millis gw)) (concat (map (snd \<circ> snd) ((k, v, es) # attempts))) (of_manager st)"
      using a(2) es(2) by simp
    ultimately show ?thesis by blast
  qed
qed

lemma resolve_candidates_eq:
  "resolve_candidates pl mgr as h = (cs, h') \<Longrightarrow>
     map fst cs = map pa_account_id as \<and> map (ra_account \<circ> snd) cs = as"
  by (induction as arbitrary: h cs) (auto simp: Let_def split: prod.splits)

text \<open>The ids a chat tries, in the order it tries them.\<close>

definition chat_ids :: "('w, 'e) gateway \<Rightarrow> provider_name \<Rightarrow> ('w, 'e) office \<Rightarrow> string list" where
  "chat_ids gw name st =
     (case accounts_for (of_manager st) (gw_clock gw (of_world st)) name of
        [] \<Rightarrow> (case anon_fallback (cl_registry (gw_client gw)) name of None \<Rightarrow> [] | Some _ \<Rightarrow> [''auto-anon''])
      | as \<Rightarrow> map pa_account_id as)"

lemma managed_candidates_ids:
  assumes "managed_candidates gw name st = (r, st')"
  shows "of_manager st' = of_manager st"
    and "r = Inr cands \<Longrightarrow> map fst cands = chat_ids gw name st \<and> cands \<noteq> []"
    and "r = Inl e \<Longrightarrow> chat_ids gw name st = [] \<and> e = AccountSelection (no_usable_message name)"
proof -
  let ?as = "accounts_for (of_manager st) (gw_clock gw (of_world st)) name"
  obtain cs h where r: "resolve_candidates (gw_platform gw) (of_manager st) ?as (of_host st) = (cs, h)"
    by (cases "resolve_candidates (gw_platform gw) (of_manager st) ?as (of_host st)")
  have ids: "map fst cs = map pa_account_id ?as" using resolve_candidates_eq [OF r] by simp
  then have "cs = [] \<longleftrightarrow> ?as = []" by (metis map_is_Nil_conv)
  moreover have "?as \<noteq> [] \<Longrightarrow> chat_ids gw name st = map pa_account_id ?as"
    by (auto simp: chat_ids_def split: list.split)
  ultimately show "of_manager st' = of_manager st"
    and "r = Inr cands \<Longrightarrow> map fst cands = chat_ids gw name st \<and> cands \<noteq> []"
    and "r = Inl e \<Longrightarrow> chat_ids gw name st = [] \<and> e = AccountSelection (no_usable_message name)"
    using assms r ids
    by (auto simp: managed_candidates_def Let_def chat_ids_def split: option.splits if_splits)
qed

text \<open>
  C2.  What a managed chat writes back.  An invalid request, an unregistered provider or no usable account
  (in this order) is an error that leaves the manager alone.  Otherwise there is a complete record of
  attempts over the selected accounts, in selection order: each tried account has exactly one health
  event, a success for the answering one and for every other a failure with the code and cooldown of its
  error, after at most one refresh of its credentials; and the final manager is the first one after
  those events and nothing else.
\<close>

theorem managed_write_back:
  "case chat_with_manager gw req conv st of (out, st') \<Rightarrow>
     (case (request_validate req, registry_provider (cl_registry (gw_client gw)) (mid_provider (rq_model req)),
            chat_ids gw (mid_provider (rq_model req)) st) of
        (Inl m, _, _) \<Rightarrow> out = Err (Validation m ''invalid_request'') \<and> st' = st
      | (Inr _, Inl e, _) \<Rightarrow> out = Err e \<and> st' = st
      | (Inr _, Inr p, []) \<Rightarrow>
          out = Err (AccountSelection (no_usable_message (mid_provider (rq_model req))))
          \<and> of_manager st' = of_manager st
      | (Inr _, Inr p, ids) \<Rightarrow>
          \<exists>attempts. chat_record ids out attempts
            \<and> of_manager st' =
                fold (desk_step (gw_from_millis gw)) (concat (map (snd \<circ> snd) attempts)) (of_manager st))"
proof -
  let ?name = "mid_provider (rq_model req)"
  obtain out st' where o: "chat_with_manager gw req conv st = (out, st')"
    by (cases "chat_with_manager gw req conv st")
  show ?thesis
  proof (cases "request_validate req")
    case (Inl m)
    then show ?thesis using o by (simp add: chat_with_manager_def)
  next
    case valid: (Inr u)
    show ?thesis
    proof (cases "registry_provider (cl_registry (gw_client gw)) ?name")
      case (Inl e)
      then show ?thesis using o valid by (simp add: chat_with_manager_def)
    next
      case p: (Inr p)
      obtain r st1 where r: "managed_candidates gw ?name st = (r, st1)"
        by (cases "managed_candidates gw ?name st")
      note ids = managed_candidates_ids [OF r]
      show ?thesis
      proof (cases r)
        case (Inl e)
        then show ?thesis using o valid p r ids(1) ids(3) [OF Inl]
          by (simp add: chat_with_manager_def)
      next
        case (Inr cands)
        then have "managed_over gw p req conv cands None st1 = (out, st')"
          using o valid p r by (simp add: chat_with_manager_def)
        from managed_over_record [OF this] ids(2) [OF Inr] ids(1)
        obtain attempts where "chat_record (chat_ids gw ?name st) out attempts"
          "of_manager st' = fold (desk_step (gw_from_millis gw)) (concat (map (snd \<circ> snd) attempts)) (of_manager st)"
          by auto
        moreover have "chat_ids gw ?name st \<noteq> []" using ids(2) [OF Inr] by auto
        ultimately show ?thesis using o valid p by (auto split: list.split)
      qed
    qed
  qed
qed

section \<open>A rate-limited account rests\<close>

definition failed_with :: "managed_verdict \<Rightarrow> error \<Rightarrow> bool" where
  "failed_with v e \<longleftrightarrow> v = TryNext e \<or> v = Answer (Err e)"

lemma managed_candidate_failed:
  assumes "managed_candidate gw p req conv k cand is_last st = (v, st')" and "failed_with v e"
  shows "\<exists>st3 es. st' = note_failure gw k e st3 \<and> rekeyings k es
           \<and> of_manager st3 = fold (desk_step (gw_from_millis gw)) es (of_manager st)"
proof -
  let ?step = "desk_step (gw_from_millis gw)"
  have settled: "settle gw k is_last err st3 = (v, st') \<Longrightarrow> st' = note_failure gw k e st3" for err st3
    using assms(2) by (auto simp: settle_def failed_with_def split: if_splits)
  obtain cp st1 where cp: "managed_checkpoint p req conv cand st = (cp, st1)"
    by (cases "managed_checkpoint p req conv cand st")
  obtain out st2 where run: "managed_run gw p req conv cand cp st1 = (out, st2)"
    by (cases "managed_run gw p req conv cand cp st1")
  have m2: "of_manager st2 = of_manager st"
    using managed_checkpoint_manager [OF cp] managed_run_manager [OF run] by simp
  from assms cp run obtain err where out: "out = Err err"
    by (cases out) (auto simp: managed_candidate_def failed_with_def)
  obtain c st3 where r: "refresh_account gw p k cand err st2 = (c, st3)"
    by (cases "refresh_account gw p k cand err st2")
  obtain es where es: "rekeyings k es" "of_manager st3 = fold ?step es (of_manager st)"
    using refresh_events [OF r, of "gw_from_millis gw"] m2 by auto
  show ?thesis
  proof (cases c)
    case None
    then have "settle gw k is_last err st3 = (v, st')"
      using assms(1) cp run out r by (simp add: managed_candidate_def)
    with settled es show ?thesis by blast
  next
    case (Some cand')
    obtain out2 st4 where run2: "managed_run gw p req conv cand' cp st3 = (out2, st4)"
      by (cases "managed_run gw p req conv cand' cp st3")
    then obtain err2 where "settle gw k is_last err2 st4 = (v, st')"
      using assms cp run out r Some
      by (cases out2) (auto simp: managed_candidate_def failed_with_def)
    moreover have "of_manager st4 = fold ?step es (of_manager st)"
      using managed_run_manager [OF run2] es(2) by simp
    ultimately show ?thesis using settled es(1) by blast
  qed
qed

lemma rekeyings_get:
  assumes "rekeyings k es" and "manager_get m k = Some a"
  shows "\<exists>auth. manager_get (fold (desk_step fm) es m) k = Some (a\<lparr>pa_auth := auth\<rparr>)"
proof -
  have "manager_get (snd (update_auth k auth m)) k = Some (a\<lparr>pa_auth := auth\<rparr>)" for auth
    using assms(2) by (simp add: update_auth_def with_account_get keeps_id_def)
  moreover have "a = a\<lparr>pa_auth := pa_auth a\<rparr>" by simp
  ultimately show ?thesis using assms unfolding rekeyings_def by (metis desk_step.simps(2) fold_simps)
qed

definition rest_millis :: "provider_error \<Rightarrow> nat" where
  "rest_millis pe = (case pe_retry_after pe of Some d \<Rightarrow> d div 1000000 | None \<Rightarrow> 300000)"

text \<open>
  C10.  A rate-limited account rests.  When the attempt on a known account ends with a rate limit or an
  exhausted quota, then from that moment on (with a clock and a delay that end before the year 10000)
  the account is cooling down for exactly the \<open>Retry-After\<close> the provider named, or five minutes when it
  named none, and until then it is selected for no provider.
\<close>

theorem rate_limited_rests:
  assumes "managed_candidate gw p req conv k cand is_last st = (v, st')"
    and "failed_with v (ProviderErr pe)" and "pe_kind pe = RateLimit \<or> pe_kind pe = QuotaExceeded"
    and "manager_get (of_manager st) k = Some a" and "millis_ok (gw_from_millis gw)"
    and "until = uint (gw_clock gw (of_world st')) + int (rest_millis pe)" and "until \<le> year_9999"
  shows "\<exists>a'. manager_get (of_manager st') k = Some a'
       \<and> (\<forall>t. in_cooldown a' t \<longleftrightarrow> uint t < until)
       \<and> (\<forall>t name. uint t < until \<longrightarrow> a' \<notin> set (accounts_for (of_manager st') t name))"
proof -
  obtain st3 es where st': "st' = note_failure gw k (ProviderErr pe) st3" and es: "rekeyings k es"
    and m3: "of_manager st3 = fold (desk_step (gw_from_millis gw)) es (of_manager st)"
    using managed_candidate_failed [OF assms(1,2)] by blast
  obtain auth where g: "manager_get (of_manager st3) k = Some (a\<lparr>pa_auth := auth\<rparr>)"
    using rekeyings_get [OF es assms(4)] m3 by metis
  let ?now = "gw_clock gw (of_world st3)" and ?d = "fst (snd (classify_failure (ProviderErr pe)))"
  have d: "?d div 1000000 = rest_millis pe"
    using assms(3) by (auto simp: rest_millis_def default_cooldown_def split: option.split)
  have w: "of_world st' = of_world st3"
    by (simp add: st' note_failure_def save_ignoring_def split: prod.split)
  have u: "until = uint ?now + int (?d div 1000000)" using assms(6) d w by simp
  let ?f = "failed_after (manager_now (gw_from_millis gw) (gw_utc_now gw (of_world st3)) ?now)
      (fst (classify_failure (ProviderErr pe))) (cooldown_end (gw_from_millis gw) ?now ?d) (?d = 0)"
  have "of_manager st' = with_account k ?f (of_manager st3)"
    by (simp add: st' note_failure_def mark_failure_def split: prod.split)
  then have g': "manager_get (of_manager st') k = Some (?f (a\<lparr>pa_auth := auth\<rparr>))"
    using g by (simp add: with_account_get)
  have le: "uint ?now + int (?d div 1000000) \<le> year_9999" using u assms(7) by simp
  have "in_cooldown (?f b) t \<longleftrightarrow> uint t < until" for b t
    using cooldown_end_ok [OF assms(5) le] uint_add_small(1,3) [OF le] u
    by (simp add: in_cooldown_def failed_after_def word_less_alt del: of_int_add)
  then show ?thesis using g'
    by (intro exI [of _ "?f (a\<lparr>pa_auth := auth\<rparr>)"]) (auto simp: accounts_for_eq selectable_def)
qed

definition busy :: error where
  "busy = ProviderErr (provider_error_new Claude RateLimit ''429'' ''slow down'')"

definition sample_gateway :: "(error + chat_response) list \<Rightarrow> (call_log, u64) gateway" where
  "sample_gateway replies =
     \<lparr>gw_client = sample_client False replies, gw_platform = sample_platform,
      gw_accounts_codec = sample_codec accounts_file_default, gw_metrics_codec = sample_codec Map.empty,
      gw_from_millis = Some, gw_utc_now = \<lambda>w. 0, gw_clock = \<lambda>w. 1000\<rparr>"

definition sample_office :: "provider_account list \<Rightarrow> (call_log, u64) office" where
  "sample_office as =
     \<lparr>of_manager = manager_in_memory
        (accounts_file_default\<lparr>af_emails :=
           [\<lparr>eb_email = ''e@x'', eb_enabled = True, eb_display_name = None, eb_providers = as,
             eb_model_routes = [], eb_metadata = metadata_new\<rparr>]\<rparr>),
      of_host = sample_host, of_world = []\<rparr>"

lemma rate_limited_rests_witness:
  "\<exists>v st' a'.
     managed_candidate (sample_gateway [Inl busy]) (scripted_provider False [Inl busy]) sample_request
       (conversation_new ''k'') ''a'' (sample_candidate ''a'') False (sample_office [sample_account ''a'' Claude 1])
       = (v, st')
   \<and> manager_get (of_manager st') ''a'' = Some a' \<and> in_cooldown a' 300999 \<and> \<not> in_cooldown a' 301000"
proof -
  let ?pe = "provider_error_new Claude RateLimit ''429'' ''slow down''"
  let ?gw = "sample_gateway [Inl busy]" and ?st = "sample_office [sample_account ''a'' Claude 1]"
  have run: "run_afc (sample_client False [Inl busy]) (scripted_provider False [Inl busy]) sample_request
      (sample_candidate ''a'') (conversation_new ''k'') cp [] = (Err busy, [(''a'', map_option cp_account_id cp)])" for cp
    using sample_run(1) [of "[Inl busy]" "[]" busy False "sample_candidate ''a''" "conversation_new ''k''" cp]
    by (simp add: sample_candidate_def sample_account_def)
  have caps: "\<not> requires_remote_checkpoint (pv_capabilities (scripted_provider False [Inl busy]))"
    "\<not> is_auth_failure busy" "snd (snd (classify_failure busy))"
    by (simp_all add: scripted_provider_def sample_caps_def busy_def is_auth_failure_def
        provider_error_new_def pe_should_failover_def)
  obtain st' where m: "managed_candidate ?gw (scripted_provider False [Inl busy]) sample_request
       (conversation_new ''k'') ''a'' (sample_candidate ''a'') False ?st = (TryNext busy, st')"
    using run caps
    by (simp add: managed_candidate_def managed_checkpoint_def managed_run_def refresh_account_def
        settle_def sample_gateway_def sample_office_def)
  have g: "manager_get (of_manager ?st) ''a'' = Some (sample_account ''a'' Claude 1)"
    by (simp add: sample_office_def manager_get_def manager_in_memory_def find_account_def
        iter_accounts_def sample_account_def)
  have f: "failed_with (TryNext busy) (ProviderErr ?pe)" by (simp add: failed_with_def busy_def)
  have "millis_ok (gw_from_millis ?gw)" by (simp add: sample_gateway_def millis_ok_def)
  then obtain a' where "manager_get (of_manager st') ''a'' = Some a'"
    "\<forall>t. in_cooldown a' t \<longleftrightarrow> uint t < uint (gw_clock ?gw (of_world st')) + int (rest_millis ?pe)"
    using rate_limited_rests [OF m f _ g _ refl]
    by (auto simp: provider_error_new_def rest_millis_def year_9999_def sample_gateway_def)
  then show ?thesis using m
    by (intro exI [of _ "TryNext busy"] exI [of _ st'] exI [of _ a'])
      (simp add: rest_millis_def provider_error_new_def sample_gateway_def)
qed

section \<open>Anonymous accounts\<close>

text \<open>
  The synthetic account has the id \<open>auto-anon-<provider>\<close>, but its outcome is written back under
  \<open>auto-anon\<close>: in a manager without an account of that name, nothing is recorded.
\<close>

lemma desk_account_failure [simp]: "desk_account (failure_event un t k err) = k"
  by (simp add: failure_event_def split: prod.split)

lemma attempt_accounts: "attempt_events k v es \<Longrightarrow> \<forall>e\<in>set es. desk_account e = k"
  by (cases "(k, v, es)" rule: attempt_events.cases) (auto simp: rekeyings_def)

lemma desk_step_absent: "manager_get m (desk_account e) = None \<Longrightarrow> desk_step fm e m = m"
  by (cases "(fm, e, m)" rule: desk_step.cases; cases "case e of Health un h \<Rightarrow> h | _ \<Rightarrow> Succeeded 0 []")
    (auto simp: update_auth_def mark_success_def mark_failure_def with_account_def manager_get_def
      accounts.change_absent)

lemma desk_run_absent:
  "\<forall>e\<in>set es. desk_account e = k \<Longrightarrow> manager_get m k = None \<Longrightarrow> fold (desk_step fm) es m = m"
  by (induction es) (auto simp: desk_step_absent)

lemma record_accounts:
  assumes "map fst attempts = take (length attempts) [k]"
    and "list_all (\<lambda>(k, v, es). attempt_events k v es) attempts"
  shows "\<forall>e\<in>set (concat (map (snd \<circ> snd) attempts)). desk_account e = k"
proof -
  have "fst x = k" if "x \<in> set attempts" for x
  proof -
    have "fst x \<in> set (take (length attempts) [k])"
      using that by (subst assms(1) [symmetric]) simp
    then show ?thesis using set_take_subset [of "length attempts" "[k]"] by auto
  qed
  then show ?thesis
    using assms(2) attempt_accounts by (fastforce simp: list_all_iff split: prod.splits)
qed

lemma anonymous_leaves_no_trace:
  assumes "accounts_for (of_manager st) (gw_clock gw (of_world st)) (mid_provider (rq_model req)) = []"
    and "manager_get (of_manager st) ''auto-anon'' = None"
  shows "of_manager (snd (chat_with_manager gw req conv st)) = of_manager st"
proof -
  let ?name = "mid_provider (rq_model req)"
  obtain r st1 where r: "managed_candidates gw ?name st = (r, st1)"
    by (cases "managed_candidates gw ?name st")
  note ids = managed_candidates_ids [OF r]
  have run: "of_manager st' = of_manager st" if rc: "r = Inr cands" and o: "managed_over gw p req conv cands None st1 = (out, st')"
    for p cands out st'
  proof -
    have c: "map fst cands = [''auto-anon'']" "cands \<noteq> []"
      using ids(2) [OF rc] assms(1) by (auto simp: chat_ids_def split: option.splits)
    obtain attempts where a: "chat_record [''auto-anon''] out attempts"
      "of_manager st' = fold (desk_step (gw_from_millis gw)) (concat (map (snd \<circ> snd) attempts)) (of_manager st1)"
      using managed_over_record [OF o c(2)] c(1) by auto
    have "map fst attempts = take (length attempts) [''auto-anon'']"
      "list_all (\<lambda>(k, v, es). attempt_events k v es) attempts"
      using a(1) unfolding chat_record_def by blast+
    then have "\<forall>e\<in>set (concat (map (snd \<circ> snd) attempts)). desk_account e = ''auto-anon''"
      by (rule record_accounts)
    then have "fold (desk_step fm) (concat (map (snd \<circ> snd) attempts)) (of_manager st) = of_manager st" for fm
      using assms(2) by (rule desk_run_absent)
    then show ?thesis using a(2) ids(1) by simp
  qed
  obtain out st' where "chat_with_manager gw req conv st = (out, st')"
    by (cases "chat_with_manager gw req conv st")
  then show ?thesis using r ids(1) run
    by (auto simp: chat_with_manager_def split: sum.splits)
qed

section \<open>Streaming and discovery\<close>

definition chat_stream_over ::
    "'w client \<Rightarrow> chat_request \<Rightarrow> resolved_account \<Rightarrow> conversation \<Rightarrow> 'w
       \<Rightarrow> (error + event_stream) \<times> 'w" where
  "chat_stream_over cl req cand conv w =
     (case request_validate req of
        Inl m \<Rightarrow> (Inl (Validation m ''invalid_request''), w)
      | Inr _ \<Rightarrow>
          (case registry_provider (cl_registry cl) (mid_provider (rq_model req)) of
             Inl e \<Rightarrow> (Inl e, w)
           | Inr p \<Rightarrow>
               (case (if requires_remote_checkpoint (pv_capabilities p)
                      then pv_open_checkpoint p (client_ctx req cand conv None) w
                      else (Inr None, w)) of
                  (Inl e, w1) \<Rightarrow> (Inl e, w1)
                | (Inr cp, w1) \<Rightarrow> pv_chat_stream p (client_ctx req cand conv cp) w1)))"

text \<open>The blocking collector: the events up to the first error or the end of the answer.\<close>

fun collect_chunks :: "string list \<Rightarrow> event_stream \<Rightarrow> error + string list" where
  "collect_chunks chunks [] = Inr chunks"
| "collect_chunks chunks (Inl e # es) = Inl e"
| "collect_chunks chunks (Inr (TextDelta bytes) # es) =
     (let s = from_utf8_lossy bytes
      in collect_chunks (if s \<noteq> [] then chunks @ [s] else chunks) es)"
| "collect_chunks chunks (Inr (Done resp) # es) =
     (let t = response_text resp
      in Inr (if t \<noteq> [] \<and> chunks = [] then chunks @ [t] else chunks))"
| "collect_chunks chunks (Inr (ToolCallStarted n) # es) = collect_chunks chunks es"
| "collect_chunks chunks (Inr (UsageEvent u) # es) = collect_chunks chunks es"

definition chat_stream_chunks ::
    "'w client \<Rightarrow> chat_request \<Rightarrow> resolved_account \<Rightarrow> conversation \<Rightarrow> 'w
       \<Rightarrow> (error + string list) \<times> 'w" where
  "chat_stream_chunks cl req cand conv w =
     (case chat_stream_over cl req cand conv w of
        (Inl e, w') \<Rightarrow> (Inl e, w')
      | (Inr es, w') \<Rightarrow> (collect_chunks [] es, w'))"

definition discovery_model :: "provider_name \<Rightarrow> model_id" where
  "discovery_model name =
     (case model_id_new name ''models'' of
        Inr m \<Rightarrow> m
      | Inl _ \<Rightarrow> (case model_id_new OpenaiApi ''models'' of Inr m \<Rightarrow> m | Inl _ \<Rightarrow> undefined))"

definition discover_models_over ::
    "'w client \<Rightarrow> provider_name \<Rightarrow> resolved_account \<Rightarrow> 'w \<Rightarrow> (error + model_info list) \<times> 'w" where
  "discover_models_over cl name cand w =
     (case registry_provider (cl_registry cl) name of
        Inl e \<Rightarrow> (Inl e, w)
      | Inr p \<Rightarrow>
          pv_discover_models p
            (client_ctx (chat_request_new (discovery_model name) []) cand
               (conversation_new ''model-discovery'') None) w)"

definition discover_models_with_manager ::
    "('w, 'e) gateway \<Rightarrow> provider_name \<Rightarrow> ('w, 'e) office \<Rightarrow> (error + model_info list) \<times> ('w, 'e) office" where
  "discover_models_with_manager gw name st =
     (let (picked, h) =
            (case accounts_for (of_manager st) (gw_clock gw (of_world st)) name of
               [] \<Rightarrow> (None, of_host st)
             | a # _ \<Rightarrow>
                 (case secret_or_empty (gw_platform gw) (of_manager st) (pa_auth a) (of_host st) of
                    (s, h) \<Rightarrow> (Some \<lparr>ra_account = a, ra_secret = s\<rparr>, h)));
          st1 = st\<lparr>of_host := h\<rparr>
      in case (case picked of Some c \<Rightarrow> Some c | None \<Rightarrow> anon_fallback (cl_registry (gw_client gw)) name) of
           None \<Rightarrow> (Inl (AccountSelection (no_usable_message name)), st1)
         | Some cand \<Rightarrow>
             (case discover_models_over (gw_client gw) name cand (of_world st1) of
                (r, w') \<Rightarrow> (r, st1\<lparr>of_world := w'\<rparr>)))"

text \<open>What a stream delivers before the first error or the end of the answer.\<close>

definition stream_ends :: "error + stream_event \<Rightarrow> bool" where
  "stream_ends ev \<longleftrightarrow> (case ev of Inl _ \<Rightarrow> True | Inr (Done _) \<Rightarrow> True | _ \<Rightarrow> False)"

definition delta_texts :: "event_stream \<Rightarrow> string list" where
  "delta_texts es =
     filter (\<lambda>s. s \<noteq> [])
       (List.map_filter (\<lambda>ev. case ev of Inr e \<Rightarrow> map_option from_utf8_lossy (stream_as_text e) | Inl _ \<Rightarrow> None)
          (takeWhile (\<lambda>ev. \<not> stream_ends ev) es))"

lemma stream_ends_simps [simp]:
  "stream_ends (Inl e)" "stream_ends (Inr (Done r))" "\<not> stream_ends (Inr (TextDelta b))"
  "\<not> stream_ends (Inr (ToolCallStarted n))" "\<not> stream_ends (Inr (UsageEvent u))"
  by (simp_all add: stream_ends_def)

lemma delta_texts_simps [simp]:
  "delta_texts [] = []" "delta_texts (Inl e # es) = []" "delta_texts (Inr (Done r) # es) = []"
  "delta_texts (Inr (ToolCallStarted n) # es) = delta_texts es"
  "delta_texts (Inr (UsageEvent u) # es) = delta_texts es"
  "delta_texts (Inr (TextDelta b) # es) =
     (if from_utf8_lossy b \<noteq> [] then [from_utf8_lossy b] else []) @ delta_texts es"
  by (simp_all add: delta_texts_def List.map_filter_simps)

definition delivered :: "string list \<Rightarrow> event_stream \<Rightarrow> error + string list" where
  "delivered cs rest =
     (case rest of
        Inl e # _ \<Rightarrow> Inl e
      | Inr (Done r) # _ \<Rightarrow>
          Inr (if response_text r \<noteq> [] \<and> cs = [] then [response_text r] else cs)
      | _ \<Rightarrow> Inr cs)"

lemma collect_chunks_eq:
  "collect_chunks chunks es = delivered (chunks @ delta_texts es) (dropWhile (\<lambda>ev. \<not> stream_ends ev) es)"
  by (induction chunks es rule: collect_chunks.induct) (simp_all add: Let_def, simp_all add: delivered_def)

lemma collect_chunks_nil:
  "collect_chunks [] es =
     (case dropWhile (\<lambda>ev. \<not> stream_ends ev) es of
        Inl e # _ \<Rightarrow> Inl e
      | Inr (Done r) # _ \<Rightarrow>
          Inr (if response_text r \<noteq> [] \<and> delta_texts es = [] then [response_text r] else delta_texts es)
      | _ \<Rightarrow> Inr (delta_texts es))"
  using collect_chunks_eq [of "[]" es] by (simp only: append_Nil delivered_def)

text \<open>
  Collecting a streamed answer.  With a valid request for a registered stateless provider, the
  collected chunks are the non-empty texts of the deltas in order, up to the first error, which is then
  the result, or the end of the answer; when the answer ends without any text delta, its whole text is
  the one chunk.  Events after the end are not looked at.
\<close>

theorem stream_collects_deltas:
  assumes "request_validate req = Inr ()" and "cl_registry cl (mid_provider (rq_model req)) = Some p"
    and "\<not> requires_remote_checkpoint (pv_capabilities p)"
    and "pv_chat_stream p (client_ctx req cand conv None) w = (Inr es, w')"
  shows "chat_stream_chunks cl req cand conv w =
     (case dropWhile (\<lambda>ev. \<not> stream_ends ev) es of
        Inl e # _ \<Rightarrow> Inl e
      | Inr (Done r) # _ \<Rightarrow>
          Inr (if response_text r \<noteq> [] \<and> delta_texts es = [] then [response_text r] else delta_texts es)
      | _ \<Rightarrow> Inr (delta_texts es), w')"
  by (simp add: chat_stream_chunks_def chat_stream_over_def registry_provider_def assms
      flip: collect_chunks_nil)

lemma stream_collects_deltas_witness:
  "\<exists>cl :: call_log client. chat_stream_chunks cl sample_request (sample_candidate ''a'') (conversation_new ''k'') [] =
     (Inr [''he'', ''y''], [])"
proof -
  let ?es = "[Inr (TextDelta (str_bytes ''he'')), Inr (TextDelta []), Inr (UsageEvent usage_default),
     Inr (TextDelta (str_bytes ''y'')), Inr (Done (sample_reply [])), Inl busy] :: event_stream"
  let ?p = "(scripted_provider False [])\<lparr>pv_chat_stream := \<lambda>cx w. (Inr ?es, w)\<rparr>"
  let ?cl = "(sample_client False [])\<lparr>cl_registry := registry_build [?p]\<rparr>"
  have "request_validate sample_request = Inr ()" by (rule sample_request_simps(2))
  moreover have "cl_registry ?cl (mid_provider (rq_model sample_request)) = Some ?p"
    by (simp add: registry_build_def registry_add_def registry_new_def scripted_provider_def
        sample_caps_def sample_request_def chat_request_new_def)
  moreover have "\<not> requires_remote_checkpoint (pv_capabilities ?p)"
    by (simp add: scripted_provider_def sample_caps_def)
  moreover have "pv_chat_stream ?p (client_ctx sample_request (sample_candidate ''a'') (conversation_new ''k'') None) []
      = (Inr ?es, [])" by simp
  ultimately have c: "chat_stream_chunks ?cl sample_request (sample_candidate ''a'') (conversation_new ''k'') [] =
     (case dropWhile (\<lambda>ev. \<not> stream_ends ev) ?es of
        Inl e # _ \<Rightarrow> Inl e
      | Inr (Done r) # _ \<Rightarrow>
          Inr (if response_text r \<noteq> [] \<and> delta_texts ?es = [] then [response_text r] else delta_texts ?es)
      | _ \<Rightarrow> Inr (delta_texts ?es), [])"
    by (rule stream_collects_deltas)
  have l: "from_utf8_lossy (str_bytes ''he'') = ''he''" "from_utf8_lossy (str_bytes ''y'') = ''y''"
    "from_utf8_lossy [] = []"
    by code_simp+
  have "delta_texts ?es = [''he'', ''y'']"
    by (simp add: l)
  moreover have "dropWhile (\<lambda>ev. \<not> stream_ends ev) ?es = [Inr (Done (sample_reply [])), Inl busy]"
    by simp
  ultimately show ?thesis using c by auto
qed

end
