(* ===== verification/Refresh.thy ===== *)
theory Refresh
  imports Auth Managed
begin

text \<open>
  What the authenticators promise to the managed chat, stated as a locale that each of them interprets: a
  failed refresh leaves the account alone, a successful one changes nothing but the stored credentials,
  leaves an inline secret to use and can be repeated.
\<close>

lemma secret_of_set_extra [simp]:
  "secret_of (set_extra k (JString v) a) k' = (if k' = k then Some v else secret_of a k')"
  by (simp add: secret_of_def inline_secret_def set_extra_def metadata.look_put)

lemma secret_of_set_other [simp]: "k \<noteq> k' \<Longrightarrow> secret_of (set_extra k v a) k' = secret_of a k'"
  by (simp add: secret_of_def inline_secret_def set_extra_def metadata.look_put)

definition same_but_extra :: "provider_account \<Rightarrow> provider_account \<Rightarrow> bool" where
  "same_but_extra a b \<longleftrightarrow> b\<lparr>pa_auth := (pa_auth b)\<lparr>au_extra := au_extra (pa_auth a)\<rparr>\<rparr> = a"

lemma same_but_extra_refl [simp]: "same_but_extra a a"
  by (simp add: same_but_extra_def)

lemma same_but_extra_set [simp]: "same_but_extra a (set_extra k v b) = same_but_extra a b"
  by (simp add: same_but_extra_def set_extra_def)

lemma same_but_extra_trans: "same_but_extra a b \<Longrightarrow> same_but_extra b c \<Longrightarrow> same_but_extra a c"
proof -
  assume ab: "same_but_extra a b" and "same_but_extra b c"
  then have b: "b = c\<lparr>pa_auth := (pa_auth c)\<lparr>au_extra := au_extra (pa_auth b)\<rparr>\<rparr>" by (simp add: same_but_extra_def)
  have "b\<lparr>pa_auth := (pa_auth b)\<lparr>au_extra := x\<rparr>\<rparr> = c\<lparr>pa_auth := (pa_auth c)\<lparr>au_extra := x\<rparr>\<rparr>" for x
    by (subst b, subst b) simp
  with ab show ?thesis by (simp add: same_but_extra_def)
qed

definition refreshable :: "provider_account \<Rightarrow> bool" where
  "refreshable a \<longleftrightarrow> secret_of a ''refresh_token'' \<noteq> None"

text \<open>Refreshes one after another, each in the world it finds; a failed one is followed by the next.\<close>

primrec refresh_run ::
    "(provider_account \<Rightarrow> 'w \<Rightarrow> (error + unit) \<times> provider_account \<times> 'w) \<Rightarrow> 'w list \<Rightarrow> provider_account \<Rightarrow> provider_account" where
  "refresh_run refresh [] a = a"
| "refresh_run refresh (w # ws) a = refresh_run refresh ws (fst (snd (refresh a w)))"

locale token_refresher =
  fixes refresh :: "provider_account \<Rightarrow> 'w \<Rightarrow> (error + unit) \<times> provider_account \<times> 'w"
  assumes fails_clean: "refresh a w = (Inl e, a', w') \<Longrightarrow> a' = a"
    and only_extra: "refresh a w = (Inr u, a', w') \<Longrightarrow> same_but_extra a a'"
    and inline_key: "refresh a w = (Inr u, a', w') \<Longrightarrow> secret_of a' ''api_key'' \<noteq> None"
    and needs_token: "refresh a w = (Inr u, a', w') \<Longrightarrow> refreshable a"
    and repeatable: "refresh a w = (Inr u, a', w') \<Longrightarrow> refreshable a'"
begin

lemma step: "same_but_extra a (fst (snd (refresh a w))) \<and> refreshable (fst (snd (refresh a w))) = refreshable a"
proof -
  obtain r a' w' where r: "refresh a w = (r, a', w')" by (cases "refresh a w")
  show ?thesis
  proof (cases r)
    case (Inl e)
    then show ?thesis using fails_clean [of a w e a' w'] r by simp
  next
    case (Inr u)
    then show ?thesis
      using only_extra [of a w u a' w'] needs_token [of a w u a' w'] repeatable [of a w u a' w'] r by simp
  qed
qed

lemma run: "same_but_extra a (refresh_run refresh ws a) \<and> refreshable (refresh_run refresh ws a) = refreshable a"
proof (induction ws arbitrary: a)
  case (Cons w ws)
  then show ?case using step [of a w] same_but_extra_trans by (simp, blast)
qed simp

lemma resolves:
  assumes "refresh a w = (Inr u, a', w')"
  shows "resolve_secret pl mgr (pa_auth a') h = (Inr (the (secret_of a' ''api_key'')), h)"
proof -
  obtain v where "inline_secret (pa_auth a') ''api_key'' = Some v"
    using inline_key [OF assms] by (auto simp: secret_of_def)
  then show ?thesis by (simp add: resolve_secret_def inline_keys_def secret_of_def)
qed

text \<open>The managed chat retries with the fresh token, and with the account unchanged but for its credentials.\<close>

lemma retries_with_fresh_token:
  assumes "refresh_account gw (p\<lparr>pv_authenticator := Some \<lparr>at_validate = v, at_refresh = refresh\<rparr>\<rparr>) i cand err st =
    (Some cand', st')"
  shows "secret_of (ra_account cand') ''api_key'' = Some (ra_secret cand')
    \<and> same_but_extra (ra_account cand) (ra_account cand') \<and> refreshable (ra_account cand')"
proof -
  obtain a w' where r: "refresh (ra_account cand) (of_world st) = (Inr (), a, w')" and auth: "is_auth_failure err"
    using assms by (auto simp: refresh_account_def split: if_splits prod.splits sum.splits)
  have "ra_account cand' = a \<and> ra_secret cand' = the (secret_of a ''api_key'')"
    using assms by (auto simp: refresh_account_def auth r secret_or_empty_def resolves [OF r] Let_def split: prod.splits)
  then show ?thesis
    using only_extra [OF r] inline_key [OF r] repeatable [OF r] by auto
qed

end

section \<open>The authenticators keep the contract\<close>

lemma codex_refresh_ok:
  assumes "codex_refresh oa a w = (Inr u, a', w')"
  shows "same_but_extra a a' \<and> secret_of a' ''api_key'' \<noteq> None \<and> refreshable a \<and> refreshable a'"
  using assms
  by (auto simp: codex_refresh_def refreshable_def Let_def split: option.splits prod.splits sum.splits)

lemma gemini_cli_refresh_ok:
  assumes "gemini_cli_refresh app oa a w = (Inr u, a', w')"
  shows "same_but_extra a a' \<and> secret_of a' ''api_key'' \<noteq> None \<and> refreshable a \<and> refreshable a'"
  using assms
  by (auto simp: gemini_cli_refresh_def refreshable_def Let_def split: option.splits prod.splits sum.splits)

lemma antigravity_refresh_ok:
  assumes "antigravity_refresh app oa a w = (Inr u, a', w')"
  shows "same_but_extra a a' \<and> secret_of a' ''api_key'' \<noteq> None \<and> refreshable a \<and> refreshable a'"
  using assms
  by (auto simp: antigravity_refresh_def refreshable_def Let_def split: option.splits prod.splits sum.splits)

lemma kiro_store_ok:
  assumes "kiro_store oa method rt data new_access a w = (a', w')"
  shows "same_but_extra a a' \<and> secret_of a' ''api_key'' \<noteq> None \<and> refreshable a'"
  using assms by (auto simp: kiro_store_def refreshable_def Let_def split: option.splits prod.splits)

lemma kiro_refresh_ok:
  assumes "kiro_refresh oa a w = (Inr u, a', w')"
  shows "same_but_extra a a' \<and> secret_of a' ''api_key'' \<noteq> None \<and> refreshable a \<and> refreshable a'"
  using assms kiro_store_ok
  by (fastforce simp: kiro_refresh_def refreshable_def [of a] split: option.splits prod.splits sum.splits)

lemma codex_refresh_fails: "codex_refresh oa a w = (Inl e, a', w') \<Longrightarrow> a' = a"
  by (auto simp: codex_refresh_def Let_def split: option.splits prod.splits sum.splits)

interpretation codex: token_refresher "codex_refresh oa" for oa
  by unfold_locales (blast dest: codex_refresh_ok codex_refresh_fails)+

lemma gemini_cli_refresh_fails: "gemini_cli_refresh app oa a w = (Inl e, a', w') \<Longrightarrow> a' = a"
  by (auto simp: gemini_cli_refresh_def Let_def split: option.splits prod.splits sum.splits)

interpretation gemini_cli: token_refresher "gemini_cli_refresh app oa" for app oa
  by unfold_locales (blast dest: gemini_cli_refresh_ok gemini_cli_refresh_fails)+

lemma antigravity_refresh_fails: "antigravity_refresh app oa a w = (Inl e, a', w') \<Longrightarrow> a' = a"
  by (auto simp: antigravity_refresh_def Let_def split: option.splits prod.splits sum.splits)

interpretation antigravity: token_refresher "antigravity_refresh app oa" for app oa
  by unfold_locales (blast dest: antigravity_refresh_ok antigravity_refresh_fails)+

lemma kiro_refresh_fails: "kiro_refresh oa a w = (Inl e, a', w') \<Longrightarrow> a' = a"
  by (auto simp: kiro_refresh_def Let_def split: option.splits prod.splits sum.splits)

interpretation kiro: token_refresher "kiro_refresh oa" for oa
  by unfold_locales (blast dest: kiro_refresh_ok kiro_refresh_fails)+



section \<open>Kiro's encoded refresh tokens\<close>

text \<open>
  An encoded token is decoded to its parts, when none of them has a bar; but a refresh encodes with no client
  credentials, so a token of the method \<open>idc\<close> comes back with the method \<open>desktop\<close>.
\<close>

lemma refresh_token_roundtrip:
  assumes "list_all (\<lambda>s. CHR ''|'' \<notin> set s) [rt, cid, cs]"
  shows "decode_refresh_token (encode_refresh_token rt ''idc'' (Some cid) (Some cs)) = (rt, ''idc'', Some cid, Some cs)"
    and "decode_refresh_token (encode_refresh_token rt ''social'' x y) = (rt, ''social'', None, None)"
    and "decode_refresh_token (encode_refresh_token rt ''desktop'' x y) = (rt, ''desktop'', None, None)"
    and "decode_refresh_token (encode_refresh_token rt ''idc'' None None) = (rt, ''desktop'', None, None)"
  using assms
  by (auto simp: decode_refresh_token_def encode_refresh_token_def split_on_line split_on_no_sep Let_def split: option.split)

text \<open>
  So an account that names its method only in the token is an \<open>idc\<close> account for one refresh: after it, the
  client credentials are gone and every further refresh goes to the desktop service.
\<close>

lemma kiro_idc_becomes_desktop:
  assumes "kiro_refresh oa a w = (Inr u, a', w')" and "secret_of a ''auth_method'' = None"
    and "secret_of a ''refresh_token'' = Some token" and "fst (snd (decode_refresh_token token)) = ''idc''"
  shows "\<exists>rt. secret_of a' ''refresh_token'' = Some (rt @ ''|desktop'')
     \<and> (case decode_refresh_token (rt @ ''|desktop'') of (_, method, cid, cs) \<Rightarrow>
          kiro_method a' method = ''desktop'' \<and> cid = None \<and> cs = None)"
proof -
  have d: "fst (snd (decode_refresh_token (rt @ ''|desktop''))) = ''desktop''
      \<and> snd (snd (decode_refresh_token (rt @ ''|desktop''))) = (None, None)" for rt
  proof -
    have "split_on (CHR ''|'') (rt @ ''|desktop'') = split_on (CHR ''|'') rt @ [''desktop'']"
      using split_on_append [of "CHR ''|''" rt "''desktop''"] by simp
    then show ?thesis by (simp add: decode_refresh_token_def Let_def)
  qed
  obtain rt where "secret_of a' ''refresh_token'' = Some (rt @ ''|desktop'')" "secret_of a' ''auth_method'' = None"
    using assms
    by (auto simp: kiro_refresh_def kiro_store_def kiro_method_def encode_refresh_token_def Let_def
        split: option.splits prod.splits sum.splits)
  then show ?thesis
    using d [of rt] by (intro exI [of _ rt]) (simp add: kiro_method_def split_beta)
qed

text \<open>The form of the Google endpoints is not encoded: a token with a reserved character is read differently.\<close>

lemma google_form_not_encoded:
  "map_of (parse_query (google_form \<lparr>app_client_id = ''i'', app_client_secret = ''s''\<rparr> ''a%41&b'')) ''refresh_token'' = Some ''aA''"
  by code_simp

end
