(* ===== verification/OaiWire.thy ===== *)
theory OaiWire
  imports Derive
begin

text \<open>
  The OpenAI chat-completions wire (\<open>gravity-providers/src/openai_compat/wire.rs\<close>): the request built
  from the canonical one, the JSON its derived serializer writes, and the reader of a response.

  \<open>serde\<close> writes a \<open>f32\<close> as the shortest decimal that reads back as the same float; the value of that
  text is the parameter \<open>f32\<close> of the writer.
\<close>

section \<open>Requests\<close>

record oai_image_url =
  oiu_url :: string
  oiu_detail :: "string option"

datatype oai_content_part = OaiText string | OaiImageUrl oai_image_url

datatype oai_content = OaiPlain string | OaiParts "oai_content_part list"

record oai_function_call =
  ofc_name :: string
  ofc_arguments :: string

record oai_tool_call =
  otc_id :: string
  otc_kind :: string
  otc_function :: oai_function_call

record oai_message =
  om_role :: string
  om_content :: "oai_content option"
  om_tool_calls :: "oai_tool_call list"
  om_tool_call_id :: "string option"

record oai_tool_function =
  otf_name :: string
  otf_description :: string
  otf_parameters :: jmap

record oai_tool =
  ot_kind :: string
  ot_function :: oai_tool_function

record oai_request =
  oq_model :: string
  oq_messages :: "oai_message list"
  oq_tools :: "oai_tool list"
  oq_temperature :: "u32 option"
  oq_max_tokens :: "u32 option"
  oq_top_p :: "u32 option"
  oq_stop :: "string list"
  oq_tool_choice :: "string option"
  oq_response_format :: "json option"
  oq_seed :: "u64 option"
  oq_frequency_penalty :: "u32 option"
  oq_presence_penalty :: "u32 option"
  oq_stream :: bool

definition to_oai_tool_call :: "serde \<Rightarrow> tool_call \<Rightarrow> oai_tool_call" where
  "to_oai_tool_call sj tc =
     \<lparr>otc_id = tc_id tc, otc_kind = ''function'',
      otc_function = \<lparr>ofc_name = tc_name tc, ofc_arguments = to_compact sj (JObject (tc_arguments tc))\<rparr>\<rparr>"

definition content_string :: "serde \<Rightarrow> json \<Rightarrow> string" where
  "content_string sj v = (case v of JString s \<Rightarrow> s | other \<Rightarrow> to_compact sj other)"

definition oai_detail :: "string \<Rightarrow> string" where
  "oai_detail d = (if d = ''low'' then ''low'' else if d = ''high'' then ''high'' else ''auto'')"

fun to_oai_part :: "content_part \<Rightarrow> oai_content_part option" where
  "to_oai_part (PText s) = Some (OaiText s)"
| "to_oai_part (PImageUrl i) =
     Some (OaiImageUrl \<lparr>oiu_url = iu_url i, oiu_detail = map_option oai_detail (iu_detail i)\<rparr>)"
| "to_oai_part (PInputFile _) = None"
| "to_oai_part (PJson _) = None"

fun to_oai_content :: "content \<Rightarrow> oai_content option" where
  "to_oai_content (CText s) = Some (OaiPlain s)"
| "to_oai_content (CParts parts) =
     (let ps = List.map_filter to_oai_part parts in if ps = [] then None else Some (OaiParts ps))"

fun oai_role :: "role \<Rightarrow> string" where
  "oai_role RSystem = ''system''"
| "oai_role RUser = ''user''"
| "oai_role RAssistant = ''assistant''"
| "oai_role RTool = ''tool''"

definition to_oai_message :: "serde \<Rightarrow> message \<Rightarrow> oai_message" where
  "to_oai_message sj m =
     (case (msg_role m, msg_tool_result m) of
        (RTool, Some tr) \<Rightarrow>
          \<lparr>om_role = oai_role (msg_role m), om_content = Some (OaiPlain (content_string sj (tr_content tr))),
           om_tool_calls = [], om_tool_call_id = Some (tr_tool_call_id tr)\<rparr>
      | _ \<Rightarrow>
          \<lparr>om_role = oai_role (msg_role m), om_content = Option.bind (msg_content m) to_oai_content,
           om_tool_calls = map (to_oai_tool_call sj) (msg_tool_calls m), om_tool_call_id = None\<rparr>)"

fun oai_response_format :: "response_format \<Rightarrow> json option" where
  "oai_response_format (FmtJsonSchema schema) =
     Some (JObject
       [(''type'', JString ''json_schema''),
        (''json_schema'', JObject [(''name'', JString ''response''), (''schema'', JObject schema),
                                 (''strict'', JBool False)])])"
| "oai_response_format FmtFree = None"

definition oai_system :: "string option \<Rightarrow> oai_message list" where
  "oai_system sp =
     (case sp of
        None \<Rightarrow> []
      | Some s \<Rightarrow> [\<lparr>om_role = ''system'', om_content = Some (OaiPlain s), om_tool_calls = [],
                    om_tool_call_id = None\<rparr>])"

definition to_oai_tool :: "tool_definition \<Rightarrow> oai_tool" where
  "to_oai_tool t =
     \<lparr>ot_kind = ''function'',
      ot_function = \<lparr>otf_name = td_name t, otf_description = td_description t,
                     otf_parameters = td_input_schema t\<rparr>\<rparr>"

definition build_request :: "serde \<Rightarrow> chat_request \<Rightarrow> bool \<Rightarrow> oai_request" where
  "build_request sj req stream =
     (let tools = map to_oai_tool (rq_tools req)
      in \<lparr>oq_model = mid_model (rq_model req),
          oq_messages = oai_system (rq_system_prompt req) @ map (to_oai_message sj) (rq_messages req),
          oq_tools = tools,
          oq_temperature = sm_temperature (rq_sampling req),
          oq_max_tokens = sm_max_tokens (rq_sampling req),
          oq_top_p = sm_top_p (rq_sampling req),
          oq_stop = sm_stop (rq_sampling req),
          oq_tool_choice = (if tools = [] then None else Some ''auto''),
          oq_response_format = oai_response_format (rq_response_format req),
          oq_seed = sm_seed (rq_sampling req),
          oq_frequency_penalty = sm_frequency_penalty (rq_sampling req),
          oq_presence_penalty = sm_presence_penalty (rq_sampling req),
          oq_stream = stream\<rparr>)"

section \<open>The written request\<close>

definition oai_image_value :: "oai_image_url \<Rightarrow> json" where
  "oai_image_value i =
     JObject ([(''url'', JString (oiu_url i))] @ opt_field ''detail'' JString (oiu_detail i))"

fun oai_part_value :: "oai_content_part \<Rightarrow> json" where
  "oai_part_value (OaiText s) = JObject [(''type'', JString ''text''), (''text'', JString s)]"
| "oai_part_value (OaiImageUrl i) =
     JObject [(''type'', JString ''image_url''), (''image_url'', oai_image_value i)]"

fun oai_content_value :: "oai_content \<Rightarrow> json" where
  "oai_content_value (OaiPlain s) = JString s"
| "oai_content_value (OaiParts ps) = JArray (map oai_part_value ps)"

definition oai_tool_call_value :: "oai_tool_call \<Rightarrow> json" where
  "oai_tool_call_value tc =
     JObject [(''id'', JString (otc_id tc)), (''type'', JString (otc_kind tc)),
              (''function'', JObject [(''name'', JString (ofc_name (otc_function tc))),
                                    (''arguments'', JString (ofc_arguments (otc_function tc)))])]"

definition oai_message_value :: "oai_message \<Rightarrow> json" where
  "oai_message_value m =
     JObject
       ([(''role'', JString (om_role m))]
        @ opt_field ''content'' oai_content_value (om_content m)
        @ list_field ''tool_calls'' oai_tool_call_value (om_tool_calls m)
        @ opt_field ''tool_call_id'' JString (om_tool_call_id m))"

definition oai_tool_value :: "oai_tool \<Rightarrow> json" where
  "oai_tool_value t =
     JObject [(''type'', JString (ot_kind t)),
              (''function'', JObject [(''name'', JString (otf_name (ot_function t))),
                                    (''description'', JString (otf_description (ot_function t))),
                                    (''parameters'', JObject (otf_parameters (ot_function t)))])]"

definition oai_request_value :: "(u32 \<Rightarrow> json) \<Rightarrow> oai_request \<Rightarrow> json" where
  "oai_request_value f32 q =
     JObject
       ([(''model'', JString (oq_model q)), (''messages'', JArray (map oai_message_value (oq_messages q)))]
        @ list_field ''tools'' oai_tool_value (oq_tools q)
        @ opt_field ''temperature'' f32 (oq_temperature q)
        @ opt_field ''max_tokens'' json_u32 (oq_max_tokens q)
        @ opt_field ''top_p'' f32 (oq_top_p q)
        @ list_field ''stop'' JString (oq_stop q)
        @ opt_field ''tool_choice'' JString (oq_tool_choice q)
        @ opt_field ''response_format'' (\<lambda>v. v) (oq_response_format q)
        @ opt_field ''seed'' json_i64 (oq_seed q)
        @ opt_field ''frequency_penalty'' f32 (oq_frequency_penalty q)
        @ opt_field ''presence_penalty'' f32 (oq_presence_penalty q)
        @ [(''stream'', JBool (oq_stream q))])"

section \<open>Responses\<close>

record oai_resp_function =
  orf_name :: "string option"
  orf_arguments :: "string option"

record oai_resp_tool_call =
  ort_id :: "string option"
  ort_function :: oai_resp_function

record oai_resp_message =
  orm_content :: "string option"
  orm_tool_calls :: "oai_resp_tool_call list"

record oai_choice =
  och_message :: "oai_resp_message option"
  och_delta :: "oai_resp_message option"
  och_finish_reason :: "string option"

record oai_usage =
  ou_prompt_tokens :: "u32 option"
  ou_completion_tokens :: "u32 option"
  ou_total_tokens :: "u32 option"

record oai_response =
  ore_id :: "string option"
  ore_model :: "string option"
  ore_choices :: "oai_choice list"
  ore_usage :: "oai_usage option"

abbreviation de_opt_str :: "json option \<Rightarrow> string option option" where
  "de_opt_str \<equiv> de_default None (de_option as_str)"

abbreviation de_opt_u32 :: "json option \<Rightarrow> u32 option option" where
  "de_opt_u32 \<equiv> de_default None (de_option de_u32)"

definition de_resp_function :: "json \<Rightarrow> oai_resp_function option" where
  "de_resp_function v =
     do { get \<leftarrow> struct_fields [''name'', ''arguments''] v;
          name \<leftarrow> de_opt_str (get ''name'');
          args \<leftarrow> de_opt_str (get ''arguments'');
          Some \<lparr>orf_name = name, orf_arguments = args\<rparr> }"

definition de_resp_tool_call :: "json \<Rightarrow> oai_resp_tool_call option" where
  "de_resp_tool_call v =
     do { get \<leftarrow> struct_fields [''id'', ''function''] v;
          i \<leftarrow> de_opt_str (get ''id'');
          fv \<leftarrow> get ''function'';
          f \<leftarrow> de_resp_function fv;
          Some \<lparr>ort_id = i, ort_function = f\<rparr> }"

definition de_resp_message :: "json \<Rightarrow> oai_resp_message option" where
  "de_resp_message v =
     do { get \<leftarrow> struct_fields [''content'', ''tool_calls''] v;
          c \<leftarrow> de_opt_str (get ''content'');
          calls \<leftarrow> de_default [] (de_list de_resp_tool_call) (get ''tool_calls'');
          Some \<lparr>orm_content = c, orm_tool_calls = calls\<rparr> }"

definition de_choice :: "json \<Rightarrow> oai_choice option" where
  "de_choice v =
     do { get \<leftarrow> struct_fields [''message'', ''delta'', ''finish_reason''] v;
          m \<leftarrow> de_default None (de_option de_resp_message) (get ''message'');
          d \<leftarrow> de_default None (de_option de_resp_message) (get ''delta'');
          fr \<leftarrow> de_opt_str (get ''finish_reason'');
          Some \<lparr>och_message = m, och_delta = d, och_finish_reason = fr\<rparr> }"

definition de_usage :: "json \<Rightarrow> oai_usage option" where
  "de_usage v =
     do { get \<leftarrow> struct_fields [''prompt_tokens'', ''completion_tokens'', ''total_tokens''] v;
          p \<leftarrow> de_opt_u32 (get ''prompt_tokens'');
          c \<leftarrow> de_opt_u32 (get ''completion_tokens'');
          t \<leftarrow> de_opt_u32 (get ''total_tokens'');
          Some \<lparr>ou_prompt_tokens = p, ou_completion_tokens = c, ou_total_tokens = t\<rparr> }"

definition de_response :: "json \<Rightarrow> oai_response option" where
  "de_response v =
     do { get \<leftarrow> struct_fields [''id'', ''model'', ''choices'', ''usage''] v;
          i \<leftarrow> de_opt_str (get ''id'');
          model \<leftarrow> de_opt_str (get ''model'');
          choices \<leftarrow> de_default [] (de_list de_choice) (get ''choices'');
          u \<leftarrow> de_default None (de_option de_usage) (get ''usage'');
          Some \<lparr>ore_id = i, ore_model = model, ore_choices = choices, ore_usage = u\<rparr> }"

lemmas de_defs =
  de_default_def de_option_def de_list_def struct_fields_def

lemmas de_oai_defs =
  de_resp_function_def de_resp_tool_call_def de_resp_message_def de_choice_def de_usage_def
  de_response_def

end
