(* ===== verification/OaiCompat.thy ===== *)
theory OaiCompat
  imports OaiWire
begin

text \<open>
  The OpenAI-compatible adapter (\<open>gravity-providers/src/openai_compat/provider.rs\<close>) and its catalog of
  providers (\<open>catalog.rs\<close>): one adapter parameterised by a configuration record, its buffered chat, its
  stream and its model discovery.

  \<open>to_vec\<close> is the derived serializer of the request applied by \<open>serde_json::to_vec\<close>: an error text or
  the written JSON.
\<close>

section \<open>Configuration\<close>

record oai_config =
  oc_provider :: provider_name
  oc_capabilities :: provider_capabilities
  oc_default_base_url :: string
  oc_models :: "string list"
  oc_auth_header :: "string \<Rightarrow> string \<times> string"
  oc_extra_headers :: "(string \<times> string) list"
  oc_default_profile :: string

definition bearer_header :: "string \<Rightarrow> string \<times> string" where
  "bearer_header secret = (''authorization'', ''Bearer '' @ secret)"

definition oai_base_url :: "oai_config \<Rightarrow> chat_ctx \<Rightarrow> string" where
  "oai_base_url c cx =
     (let acct = tp_base_url (pa_transport (cx_account cx))
      in if acct = [] then oc_default_base_url c else acct)"

definition oai_profile :: "oai_config \<Rightarrow> chat_ctx \<Rightarrow> profile" where
  "oai_profile c cx = profile_from_name (impersonate_or cx (oc_default_profile c))"

text \<open>The credential is left out for anonymous access; then the configuration's own headers.\<close>

definition authorized :: "oai_config \<Rightarrow> chat_ctx \<Rightarrow> http_request \<Rightarrow> http_request" where
  "authorized c cx req =
     (if cx_secret cx \<noteq> [] \<and> au_kind (pa_auth (cx_account cx)) \<noteq> ''anonymous''
      then (case oc_auth_header c (cx_secret cx) of (k, v) \<Rightarrow> with_header k v req)
      else req)"

definition extra_headed :: "oai_config \<Rightarrow> http_request \<Rightarrow> http_request" where
  "extra_headed c req = fold (\<lambda>(k, v). with_header k v) (oc_extra_headers c) req"

definition build_http_request ::
    "serde \<Rightarrow> (oai_request \<Rightarrow> string + string) \<Rightarrow> oai_config \<Rightarrow> chat_ctx \<Rightarrow> bool \<Rightarrow> error + http_request" where
  "build_http_request sj to_vec c cx stream =
     (case to_vec (build_request sj (cx_request cx) stream) of
        Inl msg \<Rightarrow> Inl (Validation (''failed to encode request: '' @ msg) ''oai_encode'')
      | Inr body \<Rightarrow>
          Inr (extra_headed c (authorized c cx
            (with_body (str_bytes body)
              (with_header ''content-type'' ''application/json''
                (with_proxy (ctx_proxy cx)
                  (with_timeout_ms (ctx_timeout_ms cx)
                    (with_profile (oai_profile c cx)
                      (request_post (trim_slashes (oai_base_url c cx) @ ''/chat/completions''))))))))))"

section \<open>Buffered chat\<close>

definition oai_usage_of :: "oai_usage \<Rightarrow> usage" where
  "oai_usage_of u = usage_of (ou_prompt_tokens u) (ou_completion_tokens u) (ou_total_tokens u)"

definition str_default :: "string option \<Rightarrow> string" where
  "str_default x = (case x of None \<Rightarrow> [] | Some s \<Rightarrow> s)"

definition oai_arguments :: "serde \<Rightarrow> string option \<Rightarrow> jmap" where
  "oai_arguments sj args =
     (case do { s \<leftarrow> args; v \<leftarrow> from_text sj s; as_object v } of None \<Rightarrow> [] | Some m \<Rightarrow> m)"

definition resp_tool_call :: "serde \<Rightarrow> oai_resp_tool_call \<Rightarrow> tool_call" where
  "resp_tool_call sj tc =
     \<lparr>tc_id = str_default (ort_id tc), tc_name = str_default (orf_name (ort_function tc)),
      tc_arguments = oai_arguments sj (orf_arguments (ort_function tc))\<rparr>"

definition reply_message :: "string \<Rightarrow> tool_call list \<Rightarrow> message" where
  "reply_message s calls =
     (if calls = [] then message_assistant s
      else message_assistant_with_tools (Some (CText s)) calls)"

definition resp_message_default :: oai_resp_message where
  "resp_message_default = \<lparr>orm_content = None, orm_tool_calls = []\<rparr>"

definition response_to_chat ::
    "serde \<Rightarrow> provider_name \<Rightarrow> string \<Rightarrow> oai_response \<Rightarrow> error + chat_response" where
  "response_to_chat sj p model_full resp =
     (case ore_choices resp of
        [] \<Rightarrow> Inl (ProviderErr (provider_error_new p OtherKind ''oai_no_choices''
                                ''response contained no choices''))
      | choice # _ \<Rightarrow>
          (let msg = (case och_message choice of
                        Some m \<Rightarrow> m
                      | None \<Rightarrow> (case och_delta choice of Some d \<Rightarrow> d | None \<Rightarrow> resp_message_default));
               calls = map (resp_tool_call sj) (orm_tool_calls msg)
           in Inr \<lparr>rs_model = model_full,
                   rs_message = reply_message (str_default (orm_content msg)) calls,
                   rs_usage = (case ore_usage resp of None \<Rightarrow> usage_default | Some u \<Rightarrow> oai_usage_of u),
                   rs_tool_calls_executed = [],
                   rs_provider_response_id = ore_id resp,
                   rs_finish_reason = och_finish_reason choice,
                   rs_metadata = metadata_new\<rparr>))"

definition oai_http_error :: "provider_name \<Rightarrow> u16 \<Rightarrow> string \<Rightarrow> error" where
  "oai_http_error p status body = status_error p ''oai_request_failed'' status body"

definition oai_chat ::
    "'w net \<Rightarrow> (oai_request \<Rightarrow> string + string) \<Rightarrow> oai_config \<Rightarrow> chat_ctx \<Rightarrow> 'w
       \<Rightarrow> (error + chat_response) \<times> 'w" where
  "oai_chat net to_vec c cx w =
     (case build_http_request (nt_serde net) to_vec c cx False of
        Inl e \<Rightarrow> (Inl e, w)
      | Inr req \<Rightarrow>
          (case nt_send net req w of
             (Inl e, w') \<Rightarrow> (Inl e, w')
           | (Inr resp, w') \<Rightarrow>
               (if \<not> is_success resp
                then Inl (oai_http_error (oc_provider c) (rp_status resp) (response_text_lossy resp))
                else (case Option.bind (value_of_bytes (nt_serde net) (rp_body resp)) de_response of
                        None \<Rightarrow>
                          Inl (Network (''invalid OpenAI response JSON: '' @ nt_bad_json net (rp_body resp)))
                      | Some parsed \<Rightarrow>
                          response_to_chat (nt_serde net) (oc_provider c)
                            (model_id_full_name (rq_model (cx_request cx))) parsed), w')))"

section \<open>Streaming\<close>

record oai_progress =
  op_text :: string
  op_usage :: usage
  op_finish :: "string option"

definition oai_progress_new :: oai_progress where
  "oai_progress_new = \<lparr>op_text = [], op_usage = usage_default, op_finish = None\<rparr>"

text \<open>A decoded chunk: the counters, then the first choice's finish reason and text.\<close>

definition oai_chunk :: "oai_response \<Rightarrow> oai_progress \<Rightarrow> string \<times> oai_progress" where
  "oai_chunk chunk st =
     (let st1 = (case ore_usage chunk of None \<Rightarrow> st | Some u \<Rightarrow> st\<lparr>op_usage := oai_usage_of u\<rparr>)
      in (case ore_choices chunk of
            [] \<Rightarrow> ([], st1)
          | choice # _ \<Rightarrow>
              (let st2 = (case och_finish_reason choice of None \<Rightarrow> st1 | Some fr \<Rightarrow> st1\<lparr>op_finish := Some fr\<rparr>);
                   delta = (case och_delta choice of Some d \<Rightarrow> Some d | None \<Rightarrow> och_message choice);
                   c = (case delta of None \<Rightarrow> [] | Some d \<Rightarrow> str_default (orm_content d))
               in (c, st2\<lparr>op_text := op_text st2 @ c\<rparr>))))"

definition oai_done :: "string \<Rightarrow> oai_progress \<Rightarrow> chat_response" where
  "oai_done model_full st =
     \<lparr>rs_model = model_full, rs_message = message_assistant (op_text st), rs_usage = op_usage st,
      rs_tool_calls_executed = [], rs_provider_response_id = None, rs_finish_reason = op_finish st,
      rs_metadata = metadata_new\<rparr>"

fun oai_stream_loop ::
    "serde \<Rightarrow> string \<Rightarrow> oai_progress \<Rightarrow> (error + sse_event) list \<Rightarrow> event_stream" where
  "oai_stream_loop sj model st [] = [Inr (Done (oai_done model st))]"
| "oai_stream_loop sj model st (Inl e # _) = [Inl e]"
| "oai_stream_loop sj model st (Inr ev # es) =
     (if is_done ev then [Inr (Done (oai_done model st))]
      else (case Option.bind (from_text sj (sse_data ev)) de_response of
              None \<Rightarrow> oai_stream_loop sj model st es
            | Some chunk \<Rightarrow>
                (case oai_chunk chunk st of
                   (c, st') \<Rightarrow>
                     (if c = [] then [] else [Inr (TextDelta (str_bytes c))])
                     @ oai_stream_loop sj model st' es)))"

definition oai_chat_stream ::
    "'w net \<Rightarrow> (oai_request \<Rightarrow> string + string) \<Rightarrow> oai_config \<Rightarrow> chat_ctx \<Rightarrow> 'w
       \<Rightarrow> (error + event_stream) \<times> 'w" where
  "oai_chat_stream net to_vec c cx w =
     (case build_http_request (nt_serde net) to_vec c cx True of
        Inl e \<Rightarrow> (Inl e, w)
      | Inr req \<Rightarrow>
          (case nt_stream net req w of
             (Inl e, w') \<Rightarrow> (Inl e, w')
           | (Inr (status, hs, body), w') \<Rightarrow>
               (if status \<noteq> 200 then (Inl (oai_http_error (oc_provider c) status ''stream failed''), w')
                else (Inr (oai_stream_loop (nt_serde net) (model_id_full_name (rq_model (cx_request cx)))
                             oai_progress_new (events body)), w'))))"

section \<open>Discovery\<close>

definition oai_discover_models :: "'w net \<Rightarrow> oai_config \<Rightarrow> chat_ctx \<Rightarrow> 'w \<Rightarrow> (error + model_info list) \<times> 'w" where
  "oai_discover_models net c cx w =
     (let fallback = map model_info_bare (oc_models c);
          req = extra_headed c (authorized c cx
                  (with_proxy (ctx_proxy cx)
                    (with_timeout_ms (ctx_timeout_ms cx)
                      (with_profile (oai_profile c cx)
                        (request_get (trim_slashes (oai_base_url c cx) @ ''/models''))))))
      in (case nt_send net req w of
            (Inl e, w') \<Rightarrow> (Inr fallback, w')
          | (Inr resp, w') \<Rightarrow>
              (if \<not> is_success resp then (Inr fallback, w')
               else (case Option.bind (Option.bind (value_of_bytes (nt_serde net) (rp_body resp))
                                         (\<lambda>v. jget v ''data'')) as_array of
                       None \<Rightarrow> (Inr fallback, w')
                     | Some items \<Rightarrow>
                         (let models = map model_info_bare (List.map_filter (\<lambda>m. jget_str m ''id'') items)
                          in (Inr (if models = [] then fallback else models), w'))))))"

text \<open>The adapter as a provider; the methods it does not define are the provided ones.\<close>

definition oai_provider :: "'w net \<Rightarrow> (oai_request \<Rightarrow> string + string) \<Rightarrow> oai_config \<Rightarrow> 'w provider" where
  "oai_provider net to_vec c =
     \<lparr>pv_capabilities = oc_capabilities c, pv_list_models = oc_models c,
      pv_discover_models = oai_discover_models net c,
      pv_normalize_system_prompt = default_normalize_system_prompt,
      pv_open_checkpoint = default_open_checkpoint,
      pv_chat = oai_chat net to_vec c, pv_chat_stream = oai_chat_stream net to_vec c,
      pv_authenticator = None\<rparr>"

section \<open>What is written is read back\<close>

text \<open>
  A reply as an OpenAI server writes it: the assistant message in the form this adapter itself writes
  messages in, a finish reason, and the counters.
\<close>

definition oai_counts_value :: "u32 \<times> u32 \<times> u32 \<Rightarrow> json" where
  "oai_counts_value u =
     (case u of (p, c, t) \<Rightarrow>
        JObject [(''prompt_tokens'', json_u32 p), (''completion_tokens'', json_u32 c),
                 (''total_tokens'', json_u32 t)])"

definition oai_counts :: "u32 \<times> u32 \<times> u32 \<Rightarrow> usage" where
  "oai_counts u = (case u of (p, c, t) \<Rightarrow> usage_of (Some p) (Some c) (Some t))"

definition oai_reply_value :: "serde \<Rightarrow> string \<Rightarrow> message \<Rightarrow> string \<Rightarrow> u32 \<times> u32 \<times> u32 \<Rightarrow> json" where
  "oai_reply_value sj i m fr u =
     JObject
       [(''id'', JString i),
        (''choices'', JArray [JObject [(''index'', json_u32 0), (''message'', oai_message_value (to_oai_message sj m)),
                                     (''finish_reason'', JString fr)]]),
        (''usage'', oai_counts_value u)]"

definition arguments_ok :: "serde \<Rightarrow> tool_call \<Rightarrow> bool" where
  "arguments_ok sj c \<longleftrightarrow>
     from_text sj (to_compact sj (JObject (tc_arguments c))) = Some (JObject (tc_arguments c))"

lemma de_opt_str_simps [simp]:
  "de_opt_str None = Some None"
  "de_opt_str (Some (JString s)) = Some (Some s)"
  "de_opt_str (Some JNull) = Some None"
  by (simp_all add: de_default_def de_option_def)

lemma de_opt_u32_simps [simp]:
  "de_opt_u32 None = Some None"
  "de_opt_u32 (Some (json_u32 n)) = Some (Some n)"
proof -
  have "\<not> is_null (json_u32 n)" by (simp add: json_u32_def)
  then show "de_opt_u32 (Some (json_u32 n)) = Some (Some n)" by (simp add: de_default_def de_option_def)
qed (simp add: de_default_def)

lemma struct_fields_object [simp]: "struct_fields names (JObject m) = Some (map_of m)"
  by (simp add: struct_fields_def)

definition resp_tool_call_of :: "serde \<Rightarrow> tool_call \<Rightarrow> oai_resp_tool_call" where
  "resp_tool_call_of sj tc =
     \<lparr>ort_id = Some (tc_id tc),
      ort_function = \<lparr>orf_name = Some (tc_name tc),
                     orf_arguments = Some (to_compact sj (JObject (tc_arguments tc)))\<rparr>\<rparr>"

lemma de_tool_call_written:
  "de_resp_tool_call (oai_tool_call_value (to_oai_tool_call sj tc)) = Some (resp_tool_call_of sj tc)"
  by (simp add: de_resp_tool_call_def oai_tool_call_value_def to_oai_tool_call_def de_resp_function_def
      resp_tool_call_of_def)

lemma resp_tool_call_inverse: "arguments_ok sj tc \<Longrightarrow> resp_tool_call sj (resp_tool_call_of sj tc) = tc"
  by (simp add: resp_tool_call_def resp_tool_call_of_def str_default_def oai_arguments_def arguments_ok_def)

lemma de_message_written:
  "de_resp_message (oai_message_value (to_oai_message sj (reply_message s calls))) =
     Some \<lparr>orm_content = Some s, orm_tool_calls = map (resp_tool_call_of sj) calls\<rparr>"
proof -
  have m: "to_oai_message sj (reply_message s calls) =
      \<lparr>om_role = ''assistant'', om_content = Some (OaiPlain s),
       om_tool_calls = map (to_oai_tool_call sj) calls, om_tool_call_id = None\<rparr>"
    by (simp add: to_oai_message_def reply_message_def message_defs)
  have "those (map de_resp_tool_call (map oai_tool_call_value (map (to_oai_tool_call sj) calls))) =
      Some (map (resp_tool_call_of sj) calls)"
    by (simp add: comp_def de_tool_call_written)
  then show ?thesis
    unfolding m by (auto simp: de_resp_message_def oai_message_value_def de_default_def de_list_def
        de_option_def map_add_def split: option.split)
qed

lemma de_usage_counts:
  "\<exists>v. de_usage (oai_counts_value u) = Some v \<and> oai_usage_of v = oai_counts u"
  by (auto simp: de_usage_def oai_counts_value_def oai_counts_def oai_usage_of_def split: prod.split)

lemma oai_counts_value_object: "\<not> is_null (oai_counts_value u)"
  by (simp add: oai_counts_value_def split: prod.split)

text \<open>
  An OpenAI reply is understood.  For every assistant message with a text and any tool calls,
  written as the transcript writes it (the arguments of a call as a string of JSON), the adapter reads
  back exactly that message, with its finish reason, its counters and the id of the reply: nothing of
  a turn is lost between what the model said and what the next request repeats.
\<close>

theorem oai_reply_roundtrip:
  assumes "list_all (arguments_ok sj) calls"
  shows "map_option (response_to_chat sj name model_full)
           (de_response (oai_reply_value sj i (reply_message s calls) fr u)) =
     Some (Inr \<lparr>rs_model = model_full, rs_message = reply_message s calls,
                rs_usage = oai_counts u, rs_tool_calls_executed = [],
                rs_provider_response_id = Some i, rs_finish_reason = Some fr,
                rs_metadata = metadata_new\<rparr>)"
proof -
  let ?m = "\<lparr>orm_content = Some s, orm_tool_calls = map (resp_tool_call_of sj) calls\<rparr>"
  let ?choice = "\<lparr>och_message = Some ?m, och_delta = None, och_finish_reason = Some fr\<rparr>"
  obtain v where v: "de_usage (oai_counts_value u) = Some v" "oai_usage_of v = oai_counts u"
    using de_usage_counts by blast
  have "\<not> is_null (oai_message_value om)" for om by (simp add: oai_message_value_def)
  then have "de_default None (de_option de_resp_message)
      (Some (oai_message_value (to_oai_message sj (reply_message s calls)))) = Some (Some ?m)"
    by (simp add: de_default_def de_option_def de_message_written)
  then have choice: "de_choice (JObject [(''index'', json_u32 0),
        (''message'', oai_message_value (to_oai_message sj (reply_message s calls))),
        (''finish_reason'', JString fr)]) = Some ?choice"
    by (simp add: de_choice_def) (simp add: de_default_def)
  have "de_response (oai_reply_value sj i (reply_message s calls) fr u) =
      Some \<lparr>ore_id = Some i, ore_model = None, ore_choices = [?choice], ore_usage = Some v\<rparr>"
    using choice v(1) oai_counts_value_object [of u] by (simp add: de_response_def oai_reply_value_def) (simp add: de_default_def de_list_def de_option_def)
  moreover have "map (resp_tool_call sj) (map (resp_tool_call_of sj) calls) = calls"
    using assms by (simp add: list_all_iff resp_tool_call_inverse map_idI)
  ultimately show ?thesis
    by (simp add: response_to_chat_def Let_def v(2) str_default_def comp_def)
qed

lemma oai_reply_roundtrip_witness:
  "map_option (response_to_chat
      \<lparr>to_compact = \<lambda>_. ''{}'', to_pretty = \<lambda>_. [], from_text = \<lambda>_. Some (JObject []),
       stream_next = \<lambda>_. None, number_f64 = \<lambda>_. None\<rparr> Groq ''groq/x'')
     (de_response (oai_reply_value
        \<lparr>to_compact = \<lambda>_. ''{}'', to_pretty = \<lambda>_. [], from_text = \<lambda>_. Some (JObject []),
         stream_next = \<lambda>_. None, number_f64 = \<lambda>_. None\<rparr> ''r''
        (reply_message ''hi'' [\<lparr>tc_id = ''1'', tc_name = ''f'', tc_arguments = []\<rparr>]) ''stop'' (1, 2, 3))) =
   Some (Inr \<lparr>rs_model = ''groq/x'',
              rs_message = reply_message ''hi'' [\<lparr>tc_id = ''1'', tc_name = ''f'', tc_arguments = []\<rparr>],
              rs_usage = oai_counts (1, 2, 3), rs_tool_calls_executed = [],
              rs_provider_response_id = Some ''r'', rs_finish_reason = Some ''stop'', rs_metadata = metadata_new\<rparr>)"
  by (rule oai_reply_roundtrip) (simp add: arguments_ok_def)

section \<open>A stream, from bytes to events\<close>

text \<open>A chunk as a server sends it: some text, a finish reason, counters, each possibly absent.\<close>

record oai_piece =
  pc_content :: "string option"
  pc_finish :: "string option"
  pc_usage :: "(u32 \<times> u32 \<times> u32) option"

definition oai_piece_value :: "oai_piece \<Rightarrow> json" where
  "oai_piece_value pc =
     JObject
       ([(''object'', JString ''chat.completion.chunk''),
         (''choices'', JArray [JObject ([(''index'', json_u32 0),
                                       (''delta'', JObject (opt_field ''content'' JString (pc_content pc)))]
                                      @ opt_field ''finish_reason'' JString (pc_finish pc))])]
        @ opt_field ''usage'' oai_counts_value (pc_usage pc))"

definition data_event :: "string \<Rightarrow> sse_event" where
  "data_event t = \<lparr>sse_event_name = None, sse_data = t\<rparr>"

definition piece_written :: "serde \<Rightarrow> oai_piece \<Rightarrow> string \<Rightarrow> bool" where
  "piece_written sj pc t \<longleftrightarrow>
     from_text sj t = Some (oai_piece_value pc) \<and> trim t \<noteq> ''[DONE]'' \<and> event_ok (data_event t)"

definition piece_text :: "oai_piece \<Rightarrow> string" where
  "piece_text pc = str_default (pc_content pc)"

text \<open>The last value that was given, else the first argument.\<close>

definition or_last :: "'a option \<Rightarrow> 'a option list \<Rightarrow> 'a option" where
  "or_last x xs = last (x # filter (\<lambda>x. x \<noteq> None) xs)"

lemma or_last_simps [simp]:
  "or_last x [] = x"
  "or_last x (None # xs) = or_last x xs"
  "or_last x (Some y # xs) = or_last (Some y) xs"
  by (simp_all add: or_last_def)

definition piece_after :: "oai_piece \<Rightarrow> oai_progress \<Rightarrow> oai_progress" where
  "piece_after pc st =
     \<lparr>op_text = op_text st @ piece_text pc,
      op_usage = (case pc_usage pc of None \<Rightarrow> op_usage st | Some u \<Rightarrow> oai_counts u),
      op_finish = (case pc_finish pc of None \<Rightarrow> op_finish st | Some fr \<Rightarrow> Some fr)\<rparr>"

lemma oai_chunk_piece:
  "\<exists>chunk. de_response (oai_piece_value pc) = Some chunk
     \<and> (\<forall>st. oai_chunk chunk st = (piece_text pc, piece_after pc st))"
proof -
  let ?delta = "\<lparr>orm_content = pc_content pc, orm_tool_calls = []\<rparr>"
  let ?choice = "\<lparr>och_message = None, och_delta = Some ?delta, och_finish_reason = pc_finish pc\<rparr>"
  have "de_resp_message (JObject (opt_field ''content'' JString (pc_content pc))) = Some ?delta"
    by (cases "pc_content pc") (simp_all add: de_resp_message_def opt_field_def de_default_def de_option_def)
  then have choice: "de_choice (JObject ([(''index'', json_u32 0),
        (''delta'', JObject (opt_field ''content'' JString (pc_content pc)))]
        @ opt_field ''finish_reason'' JString (pc_finish pc))) = Some ?choice"
    by (cases "pc_finish pc") (simp_all add: de_choice_def opt_field_def de_default_def de_option_def)
  show ?thesis
  proof (cases "pc_usage pc")
    case None
    then have "de_response (oai_piece_value pc) =
        Some \<lparr>ore_id = None, ore_model = None, ore_choices = [?choice], ore_usage = None\<rparr>"
      using choice by (simp add: de_response_def oai_piece_value_def opt_field_def) (simp add: de_default_def de_list_def)
    then show ?thesis
      using None by (auto simp: oai_chunk_def Let_def piece_after_def piece_text_def split: option.split)
  next
    case (Some u)
    obtain v where v: "de_usage (oai_counts_value u) = Some v" "oai_usage_of v = oai_counts u"
      using de_usage_counts by blast
    have "de_response (oai_piece_value pc) =
        Some \<lparr>ore_id = None, ore_model = None, ore_choices = [?choice], ore_usage = Some v\<rparr>"
      using choice v(1) Some oai_counts_value_object [of u]
      by (simp add: de_response_def oai_piece_value_def opt_field_def)
        (simp add: de_default_def de_list_def de_option_def)
    then show ?thesis
      using Some v(2) by (auto simp: oai_chunk_def Let_def piece_after_def piece_text_def split: option.split)
  qed
qed

definition text_deltas :: "string list \<Rightarrow> event_stream" where
  "text_deltas ss = map (\<lambda>s. Inr (TextDelta (str_bytes s))) (filter (\<lambda>s. s \<noteq> []) ss)"

lemma text_deltas_append: "text_deltas (xs @ ys) = text_deltas xs @ text_deltas ys"
  by (simp add: text_deltas_def)

text \<open>A text that the adapter reads as a given chunk.\<close>

definition reads_as :: "serde \<Rightarrow> oai_piece \<Rightarrow> string \<Rightarrow> bool" where
  "reads_as sj pc t \<longleftrightarrow>
     trim t \<noteq> ''[DONE]''
   \<and> (\<exists>chunk. Option.bind (from_text sj t) de_response = Some chunk
        \<and> (\<forall>st. oai_chunk chunk st = (piece_text pc, piece_after pc st)))"

lemma piece_written_reads_as: "piece_written sj pc t \<Longrightarrow> reads_as sj pc t"
  using oai_chunk_piece [of pc] by (auto simp: piece_written_def reads_as_def)

lemma oai_stream_loop_reads:
  "list_all2 (reads_as sj) pcs ts \<Longrightarrow>
   oai_stream_loop sj model st (map Inr (map data_event ts) @ rest) =
     text_deltas (map piece_text pcs) @ oai_stream_loop sj model (fold piece_after pcs st) rest"
proof (induction arbitrary: st rule: list_all2_induct)
  case Nil
  show ?case by (simp add: text_deltas_def)
next
  case (Cons pc pcs t ts)
  then obtain chunk where "Option.bind (from_text sj t) de_response = Some chunk"
    "oai_chunk chunk st = (piece_text pc, piece_after pc st)" "trim t \<noteq> ''[DONE]''"
    by (auto simp: reads_as_def)
  then show ?case using Cons.IH by (simp add: is_done_def data_event_def text_deltas_def)
qed

lemma done_event: "is_done (data_event ''[DONE]'')" "event_ok (data_event ''[DONE]'')"
  by code_simp+

lemma oai_stream_loop_pieces:
  assumes "list_all2 (piece_written sj) pcs ts"
  shows "oai_stream_loop sj model st (map Inr (map data_event (ts @ [''[DONE]'']))) =
     text_deltas (map piece_text pcs) @ [Inr (Done (oai_done model (fold piece_after pcs st)))]"
proof -
  have "list_all2 (reads_as sj) pcs ts"
    using assms by (rule list.rel_mono_strong) (rule piece_written_reads_as)
  from oai_stream_loop_reads [OF this, of model st "[Inr (data_event ''[DONE]'')]"]
  show ?thesis by (simp add: done_event)
qed

lemma pieces_after:
  "fold piece_after pcs st =
     \<lparr>op_text = op_text st @ concat (map piece_text pcs),
      op_usage = the (or_last (Some (op_usage st)) (map (\<lambda>pc. map_option oai_counts (pc_usage pc)) pcs)),
      op_finish = or_last (op_finish st) (map pc_finish pcs)\<rparr>"
  by (induction pcs arbitrary: st) (auto simp: piece_after_def split: option.split)

lemma oai_stream_events:
  assumes "build_http_request (nt_serde net) to_vec c cx True = Inr req"
    and "nt_stream net req w = (Inr (200, hs, map Inr reads), w')"
    and "list_all2 (piece_written (nt_serde net)) pcs ts"
    and "concat reads = concat (map (\<lambda>t. wire_lines (event_lines (data_event t))) (ts @ [''[DONE]'']))"
  shows "oai_chat_stream net to_vec c cx w =
     (Inr (text_deltas (map piece_text pcs)
           @ [Inr (Done \<lparr>rs_model = model_id_full_name (rq_model (cx_request cx)),
                         rs_message = message_assistant (concat (map piece_text pcs)),
                         rs_usage = the (or_last (Some usage_default) (map (\<lambda>pc. map_option oai_counts (pc_usage pc)) pcs)),
                         rs_tool_calls_executed = [], rs_provider_response_id = None,
                         rs_finish_reason = or_last None (map pc_finish pcs), rs_metadata = metadata_new\<rparr>)]),
      w')"
proof -
  note done_event(2)
  moreover have "\<forall>t\<in>set ts. event_ok (data_event t)"
    using assms(3) by (auto simp: list_all2_conv_all_nth in_set_conv_nth piece_written_def)
  ultimately have "events (map Inr reads) = map Inr (map data_event (ts @ [''[DONE]'']))"
    using assms(4) by (intro events_wire) (auto simp: comp_def)
  then show ?thesis
    using assms(1,2) oai_stream_loop_pieces [OF assms(3)]
    by (simp add: oai_chat_stream_def pieces_after oai_done_def oai_progress_new_def del: map_append)
qed

text \<open>
  C19.  An OpenAI stream, from the bytes of the connection to the events.  For every sequence of chunks
  (with or without text, finish reason and counters), written as server-sent events, terminated by
  \<open>[DONE]\<close> and cut into network reads anywhere, the adapter yields one delta per non-empty text, in
  order, and then one final event with the whole text, the last finish reason and the last counters.
\<close>

theorem oai_stream_assembled:
  assumes "build_http_request (nt_serde net) to_vec c cx True = Inr req"
    and "nt_stream net req w = (Inr (200, hs, map Inr reads), w')"
    and "list_all2 (piece_written (nt_serde net)) pcs ts"
    and "concat reads = concat (map (\<lambda>t. wire_lines (event_lines (data_event t))) (ts @ [''[DONE]'']))"
  shows "oai_chat_stream net to_vec c cx w =
     (Inr (text_deltas (map piece_text pcs)
           @ [Inr (Done \<lparr>rs_model = model_id_full_name (rq_model (cx_request cx)),
                         rs_message = message_assistant (concat (map piece_text pcs)),
                         rs_usage = the (or_last (Some usage_default) (map (\<lambda>pc. map_option oai_counts (pc_usage pc)) pcs)),
                         rs_tool_calls_executed = [], rs_provider_response_id = None,
                         rs_finish_reason = or_last None (map pc_finish pcs), rs_metadata = metadata_new\<rparr>)]),
      w')"
  using assms by (rule oai_stream_events)

definition sample_pieces :: "oai_piece list" where
  "sample_pieces =
     [\<lparr>pc_content = Some ''he'', pc_finish = None, pc_usage = None\<rparr>,
      \<lparr>pc_content = None, pc_finish = None, pc_usage = None\<rparr>,
      \<lparr>pc_content = Some ''y'', pc_finish = Some ''stop'', pc_usage = Some (1, 2, 3)\<rparr>]"

definition sample_net :: "unit net" where
  "sample_net =
     \<lparr>nt_send = \<lambda>_ w. (Inl (Network ''down''), w),
      nt_stream = \<lambda>_ w.
        (Inr (200, [],
           map Inr (map (\<lambda>t. wire_lines (event_lines (data_event t))) [''0'', ''1'', ''2'', ''[DONE]''])), w),
      nt_serde =
        \<lparr>to_compact = \<lambda>_. [], to_pretty = \<lambda>_. [],
         from_text = \<lambda>t. Some (oai_piece_value (sample_pieces ! dec_value t)),
         stream_next = \<lambda>_. None, number_f64 = \<lambda>_. None\<rparr>,
      nt_bad_json = \<lambda>_. []\<rparr>"

lemma oai_stream_assembled_witness:
  "\<forall>c cx. \<exists>resp. oai_chat_stream sample_net (\<lambda>_. Inr ''{}'') c cx () =
     (Inr [Inr (TextDelta (str_bytes ''he'')), Inr (TextDelta (str_bytes ''y'')), Inr (Done resp)], ())
   \<and> response_text resp = ''hey'' \<and> rs_finish_reason resp = Some ''stop''
   \<and> rs_usage resp = usage_of (Some 1) (Some 2) (Some 3)"
proof (intro allI)
  fix c cx
  let ?ts = "[''0'', ''1'', ''2'']"
  obtain req where req: "build_http_request (nt_serde sample_net) (\<lambda>_. Inr ''{}'') c cx True = Inr req"
    by (simp add: build_http_request_def)
  have "trim ''0'' \<noteq> ''[DONE]'' \<and> event_ok (data_event ''0'') \<and> trim ''1'' \<noteq> ''[DONE]''
      \<and> event_ok (data_event ''1'') \<and> trim ''2'' \<noteq> ''[DONE]'' \<and> event_ok (data_event ''2'')
      \<and> dec_value ''0'' = 0 \<and> dec_value ''1'' = 1 \<and> dec_value ''2'' = 2" by code_simp
  then have "list_all2 (piece_written (nt_serde sample_net)) sample_pieces ?ts"
    by (simp add: piece_written_def sample_net_def sample_pieces_def)
  moreover have "nt_stream sample_net req () =
      (Inr (200, [], map Inr (map (\<lambda>t. wire_lines (event_lines (data_event t))) (?ts @ [''[DONE]'']))), ())"
    by (simp add: sample_net_def)
  ultimately have "oai_chat_stream sample_net (\<lambda>_. Inr ''{}'') c cx () =
     (Inr (text_deltas (map piece_text sample_pieces)
           @ [Inr (Done \<lparr>rs_model = model_id_full_name (rq_model (cx_request cx)),
                         rs_message = message_assistant (concat (map piece_text sample_pieces)),
                         rs_usage = the (or_last (Some usage_default) (map (\<lambda>pc. map_option oai_counts (pc_usage pc)) sample_pieces)),
                         rs_tool_calls_executed = [], rs_provider_response_id = None,
                         rs_finish_reason = or_last None (map pc_finish sample_pieces), rs_metadata = metadata_new\<rparr>)]), ())"
    using req by (intro oai_stream_assembled) (assumption | rule refl)+
  then show "\<exists>resp. oai_chat_stream sample_net (\<lambda>_. Inr ''{}'') c cx () =
     (Inr [Inr (TextDelta (str_bytes ''he'')), Inr (TextDelta (str_bytes ''y'')), Inr (Done resp)], ())
   \<and> response_text resp = ''hey'' \<and> rs_finish_reason resp = Some ''stop''
   \<and> rs_usage resp = usage_of (Some 1) (Some 2) (Some 3)"
    by (simp add: sample_pieces_def text_deltas_def piece_text_def str_default_def oai_counts_def
        response_text_def core_simps)
qed

text \<open>
  The stream reads only the text of a delta: whatever tool calls the model streams, the final event has
  none, so a streamed request with tools loses the calls without an error.
\<close>

lemma oai_stream_drops_tools:
  "Inr (Done resp) \<in> set (oai_stream_loop sj model st es) \<Longrightarrow> response_tool_calls resp = []"
proof (induction sj model st es rule: oai_stream_loop.induct)
  case (3 sj model st ev es)
  then show ?case
    by (auto simp: oai_done_def response_tool_calls_def message_defs split: if_splits option.splits prod.splits)
qed (auto simp: oai_done_def response_tool_calls_def message_defs)

text \<open>A response with \<open>"tool_calls": null\<close>, which \<open>#[serde(default)]\<close> does not cover, is refused as a whole.\<close>

lemma null_tool_calls_refused:
  "de_response (JObject [(''choices'', JArray [JObject [(''message'',
      JObject [(''content'', JString s), (''tool_calls'', JNull)])]])]) = None"
  by (simp add: de_oai_defs de_default_def de_list_def de_option_def)

section \<open>The catalog\<close>

definition standard_caps :: "provider_name \<Rightarrow> tool_support_mode \<Rightarrow> provider_capabilities" where
  "standard_caps p tools =
     \<lparr>cap_provider = p, tool_support = tools, structured_output = OutJsonInstruction,
      remote_session = SessNone, supports_system_prompt = True, supports_stateful_history = False,
      requires_remote_checkpoint = False, default_history_mode = Stateless,
      supports_image_generation = False\<rparr>"

definition oai_entry ::
    "provider_name \<Rightarrow> string \<Rightarrow> tool_support_mode \<Rightarrow> string \<Rightarrow> string list \<Rightarrow> oai_config" where
  "oai_entry p base tools prof models =
     \<lparr>oc_provider = p, oc_capabilities = standard_caps p tools, oc_default_base_url = base,
      oc_models = models, oc_auth_header = bearer_header, oc_extra_headers = [],
      oc_default_profile = prof\<rparr>"

definition oai_catalog :: "oai_config list" where
  "oai_catalog =
     [oai_entry Groq ''https://api.groq.com/openai/v1'' ToolNative ''chrome''
        [''llama-3.3-70b-versatile'', ''llama-3.1-8b-instant'', ''openai/gpt-oss-120b''],
      oai_entry OpenaiApi ''https://api.openai.com/v1'' ToolNative ''chrome''
        [''gpt-4o'', ''gpt-4o-mini'', ''gpt-4.1'', ''o3'', ''o4-mini''],
      oai_entry Mistral ''https://api.mistral.ai/v1'' ToolNative ''chrome''
        [''mistral-large-latest'', ''mistral-small-latest'', ''codestral-latest''],
      oai_entry Deepseek ''https://api.deepseek.com/v1'' ToolNative ''chrome''
        [''deepseek-chat'', ''deepseek-reasoner''],
      oai_entry Xai ''https://api.x.ai/v1'' ToolNative ''chrome'' [''grok-4'', ''grok-3'', ''grok-3-mini''],
      oai_entry Together ''https://api.together.xyz/v1'' ToolNative ''chrome''
        [''meta-llama/Llama-3.3-70B-Instruct-Turbo'', ''Qwen/Qwen2.5-72B-Instruct-Turbo''],
      oai_entry Openrouter ''https://openrouter.ai/api/v1'' ToolNative ''chrome''
        [''openai/gpt-4o'', ''anthropic/claude-sonnet-4'', ''google/gemini-2.5-pro''],
      oai_entry Fireworks ''https://api.fireworks.ai/inference/v1'' ToolNative ''chrome''
        [''accounts/fireworks/models/llama-v3p3-70b-instruct''],
      oai_entry Cerebras ''https://api.cerebras.ai/v1'' ToolNative ''chrome''
        [''llama-3.3-70b'', ''llama3.1-8b'', ''qwen-3-235b-a22b-instruct-2507''],
      oai_entry Sambanova ''https://api.sambanova.ai/v1'' ToolNative ''chrome''
        [''Meta-Llama-3.3-70B-Instruct'', ''DeepSeek-R1''],
      oai_entry Hyperbolic ''https://api.hyperbolic.xyz/v1'' ToolNative ''chrome''
        [''meta-llama/Llama-3.3-70B-Instruct'', ''deepseek-ai/DeepSeek-V3''],
      oai_entry NvidiaNim ''https://integrate.api.nvidia.com/v1'' ToolNative ''chrome''
        [''meta/llama-3.3-70b-instruct'', ''deepseek-ai/deepseek-r1''],
      oai_entry Qwen ''https://dashscope-intl.aliyuncs.com/compatible-mode/v1'' ToolNative ''chrome''
        [''qwen-max'', ''qwen-plus'', ''qwen2.5-72b-instruct''],
      oai_entry Minimax ''https://api.minimax.io/v1'' ToolNative ''chrome''
        [''MiniMax-M2'', ''abab6.5s-chat''],
      oai_entry Cohere ''https://api.cohere.ai/compatibility/v1'' ToolNative ''chrome''
        [''command-r-plus'', ''command-r'', ''command-a-03-2025''],
      oai_entry Litellm ''http://localhost:4000/v1'' ToolNative ''chrome'' [],
      oai_entry Huggingface ''https://router.huggingface.co/v1'' ToolJsonEmulated ''chrome''
        [''meta-llama/Llama-3.3-70B-Instruct''],
      oai_entry Ollama ''http://localhost:11434/v1'' ToolNative ''go'' [],
      oai_entry LlamaCpp ''http://localhost:8080/v1'' ToolJsonEmulated ''go'' [],
      oai_entry LocalTransformers ''http://localhost:8000/v1'' ToolJsonEmulated ''go'' [],
      oai_entry Vertex ''https://aiplatform.googleapis.com/v1'' ToolNative ''chrome''
        [''google/gemini-2.5-pro'', ''google/gemini-2.5-flash'']]"

definition oai_all :: "'w net \<Rightarrow> (oai_request \<Rightarrow> string + string) \<Rightarrow> 'w provider list" where
  "oai_all net to_vec = map (oai_provider net to_vec) oai_catalog"

text \<open>
  The catalog: one adapter per name, each found under its own name and none under
  Perplexity's, whose web adapter is registered before; a base address is absolute and has no slash
  at its end; only the local servers present themselves as Go clients.
\<close>

lemma oai_catalog_ok:
  "distinct (map oc_provider oai_catalog) \<and> length oai_catalog = 21
   \<and> list_all (\<lambda>c. cap_provider (oc_capabilities c) = oc_provider c \<and> oc_provider c \<noteq> Perplexity
        \<and> trim_slashes (oc_default_base_url c) = oc_default_base_url c
        \<and> (starts_with ''https://'' (oc_default_base_url c)
           \<or> starts_with ''http://localhost:'' (oc_default_base_url c))
        \<and> (is_custom (profile_from_name (oc_default_profile c))
            \<longleftrightarrow> oc_provider c \<in> {Ollama, LlamaCpp, LocalTransformers})) oai_catalog"
  by code_simp

lemma oai_all_registered:
  assumes "c \<in> set oai_catalog"
  shows "registry_build (before @ oai_all net to_vec) (oc_provider c) = Some (oai_provider net to_vec c)"
proof -
  have ok: "distinct (map oc_provider oai_catalog)"
    "\<forall>c\<in>set oai_catalog. cap_provider (oc_capabilities c) = oc_provider c"
    using oai_catalog_ok by (simp_all add: list_all_iff)
  have "find (\<lambda>p. cap_provider (pv_capabilities p) = oc_provider c) (rev (map (oai_provider net to_vec) cs)) =
      Some (oai_provider net to_vec c)"
    if "c \<in> set cs" "distinct (map oc_provider cs)"
      "\<forall>c\<in>set cs. cap_provider (oc_capabilities c) = oc_provider c" for cs
    using that
  proof (induction cs)
    case (Cons d ds)
    have cap: "cap_provider (pv_capabilities (oai_provider net to_vec e)) = cap_provider (oc_capabilities e)" for e
      by (simp add: oai_provider_def)
    show ?case
    proof (cases "c = d")
      case True
      then have "find (\<lambda>p. cap_provider (pv_capabilities p) = oc_provider c) (rev (map (oai_provider net to_vec) ds)) = None"
        using Cons.prems by (auto simp: find_None_set cap) (metis image_eqI)
      then show ?thesis using True Cons.prems by (simp add: find_append cap)
    next
      case False
      then show ?thesis using Cons by (simp add: find_append)
    qed
  qed simp
  then show ?thesis
    using assms ok by (simp add: registry_build_lookup oai_all_def find_append)
qed

end
