(* ===== verification/Anthropic.thy ===== *)
theory Anthropic
  imports OaiCompat Floats
begin

text \<open>
  The Anthropic Messages adapter: the wire conversion (\<open>gravity-providers/src/anthropic/wire.rs\<close>) and the
  provider with its buffered and streamed chat (\<open>anthropic/mod.rs\<close>).

  The request body is built as a \<open>Value\<close>, whose serialization cannot fail; its numbers are widened floats.
\<close>

section \<open>Requests\<close>

definition json_f32 :: "u32 \<Rightarrow> json" where
  "json_f32 x = (if f32_finite x then JNumber (Float (f32_to_f64 x)) else JNull)"

fun part_text :: "content_part \<Rightarrow> string option" where
  "part_text (PText s) = Some s"
| "part_text _ = None"

definition text_of_message :: "message \<Rightarrow> string" where
  "text_of_message m =
     (case msg_content m of
        None \<Rightarrow> []
      | Some (CText s) \<Rightarrow> s
      | Some (CParts parts) \<Rightarrow> join_with [CHR 0x0A] (List.map_filter part_text parts))"

definition text_block :: "string \<Rightarrow> json" where
  "text_block s = JObject [(''type'', JString ''text''), (''text'', JString s)]"

definition tool_use_block :: "tool_call \<Rightarrow> json" where
  "tool_use_block tc =
     JObject [(''type'', JString ''tool_use''), (''id'', JString (tc_id tc)), (''name'', JString (tc_name tc)),
              (''input'', JObject (tc_arguments tc))]"

definition assistant_blocks :: "string \<Rightarrow> tool_call list \<Rightarrow> json list" where
  "assistant_blocks s calls = (if s \<noteq> [] then [text_block s] else []) @ map tool_use_block calls"

definition tool_result_turn :: "serde \<Rightarrow> tool_result \<Rightarrow> json" where
  "tool_result_turn sj tr =
     JObject [(''role'', JString ''user''),
              (''content'', JArray [JObject
                 [(''type'', JString ''tool_result''), (''tool_use_id'', JString (tr_tool_call_id tr)),
                  (''content'', JString (content_string sj (tr_content tr))), (''is_error'', JBool (tr_is_error tr))]])]"

definition anthropic_turn :: "serde \<Rightarrow> message \<Rightarrow> json list" where
  "anthropic_turn sj m =
     (case msg_role m of
        RSystem \<Rightarrow> []
      | RTool \<Rightarrow> (case msg_tool_result m of None \<Rightarrow> [] | Some tr \<Rightarrow> [tool_result_turn sj tr])
      | RUser \<Rightarrow> [JObject [(''role'', JString ''user''), (''content'', JString (text_of_message m))]]
      | RAssistant \<Rightarrow>
          (if msg_tool_calls m = []
           then [JObject [(''role'', JString ''assistant''), (''content'', JString (text_of_message m))]]
           else [JObject [(''role'', JString ''assistant''),
                          (''content'', JArray (assistant_blocks (text_of_message m) (msg_tool_calls m)))]]))"

definition build_messages :: "serde \<Rightarrow> message list \<Rightarrow> json list" where
  "build_messages sj messages = concat (map (anthropic_turn sj) messages)"

definition anthropic_tool :: "tool_definition \<Rightarrow> json" where
  "anthropic_tool t =
     JObject [(''name'', JString (td_name t)), (''description'', JString (td_description t)),
              (''input_schema'', JObject (td_input_schema t))]"

definition anthropic_request :: "serde \<Rightarrow> chat_request \<Rightarrow> u32 \<Rightarrow> bool \<Rightarrow> json" where
  "anthropic_request sj req default_max_tokens stream =
     JObject
       ([(''model'', JString (mid_model (rq_model req))),
         (''max_tokens'', json_u32 (case sm_max_tokens (rq_sampling req) of None \<Rightarrow> default_max_tokens | Some n \<Rightarrow> n))]
        @ opt_field ''system'' JString (rq_system_prompt req)
        @ opt_field ''temperature'' json_f32 (sm_temperature (rq_sampling req))
        @ opt_field ''top_p'' json_f32 (sm_top_p (rq_sampling req))
        @ [(''messages'', JArray (build_messages sj (rq_messages req)))]
        @ list_field ''tools'' anthropic_tool (rq_tools req)
        @ [(''stream'', JBool stream)])"

section \<open>Responses\<close>

datatype content_block = BText string | BToolUse string string json | BOther

record anthropic_usage =
  au_input_tokens :: "u32 option"
  au_output_tokens :: "u32 option"

record anthropic_response =
  ar_id :: "string option"
  ar_content :: "content_block list"
  ar_stop_reason :: "string option"
  ar_usage :: "anthropic_usage option"

text \<open>An internally tagged enum: the tag and the rest of the object or array.\<close>

definition tagged :: "json \<Rightarrow> (string \<times> json) option" where
  "tagged v =
     (case v of
        JObject m \<Rightarrow> map_option (\<lambda>t. (t, JObject (filter (\<lambda>e. fst e \<noteq> ''type'') m))) (jget_str v ''type'')
      | JArray (JString t # xs) \<Rightarrow> Some (t, JArray xs)
      | _ \<Rightarrow> None)"

definition de_block :: "json \<Rightarrow> content_block option" where
  "de_block v =
     do { (t, body) \<leftarrow> tagged v;
          if t = ''text'' then
            do { get \<leftarrow> struct_fields [''text''] body;
                 tv \<leftarrow> get ''text''; s \<leftarrow> as_str tv; Some (BText s) }
          else if t = ''tool_use'' then
            do { get \<leftarrow> struct_fields [''id'', ''name'', ''input''] body;
                 iv \<leftarrow> get ''id''; i \<leftarrow> as_str iv;
                 nv \<leftarrow> get ''name''; name \<leftarrow> as_str nv;
                 input \<leftarrow> get ''input''; Some (BToolUse i name input) }
          else Some BOther }"

definition de_anthropic_usage :: "json \<Rightarrow> anthropic_usage option" where
  "de_anthropic_usage v =
     do { get \<leftarrow> struct_fields [''input_tokens'', ''output_tokens''] v;
          i \<leftarrow> de_opt_u32 (get ''input_tokens'');
          o' \<leftarrow> de_opt_u32 (get ''output_tokens'');
          Some \<lparr>au_input_tokens = i, au_output_tokens = o'\<rparr> }"

definition de_anthropic_response :: "json \<Rightarrow> anthropic_response option" where
  "de_anthropic_response v =
     do { get \<leftarrow> struct_fields [''id'', ''content'', ''stop_reason'', ''usage''] v;
          i \<leftarrow> de_opt_str (get ''id'');
          c \<leftarrow> de_default [] (de_list de_block) (get ''content'');
          sr \<leftarrow> de_opt_str (get ''stop_reason'');
          u \<leftarrow> de_default None (de_option de_anthropic_usage) (get ''usage'');
          Some \<lparr>ar_id = i, ar_content = c, ar_stop_reason = sr, ar_usage = u\<rparr> }"

fun block_text :: "content_block \<Rightarrow> string" where
  "block_text (BText s) = s"
| "block_text _ = []"

fun block_call :: "content_block \<Rightarrow> tool_call option" where
  "block_call (BToolUse i name input) =
     Some \<lparr>tc_id = i, tc_name = name, tc_arguments = (case as_object input of Some m \<Rightarrow> m | None \<Rightarrow> [])\<rparr>"
| "block_call _ = None"

definition to_chat_response :: "string \<Rightarrow> anthropic_response \<Rightarrow> chat_response" where
  "to_chat_response model_full resp =
     \<lparr>rs_model = model_full,
      rs_message = reply_message (concat (map block_text (ar_content resp)))
                     (List.map_filter block_call (ar_content resp)),
      rs_usage = (case ar_usage resp of
                    None \<Rightarrow> usage_default
                  | Some u \<Rightarrow> usage_of (au_input_tokens u) (au_output_tokens u) None),
      rs_tool_calls_executed = [], rs_provider_response_id = ar_id resp,
      rs_finish_reason = ar_stop_reason resp, rs_metadata = metadata_new\<rparr>"

section \<open>The provider\<close>

definition anthropic_caps :: provider_capabilities where
  "anthropic_caps = standard_caps AnthropicApi ToolNative"

definition anthropic_base_url :: "chat_ctx \<Rightarrow> string" where
  "anthropic_base_url cx =
     (let b = tp_base_url (pa_transport (cx_account cx))
      in if b = [] then ''https://api.anthropic.com/v1'' else b)"

definition anthropic_http_request :: "serde \<Rightarrow> chat_ctx \<Rightarrow> bool \<Rightarrow> http_request" where
  "anthropic_http_request sj cx stream =
     with_body (str_bytes (to_compact sj (anthropic_request sj (cx_request cx) 4096 stream)))
       (with_header ''anthropic-version'' ''2023-06-01''
         (with_header ''x-api-key'' (cx_secret cx)
           (with_header ''content-type'' ''application/json''
             (with_proxy (ctx_proxy cx)
               (with_timeout_ms (ctx_timeout_ms cx)
                 (with_profile (profile_from_name (impersonate_or cx ''chrome''))
                   (request_post (trim_slashes (anthropic_base_url cx) @ ''/messages''))))))))"

definition anthropic_error :: "u16 \<Rightarrow> string \<Rightarrow> error" where
  "anthropic_error status body = status_error AnthropicApi ''anthropic_request_failed'' status body"

definition anthropic_chat :: "'w net \<Rightarrow> chat_ctx \<Rightarrow> 'w \<Rightarrow> (error + chat_response) \<times> 'w" where
  "anthropic_chat net cx w =
     (case nt_send net (anthropic_http_request (nt_serde net) cx False) w of
        (Inl e, w') \<Rightarrow> (Inl e, w')
      | (Inr resp, w') \<Rightarrow>
          (if \<not> is_success resp then Inl (anthropic_error (rp_status resp) (response_text_lossy resp))
           else (case Option.bind (value_of_bytes (nt_serde net) (rp_body resp)) de_anthropic_response of
                   None \<Rightarrow> Inl (Network (''invalid Anthropic response: '' @ nt_bad_json net (rp_body resp)))
                 | Some parsed \<Rightarrow> Inr (to_chat_response (model_id_full_name (rq_model (cx_request cx))) parsed)), w'))"

record anthropic_progress =
  ap_text :: string
  ap_usage :: usage
  ap_stop :: "string option"
  ap_resp_id :: "string option"
  ap_pending :: "(string \<times> string \<times> string) option"
  ap_calls :: "tool_call list"

definition anthropic_progress_new :: anthropic_progress where
  "anthropic_progress_new =
     \<lparr>ap_text = [], ap_usage = usage_default, ap_stop = None, ap_resp_id = None, ap_pending = None,
      ap_calls = []\<rparr>"

definition buffer_arguments :: "serde \<Rightarrow> string \<Rightarrow> jmap" where
  "buffer_arguments sj buf = (case Option.bind (from_text sj buf) as_object of Some m \<Rightarrow> m | None \<Rightarrow> [])"

definition on_message_start :: "json \<Rightarrow> anthropic_progress \<Rightarrow> anthropic_progress" where
  "on_message_start v st =
     (case jget v ''message'' of
        None \<Rightarrow> st
      | Some msg \<Rightarrow>
          (let st1 = st\<lparr>ap_resp_id := jget_str msg ''id''\<rparr>
           in (case Option.bind (Option.bind (jget msg ''usage'') (\<lambda>u. jget u ''input_tokens'')) as_u64 of
                 None \<Rightarrow> st1
               | Some it \<Rightarrow> st1\<lparr>ap_usage := (ap_usage st1)\<lparr>us_input_tokens := Some (ucast it)\<rparr>\<rparr>)))"

definition on_block_start :: "json \<Rightarrow> anthropic_progress \<Rightarrow> anthropic_progress" where
  "on_block_start v st =
     (case jget v ''content_block'' of
        None \<Rightarrow> st
      | Some b \<Rightarrow>
          if jget_str b ''type'' = Some ''tool_use''
          then st\<lparr>ap_pending := Some (str_default (jget_str b ''id''), str_default (jget_str b ''name''), [])\<rparr>
          else st)"

definition on_block_delta :: "json \<Rightarrow> anthropic_progress \<Rightarrow> string option \<times> anthropic_progress" where
  "on_block_delta v st =
     (case jget v ''delta'' of
        None \<Rightarrow> (None, st)
      | Some d \<Rightarrow>
          if jget_str d ''type'' = Some ''text_delta'' then
            (case jget_str d ''text'' of
               None \<Rightarrow> (None, st)
             | Some t \<Rightarrow> (Some t, st\<lparr>ap_text := ap_text st @ t\<rparr>))
          else if jget_str d ''type'' = Some ''input_json_delta'' then
            (case (ap_pending st, jget_str d ''partial_json'') of
               (Some (i, name, buf), Some frag) \<Rightarrow> (None, st\<lparr>ap_pending := Some (i, name, buf @ frag)\<rparr>)
             | _ \<Rightarrow> (None, st))
          else (None, st))"

definition on_block_stop :: "serde \<Rightarrow> anthropic_progress \<Rightarrow> anthropic_progress" where
  "on_block_stop sj st =
     (case ap_pending st of
        None \<Rightarrow> st
      | Some (i, name, buf) \<Rightarrow>
          st\<lparr>ap_pending := None,
             ap_calls := ap_calls st @ [\<lparr>tc_id = i, tc_name = name, tc_arguments = buffer_arguments sj buf\<rparr>]\<rparr>)"

definition on_message_delta :: "json \<Rightarrow> anthropic_progress \<Rightarrow> anthropic_progress" where
  "on_message_delta v st =
     (let st1 = (case Option.bind (jget v ''delta'') (\<lambda>d. jget_str d ''stop_reason'') of
                   None \<Rightarrow> st | Some sr \<Rightarrow> st\<lparr>ap_stop := Some sr\<rparr>)
      in (case Option.bind (Option.bind (jget v ''usage'') (\<lambda>u. jget u ''output_tokens'')) as_u64 of
            None \<Rightarrow> st1
          | Some ot \<Rightarrow> st1\<lparr>ap_usage := (ap_usage st1)\<lparr>us_output_tokens := Some (ucast ot)\<rparr>\<rparr>))"

definition stream_error_of :: "json \<Rightarrow> error" where
  "stream_error_of v =
     ProviderErr (provider_error_new AnthropicApi OtherKind ''anthropic_stream_error''
       (case Option.bind (jget v ''error'') (\<lambda>e. jget_str e ''message'') of
          Some m \<Rightarrow> m | None \<Rightarrow> ''anthropic stream error''))"

definition anthropic_event ::
    "serde \<Rightarrow> json \<Rightarrow> anthropic_progress \<Rightarrow> error + string option \<times> anthropic_progress" where
  "anthropic_event sj v st =
     (let ty = jget_str v ''type''
      in if ty = Some ''message_start'' then Inr (None, on_message_start v st)
         else if ty = Some ''content_block_start'' then Inr (None, on_block_start v st)
         else if ty = Some ''content_block_delta'' then Inr (on_block_delta v st)
         else if ty = Some ''content_block_stop'' then Inr (None, on_block_stop sj st)
         else if ty = Some ''message_delta'' then Inr (None, on_message_delta v st)
         else if ty = Some ''error'' then Inl (stream_error_of v)
         else Inr (None, st))"

definition anthropic_done :: "string \<Rightarrow> anthropic_progress \<Rightarrow> chat_response" where
  "anthropic_done model_full st =
     \<lparr>rs_model = model_full,
      rs_message =
        (if ap_calls st = [] then message_assistant (ap_text st)
         else message_assistant_with_tools (if ap_text st = [] then None else Some (CText (ap_text st))) (ap_calls st)),
      rs_usage = ap_usage st, rs_tool_calls_executed = [], rs_provider_response_id = ap_resp_id st,
      rs_finish_reason = ap_stop st, rs_metadata = metadata_new\<rparr>"

fun anthropic_stream_loop ::
    "serde \<Rightarrow> string \<Rightarrow> anthropic_progress \<Rightarrow> (error + sse_event) list \<Rightarrow> event_stream" where
  "anthropic_stream_loop sj model st [] = [Inr (Done (anthropic_done model st))]"
| "anthropic_stream_loop sj model st (Inl e # _) = [Inl e]"
| "anthropic_stream_loop sj model st (Inr ev # es) =
     (case from_text sj (sse_data ev) of
        None \<Rightarrow> anthropic_stream_loop sj model st es
      | Some v \<Rightarrow>
          (case anthropic_event sj v st of
             Inl e \<Rightarrow> [Inl e]
           | Inr (d, st') \<Rightarrow>
               (case d of None \<Rightarrow> [] | Some t \<Rightarrow> [Inr (TextDelta (str_bytes t))])
               @ anthropic_stream_loop sj model st' es))"

definition anthropic_chat_stream :: "'w net \<Rightarrow> chat_ctx \<Rightarrow> 'w \<Rightarrow> (error + event_stream) \<times> 'w" where
  "anthropic_chat_stream net cx w =
     (case nt_stream net (anthropic_http_request (nt_serde net) cx True) w of
        (Inl e, w') \<Rightarrow> (Inl e, w')
      | (Inr (status, hs, body), w') \<Rightarrow>
          (if status \<noteq> 200 then (Inl (anthropic_error status ''stream failed''), w')
           else (Inr (anthropic_stream_loop (nt_serde net) (model_id_full_name (rq_model (cx_request cx)))
                        anthropic_progress_new (events body)), w')))"

definition anthropic_models :: "string list" where
  "anthropic_models = [''claude-opus-4-1'', ''claude-sonnet-4-5'', ''claude-3-5-haiku-latest'']"

definition anthropic_provider :: "'w net \<Rightarrow> 'w provider" where
  "anthropic_provider net =
     \<lparr>pv_capabilities = anthropic_caps, pv_list_models = anthropic_models,
      pv_discover_models = default_discover_models anthropic_models,
      pv_normalize_system_prompt = default_normalize_system_prompt,
      pv_open_checkpoint = default_open_checkpoint,
      pv_chat = anthropic_chat net, pv_chat_stream = anthropic_chat_stream net,
      pv_authenticator = None\<rparr>"

section \<open>What is written is read back\<close>

definition anthropic_counts :: "u32 \<Rightarrow> u32 \<Rightarrow> json" where
  "anthropic_counts i o' = JObject [(''input_tokens'', json_u32 i), (''output_tokens'', json_u32 o')]"

definition anthropic_reply :: "string \<Rightarrow> json list \<Rightarrow> string \<Rightarrow> u32 \<Rightarrow> u32 \<Rightarrow> json" where
  "anthropic_reply i blocks sr it ot =
     JObject [(''id'', JString i), (''type'', JString ''message''), (''role'', JString ''assistant''),
              (''content'', JArray blocks), (''stop_reason'', JString sr), (''usage'', anthropic_counts it ot)]"

lemma de_text_block [simp]: "de_block (text_block s) = Some (BText s)"
  by (simp add: de_block_def tagged_def text_block_def jget_str_def)

lemma de_tool_use_block [simp]:
  "de_block (tool_use_block tc) = Some (BToolUse (tc_id tc) (tc_name tc) (JObject (tc_arguments tc)))"
  by (simp add: de_block_def tagged_def tool_use_block_def jget_str_def)

definition blocks_of :: "string \<Rightarrow> tool_call list \<Rightarrow> content_block list" where
  "blocks_of s calls =
     (if s \<noteq> [] then [BText s] else [])
     @ map (\<lambda>tc. BToolUse (tc_id tc) (tc_name tc) (JObject (tc_arguments tc))) calls"

lemma de_assistant_blocks: "those (map de_block (assistant_blocks s calls)) = Some (blocks_of s calls)"
proof -
  have "those (map de_block (map tool_use_block calls)) =
      Some (map (\<lambda>tc. BToolUse (tc_id tc) (tc_name tc) (JObject (tc_arguments tc))) calls)"
    by (simp add: comp_def)
  then show ?thesis by (simp add: assistant_blocks_def blocks_of_def)
qed

lemma blocks_of_message:
  "concat (map block_text (blocks_of s calls)) = s" "List.map_filter block_call (blocks_of s calls) = calls"
proof -
  have "List.map_filter block_call (map (\<lambda>tc. BToolUse (tc_id tc) (tc_name tc) (JObject (tc_arguments tc))) calls) = calls"
    by (induction calls) (simp_all add: List.map_filter_simps)
  then show "List.map_filter block_call (blocks_of s calls) = calls"
    by (simp add: blocks_of_def List.map_filter_simps)
  have "concat (map block_text (map (\<lambda>tc. BToolUse (tc_id tc) (tc_name tc) (JObject (tc_arguments tc))) calls)) = []"
    by (induction calls) simp_all
  then show "concat (map block_text (blocks_of s calls)) = s" by (simp add: blocks_of_def del: map_map)
qed

text \<open>
  A turn of the Anthropic dialogue is understood.  For every text and tool calls, the content blocks
  in which the transcript repeats an assistant turn are read back from a reply as exactly that turn,
  with its id, stop reason and counters; and the tool results of a transcript become, one for one and in
  order, user turns that name their calls.
\<close>

theorem anthropic_turn_roundtrip:
  "map_option (to_chat_response model_full) (de_anthropic_response (anthropic_reply i (assistant_blocks s calls) sr it ot)) =
     Some \<lparr>rs_model = model_full, rs_message = reply_message s calls,
           rs_usage = usage_of (Some it) (Some ot) None, rs_tool_calls_executed = [],
           rs_provider_response_id = Some i, rs_finish_reason = Some sr, rs_metadata = metadata_new\<rparr>
   \<and> build_messages sj (reply_message s calls # map message_tool_result results) =
       JObject [(''role'', JString ''assistant''),
                (''content'', if calls = [] then JString s else JArray (assistant_blocks s calls))]
       # map (tool_result_turn sj) results"
proof -
  let ?u = "\<lparr>au_input_tokens = Some it, au_output_tokens = Some ot\<rparr>"
  have u: "de_anthropic_usage (anthropic_counts it ot) = Some ?u"
    by (simp add: de_anthropic_usage_def anthropic_counts_def)
  have n: "\<not> is_null (anthropic_counts it ot)" by (simp add: anthropic_counts_def)
  have "de_anthropic_response (anthropic_reply i (assistant_blocks s calls) sr it ot) =
      Some \<lparr>ar_id = Some i, ar_content = blocks_of s calls, ar_stop_reason = Some sr, ar_usage = Some ?u\<rparr>"
    using u n de_assistant_blocks [of s calls]
    by (simp add: de_anthropic_response_def anthropic_reply_def)
      (simp add: de_default_def de_list_def de_option_def)
  moreover have "build_messages sj (map message_tool_result results) = map (tool_result_turn sj) results"
    by (induction results) (simp_all add: build_messages_def anthropic_turn_def message_defs)
  moreover have "anthropic_turn sj (reply_message s calls) =
      [JObject [(''role'', JString ''assistant''),
                (''content'', if calls = [] then JString s else JArray (assistant_blocks s calls))]]"
    by (simp add: anthropic_turn_def reply_message_def message_defs text_of_message_def)
  ultimately show ?thesis
    by (simp add: to_chat_response_def blocks_of_message build_messages_def)
qed

text \<open>Only \<open>system_prompt\<close> is hoisted: a message with the role \<open>system\<close> reaches no part of the request.\<close>

lemma system_messages_dropped:
  "anthropic_request sj (req\<lparr>rq_messages := ms @ message_system s # ms'\<rparr>) n stream =
   anthropic_request sj (req\<lparr>rq_messages := ms @ ms'\<rparr>) n stream"
  by (simp add: anthropic_request_def build_messages_def anthropic_turn_def message_defs)

section \<open>A stream, from bytes to events\<close>

datatype anthropic_part = APText "string list" | APTool string string "string list"

definition typed :: "string \<Rightarrow> jmap \<Rightarrow> json" where
  "typed t m = JObject ((''type'', JString t) # m)"

definition text_delta :: "string \<Rightarrow> json" where
  "text_delta t = typed ''content_block_delta'' [(''delta'', typed ''text_delta'' [(''text'', JString t)])]"

definition json_delta :: "string \<Rightarrow> json" where
  "json_delta t = typed ''content_block_delta'' [(''delta'', typed ''input_json_delta'' [(''partial_json'', JString t)])]"

fun part_values :: "anthropic_part \<Rightarrow> json list" where
  "part_values (APText fs) =
     typed ''content_block_start'' [(''content_block'', text_block [])] # map text_delta fs
     @ [typed ''content_block_stop'' []]"
| "part_values (APTool i name fs) =
     typed ''content_block_start'' [(''content_block'', tool_use_block \<lparr>tc_id = i, tc_name = name, tc_arguments = []\<rparr>)]
     # map json_delta fs @ [typed ''content_block_stop'' []]"

definition stream_values :: "string \<Rightarrow> u32 \<Rightarrow> anthropic_part list \<Rightarrow> string \<Rightarrow> u32 \<Rightarrow> json list" where
  "stream_values i it parts sr ot =
     [typed ''message_start'' [(''message'', JObject [(''id'', JString i), (''usage'', JObject [(''input_tokens'', json_u32 it)])])],
      typed ''ping'' []]
     @ concat (map part_values parts)
     @ [typed ''message_delta'' [(''delta'', JObject [(''stop_reason'', JString sr)]),
                               (''usage'', JObject [(''output_tokens'', json_u32 ot)])],
        typed ''message_stop'' []]"

fun part_fragments :: "anthropic_part \<Rightarrow> string list" where
  "part_fragments (APText fs) = fs"
| "part_fragments (APTool _ _ _) = []"

fun part_call :: "serde \<Rightarrow> anthropic_part \<Rightarrow> tool_call option" where
  "part_call sj (APText _) = None"
| "part_call sj (APTool i name fs) =
     Some \<lparr>tc_id = i, tc_name = name, tc_arguments = buffer_arguments sj (concat fs)\<rparr>"

text \<open>The loop on the values of the events.\<close>

fun values_loop :: "serde \<Rightarrow> string \<Rightarrow> anthropic_progress \<Rightarrow> json list \<Rightarrow> event_stream" where
  "values_loop sj model st [] = [Inr (Done (anthropic_done model st))]"
| "values_loop sj model st (v # vs) =
     (case anthropic_event sj v st of
        Inl e \<Rightarrow> [Inl e]
      | Inr (d, st') \<Rightarrow> (case d of None \<Rightarrow> [] | Some t \<Rightarrow> [Inr (TextDelta (str_bytes t))]) @ values_loop sj model st' vs)"

lemma stream_loop_values:
  "list_all2 (\<lambda>v ev. from_text sj (sse_data ev) = Some v) vs evs \<Longrightarrow>
   anthropic_stream_loop sj model st (map Inr evs) = values_loop sj model st vs"
  by (induction arbitrary: st rule: list_all2_induct) (simp_all split: sum.split prod.split)

lemma event_simps:
  "anthropic_event sj (text_delta t) st = Inr (Some t, st\<lparr>ap_text := ap_text st @ t\<rparr>)"
  "ap_pending st = Some (i, name, buf) \<Longrightarrow>
   anthropic_event sj (json_delta t) st = Inr (None, st\<lparr>ap_pending := Some (i, name, buf @ t)\<rparr>)"
  "anthropic_event sj (typed ''content_block_stop'' m) st = Inr (None, on_block_stop sj st)"
  "anthropic_event sj (typed ''content_block_start'' [(''content_block'', text_block s)]) st = Inr (None, st)"
  "anthropic_event sj (typed ''content_block_start'' [(''content_block'', tool_use_block tc)]) st =
     Inr (None, st\<lparr>ap_pending := Some (tc_id tc, tc_name tc, [])\<rparr>)"
  "anthropic_event sj (typed ''ping'' m) st = Inr (None, st)"
  "anthropic_event sj (typed ''message_stop'' m) st = Inr (None, st)"
  by (simp_all add: anthropic_event_def typed_def jget_str_def text_delta_def json_delta_def
      on_block_delta_def on_block_start_def text_block_def tool_use_block_def str_default_def)

lemma text_fragments_loop:
  "values_loop sj model st (map text_delta fs @ vs) =
     map (\<lambda>t. Inr (TextDelta (str_bytes t))) fs
     @ values_loop sj model (st\<lparr>ap_text := ap_text st @ concat fs\<rparr>) vs"
  by (induction fs arbitrary: st) (simp_all add: event_simps)

lemma json_fragments_loop:
  "ap_pending st = Some (i, name, buf) \<Longrightarrow>
   values_loop sj model st (map json_delta fs @ vs) =
     values_loop sj model (st\<lparr>ap_pending := Some (i, name, buf @ concat fs)\<rparr>) vs"
proof (induction fs arbitrary: st buf)
  case Nil
  then show ?case by (cases st) simp
qed (simp add: event_simps)

definition after_parts :: "serde \<Rightarrow> anthropic_part list \<Rightarrow> anthropic_progress \<Rightarrow> anthropic_progress" where
  "after_parts sj parts st =
     st\<lparr>ap_text := ap_text st @ concat (concat (map part_fragments parts)),
        ap_calls := ap_calls st @ List.map_filter (part_call sj) parts\<rparr>"

lemma parts_loop:
  "ap_pending st = None \<Longrightarrow>
   values_loop sj model st (concat (map part_values parts) @ vs) =
     map (\<lambda>t. Inr (TextDelta (str_bytes t))) (concat (map part_fragments parts))
     @ values_loop sj model (after_parts sj parts st) vs"
proof (induction parts arbitrary: st)
  case Nil
  then show ?case by (simp add: after_parts_def List.map_filter_simps)
next
  case (Cons p ps)
  show ?case
  proof (cases p)
    case (APText fs)
    let ?st = "st\<lparr>ap_text := ap_text st @ concat fs\<rparr>"
    have "on_block_stop sj ?st = ?st" using Cons.prems by (simp add: on_block_stop_def)
    moreover have "after_parts sj ps ?st = after_parts sj (p # ps) st"
      by (simp add: after_parts_def APText List.map_filter_simps)
    ultimately show ?thesis
      using Cons.IH [of ?st] Cons.prems APText by (simp add: event_simps text_fragments_loop)
  next
    case (APTool i name fs)
    let ?tc = "\<lparr>tc_id = i, tc_name = name, tc_arguments = buffer_arguments sj (concat fs)\<rparr>"
    let ?st = "st\<lparr>ap_calls := ap_calls st @ [?tc]\<rparr>"
    have stop: "on_block_stop sj (st\<lparr>ap_pending := Some (i, name, concat fs)\<rparr>) = ?st"
      using Cons.prems by (cases st) (simp add: on_block_stop_def)
    have "after_parts sj ps ?st = after_parts sj (p # ps) st"
      by (simp add: after_parts_def APTool List.map_filter_simps)
    then show ?thesis
      using Cons.IH [of ?st] Cons.prems APTool json_fragments_loop [of "st\<lparr>ap_pending := Some (i, name, [])\<rparr>" i name "[]"] stop
      by (simp add: event_simps)
  qed
qed

text \<open>
  C20.  An Anthropic stream, from the bytes of the connection to the events.  For a message of text and
  tool-use blocks in any order, each streamed in any fragments, sent as server-sent events of any names
  and cut into network reads anywhere, the adapter yields every text fragment as a delta, in order,
  and ends with the whole text, each tool call with the arguments its joined fragments spell, the
  message id, the stop reason and both counters.
\<close>

theorem anthropic_stream_assembled:
  assumes "nt_stream net (anthropic_http_request (nt_serde net) cx True) w = (Inr (200, hs, map Inr reads), w')"
    and "list_all2 (\<lambda>v ev. from_text (nt_serde net) (sse_data ev) = Some v \<and> event_ok ev)
           (stream_values i it parts sr ot) evs"
    and "concat reads = concat (map (\<lambda>ev. wire_lines (event_lines ev)) evs)"
  shows "anthropic_chat_stream net cx w =
     (Inr (map (\<lambda>t. Inr (TextDelta (str_bytes t))) (concat (map part_fragments parts))
           @ [Inr (Done (anthropic_done (model_id_full_name (rq_model (cx_request cx)))
                \<lparr>ap_text = concat (concat (map part_fragments parts)),
                 ap_usage = usage_of (Some it) (Some ot) None, ap_stop = Some sr, ap_resp_id = Some i,
                 ap_pending = None, ap_calls = List.map_filter (part_call (nt_serde net)) parts\<rparr>))]), w')"
proof -
  let ?sj = "nt_serde net" and ?model = "model_id_full_name (rq_model (cx_request cx))"
  let ?start = "\<lparr>ap_text = [], ap_usage = usage_of (Some it) None None, ap_stop = None, ap_resp_id = Some i,
      ap_pending = None, ap_calls = []\<rparr>"
  have tokens: "(ucast (ucast n :: u64) :: u32) = n" for n by (simp add: ucast_up_ucast_id is_up)
  have start: "anthropic_event ?sj (typed ''message_start'' [(''message'',
        JObject [(''id'', JString i), (''usage'', JObject [(''input_tokens'', json_u32 it)])])]) anthropic_progress_new =
      Inr (None, ?start)"
    by (simp add: anthropic_event_def typed_def jget_str_def on_message_start_def Let_def json_u32_def
        tokens anthropic_progress_new_def usage_default_def usage_of_def)
  have delta: "anthropic_event ?sj (typed ''message_delta'' [(''delta'', JObject [(''stop_reason'', JString sr)]),
        (''usage'', JObject [(''output_tokens'', json_u32 ot)])]) st =
      Inr (None, st\<lparr>ap_stop := Some sr, ap_usage := (ap_usage st)\<lparr>us_output_tokens := Some ot\<rparr>\<rparr>)" for st
    by (simp add: anthropic_event_def typed_def jget_str_def on_message_delta_def Let_def json_u32_def tokens)
  have ok: "\<forall>ev\<in>set evs. event_ok ev" and vs: "list_all2 (\<lambda>v ev. from_text ?sj (sse_data ev) = Some v) (stream_values i it parts sr ot) evs"
    using assms(2) by (auto simp: list_all2_conv_all_nth in_set_conv_nth)
  have "events (map Inr reads) = map Inr evs" using ok assms(3) by (rule events_wire)
  moreover have "anthropic_stream_loop ?sj ?model anthropic_progress_new (map Inr evs) =
      values_loop ?sj ?model anthropic_progress_new (stream_values i it parts sr ot)"
    using vs by (rule stream_loop_values)
  ultimately show ?thesis
    using assms(1) parts_loop [of ?start ?sj ?model parts]
    by (simp add: anthropic_chat_stream_def stream_values_def start event_simps delta after_parts_def usage_of_def)
qed

definition sample_values :: "json list" where
  "sample_values = stream_values ''m1'' 3 [APText [''a'', ''b''], APTool ''t'' ''f'' [''{'', ''}'']] ''end'' 4"

definition anthropic_net :: "unit net" where
  "anthropic_net =
     \<lparr>nt_send = \<lambda>_ w. (Inl (Network ''down''), w),
      nt_stream = \<lambda>_ w.
        (Inr (200, [], map Inr (map (\<lambda>n. wire_lines (event_lines (data_event (dec_of n)))) [0..<length sample_values])), w),
      nt_serde =
        \<lparr>to_compact = \<lambda>_. [], to_pretty = \<lambda>_. [],
         from_text = \<lambda>t. if t = ''{}'' then Some (JObject []) else Some (sample_values ! dec_value t),
         stream_next = \<lambda>_. None, number_f64 = \<lambda>_. None\<rparr>,
      nt_bad_json = \<lambda>_. []\<rparr>"

lemma anthropic_stream_assembled_witness:
  "\<forall>cx. \<exists>resp. anthropic_chat_stream anthropic_net cx () =
     (Inr [Inr (TextDelta (str_bytes ''a'')), Inr (TextDelta (str_bytes ''b'')), Inr (Done resp)], ())
   \<and> rs_message resp = message_assistant_with_tools (Some (CText ''ab''))
        [\<lparr>tc_id = ''t'', tc_name = ''f'', tc_arguments = []\<rparr>]"
proof
  fix cx
  let ?evs = "map (\<lambda>n. data_event (dec_of n)) [0..<12]"
  have len: "length sample_values = 12" by (simp add: sample_values_def stream_values_def)
  have "list_all (\<lambda>n. event_ok (data_event (dec_of n)) \<and> dec_of n \<noteq> ''{}'') [0..<12]" by code_simp
  then have ok: "event_ok (data_event (dec_of n))" "dec_of n \<noteq> ''{}''" if "n < 12" for n
    using that by (simp_all add: list_all_iff)
  have w: "list_all2 (\<lambda>v ev. from_text (nt_serde anthropic_net) (sse_data ev) = Some v \<and> event_ok ev) sample_values ?evs"
    unfolding list_all2_conv_all_nth
    using ok by (auto simp: len anthropic_net_def data_event_def dec_value_dec_of)
  have "nt_stream anthropic_net (anthropic_http_request (nt_serde anthropic_net) cx True) () =
      (Inr (200, [], map Inr (map (\<lambda>ev. wire_lines (event_lines ev)) ?evs)), ())"
    by (simp add: anthropic_net_def comp_def len)
  from anthropic_stream_assembled [OF this w [unfolded sample_values_def] refl]
  show "\<exists>resp. anthropic_chat_stream anthropic_net cx () =
     (Inr [Inr (TextDelta (str_bytes ''a'')), Inr (TextDelta (str_bytes ''b'')), Inr (Done resp)], ())
   \<and> rs_message resp = message_assistant_with_tools (Some (CText ''ab''))
        [\<lparr>tc_id = ''t'', tc_name = ''f'', tc_arguments = []\<rparr>]"
    by (simp add: anthropic_done_def List.map_filter_simps buffer_arguments_def anthropic_net_def)
qed

end
