(* ===== verification/Pow.thy ===== *)
theory Pow
  imports WebEnv
begin

text \<open>
  The Sentinel proof of work of the ChatGPT web adapter (\<open>gravity-providers/src/chatgpt/pow.rs\<close>).

  SHA3-512 and base64 are crates: parameters of the model.  \<open>None\<close> is the panic of slicing a configuration
  that is too short.
\<close>

record pow_lib =
  pw_sha3_512 :: "u8 list \<Rightarrow> u8 list"
  pw_base64 :: "u8 list \<Rightarrow> string"

definition max_iters :: nat where
  "max_iters = 500000"

definition fallback_prefix :: string where
  "fallback_prefix = ''wQ8Lk5FbGpA2NcR9dShT6gYjU7VxZ4D''"

text \<open>The JSON of three parts of the configuration, with the brackets cut where a counter goes between.\<close>

definition static_segments :: "serde \<Rightarrow> json list \<Rightarrow> (string \<times> string \<times> string) option" where
  "static_segments sj config =
     (if length config < 10 then None
      else
        (let s1 = to_compact sj (JArray (take 3 config));
             s2 = to_compact sj (JArray (take 5 (drop 4 config)));
             s3 = to_compact sj (JArray (drop 10 config))
         in Some (butlast s1 @ '','', '','' @ tl (butlast s2) @ '','', '','' @ tl s3)))"

definition hex_digit :: "u8 \<Rightarrow> u8 option" where
  "hex_digit b =
     (if 0x30 \<le> b \<and> b \<le> 0x39 then Some (b - 0x30)
      else if 0x61 \<le> b \<and> b \<le> 0x66 then Some (b - 0x57)
      else if 0x41 \<le> b \<and> b \<le> 0x46 then Some (b - 0x37)
      else None)"

fun hex_decode_bytes :: "u8 list \<Rightarrow> u8 list" where
  "hex_decode_bytes (a # b # bs) =
     (case (hex_digit a, hex_digit b) of
        (Some h, Some l) \<Rightarrow> (push_bit 4 h OR l) # hex_decode_bytes bs
      | _ \<Rightarrow> [])"
| "hex_decode_bytes _ = []"

definition hex_decode :: "string \<Rightarrow> u8 list" where
  "hex_decode s = hex_decode_bytes (str_bytes s)"

text \<open>The order of byte slices: lexicographic, a prefix first.\<close>

fun bytes_le :: "u8 list \<Rightarrow> u8 list \<Rightarrow> bool" where
  "bytes_le [] _ = True"
| "bytes_le (_ # _) [] = False"
| "bytes_le (a # as) (b # bs) \<longleftrightarrow> a < b \<or> a = b \<and> bytes_le as bs"

definition pow_payload :: "string \<times> string \<times> string \<Rightarrow> nat \<Rightarrow> string" where
  "pow_payload segments i =
     (case segments of (static_1, static_2, static_3) \<Rightarrow>
        static_1 @ dec_of i @ static_2 @ dec_of (i div 2) @ static_3)"

definition pow_accepts :: "pow_lib \<Rightarrow> string \<Rightarrow> string \<Rightarrow> string \<Rightarrow> bool" where
  "pow_accepts pw seed diff encoded \<longleftrightarrow>
     (let digest = pw_sha3_512 pw (str_bytes seed @ str_bytes encoded)
      in bytes_le (take (min (length diff) (length digest)) digest) (hex_decode diff))"

text \<open>The attempts from \<open>i\<close> on, at most \<open>n\<close> of them.\<close>

primrec pow_loop ::
    "nat \<Rightarrow> pow_lib \<Rightarrow> string \<Rightarrow> string \<Rightarrow> string \<times> string \<times> string \<Rightarrow> nat \<Rightarrow> string option" where
  "pow_loop 0 pw seed diff segments i = None"
| "pow_loop (Suc n) pw seed diff segments i =
     (let encoded = pw_base64 pw (str_bytes (pow_payload segments i))
      in if pow_accepts pw seed diff encoded then Some encoded
         else pow_loop n pw seed diff segments (Suc i))"

definition pow_fallback :: "pow_lib \<Rightarrow> string \<Rightarrow> string" where
  "pow_fallback pw seed = fallback_prefix @ pw_base64 pw (str_bytes ([CHR 0x22] @ seed @ [CHR 0x22]))"

definition generate_answer ::
    "serde \<Rightarrow> pow_lib \<Rightarrow> string \<Rightarrow> string \<Rightarrow> json list \<Rightarrow> (string \<times> bool) option" where
  "generate_answer sj pw seed diff config =
     map_option (\<lambda>segments.
        case pow_loop max_iters pw seed diff segments 0 of
          Some encoded \<Rightarrow> (encoded, True)
        | None \<Rightarrow> (pow_fallback pw seed, False)) (static_segments sj config)"

definition build_proof_token ::
    "serde \<Rightarrow> pow_lib \<Rightarrow> string \<Rightarrow> string \<Rightarrow> json list \<Rightarrow> (string \<times> bool) option" where
  "build_proof_token sj pw seed difficulty config =
     map_option (\<lambda>(answer, solved). (''gAAAAAB'' @ answer, solved)) (generate_answer sj pw seed difficulty config)"

definition build_requirements_token :: "serde \<Rightarrow> pow_lib \<Rightarrow> string \<Rightarrow> json list \<Rightarrow> string option" where
  "build_requirements_token sj pw seed config =
     map_option (\<lambda>(answer, _). ''gAAAAAC'' @ answer) (generate_answer sj pw seed ''0fffff'' config)"

section \<open>What is signed and when\<close>

text \<open>
  The laws of the printer that the slicing relies on: an array is its printed items between brackets,
  with commas, and an integer is its decimal digits.
\<close>

definition compact_laws :: "serde \<Rightarrow> bool" where
  "compact_laws sj \<longleftrightarrow>
     (\<forall>xs. to_compact sj (JArray xs) = ''['' @ join_with '','' (map (to_compact sj) xs) @ '']'')
   \<and> (\<forall>n. to_compact sj (JNumber (PosInt n)) = dec_of (unat n))"

lemma join_with_append:
  "xs \<noteq> [] \<Longrightarrow> ys \<noteq> [] \<Longrightarrow> join_with sep (xs @ ys) = join_with sep xs @ sep @ join_with sep ys"
proof (induction xs)
  case (Cons x xs)
  then show ?case by (cases "xs = []") (simp_all add: join_with_Cons)
qed simp

lemma pow_payload_json:
  assumes "compact_laws sj" and "10 < length config" and "i < 2 ^ 64"
    and "static_segments sj config = Some segments"
  shows "pow_payload segments i = to_compact sj (JArray (config[3 := json_nat i, 9 := json_nat (i div 2)]))"
proof -
  let ?p = "\<lambda>xs. join_with '','' (map (to_compact sj) xs)"
  define a b c where "a = take 3 config" and "b = take 5 (drop 4 config)" and "c = drop 10 config"
  have ne: "a \<noteq> []" "b \<noteq> []" "c \<noteq> []" using assms(2) by (auto simp: a_def b_def c_def)
  have len: "length a = 3" "length b = 5" using assms(2) by (auto simp: a_def b_def)
  have "config = a @ config ! 3 # b @ config ! 9 # c"
  proof -
    have "config = take 3 config @ config ! 3 # drop (Suc 3) config"
      using assms(2) by (intro id_take_nth_drop) simp
    also have "drop (Suc 3) config = take 5 (drop 4 config) @ drop 5 (drop 4 config)"
      by (simp only: append_take_drop_id) simp
    also have "drop 5 (drop 4 config) = config ! 9 # drop 10 config"
      using assms(2) Cons_nth_drop_Suc [of 9 config] by simp
    finally show ?thesis by (simp add: a_def b_def c_def)
  qed
  then have upd: "config[3 := m, 9 := n] = a @ m # b @ n # c" for m n
  proof -
    assume c: "config = a @ config ! 3 # b @ config ! 9 # c"
    have "(a @ x # b @ y # c)[3 := m] = a @ m # b @ y # c" for x y
      using list_update_length [of a x "b @ y # c" m] len by simp
    moreover have "(a @ m # b @ y # c)[9 := n] = a @ m # b @ n # c" for y
      using list_update_length [of "a @ m # b" y c n] len by simp
    ultimately show ?thesis by (subst c) simp
  qed
  have nat: "to_compact sj (json_nat n) = dec_of n" if "n \<le> i" for n
    using assms(1,3) that by (simp add: json_nat_def compact_laws_def unat_of_nat take_bit_nat_eq_self)
  have join: "?p (a @ json_nat i # b @ json_nat (i div 2) # c) =
      ?p a @ '','' @ dec_of i @ '','' @ ?p b @ '','' @ dec_of (i div 2) @ '','' @ ?p c"
    using ne nat [of i] nat [of "i div 2"] by (simp add: join_with_append join_with_Cons)
  have seg: "segments = (''['' @ ?p a @ '','', '','' @ ?p b @ '','', '','' @ ?p c @ '']'')"
    using assms(1,2,4) by (simp add: static_segments_def compact_laws_def a_def b_def c_def butlast_append)
  have "to_compact sj (JArray xs) = ''['' @ ?p xs @ '']''" for xs
    using assms(1) by (simp add: compact_laws_def)
  then show ?thesis by (simp only: upd join seg pow_payload_def prod.case append_assoc)
qed

lemma pow_loop_find:
  "pow_loop n pw seed diff segments i =
     map_option (\<lambda>k. pw_base64 pw (str_bytes (pow_payload segments k)))
       (find (\<lambda>k. pow_accepts pw seed diff (pw_base64 pw (str_bytes (pow_payload segments k)))) [i..<i + n])"
proof (induction n arbitrary: i)
  case (Suc n)
  have "[i..<i + Suc n] = i # [Suc i..<Suc i + n]" by (simp add: upt_rec)
  then show ?case using Suc.IH [of "Suc i"] by (simp add: Let_def)
qed simp

definition pow_attempt :: "serde \<Rightarrow> pow_lib \<Rightarrow> json list \<Rightarrow> nat \<Rightarrow> string" where
  "pow_attempt sj pw config i =
     pw_base64 pw (str_bytes (to_compact sj (JArray (config[3 := json_nat i, 9 := json_nat (i div 2)]))))"

lemma pow_solve:
  "generate_answer sj pw seed diff config =
     map_option (\<lambda>segments.
       let encoded = (\<lambda>i. pw_base64 pw (str_bytes (pow_payload segments i)))
       in case find (\<lambda>i. pow_accepts pw seed diff (encoded i)) [0..<max_iters] of
            Some i \<Rightarrow> (encoded i, True) | None \<Rightarrow> (pow_fallback pw seed, False)) (static_segments sj config)"
  by (cases "static_segments sj config") (simp_all add: generate_answer_def pow_loop_find Let_def split: option.split)

lemma build_proof_token_honest:
  assumes "build_proof_token sj pw seed diff config = Some (token, True)"
  shows "starts_with ''gAAAAAB'' token \<and> pow_accepts pw seed diff (drop 7 token)"
  using assms
  by (auto simp: build_proof_token_def pow_solve Let_def dest: find_SomeD split: option.splits)

lemma static_segments_total: "10 \<le> length config \<Longrightarrow> static_segments sj config \<noteq> None"
  by (simp add: static_segments_def Let_def)

lemma pow_tokens_total:
  assumes "10 \<le> length config"
  shows "build_proof_token sj pw seed diff config \<noteq> None" "build_requirements_token sj pw seed config \<noteq> None"
  using static_segments_total [OF assms, of sj]
  by (auto simp: build_proof_token_def build_requirements_token_def generate_answer_def)

text \<open>
  The proof of work is honest and first.  For a configuration of more than ten values, the answer is
  the base64 text of the compact JSON of the configuration with the counter \<open>i\<close> in place 3 and half of it
  in place 9, for the first counter below the bound whose digest meets the difficulty, marked as solved;
  when no counter does, the fallback answer, marked as not solved.
\<close>

theorem pow_answer_correct:
  assumes "compact_laws sj" and "10 < length config"
  shows "generate_answer sj pw seed diff config =
     Some (case find (\<lambda>i. pow_accepts pw seed diff (pow_attempt sj pw config i)) [0..<max_iters] of
             Some i \<Rightarrow> (pow_attempt sj pw config i, True)
           | None \<Rightarrow> (pow_fallback pw seed, False))"
proof -
  obtain segments where seg: "static_segments sj config = Some segments"
    using assms(2) static_segments_total [of config sj] by auto
  have eq: "pw_base64 pw (str_bytes (pow_payload segments i)) = pow_attempt sj pw config i"
    if "i \<in> set [0..<max_iters]" for i
    using pow_payload_json [OF assms _ seg, of i] that by (simp add: pow_attempt_def max_iters_def)
  then have "find (\<lambda>i. pow_accepts pw seed diff (pw_base64 pw (str_bytes (pow_payload segments i)))) [0..<max_iters] =
      find (\<lambda>i. pow_accepts pw seed diff (pow_attempt sj pw config i)) [0..<max_iters]"
    by (intro find_cong) simp_all
  then show ?thesis
    using eq find_SomeD [of "\<lambda>i. pow_accepts pw seed diff (pow_attempt sj pw config i)" "[0..<max_iters]"]
    by (simp add: pow_solve seg Let_def del: set_upt split: option.split)
qed

text \<open>A printer with the laws, and a hash whose every digest meets a difficulty.\<close>

fun plain_json :: "json \<Rightarrow> string" where
  "plain_json (JArray xs) = ''['' @ join_with '','' (map plain_json xs) @ '']''"
| "plain_json (JNumber (PosInt n)) = dec_of (unat n)"
| "plain_json (JString s) = [CHR 0x22] @ s @ [CHR 0x22]"
| "plain_json _ = ''null''"

definition plain_serde :: serde where
  "plain_serde =
     \<lparr>to_compact = plain_json, to_pretty = plain_json, from_text = \<lambda>_. None, stream_next = \<lambda>_. None,
      number_f64 = \<lambda>_. None\<rparr>"

definition easy_pow :: pow_lib where
  "easy_pow = \<lparr>pw_sha3_512 = \<lambda>_. [0, 7], pw_base64 = \<lambda>bs. ''b64:'' @ bytes_str bs\<rparr>"

lemma compact_laws_plain: "compact_laws plain_serde"
  by (simp add: compact_laws_def plain_serde_def)

lemma easy_pow_accepts: "pow_accepts easy_pow seed ''7f'' e"
proof -
  have "hex_decode ''7f'' = [0x7F]" by code_simp
  then show ?thesis by (simp add: pow_accepts_def easy_pow_def)
qed

lemma easy_pow_first: "find (\<lambda>i. pow_accepts easy_pow seed ''7f'' (f i)) [0..<max_iters] = Some 0"
proof -
  have "0 < max_iters" by (simp add: max_iters_def)
  then have "[0..<max_iters] = 0 # [1..<max_iters]" by (simp add: upt_conv_Cons)
  then show ?thesis by (simp add: easy_pow_accepts)
qed

lemma easy_pow_solves:
  assumes "10 \<le> length config"
  shows "\<exists>token. build_proof_token sj easy_pow seed ''7f'' config = Some (token, True)"
  using static_segments_total [OF assms, of sj]
  by (auto simp: build_proof_token_def pow_solve easy_pow_first Let_def)

theorem pow_answer_correct_witness:
  "compact_laws plain_serde \<and> 10 < length (replicate 11 JNull)
   \<and> generate_answer plain_serde easy_pow ''s'' ''7f'' (replicate 11 JNull) =
       Some (pow_attempt plain_serde easy_pow (replicate 11 JNull) 0, True)"
proof -
  let ?config = "replicate 11 JNull"
  have len: "10 < length ?config" by simp
  then have "generate_answer plain_serde easy_pow ''s'' ''7f'' ?config =
      Some (pow_attempt plain_serde easy_pow ?config 0, True)"
    using pow_answer_correct [OF compact_laws_plain len, of easy_pow "''s''" "''7f''"]
    by (simp only: easy_pow_first option.case)
  then show ?thesis using compact_laws_plain len by blast
qed

end
