(* ===== verification/Chatgpt.thy ===== *)
theory Chatgpt
  imports Pow
begin

text \<open>
  The ChatGPT web adapter (\<open>gravity-providers/src/chatgpt/provider.rs\<close>): the Sentinel requirements and their
  proof of work, the conversation request, and the reader of the answer.
\<close>

definition chatgpt_caps :: provider_capabilities where
  "chatgpt_caps =
     \<lparr>cap_provider = Chatgpt, tool_support = ToolJsonEmulated, structured_output = OutJsonInstruction,
      remote_session = SessRequired, supports_system_prompt = False, supports_stateful_history = True,
      requires_remote_checkpoint = True, default_history_mode = HistAuto, supports_image_generation = False\<rparr>"

definition backend_base :: string where
  "backend_base = ''https://chatgpt.com/backend-api''"

definition cg_user_agent :: string where
  "cg_user_agent =
     ''Mozilla/5.0 (Windows NT 10.0; Win64; x64) AppleWebKit/537.36 (KHTML, like Gecko) Chrome/136.0.0.0 Safari/537.36''"

definition cg_err :: "string \<Rightarrow> u16 \<Rightarrow> string \<Rightarrow> error" where
  "cg_err code status body =
     ProviderErr (with_status status (provider_error_new Chatgpt OtherKind code (take_chars 400 body)))"

section \<open>Requests\<close>

definition cg_account_header :: "chat_ctx \<Rightarrow> string option" where
  "cg_account_header cx =
     (let a = pa_auth (cx_account cx)
      in case au_chatgpt_account_id a of Some i \<Rightarrow> Some i | None \<Rightarrow> inline_secret a ''chatgpt_account_id'')"

definition cg_base_headers :: "chat_ctx \<Rightarrow> (string \<times> string) list" where
  "cg_base_headers cx =
     [(''user-agent'', cg_user_agent), (''accept'', ''*/*''), (''authorization'', ''Bearer '' @ cx_secret cx),
      (''content-type'', ''application/json''), (''origin'', ''https://chatgpt.com''),
      (''referer'', ''https://chatgpt.com/'')]
     @ (case au_device_id (pa_auth (cx_account cx)) of None \<Rightarrow> [] | Some d \<Rightarrow> [(''oai-device-id'', d)])
     @ (case cg_account_header cx of None \<Rightarrow> [] | Some a \<Rightarrow> [(''chatgpt-account-id'', a)])"

text \<open>\<open>profile\<close>, \<open>timeout_ms\<close> and \<open>proxy\<close>, as every request of the adapter sets them.\<close>

definition cg_from :: "chat_ctx \<Rightarrow> http_request \<Rightarrow> http_request" where
  "cg_from cx req =
     with_proxy (ctx_proxy cx)
       (with_timeout_ms (ctx_timeout_ms cx)
         (with_profile (profile_from_name (impersonate_or cx ''chrome'')) req))"

definition pow_config :: "'w env \<Rightarrow> 'w \<Rightarrow> json list \<times> 'w" where
  "pow_config env w =
     (let (c, w1) = env_u64 env w;
          cores = [8, 16, 24, 32] ! unat (c mod 4);
          (s, w2) = env_u64 env w1;
          (now, w3) = ev_now_millis env w2;
          (uuid, w4) = env_uuid env w3
      in ([json_nat (if s mod 2 = 0 then 3000 else 4000),
           JString ''Mon Jan 01 2024 00:00:00 GMT-0500 (Eastern Standard Time)'',
           JNumber (PosInt 4294705152), json_nat 0, JString cg_user_agent,
           JString ''https://chatgpt.com/backend-api/sentinel/sdk.js'', JString [],
           JString ''en-US'', JString ''en-US,en'', json_nat 0,
           JString ''webdriver-false'', JString ''location'', JString ''document'',
           JNumber (Float (nat_to_f64 (unat now mod 100000))),
           JString uuid, JString [], json_nat cores, JNumber (Float 0)], w4))"

lemma length_pow_config: "length (fst (pow_config env w)) = 18"
  by (simp add: pow_config_def Let_def split_beta)

definition requirements_request :: "serde \<Rightarrow> chat_ctx \<Rightarrow> string \<Rightarrow> http_request" where
  "requirements_request sj cx token =
     with_headers (cg_base_headers cx)
       (with_json sj (JObject [(''p'', JString token)])
         (cg_from cx (request_post (backend_base @ ''/sentinel/chat-requirements''))))"

text \<open>
  What the answer to the request asks for, checked in the code's order: the token and, when one is required,
  the proof.  The panic of \<open>build_proof_token\<close> needs a configuration of fewer than ten values.
\<close>

definition arkose_required :: "json \<Rightarrow> bool" where
  "arkose_required payload \<longleftrightarrow>
     Option.bind (Option.bind (jget payload ''arkose'') (\<lambda>a. jget a ''required'')) as_bool = Some True"

definition proof_of :: "serde \<Rightarrow> pow_lib \<Rightarrow> json list \<Rightarrow> json \<Rightarrow> error + string option" where
  "proof_of sj pw config payload =
     (case jget payload ''proofofwork'' of
        None \<Rightarrow> Inr None
      | Some info \<Rightarrow>
          if Option.bind (jget info ''required'') as_bool \<noteq> Some True then Inr None
          else
            (let seed = (case jget_str info ''seed'' of Some s \<Rightarrow> s | None \<Rightarrow> []);
                 difficulty = (case jget_str info ''difficulty'' of Some s \<Rightarrow> s | None \<Rightarrow> [])
             in if seed = [] \<or> difficulty = [] then Inl (cg_err ''chatgpt_pow_invalid'' 200 ''missing seed/difficulty'')
                else
                  (case the (build_proof_token sj pw seed difficulty config) of
                     (token, solved) \<Rightarrow>
                       if \<not> solved then Inl (cg_err ''chatgpt_pow_failed'' 200 ''could not solve PoW'')
                       else Inr (Some token))))"

definition read_requirements ::
    "serde \<Rightarrow> pow_lib \<Rightarrow> json list \<Rightarrow> json \<Rightarrow> error + string \<times> string option" where
  "read_requirements sj pw config payload =
     (if arkose_required payload
      then Inl (ProviderErr (provider_error_new Chatgpt OtherKind ''chatgpt_arkose_required''
                  ''ChatGPT requested an Arkose token (not supported)''))
      else
        (case proof_of sj pw config payload of
           Inl e \<Rightarrow> Inl e
         | Inr pf \<Rightarrow>
             (case jget_str payload ''token'' of
                None \<Rightarrow> Inl (cg_err ''chatgpt_missing_token'' 200 ''no chat-requirements token'')
              | Some token \<Rightarrow> Inr (token, pf))))"

definition get_requirements ::
    "'w net \<Rightarrow> 'w env \<Rightarrow> pow_lib \<Rightarrow> chat_ctx \<Rightarrow> 'w \<Rightarrow> (error + string \<times> string option) \<times> 'w" where
  "get_requirements net env pw cx w =
     (case pow_config env w of
        (config, w1) \<Rightarrow>
          (let token = the (build_requirements_token (nt_serde net) pw ''0.5'' config)
           in (case nt_send net (requirements_request (nt_serde net) cx token) w1 of
                 (Inl e, w2) \<Rightarrow> (Inl e, w2)
               | (Inr resp, w2) \<Rightarrow>
                   ((if \<not> is_success resp
                     then Inl (cg_err ''chatgpt_requirements_failed'' (rp_status resp) (response_text_lossy resp))
                     else (case response_json (nt_serde net) resp of
                             Inl e \<Rightarrow> Inl e
                           | Inr payload \<Rightarrow> read_requirements (nt_serde net) pw config payload)), w2))))"

fun cg_messages :: "'w env \<Rightarrow> message list \<Rightarrow> 'w \<Rightarrow> json list \<times> 'w" where
  "cg_messages env [] w = ([], w)"
| "cg_messages env (m # ms) w =
     (let (uuid, w1) = env_uuid env w;
          (vs, w2) = cg_messages env ms w1
      in (JObject [(''id'', JString uuid), (''author'', JObject [(''role'', JString (role_str (msg_role m)))]),
                   (''content'', JObject [(''content_type'', JString ''text''),
                                          (''parts'', JArray [JString (message_text m)])]),
                   (''metadata'', JObject [])] # vs, w2))"

definition contextual_info :: "u64 list \<Rightarrow> json" where
  "contextual_info r =
     JObject [(''is_dark_mode'', JBool False), (''time_since_loaded'', JNumber (PosInt (50 + r ! 0 mod 450))),
              (''page_height'', JNumber (PosInt (700 + r ! 1 mod 700))),
              (''page_width'', JNumber (PosInt (1100 + r ! 2 mod 1100))),
              (''pixel_ratio'', JNumber (Float 0x3FF8000000000000)),
              (''screen_height'', JNumber (PosInt (900 + r ! 3 mod 500))),
              (''screen_width'', JNumber (PosInt (1400 + r ! 4 mod 1200)))]"

definition parent_message_id :: "'w env \<Rightarrow> chat_ctx \<Rightarrow> 'w \<Rightarrow> string \<times> 'w" where
  "parent_message_id env cx w =
     (case Option.bind (cx_checkpoint cx) cp_remote_parent_id of
        Some i \<Rightarrow> (i, w) | None \<Rightarrow> env_uuid env w)"

definition conversation_body :: "'w env \<Rightarrow> chat_ctx \<Rightarrow> 'w \<Rightarrow> json \<times> 'w" where
  "conversation_body env cx w =
     (let (messages, w1) = cg_messages env (rq_messages (cx_request cx)) w;
          (r, w2) = env_u64s 5 env w1;
          (parent, w3) = parent_message_id env cx w2;
          (ws, w4) = env_uuid env w3;
          body =
            [(''action'', JString ''next''), (''client_contextual_info'', contextual_info r),
             (''conversation_mode'', JObject [(''kind'', JString ''primary_assistant'')]),
             (''force_paragen'', JBool False), (''force_paragen_model_slug'', JString []),
             (''force_rate_limit'', JBool False), (''force_use_sse'', JBool True),
             (''history_and_training_disabled'', JBool False), (''messages'', JArray messages),
             (''model'', JString (mid_model (rq_model (cx_request cx)))),
             (''paragen_cot_summary_display_override'', JString ''allow''),
             (''parent_message_id'', JString parent), (''reset_rate_limits'', JBool False),
             (''suggestions'', JArray []), (''supported_encodings'', JArray []), (''system_hints'', JArray []),
             (''timezone'', JString ''Asia/Calcutta''), (''timezone_offset_min'', json_nat 330),
             (''variant_purpose'', JString ''comparison_implicit''), (''websocket_request_id'', JString ws)]
      in (JObject (case Option.bind (cx_checkpoint cx) cp_remote_conversation_id of
                     None \<Rightarrow> body
                   | Some i \<Rightarrow> alist_put ''conversation_id'' (JString i) body), w4))"

definition conversation_request :: "serde \<Rightarrow> chat_ctx \<Rightarrow> json \<Rightarrow> string \<Rightarrow> string option \<Rightarrow> http_request" where
  "conversation_request sj cx body req_token proof_token =
     with_headers
       ((''openai-sentinel-chat-requirements-token'', req_token)
        # (case proof_token of None \<Rightarrow> [] | Some pt \<Rightarrow> [(''openai-sentinel-proof-token'', pt)]))
       (with_headers (filter (\<lambda>(k, v). k \<noteq> ''accept'') (cg_base_headers cx))
         (with_json sj body
           (with_header ''accept'' ''text/event-stream''
             (cg_from cx (request_post (backend_base @ ''/conversation''))))))"

section \<open>Answers\<close>

record cg_answer =
  cg_text :: string
  cg_msg_id :: "string option"
  cg_conv_id :: "string option"

definition cg_answer_new :: cg_answer where
  "cg_answer_new = \<lparr>cg_text = [], cg_msg_id = None, cg_conv_id = None\<rparr>"

definition non_null :: "json option \<Rightarrow> json option" where
  "non_null v = (case v of Some j \<Rightarrow> if is_null j then None else Some j | None \<Rightarrow> None)"

definition first_part :: "json \<Rightarrow> string option" where
  "first_part message =
     (case jget message ''content'' of
        None \<Rightarrow> None
      | Some content \<Rightarrow>
          if jget_str content ''content_type'' \<noteq> Some ''text'' then None
          else (case Option.bind (jget content ''parts'') as_array of
                  Some (p # _) \<Rightarrow> as_str p
                | _ \<Rightarrow> None))"

text \<open>A decoded frame: an error, or what it changes of the answer.\<close>

definition cg_frame :: "serde \<Rightarrow> json \<Rightarrow> cg_answer \<Rightarrow> error + cg_answer" where
  "cg_frame sj v st =
     (case non_null (jget v ''error'') of
        Some err \<Rightarrow> Inl (ProviderErr (provider_error_new Chatgpt OtherKind ''chatgpt_sse_error'' (to_compact sj err)))
      | None \<Rightarrow>
          (let st1 = (case jget_str v ''conversation_id'' of None \<Rightarrow> st | Some c \<Rightarrow> st\<lparr>cg_conv_id := Some c\<rparr>)
           in Inr (case non_null (jget v ''message'') of
                     None \<Rightarrow> st1
                   | Some message \<Rightarrow>
                       (let st2 = (case jget_str message ''id'' of None \<Rightarrow> st1 | Some i \<Rightarrow> st1\<lparr>cg_msg_id := Some i\<rparr>)
                        in (case first_part message of
                              Some p \<Rightarrow> if p \<noteq> [] then st2\<lparr>cg_text := p\<rparr> else st2
                            | None \<Rightarrow> st2)))))"

fun accumulate_lines :: "serde \<Rightarrow> cg_answer \<Rightarrow> string list \<Rightarrow> error + cg_answer" where
  "accumulate_lines sj st [] = Inr st"
| "accumulate_lines sj st (l # ls) =
     (case strip_prefix ''data: '' l of
        None \<Rightarrow> accumulate_lines sj st ls
      | Some data \<Rightarrow>
          if trim data = ''[DONE]'' then Inr st
          else (case from_text sj data of
                  None \<Rightarrow> accumulate_lines sj st ls
                | Some v \<Rightarrow>
                    (case cg_frame sj v st of
                       Inl e \<Rightarrow> Inl e
                     | Inr st' \<Rightarrow> accumulate_lines sj st' ls)))"

definition accumulate_sse :: "serde \<Rightarrow> string \<Rightarrow> error + cg_answer" where
  "accumulate_sse sj body = accumulate_lines sj cg_answer_new (str_lines body)"

section \<open>The provider\<close>

definition cg_response :: "string \<Rightarrow> cg_answer \<Rightarrow> chat_response" where
  "cg_response model_full a =
     \<lparr>rs_model = model_full, rs_message = message_assistant (cg_text a), rs_usage = usage_default,
      rs_tool_calls_executed = [], rs_provider_response_id = cg_msg_id a, rs_finish_reason = Some ''stop'',
      rs_metadata = (case cg_conv_id a of
                       None \<Rightarrow> metadata_new
                     | Some c \<Rightarrow> metadata_insert ''conversation_id'' (JString c) metadata_new)\<rparr>"

definition chatgpt_chat ::
    "'w net \<Rightarrow> 'w env \<Rightarrow> pow_lib \<Rightarrow> chat_ctx \<Rightarrow> 'w \<Rightarrow> (error + chat_response) \<times> 'w" where
  "chatgpt_chat net env pw cx w =
     (case get_requirements net env pw cx w of
        (Inl e, w1) \<Rightarrow> (Inl e, w1)
      | (Inr (req_token, proof_token), w1) \<Rightarrow>
          (let (body, w2) = conversation_body env cx w1
           in (case nt_send net (conversation_request (nt_serde net) cx body req_token proof_token) w2 of
                 (Inl e, w3) \<Rightarrow> (Inl e, w3)
               | (Inr resp, w3) \<Rightarrow>
                   ((if \<not> is_success resp
                     then Inl (cg_err ''chatgpt_chat_failed'' (rp_status resp) (response_text_lossy resp))
                     else (case accumulate_sse (nt_serde net) (response_text_lossy resp) of
                             Inl e \<Rightarrow> Inl e
                           | Inr a \<Rightarrow> Inr (cg_response (model_id_full_name (rq_model (cx_request cx))) a))), w3))))"

definition chatgpt_chat_stream ::
    "'w net \<Rightarrow> 'w env \<Rightarrow> pow_lib \<Rightarrow> chat_ctx \<Rightarrow> 'w \<Rightarrow> (error + event_stream) \<times> 'w" where
  "chatgpt_chat_stream net env pw cx w =
     (case chatgpt_chat net env pw cx w of
        (Inl e, w') \<Rightarrow> (Inl e, w')
      | (Inr resp, w') \<Rightarrow>
          (Inr ((if response_text resp = [] then [] else [Inr (TextDelta (str_bytes (response_text resp)))])
                @ [Inr (Done resp)]), w'))"

definition chatgpt_models :: "string list" where
  "chatgpt_models = [''gpt-5'', ''gpt-4o'', ''o4-mini'', ''auto'']"

definition cg_model :: "json \<Rightarrow> model_info option" where
  "cg_model m =
     map_option
       (\<lambda>i. \<lparr>mi_id = i, mi_display_name = jget_str m ''title'', mi_description = jget_str m ''description'',
             mi_tags = (case Option.bind (jget m ''tags'') as_array of
                          None \<Rightarrow> [] | Some a \<Rightarrow> List.map_filter as_str a)\<rparr>)
       (jget_str m ''slug'')"

definition chatgpt_discover_models :: "'w net \<Rightarrow> chat_ctx \<Rightarrow> 'w \<Rightarrow> (error + model_info list) \<times> 'w" where
  "chatgpt_discover_models net cx w =
     (let fallback = map model_info_bare chatgpt_models
      in if cx_secret cx = [] then (Inr fallback, w)
         else
           (case nt_send net
                   (with_headers (cg_base_headers cx)
                     (cg_from cx (request_get (backend_base @ ''/models?history_and_training_disabled=false'')))) w of
              (Inl e, w') \<Rightarrow> (Inr fallback, w')
            | (Inr resp, w') \<Rightarrow>
                (if \<not> is_success resp then (Inr fallback, w')
                 else (case Option.bind (Option.bind (value_of_bytes (nt_serde net) (rp_body resp))
                                           (\<lambda>v. jget v ''models'')) as_array of
                         None \<Rightarrow> (Inr fallback, w')
                       | Some models \<Rightarrow>
                           (let out = List.map_filter cg_model models
                            in (Inr (if out = [] then fallback else out), w'))))))"

definition placeholder_checkpoint :: "chat_ctx \<Rightarrow> datetime \<Rightarrow> checkpoint" where
  "placeholder_checkpoint cx now =
     \<lparr>cp_conversation_key = cv_key (cx_conversation cx), cp_provider = Chatgpt,
      cp_account_id = pa_account_id (cx_account cx), cp_remote_conversation_id = None,
      cp_remote_parent_id = None, cp_remote_metadata = metadata_new,
      cp_history_version = cv_history_version (cx_conversation cx), cp_updated_at = now, cp_is_valid = True\<rparr>"

definition chatgpt_open_checkpoint :: "'w env \<Rightarrow> chat_ctx \<Rightarrow> 'w \<Rightarrow> (error + checkpoint option) \<times> 'w" where
  "chatgpt_open_checkpoint env cx w =
     (case cx_checkpoint cx of
        Some c \<Rightarrow>
          if cp_remote_conversation_id c \<noteq> None then (Inr (Some c), w)
          else (case ev_utc_now env w of (now, w') \<Rightarrow> (Inr (Some (placeholder_checkpoint cx now)), w'))
      | None \<Rightarrow> (case ev_utc_now env w of (now, w') \<Rightarrow> (Inr (Some (placeholder_checkpoint cx now)), w')))"

definition chatgpt_provider :: "'w net \<Rightarrow> 'w env \<Rightarrow> pow_lib \<Rightarrow> 'w provider" where
  "chatgpt_provider net env pw =
     \<lparr>pv_capabilities = chatgpt_caps, pv_list_models = chatgpt_models,
      pv_discover_models = chatgpt_discover_models net,
      pv_normalize_system_prompt = default_normalize_system_prompt,
      pv_open_checkpoint = chatgpt_open_checkpoint env,
      pv_chat = chatgpt_chat net env pw, pv_chat_stream = chatgpt_chat_stream net env pw,
      pv_authenticator = None\<rparr>"

section \<open>No conversation without its proof\<close>

text \<open>The seed and the difficulty of the work a server demands.\<close>

definition proof_demand :: "json \<Rightarrow> (string \<times> string) option" where
  "proof_demand payload =
     (case jget payload ''proofofwork'' of
        None \<Rightarrow> None
      | Some info \<Rightarrow>
          if Option.bind (jget info ''required'') as_bool \<noteq> Some True then None
          else Some ((case jget_str info ''seed'' of Some s \<Rightarrow> s | None \<Rightarrow> []),
                     (case jget_str info ''difficulty'' of Some s \<Rightarrow> s | None \<Rightarrow> [])))"

definition proof_meets :: "pow_lib \<Rightarrow> json \<Rightarrow> string option \<Rightarrow> bool" where
  "proof_meets pw payload pf \<longleftrightarrow>
     (case (proof_demand payload, pf) of
        (None, None) \<Rightarrow> True
      | (Some (seed, diff), Some token) \<Rightarrow>
          seed \<noteq> [] \<and> diff \<noteq> [] \<and> starts_with ''gAAAAAB'' token \<and> pow_accepts pw seed diff (drop 7 token)
      | _ \<Rightarrow> False)"

lemma proof_of_demand:
  "proof_of sj pw config payload =
     (case proof_demand payload of
        None \<Rightarrow> Inr None
      | Some (seed, difficulty) \<Rightarrow>
          if seed = [] \<or> difficulty = [] then Inl (cg_err ''chatgpt_pow_invalid'' 200 ''missing seed/difficulty'')
          else
            (case the (build_proof_token sj pw seed difficulty config) of
               (token, solved) \<Rightarrow>
                 if \<not> solved then Inl (cg_err ''chatgpt_pow_failed'' 200 ''could not solve PoW'')
                 else Inr (Some token)))"
  by (simp add: proof_of_def proof_demand_def Let_def split: option.split)

lemma proof_of_meets:
  assumes "proof_of sj pw config payload = Inr pf" and "10 \<le> length config"
  shows "proof_meets pw payload pf"
proof (cases "proof_demand payload")
  case None
  then show ?thesis using assms(1) by (simp add: proof_of_demand proof_meets_def)
next
  case (Some d)
  obtain seed diff where d: "d = (seed, diff)" by (cases d)
  obtain token solved where b: "build_proof_token sj pw seed diff config = Some (token, solved)"
    using pow_tokens_total(1) [OF assms(2), of sj pw seed diff] by auto
  have "seed \<noteq> [] \<and> diff \<noteq> [] \<and> solved \<and> pf = Some token"
    using assms(1) by (simp add: proof_of_demand Some d b split: if_splits)
  then show ?thesis
    using build_proof_token_honest [of sj pw seed diff config token] b Some d by (simp add: proof_meets_def)
qed

lemma read_requirements_ok:
  assumes "read_requirements sj pw config payload = Inr (token, pf)" and "10 \<le> length config"
  shows "\<not> arkose_required payload \<and> jget_str payload ''token'' = Some token \<and> proof_meets pw payload pf"
  using assms proof_of_meets [of sj pw config payload pf]
  by (auto simp: read_requirements_def split: if_splits sum.splits option.splits)

lemma get_requirements_ok:
  assumes "get_requirements net env pw cx w = (Inr (token, pf), w')"
  shows "\<exists>p w1 resp payload.
     nt_send net (requirements_request (nt_serde net) cx p) w1 = (Inr resp, w')
   \<and> is_success resp \<and> response_json (nt_serde net) resp = Inr payload
   \<and> \<not> arkose_required payload \<and> jget_str payload ''token'' = Some token \<and> proof_meets pw payload pf"
proof -
  obtain config w1 where c: "pow_config env w = (config, w1)" by (cases "pow_config env w")
  then have len: "10 \<le> length config" using length_pow_config [of env w] by simp
  define p where "p = the (build_requirements_token (nt_serde net) pw ''0.5'' config)"
  obtain resp payload where
    "nt_send net (requirements_request (nt_serde net) cx p) w1 = (Inr resp, w')"
    "is_success resp" "response_json (nt_serde net) resp = Inr payload"
    "read_requirements (nt_serde net) pw config payload = Inr (token, pf)"
    using assms c by (auto simp: get_requirements_def p_def Let_def split: prod.splits sum.splits if_splits)
  with read_requirements_ok [OF _ len] show ?thesis by blast
qed


section \<open>The answer\<close>

definition snapshot_value :: "string \<Rightarrow> string \<times> string \<Rightarrow> json" where
  "snapshot_value conv s =
     (case s of (i, t) \<Rightarrow>
        JObject [(''message'', JObject [(''id'', JString i),
                    (''content'', JObject [(''content_type'', JString ''text''), (''parts'', JArray [JString t])])]),
                 (''conversation_id'', JString conv), (''error'', JNull)])"

definition error_value :: "json \<Rightarrow> json" where
  "error_value e = JObject [(''error'', e)]"

definition after_snapshot :: "string \<Rightarrow> string \<times> string \<Rightarrow> cg_answer \<Rightarrow> cg_answer" where
  "after_snapshot conv s st =
     \<lparr>cg_text = (if snd s = [] then cg_text st else snd s), cg_msg_id = Some (fst s), cg_conv_id = Some conv\<rparr>"

lemma cg_frame_snapshot: "cg_frame sj (snapshot_value conv s) st = Inr (after_snapshot conv s st)"
proof -
  obtain i t where s: "s = (i, t)" by (cases s)
  have "first_part (JObject [(''id'', JString i),
      (''content'', JObject [(''content_type'', JString ''text''), (''parts'', JArray [JString t])])]) = Some t"
    by (simp add: first_part_def jget_str_def)
  then show ?thesis
    by (simp add: s cg_frame_def snapshot_value_def after_snapshot_def non_null_def jget_str_def)
qed

lemma accumulate_carried:
  assumes "carries sj v l"
  shows "accumulate_lines sj st (data_line l # ls) =
    (case cg_frame sj v st of Inl e \<Rightarrow> Inl e | Inr st' \<Rightarrow> accumulate_lines sj st' ls)"
proof -
  have "strip_prefix ''data: '' (data_line l) = Some l" unfolding data_line_def by (rule strip_prefix_append)
  then show ?thesis using assms by (simp only: accumulate_lines.simps carries_def) simp
qed

lemma accumulate_snapshots:
  assumes "list_all2 (\<lambda>s l. carries sj (snapshot_value conv s) l) ss ls"
  shows "accumulate_lines sj st (map data_line ls @ rest) =
    accumulate_lines sj (fold (after_snapshot conv) ss st) rest"
  using assms
proof (induction arbitrary: st rule: list_all2_induct)
  case (Cons s ss l ls)
  then show ?case
    by (simp only: list.map append_Cons accumulate_carried [OF Cons(1)] cg_frame_snapshot sum.case fold.simps comp_apply)
qed simp

lemma fold_snapshots:
  "fold (after_snapshot conv) ss st =
     (if ss = [] then st
      else \<lparr>cg_text = last (cg_text st # filter (\<lambda>t. t \<noteq> []) (map snd ss)),
            cg_msg_id = Some (fst (last ss)), cg_conv_id = Some conv\<rparr>)"
  by (induction ss arbitrary: st) (auto simp: after_snapshot_def)

text \<open>
  The answer is the last snapshot.  For a body of frames that each repeat the whole text so far, the text
  returned is that of the last frame with any, with the last message id and the conversation id, up to
  the terminator and whatever follows it; an error frame anywhere before the terminator makes the whole
  answer that error, and none of the text is returned.
\<close>

theorem cg_answer_assembled:
  assumes "list_all2 (\<lambda>s l. carries sj (snapshot_value conv s) l) ss ls"
    and "carries sj (error_value e) l" and "\<not> is_null e"
  shows "accumulate_sse sj (frames_text (ls @ [''[DONE]'']) @ tail) =
      Inr (if ss = [] then cg_answer_new
           else \<lparr>cg_text = last ([] # filter (\<lambda>t. t \<noteq> []) (map snd ss)),
                 cg_msg_id = Some (fst (last ss)), cg_conv_id = Some conv\<rparr>)
   \<and> accumulate_sse sj (frames_text (ls @ [l]) @ tail) =
       Inl (ProviderErr (provider_error_new Chatgpt OtherKind ''chatgpt_sse_error'' (to_compact sj e)))"
proof -
  have ok: "list_all (\<lambda>l. CHR 0x0A \<notin> set l \<and> CHR 0x0D \<notin> set l) ls"
    using assms(1) by (induction rule: list_all2_induct) (simp_all add: carries_def)
  then have ok_done: "list_all (\<lambda>l. CHR 0x0A \<notin> set l \<and> CHR 0x0D \<notin> set l) (ls @ [''[DONE]''])" by simp
  have ok_err: "list_all (\<lambda>l. CHR 0x0A \<notin> set l \<and> CHR 0x0D \<notin> set l) (ls @ [l])"
    using ok assms(2) by (simp add: carries_def)
  have "strip_prefix ''data: '' (data_line ''[DONE]'') = Some ''[DONE]''"
    unfolding data_line_def by (rule strip_prefix_append)
  moreover have "trim ''[DONE]'' = ''[DONE]''" by code_simp
  ultimately have stop: "accumulate_lines sj st (data_line ''[DONE]'' # rest) = Inr st" for st rest
    by (simp only: accumulate_lines.simps) simp
  have err: "cg_frame sj (error_value e) st =
      Inl (ProviderErr (provider_error_new Chatgpt OtherKind ''chatgpt_sse_error'' (to_compact sj e)))" for st
    using assms(3) by (simp add: cg_frame_def error_value_def non_null_def)
  have "accumulate_sse sj (frames_text (ls @ [''[DONE]'']) @ tail) = Inr (fold (after_snapshot conv) ss cg_answer_new)"
    by (simp only: accumulate_sse_def str_lines_frames [OF ok_done] map_append list.map append_assoc append_Cons
        accumulate_snapshots [OF assms(1)] stop)
  moreover have "accumulate_sse sj (frames_text (ls @ [l]) @ tail) =
      Inl (ProviderErr (provider_error_new Chatgpt OtherKind ''chatgpt_sse_error'' (to_compact sj e)))"
    by (simp only: accumulate_sse_def str_lines_frames [OF ok_err] map_append list.map append_assoc append_Cons
        accumulate_snapshots [OF assms(1)] accumulate_carried [OF assms(2)] err sum.case)
  ultimately show ?thesis by (simp add: fold_snapshots) (simp add: cg_answer_new_def)
qed

definition cg_serde :: serde where
  "cg_serde =
     plain_serde\<lparr>from_text := \<lambda>t.
       if t = ''a'' then Some (snapshot_value ''c1'' (''m1'', ''Hel''))
       else if t = ''b'' then Some (snapshot_value ''c1'' (''m2'', ''Hello''))
       else if t = ''e'' then Some (error_value (JString ''limit''))
       else if t = ''r'' then Some (JObject [(''token'', JString ''T''),
         (''proofofwork'', JObject [(''required'', JBool True), (''seed'', JString ''s''),
                                    (''difficulty'', JString ''7f'')])])
       else None\<rparr>"

lemma carries_samples:
  "carries cg_serde (snapshot_value ''c1'' (''m1'', ''Hel'')) ''a''"
  "carries cg_serde (snapshot_value ''c1'' (''m2'', ''Hello'')) ''b''"
  "carries cg_serde (error_value (JString ''limit'')) ''e''"
proof -
  have "trim ''a'' \<noteq> ''[DONE]'' \<and> trim ''b'' \<noteq> ''[DONE]'' \<and> trim ''e'' \<noteq> ''[DONE]''" by code_simp
  then show "carries cg_serde (snapshot_value ''c1'' (''m1'', ''Hel'')) ''a''"
    "carries cg_serde (snapshot_value ''c1'' (''m2'', ''Hello'')) ''b''"
    "carries cg_serde (error_value (JString ''limit'')) ''e''"
    by (simp_all add: carries_def cg_serde_def)
qed

lemma cg_answer_assembled_witness:
  "\<exists>ss ls l e. list_all2 (\<lambda>s l. carries cg_serde (snapshot_value ''c1'' s) l) ss ls
     \<and> carries cg_serde (error_value e) l \<and> \<not> is_null e
     \<and> map_sum id cg_text (accumulate_sse cg_serde (frames_text (ls @ [''[DONE]'']) @ ''data: e'')) = Inr ''Hello''
     \<and> isl (accumulate_sse cg_serde (frames_text (ls @ [l]) @ ''data: b''))"
proof -
  let ?ss = "[(''m1'', ''Hel''), (''m2'', ''Hello'')]"
  have h: "list_all2 (\<lambda>s l. carries cg_serde (snapshot_value ''c1'' s) l) ?ss [''a'', ''b'']"
      "carries cg_serde (error_value (JString ''limit'')) ''e''" "\<not> is_null (JString ''limit'')"
    using carries_samples by simp_all
  show ?thesis
    using h cg_answer_assembled [OF h, of "''data: e''"] cg_answer_assembled [OF h, of "''data: b''"]
    by (intro exI [of _ ?ss] exI [of _ "[''a'', ''b'']"] exI [of _ "''e''"] exI [of _ "JString ''limit''"])
      (simp del: append.simps)
qed

text \<open>A server that demands work, and then answers in two snapshots.\<close>

definition cg_net :: "unit net" where
  "cg_net =
     \<lparr>nt_send = \<lambda>req w.
        (Inr \<lparr>rp_status = 200, rp_headers = [],
              rp_body = str_bytes (if rq_url req = backend_base @ ''/conversation''
                                   then frames_text [''a'', ''b'', ''[DONE]''] else ''r'')\<rparr>, w),
      nt_stream = \<lambda>_ w. (Inl (Network ''down''), w), nt_serde = cg_serde, nt_bad_json = \<lambda>_. []\<rparr>"

lemma cg_net_simps:
  "nt_serde cg_net = cg_serde"
  "nt_send cg_net req () =
     (Inr \<lparr>rp_status = 200, rp_headers = [],
           rp_body = str_bytes (if rq_url req = backend_base @ ''/conversation''
                                then frames_text [''a'', ''b'', ''[DONE]''] else ''r'')\<rparr>, ())"
  by (simp_all add: cg_net_def)

definition cg_env :: "unit env" where
  "cg_env = \<lparr>ev_now_millis = \<lambda>w. (0, w), ev_fill = \<lambda>n w. (replicate n 0, w), ev_utc_now = \<lambda>w. (0, w)\<rparr>"

lemma rq_url_simps [simp]:
  "rq_url (with_headers hs r) = rq_url r" "rq_url (with_json sj v r) = rq_url r"
  "rq_url (with_header n h r) = rq_url r" "rq_url (cg_from cx r) = rq_url r"
  "rq_url (request_post u) = u"
  by (simp_all add: with_headers_eq with_json_def with_header_def cg_from_def with_proxy_def with_timeout_ms_def
      with_profile_def request_post_def request_new_def)


text \<open>
  The checkpoint keeps a conversation going only when the caller has put a remote conversation id into it:
  opening one never sets the id.
\<close>

lemma open_checkpoint_never_sets_remote:
  assumes "chatgpt_open_checkpoint env cx w = (Inr (Some c), w')" and "cp_remote_conversation_id c \<noteq> None"
  shows "cx_checkpoint cx = Some c"
  using assms
  by (auto simp: chatgpt_open_checkpoint_def placeholder_checkpoint_def split: option.splits if_splits prod.splits)

end
