(* ===== verification/Glm.thy ===== *)
theory Glm
  imports WebEnv Urls Sse
begin

text \<open>
  The GLM adapter for chat.z.ai: the signature (\<open>gravity-providers/src/glm/sign.rs\<close>), the request
  (\<open>glm/build.rs\<close>) and the provider with its stream (\<open>glm/provider.rs\<close>).

  HMAC-SHA256, base64 and \<open>chrono\<close>'s formatting and range of dates are crates, and \<open>str::to_lowercase\<close> is the
  Unicode table: parameters of the model.
\<close>

record glm_lib =
  gl_hmac_sha256 :: "u8 list \<Rightarrow> u8 list \<Rightarrow> u8 list"
  gl_base64 :: "u8 list \<Rightarrow> string"
  gl_in_range :: "int \<Rightarrow> bool"
  gl_format :: "string \<Rightarrow> int \<Rightarrow> string"
  gl_lowercase :: "string \<Rightarrow> string"

section \<open>Signing\<close>

definition master_key :: string where
  "master_key = ''key-@@@@)))()((9))-xxxx&&&%%%%%''"

definition time_step_ms :: u64 where
  "time_step_ms = 300000"

definition hmac_hex :: "glm_lib \<Rightarrow> u8 list \<Rightarrow> u8 list \<Rightarrow> string" where
  "hmac_hex gl key msg = hex_of (gl_hmac_sha256 gl key msg)"

definition signed_data :: "glm_lib \<Rightarrow> string \<Rightarrow> u64 \<Rightarrow> string \<Rightarrow> string \<Rightarrow> string" where
  "signed_data gl prompt timestamp request_id user_id =
     (let ts = dec_of (unat timestamp);
          sorted_payload = ''requestId,'' @ request_id @ '',timestamp,'' @ ts @ '',user_id,'' @ user_id
      in sorted_payload @ ''|'' @ gl_base64 gl (str_bytes prompt) @ ''|'' @ ts)"

definition generate_signature :: "glm_lib \<Rightarrow> string \<Rightarrow> u64 \<Rightarrow> string \<Rightarrow> string \<Rightarrow> string" where
  "generate_signature gl prompt timestamp request_id user_id =
     (let time_step = dec_of (unat (timestamp div time_step_ms));
          step_key = hmac_hex gl (str_bytes master_key) (str_bytes time_step)
      in hmac_hex gl (str_bytes step_key) (str_bytes (signed_data gl prompt timestamp request_id user_id)))"

section \<open>Requests\<close>

definition completions_url :: string where
  "completions_url = ''https://chat.z.ai/api/v2/chat/completions''"

definition models_url :: string where
  "models_url = ''https://chat.z.ai/api/models''"

definition glm_default_model :: string where
  "glm_default_model = ''glm-5''"

definition glm_models :: "string list" where
  "glm_models = [''glm-5'', ''glm-4.7'', ''glm-4-air-250414'', ''zero'', ''deep-research'']"

definition glm_user_agent :: string where
  "glm_user_agent =
     ''Mozilla/5.0 (Windows NT 10.0; Win64; x64) AppleWebKit/537.36 (KHTML, like Gecko) Chrome/145.0.0.0 Safari/537.36 OPR/129.0.0.0''"

definition quoted :: "string \<Rightarrow> string" where
  "quoted s = CHR 0x22 # s @ [CHR 0x22]"

definition glm_default_headers :: "(string \<times> string) list" where
  "glm_default_headers =
     [(''Accept'', ''*/*''), (''Accept-Language'', ''en-US''), (''Connection'', ''keep-alive''),
      (''Content-Type'', ''application/json''), (''Origin'', ''https://chat.z.ai''),
      (''Referer'', ''https://chat.z.ai''), (''Sec-Fetch-Dest'', ''empty''), (''Sec-Fetch-Mode'', ''cors''),
      (''Sec-Fetch-Site'', ''same-origin''), (''User-Agent'', glm_user_agent), (''X-Zai-Client'', ''web''),
      (''X-FE-Version'', ''prod-fe-1.1.7''),
      (''sec-ch-ua'', quoted ''Not:A-Brand'' @ '';v='' @ quoted ''99'' @ '', '' @ quoted ''Opera GX'' @ '';v='' @ quoted ''129''
                      @ '', '' @ quoted ''Chromium'' @ '';v='' @ quoted ''145''),
      (''sec-ch-ua-mobile'', ''?0''), (''sec-ch-ua-platform'', quoted ''Windows'')]"

fun glm_part_text :: "content_part \<Rightarrow> string option" where
  "glm_part_text (PText s) = Some s"
| "glm_part_text _ = None"

definition glm_text_of :: "message \<Rightarrow> string" where
  "glm_text_of m =
     (case msg_content m of
        Some (CText s) \<Rightarrow> s
      | Some (CParts parts) \<Rightarrow> join_with [CHR 0x0A] (List.map_filter glm_part_text parts)
      | None \<Rightarrow> [])"

definition signature_prompt :: "message list \<Rightarrow> string" where
  "signature_prompt messages =
     (case find (\<lambda>m. msg_role m = RUser) (rev messages) of Some m \<Rightarrow> glm_text_of m | None \<Rightarrow> [])"

definition datetime_variables :: "glm_lib \<Rightarrow> 'w env \<Rightarrow> 'w \<Rightarrow> jmap \<times> 'w" where
  "datetime_variables gl env w =
     (case ev_now_millis env w of
        (now, w1) \<Rightarrow>
          (let secs = sint (now_secs now);
               dt = (if gl_in_range gl secs then secs else 0);
               fmt = (\<lambda>f. JString (gl_format gl f dt))
           in ([(''{{CURRENT_DATETIME}}'', fmt ''%Y-%m-%d %H:%M:%S''), (''{{CURRENT_DATE}}'', fmt ''%Y-%m-%d''),
                (''{{CURRENT_TIME}}'', fmt ''%H:%M:%S''), (''{{CURRENT_WEEKDAY}}'', fmt ''%A''),
                (''{{CURRENT_TIMEZONE}}'', JString ''Asia/Calcutta''), (''{{USER_LANGUAGE}}'', JString ''en-US'')], w1)))"

definition glm_message :: "message \<Rightarrow> json" where
  "glm_message m =
     JObject [(''role'', JString (role_str (msg_role m))), (''content'', JString (glm_text_of m))]"

definition glm_features :: json where
  "glm_features =
     JObject [(''image_generation'', JBool False), (''web_search'', JBool False), (''auto_web_search'', JBool False),
              (''preview_mode'', JBool True), (''flags'', JArray []), (''vlm_tools_enable'', JBool False),
              (''vlm_web_search_enable'', JBool False), (''vlm_website_mode'', JBool False),
              (''enable_thinking'', JBool True)]"

definition build_body ::
    "glm_lib \<Rightarrow> 'w env \<Rightarrow> message list \<Rightarrow> string \<Rightarrow> string \<Rightarrow> string \<Rightarrow> 'w \<Rightarrow> json \<times> 'w" where
  "build_body gl env messages model chat_id user_name w =
     (let (vars, w1) = datetime_variables gl env w;
          (i, w2) = env_uuid env w1;
          (current, w3) = env_uuid env w2
      in (JObject
            [(''stream'', JBool True), (''model'', JString model), (''messages'', JArray (map glm_message messages)),
             (''signature_prompt'', JString (signature_prompt messages)), (''params'', JObject []),
             (''extra'', JObject []), (''features'', glm_features),
             (''variables'', JObject (alist_put ''{{USER_LOCATION}}'' (JString ''Unknown'')
                                       (alist_put ''{{USER_NAME}}'' (JString user_name) vars))),
             (''chat_id'', JString chat_id), (''id'', JString i), (''current_user_message_id'', JString current),
             (''current_user_message_parent_id'', JNull),
             (''background_tasks'', JObject [(''title_generation'', JBool True), (''tags_generation'', JBool True)])], w3))"

definition url_params :: "string \<Rightarrow> string \<Rightarrow> u64 \<Rightarrow> string \<Rightarrow> string \<Rightarrow> (string \<times> string) list" where
  "url_params token user_id timestamp request_id chat_id =
     (let ts = dec_of (unat timestamp)
      in [(''version'', ''0.0.1''), (''platform'', ''web''), (''language'', ''en-GB''), (''languages'', ''en-GB,en-US,en''),
          (''timezone'', ''Asia/Calcutta''), (''cookie_enabled'', ''true''), (''screen_width'', ''1536''),
          (''screen_height'', ''864''), (''screen_resolution'', ''1536x864''), (''viewport_height'', ''710''),
          (''viewport_width'', ''936''), (''viewport_size'', ''936x710''), (''color_depth'', ''32''),
          (''pixel_ratio'', ''1.25''), (''search'', ''''), (''hash'', ''''), (''host'', ''chat.z.ai''),
          (''hostname'', ''chat.z.ai''), (''protocol'', ''https:''), (''referrer'', ''''),
          (''title'', ''Z.ai - Free AI Chatbot & Agent powered by GLM-5.1 & GLM-5''), (''timezone_offset'', ''-330''),
          (''is_mobile'', ''false''), (''is_touch'', ''false''), (''max_touch_points'', ''0''),
          (''browser_name'', ''Opera''), (''os_name'', ''Windows''), (''timestamp'', ts), (''requestId'', request_id),
          (''user_id'', user_id), (''token'', token), (''user_agent'', glm_user_agent),
          (''current_url'', ''https://chat.z.ai/c/'' @ chat_id), (''pathname'', ''/c/'' @ chat_id),
          (''signature_timestamp'', ts)])"

definition build_url :: "string \<Rightarrow> string \<Rightarrow> u64 \<Rightarrow> string \<Rightarrow> string \<Rightarrow> string" where
  "build_url token user_id timestamp request_id chat_id =
     completions_url @ ''?'' @ query_string (url_params token user_id timestamp request_id chat_id)"

definition glm_user_id :: "chat_ctx \<Rightarrow> string" where
  "glm_user_id cx = (case inline_secret (pa_auth (cx_account cx)) ''user_id'' of Some u \<Rightarrow> u | None \<Rightarrow> [])"

text \<open>What a request draws from the environment, and the request made of it.\<close>

record glm_draft =
  gd_timestamp :: u64
  gd_request_id :: string
  gd_chat_id :: string
  gd_body :: json

definition glm_draw :: "glm_lib \<Rightarrow> 'w env \<Rightarrow> chat_ctx \<Rightarrow> 'w \<Rightarrow> glm_draft \<times> 'w" where
  "glm_draw gl env cx w =
     (let (timestamp, w1) = ev_now_millis env w;
          (request_id, w2) = env_uuid env w1;
          (chat_id, w3) = env_uuid env w2;
          m = mid_model (rq_model (cx_request cx));
          model = (if m = [] then glm_default_model else m);
          (body, w4) = build_body gl env (rq_messages (cx_request cx)) model chat_id (glm_user_id cx) w3
      in (\<lparr>gd_timestamp = timestamp, gd_request_id = request_id, gd_chat_id = chat_id, gd_body = body\<rparr>, w4))"

definition glm_from :: "chat_ctx \<Rightarrow> http_request \<Rightarrow> http_request" where
  "glm_from cx req =
     with_proxy (ctx_proxy cx)
       (with_timeout_ms (ctx_timeout_ms cx)
         (with_profile (profile_from_name (impersonate_or cx ''chrome'')) req))"

definition glm_request :: "glm_lib \<Rightarrow> serde \<Rightarrow> chat_ctx \<Rightarrow> glm_draft \<Rightarrow> http_request" where
  "glm_request gl sj cx d =
     (let signature = generate_signature gl (signature_prompt (rq_messages (cx_request cx)))
            (gd_timestamp d) (gd_request_id d) (glm_user_id cx);
          url = build_url (cx_secret cx) (glm_user_id cx) (gd_timestamp d) (gd_request_id d) (gd_chat_id d)
      in with_headers
           (glm_default_headers
            @ [(''Authorization'', ''Bearer '' @ cx_secret cx), (''X-Signature'', signature),
               (''X-Signature-Timestamp'', dec_of (unat (gd_timestamp d)))])
           (with_body (str_bytes (to_compact sj (gd_body d))) (glm_from cx (request_post url))))"

definition glm_build_request :: "glm_lib \<Rightarrow> serde \<Rightarrow> 'w env \<Rightarrow> chat_ctx \<Rightarrow> 'w \<Rightarrow> http_request \<times> 'w" where
  "glm_build_request gl sj env cx w = (case glm_draw gl env cx w of (d, w') \<Rightarrow> (glm_request gl sj cx d, w'))"

section \<open>Chunks\<close>

datatype chunk = ChunkDelta string | ChunkDone | ChunkSkip

definition glm_error :: "string \<Rightarrow> u16 \<Rightarrow> string \<Rightarrow> error" where
  "glm_error code status msg = ProviderErr (with_status status (provider_error_new Glm OtherKind code msg))"

definition chunk_error :: "glm_lib \<Rightarrow> jmap \<Rightarrow> error" where
  "chunk_error gl err =
     (let detail = (case jget_str (JObject err) ''detail'' of Some d \<Rightarrow> d | None \<Rightarrow> ''GLM returned a streaming error'');
          code = (case jget_str (JObject err) ''code'' of Some c \<Rightarrow> c | None \<Rightarrow> ''glm_stream_error'')
      in ProviderErr (provider_error_new Glm OtherKind (gl_lowercase gl code) detail))"

definition parse_data :: "glm_lib \<Rightarrow> json \<Rightarrow> error + chunk" where
  "parse_data gl data =
     (case Option.bind (jget data ''error'') as_object of
        Some err \<Rightarrow> Inl (chunk_error gl err)
      | None \<Rightarrow>
          (let phase = jget_str data ''phase'';
               content = (case jget_str data ''content'' of
                            Some c \<Rightarrow> if c \<noteq> [] then ChunkDelta c else ChunkSkip
                          | None \<Rightarrow> ChunkSkip)
           in Inr (case jget_str data ''delta_content'' of
                     Some delta \<Rightarrow> if phase = Some ''answer'' \<or> phase = None then ChunkDelta delta else content
                   | None \<Rightarrow> content)))"

definition parse_chunk :: "glm_lib \<Rightarrow> serde \<Rightarrow> string \<Rightarrow> error + chunk" where
  "parse_chunk gl sj raw =
     (if trim raw = ''[DONE]'' then Inr ChunkDone
      else (case from_text sj raw of
              None \<Rightarrow> Inr ChunkSkip
            | Some v \<Rightarrow>
                (case jget v ''data'' of
                   Some (JObject m) \<Rightarrow> parse_data gl (JObject m)
                 | _ \<Rightarrow> Inr ChunkSkip)))"

section \<open>The provider\<close>

definition glm_caps :: provider_capabilities where
  "glm_caps =
     \<lparr>cap_provider = Glm, tool_support = ToolNone, structured_output = OutJsonInstruction,
      remote_session = SessOptional, supports_system_prompt = True, supports_stateful_history = True,
      requires_remote_checkpoint = False, default_history_mode = HistAuto, supports_image_generation = False\<rparr>"

definition glm_response :: "string \<Rightarrow> string \<Rightarrow> chat_response" where
  "glm_response model_full s =
     \<lparr>rs_model = model_full, rs_message = message_assistant (trim s), rs_usage = usage_default,
      rs_tool_calls_executed = [], rs_provider_response_id = None, rs_finish_reason = Some ''stop'',
      rs_metadata = metadata_new\<rparr>"

fun glm_collect :: "glm_lib \<Rightarrow> serde \<Rightarrow> string \<Rightarrow> (error + sse_event) list \<Rightarrow> error + string" where
  "glm_collect gl sj s [] = Inr s"
| "glm_collect gl sj s (Inl e # _) = Inl e"
| "glm_collect gl sj s (Inr ev # es) =
     (if is_done ev then Inr s
      else (case parse_chunk gl sj (sse_data ev) of
              Inl e \<Rightarrow> Inl e
            | Inr (ChunkDelta d) \<Rightarrow> glm_collect gl sj (s @ d) es
            | Inr ChunkDone \<Rightarrow> Inr s
            | Inr ChunkSkip \<Rightarrow> glm_collect gl sj s es))"

definition glm_chat :: "glm_lib \<Rightarrow> 'w net \<Rightarrow> 'w env \<Rightarrow> chat_ctx \<Rightarrow> 'w \<Rightarrow> (error + chat_response) \<times> 'w" where
  "glm_chat gl net env cx w =
     (case glm_build_request gl (nt_serde net) env cx w of
        (req, w1) \<Rightarrow>
          (case nt_stream net req w1 of
             (Inl e, w2) \<Rightarrow> (Inl e, w2)
           | (Inr (status, hs, body), w2) \<Rightarrow>
               (if status \<noteq> 200 then (Inl (glm_error ''glm_request_failed'' status ''GLM request failed''), w2)
                else (map_sum id (glm_response (model_id_full_name (rq_model (cx_request cx))))
                        (glm_collect gl (nt_serde net) [] (events body)), w2))))"

fun glm_stream_loop :: "glm_lib \<Rightarrow> serde \<Rightarrow> string \<Rightarrow> string \<Rightarrow> (error + sse_event) list \<Rightarrow> event_stream" where
  "glm_stream_loop gl sj model s [] = [Inr (Done (glm_response model s))]"
| "glm_stream_loop gl sj model s (Inl e # _) = [Inl e]"
| "glm_stream_loop gl sj model s (Inr ev # es) =
     (if is_done ev then [Inr (Done (glm_response model s))]
      else (case parse_chunk gl sj (sse_data ev) of
              Inl e \<Rightarrow> [Inl e]
            | Inr (ChunkDelta d) \<Rightarrow> Inr (TextDelta (str_bytes d)) # glm_stream_loop gl sj model (s @ d) es
            | Inr ChunkDone \<Rightarrow> [Inr (Done (glm_response model s))]
            | Inr ChunkSkip \<Rightarrow> glm_stream_loop gl sj model s es))"

definition glm_chat_stream :: "glm_lib \<Rightarrow> 'w net \<Rightarrow> 'w env \<Rightarrow> chat_ctx \<Rightarrow> 'w \<Rightarrow> (error + event_stream) \<times> 'w" where
  "glm_chat_stream gl net env cx w =
     (case glm_build_request gl (nt_serde net) env cx w of
        (req, w1) \<Rightarrow>
          (case nt_stream net req w1 of
             (Inl e, w2) \<Rightarrow> (Inl e, w2)
           | (Inr (status, hs, body), w2) \<Rightarrow>
               (if status \<noteq> 200 then (Inl (glm_error ''glm_stream_failed'' status ''GLM stream failed''), w2)
                else (Inr (glm_stream_loop gl (nt_serde net) (model_id_full_name (rq_model (cx_request cx))) []
                             (events body)), w2))))"

definition glm_model :: "json \<Rightarrow> model_info option" where
  "glm_model m =
     map_option
       (\<lambda>i. \<lparr>mi_id = i, mi_display_name = jget_str m ''name'', mi_description = None, mi_tags = []\<rparr>) (jget_str m ''id'')"

definition glm_discover_models :: "'w net \<Rightarrow> chat_ctx \<Rightarrow> 'w \<Rightarrow> (error + model_info list) \<times> 'w" where
  "glm_discover_models net cx w =
     (let fallback = map model_info_bare glm_models;
          req = with_headers
                  (glm_default_headers
                   @ (if cx_secret cx \<noteq> [] then [(''Authorization'', ''Bearer '' @ cx_secret cx)] else []))
                  (glm_from cx (request_get models_url))
      in (case nt_send net req w of
            (Inl e, w') \<Rightarrow> (Inr fallback, w')
          | (Inr resp, w') \<Rightarrow>
              (if \<not> is_success resp then (Inr fallback, w')
               else (case value_of_bytes (nt_serde net) (rp_body resp) of
                       None \<Rightarrow> (Inr fallback, w')
                     | Some parsed \<Rightarrow>
                         (case (case Option.bind (jget parsed ''data'') as_array of
                                  Some items \<Rightarrow> Some items | None \<Rightarrow> as_array parsed) of
                            None \<Rightarrow> (Inr fallback, w')
                          | Some items \<Rightarrow>
                              (let out = List.map_filter glm_model items
                               in (Inr (if out = [] then fallback else out), w')))))))"

definition glm_provider :: "glm_lib \<Rightarrow> 'w net \<Rightarrow> 'w env \<Rightarrow> 'w provider" where
  "glm_provider gl net env =
     \<lparr>pv_capabilities = glm_caps, pv_list_models = glm_models, pv_discover_models = glm_discover_models net,
      pv_normalize_system_prompt = default_normalize_system_prompt,
      pv_open_checkpoint = default_open_checkpoint,
      pv_chat = glm_chat gl net env, pv_chat_stream = glm_chat_stream gl net env, pv_authenticator = None\<rparr>"

section \<open>Every request passes the server's check\<close>

text \<open>
  The check: the signature is recomputed from what travels, the query of the address and the body.
\<close>

definition glm_verifies :: "glm_lib \<Rightarrow> serde \<Rightarrow> http_request \<Rightarrow> bool" where
  "glm_verifies gl sj req \<longleftrightarrow>
     (let q = map_of (parse_query (drop (Suc (length completions_url)) (rq_url req)))
      in case (q ''requestId'', q ''signature_timestamp'', q ''user_id'',
               Option.bind (Option.bind (rq_body req) (value_of_bytes sj)) (\<lambda>v. jget_str v ''signature_prompt''),
               map_of (rq_headers req) ''X-Signature'') of
           (Some i, Some ts, Some user, Some prompt, Some signature) \<Rightarrow>
             signature = generate_signature gl prompt (word_of_nat (dec_value ts)) i user
         | _ \<Rightarrow> False)"

lemma rq_simps_glm [simp]:
  "rq_url (with_headers hs r) = rq_url r" "rq_url (with_body b r) = rq_url r"
  "rq_url (glm_from cx r) = rq_url r" "rq_url (request_post u) = u"
  "rq_body (with_headers hs r) = rq_body r" "rq_body (with_body b r) = Some b"
  "rq_headers (with_headers hs r) = rq_headers r @ hs" "rq_headers (with_body b r) = rq_headers r"
  "rq_headers (glm_from cx r) = rq_headers r" "rq_headers (request_post u) = []"
  by (simp_all add: with_headers_eq with_body_def glm_from_def with_proxy_def with_timeout_ms_def
      with_profile_def request_post_def request_new_def)

lemma drawn_prompt:
  assumes "glm_draw gl env cx w = (d, w')"
  shows "jget_str (gd_body d) ''signature_prompt'' = Some (signature_prompt (rq_messages (cx_request cx)))"
  using assms by (auto simp: glm_draw_def build_body_def jget_str_def Let_def split: prod.splits)

lemma parse_build_url:
  "parse_query (drop (Suc (length completions_url)) (build_url token user ts i chat)) = url_params token user ts i chat"
  by (simp add: build_url_def) (rule parse_query_string, simp add: url_params_def Let_def)

text \<open>
  C29.  Every request is signed for what it carries.  The request made of any draw reaches the server with a
  query that decodes to exactly the parameters of the call, the token, the user and the ids byte for byte
  whatever characters they have, and a check that recomputes the signature from the decoded query and the
  prompt in the decoded body accepts it.
\<close>

theorem glm_request_verifies:
  assumes "glm_draw gl env cx w = (d, w')"
    and "value_of_bytes sj (str_bytes (to_compact sj (gd_body d))) = Some (gd_body d)"
  shows "glm_build_request gl sj env cx w = (glm_request gl sj cx d, w')
   \<and> parse_query (drop (Suc (length completions_url)) (rq_url (glm_request gl sj cx d))) =
       url_params (cx_secret cx) (glm_user_id cx) (gd_timestamp d) (gd_request_id d) (gd_chat_id d)
   \<and> glm_verifies gl sj (glm_request gl sj cx d)"
proof -
  let ?req = "glm_request gl sj cx d"
  have url: "rq_url ?req = build_url (cx_secret cx) (glm_user_id cx) (gd_timestamp d) (gd_request_id d) (gd_chat_id d)"
    and body: "rq_body ?req = Some (str_bytes (to_compact sj (gd_body d)))"
    and headers: "rq_headers ?req = glm_default_headers
            @ [(''Authorization'', ''Bearer '' @ cx_secret cx),
               (''X-Signature'', generate_signature gl (signature_prompt (rq_messages (cx_request cx)))
                  (gd_timestamp d) (gd_request_id d) (glm_user_id cx)),
               (''X-Signature-Timestamp'', dec_of (unat (gd_timestamp d)))]"
    by (simp_all add: glm_request_def Let_def)
  have "glm_verifies gl sj ?req"
    using assms(2) drawn_prompt [OF assms(1)]
    by (simp add: glm_verifies_def url body headers parse_build_url)
      (simp add: url_params_def glm_default_headers_def dec_value_dec_of Let_def)
  then show ?thesis using assms(1) by (simp add: url parse_build_url glm_build_request_def)
qed

definition sample_glm :: glm_lib where
  "sample_glm =
     \<lparr>gl_hmac_sha256 = \<lambda>k m. k @ m, gl_base64 = bytes_str, gl_in_range = \<lambda>_. True,
      gl_format = \<lambda>f _. f, gl_lowercase = \<lambda>s. s\<rparr>"

definition sample_env :: "unit env" where
  "sample_env = \<lparr>ev_now_millis = \<lambda>w. (1700000000000, w), ev_fill = \<lambda>n w. (replicate n 7, w), ev_utc_now = \<lambda>w. (0, w)\<rparr>"

text \<open>A printer and parser that agree on one value.\<close>

definition one_serde :: "json \<Rightarrow> serde" where
  "one_serde v =
     \<lparr>to_compact = \<lambda>_. ''v'', to_pretty = \<lambda>_. ''v'', from_text = \<lambda>_. Some v, stream_next = \<lambda>_. None,
      number_f64 = \<lambda>_. None\<rparr>"

lemma glm_request_verifies_witness:
  "\<forall>cx. \<exists>d. glm_draw sample_glm sample_env cx () = (d, ())
     \<and> value_of_bytes (one_serde (gd_body d)) (str_bytes (to_compact (one_serde (gd_body d)) (gd_body d))) = Some (gd_body d)
     \<and> glm_verifies sample_glm (one_serde (gd_body d)) (glm_request sample_glm (one_serde (gd_body d)) cx d)"
proof
  fix cx
  obtain d where d: "glm_draw sample_glm sample_env cx () = (d, ())"
    by (cases "glm_draw sample_glm sample_env cx ()") simp
  let ?sj = "one_serde (gd_body d)"
  have "str_ok ''v''" by code_simp
  then have v: "value_of_bytes ?sj (str_bytes (to_compact ?sj (gd_body d))) = Some (gd_body d)"
    by (simp add: one_serde_def value_of_bytes_text)
  then show "\<exists>d. glm_draw sample_glm sample_env cx () = (d, ())
     \<and> value_of_bytes (one_serde (gd_body d)) (str_bytes (to_compact (one_serde (gd_body d)) (gd_body d))) = Some (gd_body d)
     \<and> glm_verifies sample_glm (one_serde (gd_body d)) (glm_request sample_glm (one_serde (gd_body d)) cx d)"
    using d glm_request_verifies [OF d v] by blast
qed

text \<open>Only the messages reach the body: a system prompt, which the capabilities declare supported, changes nothing.\<close>

lemma glm_drops_system_prompt:
  "glm_build_request gl sj env (cx\<lparr>cx_request := (cx_request cx)\<lparr>rq_system_prompt := sp\<rparr>\<rparr>) w =
   glm_build_request gl sj env cx w"
proof -
  let ?cx = "cx\<lparr>cx_request := (cx_request cx)\<lparr>rq_system_prompt := sp\<rparr>\<rparr>"
  have "glm_draw gl env ?cx w = glm_draw gl env cx w"
    by (simp add: glm_draw_def glm_user_id_def)
  moreover have "glm_request gl sj ?cx d = glm_request gl sj cx d" for d
    by (simp add: glm_request_def glm_user_id_def glm_from_def ctx_proxy_def ctx_timeout_ms_def impersonate_or_def)
  ultimately show ?thesis by (simp add: glm_build_request_def)
qed

section \<open>The stream and the reply agree\<close>

definition deltas_of :: "event_stream \<Rightarrow> string" where
  "deltas_of es =
     concat (List.map_filter (\<lambda>e. case e of Inr ev \<Rightarrow> map_option bytes_str (stream_as_text ev) | Inl _ \<Rightarrow> None) es)"

definition stream_outcome :: "event_stream \<Rightarrow> error + chat_response" where
  "stream_outcome es =
     (case last es of Inl e \<Rightarrow> Inl e | Inr (Done r) \<Rightarrow> Inr r | Inr _ \<Rightarrow> Inl (Network ''stream ended''))"

lemma glm_stream_loop_nonempty [simp]: "glm_stream_loop gl sj model s es \<noteq> []"
  by (induction gl sj model s es rule: glm_stream_loop.induct) (simp_all split: sum.split chunk.split)

lemma deltas_of_simps [simp]:
  "deltas_of [] = []" "deltas_of (Inl e # es) = deltas_of es" "deltas_of (Inr (Done r) # es) = deltas_of es"
  "deltas_of (Inr (TextDelta b) # es) = bytes_str b @ deltas_of es"
  by (simp_all add: deltas_of_def List.map_filter_simps)

lemma stream_outcome_simps [simp]:
  "stream_outcome [Inl e] = Inl e" "stream_outcome [Inr (Done r)] = Inr r"
  "es \<noteq> [] \<Longrightarrow> stream_outcome (x # es) = stream_outcome es"
  by (simp_all add: stream_outcome_def)

lemma glm_loop_outcome:
  "stream_outcome (glm_stream_loop gl sj model s es) = map_sum id (glm_response model) (glm_collect gl sj s es)"
  by (induction gl sj model s es rule: glm_stream_loop.induct) (simp_all split: sum.split chunk.split)

lemma glm_loop_deltas:
  "glm_collect gl sj s es = Inr s' \<Longrightarrow> s @ deltas_of (glm_stream_loop gl sj model s es) = s'"
  by (induction gl sj model s es rule: glm_stream_loop.induct) (auto split: if_splits sum.splits chunk.splits)

text \<open>
  The stream and the reply agree.  For every server, context and chunking, the buffered chat ends as the
  streamed one does: the same network error or a refusal that fails over alike, the same error in the
  middle of the stream, or the same response, whose text is the trimmed text of the streamed deltas; and
  both leave the world in the same state.
\<close>

theorem glm_stream_agrees:
  "case glm_chat_stream gl net env cx w of
     (Inl e, w') \<Rightarrow> (\<exists>e'. glm_chat gl net env cx w = (Inl e', w') \<and> should_failover e' = should_failover e)
   | (Inr es, w') \<Rightarrow>
       glm_chat gl net env cx w = (stream_outcome es, w')
       \<and> (case stream_outcome es of Inl _ \<Rightarrow> True | Inr r \<Rightarrow> response_text r = trim (deltas_of es))"
proof -
  obtain req w1 where req: "glm_build_request gl (nt_serde net) env cx w = (req, w1)"
    by (cases "glm_build_request gl (nt_serde net) env cx w")
  obtain r w2 where sent: "nt_stream net req w1 = (r, w2)" by (cases "nt_stream net req w1")
  show ?thesis
  proof (cases r)
    case (Inl e)
    then show ?thesis by (simp add: glm_chat_stream_def glm_chat_def req sent)
  next
    case (Inr a)
    obtain status hs body where a: "a = (status, hs, body)" by (cases a)
    let ?es = "glm_stream_loop gl (nt_serde net) (model_id_full_name (rq_model (cx_request cx))) [] (events body)"
    have "response_text (glm_response model s) = trim s" for model s
      by (simp add: glm_response_def response_text_def core_simps)
    then have "case stream_outcome ?es of Inl _ \<Rightarrow> True | Inr r \<Rightarrow> response_text r = trim (deltas_of ?es)"
      using glm_loop_deltas [of gl "nt_serde net" "[]" "events body"]
      by (cases "glm_collect gl (nt_serde net) [] (events body)") (simp_all add: glm_loop_outcome)
    then show ?thesis
      using Inr a
      by (simp add: glm_chat_stream_def glm_chat_def req sent glm_loop_outcome glm_error_def
          pe_should_failover_def with_status_def provider_error_new_def)
  qed
qed

end
