(* ===== verification/ClaudeParser.thy ===== *)
theory ClaudeParser
  imports Json
begin

text \<open>
  The event accumulator of the Claude adapter (\<open>gravity-providers/src/claude/parser.rs\<close>): it folds the
  decoded events of a completion stream into text, tool calls and a stop reason, and hands each text
  delta on as it arrives.
\<close>

section \<open>Accumulator\<close>

record claude_tool_call =
  cc_id :: string
  cc_name :: string
  cc_input :: json
  cc_partial_json :: string

record claude_parsed =
  clp_text :: string
  clp_assistant_message_uuid :: "string option"
  clp_stop_reason :: "string option"
  clp_tool_calls :: "claude_tool_call list"

record claude_accumulator =
  ac_parsed :: claude_parsed
  ac_order :: "string list"

definition claude_arguments :: "serde \<Rightarrow> claude_tool_call \<Rightarrow> jmap" where
  "claude_arguments sj tc =
     (let streamed = (if cc_partial_json tc \<noteq> []
                      then (case from_text sj (cc_partial_json tc) of Some (JObject m) \<Rightarrow> m | _ \<Rightarrow> [])
                      else [])
      in case cc_input tc of
           JObject m \<Rightarrow> if m \<noteq> [] then m else streamed
         | _ \<Rightarrow> streamed)"

definition claude_new :: claude_accumulator where
  "claude_new =
     \<lparr>ac_parsed = \<lparr>clp_text = [], clp_assistant_message_uuid = None, clp_stop_reason = None, clp_tool_calls = []\<rparr>,
      ac_order = []\<rparr>"

text \<open>\<open>a.or_else(|| b)\<close>\<close>

fun or_else :: "'a option \<Rightarrow> 'a option \<Rightarrow> 'a option" where
  "or_else (Some x) y = Some x"
| "or_else None y = y"

definition str_or :: "string \<Rightarrow> json option \<Rightarrow> string" where
  "str_or dflt v = (case Option.bind v as_str of Some s \<Rightarrow> s | None \<Rightarrow> dflt)"

definition json_or_null :: "json option \<Rightarrow> json" where
  "json_or_null v = (case v of Some x \<Rightarrow> x | None \<Rightarrow> JNull)"

text \<open>The first call with the id gets the fragment.\<close>

fun append_partial :: "string \<Rightarrow> string \<Rightarrow> claude_tool_call list \<Rightarrow> claude_tool_call list" where
  "append_partial tid pj [] = []"
| "append_partial tid pj (tc # tcs) =
     (if cc_id tc = tid then tc\<lparr>cc_partial_json := cc_partial_json tc @ pj\<rparr> # tcs
      else tc # append_partial tid pj tcs)"

definition push_block_start :: "json \<Rightarrow> claude_accumulator \<Rightarrow> claude_accumulator" where
  "push_block_start block acc =
     (if jget_str block ''type'' = Some ''tool_use'' then
        (let i = str_or [] (or_else (jget block ''id'') (jget block ''tool_use_id''))
         in if i \<noteq> [] then
              \<lparr>ac_parsed = (ac_parsed acc)\<lparr>clp_tool_calls := clp_tool_calls (ac_parsed acc) @
                  [\<lparr>cc_id = i, cc_name = str_or [] (jget block ''name''),
                    cc_input = json_or_null (jget block ''input''),
                    cc_partial_json = str_or [] (jget block ''partial_json'')\<rparr>]\<rparr>,
               ac_order = ac_order acc @ [i]\<rparr>
            else acc)
      else acc)"

definition push_block_delta :: "json \<Rightarrow> claude_accumulator \<Rightarrow> string option \<times> claude_accumulator" where
  "push_block_delta delta acc =
     (case jget_str delta ''type'' of
        None \<Rightarrow> (None, acc)
      | Some ty \<Rightarrow>
          if ty = ''text_delta'' then
            (let t = str_or [] (jget delta ''text'')
             in (if t \<noteq> [] then Some t else None,
                 acc\<lparr>ac_parsed := (ac_parsed acc)\<lparr>clp_text := clp_text (ac_parsed acc) @ t\<rparr>\<rparr>))
          else if ty = ''input_json_delta'' \<or> ty = ''tool_use_delta'' then
            (case (Option.bind (or_else (jget delta ''tool_use_id'') (jget delta ''id'')) as_str,
                   Option.bind (or_else (jget delta ''partial_json'') (jget delta ''text'')) as_str) of
               (Some tid, Some pj) \<Rightarrow>
                 (None, acc\<lparr>ac_parsed := (ac_parsed acc)
                          \<lparr>clp_tool_calls := append_partial tid pj (clp_tool_calls (ac_parsed acc))\<rparr>\<rparr>)
             | _ \<Rightarrow> (None, acc))
          else (None, acc))"

definition set_stop_reason :: "string option \<Rightarrow> claude_accumulator \<Rightarrow> claude_accumulator" where
  "set_stop_reason r acc =
     (case r of None \<Rightarrow> acc | Some sr \<Rightarrow> acc\<lparr>ac_parsed := (ac_parsed acc)\<lparr>clp_stop_reason := Some sr\<rparr>\<rparr>)"

definition claude_push :: "json \<Rightarrow> claude_accumulator \<Rightarrow> string option \<times> claude_accumulator" where
  "claude_push event acc =
     (let ty = str_or [] (jget event ''type'')
      in if ty = ''message_start'' then
           (None, case Option.bind (jget event ''message'') (\<lambda>m. jget_str m ''uuid'') of
                    Some uuid \<Rightarrow> acc\<lparr>ac_parsed := (ac_parsed acc)\<lparr>clp_assistant_message_uuid := Some uuid\<rparr>\<rparr>
                  | None \<Rightarrow> acc)
         else if ty = ''content_block_start'' then
           (None, push_block_start (json_or_null (jget event ''content_block'')) acc)
         else if ty = ''content_block_delta'' then
           push_block_delta (json_or_null (jget event ''delta'')) acc
         else if ty = ''message_delta'' then
           (None, set_stop_reason (Option.bind (jget event ''delta'') (\<lambda>d. jget_str d ''stop_reason'')) acc)
         else if ty = ''message_stop'' then
           (None, if clp_stop_reason (ac_parsed acc) = None
                  then set_stop_reason (jget_str event ''stop_reason'') acc else acc)
         else (None, acc))"

definition claude_finish :: "claude_accumulator \<Rightarrow> claude_parsed" where
  "claude_finish acc = ac_parsed acc"

section \<open>The events of a completion\<close>

text \<open>The events a completion is made of, and their form on the wire.\<close>

datatype claude_event =
    CMessage string
  | CText string
  | CToolBegin string string
  | CToolInput string string
  | CStop string
  | CEnd

fun claude_wire :: "claude_event \<Rightarrow> json" where
  "claude_wire (CMessage uuid) =
     JObject [(''type'', JString ''message_start''), (''message'', JObject [(''uuid'', JString uuid)])]"
| "claude_wire (CText t) =
     JObject [(''type'', JString ''content_block_delta''),
              (''delta'', JObject [(''type'', JString ''text_delta''), (''text'', JString t)])]"
| "claude_wire (CToolBegin i name) =
     JObject [(''type'', JString ''content_block_start''),
              (''content_block'', JObject [(''type'', JString ''tool_use''), (''id'', JString i),
                                           (''name'', JString name)])]"
| "claude_wire (CToolInput i pj) =
     JObject [(''type'', JString ''content_block_delta''),
              (''delta'', JObject [(''type'', JString ''input_json_delta''), (''tool_use_id'', JString i),
                                   (''partial_json'', JString pj)])]"
| "claude_wire (CStop r) =
     JObject [(''type'', JString ''message_delta''), (''delta'', JObject [(''stop_reason'', JString r)])]"
| "claude_wire CEnd = JObject [(''type'', JString ''message_stop'')]"

text \<open>Feeding a whole stream: what was handed on, and the final state.\<close>

fun claude_feed :: "json list \<Rightarrow> claude_accumulator \<Rightarrow> string list \<times> claude_accumulator" where
  "claude_feed [] acc = ([], acc)"
| "claude_feed (e # es) acc =
     (case claude_push e acc of
        (d, acc1) \<Rightarrow>
          (case claude_feed es acc1 of
             (ds, acc2) \<Rightarrow> ((case d of None \<Rightarrow> ds | Some t \<Rightarrow> t # ds), acc2)))"

fun text_of :: "claude_event \<Rightarrow> string" where
  "text_of (CText t) = t"
| "text_of _ = []"

fun pieces :: "string \<Rightarrow> claude_event list \<Rightarrow> string" where
  "pieces i [] = []"
| "pieces i (CToolInput j pj # es) = (if j = i then pj else []) @ pieces i es"
| "pieces i (_ # es) = pieces i es"

text \<open>The calls of a stream: each announced call with the fragments that follow its announcement.\<close>

fun assembled :: "claude_event list \<Rightarrow> claude_tool_call list" where
  "assembled [] = []"
| "assembled (CToolBegin i name # es) =
     \<lparr>cc_id = i, cc_name = name, cc_input = JNull, cc_partial_json = pieces i es\<rparr> # assembled es"
| "assembled (_ # es) = assembled es"

fun begun :: "claude_event \<Rightarrow> string option" where
  "begun (CToolBegin i name) = Some i"
| "begun _ = None"

definition begun_ids :: "claude_event list \<Rightarrow> string list" where
  "begun_ids es = List.map_filter begun es"

fun last_stop :: "string option \<Rightarrow> claude_event list \<Rightarrow> string option" where
  "last_stop r [] = r"
| "last_stop r (CStop s # es) = last_stop (Some s) es"
| "last_stop r (_ # es) = last_stop r es"

lemmas push_simps = claude_push_def str_or_def json_or_null_def jget_str_def push_block_start_def
  push_block_delta_def set_stop_reason_def

definition grow :: "claude_event list \<Rightarrow> claude_tool_call \<Rightarrow> claude_tool_call" where
  "grow es tc = tc\<lparr>cc_partial_json := cc_partial_json tc @ pieces (cc_id tc) es\<rparr>"

lemma grow_Nil [simp]: "grow [] tc = tc"
  by (simp add: grow_def)

lemma map_grow_append:
  "distinct (map cc_id tcs) \<Longrightarrow>
   map (grow es) (append_partial i pj tcs) = map (grow (CToolInput i pj # es)) tcs"
proof (induction tcs)
  case Nil
  show ?case by simp
next
  case (Cons tc tcs)
  show ?case
  proof (cases "cc_id tc = i")
    case True
    with Cons.prems have "cc_id t \<noteq> i" if "t \<in> set tcs" for t
      using that by (metis distinct.simps(2) image_eqI list.set_map list.simps(9))
    then have "map (grow (CToolInput i pj # es)) tcs = map (grow es) tcs"
      by (auto simp: grow_def)
    then show ?thesis using True by (simp add: grow_def)
  next
    case False
    then show ?thesis using Cons by (simp add: grow_def)
  qed
qed

lemma ids_append_partial [simp]: "map cc_id (append_partial i pj tcs) = map cc_id tcs"
  by (induction tcs) auto

lemma feed_assembles:
  assumes "distinct (map cc_id (clp_tool_calls (ac_parsed acc)) @ begun_ids es)"
    and "[] \<notin> set (begun_ids es)"
    and "claude_feed (map claude_wire es) acc = (ds, acc')"
  shows "concat ds = concat (map text_of es)
       \<and> clp_text (ac_parsed acc') = clp_text (ac_parsed acc) @ concat (map text_of es)
       \<and> clp_tool_calls (ac_parsed acc') = map (grow es) (clp_tool_calls (ac_parsed acc)) @ assembled es
       \<and> clp_stop_reason (ac_parsed acc') = last_stop (clp_stop_reason (ac_parsed acc)) es
       \<and> ac_order acc' = ac_order acc @ begun_ids es"
  using assms
proof (induction es arbitrary: acc ds)
  case Nil
  then show ?case by (simp add: begun_ids_def)
next
  case (Cons e es)
  obtain d acc1 where p: "claude_push (claude_wire e) acc = (d, acc1)"
    by (cases "claude_push (claude_wire e) acc")
  obtain ds1 where f: "claude_feed (map claude_wire es) acc1 = (ds1, acc')"
    and ds: "ds = (case d of None \<Rightarrow> ds1 | Some t \<Rightarrow> t # ds1)"
    using Cons.prems(3) p by (auto split: prod.splits)
  note IH = Cons.IH [OF _ _ f]
  show ?case
  proof (cases e)
    case (CMessage uuid)
    then show ?thesis using IH p Cons.prems(1,2) ds
      by (auto simp: push_simps begun_ids_def List.map_filter_simps grow_def)
  next
    case (CText t)
    then show ?thesis using IH p Cons.prems(1,2) ds
      by (auto simp: push_simps begun_ids_def List.map_filter_simps grow_def split: if_splits)
  next
    case (CToolBegin i name)
    then have "i \<noteq> []" using Cons.prems(2) by (auto simp: begun_ids_def List.map_filter_simps)
    then show ?thesis using CToolBegin IH p Cons.prems(1,2) ds
      by (auto simp: push_simps begun_ids_def List.map_filter_simps grow_def)
  next
    case (CToolInput i pj)
    then have acc1: "acc1 = acc\<lparr>ac_parsed := (ac_parsed acc)
        \<lparr>clp_tool_calls := append_partial i pj (clp_tool_calls (ac_parsed acc))\<rparr>\<rparr>" "d = None"
      using p by (simp_all add: push_simps)
    have "distinct (map cc_id (clp_tool_calls (ac_parsed acc1)) @ begun_ids es)" "[] \<notin> set (begun_ids es)"
      using Cons.prems(1,2) CToolInput acc1(1) by (simp_all add: begun_ids_def List.map_filter_simps)
    from IH [OF this] show ?thesis
      using CToolInput Cons.prems(1) ds acc1
      by (simp add: map_grow_append begun_ids_def List.map_filter_simps)
  next
    case (CStop r)
    then show ?thesis using IH p Cons.prems(1,2) ds
      by (auto simp: push_simps begun_ids_def List.map_filter_simps grow_def)
  next
    case CEnd
    then show ?thesis using IH p Cons.prems(1,2) ds
      by (auto simp: push_simps begun_ids_def List.map_filter_simps grow_def split: if_splits)
  qed
qed

text \<open>
  C38.  A Claude stream is put together right.  For every completion whose tool ids are distinct and not
  empty, however its text, its tool announcements and the argument fragments of different tools are
  interleaved: the text is the text deltas in order, which is also what was handed on while streaming;
  the tool calls are the announced ones in order, each with exactly its own fragments in order; and the
  stop reason is the last one sent.
\<close>

theorem claude_stream_assembled:
  assumes "distinct (begun_ids es)" and "[] \<notin> set (begun_ids es)"
  shows "case claude_feed (map claude_wire es) claude_new of (ds, acc) \<Rightarrow>
     concat ds = concat (map text_of es)
   \<and> clp_text (claude_finish acc) = concat (map text_of es)
   \<and> clp_tool_calls (claude_finish acc) = assembled es
   \<and> map cc_id (assembled es) = begun_ids es
   \<and> clp_stop_reason (claude_finish acc) = last_stop None es"
proof -
  obtain ds acc where f: "claude_feed (map claude_wire es) claude_new = (ds, acc)"
    by (cases "claude_feed (map claude_wire es) claude_new")
  have "map cc_id (assembled es) = begun_ids es"
    by (induction es rule: assembled.induct) (simp_all add: begun_ids_def List.map_filter_simps)
  moreover have "distinct (map cc_id (clp_tool_calls (ac_parsed claude_new)) @ begun_ids es)"
    using assms(1) by (simp add: claude_new_def)
  ultimately show ?thesis
    using feed_assembles [OF _ assms(2) f] f by (simp add: claude_new_def claude_finish_def)
qed

lemma claude_stream_assembled_witness:
  "clp_tool_calls (claude_finish (snd (claude_feed
     (map claude_wire [CText ''a'', CToolBegin ''1'' ''f'', CToolBegin ''2'' ''g'', CToolInput ''1'' ''x'',
                       CToolInput ''2'' ''y'', CText ''b'', CToolInput ''1'' ''z'']) claude_new))) =
   [\<lparr>cc_id = ''1'', cc_name = ''f'', cc_input = JNull, cc_partial_json = ''xz''\<rparr>,
    \<lparr>cc_id = ''2'', cc_name = ''g'', cc_input = JNull, cc_partial_json = ''y''\<rparr>]"
  using claude_stream_assembled [of "[CText ''a'', CToolBegin ''1'' ''f'', CToolBegin ''2'' ''g'',
      CToolInput ''1'' ''x'', CToolInput ''2'' ''y'', CText ''b'', CToolInput ''1'' ''z'']"]
  by (simp add: begun_ids_def List.map_filter_simps split: prod.splits)

end
