(* ===== verification/Adapters.thy ===== *)
theory Adapters
  imports OaiWire WebEnv
begin

text \<open>
  Parts that the remaining adapters of \<open>gravity-providers\<close> have in common, each in its own copy: the text of a
  message, the common settings of a request, the error of a refused one, and the plain response.
\<close>

text \<open>\<open>text_of\<close>: the text parts of a message, one per line.\<close>

fun text_part :: "content_part \<Rightarrow> string option" where
  "text_part (PText s) = Some s"
| "text_part _ = None"

definition text_of :: "message \<Rightarrow> string" where
  "text_of m =
     (case msg_content m of
        Some (CText s) \<Rightarrow> s
      | Some (CParts parts) \<Rightarrow> join_with [CHR 0x0A] (List.map_filter text_part parts)
      | None \<Rightarrow> [])"

lemma text_of_simps [core_simps]:
  "text_of (message_user s) = s" "text_of (message_assistant s) = s" "text_of (message_system s) = s"
  "text_of (message_tool_result r) = []"
  "text_of (message_assistant_with_tools (Some (CText s)) calls) = s"
  "text_of (message_assistant_with_tools None calls) = []"
  by (simp_all add: text_of_def message_defs)

definition request_from :: "string \<Rightarrow> chat_ctx \<Rightarrow> http_request \<Rightarrow> http_request" where
  "request_from dflt cx req =
     with_proxy (ctx_proxy cx)
       (with_timeout_ms (ctx_timeout_ms cx) (with_profile (profile_from_name (impersonate_or cx dflt)) req))"

lemma request_from_simps [simp]:
  "rq_url (request_from dflt cx r) = rq_url r" "rq_headers (request_from dflt cx r) = rq_headers r"
  "rq_body (request_from dflt cx r) = rq_body r"
  by (simp_all add: request_from_def with_proxy_def with_timeout_ms_def with_profile_def)

definition refused :: "provider_name \<Rightarrow> string \<Rightarrow> u16 \<Rightarrow> string \<Rightarrow> error" where
  "refused p code status msg = ProviderErr (with_status status (provider_error_new p OtherKind code msg))"

text \<open>A buffered request whose reply must be a success.\<close>

definition send_ok :: "'w net \<Rightarrow> (http_response \<Rightarrow> error) \<Rightarrow> http_request \<Rightarrow> 'w \<Rightarrow> (error + http_response) \<times> 'w" where
  "send_ok net err req w =
     (case nt_send net req w of
        (Inl e, w') \<Rightarrow> (Inl e, w')
      | (Inr resp, w') \<Rightarrow> (if is_success resp then Inr resp else Inl (err resp), w'))"

definition stop_response :: "chat_ctx \<Rightarrow> message \<Rightarrow> chat_response" where
  "stop_response cx m =
     \<lparr>rs_model = model_id_full_name (rq_model (cx_request cx)), rs_message = m, rs_usage = usage_default,
      rs_tool_calls_executed = [], rs_provider_response_id = None, rs_finish_reason = Some ''stop'',
      rs_metadata = metadata_new\<rparr>"

text \<open>A text with tool calls, when there are any.\<close>

definition calls_message :: "string \<Rightarrow> tool_call list \<Rightarrow> message" where
  "calls_message s calls =
     (if calls = [] then message_assistant s else message_assistant_with_tools (Some (CText s)) calls)"

text \<open>\<open>from_str::<Value>(..).ok().and_then(|v| v.as_object().cloned()).unwrap_or_default()\<close>\<close>

definition object_or_empty :: "serde \<Rightarrow> string \<Rightarrow> jmap" where
  "object_or_empty sj s = (case Option.bind (from_text sj s) as_object of Some m \<Rightarrow> m | None \<Rightarrow> [])"

text \<open>A buffered reply replayed as one delta.\<close>

definition replay :: "(error + chat_response) \<times> 'w \<Rightarrow> (error + event_stream) \<times> 'w" where
  "replay r =
     (case r of
        (Inl e, w) \<Rightarrow> (Inl e, w)
      | (Inr resp, w) \<Rightarrow>
          (Inr ((if response_text resp = [] then [] else [Inr (TextDelta (str_bytes (response_text resp)))])
                @ [Inr (Done resp)]), w))"

text \<open>The assignment \<open>v["k"] = x\<close> to an object.\<close>

fun jset :: "string \<Rightarrow> json \<Rightarrow> json \<Rightarrow> json" where
  "jset k x (JObject m) = JObject (alist_put k x m)"
| "jset k x v = v"

lemma jget_jset [simp]: "is_object v \<Longrightarrow> jget (jset k x v) k' = (if k' = k then Some x else jget v k')"
  by (cases v) auto

lemma is_object_jset [simp]: "is_object (jset k x v) = is_object v"
  by (cases v) auto

text \<open>\<open>str::split\<close> at a string.\<close>

function split_str :: "string \<Rightarrow> string \<Rightarrow> string list" where
  "split_str sep s =
     (case (if sep = [] then None else find_str sep s) of
        None \<Rightarrow> [s]
      | Some i \<Rightarrow> take i s # split_str sep (drop (i + length sep) s))"
  by pat_completeness auto
termination
  by (relation "measure (\<lambda>(sep, s). length s)")
    (auto split: if_splits dest: find_str_bound simp: length_greater_0_conv [symmetric] simp del: length_greater_0_conv)

declare split_str.simps [simp del]

text \<open>Text without the first character of a pattern is passed over.\<close>

lemma find_str_skip: "c \<notin> set h \<Longrightarrow> find_str (c # p) (h @ s) = map_option (\<lambda>n. n + length h) (find_str (c # p) s)"
proof (induction h)
  case Nil
  show ?case by (cases "find_str (c # p) s") simp_all
next
  case (Cons d h)
  then show ?case by (cases "find_str (c # p) s") auto
qed

text \<open>\<open>str::replace\<close>.\<close>

definition replace_str :: "string \<Rightarrow> string \<Rightarrow> string \<Rightarrow> string" where
  "replace_str old new s = join_with new (split_str old s)"

lemma split_str_skip:
  assumes "c \<notin> set h"
  shows "split_str (c # p) (h @ (c # p) @ s) = h # split_str (c # p) s"
proof -
  have "find_str (c # p) ((c # p) @ s) = Some 0"
    by (cases s) (simp_all add: starts_with_iff)
  then have "find_str (c # p) (h @ (c # p) @ s) = Some (length h)"
    using find_str_skip [OF assms, of p "(c # p) @ s"] by simp
  moreover have "drop (length h + length (c # p)) (h @ (c # p) @ s) = s"
    unfolding append_assoc [symmetric] by simp
  ultimately show ?thesis
    unfolding split_str.simps [of "c # p" "h @ (c # p) @ s"] by simp
qed

lemma split_str_none:
  assumes "c \<notin> set h"
  shows "split_str (c # p) h = [h]"
proof -
  have "find_str (c # p) h = None" using find_str_skip [OF assms, of p "[]"] by simp
  then show ?thesis by (simp add: split_str.simps [of "c # p" h])
qed

end
