(* ===== verification/Claude.thy ===== *)
theory Claude
  imports ClaudeParser Adapters Auth Sse "HOL-Library.List_Lexorder" "HOL-Library.Char_ord"
begin

text \<open>
  The claude.ai web adapter (\<open>gravity-providers/src/claude/mod.rs\<close>, \<open>auth.rs\<close>, \<open>constants.rs\<close>): the credentials and
  headers of an account, the conversation that has to exist on the server before a completion, the tool results
  that are posted before it, the completion itself, buffered and streamed, and the provider.
\<close>

definition claude_caps :: provider_capabilities where
  "claude_caps =
     \<lparr>cap_provider = Claude, tool_support = ToolNative, structured_output = OutJsonInstruction,
      remote_session = SessRequired, supports_system_prompt = True, supports_stateful_history = True,
      requires_remote_checkpoint = True, default_history_mode = HistAuto, supports_image_generation = False\<rparr>"

definition claude_models :: "string list" where
  "claude_models =
     [''claude-sonnet-4-5-20250929'', ''claude-sonnet-4-6'', ''claude-haiku-4-5-20251001'', ''claude-sonnet-4-7'',
      ''claude-opus-4-7'']"

definition claude_base_url :: string where
  "claude_base_url = ''https://claude.ai/api''"

definition claude_user_agent :: string where
  "claude_user_agent =
     ''Mozilla/5.0 (Windows NT 10.0; Win64; x64) AppleWebKit/537.36 (KHTML, like Gecko) Chrome/145.0.0.0 Safari/537.36''"

definition organizations_path :: string where
  "organizations_path = ''/organizations''"

definition conversations_path :: string where
  "conversations_path = ''/organizations/{org_id}/chat_conversations''"

definition completion_path :: string where
  "completion_path = ''/organizations/{org_id}/chat_conversations/{conversation_id}/completion''"

definition tool_result_path :: string where
  "tool_result_path = ''/organizations/{org_id}/chat_conversations/{conversation_id}/tool_result''"

section \<open>Credentials\<close>

record claude_auth =
  cl_session_key :: string
  cl_device_id :: string
  cl_org_id :: "string option"
  cl_routing_hint :: "string option"
  cl_client_version :: string
  cl_client_sha :: "string option"
  cl_anonymous_id :: "string option"
  cl_extra_cookies :: "(string \<times> string) list"
  cl_extra_headers :: "(string \<times> string) list"

definition session_key_of :: "provider_account \<Rightarrow> string \<Rightarrow> error + string" where
  "session_key_of a secret =
     (if secret \<noteq> [] then Inr secret
      else case secret_of a ''session_key'' of
             Some k \<Rightarrow> Inr k
           | None \<Rightarrow>
               if starts_with ''sk-ant-sid'' (au_secret_ref (pa_auth a)) then Inr (au_secret_ref (pa_auth a))
               else Inl (Configuration (''missing Claude session key for account '' @ pa_account_id a)))"

text \<open>The iteration over a \<open>BTreeMap\<close>: by ascending key.\<close>

definition btree_entries :: "(string \<rightharpoonup> string) \<Rightarrow> (string \<times> string) list" where
  "btree_entries m = map (\<lambda>k. (k, the (m k))) (sorted_list_of_set (dom m))"

definition claude_auth_of :: "provider_account \<Rightarrow> string \<Rightarrow> error + claude_auth" where
  "claude_auth_of a secret =
     (case session_key_of a secret of
        Inl e \<Rightarrow> Inl e
      | Inr key \<Rightarrow>
          Inr \<lparr>cl_session_key = key,
               cl_device_id =
                 (case or_else (au_device_id (pa_auth a)) (secret_of a ''device_id'') of
                    Some d \<Rightarrow> d | None \<Rightarrow> ''gravity-dev-'' @ pa_account_id a),
               cl_org_id = au_org_id (pa_auth a),
               cl_routing_hint = or_else (au_routing_hint (pa_auth a)) (secret_of a ''routing_hint''),
               cl_client_version = (case secret_of a ''client_version'' of Some v \<Rightarrow> v | None \<Rightarrow> ''1.0.0''),
               cl_client_sha = secret_of a ''client_sha'',
               cl_anonymous_id = secret_of a ''anonymous_id'',
               cl_extra_cookies =
                 List.map_filter (\<lambda>(k, v). map_option (Pair k) (as_str v))
                   (case au_extra (pa_auth a) of Some m \<Rightarrow> m | None \<Rightarrow> []),
               cl_extra_headers = btree_entries (tp_extra_headers (pa_transport a))\<rparr>)"

definition opt_entry :: "string \<Rightarrow> string option \<Rightarrow> (string \<times> string) list" where
  "opt_entry k v = (case v of None \<Rightarrow> [] | Some x \<Rightarrow> [(k, x)])"

definition cookie_pairs :: "claude_auth \<Rightarrow> (string \<times> string) list" where
  "cookie_pairs auth =
     [(''sessionKey'', cl_session_key auth), (''anthropic-device-id'', cl_device_id auth),
      (''CH-prefers-color-scheme'', ''dark''), (''cookie_seed_done'', ''1''), (''app-shell-mode'', ''gate-disabled'')]
     @ opt_entry ''routingHint'' (cl_routing_hint auth) @ opt_entry ''lastActiveOrg'' (cl_org_id auth)
     @ filter (\<lambda>(k, v). k = ''routingHint'' \<or> k = ''lastActiveOrg'') (cl_extra_cookies auth)"

definition claude_cookies :: "claude_auth \<Rightarrow> string" where
  "claude_cookies auth = join_with ''; '' (map (\<lambda>(k, v). k @ ''='' @ v) (cookie_pairs auth))"

definition claude_headers :: "claude_auth \<Rightarrow> bool \<Rightarrow> (string \<times> string) list" where
  "claude_headers auth streaming =
     [(''accept'', if streaming then ''text/event-stream'' else ''*/*''), (''accept-language'', ''en-US,en;q=0.9''),
      (''anthropic-client-platform'', ''web_claude_ai''), (''anthropic-client-version'', cl_client_version auth),
      (''content-type'', ''application/json''), (''origin'', ''https://claude.ai''),
      (''referer'', ''https://claude.ai/chat''), (''user-agent'', claude_user_agent),
      (''anthropic-device-id'', cl_device_id auth), (''cookie'', claude_cookies auth)]
     @ opt_entry ''anthropic-routing-hint'' (cl_routing_hint auth)
     @ opt_entry ''anthropic-client-sha'' (cl_client_sha auth)
     @ opt_entry ''anthropic-anonymous-id'' (cl_anonymous_id auth) @ cl_extra_headers auth"

section \<open>The conversation on the server\<close>

definition claude_error :: "string \<Rightarrow> string \<Rightarrow> u16 \<Rightarrow> error" where
  "claude_error code msg status = refused Claude code status msg"

definition claude_url :: "string \<Rightarrow> string \<Rightarrow> string \<Rightarrow> string" where
  "claude_url path org conv =
     claude_base_url @ replace_str ''{conversation_id}'' conv (replace_str ''{org_id}'' org path)"

definition claude_get :: "claude_auth \<Rightarrow> chat_ctx \<Rightarrow> string \<Rightarrow> http_request" where
  "claude_get auth cx url =
     with_headers (claude_headers auth False) (request_from ''chrome'' cx (request_new GET url))"

definition claude_post :: "serde \<Rightarrow> claude_auth \<Rightarrow> chat_ctx \<Rightarrow> bool \<Rightarrow> string \<Rightarrow> json \<Rightarrow> http_request" where
  "claude_post sj auth cx streaming url v =
     with_headers (claude_headers auth streaming) (with_json sj v (request_from ''chrome'' cx (request_post url)))"

definition hinted_org :: "claude_auth \<Rightarrow> json list \<Rightarrow> string option" where
  "hinted_org auth orgs =
     (case cl_routing_hint auth of
        None \<Rightarrow> None
      | Some rh \<Rightarrow> Option.bind (find (\<lambda>org. jget_str org ''uuid'' = Some rh) orgs) (\<lambda>found. jget_str found ''uuid''))"

definition pick_org :: "claude_auth \<Rightarrow> json \<Rightarrow> error + string" where
  "pick_org auth v =
     (case as_array v of
        None \<Rightarrow> Inl (claude_error ''claude_no_organizations'' ''Claude returned no organizations'' 200)
      | Some [] \<Rightarrow> Inl (claude_error ''claude_no_organizations'' ''Claude returned no organizations'' 200)
      | Some (org # orgs) \<Rightarrow>
          (case hinted_org auth (org # orgs) of
             Some i \<Rightarrow> Inr i
           | None \<Rightarrow>
               (case jget_str org ''uuid'' of
                  Some i \<Rightarrow> Inr i
                | None \<Rightarrow> Inl (claude_error ''claude_no_organizations'' ''org has no uuid'' 200))))"

definition discover_org :: "'w net \<Rightarrow> chat_ctx \<Rightarrow> claude_auth \<Rightarrow> 'w \<Rightarrow> (error + string) \<times> 'w" where
  "discover_org net cx auth w =
     (case cl_org_id auth of
        Some org \<Rightarrow> (Inr org, w)
      | None \<Rightarrow>
          (case send_ok net
                  (\<lambda>resp. claude_error ''claude_org_discovery_failed'' ''failed to discover Claude organizations'' (rp_status resp))
                  (claude_get auth cx (claude_base_url @ organizations_path)) w of
             (Inl e, w') \<Rightarrow> (Inl e, w')
           | (Inr resp, w') \<Rightarrow>
               (case response_json (nt_serde net) resp of
                  Inl e \<Rightarrow> (Inl e, w')
                | Inr v \<Rightarrow> (pick_org auth v, w'))))"

definition create_conversation ::
    "'w net \<Rightarrow> 'w env \<Rightarrow> chat_ctx \<Rightarrow> claude_auth \<Rightarrow> string \<Rightarrow> 'w \<Rightarrow> (error + string) \<times> 'w" where
  "create_conversation net env cx auth org w =
     (case env_uuid env w of
        (conv, w1) \<Rightarrow>
          (case nt_send net
                  (claude_post (nt_serde net) auth cx False (claude_url conversations_path org [])
                     (JObject [(''uuid'', JString conv), (''name'', JString []), (''is_temporary'', JBool True)])) w1 of
             (Inl e, w2) \<Rightarrow> (Inl e, w2)
           | (Inr resp, w2) \<Rightarrow>
               (if rp_status resp = 200 \<or> rp_status resp = 201 then Inr conv
                else Inl (claude_error ''claude_create_conversation_failed'' ''failed to create Claude conversation''
                       (rp_status resp)), w2)))"

definition ensure_conversation ::
    "'w net \<Rightarrow> 'w env \<Rightarrow> chat_ctx \<Rightarrow> claude_auth \<Rightarrow> string \<Rightarrow> 'w \<Rightarrow> (error + string) \<times> 'w" where
  "ensure_conversation net env cx auth org w =
     (case Option.bind (cx_checkpoint cx) cp_remote_conversation_id of
        Some i \<Rightarrow> (Inr i, w)
      | None \<Rightarrow> create_conversation net env cx auth org w)"

text \<open>\<open>from_millis\<close> is chrono's conversion of a time, which fails outside the range of dates.\<close>

definition claude_now :: "(int \<Rightarrow> datetime option) \<Rightarrow> 'w env \<Rightarrow> 'w \<Rightarrow> datetime \<times> 'w" where
  "claude_now from_millis env w =
     (case ev_now_millis env w of
        (ms, w1) \<Rightarrow> (case from_millis (sint ms) of Some t \<Rightarrow> (t, w1) | None \<Rightarrow> ev_utc_now env w1))"

definition claude_open_checkpoint ::
    "(int \<Rightarrow> datetime option) \<Rightarrow> 'w net \<Rightarrow> 'w env \<Rightarrow> chat_ctx \<Rightarrow> 'w \<Rightarrow> (error + checkpoint option) \<times> 'w" where
  "claude_open_checkpoint from_millis net env cx w =
     (case claude_auth_of (cx_account cx) (cx_secret cx) of
        Inl e \<Rightarrow> (Inl e, w)
      | Inr auth \<Rightarrow>
          (case discover_org net cx auth w of
             (Inl e, w1) \<Rightarrow> (Inl e, w1)
           | (Inr org, w1) \<Rightarrow>
               (case create_conversation net env cx auth org w1 of
                  (Inl e, w2) \<Rightarrow> (Inl e, w2)
                | (Inr conv, w2) \<Rightarrow>
                    (case claude_now from_millis env w2 of
                       (t, w3) \<Rightarrow>
                         (Inr (Some \<lparr>cp_conversation_key = cv_key (cx_conversation cx), cp_provider = Claude,
                                     cp_account_id = pa_account_id (cx_account cx),
                                     cp_remote_conversation_id = Some conv, cp_remote_parent_id = None,
                                     cp_remote_metadata = metadata_new,
                                     cp_history_version = cv_history_version (cx_conversation cx),
                                     cp_updated_at = t, cp_is_valid = True\<rparr>), w3)))))"

section \<open>The prompt\<close>

definition prompt_part :: "serde \<Rightarrow> content_part \<Rightarrow> string option" where
  "prompt_part sj p =
     (case p of PText t \<Rightarrow> Some t | PJson d \<Rightarrow> Some (to_compact sj (JObject d)) | _ \<Rightarrow> None)"

definition message_to_text :: "serde \<Rightarrow> message \<Rightarrow> string" where
  "message_to_text sj m =
     (case msg_content m of
        Some (Core.CText s) \<Rightarrow> s
      | Some (CParts parts) \<Rightarrow> join_with [CHR 0x0A] (List.map_filter (prompt_part sj) parts)
      | None \<Rightarrow> (case msg_tool_result m of Some r \<Rightarrow> to_compact sj (tr_content r) | None \<Rightarrow> []))"

fun transcript_role :: "role \<Rightarrow> string" where
  "transcript_role RSystem = ''SYSTEM''"
| "transcript_role RUser = ''USER''"
| "transcript_role RAssistant = ''ASSISTANT''"
| "transcript_role RTool = ''TOOL_RESULT''"

definition transcript_call :: "serde \<Rightarrow> tool_call \<Rightarrow> string" where
  "transcript_call sj tc =
     ''ASSISTANT_TOOL_CALL['' @ tc_name tc @ '']: '' @ to_compact sj (JObject (tc_arguments tc))"

definition transcript_lines :: "serde \<Rightarrow> message \<Rightarrow> string list" where
  "transcript_lines sj m =
     (if message_to_text sj m = [] \<and> msg_tool_calls m = [] then []
      else trim_end (transcript_role (msg_role m) @ '': '' @ message_to_text sj m)
             # map (transcript_call sj) (msg_tool_calls m))"

definition render_transcript :: "serde \<Rightarrow> message list \<Rightarrow> string" where
  "render_transcript sj messages =
     trim (join_with [CHR 0x0A, CHR 0x0A] (concat (map (transcript_lines sj) messages)))"

definition latest_prompt :: "serde \<Rightarrow> chat_ctx \<Rightarrow> string" where
  "latest_prompt sj cx =
     (let rebuild = (case cx_checkpoint cx of Some c \<Rightarrow> cp_remote_parent_id c = None | None \<Rightarrow> True);
          messages = rq_messages (cx_request cx)
      in if rebuild \<and> 1 < length messages then render_transcript sj messages
         else case messages of [] \<Rightarrow> [] | _ \<Rightarrow> message_to_text sj (last messages))"

section \<open>Requests of a turn\<close>

definition claude_tool :: "tool_definition \<Rightarrow> json" where
  "claude_tool t =
     JObject [(''name'', JString (td_name t)), (''description'', JString (td_description t)),
              (''input_schema'', JObject (td_input_schema t))]"

definition str_field :: "string \<Rightarrow> string option \<Rightarrow> jmap" where
  "str_field k v = (case v of None \<Rightarrow> [] | Some x \<Rightarrow> [(k, JString x)])"

definition completion_body :: "serde \<Rightarrow> 'w env \<Rightarrow> chat_ctx \<Rightarrow> string option \<Rightarrow> 'w \<Rightarrow> json \<times> 'w" where
  "completion_body sj env cx parent w =
     (let rq = cx_request cx; a = cx_account cx
      in case env_uuid env w of
           (human, w1) \<Rightarrow>
             (case env_uuid env w1 of
                (assistant, w2) \<Rightarrow>
                  (JObject
                     ([(''prompt'', JString (latest_prompt sj cx)), (''model'', JString (mid_model (rq_model rq)))]
                      @ str_field ''custom_system_prompt'' (default_normalize_system_prompt (rq_system_prompt rq))
                      @ [(''personalized_styles'', JArray []), (''attachments'', JArray []), (''files'', JArray []),
                         (''sync_sources'', JArray []),
                         (''timezone'', JString (case secret_of a ''timezone'' of Some z \<Rightarrow> z | None \<Rightarrow> ''UTC'')),
                         (''locale'', JString (case secret_of a ''locale'' of Some l \<Rightarrow> l | None \<Rightarrow> ''en-US'')),
                         (''tools'', JArray (map claude_tool (rq_tools rq))),
                         (''rendering_mode'', JString ''messages'')]
                      @ str_field ''parent_message_uuid'' parent
                      @ [(''turn_message_uuids'',
                          JObject [(''human_message_uuid'', JString human),
                                   (''assistant_message_uuid'', JString assistant)])]), w2)))"

definition result_payload :: "serde \<Rightarrow> tool_result \<Rightarrow> json" where
  "result_payload sj tr =
     JObject [(''type'', JString ''tool_result''), (''tool_use_id'', JString (tr_tool_call_id tr)),
              (''name'', JString (tr_name tr)), (''is_error'', JBool (tr_is_error tr)),
              (''content'', JArray [JObject [(''type'', JString ''text''),
                                           (''text'', JString (content_string sj (tr_content tr)))]])]"

text \<open>The results of the transcript: of every tool message that has one.\<close>

definition tool_results :: "message list \<Rightarrow> tool_result list" where
  "tool_results messages = List.map_filter msg_tool_result (filter (\<lambda>m. msg_role m = RTool) messages)"

definition result_request :: "serde \<Rightarrow> claude_auth \<Rightarrow> chat_ctx \<Rightarrow> string \<Rightarrow> string \<Rightarrow> tool_result \<Rightarrow> http_request" where
  "result_request sj auth cx org conv tr =
     claude_post sj auth cx False (claude_url tool_result_path org conv) (result_payload sj tr)"

fun post_results :: "'w net \<Rightarrow> (tool_result \<Rightarrow> http_request) \<Rightarrow> tool_result list \<Rightarrow> 'w \<Rightarrow> (error + unit) \<times> 'w" where
  "post_results net req [] w = (Inr (), w)"
| "post_results net req (tr # trs) w =
     (case send_ok net
             (\<lambda>resp. claude_error ''claude_tool_result_failed'' ''Failed to submit Claude tool result'' (rp_status resp))
             (req tr) w of
        (Inl e, w') \<Rightarrow> (Inl e, w')
      | (Inr _, w') \<Rightarrow> post_results net req trs w')"

definition submit_tool_results ::
    "'w net \<Rightarrow> chat_ctx \<Rightarrow> claude_auth \<Rightarrow> string \<Rightarrow> string \<Rightarrow> 'w \<Rightarrow> (error + unit) \<times> 'w" where
  "submit_tool_results net cx auth org conv w =
     post_results net (result_request (nt_serde net) auth cx org conv) (tool_results (rq_messages (cx_request cx))) w"

text \<open>
  What both forms of a turn do before they send the completion: the credentials, the organization, the
  conversation, the tool results, and the request.
\<close>

definition claude_turn :: "'w net \<Rightarrow> 'w env \<Rightarrow> chat_ctx \<Rightarrow> 'w \<Rightarrow> (error + http_request) \<times> 'w" where
  "claude_turn net env cx w =
     (case claude_auth_of (cx_account cx) (cx_secret cx) of
        Inl e \<Rightarrow> (Inl e, w)
      | Inr auth \<Rightarrow>
          (case discover_org net cx auth w of
             (Inl e, w1) \<Rightarrow> (Inl e, w1)
           | (Inr org, w1) \<Rightarrow>
               (case ensure_conversation net env cx auth org w1 of
                  (Inl e, w2) \<Rightarrow> (Inl e, w2)
                | (Inr conv, w2) \<Rightarrow>
                    (case submit_tool_results net cx auth org conv w2 of
                       (Inl e, w3) \<Rightarrow> (Inl e, w3)
                     | (Inr _, w3) \<Rightarrow>
                         (case completion_body (nt_serde net) env cx
                                 (Option.bind (cx_checkpoint cx) cp_remote_parent_id) w3 of
                            (body, w4) \<Rightarrow>
                              (Inr (claude_post (nt_serde net) auth cx True (claude_url completion_path org conv) body), w4))))))"

section \<open>Reading the completion\<close>

definition is_error_event :: "json \<Rightarrow> bool" where
  "is_error_event v \<longleftrightarrow> jget_str v ''type'' = Some ''error''"

definition sse_error_event :: "json \<Rightarrow> error" where
  "sse_error_event v =
     ProviderErr (provider_error_new Claude OtherKind ''claude_sse_error''
       (case jget_str (json_or_null (jget v ''error'')) ''message'' of
          Some m \<Rightarrow> m | None \<Rightarrow> ''Claude returned an SSE error event''))"

definition parse_sse_data_line :: "serde \<Rightarrow> string \<Rightarrow> error + json option" where
  "parse_sse_data_line sj l =
     (case Option.bind (strip_prefix ''data: '' l) (from_text sj) of
        None \<Rightarrow> Inr None
      | Some v \<Rightarrow> (if is_error_event v then Inl (sse_error_event v) else Inr (Some v)))"

fun read_lines :: "serde \<Rightarrow> string list \<Rightarrow> claude_accumulator \<Rightarrow> error + claude_accumulator" where
  "read_lines sj [] acc = Inr acc"
| "read_lines sj (l # ls) acc =
     (case parse_sse_data_line sj l of
        Inl e \<Rightarrow> Inl e
      | Inr None \<Rightarrow> read_lines sj ls acc
      | Inr (Some v) \<Rightarrow> read_lines sj ls (snd (claude_push v acc)))"

definition call_of :: "serde \<Rightarrow> claude_tool_call \<Rightarrow> tool_call" where
  "call_of sj tc = \<lparr>tc_id = cc_id tc, tc_name = cc_name tc, tc_arguments = claude_arguments sj tc\<rparr>"

definition build_response :: "serde \<Rightarrow> string \<Rightarrow> claude_parsed \<Rightarrow> chat_response" where
  "build_response sj model p =
     \<lparr>rs_model = model, rs_message = calls_message (clp_text p) (map (call_of sj) (clp_tool_calls p)),
      rs_usage = usage_default, rs_tool_calls_executed = [],
      rs_provider_response_id = clp_assistant_message_uuid p, rs_finish_reason = clp_stop_reason p,
      rs_metadata = metadata_new\<rparr>"

definition answered :: "serde \<Rightarrow> chat_ctx \<Rightarrow> claude_accumulator \<Rightarrow> chat_response" where
  "answered sj cx acc = build_response sj (model_id_full_name (rq_model (cx_request cx))) (claude_finish acc)"

definition claude_chat :: "'w net \<Rightarrow> 'w env \<Rightarrow> chat_ctx \<Rightarrow> 'w \<Rightarrow> (error + chat_response) \<times> 'w" where
  "claude_chat net env cx w =
     (case claude_turn net env cx w of
        (Inl e, w1) \<Rightarrow> (Inl e, w1)
      | (Inr req, w1) \<Rightarrow>
          (case send_ok net
                  (\<lambda>resp. claude_error ''claude_completion_failed'' ''Claude completion request failed'' (rp_status resp))
                  req w1 of
             (Inl e, w2) \<Rightarrow> (Inl e, w2)
           | (Inr resp, w2) \<Rightarrow>
               (map_sum id (answered (nt_serde net) cx)
                  (read_lines (nt_serde net) (str_lines (response_text_lossy resp)) claude_new), w2)))"

text \<open>The stream ends after an error; a marker of the end is skipped.\<close>

fun read_events :: "'w net \<Rightarrow> chat_ctx \<Rightarrow> claude_accumulator \<Rightarrow> (error + sse_event) list \<Rightarrow> event_stream" where
  "read_events net cx acc [] = [Inr (Done (answered (nt_serde net) cx acc))]"
| "read_events net cx acc (Inl e # _) = [Inl e]"
| "read_events net cx acc (Inr ev # evs) =
     (if is_done ev then read_events net cx acc evs
      else case from_text (nt_serde net) (sse_data ev) of
             None \<Rightarrow> [Inl (Network (''invalid Claude SSE JSON: '' @ nt_bad_json net (str_bytes (sse_data ev))))]
           | Some v \<Rightarrow>
               if is_error_event v then [Inl (sse_error_event v)]
               else case claude_push v acc of
                      (None, acc1) \<Rightarrow> read_events net cx acc1 evs
                    | (Some t, acc1) \<Rightarrow> Inr (TextDelta (str_bytes t)) # read_events net cx acc1 evs)"

definition claude_chat_stream :: "'w net \<Rightarrow> 'w env \<Rightarrow> chat_ctx \<Rightarrow> 'w \<Rightarrow> (error + event_stream) \<times> 'w" where
  "claude_chat_stream net env cx w =
     (case claude_turn net env cx w of
        (Inl e, w1) \<Rightarrow> (Inl e, w1)
      | (Inr req, w1) \<Rightarrow>
          (case nt_stream net req w1 of
             (Inl e, w2) \<Rightarrow> (Inl e, w2)
           | (Inr (status, hs, body), w2) \<Rightarrow>
               (if status \<noteq> 200
                then (Inl (claude_error ''claude_completion_failed'' ''Claude completion request failed'' status), w2)
                else (Inr (read_events net cx claude_new (events body)), w2))))"

definition claude_provider :: "(int \<Rightarrow> datetime option) \<Rightarrow> 'w net \<Rightarrow> 'w env \<Rightarrow> 'w provider" where
  "claude_provider from_millis net env =
     \<lparr>pv_capabilities = claude_caps, pv_list_models = claude_models,
      pv_discover_models = default_discover_models claude_models,
      pv_normalize_system_prompt = default_normalize_system_prompt,
      pv_open_checkpoint = claude_open_checkpoint from_millis net env,
      pv_chat = claude_chat net env, pv_chat_stream = claude_chat_stream net env, pv_authenticator = None\<rparr>"

section \<open>Buffered and streamed turns agree\<close>

text \<open>
  What a list of events comes to: the deltas that are handed on, and the accumulated answer or the error the
  server sent.
\<close>

fun claude_run :: "json list \<Rightarrow> claude_accumulator \<Rightarrow> string list \<times> (error + claude_accumulator)" where
  "claude_run [] acc = ([], Inr acc)"
| "claude_run (v # vs) acc =
     (if is_error_event v then ([], Inl (sse_error_event v))
      else case claude_push v acc of
             (d, acc1) \<Rightarrow>
               (case claude_run vs acc1 of
                  (ds, r) \<Rightarrow> ((case d of None \<Rightarrow> ds | Some t \<Rightarrow> t # ds), r)))"

text \<open>A payload the server may send: a value, or the marker of the end, which is none.\<close>

definition payload_ok :: "serde \<Rightarrow> string \<Rightarrow> bool" where
  "payload_ok sj l \<longleftrightarrow>
     str_ok l \<and> CHR 0x0A \<notin> set l \<and> CHR 0x0D \<notin> set l \<and> (trim l = ''[DONE]'' \<longleftrightarrow> from_text sj l = None)"

definition payload_event :: "string \<Rightarrow> sse_event" where
  "payload_event l = \<lparr>sse_event_name = None, sse_data = l\<rparr>"

definition payload_bytes :: "string list \<Rightarrow> u8 list" where
  "payload_bytes ls = concat (map (\<lambda>l. wire_lines (event_lines (payload_event l))) ls)"

lemma payload_lines:
  "payload_ok sj l \<Longrightarrow> event_lines (payload_event l) = [data_line l, []]"
  by (simp add: payload_ok_def event_lines_def payload_event_def split_on_no_sep field_line_def data_line_def)

lemma payload_event_ok: "payload_ok sj l \<Longrightarrow> event_ok (payload_event l)"
  by (auto simp: payload_ok_def payload_event_def event_ok_def line_ok_def split_on_no_sep dest: last_in_set)

definition payload_text :: "string list \<Rightarrow> string" where
  "payload_text ls = concat (map (\<lambda>l. data_line l @ [CHR 0x0A] @ [CHR 0x0A]) ls)"

lemma payload_bytes_text: "list_all (payload_ok sj) ls \<Longrightarrow> payload_bytes ls = str_bytes (payload_text ls)"
  by (induction ls)
    (auto simp: payload_bytes_def payload_text_def payload_lines [of sj] wire_lines_def str_bytes_def)

lemma str_ok_append: "str_ok a \<Longrightarrow> str_ok b \<Longrightarrow> str_ok (a @ b)"
  using utf8_valid_append by (simp add: str_ok_def str_bytes_def)

lemma payload_text_ok: "list_all (payload_ok sj) ls \<Longrightarrow> str_ok (payload_text ls)"
proof (induction ls)
  case Nil
  show ?case by (simp add: payload_text_def str_ok_def str_bytes_def utf8_valid_ascii)
next
  case (Cons l ls)
  have "str_ok ''data: '' \<and> str_ok [CHR 0x0A]" by code_simp
  then have "str_ok (''data: '' @ l @ [CHR 0x0A] @ [CHR 0x0A] @ payload_text ls)"
    using Cons str_ok_append by (simp add: payload_ok_def del: append_Cons)
  then show ?case by (simp add: payload_text_def data_line_def)
qed

lemma payload_text_lines:
  "list_all (payload_ok sj) ls \<Longrightarrow> str_lines (payload_text ls) = concat (map (\<lambda>l. [data_line l, []]) ls)"
proof (induction ls)
  case Nil
  show ?case by (simp add: payload_text_def)
next
  case (Cons l ls)
  then have l: "CHR 0x0A \<notin> set (data_line l)" "CHR 0x0D \<notin> set (data_line l)"
    by (simp_all add: data_line_def payload_ok_def)
  have "payload_text (l # ls) = data_line l @ CHR 0x0A # ([] @ CHR 0x0A # payload_text ls)"
    by (simp add: payload_text_def)
  then show ?case
    using Cons str_lines_newline [OF l(1), of "[] @ CHR 0x0A # payload_text ls"]
      str_lines_newline [of "[]" "payload_text ls"] strip_cr_plain [OF l(2)]
    by (simp add: WebEnv.strip_cr_def)
qed

lemma parse_data_line:
  "parse_sse_data_line sj (data_line l) =
     (case from_text sj l of
        None \<Rightarrow> Inr None
      | Some v \<Rightarrow> (if is_error_event v then Inl (sse_error_event v) else Inr (Some v)))"
  by (simp add: parse_sse_data_line_def strip_data_line)

lemma parse_blank_line: "parse_sse_data_line sj [] = Inr None"
  by (simp add: parse_sse_data_line_def strip_prefix_def)

lemma read_payload_lines:
  "read_lines sj (concat (map (\<lambda>l. [data_line l, []]) ls)) acc = snd (claude_run (List.map_filter (from_text sj) ls) acc)"
  by (induction ls arbitrary: acc)
    (auto simp: parse_data_line parse_blank_line List.map_filter_simps split: option.split prod.split)

lemma read_payload_events:
  "list_all (payload_ok (nt_serde net)) ls \<Longrightarrow>
   read_events net cx acc (map Inr (map payload_event ls)) =
     (case claude_run (List.map_filter (from_text (nt_serde net)) ls) acc of
        (ds, r) \<Rightarrow> map (\<lambda>t. Inr (TextDelta (str_bytes t))) ds @ [map_sum id (\<lambda>a. Done (answered (nt_serde net) cx a)) r])"
  by (induction ls arbitrary: acc)
    (auto simp: payload_ok_def is_done_def payload_event_def List.map_filter_simps split: option.split prod.split)

lemma push_text:
  assumes "claude_push v acc = (d, acc1)"
  shows "clp_text (ac_parsed acc1) = clp_text (ac_parsed acc) @ (case d of None \<Rightarrow> [] | Some t \<Rightarrow> t)"
  using assms
  by (auto simp: claude_push_def push_block_start_def push_block_delta_def set_stop_reason_def Let_def
      split: if_splits option.splits)

lemma run_text:
  "claude_run vs acc = (ds, Inr acc') \<Longrightarrow> clp_text (ac_parsed acc') = clp_text (ac_parsed acc) @ concat ds"
  by (induction vs arbitrary: acc ds) (auto dest!: push_text split: if_splits prod.splits option.splits)

lemma answered_text: "response_text (answered sj cx acc) = clp_text (ac_parsed acc)"
  by (simp add: answered_def build_response_def response_text_def calls_message_def claude_finish_def message_text_def
      message_defs)


text \<open>A context whose organization and conversation are known.\<close>

definition known_ctx :: "message list \<Rightarrow> chat_ctx \<Rightarrow> chat_ctx" where
  "known_ctx ms cx =
     cx\<lparr>cx_account := (cx_account cx)\<lparr>pa_auth := (pa_auth (cx_account cx))\<lparr>au_org_id := Some ''org''\<rparr>\<rparr>,
        cx_secret := ''sk'', cx_request := (cx_request cx)\<lparr>rq_messages := ms\<rparr>,
        cx_checkpoint := Some \<lparr>cp_conversation_key = ''k'', cp_provider = Claude, cp_account_id = ''a'',
          cp_remote_conversation_id = Some ''conv'', cp_remote_parent_id = None, cp_remote_metadata = None,
          cp_history_version = 0, cp_updated_at = 0, cp_is_valid = True\<rparr>\<rparr>"

lemma known_ctx_simps:
  "cx_account (known_ctx ms cx) = (cx_account cx)\<lparr>pa_auth := (pa_auth (cx_account cx))\<lparr>au_org_id := Some ''org''\<rparr>\<rparr>"
  "cx_secret (known_ctx ms cx) = ''sk''" "rq_messages (cx_request (known_ctx ms cx)) = ms"
  "Option.bind (cx_checkpoint (known_ctx ms cx)) cp_remote_conversation_id = Some ''conv''"
  by (simp_all add: known_ctx_def)

lemma known_ctx_auth:
  "\<exists>auth. claude_auth_of (cx_account (known_ctx ms cx)) (cx_secret (known_ctx ms cx)) = Inr auth \<and> cl_org_id auth = Some ''org''"
  by (simp add: known_ctx_simps claude_auth_of_def session_key_of_def)

definition claude_serde :: serde where
  "claude_serde =
     \<lparr>to_compact = \<lambda>_. [], to_pretty = \<lambda>_. [],
      from_text = \<lambda>t.
        if t = ''a'' then Some (claude_wire (ClaudeParser.CText ''Hel''))
        else if t = ''b'' then Some (claude_wire (ClaudeParser.CText ''lo'')) else None,
      stream_next = \<lambda>_. None, number_f64 = \<lambda>_. None\<rparr>"

definition claude_net :: "unit net" where
  "claude_net =
     \<lparr>nt_send = \<lambda>req w.
        (Inr \<lparr>rp_status = 200, rp_headers = [], rp_body = payload_bytes [''a'', ''[DONE]'', ''b'']\<rparr>, w),
      nt_stream = \<lambda>_ w. (Inr (200, [], map Inr (map (\<lambda>b. [b]) (payload_bytes [''a'', ''[DONE]'', ''b'']))), w),
      nt_serde = claude_serde, nt_bad_json = \<lambda>_. []\<rparr>"

definition quiet_env :: "(nat \<Rightarrow> u8 list) \<Rightarrow> 'w env" where
  "quiet_env fill = \<lparr>ev_now_millis = Pair 0, ev_fill = \<lambda>n. Pair (fill n), ev_utc_now = Pair 0\<rparr>"

definition quiet_body :: "serde \<Rightarrow> (nat \<Rightarrow> u8 list) \<Rightarrow> chat_ctx \<Rightarrow> json" where
  "quiet_body sj fill cx =
     fst (completion_body sj (quiet_env fill) cx (Option.bind (cx_checkpoint cx) cp_remote_parent_id) ())"

lemma quiet_uuid: "env_uuid (quiet_env fill) w = (fst (uuid_v4 (\<lambda>n. Pair (fill n)) ()), w)"
  by (simp add: env_uuid_def quiet_env_def uuid_v4_def Let_def)

lemma completion_body_quiet:
  "completion_body sj (quiet_env fill) cx (Option.bind (cx_checkpoint cx) cp_remote_parent_id) w = (quiet_body sj fill cx, w)"
  by (simp add: quiet_body_def completion_body_def quiet_uuid Let_def)


section \<open>The order of a turn\<close>

text \<open>A server that answers each request on its own, and remembers them all.\<close>

definition recording :: "(http_request \<Rightarrow> http_response) \<Rightarrow> serde \<Rightarrow> http_request list net" where
  "recording answer sj =
     \<lparr>nt_send = \<lambda>req log. (Inr (answer req), log @ [req]),
      nt_stream = \<lambda>req log. (Inr (rp_status (answer req), rp_headers (answer req), [Inr (rp_body (answer req))]), log @ [req]),
      nt_serde = sj, nt_bad_json = \<lambda>_. []\<rparr>"

fun until_refused :: "(http_request \<Rightarrow> http_response) \<Rightarrow> http_request list \<Rightarrow> http_request list" where
  "until_refused answer [] = []"
| "until_refused answer (r # rs) = r # (if is_success (answer r) then until_refused answer rs else [])"

lemma recording_simps [simp]:
  "nt_serde (recording answer sj) = sj" "nt_send (recording answer sj) req log = (Inr (answer req), log @ [req])"
  "nt_stream (recording answer sj) req log =
     (Inr (rp_status (answer req), rp_headers (answer req), [Inr (rp_body (answer req))]), log @ [req])"
  by (simp_all add: recording_def)

lemma post_results_log:
  "snd (post_results (recording answer sj) req trs log) = log @ until_refused answer (map req trs)
   \<and> (isl (fst (post_results (recording answer sj) req trs log)) \<longleftrightarrow> \<not> (\<forall>tr\<in>set trs. is_success (answer (req tr))))"
  by (induction trs arbitrary: log) (auto simp: send_ok_def)

lemma until_refused_snoc:
  "until_refused answer (rs @ [r]) =
     until_refused answer rs @ (if \<forall>q\<in>set rs. is_success (answer q) then [r] else [])"
  by (induction rs) auto

text \<open>
  C6.  The order of a turn.  With the organization and the conversation known, a turn posts the result of every tool
  message of the transcript, in its order, and then the completion, all to the checkpoint's conversation, and
  nothing else; after a refused request it sends nothing more, so that there is no completion over missing
  results.
\<close>

theorem claude_turn_order:
  assumes "claude_auth_of (cx_account cx) (cx_secret cx) = Inr auth" and "cl_org_id auth = Some org"
    and "Option.bind (cx_checkpoint cx) cp_remote_conversation_id = Some conv"
  shows "snd (claude_chat (recording answer sj) (quiet_env fill) cx log) =
       log @ until_refused answer
         (map (\<lambda>tr. claude_post sj auth cx False (claude_url tool_result_path org conv) (result_payload sj tr))
            (tool_results (rq_messages (cx_request cx)))
          @ [claude_post sj auth cx True (claude_url completion_path org conv) (quiet_body sj fill cx)])
   \<and> snd (claude_chat_stream (recording answer sj) (quiet_env fill) cx log) =
       snd (claude_chat (recording answer sj) (quiet_env fill) cx log)"
proof -
  let ?req = "result_request sj auth cx org conv" and ?trs = "tool_results (rq_messages (cx_request cx))"
  let ?done = "claude_post sj auth cx True (claude_url completion_path org conv) (quiet_body sj fill cx)"
  obtain r log1 where p: "post_results (recording answer sj) ?req ?trs log = (r, log1)"
    by (cases "post_results (recording answer sj) ?req ?trs log")
  note log = post_results_log [of answer sj ?req ?trs log, unfolded p fst_conv snd_conv]
  have turn: "claude_turn (recording answer sj) (quiet_env fill) cx log =
      (case r of Inl e \<Rightarrow> (Inl e, log1) | Inr _ \<Rightarrow> (Inr ?done, log1))"
    using assms p
    by (simp add: claude_turn_def discover_org_def ensure_conversation_def submit_tool_results_def completion_body_quiet
        split: sum.split)
  have req: "?req = (\<lambda>tr. claude_post sj auth cx False (claude_url tool_result_path org conv) (result_payload sj tr))"
    by (rule ext) (simp add: result_request_def)
  show ?thesis
    using log
    by (cases r)
      (auto simp: claude_chat_def claude_chat_stream_def turn send_ok_def until_refused_snoc req [symmetric])
qed

definition sample_results :: "message list" where
  "sample_results =
     (let r = \<lparr>tr_tool_call_id = ''1'', tr_name = ''f'', tr_content = JNull, tr_is_error = False, tr_structured = None\<rparr>
      in [message_tool_result r, message_user ''go on'', message_tool_result r])"

lemma claude_turn_order_witness:
  "\<forall>cx. length (snd (claude_chat (recording (\<lambda>_. \<lparr>rp_status = 200, rp_headers = [], rp_body = []\<rparr>) claude_serde)
                         (quiet_env (\<lambda>n. replicate n 0)) (known_ctx sample_results cx) [])) = 3
     \<and> length (snd (claude_chat (recording (\<lambda>_. \<lparr>rp_status = 500, rp_headers = [], rp_body = []\<rparr>) claude_serde)
                         (quiet_env (\<lambda>n. replicate n 0)) (known_ctx sample_results cx) [])) = 1"
proof
  fix cx
  let ?cx = "known_ctx sample_results cx"
  obtain auth where auth: "claude_auth_of (cx_account ?cx) (cx_secret ?cx) = Inr auth" "cl_org_id auth = Some ''org''"
    using known_ctx_auth by blast
  have "length (tool_results sample_results) = 2"
    by (simp add: sample_results_def tool_results_def List.map_filter_simps message_defs Let_def)
  then obtain a b where ab: "tool_results (rq_messages (cx_request ?cx)) = [a, b]"
    by (auto simp: known_ctx_simps numeral_2_eq_2 length_Suc_conv)
  have log: "snd (claude_chat (recording (\<lambda>_. \<lparr>rp_status = s, rp_headers = [], rp_body = []\<rparr>) claude_serde)
       (quiet_env (\<lambda>n. replicate n 0)) ?cx []) =
     until_refused (\<lambda>_. \<lparr>rp_status = s, rp_headers = [], rp_body = []\<rparr>)
       (map (\<lambda>tr. claude_post claude_serde auth ?cx False (claude_url tool_result_path ''org'' ''conv'')
                 (result_payload claude_serde tr)) [a, b]
        @ [claude_post claude_serde auth ?cx True (claude_url completion_path ''org'' ''conv'')
             (quiet_body claude_serde (\<lambda>n. replicate n 0) ?cx)])" for s
    using claude_turn_order [OF auth known_ctx_simps(4)] by (simp add: ab)
  show "length (snd (claude_chat (recording (\<lambda>_. \<lparr>rp_status = 200, rp_headers = [], rp_body = []\<rparr>) claude_serde)
                         (quiet_env (\<lambda>n. replicate n 0)) ?cx [])) = 3
     \<and> length (snd (claude_chat (recording (\<lambda>_. \<lparr>rp_status = 500, rp_headers = [], rp_body = []\<rparr>) claude_serde)
                         (quiet_env (\<lambda>n. replicate n 0)) ?cx [])) = 1"
    by (simp add: log is_success_def)
qed

text \<open>\<open>str::replace\<close> in the templates of the paths.\<close>

lemma replace_str_once:
  assumes "c \<notin> set h" and "c \<notin> set t"
  shows "replace_str (c # p) new (h @ (c # p) @ t) = h @ new @ t"
  by (simp only: replace_str_def split_str_skip [OF assms(1)] split_str_none [OF assms(2)]) simp

lemma claude_completion_url:
  assumes "CHR 0x7B \<notin> set org"
  shows "claude_url completion_path org conv =
     ''https://claude.ai/api/organizations/'' @ org @ ''/chat_conversations/'' @ conv @ ''/completion''"
proof -
  have parts: "split_str ''{org_id}'' completion_path =
      [''/organizations/'', ''/chat_conversations/'' @ ''{conversation_id}'' @ ''/completion'']"
    by code_simp
  have "CHR 0x7B \<notin> set ''/organizations/''" "CHR 0x7B \<notin> set ''/chat_conversations/''" "CHR 0x7B \<notin> set ''/completion''"
    by code_simp+
  then have "replace_str ''{conversation_id}'' conv
      ((''/organizations/'' @ org @ ''/chat_conversations/'') @ ''{conversation_id}'' @ ''/completion'') =
      (''/organizations/'' @ org @ ''/chat_conversations/'') @ conv @ ''/completion''"
    using assms by (intro replace_str_once) auto
  moreover have "replace_str ''{org_id}'' org completion_path =
      (''/organizations/'' @ org @ ''/chat_conversations/'') @ ''{conversation_id}'' @ ''/completion''"
    unfolding replace_str_def parts by simp
  ultimately show ?thesis by (simp add: claude_url_def claude_base_url_def)
qed

text \<open>
  A checkpoint that the adapter opens names no parent message, and nothing sets one later, so that every turn of more
  than one message sends the whole transcript as its prompt, into the conversation that has it already.
\<close>

lemma claude_resends_transcript:
  assumes "claude_open_checkpoint from_millis net env cx w = (Inr (Some c), w')"
    and "1 < length (rq_messages (cx_request cx))"
  shows "latest_prompt sj (cx\<lparr>cx_checkpoint := Some c\<rparr>) = render_transcript sj (rq_messages (cx_request cx))"
  using assms by (auto simp: claude_open_checkpoint_def latest_prompt_def split: sum.splits prod.splits)

text \<open>
  The results of earlier turns are posted again with those of the last one: the requests of a transcript are the
  first requests of every longer one.
\<close>

lemma claude_reposts_results:
  "map req (tool_results (ms @ ms')) = map req (tool_results ms) @ map req (tool_results ms')"
  by (simp add: tool_results_def List.map_filter_def)

text \<open>
  A payload that is no value: the buffered form passes over it, the streamed one fails.
\<close>

lemma claude_garbage_line:
  assumes "from_text (nt_serde net) l = None" and "trim l \<noteq> ''[DONE]''"
  shows "read_lines (nt_serde net) (data_line l # ls) acc = read_lines (nt_serde net) ls acc
   \<and> read_events net cx acc (Inr (payload_event l) # evs) =
       [Inl (Network (''invalid Claude SSE JSON: '' @ nt_bad_json net (str_bytes l)))]"
  using assms by (simp add: parse_data_line is_done_def payload_event_def)

end
