(* ===== verification/GeminiParser.thy ===== *)
theory GeminiParser
  imports Utf8 Json
begin

text \<open>
  The response parser of the Gemini web adapter (\<open>gravity-providers/src/gemini/parser.rs\<close>): frames with a
  length in UTF-16 code units, nested-index access, and the text and threading fields of a reply.

  A \<open>char\<close> is the UTF-8 bytes of one character, so a character outside the basic plane is one of four
  bytes, and collecting characters into a \<open>String\<close> is concatenation.  The loop over positions is a
  recursion on the characters from the position on.
\<close>

section \<open>Characters\<close>

definition char_ws :: "string \<Rightarrow> bool" where
  "char_ws ch \<longleftrightarrow> ch \<in> set wide_ws \<or> (\<exists>c\<in>set ch. ch = [c] \<and> ascii_ws c)"

definition char_digit :: "string \<Rightarrow> bool" where
  "char_digit ch \<longleftrightarrow> (case ch of [c] \<Rightarrow> is_digit c | _ \<Rightarrow> False)"

definition utf16_width :: "string \<Rightarrow> nat" where
  "utf16_width ch = (if length ch = 4 then 2 else 1)"

definition newline_char :: string where
  "newline_char = [CHR 0x0A]"

section \<open>Frames\<close>

text \<open>How many characters make up the units, and how many units they are.\<close>

fun units_loop :: "nat \<Rightarrow> nat \<Rightarrow> nat \<Rightarrow> string list \<Rightarrow> nat \<times> nat" where
  "units_loop utf16_units count units [] = (count, units)"
| "units_loop utf16_units count units (ch # rest) =
     (if units < utf16_units then
        (if utf16_units < units + utf16_width ch then (count, units)
         else units_loop utf16_units (count + 1) (units + utf16_width ch) rest)
      else (count, units))"

definition chars_for_utf16_units :: "string list \<Rightarrow> nat \<Rightarrow> nat \<times> nat" where
  "chars_for_utf16_units cs utf16_units = units_loop utf16_units 0 0 cs"

text \<open>The length marker at the front: the number of digits and the value, if it is a \<open>usize\<close>.\<close>

definition match_length_marker :: "string list \<Rightarrow> (nat \<times> nat) option" where
  "match_length_marker cs =
     (let n = length (takeWhile char_digit cs)
      in if n = 0 \<or> length cs \<le> n \<or> cs ! n \<noteq> newline_char then None
         else (let v = dec_value (concat (take n cs)) in if v < 2 ^ 64 then Some (n, v) else None))"

definition flatten :: "json \<Rightarrow> json list" where
  "flatten v = (case v of JArray arr \<Rightarrow> arr | other \<Rightarrow> [other])"

definition chunk_frames :: "serde \<Rightarrow> string list \<Rightarrow> json list" where
  "chunk_frames sj cs =
     (let chunk = trim (concat cs)
      in if chunk = [] then []
         else (case from_text sj chunk of Some v \<Rightarrow> flatten v | None \<Rightarrow> []))"

definition frame_step :: "serde \<Rightarrow> string list \<Rightarrow> (json list \<times> string list) option" where
  "frame_step sj cs =
     (let r = dropWhile char_ws cs
      in case match_length_marker r of
           None \<Rightarrow> None
         | Some (n, len) \<Rightarrow>
             (let body = drop n r; (count, units) = chars_for_utf16_units body len
              in if units < len then None
                 else Some (chunk_frames sj (take count body), drop count body)))"

lemma match_length_marker_pos: "match_length_marker r = Some (n, v) \<Longrightarrow> 0 < n \<and> n < length r"
  by (auto simp: match_length_marker_def Let_def split: if_splits)

lemma length_dropWhile_le: "length (dropWhile p xs) \<le> length xs"
  by (induction xs) auto

lemma frame_step_shorter: "frame_step sj cs = Some (x, r) \<Longrightarrow> length r < length cs"
proof -
  assume "frame_step sj cs = Some (x, r)"
  then obtain n v count where m: "match_length_marker (dropWhile char_ws cs) = Some (n, v)"
    and r: "r = drop count (drop n (dropWhile char_ws cs))"
    by (auto simp: frame_step_def Let_def split: option.splits prod.splits if_splits)
  from match_length_marker_pos [OF m] have "length r < length (dropWhile char_ws cs)"
    unfolding r length_drop by linarith
  then show ?thesis using length_dropWhile_le [of char_ws cs] by linarith
qed

function frames_loop :: "serde \<Rightarrow> string list \<Rightarrow> json list \<times> string list" where
  "frames_loop sj cs =
     (case frame_step sj cs of
        None \<Rightarrow> ([], dropWhile char_ws cs)
      | Some (fs, rest) \<Rightarrow> (case frames_loop sj rest of (gs, tail) \<Rightarrow> (fs @ gs, tail)))"
  by pat_completeness auto
termination
  by (relation "measure (\<lambda>(sj, cs). length cs)") (auto dest: frame_step_shorter)

declare frames_loop.simps [simp del]

definition parse_response_frames :: "serde \<Rightarrow> string \<Rightarrow> json list \<times> string" where
  "parse_response_frames sj content =
     (case frames_loop sj (chars content) of (fs, tail) \<Rightarrow> (fs, concat tail))"

definition strip_sentinel :: "string \<Rightarrow> string" where
  "strip_sentinel text =
     (let p = [CHR '')'', CHR '']'', CHR ''}'', CHR 0x27]
      in if starts_with p text then drop (length p) text else text)"

definition extract_json_from_response :: "serde \<Rightarrow> string \<Rightarrow> json list" where
  "extract_json_from_response sj text =
     (let content = trim_start (strip_sentinel text);
          frames = fst (parse_response_frames sj content)
      in if frames \<noteq> [] then frames
         else (case from_text sj content of Some v \<Rightarrow> flatten v | None \<Rightarrow> []))"

section \<open>Nested values and replies\<close>

datatype nest_index = Idx int | Key string

definition nest_step :: "nest_index \<Rightarrow> json \<Rightarrow> json option" where
  "nest_step k v =
     (case k of
        Idx i \<Rightarrow>
          (case as_array v of
             None \<Rightarrow> None
           | Some arr \<Rightarrow>
               (let len = int (length arr); idx = (if i < 0 then len + i else i)
                in if idx < 0 \<or> len \<le> idx then None else Some (arr ! nat idx)))
      | Key s \<Rightarrow> jget v s)"

fun nested_path :: "json \<Rightarrow> nest_index list \<Rightarrow> json option" where
  "nested_path v [] = Some v"
| "nested_path v (k # ks) = Option.bind (nest_step k v) (\<lambda>w. nested_path w ks)"

definition nested :: "json \<Rightarrow> nest_index list \<Rightarrow> json option" where
  "nested v path = (case nested_path v path of Some w \<Rightarrow> if is_null w then None else Some w | None \<Rightarrow> None)"

record gemini_parsed =
  gp_text :: string
  gp_rcid :: "string option"
  gp_metadata :: "string option list"
  gp_state_token :: "string option"

definition value_to_string :: "serde \<Rightarrow> json \<Rightarrow> string" where
  "value_to_string sj v = (case v of JString s \<Rightarrow> s | other \<Rightarrow> to_compact sj other)"

definition word_char :: "char \<Rightarrow> bool" where
  "word_char c \<longleftrightarrow>
     is_digit c \<or> (let n = of_char c :: nat in (65 \<le> n \<and> n \<le> 90) \<or> (97 \<le> n \<and> n \<le> 122)) \<or> c = CHR ''_''"

definition artifact_marker :: string where
  "artifact_marker = ''http://googleusercontent.com/''"

text \<open>What follows an artifact at the front of the text, if there is one.\<close>

definition skip_artifact :: "string \<Rightarrow> string option" where
  "skip_artifact s =
     (if starts_with artifact_marker s then
        (case dropWhile word_char (drop (length artifact_marker) s) of
           [] \<Rightarrow> None
         | c # rest \<Rightarrow>
             if c = CHR ''/'' \<and> takeWhile is_digit rest \<noteq> []
             then Some (dropWhile (\<lambda>x. x = CHR 0x0A) (dropWhile is_digit rest)) else None)
      else None)"

lemma skip_artifact_shorter: "skip_artifact s = Some r \<Longrightarrow> length r < length s"
proof -
  assume "skip_artifact s = Some r"
  then obtain c rest where d: "dropWhile word_char (drop (length artifact_marker) s) = c # rest"
    and r: "r = dropWhile (\<lambda>x. x = CHR 0x0A) (dropWhile is_digit rest)"
    by (auto simp: skip_artifact_def split: if_splits list.splits)
  have "length (c # rest) \<le> length s"
    using length_dropWhile_le [of word_char "drop (length artifact_marker) s"] d by simp
  moreover have "length r \<le> length rest"
    unfolding r by (meson length_dropWhile_le le_trans)
  ultimately show ?thesis by simp
qed

function strip_googleusercontent :: "string \<Rightarrow> string" where
  "strip_googleusercontent [] = []"
| "strip_googleusercontent (c # s) =
     (case skip_artifact (c # s) of
        Some rest \<Rightarrow> strip_googleusercontent rest
      | None \<Rightarrow> c # strip_googleusercontent s)"
  by pat_completeness auto
termination
  by (relation "measure length") (auto dest: skip_artifact_shorter)

declare strip_googleusercontent.simps [simp del]

definition read_candidate :: "json \<Rightarrow> gemini_parsed \<Rightarrow> gemini_parsed" where
  "read_candidate cand out =
     (let out1 = (case Option.bind (nested cand [Idx 0]) as_str of
                    Some rcid \<Rightarrow> if rcid \<noteq> [] then out\<lparr>gp_rcid := Some rcid\<rparr> else out
                  | None \<Rightarrow> out)
      in case Option.bind (nested cand [Idx 1, Idx 0]) as_str of
           Some t \<Rightarrow> if t \<noteq> [] then out1\<lparr>gp_text := strip_googleusercontent t\<rparr> else out1
         | None \<Rightarrow> out1)"

definition read_part :: "serde \<Rightarrow> json \<Rightarrow> gemini_parsed \<Rightarrow> gemini_parsed" where
  "read_part sj part out =
     (case Option.bind (Option.bind (nested part [Idx 2]) as_str) (from_text sj) of
        None \<Rightarrow> out
      | Some pj \<Rightarrow>
          (let out1 = (case nested pj [Idx 1] of
                         Some (JArray m) \<Rightarrow>
                           out\<lparr>gp_metadata := map (\<lambda>v. if is_null v then None else Some (value_to_string sj v)) m\<rparr>
                       | _ \<Rightarrow> out);
               out2 = (case Option.bind (nested pj [Idx 2]) (\<lambda>obj. jget_str obj ''26'') of
                         Some tok \<Rightarrow> if tok \<noteq> [] then out1\<lparr>gp_state_token := Some tok\<rparr> else out1
                       | None \<Rightarrow> out1)
           in case nested pj [Idx 4] of
                Some (JArray candidates) \<Rightarrow> fold read_candidate candidates out2
              | _ \<Rightarrow> out2))"

definition parse_parts :: "serde \<Rightarrow> json list \<Rightarrow> gemini_parsed" where
  "parse_parts sj parts =
     fold (read_part sj) parts \<lparr>gp_text = [], gp_rcid = None, gp_metadata = [], gp_state_token = None\<rparr>"

section \<open>Frames are read however they arrive\<close>

lemma dropWhile_more: "dropWhile p (dropWhile p xs @ ys) = dropWhile p (xs @ ys)"
  by (induction xs) auto

lemma dropWhile_append_nonempty: "dropWhile p xs \<noteq> [] \<Longrightarrow> dropWhile p (xs @ ys) = dropWhile p xs @ ys"
  by (induction xs) auto

lemma takeWhile_more: "length (takeWhile p xs) < length xs \<Longrightarrow> takeWhile p (xs @ ys) = takeWhile p xs"
  by (induction xs) auto

lemma match_length_marker_more:
  assumes "match_length_marker r = Some (n, v)"
  shows "match_length_marker (r @ b) = Some (n, v)"
proof -
  have n: "n = length (takeWhile char_digit r)" "n < length r"
    using assms by (auto simp: match_length_marker_def Let_def split: if_splits)
  then have "takeWhile char_digit (r @ b) = takeWhile char_digit r" by (simp add: takeWhile_more)
  then show ?thesis using assms n
    by (auto simp: match_length_marker_def Let_def nth_append split: if_splits)
qed

lemma units_loop_bound: "units_loop t c u cs = (c', u') \<Longrightarrow> u \<le> t \<Longrightarrow> u' \<le> t \<and> c \<le> c' \<and> c' \<le> c + length cs"
  by (induction t c u cs arbitrary: c' u' rule: units_loop.induct) (fastforce split: if_splits)+

lemma units_loop_more:
  "units_loop t c u cs = (c', t) \<Longrightarrow> u \<le> t \<Longrightarrow> units_loop t c u (cs @ b) = (c', t)"
proof (induction t c u cs arbitrary: c' rule: units_loop.induct)
  case (1 t c u)
  then show ?case by (cases b) auto
qed (auto split: if_splits)

lemma frame_step_more:
  assumes "frame_step sj a = Some (x, r)"
  shows "frame_step sj (a @ b) = Some (x, r @ b)"
proof -
  let ?r = "dropWhile char_ws a"
  obtain n v where m: "match_length_marker ?r = Some (n, v)"
    using assms by (auto simp: frame_step_def Let_def split: option.splits)
  note n = match_length_marker_pos [OF m]
  obtain count units where u: "chars_for_utf16_units (drop n ?r) v = (count, units)"
    by (cases "chars_for_utf16_units (drop n ?r) v")
  have full: "\<not> units < v" and x: "x = chunk_frames sj (take count (drop n ?r))" "r = drop count (drop n ?r)"
    using assms m u by (auto simp: frame_step_def Let_def split: if_splits)
  have b: "units = v" "count \<le> length (drop n ?r)"
    using units_loop_bound [of v 0 0 "drop n ?r" count units] u full
    by (auto simp: chars_for_utf16_units_def)
  have "?r \<noteq> []" using n by (metis length_0_conv not_less_zero)
  then have "dropWhile char_ws (a @ b) = ?r @ b" by (rule dropWhile_append_nonempty)
  moreover have "match_length_marker (?r @ b) = Some (n, v)" by (rule match_length_marker_more [OF m])
  moreover have "drop n (?r @ b) = drop n ?r @ b" using n by simp
  moreover have "chars_for_utf16_units (drop n ?r @ b) v = (count, v)"
    using units_loop_more [of v 0 0 "drop n ?r" count b] u b by (simp add: chars_for_utf16_units_def)
  ultimately show ?thesis using x b(2) by (simp add: frame_step_def Let_def)
qed

interpretation gemini: incremental_parser "frame_step sj" "dropWhile char_ws" "frames_loop sj" for sj
proof
  show "frame_step sj (dropWhile char_ws a @ b) = frame_step sj (a @ b)" for a b
    by (simp add: frame_step_def dropWhile_more)
  show "frames_loop sj a =
      (case frame_step sj a of None \<Rightarrow> ([], dropWhile char_ws a)
       | Some (x, r) \<Rightarrow> (case frames_loop sj r of (xs, t) \<Rightarrow> (x @ xs, t)))" for a
    by (rule frames_loop.simps)
qed (simp_all add: frame_step_shorter frame_step_more dropWhile_more)

text \<open>The frame a server writes around a JSON text: its length counts the line ends on both sides.\<close>

definition utf16_length :: "string list \<Rightarrow> nat" where
  "utf16_length cs = sum_list (map utf16_width cs)"

definition gemini_frame :: "string list \<Rightarrow> string list" where
  "gemini_frame cs =
     map (\<lambda>c. [c]) (dec_of (utf16_length cs + 2)) @ newline_char # cs @ [newline_char]"

definition frame_text_ok :: "serde \<Rightarrow> string list \<times> json \<Rightarrow> bool" where
  "frame_text_ok sj f \<longleftrightarrow>
     (let s = concat (fst f)
      in s \<noteq> [] \<and> plain_char (hd s) \<and> plain_char (last s) \<and> from_text sj s = Some (snd f)
         \<and> utf16_length (fst f) + 2 < 2 ^ 64)"

lemma utf16_width_pos [simp]: "0 < utf16_width ch"
  by (simp add: utf16_width_def)

lemma units_loop_all:
  "units_loop (u + utf16_length cs) c u (cs @ rest) = (c + length cs, u + utf16_length cs)"
proof (induction cs arbitrary: c u)
  case Nil
  then show ?case by (cases rest) (simp_all add: utf16_length_def)
next
  case (Cons ch cs)
  then show ?case using Cons [of "u + utf16_width ch" "Suc c"]
    by (simp add: utf16_length_def add.assoc)
qed

lemma takeWhile_digits:
  "\<forall>c\<in>set s. is_digit c \<Longrightarrow> takeWhile char_digit (map (\<lambda>c. [c]) s @ newline_char # cs) = map (\<lambda>c. [c]) s"
  by (induction s) (simp_all add: char_digit_def newline_char_def is_digit_def)

lemma match_dec_of:
  assumes "n < 2 ^ 64"
  shows "match_length_marker (map (\<lambda>c. [c]) (dec_of n) @ newline_char # cs) = Some (length (dec_of n), n)"
proof -
  have "takeWhile char_digit (map (\<lambda>c. [c]) (dec_of n) @ newline_char # cs) = map (\<lambda>c. [c]) (dec_of n)"
    by (rule takeWhile_digits [OF dec_of_digits])
  moreover have "concat (map (\<lambda>c. [c]) s) = s" for s :: string by (induction s) auto
  ultimately show ?thesis
    using assms by (simp add: match_length_marker_def Let_def dec_value_dec_of nth_append)
qed

lemma digit_not_ws: "is_digit c \<Longrightarrow> \<not> char_ws [c]"
  by (auto simp: char_ws_def wide_ws_def ascii_ws_def is_digit_def)

lemma dropWhile_frame: "dropWhile char_ws (gemini_frame cs @ rest) = gemini_frame cs @ rest"
proof -
  obtain d ds where "dec_of (utf16_length cs + 2) = d # ds"
    using dec_of_nonempty by (cases "dec_of (utf16_length cs + 2)") blast+
  moreover from this have "is_digit d" using dec_of_digits [of "utf16_length cs + 2"] by simp
  ultimately show ?thesis by (simp add: gemini_frame_def digit_not_ws)
qed

lemma trim_lines: "s \<noteq> [] \<Longrightarrow> plain_char (hd s) \<Longrightarrow> plain_char (last s) \<Longrightarrow> trim (CHR 0x0A # s @ [CHR 0x0A]) = s"
proof -
  assume s: "s \<noteq> []" "plain_char (hd s)" "plain_char (last s)"
  have nl: "ws_len seqs (CHR 0x0A # t) = 1" for seqs t by (simp add: ws_len_def ascii_ws_def)
  have "trim_start (CHR 0x0A # s @ [CHR 0x0A]) = trim_start (s @ [CHR 0x0A])"
    unfolding trim_start_def by (subst strip_ws.simps) (simp add: nl)
  also have "\<dots> = s @ [CHR 0x0A]"
    using trim_start_plain [OF s(2), of "tl s @ [CHR 0x0A]"] s(1) by (metis append_Cons list.collapse)
  finally have a: "trim (CHR 0x0A # s @ [CHR 0x0A]) = trim_end (s @ [CHR 0x0A])" by (simp add: trim_def)
  have "trim_end (s @ [CHR 0x0A]) = trim_end s"
    unfolding trim_end_def by (subst strip_ws.simps) (simp add: nl)
  also have "\<dots> = s" using trim_end_plain [OF s(3), of "butlast s"] s(1) by (metis append_butlast_last_id)
  finally show ?thesis using a by simp
qed

lemma frame_step_frame:
  assumes "frame_text_ok sj f"
  shows "frame_step sj (gemini_frame (fst f) @ rest) = Some (flatten (snd f), rest)"
proof -
  let ?cs = "fst f" and ?n = "utf16_length (fst f) + 2"
  let ?body = "newline_char # ?cs @ [newline_char]"
  have ok: "concat ?cs \<noteq> []" "plain_char (hd (concat ?cs))" "plain_char (last (concat ?cs))"
    "from_text sj (concat ?cs) = Some (snd f)" "?n < 2 ^ 64"
    using assms by (simp_all add: frame_text_ok_def Let_def)
  have g: "gemini_frame ?cs @ rest = map (\<lambda>c. [c]) (dec_of ?n) @ newline_char # (?cs @ newline_char # rest)"
    by (simp add: gemini_frame_def)
  have m: "match_length_marker (gemini_frame ?cs @ rest) = Some (length (dec_of ?n), ?n)"
    unfolding g by (rule match_dec_of [OF ok(5)])
  have d: "drop (length (dec_of ?n)) (gemini_frame ?cs @ rest) = ?body @ rest"
    by (simp add: gemini_frame_def)
  have "utf16_length ?body = ?n" by (simp add: utf16_length_def newline_char_def utf16_width_def)
  then have u: "chars_for_utf16_units (?body @ rest) ?n = (length ?body, ?n)"
    using units_loop_all [of 0 ?body 0 rest] by (simp add: chars_for_utf16_units_def)
  have "chunk_frames sj ?body = flatten (snd f)"
    using trim_lines [OF ok(1-3)] ok(1,4) by (auto simp: chunk_frames_def newline_char_def)
  moreover have "take (length ?body) (?body @ rest) = ?body" "drop (length ?body) (?body @ rest) = rest"
    by (simp_all only: append_eq_conv_conj [symmetric] take_append drop_append) simp_all
  ultimately show ?thesis
    unfolding frame_step_def dropWhile_frame m Let_def option.case prod.case d u by simp
qed

lemma frames_loop_frames:
  "list_all (frame_text_ok sj) fs \<Longrightarrow>
   frames_loop sj (concat (map (\<lambda>f. gemini_frame (fst f)) fs)) = (concat (map (\<lambda>f. flatten (snd f)) fs), [])"
proof (induction fs)
  case Nil
  have "frame_step sj [] = None" by (simp add: frame_step_def match_length_marker_def)
  then show ?case by (simp add: frames_loop.simps [of sj "[]"])
next
  case (Cons f fs)
  then have "frame_step sj (gemini_frame (fst f) @ concat (map (\<lambda>f. gemini_frame (fst f)) fs)) =
      Some (flatten (snd f), concat (map (\<lambda>f. gemini_frame (fst f)) fs))"
    by (intro frame_step_frame) simp
  moreover have "frames_loop sj (concat (map (\<lambda>f. gemini_frame (fst f)) fs)) = (concat (map (\<lambda>f. flatten (snd f)) fs), [])"
    using Cons by simp
  ultimately show ?case
    by (simp only: frames_loop.simps [of sj "gemini_frame (fst f) @ _"] list.map concat.simps option.case prod.case)
qed

text \<open>Parsing piece by piece, with the unconsumed tail carried over.\<close>

fun gemini_feed :: "serde \<Rightarrow> string list \<Rightarrow> string list list \<Rightarrow> json list \<times> string list" where
  "gemini_feed sj tail [] = ([], tail)"
| "gemini_feed sj tail (c # cs) =
     (case frames_loop sj (tail @ c) of
        (fs, tail') \<Rightarrow> (case gemini_feed sj tail' cs of (gs, t) \<Rightarrow> (fs @ gs, t)))"

text \<open>
  C37.  Gemini frames are read however they arrive.  A body of frames, each the UTF-16 length and the text of
  a JSON value (also with characters outside the basic plane, which count twice), cut into pieces
  anywhere between two characters (within a length, a frame, or between the two), gives exactly the
  values of the frames in order, arrays spread into their items, and leaves nothing behind.
\<close>

theorem gemini_frames_streamed:
  assumes "list_all (frame_text_ok sj) fs"
    and "concat pieces = concat (map (\<lambda>f. gemini_frame (fst f)) fs)"
  shows "gemini_feed sj [] pieces = (concat (map (\<lambda>f. flatten (snd f)) fs), [])"
proof -
  have f: "gemini_feed sj tail cs = gemini.feed sj tail cs" for tail cs
    by (induction cs arbitrary: tail) simp_all
  show ?thesis
  proof (cases "pieces = []")
    case True
    have "gemini_frame (fst f) \<noteq> []" for f :: "string list \<times> json" by (simp add: gemini_frame_def)
    then have "fs = []" using assms(2) True by (cases fs) auto
    then show ?thesis using True by simp
  next
    case False
    then show ?thesis
      using gemini.feed_concat [OF False, of sj "[]"] frames_loop_frames [OF assms(1)] assms(2)
      by (simp add: f)
  qed
qed

lemma gemini_frames_streamed_witness:
  "gemini_feed \<lparr>to_compact = \<lambda>_. [], to_pretty = \<lambda>_. [], from_text = \<lambda>_. Some (JArray [JBool True, JNull]),
      stream_next = \<lambda>_. None, number_f64 = \<lambda>_. None\<rparr> []
     [[''5''], [newline_char, ''[''], [], [''1'', '']'', newline_char, ''5'', newline_char],
      [''['', ''1'', '']'', newline_char]] =
   ([JBool True, JNull, JBool True, JNull], [])"
proof -
  let ?sj = "\<lparr>to_compact = \<lambda>_. [], to_pretty = \<lambda>_. [], from_text = \<lambda>_. Some (JArray [JBool True, JNull]),
      stream_next = \<lambda>_. None, number_f64 = \<lambda>_. None\<rparr>"
  let ?f = "([''['', ''1'', '']''], JArray [JBool True, JNull])"
  have u: "utf16_length [''['', ''1'', '']''] = 3" by (simp add: utf16_length_def utf16_width_def)
  have p: "plain_char CHR ''[''" "plain_char CHR '']''" by code_simp+
  have "list_all (frame_text_ok ?sj) [?f, ?f]" using u p by (simp add: frame_text_ok_def Let_def)
  moreover have "gemini_frame [''['', ''1'', '']''] =
      [''5'', newline_char, ''['', ''1'', '']'', newline_char]"
    unfolding gemini_frame_def u by code_simp
  ultimately show ?thesis
    using gemini_frames_streamed [of ?sj "[?f, ?f]"
        "[[''5''], [newline_char, ''[''], [], [''1'', '']'', newline_char, ''5'', newline_char],
          [''['', ''1'', '']'', newline_char]]"]
    by (simp add: flatten_def)
qed

end
