(* ===== verification/Gemini.thy ===== *)
theory Gemini
  imports GeminiParser Adapters Auth
begin

text \<open>
  The requests and the provider of the Gemini web adapter (\<open>gravity-providers/src/gemini/build.rs\<close> and
  \<open>provider.rs\<close>): the session bootstrap, the \<open>f.req\<close> payload, model discovery, and the chat with the state that
  threads a conversation.  The reader of the response frames is \<open>GeminiParser\<close>.
\<close>

section \<open>Payloads (\<open>build.rs\<close>)\<close>

definition generate_url :: string where
  "generate_url = ''https://gemini.google.com/_/BardChatUi/data/assistant.lamda.BardFrontendService/StreamGenerate''"

definition batch_exec_url :: string where
  "batch_exec_url = ''https://gemini.google.com/_/BardChatUi/data/batchexecute''"

definition app_url :: string where
  "app_url = ''https://gemini.google.com/app''"

definition default_metadata :: "json list" where
  "default_metadata =
     [JString [], JString [], JString [], JNull, JNull, JNull, JNull, JNull, JNull, JString []]"

definition freq_prompt :: "string \<Rightarrow> string option \<Rightarrow> string" where
  "freq_prompt prompt system_prompt =
     (case system_prompt of
        Some sp \<Rightarrow>
          if trim sp = [] then trim prompt
          else ''System instructions:'' @ [CHR 0x0A] @ trim sp @ [CHR 0x0A, CHR 0x0A] @ ''User request:''
                 @ [CHR 0x0A] @ trim prompt
      | None \<Rightarrow> trim prompt)"

definition ascii_upper :: "char \<Rightarrow> char" where
  "ascii_upper c = (let n = of_char c :: nat in if 97 \<le> n \<and> n \<le> 122 then char_of (n - 32) else c)"

definition inner_list :: "string \<Rightarrow> json list \<Rightarrow> bool \<Rightarrow> string option \<Rightarrow> string \<Rightarrow> json list" where
  "inner_list prompt_text metadata temporary gem_id uuid =
     (let inner =
        (replicate 81 JNull)
          [0 := JArray [JString prompt_text, json_nat 0, JNull, JNull, JNull, JNull, json_nat 0],
           1 := JArray [JString ''en''],
           2 := JArray (if metadata = [] then default_metadata else metadata),
           6 := JArray [json_nat 1], 7 := json_nat 1, 10 := json_nat 1, 11 := json_nat 0,
           17 := JArray [JArray [json_nat 0]], 18 := json_nat 0];
          inner1 = (case gem_id of Some g \<Rightarrow> inner[19 := JString g] | None \<Rightarrow> inner);
          inner2 = inner1
            [27 := json_nat 1, 30 := JArray [json_nat 4], 41 := JArray [json_nat 1], 53 := json_nat 0,
             61 := JArray [], 68 := json_nat 2, 79 := json_nat 1, 80 := json_nat 1];
          inner3 = (if temporary then inner2[45 := json_nat 1] else inner2)
      in inner3[59 := JString uuid])"

definition build_freq ::
    "serde \<Rightarrow> 'w env \<Rightarrow> string \<Rightarrow> string option \<Rightarrow> json list \<Rightarrow> bool \<Rightarrow> string option \<Rightarrow> 'w \<Rightarrow> (string \<times> string) \<times> 'w" where
  "build_freq sj env prompt system_prompt metadata temporary gem_id w =
     (case env_uuid env w of
        (u, w') \<Rightarrow>
          (let uuid = map ascii_upper u;
               inner = inner_list (freq_prompt prompt system_prompt) metadata temporary gem_id uuid
           in ((to_compact sj (JArray [JNull, JString (to_compact sj (JArray inner))]), uuid), w')))"

definition reqid :: "'w env \<Rightarrow> 'w \<Rightarrow> u64 \<times> 'w" where
  "reqid env w = (case env_u64 env w of (x, w') \<Rightarrow> (10000 + x mod 900000, w'))"

definition gemini_models :: "string list" where
  "gemini_models =
     [''gemini-3-flash'', ''gemini-3-pro'', ''gemini-3-flash-thinking'', ''gemini-3-pro-plus'',
      ''gemini-3-flash-plus'', ''gemini-3-pro-advanced'', ''gemini-3-flash-advanced'',
      ''gemini-2.5-pro'', ''gemini-2.5-flash'']"

definition gemini_model_table :: "(string \<times> string \<times> nat) list" where
  "gemini_model_table =
     [(''gemini-3-flash'', ''fbb127bbb056c959'', 1),
      (''gemini-3-pro'', ''9d8ca3786ebdfbea'', 1),
      (''gemini-3-flash-thinking'', ''5bf011840784117a'', 1),
      (''gemini-3-pro-plus'', ''e6fa609c3fa255c0'', 4),
      (''gemini-3-flash-plus'', ''56fdd199312815e2'', 4),
      (''gemini-3-flash-thinking-plus'', ''e051ce1aa80aa576'', 4),
      (''gemini-3-pro-advanced'', ''e6fa609c3fa255c0'', 2),
      (''gemini-3-flash-advanced'', ''56fdd199312815e2'', 2)]"

definition model_name_for_id :: "string \<Rightarrow> string option" where
  "model_name_for_id i = map_option fst (find (\<lambda>(name, hex, tier). hex = i) gemini_model_table)"

definition model_headers_with_uuid :: "string \<Rightarrow> string \<Rightarrow> (string \<times> string) list" where
  "model_headers_with_uuid model uuid =
     [(''x-goog-ext-73010989-jspb'', ''[0]''), (''x-goog-ext-73010990-jspb'', ''[0,0,0]'')]
     @ (case find (\<lambda>(name, hex, tier). name = model) gemini_model_table of
          None \<Rightarrow> []
        | Some (_, hex, tier) \<Rightarrow>
            [(''x-goog-ext-525001261-jspb'',
              ''[1,null,null,null,'' @ [CHR 0x22] @ hex @ [CHR 0x22] @ '',null,null,0,[4,5,6,8],null,null,'' @ dec_of tier
                @ '',null,null,1,1,'' @ [CHR 0x22] @ uuid @ [CHR 0x22] @ '']'')])"

section \<open>Sessions (\<open>provider.rs\<close>)\<close>

definition gemini_caps :: provider_capabilities where
  "gemini_caps =
     \<lparr>cap_provider = Gemini, tool_support = ToolJsonEmulated, structured_output = OutJsonInstruction,
      remote_session = SessRequired, supports_system_prompt = True, supports_stateful_history = True,
      requires_remote_checkpoint = False, default_history_mode = HistAuto, supports_image_generation = False\<rparr>"

definition gemini_user_agent :: string where
  "gemini_user_agent =
     ''Mozilla/5.0 (Windows NT 10.0; Win64; x64) AppleWebKit/537.36 (KHTML, like Gecko) Chrome/145.0.0.0 Safari/537.36''"

definition google_cookie :: "string \<Rightarrow> bool" where
  "google_cookie k \<longleftrightarrow>
     starts_with ''__Secure-'' k \<or> k \<in> {''SID'', ''SAPISID'', ''NID'', ''SIDCC'', ''SNLM0E''}"

definition account_cookie :: "string \<times> json \<Rightarrow> string option" where
  "account_cookie e =
     (if google_cookie (fst e) then map_option (\<lambda>s. fst e @ ''='' @ s) (as_str (snd e)) else None)"

definition cookie_header :: "chat_ctx \<Rightarrow> string" where
  "cookie_header cx =
     (let cookies = (case au_extra (pa_auth (cx_account cx)) of
                       None \<Rightarrow> [] | Some m \<Rightarrow> List.map_filter account_cookie m)
      in join_with ''; ''
           (if cookies = [] \<and> cx_secret cx \<noteq> [] then [''__Secure-1PSID='' @ cx_secret cx] else cookies))"

record bootstrap_tokens =
  bt_access_token :: string
  bt_build_label :: "string option"
  bt_session_id :: "string option"

text \<open>The string after \<open>"key":\<close> in the page, if there is one and it is not empty.\<close>

definition extract_field :: "string \<Rightarrow> string \<Rightarrow> string option" where
  "extract_field haystack key =
     (let needle = [CHR 0x22] @ key @ [CHR 0x22] @ '':''
      in do {
        i \<leftarrow> find_str needle haystack;
        rest \<leftarrow> strip_prefix [CHR 0x22] (trim_start (drop (i + length needle) haystack));
        (val, _) \<leftarrow> split_once (CHR 0x22) rest;
        (if val = [] then None else Some val) })"

definition or_opt :: "'a option \<Rightarrow> 'a option \<Rightarrow> 'a option" where
  "or_opt a b = (case a of Some x \<Rightarrow> Some x | None \<Rightarrow> b)"

definition or_empty :: "string option \<Rightarrow> string" where
  "or_empty s = (case s of Some x \<Rightarrow> x | None \<Rightarrow> [])"

definition stored_token :: "chat_ctx \<Rightarrow> string option" where
  "stored_token cx = or_opt (secret_of (cx_account cx) ''access_token'') (secret_of (cx_account cx) ''SNlM0e'')"

definition cookie_field :: "chat_ctx \<Rightarrow> (string \<times> string) list" where
  "cookie_field cx = (if cookie_header cx = [] then [] else [(''cookie'', cookie_header cx)])"

definition gemini_get :: "chat_ctx \<Rightarrow> http_request" where
  "gemini_get cx =
     with_headers
       ([(''origin'', ''https://gemini.google.com''), (''referer'', ''https://gemini.google.com/''),
         (''user-agent'', gemini_user_agent)] @ cookie_field cx)
       (with_cookie_store True (request_from ''chrome'' cx (request_get app_url)))"

definition gemini_bootstrap :: "'w net \<Rightarrow> chat_ctx \<Rightarrow> 'w \<Rightarrow> (error + bootstrap_tokens) \<times> 'w" where
  "gemini_bootstrap net cx w =
     (let label = secret_of (cx_account cx) ''build_label''; session = secret_of (cx_account cx) ''session_id''
      in if label \<noteq> None \<and> session \<noteq> None
         then (Inr \<lparr>bt_access_token = or_empty (stored_token cx), bt_build_label = label, bt_session_id = session\<rparr>, w)
         else
           (case send_ok net
                   (\<lambda>resp. ProviderErr (with_status (rp_status resp)
                      (provider_error_new Gemini Authentication ''gemini_bootstrap_failed''
                         ''Gemini bootstrap GET /app failed (check __Secure-1PSID cookie)'')))
                   (gemini_get cx) w of
              (Inl e, w') \<Rightarrow> (Inl e, w')
            | (Inr resp, w') \<Rightarrow>
                (let body = response_text_lossy resp
                 in (Inr \<lparr>bt_access_token = or_empty (or_opt (extract_field body ''SNlM0e'') (stored_token cx)),
                          bt_build_label = or_opt (extract_field body ''cfb2h'') label,
                          bt_session_id = or_opt (extract_field body ''FdrFJe'') session\<rparr>, w'))))"

section \<open>Requests\<close>

fun turn_label :: "role \<Rightarrow> string" where
  "turn_label RUser = ''User''"
| "turn_label RAssistant = ''Assistant''"
| "turn_label RTool = ''Tool''"
| "turn_label RSystem = ''System''"

definition prompt_line :: "message \<Rightarrow> string option" where
  "prompt_line m =
     (if trim (text_of m) = [] then None else Some (turn_label (msg_role m) @ '': '' @ text_of m))"

definition real_prompt :: "string option \<Rightarrow> string option" where
  "real_prompt sp = (case sp of Some s \<Rightarrow> if trim s = [] then None else Some s | None \<Rightarrow> None)"

definition build_prompt :: "message list \<Rightarrow> string option \<Rightarrow> string" where
  "build_prompt messages system_prompt =
     (if length messages \<le> 1
      then
        (let last_text = (case messages of [] \<Rightarrow> [] | _ \<Rightarrow> text_of (last messages))
         in case real_prompt system_prompt of
              Some sp \<Rightarrow> ''System instructions:'' @ [CHR 0x0A] @ trim sp @ [CHR 0x0A, CHR 0x0A] @ ''User request:''
                          @ [CHR 0x0A] @ trim last_text
            | None \<Rightarrow> last_text)
      else
        join_with [CHR 0x0A, CHR 0x0A]
          ((case real_prompt system_prompt of Some sp \<Rightarrow> [''System: '' @ trim sp] | None \<Rightarrow> [])
           @ List.map_filter prompt_line messages))"

definition remote_str :: "checkpoint \<Rightarrow> string \<Rightarrow> string" where
  "remote_str chk k = or_empty (Option.bind (metadata_get (cp_remote_metadata chk) k) as_str)"

definition build_conv_metadata :: "checkpoint option \<Rightarrow> json list" where
  "build_conv_metadata chk =
     (case chk of
        None \<Rightarrow> []
      | Some c \<Rightarrow>
          if remote_str c ''gemini_c_id'' = [] \<and> remote_str c ''gemini_r_id'' = [] then []
          else [JString (remote_str c ''gemini_c_id''), JString (remote_str c ''gemini_r_id''),
                JString (remote_str c ''gemini_rcid''), JNull, JNull, JNull, JNull, JNull, JNull,
                JString (remote_str c ''gemini_state_token'')])"

definition access_of :: "chat_ctx \<Rightarrow> bootstrap_tokens \<Rightarrow> string" where
  "access_of cx tokens = (if bt_access_token tokens = [] then cx_secret cx else bt_access_token tokens)"

definition url_param :: "string \<Rightarrow> string option \<Rightarrow> string" where
  "url_param name v = (case v of None \<Rightarrow> [] | Some x \<Rightarrow> ''&'' @ name @ ''='' @ urlencode x)"

definition freq_body :: "string \<Rightarrow> string \<Rightarrow> string" where
  "freq_body payload token =
     ''f.req='' @ urlencode payload @ (if token = [] then [] else ''&at='' @ urlencode token)"

definition form_headers :: "(string \<times> string) list" where
  "form_headers =
     [(''content-type'', ''application/x-www-form-urlencoded;charset=UTF-8''), (''origin'', ''https://gemini.google.com''),
      (''referer'', ''https://gemini.google.com/''), (''x-same-domain'', ''1''), (''user-agent'', gemini_user_agent)]"

definition generate_target :: "string \<Rightarrow> bootstrap_tokens \<Rightarrow> string" where
  "generate_target n tokens =
     generate_url @ ''?_reqid='' @ n @ ''&rt=c'' @ url_param ''bl'' (bt_build_label tokens) @ ''&hl=en-US''
     @ url_param ''f.sid'' (bt_session_id tokens)"

definition gemini_request :: "serde \<Rightarrow> 'w env \<Rightarrow> chat_ctx \<Rightarrow> bootstrap_tokens \<Rightarrow> 'w \<Rightarrow> http_request \<times> 'w" where
  "gemini_request sj env cx tokens w =
     (let rq = cx_request cx
      in case build_freq sj env (build_prompt (rq_messages rq) (rq_system_prompt rq)) None
                (build_conv_metadata (cx_checkpoint cx)) True None w of
           ((payload, uuid), w1) \<Rightarrow>
             (case reqid env w1 of
                (n, w2) \<Rightarrow>
                  (with_headers (model_headers_with_uuid (mid_model (rq_model rq)) uuid)
                     (with_body (str_bytes (freq_body payload (access_of cx tokens)))
                       (with_headers
                          (form_headers @ [(''x-goog-ext-525005358-jspb'', ''['' @ [CHR 0x22] @ uuid @ [CHR 0x22] @ '',1]'')]
                           @ cookie_field cx)
                          (with_cookie_store True
                            (request_from ''chrome'' cx (request_post (generate_target (dec_of (unat n)) tokens)))))),
                   w2)))"

section \<open>Discovery\<close>

definition status_freq :: string where
  "status_freq =
     ''[[['' @ [CHR 0x22] @ ''otAQ7b'' @ [CHR 0x22, CHR '','', CHR 0x22] @ ''[]'' @ [CHR 0x22] @ '',null,''
       @ [CHR 0x22] @ ''generic'' @ [CHR 0x22] @ '']]]''"

definition status_request :: "chat_ctx \<Rightarrow> bootstrap_tokens \<Rightarrow> string \<Rightarrow> http_request" where
  "status_request cx tokens n =
     with_body (str_bytes (freq_body status_freq (access_of cx tokens)))
       (with_headers (form_headers @ cookie_field cx)
         (with_cookie_store True
           (request_from ''chrome'' cx
             (request_post (batch_exec_url @ ''?rpcids=otAQ7b&_reqid='' @ n @ ''&rt=c''
                @ url_param ''f.sid'' (bt_session_id tokens) @ url_param ''bl'' (bt_build_label tokens))))))"

definition discovered_model :: "json \<Rightarrow> model_info option" where
  "discovered_model m =
     map_option
       (\<lambda>hex. \<lparr>mi_id = (case model_name_for_id hex of Some name \<Rightarrow> name | None \<Rightarrow> hex),
               mi_display_name = Option.bind (nested m [Idx 1]) as_str,
               mi_description = Option.bind (nested m [Idx 2]) as_str, mi_tags = []\<rparr>)
       (Option.bind (nested m [Idx 0]) as_str)"

definition frame_models :: "serde \<Rightarrow> json \<Rightarrow> model_info list" where
  "frame_models sj frame =
     (case Option.bind (Option.bind (nested frame [Idx 2]) as_str) (from_text sj) of
        None \<Rightarrow> []
      | Some part \<Rightarrow>
          (case Option.bind (nested part [Idx 15]) as_array of
             None \<Rightarrow> [] | Some models \<Rightarrow> List.map_filter discovered_model models))"

definition gemini_discover_models :: "'w net \<Rightarrow> 'w env \<Rightarrow> chat_ctx \<Rightarrow> 'w \<Rightarrow> (error + model_info list) \<times> 'w" where
  "gemini_discover_models net env cx w =
     (let fallback = map model_info_bare gemini_models
      in case gemini_bootstrap net cx w of
           (Inl e, w1) \<Rightarrow> (Inr fallback, w1)
         | (Inr tokens, w1) \<Rightarrow>
             (case reqid env w1 of
                (n, w2) \<Rightarrow>
                  (case nt_send net (status_request cx tokens (dec_of (unat n))) w2 of
                     (Inl e, w3) \<Rightarrow> (Inr fallback, w3)
                   | (Inr resp, w3) \<Rightarrow>
                       (if \<not> is_success resp then (Inr fallback, w3)
                        else
                          (let out = concat (map (frame_models (nt_serde net))
                                 (extract_json_from_response (nt_serde net) (response_text_lossy resp)))
                           in (Inr (if out = [] then fallback else out), w3))))))"

section \<open>The provider\<close>

text \<open>The state of the conversation goes into the metadata of the response.\<close>

definition put_opt :: "string \<Rightarrow> string option \<Rightarrow> metadata \<Rightarrow> metadata" where
  "put_opt k v md = (case v of None \<Rightarrow> md | Some s \<Rightarrow> metadata_insert k (JString s) md)"

definition part_id :: "nat \<Rightarrow> gemini_parsed \<Rightarrow> string option" where
  "part_id i p = (if i < length (gp_metadata p) then gp_metadata p ! i else None)"

definition conversation_state :: "gemini_parsed \<Rightarrow> metadata" where
  "conversation_state p =
     put_opt ''gemini_state_token'' (gp_state_token p)
       (put_opt ''gemini_rcid'' (gp_rcid p)
         (put_opt ''gemini_r_id'' (part_id 1 p) (put_opt ''gemini_c_id'' (part_id 0 p) metadata_new)))"

definition gemini_response :: "chat_ctx \<Rightarrow> gemini_parsed \<Rightarrow> chat_response" where
  "gemini_response cx p =
     (stop_response cx (message_assistant (gp_text p)))
       \<lparr>rs_provider_response_id := gp_rcid p, rs_metadata := conversation_state p\<rparr>"

text \<open>The error of an unreadable answer quotes it as the language's debug printer does.\<close>

definition gemini_chat :: "(string \<Rightarrow> string) \<Rightarrow> 'w net \<Rightarrow> 'w env \<Rightarrow> chat_ctx \<Rightarrow> 'w \<Rightarrow> (error + chat_response) \<times> 'w" where
  "gemini_chat debug net env cx w =
     (case gemini_bootstrap net cx w of
        (Inl e, w1) \<Rightarrow> (Inl e, w1)
      | (Inr tokens, w1) \<Rightarrow>
          (case gemini_request (nt_serde net) env cx tokens w1 of
             (req, w2) \<Rightarrow>
               (case send_ok net
                       (\<lambda>resp. refused Gemini ''gemini_request_failed'' (rp_status resp)
                          (''Gemini request failed: '' @ take_chars 300 (response_text_lossy resp))) req w2 of
                  (Inl e, w3) \<Rightarrow> (Inl e, w3)
                | (Inr resp, w3) \<Rightarrow>
                    (let body = response_text_lossy resp;
                         frames = extract_json_from_response (nt_serde net) body;
                         p = parse_parts (nt_serde net) frames
                     in (if gp_text p = [] \<and> gp_rcid p = None
                         then Inl (ProviderErr (provider_error_new Gemini OtherKind ''gemini_empty_response''
                                (''Gemini returned no parseable content. frames='' @ dec_of (length frames)
                                   @ '' body_preview='' @ debug (take_chars 500 body))))
                         else Inr (gemini_response cx p), w3)))))"

definition gemini_chat_stream :: "(string \<Rightarrow> string) \<Rightarrow> 'w net \<Rightarrow> 'w env \<Rightarrow> chat_ctx \<Rightarrow> 'w \<Rightarrow> (error + event_stream) \<times> 'w" where
  "gemini_chat_stream debug net env cx w = replay (gemini_chat debug net env cx w)"

definition gemini_provider :: "(string \<Rightarrow> string) \<Rightarrow> 'w net \<Rightarrow> 'w env \<Rightarrow> 'w provider" where
  "gemini_provider debug net env =
     \<lparr>pv_capabilities = gemini_caps, pv_list_models = gemini_models,
      pv_discover_models = gemini_discover_models net env,
      pv_normalize_system_prompt = default_normalize_system_prompt,
      pv_open_checkpoint = default_open_checkpoint,
      pv_chat = gemini_chat debug net env, pv_chat_stream = gemini_chat_stream debug net env,
      pv_authenticator = None\<rparr>"

section \<open>A conversation is threaded\<close>

lemma metadata_get_put_opt:
  "metadata_get (put_opt k v md) k' =
     (if k = k' then (case v of Some s \<Rightarrow> Some (JString s) | None \<Rightarrow> metadata_get md k') else metadata_get md k')"
  by (simp add: put_opt_def metadata.look_put split: option.split)

lemma remote_str_state:
  "remote_str (c\<lparr>cp_remote_metadata := conversation_state p\<rparr>) ''gemini_c_id'' = or_empty (part_id 0 p)"
  "remote_str (c\<lparr>cp_remote_metadata := conversation_state p\<rparr>) ''gemini_r_id'' = or_empty (part_id 1 p)"
  "remote_str (c\<lparr>cp_remote_metadata := conversation_state p\<rparr>) ''gemini_rcid'' = or_empty (gp_rcid p)"
  "remote_str (c\<lparr>cp_remote_metadata := conversation_state p\<rparr>) ''gemini_state_token'' = or_empty (gp_state_token p)"
  by (simp_all add: remote_str_def conversation_state_def metadata_get_put_opt or_empty_def split: option.split)

lemma length_inner_list: "length (inner_list t md tmp g u) = 81"
  by (simp add: inner_list_def Let_def split: option.split)

lemma inner_list_nth:
  "inner_list t md tmp g u ! 0 = JArray [JString t, json_nat 0, JNull, JNull, JNull, JNull, json_nat 0]"
  "inner_list t md tmp g u ! 2 = JArray (if md = [] then default_metadata else md)"
  "inner_list t md tmp g u ! 59 = JString u"
  by (simp_all add: inner_list_def Let_def split: option.split)


section \<open>The request is read back\<close>

lemma urlencode_unreserved: "list_all unreserved s \<Longrightarrow> urlencode s = s"
  by (induction s) (simp_all add: urlencode_def encode_byte_def)

lemma urlencode_dec: "urlencode (dec_of n) = dec_of n"
proof (rule urlencode_unreserved)
  have "is_digit c \<Longrightarrow> unreserved c" for c by (simp add: is_digit_def unreserved_def Let_def)
  then show "list_all unreserved (dec_of n)" using dec_of_digits [of n] by (auto simp: list_all_iff)
qed

lemma query_string_append:
  "ps \<noteq> [] \<Longrightarrow> qs \<noteq> [] \<Longrightarrow> query_string (ps @ qs) = query_string ps @ ''&'' @ query_string qs"
proof (induction ps)
  case (Cons p ps)
  then show ?case by (cases "ps = []") (simp_all add: query_string_def join_with_Cons)
qed simp

lemma query_string_one: "query_string [(k, v)] = urlencode k @ ''='' @ urlencode v"
  by (simp add: query_string_def)

definition form_params :: "string \<Rightarrow> string \<Rightarrow> (string \<times> string) list" where
  "form_params payload token = (''f.req'', payload) # (if token = [] then [] else [(''at'', token)])"

definition opt_param :: "string \<Rightarrow> string option \<Rightarrow> (string \<times> string) list" where
  "opt_param k v = (case v of None \<Rightarrow> [] | Some x \<Rightarrow> [(k, x)])"

definition target_params :: "string \<Rightarrow> bootstrap_tokens \<Rightarrow> (string \<times> string) list" where
  "target_params n tokens =
     [(''_reqid'', n), (''rt'', ''c'')] @ opt_param ''bl'' (bt_build_label tokens) @ [(''hl'', ''en-US'')]
     @ opt_param ''f.sid'' (bt_session_id tokens)"

lemma plain_names:
  "urlencode ''f.req'' = ''f.req''" "urlencode ''at'' = ''at''" "urlencode ''_reqid'' = ''_reqid''" "urlencode ''rt'' = ''rt''"
  "urlencode ''c'' = ''c''" "urlencode ''bl'' = ''bl''" "urlencode ''hl'' = ''hl''" "urlencode ''en-US'' = ''en-US''"
  "urlencode ''f.sid'' = ''f.sid''"
  by code_simp+

lemma freq_body_query: "freq_body payload token = query_string (form_params payload token)"
  by (simp add: freq_body_def form_params_def query_string_def plain_names)

lemma query_string_opt:
  "ps \<noteq> [] \<Longrightarrow> urlencode k = k \<Longrightarrow> query_string (ps @ opt_param k v) = query_string ps @ url_param k v"
  by (cases v) (simp_all add: opt_param_def url_param_def query_string_append query_string_one)

lemma generate_target_query:
  "generate_target (dec_of n) tokens = generate_url @ ''?'' @ query_string (target_params (dec_of n) tokens)"
proof -
  let ?a = "[(''_reqid'', dec_of n), (''rt'', ''c'')]"
  have a: "query_string ?a = ''_reqid='' @ dec_of n @ ''&rt=c''"
    by (simp add: query_string_def plain_names urlencode_dec)
  have b: "query_string (?a @ opt_param ''bl'' (bt_build_label tokens)) =
      ''_reqid='' @ dec_of n @ ''&rt=c'' @ url_param ''bl'' (bt_build_label tokens)"
    using query_string_opt [of ?a "''bl''" "bt_build_label tokens"] a by (simp add: plain_names)
  have "query_string ((?a @ opt_param ''bl'' (bt_build_label tokens)) @ [(''hl'', ''en-US'')]) =
      ''_reqid='' @ dec_of n @ ''&rt=c'' @ url_param ''bl'' (bt_build_label tokens) @ ''&hl=en-US''"
    using query_string_append [of "?a @ opt_param ''bl'' (bt_build_label tokens)" "[(''hl'', ''en-US'')]"] b
    by (simp add: query_string_one plain_names)
  then have "query_string (target_params (dec_of n) tokens) =
      ''_reqid='' @ dec_of n @ ''&rt=c'' @ url_param ''bl'' (bt_build_label tokens) @ ''&hl=en-US''
        @ url_param ''f.sid'' (bt_session_id tokens)"
    using query_string_opt [of "(?a @ opt_param ''bl'' (bt_build_label tokens)) @ [(''hl'', ''en-US'')]" "''f.sid''" "bt_session_id tokens"]
    by (simp add: target_params_def plain_names)
  then show ?thesis by (simp add: generate_target_def)
qed

text \<open>
  The request is read back.  For every request, the server that decodes the form gets exactly the payload
  and, unless it is empty, the access token, and the one that decodes the URL gets the request id, the build
  label and the session id; the payload is that of 81 entries with the prompt and the id of the request,
  and the header repeats that id.
\<close>

theorem gemini_request_read_back:
  "\<exists>payload uuid n w1 inner.
     build_freq sj env (build_prompt (rq_messages (cx_request cx)) (rq_system_prompt (cx_request cx))) None
       (build_conv_metadata (cx_checkpoint cx)) True None w = ((payload, uuid), w1)
   \<and> payload = to_compact sj (JArray [JNull, JString (to_compact sj (JArray inner))])
   \<and> length inner = 81 \<and> inner ! 59 = JString uuid
   \<and> inner ! 0 = JArray [JString (trim (build_prompt (rq_messages (cx_request cx)) (rq_system_prompt (cx_request cx)))),
                        json_nat 0, JNull, JNull, JNull, JNull, json_nat 0]
   \<and> map_option (\<lambda>b. parse_query (bytes_str b)) (rq_body (fst (gemini_request sj env cx tokens w))) =
       Some (form_params payload (access_of cx tokens))
   \<and> (\<exists>q. rq_url (fst (gemini_request sj env cx tokens w)) = generate_url @ ''?'' @ q
          \<and> parse_query q = target_params (dec_of n) tokens)
   \<and> (''x-goog-ext-525005358-jspb'', ''['' @ [CHR 0x22] @ uuid @ [CHR 0x22] @ '',1]'')
       \<in> set (rq_headers (fst (gemini_request sj env cx tokens w)))"
proof -
  let ?p = "build_prompt (rq_messages (cx_request cx)) (rq_system_prompt (cx_request cx))"
  let ?md = "build_conv_metadata (cx_checkpoint cx)"
  obtain payload uuid w1 where f: "build_freq sj env ?p None ?md True None w = ((payload, uuid), w1)"
    by (metis prod.exhaust)
  obtain n w2 where r: "reqid env w1 = (n, w2)" by (cases "reqid env w1")
  let ?inner = "inner_list (trim ?p) ?md True None uuid"
  have payload: "payload = to_compact sj (JArray [JNull, JString (to_compact sj (JArray ?inner))])"
    using f by (auto simp: build_freq_def freq_prompt_def Let_def split: prod.splits)
  have body: "rq_body (fst (gemini_request sj env cx tokens w)) = Some (str_bytes (freq_body payload (access_of cx tokens)))"
    by (simp add: gemini_request_def f r with_headers_eq with_body_def)
  have url: "rq_url (fst (gemini_request sj env cx tokens w)) = generate_target (dec_of (unat n)) tokens"
    by (simp add: gemini_request_def f r with_headers_eq with_body_def with_cookie_store_def request_post_def request_new_def)
  have header: "(''x-goog-ext-525005358-jspb'', ''['' @ [CHR 0x22] @ uuid @ [CHR 0x22] @ '',1]'')
       \<in> set (rq_headers (fst (gemini_request sj env cx tokens w)))"
    by (simp add: gemini_request_def f r with_headers_eq with_body_def)
  have pq: "parse_query (query_string (form_params payload (access_of cx tokens))) = form_params payload (access_of cx tokens)"
    by (rule parse_query_string) (simp add: form_params_def)
  have tq: "parse_query (query_string (target_params (dec_of (unat n)) tokens)) = target_params (dec_of (unat n)) tokens"
    by (rule parse_query_string) (simp add: target_params_def)
  show ?thesis
  proof (rule exI [of _ payload], rule exI [of _ uuid], rule exI [of _ "unat n"], rule exI [of _ w1],
      rule exI [of _ ?inner], intro conjI)
    show "map_option (\<lambda>b. parse_query (bytes_str b)) (rq_body (fst (gemini_request sj env cx tokens w))) =
       Some (form_params payload (access_of cx tokens))"
      using pq by (simp add: body freq_body_query)
    show "\<exists>q. rq_url (fst (gemini_request sj env cx tokens w)) = generate_url @ ''?'' @ q
          \<and> parse_query q = target_params (dec_of (unat n)) tokens"
      unfolding url generate_target_query using tq by blast
  qed (rule f payload length_inner_list inner_list_nth header)+
qed

text \<open>The page's fields are found whatever surrounds them.\<close>

lemma extract_field_found:
  assumes "find_str ([CHR 0x22] @ key @ [CHR 0x22] @ '':'') html = Some (length pre)"
    and "html = pre @ ([CHR 0x22] @ key @ [CHR 0x22] @ '':'') @ [CHR 0x22] @ v @ [CHR 0x22] @ post"
    and "CHR 0x22 \<notin> set v" and "v \<noteq> []"
  shows "extract_field html key = Some v"
proof -
  have "plain_char (CHR 0x22)" by code_simp
  then have "trim_start ([CHR 0x22] @ v @ [CHR 0x22] @ post) = [CHR 0x22] @ v @ [CHR 0x22] @ post"
    using trim_start_plain [of "CHR 0x22"] by simp
  moreover have "drop (length a + length b) (a @ b @ c) = c" for a b c :: string by simp
  then have "drop (length pre + length ([CHR 0x22] @ key @ [CHR 0x22] @ '':'')) html = [CHR 0x22] @ v @ [CHR 0x22] @ post"
    unfolding assms(2) .
  moreover have "split_once (CHR 0x22) (v @ [CHR 0x22] @ post) = Some (v, post)"
    using split_once_append [OF assms(3), of post] by simp
  ultimately show ?thesis
    using assms(1,4) by (simp add: extract_field_def Let_def strip_prefix_def)
qed

text \<open>
  Two tiers of a model share an id, and the table is read from the front: a model of the advanced tier is always
  discovered under the name of the plus tier, with whose tier it is then requested.
\<close>

lemma advanced_never_discovered:
  "model_name_for_id i \<noteq> Some ''gemini-3-pro-advanced'' \<and> model_name_for_id i \<noteq> Some ''gemini-3-flash-advanced''"
  by (simp add: model_name_for_id_def gemini_model_table_def)

text \<open>
  Without a token in the page or the account, the account's secret is sent twice: as the session cookie and as the
  access token.
\<close>

lemma secret_sent_twice:
  assumes "bt_access_token tokens = []" and "au_extra (pa_auth (cx_account cx)) = None" and "cx_secret cx \<noteq> []"
  shows "cookie_header cx = ''__Secure-1PSID='' @ cx_secret cx \<and> access_of cx tokens = cx_secret cx"
  using assms by (simp add: cookie_header_def access_of_def)

end
