(* ===== verification/KiroParser.thy ===== *)
theory KiroParser
  imports Json
begin

text \<open>
  The event-stream scanner of the Kiro adapter (\<open>gravity-providers/src/kiro/parser.rs\<close>): the body is a
  concatenation of JSON objects, each found by its leading key and brace-counted to its end.

  Positions are byte offsets.  The scanner's special characters are ASCII, and the byte after a
  backslash is the first of an escaped character, whose other bytes are not special.
\<close>

section \<open>Scanner\<close>

datatype kiro_event =
    KContent string
  | KToolUse string string string bool
  | KToolUseInput string
  | KToolUseStop bool
  | KContextUsage u64

definition dquote :: char where
  "dquote = CHR 0x22"

definition markers :: "string list" where
  "markers =
     map (\<lambda>key. CHR ''{'' # dquote # key @ [dquote, CHR '':''])
       [''content'', ''name'', ''followupPrompt'', ''input'', ''stop'', ''contextUsagePercentage'']"

definition next_object_start :: "string \<Rightarrow> nat \<Rightarrow> nat option" where
  "next_object_start buf from =
     (let hits = List.map_filter (\<lambda>m. find_str m (drop from buf)) markers
      in if hits = [] then None else Some (Min (set hits) + from))"

text \<open>\<open>brace\<close> is an \<open>i32\<close>; the result counts from the current character.\<close>

fun object_scan :: "32 word \<Rightarrow> bool \<Rightarrow> bool \<Rightarrow> string \<Rightarrow> nat option" where
  "object_scan brace in_string escape [] = None"
| "object_scan brace in_string escape (c # cs) =
     (if escape then map_option Suc (object_scan brace in_string False cs)
      else if c = CHR 0x5C then map_option Suc (object_scan brace in_string True cs)
      else if c = dquote then map_option Suc (object_scan brace (\<not> in_string) False cs)
      else if c = CHR ''{'' \<and> \<not> in_string then map_option Suc (object_scan (brace + 1) in_string False cs)
      else if c = CHR ''}'' \<and> \<not> in_string then
        (if brace - 1 = 0 then Some 0 else map_option Suc (object_scan (brace - 1) in_string False cs))
      else map_option Suc (object_scan brace in_string False cs))"

definition object_end :: "string \<Rightarrow> nat \<Rightarrow> nat option" where
  "object_end buf start = map_option (\<lambda>n. n + start) (object_scan 0 False False (drop start buf))"

definition has_field :: "json \<Rightarrow> string \<Rightarrow> bool" where
  "has_field v k = (case jget v k of None \<Rightarrow> False | Some x \<Rightarrow> \<not> is_null x)"

definition text_field :: "serde \<Rightarrow> json \<Rightarrow> string \<Rightarrow> string" where
  "text_field sj v k =
     (case jget v k of Some (JString s) \<Rightarrow> s | Some other \<Rightarrow> to_compact sj other | None \<Rightarrow> [])"

definition bool_field :: "json \<Rightarrow> string \<Rightarrow> bool" where
  "bool_field v k = (case Option.bind (jget v k) as_bool of Some b \<Rightarrow> b | None \<Rightarrow> False)"

definition classify :: "serde \<Rightarrow> json \<Rightarrow> kiro_event option" where
  "classify sj v =
     (if has_field v ''content'' \<and> \<not> has_field v ''followupPrompt''
      then Some (KContent (text_field sj v ''content''))
      else
        (case (jget_str v ''name'', jget_str v ''toolUseId'') of
           (Some name, Some tid) \<Rightarrow>
             Some (KToolUse name tid (text_field sj v ''input'') (bool_field v ''stop''))
         | (name, _) \<Rightarrow>
             if has_field v ''input'' \<and> name = None then Some (KToolUseInput (text_field sj v ''input''))
             else if has_field v ''stop'' \<and> \<not> has_field v ''contextUsagePercentage''
             then Some (KToolUseStop (bool_field v ''stop''))
             else map_option KContextUsage
                    (Option.bind (jget v ''contextUsagePercentage'') (as_f64 sj))))"

definition read_object :: "serde \<Rightarrow> string \<Rightarrow> kiro_event list" where
  "read_object sj s =
     (case Option.bind (from_text sj s) (classify sj) of None \<Rightarrow> [] | Some ev \<Rightarrow> [ev])"

lemma object_scan_bound: "object_scan b i e s = Some n \<Longrightarrow> n < length s"
  by (induction b i e s arbitrary: n rule: object_scan.induct) (auto split: if_splits)

lemma object_end_bound: "object_end buf start = Some stop \<Longrightarrow> start \<le> stop \<and> stop < length buf"
  unfolding object_end_def by (auto dest!: object_scan_bound)

lemma next_object_start_ge: "next_object_start buf from = Some p \<Longrightarrow> from \<le> p"
  by (auto simp: next_object_start_def Let_def split: if_splits)

text \<open>The loop from \<open>search_start\<close> on, with what was consumed last.\<close>

function scan_loop :: "serde \<Rightarrow> string \<Rightarrow> nat \<Rightarrow> nat \<Rightarrow> kiro_event list \<times> nat" where
  "scan_loop sj buf search_start last_consumed =
     (case next_object_start buf search_start of
        None \<Rightarrow> ([], last_consumed)
      | Some json_start \<Rightarrow>
          (case object_end buf json_start of
             None \<Rightarrow> ([], last_consumed)
           | Some json_end \<Rightarrow>
               (let evs = read_object sj (take (json_end + 1 - json_start) (drop json_start buf))
                in if length buf \<le> json_end + 1 then (evs, json_end + 1)
                   else (case scan_loop sj buf (json_end + 1) (json_end + 1) of
                           (rest, consumed) \<Rightarrow> (evs @ rest, consumed)))))"
  by pat_completeness auto
termination
  by (relation "measure (\<lambda>(sj, buf, search_start, last_consumed). length buf - search_start)")
    (auto dest!: object_end_bound next_object_start_ge)

declare scan_loop.simps [simp del]

definition parse_stream_buffer :: "serde \<Rightarrow> string \<Rightarrow> kiro_event list \<times> string" where
  "parse_stream_buffer sj buffer =
     (case scan_loop sj buffer 0 0 of (events, last_consumed) \<Rightarrow> (events, drop last_consumed buffer))"

definition parse_event_stream_buffer :: "serde \<Rightarrow> string \<Rightarrow> kiro_event list" where
  "parse_event_stream_buffer sj buffer = fst (parse_stream_buffer sj buffer)"

section \<open>The scanner on the rest of the buffer\<close>

text \<open>One object from the front of the buffer: what precedes its end, and what follows.\<close>

definition next_object :: "string \<Rightarrow> (string \<times> string) option" where
  "next_object buf =
     (case next_object_start buf 0 of
        None \<Rightarrow> None
      | Some p \<Rightarrow>
          (case object_end buf p of
             None \<Rightarrow> None
           | Some e \<Rightarrow> Some (take (e + 1 - p) (drop p buf), drop (e + 1) buf)))"

lemma next_object_shorter: "next_object buf = Some (s, rest) \<Longrightarrow> length rest < length buf"
  by (auto simp: next_object_def dest!: object_end_bound split: option.splits)

function scan_rest :: "serde \<Rightarrow> string \<Rightarrow> kiro_event list \<times> string" where
  "scan_rest sj buf =
     (case next_object buf of
        None \<Rightarrow> ([], buf)
      | Some (s, rest) \<Rightarrow>
          (case scan_rest sj rest of (evs, tail) \<Rightarrow> (read_object sj s @ evs, tail)))"
  by pat_completeness auto
termination
  by (relation "measure (\<lambda>(sj, buf). length buf)") (auto dest: next_object_shorter)

declare scan_rest.simps [simp del]

lemma next_object_start_drop:
  "next_object_start buf from = map_option (\<lambda>n. n + from) (next_object_start (drop from buf) 0)"
  by (simp add: next_object_start_def Let_def)

lemma object_end_drop: "object_end buf (n + from) = map_option (\<lambda>e. e + from) (object_end (drop from buf) n)"
  by (simp add: object_end_def option.map_comp comp_def add.assoc)

lemma next_object_Nil: "next_object [] = None"
  by (auto simp: next_object_def dest!: object_end_bound split: option.split)

lemma scan_rest_Nil: "scan_rest sj [] = ([], [])"
  by (simp add: scan_rest.simps [of sj "[]"] next_object_Nil)

lemma scan_loop_rest:
  assumes "from \<le> length buf" and "scan_loop sj buf from from = (evs, consumed)"
  shows "scan_rest sj (drop from buf) = (evs, drop consumed buf)"
  using assms
proof (induction "length buf - from" arbitrary: "from" evs rule: less_induct)
  case less
  note prems = less.prems
  show ?case
  proof (cases "next_object_start (drop from buf) 0")
    case None
    then have "scan_rest sj (drop from buf) = ([], drop from buf)"
      by (simp add: scan_rest.simps [of sj "drop from buf"] next_object_def)
    moreover have "evs = [] \<and> consumed = from" using prems(2) None
      by (simp add: scan_loop.simps [of sj buf "from"] next_object_start_drop [of buf "from"])
    ultimately show ?thesis by simp
  next
    case (Some p)
    show ?thesis
    proof (cases "object_end (drop from buf) p")
      case None
      then have "scan_rest sj (drop from buf) = ([], drop from buf)"
        using Some by (simp add: scan_rest.simps [of sj "drop from buf"] next_object_def)
      moreover have "evs = [] \<and> consumed = from" using prems(2) None Some
        by (simp add: scan_loop.simps [of sj buf "from"] next_object_start_drop [of buf "from"] object_end_drop)
      ultimately show ?thesis by simp
    next
      case e: (Some e)
      have n: "next_object_start buf from = Some (p + from)" "object_end buf (p + from) = Some (e + from)"
        using Some e by (simp_all add: next_object_start_drop [of buf "from"] object_end_drop)
      have b: "p \<le> e" "e + from < length buf"
        using object_end_bound [OF e] object_end_bound [OF n(2)] by simp_all
      have o: "next_object (drop from buf) =
          Some (take (e + 1 - p) (drop (p + from) buf), drop (e + 1 + from) buf)"
        using Some e by (simp add: next_object_def)
      let ?s = "take (e + 1 - p) (drop (p + from) buf)" and ?r = "drop (e + 1 + from) buf"
      have rest: "scan_rest sj (drop from buf) =
          (case scan_rest sj ?r of (es, tail) \<Rightarrow> (read_object sj ?s @ es, tail))"
        by (simp add: scan_rest.simps [of sj "drop from buf"] o)
      have loop: "scan_loop sj buf from from =
          (if length buf \<le> e + from + 1 then (read_object sj ?s, e + from + 1)
           else (case scan_loop sj buf (e + from + 1) (e + from + 1) of
                   (es, c) \<Rightarrow> (read_object sj ?s @ es, c)))"
        using n b(1) by (simp add: scan_loop.simps [of sj buf "from"] Let_def)
      have r: "?r = drop (e + from + 1) buf" by (simp add: add.commute add.left_commute)
      show ?thesis
      proof (cases "length buf \<le> e + from + 1")
        case True
        then show ?thesis using prems(2) loop rest r by (simp add: scan_rest_Nil)
      next
        case False
        obtain es c where l: "scan_loop sj buf (e + from + 1) (e + from + 1) = (es, c)"
          by (cases "scan_loop sj buf (e + from + 1) (e + from + 1)")
        have c: "evs = read_object sj ?s @ es" "consumed = c"
          using prems(2) loop False l by simp_all
        have "scan_rest sj ?r = (es, drop c buf)"
          using less.hyps [of "e + from + 1" es] l False b c(2) unfolding r by simp
        then show ?thesis using rest c by simp
      qed
    qed
  qed
qed

lemma parse_stream_rest: "parse_stream_buffer sj buf = scan_rest sj buf"
  using scan_loop_rest [of 0 buf sj] by (auto simp: parse_stream_buffer_def split: prod.split)

section \<open>Chunks\<close>

definition marker_at :: "string \<Rightarrow> nat \<Rightarrow> bool" where
  "marker_at buf q \<longleftrightarrow> (\<exists>m\<in>set markers. starts_with m (drop q buf))"

lemma next_object_start_iff:
  "next_object_start buf 0 = Some p \<longleftrightarrow> marker_at buf p \<and> (\<forall>q<p. \<not> marker_at buf q)"
proof -
  let ?hits = "List.map_filter (\<lambda>m. find_str m buf) markers"
  have hits: "i \<in> set ?hits \<longleftrightarrow> (\<exists>m\<in>set markers. find_str m buf = Some i)" for i
    by (force simp: List.map_filter_def)
  have at: "i \<in> set ?hits \<Longrightarrow> marker_at buf i" for i
    unfolding hits marker_at_def using find_str_Some by blast
  have below: "\<exists>i\<in>set ?hits. i \<le> q" if "marker_at buf q" for q
  proof -
    obtain m where m: "m \<in> set markers" "starts_with m (drop q buf)"
      using \<open>marker_at buf q\<close> by (auto simp: marker_at_def)
    then obtain i where "find_str m buf = Some i" using find_str_None by (cases "find_str m buf") auto
    moreover from this have "i \<le> q" using m(2) find_str_first not_less by blast
    ultimately show ?thesis using m(1) hits by blast
  qed
  have start: "next_object_start buf 0 = (if ?hits = [] then None else Some (Min (set ?hits)))"
    by (simp add: next_object_start_def Let_def)
  show ?thesis
  proof
    assume "next_object_start buf 0 = Some p"
    then have ne: "?hits \<noteq> []" and p: "p = Min (set ?hits)" using start by (auto split: if_splits)
    then have "p \<in> set ?hits" by (metis List.finite_set Min_in set_empty)
    moreover have "\<not> marker_at buf q" if "q < p" for q
      using below [of q] that p by (metis List.finite_set Min_le le_less_trans not_less)
    ultimately show "marker_at buf p \<and> (\<forall>q<p. \<not> marker_at buf q)" using at by blast
  next
    assume m: "marker_at buf p \<and> (\<forall>q<p. \<not> marker_at buf q)"
    then obtain i where "i \<in> set ?hits" "i \<le> p" using below by blast
    then have "p \<in> set ?hits" using at m by (metis order_le_less)
    moreover have "p \<le> i" if "i \<in> set ?hits" for i using at that m not_less by blast
    ultimately have "Min (set ?hits) = p" by (intro Min_eqI) auto
    then show "next_object_start buf 0 = Some p" using start \<open>p \<in> set ?hits\<close> by auto
  qed
qed

text \<open>A marker has its only opening brace at its start.\<close>

lemma marker_brace: "m \<in> set markers \<Longrightarrow> m \<noteq> [] \<and> hd m = CHR ''{'' \<and> CHR ''{'' \<notin> set (tl m)"
  by (auto simp: markers_def dquote_def)

lemma starts_with_nth: "starts_with m s \<Longrightarrow> i < length m \<Longrightarrow> i < length s \<and> s ! i = m ! i"
  by (auto simp: starts_with_iff nth_append)

lemma starts_with_take:
  "starts_with m (drop q (a @ b)) \<Longrightarrow> q + length m \<le> length a \<Longrightarrow> starts_with m (drop q a)"
  by (auto simp: starts_with_iff append_eq_append_conv2 append_eq_conv_conj)

lemma starts_with_more: "starts_with m s \<Longrightarrow> starts_with m (s @ t)"
  by (auto simp: starts_with_iff)

lemma next_object_start_append:
  assumes "next_object_start a 0 = Some p"
  shows "next_object_start (a @ b) 0 = Some p"
proof -
  from assms have at: "marker_at a p" and none: "\<forall>q<p. \<not> marker_at a q"
    by (auto simp: next_object_start_iff)
  obtain m0 where m0: "m0 \<in> set markers" "starts_with m0 (drop p a)"
    using at by (auto simp: marker_at_def)
  have "drop p a \<noteq> []" using m0 marker_brace [of m0] by (auto simp: starts_with_iff)
  then have p: "p < length a" by simp
  then have "marker_at (a @ b) p"
    using m0 starts_with_more [of m0 "drop p a" b] by (auto simp: marker_at_def)
  moreover have "\<not> marker_at (a @ b) q" if "q < p" for q
  proof
    assume "marker_at (a @ b) q"
    then obtain m where m: "m \<in> set markers" "starts_with m (drop q (a @ b))"
      by (auto simp: marker_at_def)
    show False
    proof (cases "q + length m \<le> length a")
      case True
      then have "starts_with m (drop q a)" by (rule starts_with_take [OF m(2)])
      then have "marker_at a q" using m(1) by (auto simp: marker_at_def)
      then show False using none that by blast
    next
      case False
      have i: "p - q < length m" "0 < p - q" using False p that by auto
      have "m ! (p - q) = (a @ b) ! p"
        using starts_with_nth [OF m(2) i(1)] that p by (simp del: drop_append)
      also have "\<dots> = a ! p" using p by (simp add: nth_append)
      also have "\<dots> = CHR ''{''"
        using starts_with_nth [OF m0(2), of 0] marker_brace [OF m0(1)] p by (auto simp: hd_conv_nth)
      finally have "CHR ''{'' \<in> set (tl m)"
        using i by (metis Suc_pred' Suc_less_eq gr0_conv_Suc length_tl nth_mem nth_tl diff_Suc_1 less_diff_conv
            add.commute plus_1_eq_Suc)
      then show False using marker_brace [OF m(1)] by blast
    qed
  qed
  ultimately show ?thesis by (simp add: next_object_start_iff)
qed

lemma object_scan_append: "object_scan k i e s = Some n \<Longrightarrow> object_scan k i e (s @ t) = Some n"
  by (induction k i e s arbitrary: n rule: object_scan.induct) (auto split: if_splits)

lemma next_object_append:
  assumes "next_object a = Some (s, r)"
  shows "next_object (a @ b) = Some (s, r @ b)"
proof -
  obtain p e where p: "next_object_start a 0 = Some p" and e: "object_end a p = Some e"
    and sr: "s = take (e + 1 - p) (drop p a)" "r = drop (e + 1) a"
    using assms by (auto simp: next_object_def split: option.splits)
  have bound: "p \<le> e" "e < length a" using object_end_bound [OF e] by auto
  have "object_end (a @ b) p = Some e"
    using e bound object_scan_append [of 0 False False "drop p a" _ b] by (auto simp: object_end_def)
  then show ?thesis
    using next_object_start_append [OF p] sr bound by (simp add: next_object_def)
qed

definition kiro_step :: "serde \<Rightarrow> string \<Rightarrow> (kiro_event list \<times> string) option" where
  "kiro_step sj buf = map_option (\<lambda>(s, r). (read_object sj s, r)) (next_object buf)"

interpretation kiro: incremental_parser "kiro_step sj" "\<lambda>buf. buf" "scan_rest sj" for sj
proof
  show "scan_rest sj a =
      (case kiro_step sj a of None \<Rightarrow> ([], a)
       | Some (x, r) \<Rightarrow> (case scan_rest sj r of (xs, t) \<Rightarrow> (x @ xs, t)))" for a
    by (simp add: scan_rest.simps [of sj a] kiro_step_def split: option.split)
qed (auto simp: kiro_step_def dest: next_object_shorter next_object_append)

text \<open>Parsing chunk by chunk, with the unconsumed tail carried over.\<close>

fun kiro_feed :: "serde \<Rightarrow> string \<Rightarrow> string list \<Rightarrow> kiro_event list \<times> string" where
  "kiro_feed sj tail [] = ([], tail)"
| "kiro_feed sj tail (c # cs) =
     (case parse_stream_buffer sj (tail @ c) of
        (evs, tail') \<Rightarrow> (case kiro_feed sj tail' cs of (evs', t) \<Rightarrow> (evs @ evs', t)))"

text \<open>
  C31.  The incremental parser does not see chunk boundaries.  Parsing a body chunk by chunk, each time
  with the unconsumed tail in front, gives exactly the events of parsing the whole body at once, and the
  same tail, wherever the body is cut: inside a key, a string, an escape or a nested object.
\<close>

theorem kiro_chunk_invariance: "kiro_feed sj [] cs = parse_stream_buffer sj (concat cs)"
proof -
  have "kiro_feed sj tail cs = kiro.feed sj tail cs" for tail
    by (induction cs arbitrary: tail) (simp_all add: parse_stream_rest)
  then show ?thesis
    using kiro.feed_concat [of cs sj "[]"] by (cases "cs = []") (simp_all add: parse_stream_rest scan_rest_Nil)
qed

end
