(* ===== verification/Kiro.thy ===== *)
theory Kiro
  imports Adapters Auth KiroParser
begin

text \<open>
  The Kiro adapter: the request (\<open>gravity-providers/src/kiro/build.rs\<close>) and the provider
  (\<open>kiro/provider.rs\<close>) over the event-stream parser.
\<close>

section \<open>Requests\<close>

definition kiro_model_table :: "(string \<times> string) list" where
  "kiro_model_table =
     [(''auto'', ''auto''),
      (''claude-haiku-4-5'', ''claude-haiku-4.5''), (''claude-haiku-4-5-thinking'', ''claude-haiku-4.5''),
      (''claude-sonnet-4-5'', ''claude-sonnet-4.5''), (''claude-sonnet-4-5-thinking'', ''claude-sonnet-4.5''),
      (''claude-sonnet-4-5-1m'', ''claude-sonnet-4.5-1m''), (''claude-sonnet-4-5-1m-thinking'', ''claude-sonnet-4.5-1m''),
      (''claude-sonnet-4-6'', ''claude-sonnet-4.6''), (''claude-sonnet-4-6-thinking'', ''claude-sonnet-4.6''),
      (''claude-sonnet-4-6-1m'', ''claude-sonnet-4.6-1m''), (''claude-sonnet-4-6-1m-thinking'', ''claude-sonnet-4.6-1m''),
      (''claude-opus-4-5'', ''claude-opus-4.5''), (''claude-opus-4-5-thinking'', ''claude-opus-4.5''),
      (''claude-opus-4-6'', ''claude-opus-4.6''), (''claude-opus-4-6-thinking'', ''claude-opus-4.6''),
      (''claude-opus-4-6-1m'', ''claude-opus-4.6-1m''), (''claude-opus-4-6-1m-thinking'', ''claude-opus-4.6-1m''),
      (''claude-sonnet-4'', ''claude-sonnet-4''), (''claude-3-7-sonnet'', ''CLAUDE_3_7_SONNET_20250219_V1_0''),
      (''nova-swe'', ''AGI_NOVA_SWE_V1_5''), (''gpt-oss-120b'', ''OPENAI_GPT_OSS_120B_1_0''),
      (''qwen3-coder-480b'', ''QWEN3_CODER_480B_A35B_1_0''), (''minimax-m2'', ''MINIMAX_MINIMAX_M2''),
      (''kimi-k2-thinking'', ''MOONSHOT_KIMI_K2_THINKING'')]"

definition kiro_resolve_model :: "string \<Rightarrow> string option" where
  "kiro_resolve_model model = map_of kiro_model_table model"

definition kiro_models :: "string list" where
  "kiro_models = [''auto'', ''claude-sonnet-4-5'', ''claude-sonnet-4-6'', ''claude-opus-4-6'', ''gpt-oss-120b'']"

definition user_input :: "string \<Rightarrow> string \<Rightarrow> json" where
  "user_input content model =
     JObject [(''content'', JString content), (''modelId'', JString model), (''origin'', JString ''AI_EDITOR'')]"

definition user_item :: "json \<Rightarrow> json" where
  "user_item v = JObject [(''userInputMessage'', v)]"

definition assistant_item :: "json \<Rightarrow> json" where
  "assistant_item v = JObject [(''assistantResponseMessage'', v)]"

definition is_user_item :: "json \<Rightarrow> bool" where
  "is_user_item v \<longleftrightarrow> jget v ''userInputMessage'' \<noteq> None"

definition push_continue_if_user :: "json list \<Rightarrow> json list" where
  "push_continue_if_user h =
     (if h \<noteq> [] \<and> is_user_item (last h)
      then h @ [assistant_item (JObject [(''content'', JString ''Continue'')])] else h)"

definition kiro_tool_result :: "string \<Rightarrow> string \<Rightarrow> json" where
  "kiro_tool_result content i =
     JObject [(''content'', JArray [JObject [(''text'', JString content)]]), (''status'', JString ''success''),
              (''toolUseId'', JString i)]"

definition kiro_tool_turn :: "serde \<Rightarrow> string \<Rightarrow> tool_result option \<Rightarrow> json" where
  "kiro_tool_turn sj model tr =
     (let content = (case tr of Some t \<Rightarrow> content_string sj (tr_content t) | None \<Rightarrow> []);
          i = (case tr of Some t \<Rightarrow> tr_tool_call_id t | None \<Rightarrow> [])
      in JObject [(''content'', JString ''Tool results provided.''), (''modelId'', JString model),
                  (''origin'', JString ''AI_EDITOR''),
                  (''userInputMessageContext'', JObject [(''toolResults'', JArray [kiro_tool_result content i])])])"

definition kiro_tool_use :: "tool_call \<Rightarrow> json" where
  "kiro_tool_use tc =
     JObject [(''input'', JObject (tc_arguments tc)), (''name'', JString (tc_name tc)), (''toolUseId'', JString (tc_id tc))]"

definition assistant_fields :: "message \<Rightarrow> jmap" where
  "assistant_fields m =
     (''content'', JString (text_of m))
     # (if msg_tool_calls m = [] then [] else [(''toolUses'', JArray (map kiro_tool_use (msg_tool_calls m)))])"

definition merge_content :: "json \<Rightarrow> jmap \<Rightarrow> json" where
  "merge_content prev arm =
     (case Option.bind (map_of arm ''content'') as_str of
        None \<Rightarrow> prev
      | Some new_content \<Rightarrow>
          if new_content = [] then prev
          else (let prev_content = (case jget_str prev ''content'' of Some s \<Rightarrow> s | None \<Rightarrow> [])
                in jset ''content''
                     (JString (if prev_content = [] then new_content
                               else prev_content @ [CHR 0x0A, CHR 0x0A] @ new_content)) prev))"

definition merge_uses :: "json \<Rightarrow> jmap \<Rightarrow> json" where
  "merge_uses prev arm =
     (case map_of arm ''toolUses'' of
        Some (JArray new_uses) \<Rightarrow>
          jset ''toolUses''
            (JArray ((case Option.bind (jget prev ''toolUses'') as_array of Some old \<Rightarrow> old | None \<Rightarrow> []) @ new_uses)) prev
      | _ \<Rightarrow> prev)"

definition merge_assistant :: "json \<Rightarrow> jmap \<Rightarrow> json" where
  "merge_assistant prev arm = merge_uses (merge_content prev arm) arm"

definition push_assistant :: "json list \<Rightarrow> message \<Rightarrow> json list" where
  "push_assistant h m =
     (if text_of m = [] \<and> msg_tool_calls m = [] then h
      else (case (if h = [] then None else jget (last h) ''assistantResponseMessage'') of
              Some prev \<Rightarrow>
                butlast h @ [jset ''assistantResponseMessage'' (merge_assistant prev (assistant_fields m)) (last h)]
            | None \<Rightarrow> h @ [assistant_item (JObject (assistant_fields m))]))"

definition history_step :: "serde \<Rightarrow> string \<Rightarrow> message \<Rightarrow> json list \<Rightarrow> json list" where
  "history_step sj model m h =
     (case msg_role m of
        RUser \<Rightarrow> push_continue_if_user h @ [user_item (user_input (text_of m) model)]
      | RSystem \<Rightarrow> push_continue_if_user h @ [user_item (user_input (text_of m) model)]
      | RTool \<Rightarrow> push_continue_if_user h @ [user_item (kiro_tool_turn sj model (msg_tool_result m))]
      | RAssistant \<Rightarrow> push_assistant h m)"

definition build_history :: "serde \<Rightarrow> message list \<Rightarrow> string \<Rightarrow> json list" where
  "build_history sj messages model = fold (history_step sj model) (butlast messages) []"

definition prefix_content :: "string \<Rightarrow> json \<Rightarrow> json" where
  "prefix_content system_prompt uim =
     (let old = (case jget_str uim ''content'' of Some s \<Rightarrow> s | None \<Rightarrow> [])
      in jset ''content''
           (JString (if old = [] then system_prompt else system_prompt @ [CHR 0x0A, CHR 0x0A] @ old)) uim)"

text \<open>The first user item is changed in place; \<open>None\<close> when there is none.\<close>

fun inject_first :: "string \<Rightarrow> json list \<Rightarrow> json list option" where
  "inject_first sp [] = None"
| "inject_first sp (item # items) =
     (case jget item ''userInputMessage'' of
        Some uim \<Rightarrow> Some (jset ''userInputMessage'' (prefix_content sp uim) item # items)
      | None \<Rightarrow> map_option ((#) item) (inject_first sp items))"

definition inject_system_prompt :: "string \<Rightarrow> string \<Rightarrow> json list \<Rightarrow> json list" where
  "inject_system_prompt system_prompt model h =
     (if system_prompt = [] then h
      else (case inject_first system_prompt h of
              Some h' \<Rightarrow> h'
            | None \<Rightarrow> user_item (user_input system_prompt model) # h))"

definition convert_tools :: "tool_definition list \<Rightarrow> json list" where
  "convert_tools tools =
     map (\<lambda>t. JObject [(''toolSpecification'',
            JObject [(''name'', JString (td_name t)), (''description'', JString (td_description t)),
                     (''inputSchema'', JObject [(''json'', JObject (td_input_schema t))])])]) tools"

text \<open>The results of the tool messages after the last assistant turn, in order.\<close>

definition trailing_results :: "serde \<Rightarrow> message list \<Rightarrow> json list" where
  "trailing_results sj messages =
     rev (List.map_filter
       (\<lambda>m. if msg_role m = RTool
            then map_option (\<lambda>t. kiro_tool_result (content_string sj (tr_content t)) (tr_tool_call_id t)) (msg_tool_result m)
            else None)
       (takeWhile (\<lambda>m. msg_role m \<noteq> RAssistant) (rev messages)))"

definition current_results :: "serde \<Rightarrow> message list \<Rightarrow> json list" where
  "current_results sj messages = (if msg_role (last messages) = RTool then trailing_results sj messages else [])"

definition current_content :: "serde \<Rightarrow> message list \<Rightarrow> string" where
  "current_content sj messages =
     (let c = (if msg_role (last messages) = RTool
               then (if current_results sj messages = [] then ''Continue'' else ''Tool results provided.'')
               else text_of (last messages))
      in if c = [] then ''Continue'' else c)"

definition current_message :: "serde \<Rightarrow> message list \<Rightarrow> tool_definition list \<Rightarrow> string \<Rightarrow> json" where
  "current_message sj messages tools model =
     (let ctx = (if current_results sj messages = [] then []
                 else [(''toolResults'', JArray (current_results sj messages))])
              @ (if tools = [] then [] else [(''tools'', JArray (convert_tools tools))])
      in JObject ([(''content'', JString (current_content sj messages)), (''modelId'', JString model),
                   (''origin'', JString ''AI_EDITOR'')]
                  @ (if ctx = [] then [] else [(''userInputMessageContext'', JObject ctx)])))"

definition kiro_history :: "serde \<Rightarrow> message list \<Rightarrow> string option \<Rightarrow> string \<Rightarrow> json list" where
  "kiro_history sj messages system_prompt model =
     inject_system_prompt (trim (case system_prompt of Some s \<Rightarrow> s | None \<Rightarrow> [])) model (build_history sj messages model)"

definition build_request ::
    "serde \<Rightarrow> 'w env \<Rightarrow> message list \<Rightarrow> tool_definition list \<Rightarrow> string option \<Rightarrow> string \<Rightarrow> string option \<Rightarrow> 'w
       \<Rightarrow> (json \<times> string) option \<times> 'w" where
  "build_request sj env messages tools system_prompt model profile_arn w =
     (case kiro_resolve_model model of
        None \<Rightarrow> (None, w)
      | Some resolved \<Rightarrow>
          if messages = [] then (None, w)
          else
            (case env_uuid env w of
               (uuid, w') \<Rightarrow>
                 (let history = kiro_history sj messages system_prompt resolved;
                      state = [(''chatTriggerType'', JString ''MANUAL''), (''conversationId'', JString uuid),
                               (''currentMessage'', user_item (current_message sj messages tools resolved))]
                        @ (if history = [] then [] else [(''history'', JArray history)])
                  in (Some (JObject ((''conversationState'', JObject state)
                                     # (case profile_arn of None \<Rightarrow> [] | Some arn \<Rightarrow> [(''profileArn'', JString arn)])),
                            resolved), w'))))"

definition kiro_url :: "string \<Rightarrow> string" where
  "kiro_url region = ''https://q.'' @ region @ ''.amazonaws.com/generateAssistantResponse''"

section \<open>The provider\<close>

definition kiro_caps :: provider_capabilities where
  "kiro_caps =
     \<lparr>cap_provider = Kiro, tool_support = ToolNative, structured_output = OutNone, remote_session = SessNone,
      supports_system_prompt = True, supports_stateful_history = False, requires_remote_checkpoint = False,
      default_history_mode = Stateless, supports_image_generation = False\<rparr>"

definition kiro_http_request :: "serde \<Rightarrow> 'w env \<Rightarrow> chat_ctx \<Rightarrow> 'w \<Rightarrow> (error + http_request) \<times> 'w" where
  "kiro_http_request sj env cx w =
     (let rq = cx_request cx; a = cx_account cx
      in case build_request sj env (rq_messages rq) (rq_tools rq) (rq_system_prompt rq) (mid_model (rq_model rq))
                (secret_of a ''profile_arn'') w of
           (None, w1) \<Rightarrow>
             (Inl (Validation (''unsupported or empty Kiro request for model '' @ mid_model (rq_model rq))
                     ''kiro_bad_request''), w1)
         | (Some (body, _), w1) \<Rightarrow>
             (case env_uuid env w1 of
                (uuid, w2) \<Rightarrow>
                  (Inr (with_body (str_bytes (to_compact sj body))
                     (with_headers
                        [(''content-type'', ''application/json''), (''accept'', ''*/*''),
                         (''authorization'', ''Bearer '' @ cx_secret cx),
                         (''x-amzn-q-developer-api-version'', ''2024-07-31''), (''amz-sdk-invocation-id'', uuid),
                         (''amz-sdk-request'', ''attempt=1; max=1''), (''x-amzn-kiro-agent-mode'', ''vibe''),
                         (''x-amz-user-agent'', ''aws-sdk-js/3.738.0 AmazonQ-For-CLI/2.0.1'')]
                        (request_from ''go'' cx (request_post (kiro_url (kiro_region a)))))), w2)))"

definition kiro_events :: "'w net \<Rightarrow> 'w env \<Rightarrow> chat_ctx \<Rightarrow> 'w \<Rightarrow> (error + kiro_event list) \<times> 'w" where
  "kiro_events net env cx w =
     (case kiro_http_request (nt_serde net) env cx w of
        (Inl e, w1) \<Rightarrow> (Inl e, w1)
      | (Inr req, w1) \<Rightarrow>
          (case nt_send net req w1 of
             (Inl e, w2) \<Rightarrow> (Inl e, w2)
           | (Inr resp, w2) \<Rightarrow>
               (if \<not> is_success resp
                then Inl (refused Kiro ''kiro_request_failed'' (rp_status resp)
                            (''Kiro request failed: '' @ take_chars 300 (response_text_lossy resp)))
                else Inr (parse_event_stream_buffer (nt_serde net) (response_text_lossy resp)), w2)))"

fun kiro_text :: "kiro_event \<Rightarrow> string" where
  "kiro_text (KContent c) = c"
| "kiro_text _ = []"

fun kiro_call :: "serde \<Rightarrow> kiro_event \<Rightarrow> tool_call option" where
  "kiro_call sj (KToolUse name i input _) = Some \<lparr>tc_id = i, tc_name = name, tc_arguments = object_or_empty sj input\<rparr>"
| "kiro_call sj _ = None"

definition kiro_message :: "serde \<Rightarrow> kiro_event list \<Rightarrow> message" where
  "kiro_message sj evs = calls_message (concat (map kiro_text evs)) (List.map_filter (kiro_call sj) evs)"

definition kiro_chat :: "'w net \<Rightarrow> 'w env \<Rightarrow> chat_ctx \<Rightarrow> 'w \<Rightarrow> (error + chat_response) \<times> 'w" where
  "kiro_chat net env cx w =
     (case kiro_events net env cx w of
        (Inl e, w') \<Rightarrow> (Inl e, w')
      | (Inr evs, w') \<Rightarrow> (Inr (stop_response cx (kiro_message (nt_serde net) evs)), w'))"

definition kiro_chat_stream :: "'w net \<Rightarrow> 'w env \<Rightarrow> chat_ctx \<Rightarrow> 'w \<Rightarrow> (error + event_stream) \<times> 'w" where
  "kiro_chat_stream net env cx w = replay (kiro_chat net env cx w)"

definition kiro_provider :: "'w net \<Rightarrow> 'w env \<Rightarrow> 'w oauth \<Rightarrow> 'w provider" where
  "kiro_provider net env oa =
     \<lparr>pv_capabilities = kiro_caps, pv_list_models = kiro_models,
      pv_discover_models = default_discover_models kiro_models,
      pv_normalize_system_prompt = default_normalize_system_prompt,
      pv_open_checkpoint = default_open_checkpoint,
      pv_chat = kiro_chat net env, pv_chat_stream = kiro_chat_stream net env,
      pv_authenticator = Some (kiro_authenticator oa)\<rparr>"

section \<open>The history alternates\<close>

text \<open>An item is the user's (\<open>Some True\<close>) or the assistant's (\<open>Some False\<close>).\<close>

definition item_kind :: "json \<Rightarrow> bool option" where
  "item_kind v =
     (case (jget v ''userInputMessage'', jget v ''assistantResponseMessage'') of
        (Some _, None) \<Rightarrow> Some True
      | (None, Some _) \<Rightarrow> Some False
      | _ \<Rightarrow> None)"

fun alternating :: "json list \<Rightarrow> bool" where
  "alternating [] = True"
| "alternating [v] \<longleftrightarrow> item_kind v \<noteq> None"
| "alternating (u # v # vs) \<longleftrightarrow>
     item_kind u \<noteq> None \<and> item_kind v = map_option Not (item_kind u) \<and> alternating (v # vs)"

text \<open>What the user's items say.\<close>

definition user_contents :: "json list \<Rightarrow> string list" where
  "user_contents h = List.map_filter (\<lambda>v. Option.bind (jget v ''userInputMessage'') (\<lambda>u. jget_str u ''content'')) h"

definition user_text :: "message \<Rightarrow> string" where
  "user_text m = (if msg_role m = RTool then ''Tool results provided.'' else text_of m)"

lemma alternating_snoc:
  "alternating (h @ [x]) \<longleftrightarrow>
     alternating h \<and> item_kind x \<noteq> None \<and> (h = [] \<or> item_kind x = map_option Not (item_kind (last h)))"
  by (induction h rule: alternating.induct) auto

fun kinds_alternate :: "bool option list \<Rightarrow> bool" where
  "kinds_alternate [] = True"
| "kinds_alternate [k] \<longleftrightarrow> k \<noteq> None"
| "kinds_alternate (k # l # ks) \<longleftrightarrow> k \<noteq> None \<and> l = map_option Not k \<and> kinds_alternate (l # ks)"

lemma alternating_kinds: "alternating h = kinds_alternate (map item_kind h)"
  by (induction h rule: alternating.induct) simp_all

lemma alternating_last: "alternating h \<Longrightarrow> h \<noteq> [] \<Longrightarrow> item_kind (last h) \<noteq> None"
  by (induction h rule: alternating.induct) auto

lemma item_kind_items [simp]:
  "item_kind (user_item v) = Some True" "item_kind (assistant_item v) = Some False"
  "is_user_item (user_item v)" "\<not> is_user_item (assistant_item v)"
  by (simp_all add: item_kind_def user_item_def assistant_item_def is_user_item_def)

lemma item_kind_user: "item_kind v \<noteq> None \<Longrightarrow> is_user_item v \<longleftrightarrow> item_kind v = Some True"
  by (auto simp: item_kind_def is_user_item_def split: option.splits)

lemma item_kind_object: "item_kind v \<noteq> None \<Longrightarrow> is_object v"
  by (cases v) (auto simp: item_kind_def)

lemma user_contents_simps [simp]:
  "user_contents [] = []" "user_contents (h @ h') = user_contents h @ user_contents h'"
  "user_contents [assistant_item v] = []"
  "user_contents [user_item (user_input s model)] = [s]"
  "user_contents [user_item (kiro_tool_turn sj model tr)] = [''Tool results provided.'']"
  by (simp_all add: user_contents_def List.map_filter_def user_item_def assistant_item_def user_input_def
      kiro_tool_turn_def jget_str_def Let_def)

text \<open>A user's item goes behind a gap that a filler closes.\<close>

lemma push_user_alternating:
  assumes "alternating h"
  shows "alternating (push_continue_if_user h @ [user_item v])
    \<and> user_contents (push_continue_if_user h) = user_contents h"
proof (cases "h = []")
  case False
  then have k: "item_kind (last h) \<noteq> None" by (rule alternating_last [OF assms])
  show ?thesis
  proof (cases "is_user_item (last h)")
    case True
    define filler where "filler = assistant_item (JObject [(''content'', JString ''Continue'')])"
    have "alternating (h @ [filler])"
      using True assms item_kind_user [OF k] by (simp add: alternating_snoc filler_def)
    then have "alternating ((h @ [filler]) @ [user_item v])"
      unfolding alternating_snoc [of "h @ [filler]"] by (simp add: filler_def)
    then show ?thesis using True False by (simp add: push_continue_if_user_def filler_def)
  next
    case nu: False
    then have "item_kind (last h) = Some False" using k item_kind_user [OF k] by auto
    with nu False assms show ?thesis by (simp add: push_continue_if_user_def alternating_snoc)
  qed
qed (simp add: push_continue_if_user_def)

lemma push_assistant_alternating:
  assumes "alternating h"
  shows "alternating (push_assistant h m) \<and> user_contents (push_assistant h m) = user_contents h"
proof (cases "h = [] \<or> jget (last h) ''assistantResponseMessage'' = None")
  case True
  then show ?thesis
  proof (cases "h = []")
    case True
    then show ?thesis by (simp add: push_assistant_def)
  next
    case False
    with True have "item_kind (last h) = Some True"
      using alternating_last [OF assms False] by (auto simp: item_kind_def split: option.splits)
    then show ?thesis using True False assms by (simp add: push_assistant_def alternating_snoc)
  qed
next
  case False
  then obtain prev where p: "h \<noteq> []" "jget (last h) ''assistantResponseMessage'' = Some prev" by auto
  have k: "item_kind (last h) \<noteq> None" by (rule alternating_last [OF assms p(1)])
  then have nu: "jget (last h) ''userInputMessage'' = None" using p(2) by (auto simp: item_kind_def split: option.splits)
  let ?x = "jset ''assistantResponseMessage'' (merge_assistant prev (assistant_fields m)) (last h)"
  have "item_kind ?x = item_kind (last h)"
    using item_kind_object [OF k] p(2) nu by (simp add: item_kind_def)
  moreover have h: "h = butlast h @ [last h]" using p(1) by simp
  ultimately have "alternating (butlast h @ [?x])"
    using assms alternating_snoc [of "butlast h" "last h"] by (simp add: alternating_snoc)
  moreover have "user_contents (butlast h @ [?x]) = user_contents (butlast h @ [last h])"
    using item_kind_object [OF k] nu by (simp add: user_contents_def List.map_filter_def)
  ultimately show ?thesis using p assms by (simp add: push_assistant_def)
qed

lemma history_step_alternating:
  assumes "alternating h"
  shows "alternating (history_step sj model m h)
    \<and> user_contents (history_step sj model m h) =
        user_contents h @ (if msg_role m = RAssistant then [] else [user_text m])"
  using push_user_alternating [OF assms] push_assistant_alternating [OF assms]
  by (cases "msg_role m") (simp_all add: history_step_def user_text_def)

lemma history_fold_alternating:
  "alternating h \<Longrightarrow> alternating (fold (history_step sj model) ms h)
     \<and> user_contents (fold (history_step sj model) ms h) =
         user_contents h @ map user_text (filter (\<lambda>m. msg_role m \<noteq> RAssistant) ms)"
proof (induction ms arbitrary: h)
  case (Cons m ms)
  then show ?case using history_step_alternating [OF Cons.prems, of sj model m] by simp
qed simp

lemma inject_first_alternating:
  assumes "inject_first sp h = Some h'" and "alternating h"
  shows "alternating h' \<and> map item_kind h' = map item_kind h"
proof -
  have k: "map item_kind h' = map item_kind h"
    using assms
  proof (induction h arbitrary: h')
    case (Cons v vs)
    have kv: "item_kind v \<noteq> None" and avs: "alternating vs" using Cons.prems(2) by (cases vs; simp)+
    show ?case
    proof (cases "jget v ''userInputMessage''")
      case None
      then show ?thesis using Cons avs by auto
    next
      case (Some u)
      then have "item_kind (jset ''userInputMessage'' x v) = item_kind v" for x
        using item_kind_object [OF kv] by (simp add: item_kind_def)
      then show ?thesis using Some Cons.prems by auto
    qed
  qed simp
  then show ?thesis using assms(2) by (simp add: alternating_kinds)
qed

lemma inject_first_none:
  assumes "inject_first sp h = None" and "alternating h"
  shows "alternating (user_item v # h)"
proof (cases h)
  case (Cons u us)
  then have "jget u ''userInputMessage'' = None" using assms(1) by (auto split: option.splits)
  moreover have "item_kind u \<noteq> None" using assms(2) Cons by (cases us) auto
  ultimately have "item_kind u = Some False" by (auto simp: item_kind_def split: option.splits)
  then show ?thesis using Cons assms(2) by simp
qed simp


text \<open>
  The results of several tools are sent twice: all but the last are in the history and again among the
  trailing results of the current message.
\<close>

lemma kiro_repeats_tool_results:
  fixes r1 r2 :: tool_result and c1 c2 :: tool_call
  defines "ms \<equiv> [message_user ''q'', message_assistant_with_tools None [c1, c2], message_tool_result r1, message_tool_result r2]"
  shows "last (build_history sj ms model) = user_item (kiro_tool_turn sj model (Some r1))
   \<and> current_results sj ms =
       [kiro_tool_result (content_string sj (tr_content r1)) (tr_tool_call_id r1),
        kiro_tool_result (content_string sj (tr_content r2)) (tr_tool_call_id r2)]"
  by (simp add: ms_def build_history_def history_step_def message_defs push_continue_if_user_def push_assistant_def
      text_of_def current_results_def trailing_results_def List.map_filter_simps is_user_item_def
      user_item_def assistant_item_def)

text \<open>The fragments in which a tool's input is streamed are dropped: the call is made without arguments.\<close>

lemma kiro_drops_streamed_input:
  assumes "from_text sj [] = None"
  shows "kiro_message sj [KToolUse name i [] False, KToolUseInput fragment, KToolUseStop True] =
    calls_message [] [\<lparr>tc_id = i, tc_name = name, tc_arguments = []\<rparr>]"
  using assms by (simp add: kiro_message_def List.map_filter_simps object_or_empty_def)

text \<open>An unknown model or an empty transcript is refused before anything is sent or drawn.\<close>

lemma kiro_bad_request:
  assumes "kiro_resolve_model (mid_model (rq_model (cx_request cx))) = None \<or> rq_messages (cx_request cx) = []"
  shows "kiro_chat net env cx w =
    (Inl (Validation (''unsupported or empty Kiro request for model '' @ mid_model (rq_model (cx_request cx)))
       ''kiro_bad_request''), w)"
  using assms
  by (auto simp: kiro_chat_def kiro_events_def kiro_http_request_def build_request_def Let_def split: option.split)

end
