(* ===== verification/Codex.thy ===== *)
theory Codex
  imports Adapters Auth
begin

text \<open>
  The Codex adapter (\<open>gravity-providers/src/codex/mod.rs\<close>): the Responses request, the reader of its event
  lines, and the provider.  Its sign-in is in \<open>Auth\<close>.
\<close>

definition codex_url :: string where
  "codex_url = ''https://chatgpt.com/backend-api/codex/responses''"

definition codex_caps :: provider_capabilities where
  "codex_caps =
     \<lparr>cap_provider = Codex, tool_support = ToolNative, structured_output = OutJsonInstruction,
      remote_session = SessNone, supports_system_prompt = True, supports_stateful_history = False,
      requires_remote_checkpoint = False, default_history_mode = Stateless, supports_image_generation = False\<rparr>"

definition codex_models :: "string list" where
  "codex_models = [''gpt-5-codex'', ''gpt-5'', ''o4-mini'']"

section \<open>Requests\<close>

definition codex_call_item :: "serde \<Rightarrow> tool_call \<Rightarrow> json" where
  "codex_call_item sj tc =
     JObject [(''type'', JString ''function_call''), (''name'', JString (tc_name tc)),
              (''arguments'', JString (to_compact sj (JObject (tc_arguments tc)))), (''call_id'', JString (tc_id tc))]"

definition codex_output_item :: "serde \<Rightarrow> tool_result \<Rightarrow> json" where
  "codex_output_item sj tr =
     JObject [(''type'', JString ''function_call_output''), (''call_id'', JString (tr_tool_call_id tr)),
              (''output'', JString (case tr_structured tr of
                                      Some v \<Rightarrow> to_compact sj v
                                    | None \<Rightarrow> content_string sj (tr_content tr)))]"

definition codex_items :: "serde \<Rightarrow> message \<Rightarrow> json list" where
  "codex_items sj m =
     (case msg_role m of
        RSystem \<Rightarrow> []
      | RAssistant \<Rightarrow>
          JObject [(''type'', JString ''message''), (''role'', JString ''assistant''), (''content'', JString (text_of m))]
          # map (codex_call_item sj) (msg_tool_calls m)
      | RUser \<Rightarrow>
          [JObject [(''type'', JString ''message''), (''role'', JString ''user''),
                    (''content'', JArray [JObject [(''type'', JString ''input_text''), (''text'', JString (text_of m))]])]]
      | RTool \<Rightarrow> (case msg_tool_result m of None \<Rightarrow> [] | Some tr \<Rightarrow> [codex_output_item sj tr]))"

definition build_input :: "serde \<Rightarrow> message list \<Rightarrow> json list" where
  "build_input sj messages = concat (map (codex_items sj) messages)"

definition codex_tool :: "tool_definition \<Rightarrow> json" where
  "codex_tool t =
     JObject [(''type'', JString ''function''), (''name'', JString (td_name t)),
              (''description'', JString (td_description t)), (''parameters'', JObject (td_input_schema t))]"

definition codex_instructions :: "string option \<Rightarrow> string" where
  "codex_instructions sp =
     (case sp of
        Some s \<Rightarrow> if trim s = [] then ''You are a helpful assistant.'' else s
      | None \<Rightarrow> ''You are a helpful assistant.'')"

definition codex_body :: "serde \<Rightarrow> chat_request \<Rightarrow> json" where
  "codex_body sj rq =
     JObject ([(''model'', JString (mid_model (rq_model rq))),
               (''instructions'', JString (codex_instructions (rq_system_prompt rq))),
               (''input'', JArray (build_input sj (rq_messages rq))), (''stream'', JBool True), (''store'', JBool False),
               (''include'', JArray [JString ''reasoning.encrypted_content''])]
              @ (if rq_tools rq = [] then []
                 else [(''tools'', JArray (map codex_tool (rq_tools rq))), (''tool_choice'', JString ''auto'')]))"

definition codex_account_header :: "chat_ctx \<Rightarrow> (string \<times> string) list" where
  "codex_account_header cx =
     (case au_chatgpt_account_id (pa_auth (cx_account cx)) of
        Some i \<Rightarrow> [(''chatgpt-account-id'', i)]
      | None \<Rightarrow> (case secret_of (cx_account cx) ''chatgpt_account_id'' of
                  Some i \<Rightarrow> [(''chatgpt-account-id'', i)] | None \<Rightarrow> []))"

definition codex_request :: "serde \<Rightarrow> chat_ctx \<Rightarrow> http_request" where
  "codex_request sj cx =
     with_headers (codex_account_header cx)
       (with_json sj (codex_body sj (cx_request cx))
         (with_headers
            [(''content-type'', ''application/json''), (''accept'', ''text/event-stream''),
             (''authorization'', ''Bearer '' @ cx_secret cx), (''openai-beta'', ''responses=v1''),
             (''originator'', ''codex_cli_rs''), (''openai-originator'', ''codex'')]
            (request_from ''chrome'' cx (request_post codex_url))))"

section \<open>Answers\<close>

definition completed_text :: "json \<Rightarrow> string option" where
  "completed_text v = Option.bind (jget v ''response'') (\<lambda>r. jget_str r ''output_text'')"

definition responses_event :: "json \<Rightarrow> string \<Rightarrow> string" where
  "responses_event v acc =
     (if jget_str v ''type'' = Some ''response.output_text.delta''
      then (case jget_str v ''delta'' of Some d \<Rightarrow> acc @ d | None \<Rightarrow> acc)
      else if jget_str v ''type'' = Some ''response.completed'' \<and> acc = []
      then (case completed_text v of Some t \<Rightarrow> t | None \<Rightarrow> acc)
      else acc)"

fun responses_lines :: "serde \<Rightarrow> string \<Rightarrow> string list \<Rightarrow> string" where
  "responses_lines sj acc [] = acc"
| "responses_lines sj acc (l # ls) =
     (case strip_prefix ''data: '' l of
        None \<Rightarrow> responses_lines sj acc ls
      | Some data \<Rightarrow>
          if trim data = ''[DONE]'' then acc
          else (case from_text sj data of
                  None \<Rightarrow> responses_lines sj acc ls
                | Some v \<Rightarrow> responses_lines sj (responses_event v acc) ls))"

definition accumulate_responses_sse :: "serde \<Rightarrow> string \<Rightarrow> string" where
  "accumulate_responses_sse sj body = responses_lines sj [] (str_lines body)"

section \<open>The provider\<close>

definition codex_chat :: "'w net \<Rightarrow> chat_ctx \<Rightarrow> 'w \<Rightarrow> (error + chat_response) \<times> 'w" where
  "codex_chat net cx w =
     (case send_ok net
             (\<lambda>resp. refused Codex ''codex_failed'' (rp_status resp)
                (''Codex request failed: '' @ take_chars 300 (response_text_lossy resp)))
             (codex_request (nt_serde net) cx) w of
        (Inl e, w') \<Rightarrow> (Inl e, w')
      | (Inr resp, w') \<Rightarrow>
          (Inr (stop_response cx
                 (message_assistant (accumulate_responses_sse (nt_serde net) (response_text_lossy resp)))), w'))"

definition codex_provider :: "'w net \<Rightarrow> 'w oauth \<Rightarrow> 'w provider" where
  "codex_provider net oa =
     \<lparr>pv_capabilities = codex_caps, pv_list_models = codex_models,
      pv_discover_models = default_discover_models codex_models,
      pv_normalize_system_prompt = default_normalize_system_prompt,
      pv_open_checkpoint = default_open_checkpoint,
      pv_chat = codex_chat net, pv_chat_stream = default_chat_stream (codex_chat net),
      pv_authenticator = Some (codex_authenticator oa)\<rparr>"

section \<open>What is read\<close>

definition delta_event :: "string \<Rightarrow> json" where
  "delta_event d = JObject [(''type'', JString ''response.output_text.delta''), (''delta'', JString d)]"

definition completed_event :: "string \<Rightarrow> json" where
  "completed_event t =
     JObject [(''type'', JString ''response.completed''), (''response'', JObject [(''output_text'', JString t)])]"

lemma responses_event_simps [simp]:
  "responses_event (delta_event d) acc = acc @ d"
  "responses_event (completed_event t) acc = (if acc = [] then t else acc)"
  by (simp_all add: responses_event_def delta_event_def completed_event_def completed_text_def jget_str_def)

lemma responses_carried:
  assumes "carries sj v l"
  shows "responses_lines sj acc (data_line l # ls) = responses_lines sj (responses_event v acc) ls"
  using assms by (simp only: responses_lines.simps strip_data_line carries_def) simp

lemma responses_deltas:
  assumes "list_all2 (\<lambda>d l. carries sj (delta_event d) l) ds ls"
  shows "responses_lines sj acc (map data_line ls @ rest) = responses_lines sj (acc @ concat ds) rest"
  using assms
proof (induction arbitrary: acc rule: list_all2_induct)
  case (Cons d ds l ls)
  show ?case using responses_carried [OF Cons(1)] Cons(3) [of "acc @ d"] by simp
qed simp

lemma responses_done: "responses_lines sj acc (data_line ''[DONE]'' # rest) = acc"
proof -
  have "trim ''[DONE]'' = ''[DONE]''" by code_simp
  then show ?thesis by (simp only: responses_lines.simps strip_data_line) simp
qed

text \<open>
  The text of the reply is the concatenation of its deltas, up to the terminator; the completed event's text
  counts only when there was none.
\<close>

lemma codex_answer_assembled:
  assumes "list_all2 (\<lambda>d l. carries sj (delta_event d) l) ds ls" and "carries sj (completed_event t) l"
  shows "accumulate_responses_sse sj (frames_text (ls @ [l, ''[DONE]'']) @ tail) =
    (if concat ds = [] then t else concat ds)"
proof -
  have "list_all (\<lambda>l. CHR 0x0A \<notin> set l \<and> CHR 0x0D \<notin> set l) ls"
    using assms(1) by (induction rule: list_all2_induct) (simp_all add: carries_def)
  then have ok: "list_all (\<lambda>l. CHR 0x0A \<notin> set l \<and> CHR 0x0D \<notin> set l) (ls @ [l, ''[DONE]''])"
    using assms(2) by (simp add: carries_def)
  have "map data_line (ls @ [l, ''[DONE]'']) @ r = map data_line ls @ data_line l # data_line ''[DONE]'' # r" for r
    by simp
  then show ?thesis
    by (simp only: accumulate_responses_sse_def str_lines_frames [OF ok] responses_deltas [OF assms(1)]
        responses_carried [OF assms(2)] responses_done responses_event_simps append_Nil)
qed

text \<open>
  The tools are offered to the model, but the adapter never reports that one is called: events of every other
  type leave the answer as it is, and the message of a reply has no calls.
\<close>

lemma codex_offers_tools:
  assumes "rq_tools rq = t # ts"
  shows "jget (codex_body sj rq) ''tools'' = Some (JArray (codex_tool t # map codex_tool ts))"
  using assms by (simp add: codex_body_def)

lemma codex_drops_calls:
  "fst (codex_chat net cx w) = Inr r \<Longrightarrow> msg_tool_calls (rs_message r) = []"
  by (auto simp: codex_chat_def stop_response_def message_defs split: prod.splits sum.splits)

lemma codex_ignores_event:
  assumes "carries sj v l"
    and "jget_str v ''type'' \<notin> {Some ''response.output_text.delta'', Some ''response.completed''}"
  shows "responses_lines sj acc (data_line l # ls) = responses_lines sj acc ls"
  using assms(2) by (simp add: responses_carried [OF assms(1)] responses_event_def del: responses_lines.simps)

text \<open>Every call of the transcript is sent with its id, and so is every result, in the order of the messages.\<close>

definition item_call_id :: "string \<Rightarrow> json \<Rightarrow> string option" where
  "item_call_id ty v = (if jget_str v ''type'' = Some ty then jget_str v ''call_id'' else None)"

lemma codex_items_ids:
  "List.map_filter (item_call_id ''function_call'') (codex_items sj m) =
     (if msg_role m = RAssistant then map tc_id (msg_tool_calls m) else [])"
  "List.map_filter (item_call_id ''function_call_output'') (codex_items sj m) =
     (if msg_role m = RTool then (case msg_tool_result m of None \<Rightarrow> [] | Some tr \<Rightarrow> [tr_tool_call_id tr]) else [])"
proof -
  have c: "List.map_filter (item_call_id ''function_call'') (map (codex_call_item sj) cs) = map tc_id cs"
    "List.map_filter (item_call_id ''function_call_output'') (map (codex_call_item sj) cs) = []" for cs
    by (induction cs) (simp_all add: List.map_filter_simps item_call_id_def codex_call_item_def jget_str_def)
  show "List.map_filter (item_call_id ''function_call'') (codex_items sj m) =
     (if msg_role m = RAssistant then map tc_id (msg_tool_calls m) else [])"
    by (cases "msg_role m")
      (simp_all add: codex_items_def List.map_filter_simps c item_call_id_def jget_str_def codex_output_item_def
        split: option.split)
  show "List.map_filter (item_call_id ''function_call_output'') (codex_items sj m) =
     (if msg_role m = RTool then (case msg_tool_result m of None \<Rightarrow> [] | Some tr \<Rightarrow> [tr_tool_call_id tr]) else [])"
    by (cases "msg_role m")
      (simp_all add: codex_items_def List.map_filter_simps c item_call_id_def jget_str_def codex_output_item_def
        split: option.split)
qed

lemma codex_sends_ids:
  "List.map_filter (item_call_id ''function_call'') (build_input sj ms) =
     concat (map (\<lambda>m. if msg_role m = RAssistant then map tc_id (msg_tool_calls m) else []) ms)"
  "List.map_filter (item_call_id ''function_call_output'') (build_input sj ms) =
     List.map_filter (\<lambda>m. if msg_role m = RTool then map_option tr_tool_call_id (msg_tool_result m) else None) ms"
proof (induction ms)
  case (Cons m ms)
  have append: "List.map_filter f (xs @ ys) = List.map_filter f xs @ List.map_filter f ys" for f :: "json \<Rightarrow> string option" and xs ys
    by (simp add: List.map_filter_def)
  {
    case 1
    then show ?case using Cons(1) by (simp add: build_input_def append codex_items_ids)
  next
    case 2
    then show ?case using Cons(2)
      by (simp add: build_input_def append codex_items_ids List.map_filter_simps split: option.split)
  }
qed (simp_all add: build_input_def List.map_filter_simps)

end
