(* ===== verification/Google.thy ===== *)
theory Google
  imports Adapters Auth
begin

text \<open>
  The two adapters of Google's Code Assist API (\<open>gravity-providers/src/gemini_cli/mod.rs\<close> and
  \<open>antigravity/mod.rs\<close>): the \<open>contents\<close> of a request, the reader of a candidate, and the providers.
  Their sign-in is in \<open>Auth\<close>.
\<close>

section \<open>Candidates\<close>

text \<open>The parts of the first candidate, under an optional \<open>response\<close> wrapper.\<close>

definition candidate_parts :: "json \<Rightarrow> json list" where
  "candidate_parts v =
     (let root = (case jget v ''response'' of Some r \<Rightarrow> r | None \<Rightarrow> v)
      in case Option.bind (jget root ''candidates'') as_array of
           Some (c # _) \<Rightarrow>
             (case Option.bind (Option.bind (jget c ''content'') (\<lambda>x. jget x ''parts'')) as_array of
                Some parts \<Rightarrow> parts
              | None \<Rightarrow> [])
         | _ \<Rightarrow> [])"

definition extract_text :: "json \<Rightarrow> string" where
  "extract_text v = concat (List.map_filter (\<lambda>p. jget_str p ''text'') (candidate_parts v))"

definition function_call :: "json \<Rightarrow> tool_call" where
  "function_call fc =
     \<lparr>tc_id = (case jget_str fc ''id'' of Some s \<Rightarrow> s | None \<Rightarrow> []),
      tc_name = (case jget_str fc ''name'' of Some s \<Rightarrow> s | None \<Rightarrow> []),
      tc_arguments = (case Option.bind (jget fc ''args'') as_object of Some m \<Rightarrow> m | None \<Rightarrow> [])\<rparr>"

definition extract_tool_calls :: "json \<Rightarrow> tool_call list" where
  "extract_tool_calls v =
     filter (\<lambda>tc. tc_name tc \<noteq> [])
       (map function_call (List.map_filter (\<lambda>p. jget p ''functionCall'') (candidate_parts v)))"

section \<open>Gemini CLI\<close>

definition gemini_cli_endpoint :: string where
  "gemini_cli_endpoint = ''https://cloudcode-pa.googleapis.com''"

definition gemini_cli_caps :: provider_capabilities where
  "gemini_cli_caps =
     \<lparr>cap_provider = GeminiCli, tool_support = ToolNative, structured_output = OutNative,
      remote_session = SessNone, supports_system_prompt = True, supports_stateful_history = False,
      requires_remote_checkpoint = False, default_history_mode = Stateless, supports_image_generation = False\<rparr>"

definition code_assist_models :: "string list" where
  "code_assist_models = [''gemini-2.5-pro'', ''gemini-2.5-flash'']"

definition text_value :: "string \<Rightarrow> json" where
  "text_value s = JObject [(''text'', JString s)]"

definition call_value :: "tool_call \<Rightarrow> json" where
  "call_value tc =
     JObject [(''functionCall'', JObject [(''name'', JString (tc_name tc)), (''args'', JObject (tc_arguments tc)),
                                        (''id'', JString (tc_id tc))])]"

definition result_value :: "tool_result \<Rightarrow> json" where
  "result_value tr =
     JObject [(''functionResponse'',
       JObject [(''name'', JString (tr_name tr)), (''id'', JString (tr_tool_call_id tr)),
                (''response'', case tr_structured tr of
                                 Some v \<Rightarrow> v | None \<Rightarrow> JObject [(''content'', tr_content tr)])])]"

definition content_parts :: "message \<Rightarrow> json list" where
  "content_parts m =
     (if text_of m = [] then [] else [text_value (text_of m)])
     @ map call_value (msg_tool_calls m)
     @ (case msg_tool_result m of None \<Rightarrow> [] | Some tr \<Rightarrow> [result_value tr])"

definition content_role :: "message \<Rightarrow> string" where
  "content_role m = (if msg_role m = RAssistant then ''model'' else ''user'')"

definition content_value :: "message \<Rightarrow> json list \<Rightarrow> json" where
  "content_value m parts = JObject [(''role'', JString (content_role m)), (''parts'', JArray parts)]"

definition gemini_cli_content :: "message \<Rightarrow> json option" where
  "gemini_cli_content m =
     (if msg_role m = RSystem \<or> content_parts m = [] then None else Some (content_value m (content_parts m)))"

definition gemini_cli_contents :: "message list \<Rightarrow> json list" where
  "gemini_cli_contents messages = List.map_filter gemini_cli_content messages"

definition system_instruction :: "string option \<Rightarrow> (string \<times> json) list" where
  "system_instruction sp =
     (case sp of
        None \<Rightarrow> []
      | Some s \<Rightarrow> [(''systemInstruction'', JObject [(''parts'', JArray [text_value s])])])"

definition function_declaration :: "tool_definition \<Rightarrow> json" where
  "function_declaration t =
     JObject [(''name'', JString (td_name t)), (''description'', JString (td_description t)),
              (''parameters'', JObject (td_input_schema t))]"

definition gemini_cli_inner :: "chat_request \<Rightarrow> json" where
  "gemini_cli_inner rq =
     JObject ([(''contents'', JArray (gemini_cli_contents (rq_messages rq)))]
              @ system_instruction (rq_system_prompt rq)
              @ (if rq_tools rq = [] then []
                 else [(''tools'', JArray [JObject [(''functionDeclarations'',
                          JArray (map function_declaration (rq_tools rq)))]])]))"

definition project_of :: "chat_ctx \<Rightarrow> string" where
  "project_of cx = (case secret_of (cx_account cx) ''project'' of Some p \<Rightarrow> p | None \<Rightarrow> [])"

definition gemini_cli_request :: "serde \<Rightarrow> 'w env \<Rightarrow> chat_ctx \<Rightarrow> 'w \<Rightarrow> http_request \<times> 'w" where
  "gemini_cli_request sj env cx w =
     (case env_uuid env w of
        (uuid, w') \<Rightarrow>
          (with_json sj
             (JObject [(''model'', JString (mid_model (rq_model (cx_request cx)))),
                       (''project'', JString (project_of cx)), (''user_prompt_id'', JString uuid),
                       (''request'', gemini_cli_inner (cx_request cx))])
             (with_headers
                [(''content-type'', ''application/json''), (''authorization'', ''Bearer '' @ cx_secret cx),
                 (''user-agent'', ''google-api-nodejs-client/9.15.1''), (''x-goog-api-client'', ''gl-node/22.17.0'')]
                (request_from ''chrome'' cx (request_post (gemini_cli_endpoint @ ''/v1internal:generateContent'')))),
           w'))"

definition gemini_cli_chat :: "'w net \<Rightarrow> 'w env \<Rightarrow> chat_ctx \<Rightarrow> 'w \<Rightarrow> (error + chat_response) \<times> 'w" where
  "gemini_cli_chat net env cx w =
     (case gemini_cli_request (nt_serde net) env cx w of
        (req, w1) \<Rightarrow>
          (case send_ok net
                  (\<lambda>resp. refused GeminiCli ''gemini_cli_failed'' (rp_status resp)
                     (''Gemini CLI request failed: '' @ take_chars 300 (response_text_lossy resp))) req w1 of
             (Inl e, w2) \<Rightarrow> (Inl e, w2)
           | (Inr resp, w2) \<Rightarrow>
               (case response_json (nt_serde net) resp of
                  Inl e \<Rightarrow> (Inl e, w2)
                | Inr v \<Rightarrow> (Inr (stop_response cx (calls_message (extract_text v) (extract_tool_calls v))), w2))))"

definition gemini_cli_provider :: "'w net \<Rightarrow> 'w env \<Rightarrow> oauth_app \<Rightarrow> 'w oauth \<Rightarrow> 'w provider" where
  "gemini_cli_provider net env app oa =
     \<lparr>pv_capabilities = gemini_cli_caps, pv_list_models = code_assist_models,
      pv_discover_models = default_discover_models code_assist_models,
      pv_normalize_system_prompt = default_normalize_system_prompt,
      pv_open_checkpoint = default_open_checkpoint,
      pv_chat = gemini_cli_chat net env, pv_chat_stream = default_chat_stream (gemini_cli_chat net env),
      pv_authenticator = Some (gemini_cli_authenticator app oa)\<rparr>"

section \<open>Antigravity\<close>

definition antigravity_endpoint :: string where
  "antigravity_endpoint = ''https://daily-cloudcode-pa.sandbox.googleapis.com''"

definition antigravity_caps :: provider_capabilities where
  "antigravity_caps =
     \<lparr>cap_provider = Antigravity, tool_support = ToolNative, structured_output = OutNative,
      remote_session = SessNone, supports_system_prompt = True, supports_stateful_history = False,
      requires_remote_checkpoint = False, default_history_mode = Stateless, supports_image_generation = True\<rparr>"

definition antigravity_content :: "message \<Rightarrow> json option" where
  "antigravity_content m =
     (if msg_role m = RSystem \<or> text_of m = [] then None else Some (content_value m [text_value (text_of m)]))"

definition antigravity_contents :: "message list \<Rightarrow> json list" where
  "antigravity_contents messages = List.map_filter antigravity_content messages"

definition antigravity_request :: "serde \<Rightarrow> 'w env \<Rightarrow> chat_ctx \<Rightarrow> 'w \<Rightarrow> http_request \<times> 'w" where
  "antigravity_request sj env cx w =
     (case env_uuid env w of
        (uuid, w') \<Rightarrow>
          (with_json sj
             (JObject [(''project'', JString (project_of cx)),
                       (''model'', JString (mid_model (rq_model (cx_request cx)))),
                       (''request'', JObject ((''contents'', JArray (antigravity_contents (rq_messages (cx_request cx))))
                                              # system_instruction (rq_system_prompt (cx_request cx)))),
                       (''requestId'', JString (''gravity-'' @ uuid))])
             (with_headers
                [(''content-type'', ''application/json''), (''authorization'', ''Bearer '' @ cx_secret cx)]
                (request_from ''go_boring'' cx (request_post (antigravity_endpoint @ ''/v1internal:generateContent'')))),
           w'))"

definition antigravity_chat :: "'w net \<Rightarrow> 'w env \<Rightarrow> chat_ctx \<Rightarrow> 'w \<Rightarrow> (error + chat_response) \<times> 'w" where
  "antigravity_chat net env cx w =
     (case antigravity_request (nt_serde net) env cx w of
        (req, w1) \<Rightarrow>
          (case send_ok net
                  (\<lambda>resp. refused Antigravity ''antigravity_failed'' (rp_status resp)
                     (''Antigravity request failed (status '' @ dec_of (unat (rp_status resp)) @ '')'')) req w1 of
             (Inl e, w2) \<Rightarrow> (Inl e, w2)
           | (Inr resp, w2) \<Rightarrow>
               (case response_json (nt_serde net) resp of
                  Inl e \<Rightarrow> (Inl e, w2)
                | Inr v \<Rightarrow> (Inr (stop_response cx (message_assistant (extract_text v))), w2))))"

definition antigravity_provider :: "'w net \<Rightarrow> 'w env \<Rightarrow> oauth_app \<Rightarrow> 'w oauth \<Rightarrow> 'w provider" where
  "antigravity_provider net env app oa =
     \<lparr>pv_capabilities = antigravity_caps, pv_list_models = code_assist_models,
      pv_discover_models = default_discover_models code_assist_models,
      pv_normalize_system_prompt = default_normalize_system_prompt,
      pv_open_checkpoint = default_open_checkpoint,
      pv_chat = antigravity_chat net env, pv_chat_stream = default_chat_stream (antigravity_chat net env),
      pv_authenticator = Some (antigravity_authenticator app oa)\<rparr>"

section \<open>A turn is read back\<close>

text \<open>A server's reply whose first candidate is a turn, bare or wrapped.\<close>

definition candidate_reply :: "json \<Rightarrow> json" where
  "candidate_reply c = JObject [(''candidates'', JArray [JObject [(''content'', c)]])]"

definition wrapped_reply :: "json \<Rightarrow> json" where
  "wrapped_reply v = JObject [(''response'', v)]"

lemma candidate_parts_reply [simp]:
  "candidate_parts (candidate_reply (content_value m ps)) = ps"
  "candidate_parts (wrapped_reply (candidate_reply (content_value m ps))) = ps"
  by (simp_all add: candidate_parts_def candidate_reply_def wrapped_reply_def content_value_def)

lemma content_parts_fields:
  "List.map_filter (\<lambda>p. jget_str p ''text'') (content_parts m) = (if text_of m = [] then [] else [text_of m])"
  "map function_call (List.map_filter (\<lambda>p. jget p ''functionCall'') (content_parts m)) = msg_tool_calls m"
proof -
  have append: "List.map_filter f (xs @ ys) = List.map_filter f xs @ List.map_filter f ys" for f :: "json \<Rightarrow> 'b option" and xs ys
    by (simp add: List.map_filter_def)
  have t: "List.map_filter (\<lambda>p. jget_str p ''text'') (map call_value cs) = []" for cs
    by (induction cs) (simp_all add: List.map_filter_simps call_value_def jget_str_def)
  have c: "map function_call (List.map_filter (\<lambda>p. jget p ''functionCall'') (map call_value cs)) = cs" for cs
    by (induction cs) (simp_all add: List.map_filter_simps call_value_def function_call_def jget_str_def)
  show "List.map_filter (\<lambda>p. jget_str p ''text'') (content_parts m) = (if text_of m = [] then [] else [text_of m])"
    by (simp add: content_parts_def append t [unfolded jget_str_def] List.map_filter_simps text_value_def result_value_def jget_str_def split: option.split)
  show "map function_call (List.map_filter (\<lambda>p. jget p ''functionCall'') (content_parts m)) = msg_tool_calls m"
    by (simp add: content_parts_def append c List.map_filter_simps text_value_def result_value_def jget_str_def split: option.split)
qed

lemma content_parts_read:
  assumes "candidate_parts v = content_parts m"
  shows "extract_text v = text_of m"
    and "extract_tool_calls v = filter (\<lambda>tc. tc_name tc \<noteq> []) (msg_tool_calls m)"
  by (simp_all add: assms extract_text_def extract_tool_calls_def content_parts_fields)


text \<open>
  A turn survives the wire.  When the server's first candidate is the content that the adapter itself
  writes for a message, bare or under the \<open>response\<close> wrapper, the chat's reply has that message's text and,
  in order, its tool calls with their ids and arguments, provided that no call is nameless.
\<close>

theorem google_turn_roundtrip:
  assumes "gemini_cli_content m = Some c" and "list_all (\<lambda>tc. tc_name tc \<noteq> []) (msg_tool_calls m)"
    and "gemini_cli_request (nt_serde net) env cx w = (req, w1)" and "nt_send net req w1 = (Inr resp, w2)"
    and "is_success resp" and "response_json (nt_serde net) resp = Inr v"
    and "v = candidate_reply c \<or> v = wrapped_reply (candidate_reply c)"
  shows "gemini_cli_chat net env cx w =
    (Inr (stop_response cx (calls_message (text_of m) (msg_tool_calls m))), w2)"
proof -
  have "c = content_value m (content_parts m)"
    using assms(1) by (simp add: gemini_cli_content_def split: if_splits)
  with assms(7) have "candidate_parts v = content_parts m" by auto
  moreover have "filter (\<lambda>tc. tc_name tc \<noteq> []) (msg_tool_calls m) = msg_tool_calls m"
    using assms(2) by (simp add: list_all_iff filter_True)
  ultimately show ?thesis
    using assms(3-6) by (simp add: gemini_cli_chat_def send_ok_def content_parts_read)
qed

definition google_turn :: message where
  "google_turn = message_assistant_with_tools (Some (CText ''hi'')) [\<lparr>tc_id = ''1'', tc_name = ''f'', tc_arguments = []\<rparr>]"

definition google_serde :: serde where
  "google_serde =
     \<lparr>to_compact = \<lambda>_. [], to_pretty = \<lambda>_. [],
      from_text = \<lambda>t. if t = ''r'' then map_option (\<lambda>c. wrapped_reply (candidate_reply c)) (gemini_cli_content google_turn)
                       else None,
      stream_next = \<lambda>_. None, number_f64 = \<lambda>_. None\<rparr>"

definition google_net :: "unit net" where
  "google_net =
     \<lparr>nt_send = \<lambda>req w. (Inr \<lparr>rp_status = 200, rp_headers = [], rp_body = str_bytes ''r''\<rparr>, w),
      nt_stream = \<lambda>_ w. (Inl (Network ''down''), w), nt_serde = google_serde, nt_bad_json = \<lambda>_. []\<rparr>"

definition google_env :: "unit env" where
  "google_env = \<lparr>ev_now_millis = \<lambda>w. (0, w), ev_fill = \<lambda>n w. (replicate n 0, w), ev_utc_now = \<lambda>w. (0, w)\<rparr>"

lemma google_turn_roundtrip_witness:
  "\<forall>cx. gemini_cli_chat google_net google_env cx () =
    (Inr (stop_response cx (calls_message ''hi'' [\<lparr>tc_id = ''1'', tc_name = ''f'', tc_arguments = []\<rparr>])), ())"
proof
  fix cx
  obtain req where req: "gemini_cli_request (nt_serde google_net) google_env cx () = (req, ())"
    by (cases "gemini_cli_request (nt_serde google_net) google_env cx ()") simp
  obtain c where c: "gemini_cli_content google_turn = Some c"
    by (simp add: gemini_cli_content_def google_turn_def message_defs content_parts_def text_of_def)
  have t: "text_of google_turn = ''hi''"
    "msg_tool_calls google_turn = [\<lparr>tc_id = ''1'', tc_name = ''f'', tc_arguments = []\<rparr>]"
    by (simp_all add: google_turn_def message_defs text_of_def)
  let ?resp = "\<lparr>rp_status = 200, rp_headers = [], rp_body = str_bytes ''r''\<rparr>"
  have "from_utf8 (str_bytes ''r'') = Some ''r''" by code_simp
  then have "response_json (nt_serde google_net) ?resp = Inr (wrapped_reply (candidate_reply c))"
    by (simp add: response_json_def google_net_def google_serde_def c)
  then show "gemini_cli_chat google_net google_env cx () =
    (Inr (stop_response cx (calls_message ''hi'' [\<lparr>tc_id = ''1'', tc_name = ''f'', tc_arguments = []\<rparr>])), ())"
    using google_turn_roundtrip [OF c _ req, of ?resp "()" "wrapped_reply (candidate_reply c)"]
    by (simp add: t google_net_def is_success_def)
qed

text \<open>
  The system messages of a transcript are not sent, and a message without text, calls and result leaves nothing;
  every other message has its content, in order.
\<close>

lemma gemini_cli_contents_roles:
  "map (\<lambda>c. jget_str c ''role'') (gemini_cli_contents ms) =
     map (\<lambda>m. Some (content_role m)) (filter (\<lambda>m. msg_role m \<noteq> RSystem \<and> content_parts m \<noteq> []) ms)"
  by (induction ms)
    (auto simp: gemini_cli_contents_def List.map_filter_simps gemini_cli_content_def content_value_def jget_str_def)

text \<open>
  Antigravity declares native tools, but neither the tools of the request nor the calls and results of the
  transcript are sent, and the calls of a reply are dropped: the request is that of the tool-free transcript.
\<close>

lemma antigravity_ignores_tools:
  "fst (antigravity_request sj env (cx\<lparr>cx_request := (cx_request cx)\<lparr>rq_tools := ts\<rparr>\<rparr>) w) = fst (antigravity_request sj env cx w)"
  by (simp add: antigravity_request_def project_of_def request_from_def ctx_proxy_def ctx_timeout_ms_def
      impersonate_or_def split: prod.split)

lemma antigravity_drops_tool_turns:
  "antigravity_contents [message_assistant_with_tools None calls, message_tool_result r] = []"
  by (simp add: antigravity_contents_def List.map_filter_simps antigravity_content_def message_defs text_of_def)

lemma antigravity_drops_calls:
  "fst (antigravity_chat net env cx w) = Inr r \<Longrightarrow> msg_tool_calls (rs_message r) = []"
  by (auto simp: antigravity_chat_def stop_response_def message_defs split: prod.splits sum.splits)

end
