(* ===== verification/Proto.thy ===== *)
theory Proto
  imports Utf8 Json
begin

text \<open>
  The protobuf and Connect-RPC codec of \<open>gravity-providers/src/cursor/proto.rs\<close>, shared by the Cursor,
  Windsurf and Antigravity adapters: varints, fields, messages, frames, and \<open>google.protobuf.Struct\<close>.

  Positions are offsets into the message as in the code.  Arithmetic is that of the release build:
  \<open>usize\<close> is 64 bits wide and wraps, and a shift amount is taken modulo 64.  \<open>Panics\<close> is a slice whose
  start lies after its end.  A double is its bit pattern; \<open>gunzip\<close> is the decoder of \<open>flate2\<close>.
\<close>

datatype 'a checked = Value 'a | Panics

section \<open>Encoders\<close>

function varint :: "u64 \<Rightarrow> u8 list" where
  "varint v =
     (if 0x7F < v then ucast ((v AND 0x7F) OR 0x80) # varint (drop_bit 7 v) else [ucast v])"
  by pat_completeness auto

lemma unat_drop_7: "unat (drop_bit 7 (v :: u64)) = unat v div 128"
  by (simp only: unat_drop_bit_eq) (simp add: drop_bit_eq_div)

termination varint
proof (relation "measure unat", goal_cases)
  case 1
  show ?case by simp
next
  case (2 v)
  then have "127 < unat v" by (simp add: word_less_nat_alt)
  then show ?case by (simp add: unat_drop_7)
qed

declare varint.simps [simp del]

definition field_varint :: "u32 \<Rightarrow> u64 \<Rightarrow> u8 list" where
  "field_varint fn v = varint (push_bit 3 (ucast fn)) @ varint v"

definition field_bytes :: "u32 \<Rightarrow> u8 list \<Rightarrow> u8 list" where
  "field_bytes fn b = varint (push_bit 3 (ucast fn) OR 2) @ varint (of_nat (length b)) @ b"

definition field_string :: "u32 \<Rightarrow> string \<Rightarrow> u8 list" where
  "field_string fn s = field_bytes fn (str_bytes s)"

definition field_message :: "u32 \<Rightarrow> u8 list \<Rightarrow> u8 list" where
  "field_message fn b = field_bytes fn b"

definition field_double :: "u32 \<Rightarrow> u64 \<Rightarrow> u8 list" where
  "field_double fn bits = varint (push_bit 3 (ucast fn) OR 1) @ word_to_le 8 bits"

section \<open>Decoder\<close>

datatype field = FVarint u64 | FBytes "u8 list"

fun field_as_string :: "field \<Rightarrow> string" where
  "field_as_string (FBytes b) = from_utf8_lossy b"
| "field_as_string (FVarint v) = dec_of (unat v)"

fun field_as_bool :: "field \<Rightarrow> bool" where
  "field_as_bool (FVarint v) \<longleftrightarrow> v \<noteq> 0"
| "field_as_bool (FBytes b) \<longleftrightarrow> (case b of [] \<Rightarrow> False | x # _ \<Rightarrow> x \<noteq> 0)"

fun field_payload :: "field \<Rightarrow> u8 list option" where
  "field_payload (FBytes b) = Some b"
| "field_payload (FVarint v) = None"

text \<open>The loop of \<open>read_varint\<close> over the bytes from its position on: the value and how many it took.\<close>

fun varint_loop :: "u64 \<Rightarrow> nat \<Rightarrow> u8 list \<Rightarrow> (u64 \<times> nat) option" where
  "varint_loop v shift [] = None"
| "varint_loop v shift (b # bs) =
     (let v' = v OR push_bit (shift mod 64) (ucast (b AND 0x7F))
      in if b AND 0x80 = 0 then Some (v', 1)
         else map_option (\<lambda>(r, n). (r, Suc n)) (varint_loop v' (shift + 7) bs))"

definition read_varint :: "u8 list \<Rightarrow> nat \<Rightarrow> (u64 \<times> nat) option" where
  "read_varint data pos = varint_loop 0 0 (drop pos data)"

type_synonym fields = "u32 \<rightharpoonup> field list"

definition push_field :: "u32 \<Rightarrow> field \<Rightarrow> fields \<Rightarrow> fields" where
  "push_field fn f out = out(fn \<mapsto> (case out fn of None \<Rightarrow> [] | Some fs \<Rightarrow> fs) @ [f])"

definition slice :: "u8 list \<Rightarrow> nat \<Rightarrow> nat \<Rightarrow> u8 list" where
  "slice data start stop = take (stop - start) (drop start data)"

lemma varint_loop_bounds: "varint_loop v shift bs = Some (r, n) \<Longrightarrow> 0 < n \<and> n \<le> length bs"
  by (induction v shift bs arbitrary: r n rule: varint_loop.induct)
    (auto simp: Let_def split: if_splits)

lemma read_varint_bounds: "read_varint data pos = Some (r, n) \<Longrightarrow> 0 < n \<and> pos + n \<le> length data"
  unfolding read_varint_def by (drule varint_loop_bounds) auto

text \<open>The end of a length-delimited field, in \<open>usize\<close> arithmetic.\<close>

definition wrapped_end :: "nat \<Rightarrow> u64 \<Rightarrow> nat" where
  "wrapped_end pos len = (pos + unat len) mod 2 ^ 64"

function fields_loop :: "u8 list \<Rightarrow> nat \<Rightarrow> fields \<Rightarrow> fields checked" where
  "fields_loop data pos out =
     (if pos < length data then
        (case read_varint data pos of
           None \<Rightarrow> Value out
         | Some (tag, n) \<Rightarrow>
             (let fn = ucast (drop_bit 3 tag); wt = tag AND 7; pos1 = pos + n
              in if wt = 0 then
                   (case read_varint data pos1 of
                      None \<Rightarrow> Value out
                    | Some (v, k) \<Rightarrow> fields_loop data (pos1 + k) (push_field fn (FVarint v) out))
                 else if wt = 1 then
                   (if length data < pos1 + 8 then Value out
                    else fields_loop data (pos1 + 8) (push_field fn (FBytes (slice data pos1 (pos1 + 8))) out))
                 else if wt = 2 then
                   (case read_varint data pos1 of
                      None \<Rightarrow> Value out
                    | Some (len, k) \<Rightarrow>
                        (let pos2 = pos1 + k; stop = wrapped_end pos2 len
                         in if length data < stop then Value out
                            else if stop < pos2 then Panics
                            else fields_loop data stop (push_field fn (FBytes (slice data pos2 stop)) out)))
                 else if wt = 5 then
                   (if length data < pos1 + 4 then Value out
                    else fields_loop data (pos1 + 4) (push_field fn (FBytes (slice data pos1 (pos1 + 4))) out))
                 else Value out))
      else Value out)"
  by pat_completeness auto
termination
  by (relation "measure (\<lambda>(data, pos, out). length data - pos)")
    (auto dest!: read_varint_bounds sym [of _ "read_varint _ _"] split: prod.splits)

declare fields_loop.simps [simp del]

definition decode_fields :: "u8 list \<Rightarrow> fields checked" where
  "decode_fields data = fields_loop data 0 Map.empty"

section \<open>Connect frames\<close>

definition encode_frame :: "u8 list \<Rightarrow> u8 list" where
  "encode_frame payload = 0 # word_to_be 4 (of_nat (length payload) :: u32) @ payload"

text \<open>One turn of the loop of \<open>decode_frames\<close> on the bytes from \<open>pos\<close> on.\<close>

definition next_frame ::
    "(u8 list \<Rightarrow> u8 list option) \<Rightarrow> u8 list \<Rightarrow> ((u8 \<times> u8 list) \<times> u8 list) option" where
  "next_frame gunzip raw =
     (if length raw < 5 then None
      else
        (let flag = raw ! 0;
             len = unat (be_to_word (take 4 (drop 1 raw)) :: u32)
         in if length raw < 5 + len then None
            else
              (let payload = take len (drop 5 raw)
               in Some ((flag, if flag AND 1 \<noteq> 0
                               then (case gunzip payload of Some buf \<Rightarrow> buf | None \<Rightarrow> payload)
                               else payload), drop (5 + len) raw))))"

function decode_frames :: "(u8 list \<Rightarrow> u8 list option) \<Rightarrow> u8 list \<Rightarrow> (u8 \<times> u8 list) list" where
  "decode_frames gunzip raw =
     (case next_frame gunzip raw of
        None \<Rightarrow> []
      | Some (frame, rest) \<Rightarrow> frame # decode_frames gunzip rest)"
  by pat_completeness auto
termination
  by (relation "measure (\<lambda>(gunzip, raw). length raw)")
    (auto simp: next_frame_def Let_def split: if_splits)

declare decode_frames.simps [simp del]

section \<open>Structs and embeddings\<close>

fun encode_value :: "serde \<Rightarrow> json \<Rightarrow> u8 list" where
  "encode_value sj JNull = field_varint 1 0"
| "encode_value sj (JBool b) = field_varint 4 (if b then 1 else 0)"
| "encode_value sj (JNumber n) = field_double 2 (case number_f64 sj n of Some d \<Rightarrow> d | None \<Rightarrow> 0)"
| "encode_value sj (JString s) = field_string 3 s"
| "encode_value sj (JObject m) =
     field_message 5
       (concat (map (\<lambda>e. field_message 1 (field_string 1 (fst e) @ field_message 2 (encode_value sj (snd e)))) m))"
| "encode_value sj (JArray a) = field_message 6 (concat (map (\<lambda>x. field_message 1 (encode_value sj x)) a))"

definition encode_struct :: "serde \<Rightarrow> jmap \<Rightarrow> u8 list" where
  "encode_struct sj m =
     concat (map (\<lambda>e. field_message 1 (field_string 1 (fst e) @ field_message 2 (encode_value sj (snd e)))) m)"

definition encode_list :: "serde \<Rightarrow> json list \<Rightarrow> u8 list" where
  "encode_list sj a = concat (map (\<lambda>x. field_message 1 (encode_value sj x)) a)"

definition build_bulk_embed_request :: "string list \<Rightarrow> u8 list" where
  "build_bulk_embed_request texts = concat (map (field_string 1) texts)"

text \<open>The packed doubles of one chunk; bytes that do not fill a double are left out.\<close>

fun packed_doubles :: "u8 list \<Rightarrow> u64 list" where
  "packed_doubles b =
     (if length b < 8 then [] else le_to_word (take 8 b) # packed_doubles (drop 8 b))"

declare packed_doubles.simps [simp del]

definition field_values :: "u32 \<Rightarrow> fields \<Rightarrow> field list" where
  "field_values fn out = (case out fn of None \<Rightarrow> [] | Some fs \<Rightarrow> fs)"

fun embedding_of :: "field \<Rightarrow> u64 list checked" where
  "embedding_of (FVarint v) = Value []"
| "embedding_of (FBytes b) =
     (case decode_fields b of
        Panics \<Rightarrow> Panics
      | Value inner \<Rightarrow>
          Value (concat (map (\<lambda>f. case field_payload f of Some c \<Rightarrow> packed_doubles c | None \<Rightarrow> [])
                          (field_values 1 inner))))"

fun embeddings_of :: "field list \<Rightarrow> u64 list list checked" where
  "embeddings_of [] = Value []"
| "embeddings_of (f # fs) =
     (case embedding_of f of
        Panics \<Rightarrow> Panics
      | Value e \<Rightarrow>
          (case embeddings_of fs of
             Panics \<Rightarrow> Panics
           | Value es \<Rightarrow> Value ((if e = [] then [] else [e]) @ es)))"

definition parse_bulk_embed_response :: "u8 list \<Rightarrow> u64 list list checked" where
  "parse_bulk_embed_response data =
     (case decode_fields data of
        Panics \<Rightarrow> Panics
      | Value fs \<Rightarrow> embeddings_of (field_values 1 fs))"

section \<open>Varints are read back\<close>

lemma bit_7F: "bit (0x7F :: 'a::len word) n \<longleftrightarrow> n < LENGTH('a) \<and> n < 7"
proof -
  have "(0x7F :: 'a word) = mask 7" by (simp add: mask_eq_exp_minus_1)
  then show ?thesis by (simp only: bit_mask_iff possible_bit_word)
qed

lemma bit_80: "bit (0x80 :: 'a::len word) n \<longleftrightarrow> n < LENGTH('a) \<and> n = 7"
proof -
  have "(0x80 :: 'a word) = 2 ^ 7" by simp
  then show ?thesis by (simp only: bit_exp_iff possible_bit_word)
qed

lemma low_byte:
  fixes v :: u64
  defines "b \<equiv> ucast ((v AND 0x7F) OR 0x80) :: u8"
  shows "b AND 0x80 \<noteq> 0" and "ucast (b AND 0x7F) = v AND 0x7F"
proof -
  have "bit (b AND 0x80) 7" unfolding b_def by (simp only: bit_simps bit_7F bit_80) simp
  then show "b AND 0x80 \<noteq> 0" by (metis bit_0_eq bot_apply bot_bool_def)
  show "ucast (b AND 0x7F) = v AND 0x7F"
    unfolding b_def by (rule bit_eqI) (auto simp: bit_simps bit_7F bit_80 simp del: bit_numeral_word_iff)
qed

lemma last_byte:
  assumes "\<not> 0x7F < (v :: u64)"
  shows "(ucast v :: u8) AND 0x80 = 0" and "ucast ((ucast v :: u8) AND 0x7F) = v"
proof -
  have "unat v < 2 ^ 7" using assms by (simp add: not_less word_le_nat_alt)
  then have "take_bit 7 v = v"
    by (metis take_bit_nat_eq_self unsigned_take_bit_eq unsigned_word_eqI)
  then have v: "bit v n \<Longrightarrow> n < 7" for n by (metis bit_take_bit_iff)
  show "(ucast v :: u8) AND 0x80 = 0"
    by (rule bit_eqI) (auto simp: bit_simps bit_80 dest: v simp del: bit_numeral_word_iff)
  show "ucast ((ucast v :: u8) AND 0x7F) = v"
    by (rule bit_eqI) (auto simp: bit_simps bit_7F dest: v simp del: bit_numeral_word_iff)
qed

lemma low_high_index: "(s :: nat) + 7 \<le> n \<Longrightarrow> 7 + (n - (s + 7)) = n - s"
  by simp

lemma push_low_high:
  "push_bit s (v AND 0x7F) OR push_bit (s + 7) (drop_bit 7 v) = push_bit s (v :: u64)"
proof (rule bit_eqI)
  fix n
  show "bit (push_bit s (v AND 0x7F) OR push_bit (s + 7) (drop_bit 7 v)) n = bit (push_bit s v) n"
  proof (cases "s + 7 \<le> n")
    case True
    then show ?thesis by (auto simp: bit_simps bit_7F low_high_index simp del: bit_numeral_word_iff)
  next
    case False
    then show ?thesis by (auto simp: bit_simps bit_7F simp del: bit_numeral_word_iff)
  qed
qed

lemma varint_loop_varint:
  assumes "s < 64" and "unat v < 2 ^ (64 - s)"
  shows "varint_loop acc s (varint v @ rest) = Some (acc OR push_bit s v, length (varint v))"
  using assms
proof (induction v arbitrary: acc s rule: varint.induct)
  case (1 v)
  show ?case
  proof (cases "0x7F < v")
    case True
    then have "127 < unat v" by (simp add: word_less_nat_alt)
    with "1.prems" have "(2::nat) ^ 7 < 2 ^ (64 - s)" by simp
    then have "7 < 64 - s" by (rule power_less_imp_less_exp [rotated]) simp
    then have s: "s + 7 < 64" by simp
    have "unat (drop_bit 7 v) < 2 ^ (64 - (s + 7))"
    proof -
      have "64 - s = (64 - (s + 7)) + 7" using s by simp
      then have "(2::nat) ^ (64 - s) = 2 ^ (64 - (s + 7)) * 128"
        by (simp only: power_add) simp
      then show ?thesis using "1.prems"(2) by (simp add: unat_drop_7 less_mult_imp_div_less)
    qed
    then have "varint_loop acc' (s + 7) (varint (drop_bit 7 v) @ rest) =
        Some (acc' OR push_bit (s + 7) (drop_bit 7 v), length (varint (drop_bit 7 v)))" for acc'
      using "1.IH" [OF True] s by simp
    then show ?thesis
      using True low_byte [of v] s
      by (simp add: varint.simps [of v] Let_def or.assoc push_low_high del: push_bit_and)
  next
    case False
    then show ?thesis using last_byte [OF False] "1.prems"(1) by (simp add: varint.simps [of v] Let_def)
  qed
qed

lemma read_varint_at:
  "data = pre @ varint v @ rest \<Longrightarrow> read_varint data (length pre) = Some (v, length (varint v))"
  using varint_loop_varint [of 0 v 0 rest] unsigned_less [of v] by (simp add: read_varint_def)

definition take_varint :: "u8 list \<Rightarrow> (u64 \<times> u8 list) option" where
  "take_varint bs = map_option (\<lambda>(v, n). (v, drop n bs)) (read_varint bs 0)"

interpretation varints: frame_codec varint take_varint "\<lambda>_. True"
  by unfold_locales (simp add: take_varint_def read_varint_at [of _ "[]", simplified])

lemma varint_nonempty: "0 < length (varint v)"
  by (simp add: varint.simps [of v])

lemma length_varint: "unat v < 2 ^ (7 * k) \<Longrightarrow> 0 < k \<Longrightarrow> length (varint v) \<le> k"
proof (induction v arbitrary: k rule: varint.induct)
  case (1 v)
  show ?case
  proof (cases "0x7F < v")
    case True
    then have "127 < unat v" by (simp add: word_less_nat_alt)
    with "1.prems" have "(2::nat) ^ 7 < 2 ^ (7 * k)" by simp
    then have "7 < 7 * k" by (rule power_less_imp_less_exp [rotated]) simp
    then have "1 < k" by simp
    then obtain j where k: "k = Suc j" "0 < j" by (cases k) auto
    then have "unat (drop_bit 7 v) < 2 ^ (7 * j)"
      using "1.prems"(1) by (simp add: unat_drop_7 power_add less_mult_imp_div_less mult.commute)
    then show ?thesis using "1.IH" [OF True, of j] k True by (simp add: varint.simps [of v])
  qed (use "1.prems" in \<open>simp add: varint.simps [of v]\<close>)
qed

section \<open>Messages are read back\<close>

datatype proto_field = PVarint u32 u64 | PDouble u32 u64 | PBytes u32 "u8 list"

fun wire_field :: "proto_field \<Rightarrow> u8 list" where
  "wire_field (PVarint fn v) = field_varint fn v"
| "wire_field (PDouble fn d) = field_double fn d"
| "wire_field (PBytes fn b) = field_bytes fn b"

fun field_number :: "proto_field \<Rightarrow> u32" where
  "field_number (PVarint fn v) = fn"
| "field_number (PDouble fn d) = fn"
| "field_number (PBytes fn b) = fn"

fun field_content :: "proto_field \<Rightarrow> field" where
  "field_content (PVarint fn v) = FVarint v"
| "field_content (PDouble fn d) = FBytes (word_to_le 8 d)"
| "field_content (PBytes fn b) = FBytes b"

text \<open>The table of a message: the contents of each field number, in order.\<close>

definition table_of :: "proto_field list \<Rightarrow> fields" where
  "table_of fs k =
     (case filter (\<lambda>f. field_number f = k) fs of [] \<Rightarrow> None | gs \<Rightarrow> Some (map field_content gs))"

lemma bit_small: "k < 8 \<Longrightarrow> bit (k :: u64) n \<Longrightarrow> n < 3"
proof -
  assume "k < 8" "bit k n"
  then have "unat k < 2 ^ 3" by (simp add: word_less_nat_alt)
  then have "take_bit 3 k = k"
    by (metis take_bit_nat_eq_self unsigned_take_bit_eq unsigned_word_eqI)
  with \<open>bit k n\<close> show "n < 3" by (metis bit_take_bit_iff)
qed

lemma bit_7: "bit (7 :: 'a::len word) n \<longleftrightarrow> n < LENGTH('a) \<and> n < 3"
proof -
  have "(7 :: 'a word) = mask 3" by (simp add: mask_eq_exp_minus_1)
  then show ?thesis by (simp only: bit_mask_iff possible_bit_word)
qed

lemma tag_parts:
  assumes "k < 8"
  shows "ucast (drop_bit 3 (push_bit 3 (ucast (fn :: u32)) OR k :: u64)) = fn"
    and "(push_bit 3 (ucast (fn :: u32)) OR k :: u64) AND 7 = k"
proof -
  show "ucast (drop_bit 3 (push_bit 3 (ucast fn) OR k :: u64)) = fn"
  proof (rule bit_eqI)
    fix n
    assume "possible_bit TYPE(32 word) n"
    then show "bit (ucast (drop_bit 3 (push_bit 3 (ucast fn) OR k :: u64)) :: u32) n = bit fn n"
      using bit_small [OF assms, of "3 + n"] by (auto simp: bit_simps)
  qed
  show "(push_bit 3 (ucast fn) OR k :: u64) AND 7 = k"
    by (rule bit_eqI)
      (auto simp: bit_simps bit_7 dest: bit_small [OF assms] simp del: bit_numeral_word_iff)
qed

lemma tag_parts_0:
  "ucast (drop_bit 3 (push_bit 3 (ucast (fn :: u32)) :: u64)) = fn"
  "(push_bit 3 (ucast (fn :: u32)) :: u64) AND 7 = 0"
  using tag_parts [of 0 fn] by simp_all

lemma slice_middle:
  "data = pre @ b @ rest \<Longrightarrow> slice data (length pre) (length pre + length b) = b"
  by (simp add: slice_def)

lemma unat_length: "n < 2 ^ 64 \<Longrightarrow> unat (of_nat n :: u64) = n"
  by (simp add: unat_of_nat take_bit_nat_eq_self)

lemma fields_loop_step:
  assumes "data = pre @ wire_field f @ rest" and "length data < 2 ^ 64"
  shows "fields_loop data (length pre) out =
     fields_loop data (length pre + length (wire_field f)) (push_field (field_number f) (field_content f) out)"
proof (cases f)
  case (PVarint fn v)
  let ?t = "push_bit 3 (ucast fn) :: u64"
  have d: "data = pre @ varint ?t @ (varint v @ rest)" "data = (pre @ varint ?t) @ varint v @ rest"
    using assms(1) PVarint by (simp_all add: field_varint_def)
  have "length pre < length data" using d(1) varint_nonempty [of ?t] by simp
  then show ?thesis
    using read_varint_at [OF d(1)] read_varint_at [OF d(2)] PVarint
    by (simp add: fields_loop.simps [of data "length pre"] tag_parts_0 Let_def field_varint_def add.assoc)
next
  case (PDouble fn x)
  let ?t = "push_bit 3 (ucast fn) OR 1 :: u64"
  have d: "data = pre @ varint ?t @ (word_to_le 8 x @ rest)" "data = (pre @ varint ?t) @ word_to_le 8 x @ rest"
    using assms(1) PDouble by (simp_all add: field_double_def)
  have l: "length pre < length data" "\<not> length data < length pre + length (varint ?t) + 8"
    using d(1) varint_nonempty [of ?t] by simp_all
  have "slice data (length pre + length (varint ?t)) (length pre + length (varint ?t) + 8) = word_to_le 8 x"
    using slice_middle [OF d(2)] by simp
  then show ?thesis
    using read_varint_at [OF d(1)] l PDouble tag_parts [of 1 fn]
    by (simp add: fields_loop.simps [of data "length pre"] Let_def field_double_def add.assoc)
next
  case (PBytes fn b)
  let ?t = "push_bit 3 (ucast fn) OR 2 :: u64" and ?n = "of_nat (length b) :: u64"
  have d: "data = pre @ varint ?t @ (varint ?n @ b @ rest)" "data = (pre @ varint ?t) @ varint ?n @ (b @ rest)"
    "data = (pre @ varint ?t @ varint ?n) @ b @ rest"
    using assms(1) PBytes by (simp_all add: field_bytes_def)
  have len: "length data = length pre + length (varint ?t) + length (varint ?n) + length b + length rest"
    by (subst d(1)) simp
  then have b: "length b < 2 ^ 64" using assms(2) by linarith
  have l: "length pre < length data" using len varint_nonempty [of ?t] by linarith
  let ?p = "length pre + length (varint ?t) + length (varint ?n)"
  have stop: "wrapped_end ?p ?n = ?p + length b"
    using b len assms(2) by (simp add: wrapped_end_def unat_length)
  have "slice data ?p (?p + length b) = b" using slice_middle [OF d(3)] by (simp add: add.assoc)
  then show ?thesis
    using read_varint_at [OF d(1)] read_varint_at [OF d(2)] l PBytes tag_parts [of 2 fn] stop len
    by (simp add: fields_loop.simps [of data "length pre"] Let_def field_bytes_def add.assoc)
qed

definition push_all :: "proto_field list \<Rightarrow> fields \<Rightarrow> fields" where
  "push_all fs out = fold (\<lambda>f. push_field (field_number f) (field_content f)) fs out"

lemma fields_loop_run:
  assumes "data = pre @ concat (map wire_field fs) @ rest" and "length data < 2 ^ 64"
  shows "fields_loop data (length pre) out =
     fields_loop data (length pre + length (concat (map wire_field fs))) (push_all fs out)"
  using assms(1)
proof (induction fs arbitrary: pre out)
  case Nil
  then show ?case by (simp add: push_all_def)
next
  case (Cons f fs)
  have "data = pre @ wire_field f @ (concat (map wire_field fs) @ rest)" using Cons.prems by simp
  from fields_loop_step [OF this assms(2)]
  show ?case
    using Cons.IH [of "pre @ wire_field f"] Cons.prems by (simp add: push_all_def add.assoc)
qed

lemma push_all_table:
  "push_all fs out k =
     (case filter (\<lambda>f. field_number f = k) fs of
        [] \<Rightarrow> out k
      | gs \<Rightarrow> Some ((case out k of None \<Rightarrow> [] | Some vs \<Rightarrow> vs) @ map field_content gs))"
proof (induction fs arbitrary: out)
  case Nil
  then show ?case by (simp add: push_all_def)
next
  case (Cons f fs)
  then show ?case
    by (auto simp: push_all_def push_field_def split: list.splits option.splits)
qed

lemma decode_fields_wire:
  assumes "length (concat (map wire_field fs)) < 2 ^ 64"
  shows "decode_fields (concat (map wire_field fs)) = Value (table_of fs)"
proof -
  let ?d = "concat (map wire_field fs)"
  have "fields_loop ?d 0 Map.empty = fields_loop ?d (length ?d) (push_all fs Map.empty)"
    using fields_loop_run [of ?d "[]" fs "[]" Map.empty] assms by simp
  moreover have "fields_loop ?d (length ?d) (push_all fs Map.empty) = Value (push_all fs Map.empty)"
    by (simp add: fields_loop.simps [of _ "length _"])
  moreover have "push_all fs Map.empty = table_of fs"
    by (rule ext) (simp add: push_all_table table_of_def split: list.split)
  ultimately show ?thesis by (simp add: decode_fields_def)
qed

text \<open>
  Protobuf messages are read back.  The concatenation of encoded fields (varint, double and
  length-delimited, in any order and number, up to the address space) decodes to the table of their
  contents by field number, in order, and never panics; a varint takes at least one and at most ten
  bytes, and is read back at any position with nothing after it consumed.
\<close>

theorem message_roundtrip:
  assumes "length (concat (map wire_field fs)) < 2 ^ 64"
  shows "decode_fields (concat (map wire_field fs)) = Value (table_of fs)
       \<and> read_varint (pre @ varint v @ rest) (length pre) = Some (v, length (varint v))
       \<and> 1 \<le> length (varint v) \<and> length (varint v) \<le> 10"
proof -
  have "unat v < 2 ^ (7 * 10)" using unsigned_less [of v] by (rule less_le_trans) simp
  then show ?thesis
    using decode_fields_wire [OF assms] read_varint_at [OF refl, of pre v rest] length_varint [of v 10]
      varint_nonempty [of v] by (simp add: Suc_le_eq)
qed

lemma message_roundtrip_witness:
  "decode_fields (wire_field (PVarint 1 300) @ wire_field (PBytes 2 [104, 105]) @ wire_field (PVarint 1 7)) =
     Value [1 \<mapsto> [FVarint 300, FVarint 7], 2 \<mapsto> [FBytes [104, 105]]]"
proof -
  let ?fs = "[PVarint 1 300, PBytes 2 [104, 105], PVarint 1 7]"
  have "length (concat (map wire_field ?fs)) < 2 ^ 64"
    by (simp add: field_varint_def field_bytes_def) (simp add: varint.simps)
  from message_roundtrip [OF this]
  have "decode_fields (concat (map wire_field ?fs)) = Value (table_of ?fs)" by blast
  moreover have "table_of ?fs = [1 \<mapsto> [FVarint 300, FVarint 7], 2 \<mapsto> [FBytes [104, 105]]]"
    by (rule ext) (simp add: table_of_def)
  ultimately show ?thesis by simp
qed

text \<open>
  A length that wraps around the address space passes the bound check and makes the slice panic: eleven
  bytes from a server are enough.
\<close>

lemma decode_fields_panics: "decode_fields (0x0A # varint (- 1)) = Panics"
proof -
  let ?d = "0x0A # varint (- 1)"
  have t: "read_varint ?d 0 = Some (10, 1)" by (simp add: read_varint_def)
  have l: "read_varint ?d 1 = Some (- 1, length (varint (- 1)))"
    using read_varint_at [of ?d "[0x0A]" "- 1" "[]"] by simp
  have n: "length (varint (- 1)) \<le> 10"
    using unsigned_less [of "- 1 :: u64"] by (intro length_varint) (auto elim: less_le_trans)
  have u: "unat (- 1 :: u64) = 2 ^ 64 - 1" by (simp add: unsigned_minus_1_eq_mask mask_eq_exp_minus_1)
  have "wrapped_end (1 + length (varint (- 1))) (- 1) = length (varint (- 1))"
    using n unfolding wrapped_end_def u by simp
  then show ?thesis
    using t l by (simp add: decode_fields_def fields_loop.simps [of _ 0] Let_def)
qed

section \<open>Frames are read back\<close>

lemma next_frame_encode:
  assumes "length p < 2 ^ 32"
  shows "next_frame gunzip (encode_frame p @ rest) = Some ((0, p), rest)"
proof -
  let ?h = "word_to_be 4 (of_nat (length p) :: u32)"
  have h: "length ?h = 4" by simp
  have "be_to_word ?h = (of_nat (length p) :: u32)" by (rule be_roundtrip) simp
  moreover have "unat (of_nat (length p) :: u32) = length p"
    using assms by (simp add: unat_of_nat take_bit_nat_eq_self)
  moreover have "take 4 (?h @ p @ rest) = ?h" by (simp add: h)
  moreover have "drop 4 (?h @ p @ rest) = p @ rest" by (simp add: h)
  ultimately show ?thesis
    by (simp add: next_frame_def encode_frame_def Let_def h drop_Cons' numeral_eq_Suc)
qed

interpretation frames: frame_codec "\<lambda>(flag, p). encode_frame p" "next_frame gunzip"
    "\<lambda>(flag, p). flag = 0 \<and> length p < 2 ^ 32" for gunzip
  by unfold_locales (auto simp: next_frame_encode)

lemma decode_frames_next:
  "decode_frames gunzip bs =
     (case next_frame gunzip bs of None \<Rightarrow> [] | Some (x, rest) \<Rightarrow> x # decode_frames gunzip rest)"
  by (rule decode_frames.simps)

text \<open>
  Connect frames are read back.  A body of frames written by \<open>encode_frame\<close>, each shorter than 4 GiB,
  followed by any bytes that do not hold a whole frame, decodes to exactly the payloads in order,
  uncompressed and untouched by the decompressor; in particular a stream cut in the middle of a frame
  loses that frame only.
\<close>

theorem frames_roundtrip:
  assumes "list_all (\<lambda>p. length p < 2 ^ 32) ps"
    and "length tail < 5 \<or> length tail < 5 + unat (be_to_word (take 4 (drop 1 tail)) :: u32)"
  shows "decode_frames gunzip (concat (map encode_frame ps) @ tail) = map (Pair 0) ps"
proof -
  have "next_frame gunzip tail = None" using assms(2) by (auto simp: next_frame_def Let_def)
  then have "decode_frames gunzip tail = []" by (simp add: decode_frames.simps)
  moreover have "list_all (\<lambda>(flag, p). flag = 0 \<and> length p < 2 ^ 32) (map (Pair (0 :: u8)) ps)"
    using assms(1) by (simp add: list_all_iff)
  ultimately show ?thesis
    using frames.decode_sequence [of "decode_frames gunzip", OF decode_frames_next, of "map (Pair 0) ps" tail]
    by (simp add: comp_def)
qed

lemma frames_roundtrip_witness:
  "decode_frames (\<lambda>_. None) (encode_frame [8, 150, 1] @ encode_frame [] @ [0, 0, 0, 0, 9, 1]) =
     [(0, [8, 150, 1]), (0, [])]"
proof -
  have "unat (be_to_word (take 4 (drop 1 [0, 0, 0, 0, 9, 1])) :: u32) = 9" by code_simp
  then show ?thesis
    using frames_roundtrip [of "[[8, 150, 1], []]" "[0, 0, 0, 0, 9, 1]" "\<lambda>_. None"] by simp
qed

section \<open>Structs and embeddings are read back\<close>

lemma field_string_wire: "field_string fn s = wire_field (PBytes fn (str_bytes s))"
  by (simp add: field_string_def)

lemma field_message_wire: "field_message fn b = wire_field (PBytes fn b)"
  by (simp add: field_message_def)

lemma table_of_same:
  "xs \<noteq> [] \<Longrightarrow> table_of (map (\<lambda>x. PBytes fn (g x)) xs) = [fn \<mapsto> map (\<lambda>x. FBytes (g x)) xs]"
  by (rule ext) (auto simp: table_of_def filter_map comp_def split: list.split)

lemma table_of_one: "table_of [PBytes fn b] = [fn \<mapsto> [FBytes b]]"
  using table_of_same [of "[b]" fn "\<lambda>x. x"] by simp

lemma concat_field_messages:
  "concat (map (\<lambda>x. field_message fn (g x)) xs) = concat (map wire_field (map (PBytes fn) (map g xs)))"
  by (simp add: field_message_wire comp_def)

lemma struct_entries:
  assumes "m \<noteq> []" and "length (encode_struct sj m) < 2 ^ 64"
  shows "decode_fields (encode_struct sj m) =
     Value [1 \<mapsto> map (\<lambda>e. FBytes (field_string 1 (fst e) @ field_message 2 (encode_value sj (snd e)))) m]"
proof -
  let ?g = "\<lambda>e. field_string 1 (fst e) @ field_message 2 (encode_value sj (snd e))"
  have e: "encode_struct sj m = concat (map wire_field (map (PBytes 1) (map ?g m)))"
    unfolding encode_struct_def by (rule concat_field_messages)
  have "decode_fields (encode_struct sj m) = Value (table_of (map (PBytes 1) (map ?g m)))"
    unfolding e by (rule decode_fields_wire) (use assms(2) in \<open>simp only: e\<close>)
  then show ?thesis using assms(1) by (simp add: table_of_same comp_def)
qed

lemma struct_entry_fields:
  assumes "length (field_string 1 k @ field_message 2 b) < 2 ^ 64"
  shows "decode_fields (field_string 1 k @ field_message 2 b) = Value [1 \<mapsto> [FBytes (str_bytes k)], 2 \<mapsto> [FBytes b]]"
proof -
  let ?fs = "[PBytes 1 (str_bytes k), PBytes 2 b]"
  have w: "field_string 1 k @ field_message 2 b = concat (map wire_field ?fs)"
    by (simp add: field_string_wire field_message_wire)
  have "decode_fields (field_string 1 k @ field_message 2 b) = Value (table_of ?fs)"
    unfolding w by (rule decode_fields_wire) (use assms in \<open>simp only: w\<close>)
  moreover have "table_of ?fs = [1 \<mapsto> [FBytes (str_bytes k)], 2 \<mapsto> [FBytes b]]"
    by (rule ext) (simp add: table_of_def)
  ultimately show ?thesis by simp
qed

lemma packed_doubles_cons:
  "length c = 8 \<Longrightarrow> packed_doubles (c @ b) = le_to_word c # packed_doubles b"
  by (subst packed_doubles.simps) simp

lemma packed_doubles_concat: "packed_doubles (concat (map (word_to_le 8) ds)) = ds"
proof (induction ds)
  case Nil
  show ?case by (subst packed_doubles.simps) simp
next
  case (Cons d ds)
  have "le_to_word (word_to_le 8 d) = d" by (rule le_roundtrip) simp
  then show ?case using Cons by (simp add: packed_doubles_cons)
qed

text \<open>The embedding response a server sends: one message per vector, with its packed doubles.\<close>

definition embedding_message :: "u64 list \<Rightarrow> u8 list" where
  "embedding_message ds = field_bytes 1 (concat (map (word_to_le 8) ds))"

lemma embedding_read_back:
  assumes "length (embedding_message ds) < 2 ^ 64"
  shows "embedding_of (FBytes (embedding_message ds)) = Value ds"
proof -
  let ?b = "concat (map (word_to_le 8) ds)"
  have "decode_fields (concat (map wire_field [PBytes 1 ?b])) = Value (table_of [PBytes 1 ?b])"
    by (rule decode_fields_wire) (use assms in \<open>simp add: embedding_message_def\<close>)
  then have "decode_fields (embedding_message ds) = Value [1 \<mapsto> [FBytes ?b]]"
    by (simp add: embedding_message_def table_of_one)
  then show ?thesis by (simp add: field_values_def packed_doubles_concat)
qed

lemma field_bytes_longer: "length b \<le> length (field_bytes fn b)"
  by (simp add: field_bytes_def)

lemma embedding_messages_read_back:
  "\<forall>ds\<in>set es. length (embedding_message ds) < 2 ^ 64 \<Longrightarrow>
   embeddings_of (map (\<lambda>ds. FBytes (embedding_message ds)) es) = Value (filter (\<lambda>ds. ds \<noteq> []) es)"
  by (induction es) (simp_all add: embedding_read_back del: embedding_of.simps)

lemma embed_response_read_back:
  assumes "length (concat (map (\<lambda>ds. field_message 1 (embedding_message ds)) es)) < 2 ^ 64"
  shows "parse_bulk_embed_response (concat (map (\<lambda>ds. field_message 1 (embedding_message ds)) es)) =
     Value (filter (\<lambda>ds. ds \<noteq> []) es)"
proof -
  let ?d = "concat (map (\<lambda>ds. field_message 1 (embedding_message ds)) es)"
  let ?fs = "map (PBytes 1) (map embedding_message es)"
  have w: "?d = concat (map wire_field ?fs)" by (rule concat_field_messages)
  have d: "decode_fields ?d = Value (table_of ?fs)"
    unfolding w by (rule decode_fields_wire) (use assms in \<open>simp only: w\<close>)
  have "length (embedding_message ds) \<le> length ?d" if ds: "ds \<in> set es" for ds
  proof -
    obtain us vs where "es = us @ ds # vs" using split_list [OF ds] by blast
    then show ?thesis
      using field_bytes_longer [of "embedding_message ds" 1] by (simp add: field_message_def)
  qed
  then have small: "\<forall>ds\<in>set es. length (embedding_message ds) < 2 ^ 64"
    using assms by (meson le_less_trans)
  have "field_values 1 (table_of ?fs) = map (\<lambda>ds. FBytes (embedding_message ds)) es"
    by (cases "es = []") (simp add: table_of_def field_values_def, simp add: table_of_same field_values_def comp_def)
  then show ?thesis
    by (simp add: parse_bulk_embed_response_def d embedding_messages_read_back [OF small])
qed

end
