(* ===== verification/Connect.thy ===== *)
theory Connect
  imports Adapters Proto
begin

text \<open>
  What the two Connect adapters, Cursor and Windsurf, have in common: results that may be a panic, tool calls
  read from a message, embeddings, and the schema of an advertised tool.

  The codec panics on a length that wraps around the address space, and the release profile aborts on a
  panic, so a chat is a \<open>checked\<close> result.
\<close>

section \<open>Checked results\<close>

fun bind_checked :: "'a checked \<Rightarrow> ('a \<Rightarrow> 'b checked) \<Rightarrow> 'b checked" where
  "bind_checked (Value x) f = f x"
| "bind_checked Panics f = Panics"

fun collect :: "('a \<Rightarrow> 'b list checked) \<Rightarrow> 'a list \<Rightarrow> 'b list checked" where
  "collect f [] = Value []"
| "collect f (x # xs) = bind_checked (f x) (\<lambda>ys. bind_checked (collect f xs) (\<lambda>zs. Value (ys @ zs)))"

lemma collect_values: "(\<And>x. x \<in> set xs \<Longrightarrow> f x = Value (g x)) \<Longrightarrow> collect f xs = Value (concat (map g xs))"
  by (induction xs) simp_all

lemma collect_map: "(\<And>x. x \<in> set xs \<Longrightarrow> f (g x) = Value [h x]) \<Longrightarrow> collect f (map g xs) = Value (map h xs)"
  by (induction xs) simp_all

lemma collect_cong [fundef_cong]: "xs = ys \<Longrightarrow> (\<And>x. x \<in> set ys \<Longrightarrow> f x = g x) \<Longrightarrow> collect f xs = collect g ys"
  by (induction ys arbitrary: xs) auto

text \<open>
  A provider's chat is a plain result: an aborted process has none, and \<open>gone\<close> stands for what is left of it.
\<close>

definition or_gone :: "'a \<Rightarrow> 'a checked \<Rightarrow> 'a" where
  "or_gone gone c = (case c of Value x \<Rightarrow> x | Panics \<Rightarrow> gone)"

section \<open>Calls\<close>

definition first_string :: "u32 \<Rightarrow> fields \<Rightarrow> string" where
  "first_string k fs = (case field_values k fs of f # _ \<Rightarrow> field_as_string f | [] \<Rightarrow> [])"

text \<open>The call \<open>{1: id, 2: name, 3: arguments}\<close>; a nameless one is left out.\<close>

definition call_of_fields :: "fields \<Rightarrow> (string \<times> string \<times> string) list" where
  "call_of_fields fs =
     (if first_string 2 fs = [] then [] else [(first_string 1 fs, first_string 2 fs, first_string 3 fs)])"

definition read_call :: "field \<Rightarrow> (string \<times> string \<times> string) list checked" where
  "read_call raw =
     (case field_payload raw of
        None \<Rightarrow> Value []
      | Some b \<Rightarrow> bind_checked (decode_fields b) (\<lambda>fs. Value (call_of_fields fs)))"

type_synonym reply = "string \<times> tool_call list"

definition tool_call_from :: "serde \<Rightarrow> string \<times> string \<times> string \<Rightarrow> tool_call" where
  "tool_call_from sj c =
     (case c of (i, n, args) \<Rightarrow> \<lparr>tc_id = i, tc_name = n, tc_arguments = object_or_empty sj args\<rparr>)"

section \<open>Embeddings\<close>

record embedding_response =
  er_texts :: "string list"
  er_embeddings :: "u32 list list"
  er_provider :: string
  er_dimensions :: u32
  er_metadata :: metadata

definition default_embeddings :: "chat_ctx \<Rightarrow> string list \<Rightarrow> 'w \<Rightarrow> (error + embedding_response) \<times> 'w" where
  "default_embeddings cx texts w = (Inl (unsupported ''embeddings''), w)"

definition embedding_reply :: "string \<Rightarrow> string list \<Rightarrow> u32 list list \<Rightarrow> embedding_response" where
  "embedding_reply name texts vecs =
     \<lparr>er_texts = texts, er_embeddings = vecs, er_provider = name,
      er_dimensions = (case vecs of v # _ \<Rightarrow> of_nat (length v) | [] \<Rightarrow> 0), er_metadata = metadata_new\<rparr>"

section \<open>Messages a server writes\<close>

text \<open>The flag's first bit marks compression, the second the end of the stream.\<close>

definition frame_with :: "u8 \<Rightarrow> u8 list \<Rightarrow> u8 list" where
  "frame_with flag p = flag # word_to_be 4 (of_nat (length p) :: u32) @ p"

lemma frame_with_0: "frame_with 0 p = encode_frame p"
  by (simp add: frame_with_def encode_frame_def)

lemma next_frame_with:
  assumes "length p < 2 ^ 32" and "flag AND 1 = 0"
  shows "next_frame gunzip (frame_with flag p @ rest) = Some ((flag, p), rest)"
proof -
  let ?h = "word_to_be 4 (of_nat (length p) :: u32)"
  have h: "length ?h = 4" by simp
  have "be_to_word ?h = (of_nat (length p) :: u32)" by (rule be_roundtrip) simp
  moreover have "unat (of_nat (length p) :: u32) = length p"
    using assms(1) by (simp add: unat_of_nat take_bit_nat_eq_self)
  moreover have "take 4 (?h @ p @ rest) = ?h" by (simp add: h)
  moreover have "drop 4 (?h @ p @ rest) = p @ rest" by (simp add: h)
  ultimately show ?thesis
    using assms(2) by (simp add: next_frame_def frame_with_def Let_def h drop_Cons' numeral_eq_Suc)
qed

interpretation flagged: frame_codec "\<lambda>(flag, p). frame_with flag p" "next_frame gunzip"
    "\<lambda>(flag, p). flag AND 1 = 0 \<and> length p < 2 ^ 32" for gunzip
  by unfold_locales (auto simp: next_frame_with)

lemma decode_flagged:
  assumes "list_all (\<lambda>(flag, p). flag AND 1 = 0 \<and> length p < 2 ^ 32) fs"
  shows "decode_frames gunzip (concat (map (\<lambda>(flag, p). frame_with flag p) fs)) = fs"
proof -
  have "next_frame gunzip [] = None" by (simp add: next_frame_def)
  then have "decode_frames gunzip [] = []" by (simp add: decode_frames.simps)
  then show ?thesis
    using flagged.decode_sequence [of "decode_frames gunzip", OF decode_frames_next assms, of "[]"] by simp
qed

text \<open>A message is its fields; a reader gets their table back.\<close>

definition message_bytes :: "proto_field list \<Rightarrow> u8 list" where
  "message_bytes fs = concat (map wire_field fs)"

lemma message_bytes_simps [simp]:
  "message_bytes [] = []" "message_bytes (f # fs) = wire_field f @ message_bytes fs"
  "message_bytes (fs @ gs) = message_bytes fs @ message_bytes gs"
  by (simp_all add: message_bytes_def)

lemma decode_message_bytes: "length (message_bytes fs) < 2 ^ 64 \<Longrightarrow> decode_fields (message_bytes fs) = Value (table_of fs)"
  unfolding message_bytes_def by (rule decode_fields_wire)

text \<open>What a table holds under a number: the contents of the fields with that number, in order.\<close>

lemma field_values_table: "field_values k (table_of fs) = map field_content (filter (\<lambda>f. field_number f = k) fs)"
  by (simp add: field_values_def table_of_def split: list.split)

text \<open>A field is no longer than the message it is in.\<close>

lemma message_bytes_field:
  assumes "PBytes k b \<in> set fs"
  shows "length b \<le> length (message_bytes fs)"
proof -
  obtain us vs where "fs = us @ PBytes k b # vs" using split_list [OF assms] by blast
  then show ?thesis using field_bytes_longer [of b k] by simp
qed

lemma filter_same_number:
  "filter (\<lambda>f. field_number f = k) (map (\<lambda>x. PBytes j (g x)) xs) = (if k = j then map (\<lambda>x. PBytes j (g x)) xs else [])"
  by (induction xs) auto

lemma field_string_bytes: "field_string k s = wire_field (PBytes k (str_bytes s))"
  by (simp add: field_string_def)

definition call_bytes :: "string \<times> string \<times> string \<Rightarrow> u8 list" where
  "call_bytes c =
     (case c of (i, n, args) \<Rightarrow>
        message_bytes [PBytes 1 (str_bytes i), PBytes 2 (str_bytes n), PBytes 3 (str_bytes args)])"

definition call_ok :: "string \<times> string \<times> string \<Rightarrow> bool" where
  "call_ok c \<longleftrightarrow> (case c of (i, n, args) \<Rightarrow> n \<noteq> [] \<and> str_ok i \<and> str_ok n \<and> str_ok args)"

lemma read_call_bytes:
  assumes "length (call_bytes c) < 2 ^ 64" and "call_ok c"
  shows "read_call (FBytes (call_bytes c)) = Value [c]"
proof -
  obtain i n args where c: "c = (i, n, args)" by (cases c)
  have "decode_fields (call_bytes c) =
      Value (table_of [PBytes 1 (str_bytes i), PBytes 2 (str_bytes n), PBytes 3 (str_bytes args)])"
    using assms(1) unfolding c call_bytes_def prod.case by (rule decode_message_bytes)
  then show ?thesis
    using assms(2)
    by (simp add: read_call_def call_of_fields_def first_string_def field_values_table c call_ok_def from_utf8_lossy_str_bytes)
qed

end
