(* ===== verification/Windsurf.thy ===== *)
theory Windsurf
  imports Connect Auth
begin

text \<open>
  The Windsurf adapter (\<open>gravity-providers/src/windsurf/mod.rs\<close>): the Connect envelope of a request, the
  reader of the reply's frames, the embeddings and the provider.  SHA-256 and the decompressor are parameters.
\<close>

record connect_lib =
  cn_sha256 :: "u8 list \<Rightarrow> u8 list"
  cn_gunzip :: "u8 list \<Rightarrow> u8 list option"

definition windsurf_url :: string where
  "windsurf_url = ''https://server.codeium.com/exa.api_server_pb.ApiServerService/GetChatMessage''"

definition windsurf_embed_url :: string where
  "windsurf_embed_url = ''https://server.self-serve.windsurf.com/exa.api_server_pb.ApiServerService/GetEmbeddings''"

definition windsurf_caps :: provider_capabilities where
  "windsurf_caps =
     \<lparr>cap_provider = Windsurf, tool_support = ToolNative, structured_output = OutJsonInstruction,
      remote_session = SessNone, supports_system_prompt = True, supports_stateful_history = False,
      requires_remote_checkpoint = False, default_history_mode = Stateless, supports_image_generation = False\<rparr>"

definition windsurf_models :: "string list" where
  "windsurf_models = [''swe-1-6-fast'', ''swe-1-6'', ''kimi-k2-6'', ''devstral'']"

section \<open>Requests\<close>

definition device_fingerprint :: "connect_lib \<Rightarrow> string \<Rightarrow> string" where
  "device_fingerprint lib api_key = hex_of (cn_sha256 lib (str_bytes api_key))"

definition meta_bytes :: "connect_lib \<Rightarrow> string \<Rightarrow> string \<Rightarrow> u8 list" where
  "meta_bytes lib api_key jwt =
     field_string 1 ''windsurf'' @ field_string 2 ''1.48.2'' @ field_string 3 api_key @ field_string 4 ''en''
     @ field_string 7 ''2.0.61'' @ field_string 12 ''Windsurf'' @ field_string 21 jwt
     @ field_string 24 (device_fingerprint lib api_key)"

definition chat_source :: "message \<Rightarrow> u64" where
  "chat_source m = (case msg_role m of RAssistant \<Rightarrow> 2 | RTool \<Rightarrow> 4 | _ \<Rightarrow> 1)"

definition chat_call :: "serde \<Rightarrow> tool_call \<Rightarrow> u8 list" where
  "chat_call sj tc =
     field_string 1 (tc_id tc) @ field_string 2 (tc_name tc)
     @ field_string 3 (to_compact sj (JObject (tc_arguments tc)))"

definition chat_msg :: "serde \<Rightarrow> string \<Rightarrow> message \<Rightarrow> u8 list" where
  "chat_msg sj cascade_id m =
     field_string 1 cascade_id @ field_varint 2 (chat_source m) @ field_string 3 (text_of m)
     @ (case msg_tool_result m of None \<Rightarrow> [] | Some tr \<Rightarrow> field_string 7 (tr_tool_call_id tr))
     @ concat (map (\<lambda>tc. field_message 6 (chat_call sj tc)) (msg_tool_calls m))"

definition request_msg :: "serde \<Rightarrow> string \<Rightarrow> message \<Rightarrow> u8 list" where
  "request_msg sj cascade_id m =
     (if msg_role m = RSystem then field_string 2 (text_of m) else field_message 3 (chat_msg sj cascade_id m))"

definition chat_tool :: "serde \<Rightarrow> tool_definition \<Rightarrow> u8 list" where
  "chat_tool sj t =
     field_string 1 (td_name t) @ field_string 2 (td_description t)
     @ field_string 3 (to_compact sj (JObject
         (fold (\<lambda>(k, v). alist_put k v) (td_input_schema t)
            [(''$schema'', JString ''https://json-schema.org/draft/2020-12/schema'')])))"

definition system_field :: "string option \<Rightarrow> u8 list" where
  "system_field sp = (case sp of None \<Rightarrow> [] | Some s \<Rightarrow> if trim s = [] then [] else field_string 2 s)"

definition envelope_body ::
    "connect_lib \<Rightarrow> serde \<Rightarrow> string \<Rightarrow> string \<Rightarrow> message list \<Rightarrow> string option \<Rightarrow> tool_definition list \<Rightarrow> string \<Rightarrow> string
       \<Rightarrow> u8 list" where
  "envelope_body lib sj api_key jwt messages system_prompt tools model cascade_id =
     field_message 1 (meta_bytes lib api_key jwt) @ system_field system_prompt
     @ concat (map (request_msg sj cascade_id) messages)
     @ concat (map (\<lambda>t. field_message 10 (chat_tool sj t)) tools)
     @ field_varint 7 5 @ field_string 16 cascade_id @ field_string 21 model"

definition build_envelope ::
    "connect_lib \<Rightarrow> serde \<Rightarrow> string \<Rightarrow> string \<Rightarrow> message list \<Rightarrow> string option \<Rightarrow> tool_definition list \<Rightarrow> string \<Rightarrow> string
       \<Rightarrow> u8 list" where
  "build_envelope lib sj api_key jwt messages system_prompt tools model cascade_id =
     encode_frame (envelope_body lib sj api_key jwt messages system_prompt tools model cascade_id)"

definition windsurf_request :: "connect_lib \<Rightarrow> serde \<Rightarrow> 'w env \<Rightarrow> chat_ctx \<Rightarrow> 'w \<Rightarrow> http_request \<times> 'w" where
  "windsurf_request lib sj env cx w =
     (let rq = cx_request cx; jwt = (case secret_of (cx_account cx) ''jwt'' of Some j \<Rightarrow> j | None \<Rightarrow> [])
      in case env_uuid env w of
           (uuid, w') \<Rightarrow>
             (with_body (build_envelope lib sj (cx_secret cx) jwt (rq_messages rq) (rq_system_prompt rq) (rq_tools rq)
                           (mid_model (rq_model rq)) uuid)
                (with_headers
                   [(''content-type'', ''application/connect+proto''), (''connect-protocol-version'', ''1''),
                    (''authorization'', ''Bearer '' @ cx_secret cx),
                    (''user-agent'', ''connect-go/1.18.1 (go1.26.1)'')]
                   (request_from ''go_tls'' cx (request_post windsurf_url))), w'))"

section \<open>Replies\<close>

definition add_reply :: "reply \<Rightarrow> reply \<Rightarrow> reply" where
  "add_reply r s = (fst r @ fst s, snd r @ snd s)"

text \<open>A frame: its text tokens (field 3), and its calls (field 6); the end-of-stream frame is skipped.\<close>

definition windsurf_frame :: "serde \<Rightarrow> u8 \<times> u8 list \<Rightarrow> reply checked" where
  "windsurf_frame sj fr =
     (case fr of (flag, payload) \<Rightarrow>
        if flag AND 2 \<noteq> 0 then Value ([], [])
        else
          bind_checked (decode_fields payload) (\<lambda>fs.
            bind_checked (collect read_call (field_values 6 fs)) (\<lambda>calls.
              Value (concat (map field_as_string (field_values 3 fs)), map (tool_call_from sj) calls))))"

fun windsurf_frames :: "serde \<Rightarrow> (u8 \<times> u8 list) list \<Rightarrow> reply checked" where
  "windsurf_frames sj [] = Value ([], [])"
| "windsurf_frames sj (fr # frs) =
     bind_checked (windsurf_frame sj fr) (\<lambda>r. bind_checked (windsurf_frames sj frs) (\<lambda>s. Value (add_reply r s)))"

definition windsurf_read :: "connect_lib \<Rightarrow> serde \<Rightarrow> u8 list \<Rightarrow> reply checked" where
  "windsurf_read lib sj body = windsurf_frames sj (decode_frames (cn_gunzip lib) body)"

definition windsurf_chat ::
    "connect_lib \<Rightarrow> 'w net \<Rightarrow> 'w env \<Rightarrow> chat_ctx \<Rightarrow> 'w \<Rightarrow> (error + chat_response) checked \<times> 'w" where
  "windsurf_chat lib net env cx w =
     (case windsurf_request lib (nt_serde net) env cx w of
        (req, w1) \<Rightarrow>
          (case send_ok net
                  (\<lambda>resp. refused Windsurf ''windsurf_failed'' (rp_status resp)
                     (''Windsurf request failed (status '' @ dec_of (unat (rp_status resp)) @ '')'')) req w1 of
             (Inl e, w2) \<Rightarrow> (Value (Inl e), w2)
           | (Inr resp, w2) \<Rightarrow>
               (bind_checked (windsurf_read lib (nt_serde net) (rp_body resp))
                  (\<lambda>(s, calls). Value (Inr (stop_response cx (calls_message s calls)))), w2)))"

section \<open>Embeddings\<close>

definition embed_body :: "string list \<Rightarrow> u8 list" where
  "embed_body texts = field_message 1 (concat (map (field_string 1) texts) @ field_varint 2 1)"

definition windsurf_embed_request :: "chat_ctx \<Rightarrow> string list \<Rightarrow> http_request" where
  "windsurf_embed_request cx texts =
     with_body (0 # word_to_be 4 (of_nat (length (embed_body texts)) :: u32) @ embed_body texts)
       (with_headers
          [(''content-type'', ''application/grpc''), (''te'', ''trailers''),
           (''authorization'', ''Bearer '' @ cx_secret cx), (''accept-encoding'', ''identity''),
           (''user-agent'', ''connect-go/1.18.1 (go1.26.1)'')]
          (request_from ''go_tls'' cx (request_post windsurf_embed_url)))"

fun packed_floats :: "u8 list \<Rightarrow> u32 list" where
  "packed_floats b = (if length b < 4 then [] else le_to_word (take 4 b) # packed_floats (drop 4 b))"

declare packed_floats.simps [simp del]

definition read_vector :: "field \<Rightarrow> u32 list list checked" where
  "read_vector raw =
     (case field_payload raw of
        None \<Rightarrow> Value [[]]
      | Some b \<Rightarrow>
          bind_checked (decode_fields b)
            (\<lambda>fs. Value [packed_floats (concat (List.map_filter field_payload (field_values 1 fs)))]))"

text \<open>The loop over the frames; a frame that is cut off makes the slice panic.\<close>

function embed_frames :: "u8 list \<Rightarrow> u32 list list checked" where
  "embed_frames buf =
     (if length buf < 5 then Value []
      else
        (let flag = buf ! 0; len = unat (be_to_word (take 4 (drop 1 buf)) :: u32)
         in if flag = 0x80 \<or> len = 0 then embed_frames (drop (5 + len) buf)
            else if length buf < 5 + len then Panics
            else
              bind_checked (decode_fields (take len (drop 5 buf))) (\<lambda>fs.
                bind_checked (collect read_vector (field_values 1 fs)) (\<lambda>vs.
                  bind_checked (embed_frames (drop (5 + len) buf)) (\<lambda>rest. Value (vs @ rest))))))"
  by pat_completeness auto
termination by (relation "measure length") auto

declare embed_frames.simps [simp del]

definition windsurf_embeddings ::
    "'w net \<Rightarrow> chat_ctx \<Rightarrow> string list \<Rightarrow> 'w \<Rightarrow> (error + embedding_response) checked \<times> 'w" where
  "windsurf_embeddings net cx texts w =
     (if texts = [] then (Value (Inr (embedding_reply (provider_as_str Windsurf) [] [])), w)
      else
        (case send_ok net
                (\<lambda>resp. ProviderErr (provider_error_new Windsurf OtherKind ''windsurf_embed_failed''
                   (''Windsurf embeddings failed (status '' @ dec_of (unat (rp_status resp)) @ '')'')))
                (windsurf_embed_request cx texts) w of
           (Inl e, w') \<Rightarrow> (Value (Inl e), w')
         | (Inr resp, w') \<Rightarrow>
             (bind_checked (embed_frames (rp_body resp))
                (\<lambda>vecs. Value (Inr (embedding_reply (provider_as_str Windsurf) texts vecs))), w')))"

section \<open>The provider\<close>

definition windsurf_plain_chat ::
    "(error + chat_response) \<Rightarrow> connect_lib \<Rightarrow> 'w net \<Rightarrow> 'w env \<Rightarrow> chat_ctx \<Rightarrow> 'w \<Rightarrow> (error + chat_response) \<times> 'w" where
  "windsurf_plain_chat gone lib net env cx w =
     (case windsurf_chat lib net env cx w of (r, w') \<Rightarrow> (or_gone gone r, w'))"

definition windsurf_provider ::
    "(error + chat_response) \<Rightarrow> connect_lib \<Rightarrow> 'w net \<Rightarrow> 'w env \<Rightarrow> 'w provider" where
  "windsurf_provider gone lib net env =
     \<lparr>pv_capabilities = windsurf_caps, pv_list_models = windsurf_models,
      pv_discover_models = default_discover_models windsurf_models,
      pv_normalize_system_prompt = default_normalize_system_prompt,
      pv_open_checkpoint = default_open_checkpoint,
      pv_chat = windsurf_plain_chat gone lib net env,
      pv_chat_stream = default_chat_stream (windsurf_plain_chat gone lib net env),
      pv_authenticator = None\<rparr>"

section \<open>The request is read back\<close>

text \<open>What a server that reads with the same codec learns of a message.\<close>

record turn =
  tn_source :: "field list"
  tn_text :: string
  tn_result :: "field list"
  tn_calls :: "(string \<times> string \<times> string) list"

definition server_turn :: "field \<Rightarrow> turn list checked" where
  "server_turn raw =
     (case field_payload raw of
        None \<Rightarrow> Value []
      | Some b \<Rightarrow>
          bind_checked (decode_fields b) (\<lambda>fs.
            bind_checked (collect read_call (field_values 6 fs)) (\<lambda>calls.
              Value [\<lparr>tn_source = field_values 2 fs, tn_text = first_string 3 fs, tn_result = field_values 7 fs,
                      tn_calls = calls\<rparr>])))"

definition call_text :: "serde \<Rightarrow> tool_call \<Rightarrow> string \<times> string \<times> string" where
  "call_text sj tc = (tc_id tc, tc_name tc, to_compact sj (JObject (tc_arguments tc)))"

definition turn_of :: "serde \<Rightarrow> message \<Rightarrow> turn" where
  "turn_of sj m =
     \<lparr>tn_source = [FVarint (chat_source m)], tn_text = text_of m,
      tn_result = (case msg_tool_result m of None \<Rightarrow> [] | Some tr \<Rightarrow> [FBytes (str_bytes (tr_tool_call_id tr))]),
      tn_calls = map (call_text sj) (msg_tool_calls m)\<rparr>"

definition turn_ok :: "serde \<Rightarrow> message \<Rightarrow> bool" where
  "turn_ok sj m \<longleftrightarrow> str_ok (text_of m) \<and> list_all (\<lambda>tc. call_ok (call_text sj tc)) (msg_tool_calls m)"

lemma chat_call_bytes: "chat_call sj tc = call_bytes (call_text sj tc)"
  by (simp add: chat_call_def call_bytes_def call_text_def field_string_bytes)

definition chat_fields :: "serde \<Rightarrow> string \<Rightarrow> message \<Rightarrow> proto_field list" where
  "chat_fields sj cid m =
     [PBytes 1 (str_bytes cid), PVarint 2 (chat_source m), PBytes 3 (str_bytes (text_of m))]
     @ (case msg_tool_result m of None \<Rightarrow> [] | Some tr \<Rightarrow> [PBytes 7 (str_bytes (tr_tool_call_id tr))])
     @ map (\<lambda>tc. PBytes 6 (call_bytes (call_text sj tc))) (msg_tool_calls m)"

lemma chat_msg_fields: "chat_msg sj cid m = message_bytes (chat_fields sj cid m)"
proof -
  have "concat (map (\<lambda>tc. field_message 6 (chat_call sj tc)) cs) =
      message_bytes (map (\<lambda>tc. PBytes 6 (call_bytes (call_text sj tc))) cs)" for cs
    by (induction cs) (simp_all add: field_message_def chat_call_bytes)
  then show ?thesis
    by (simp add: chat_msg_def chat_fields_def field_string_bytes split: option.split)
qed

lemma server_turn_msg:
  assumes "length (chat_msg sj cid m) < 2 ^ 64" and "turn_ok sj m"
  shows "server_turn (FBytes (chat_msg sj cid m)) = Value [turn_of sj m]"
proof -
  let ?fs = "chat_fields sj cid m" and ?c = "\<lambda>tc. call_bytes (call_text sj tc)"
  have d: "decode_fields (chat_msg sj cid m) = Value (table_of ?fs)"
    using assms(1) unfolding chat_msg_fields by (rule decode_message_bytes)
  have "read_call (FBytes (?c tc)) = Value [call_text sj tc]" if tc: "tc \<in> set (msg_tool_calls m)" for tc
  proof (rule read_call_bytes)
    have "PBytes 6 (?c tc) \<in> set ?fs" using tc by (simp add: chat_fields_def)
    then show "length (?c tc) < 2 ^ 64" using message_bytes_field assms(1) unfolding chat_msg_fields by fastforce
    show "call_ok (call_text sj tc)" using tc assms(2) by (simp add: turn_ok_def list_all_iff)
  qed
  then have "collect read_call (map (\<lambda>tc. FBytes (?c tc)) (msg_tool_calls m)) = Value (map (call_text sj) (msg_tool_calls m))"
    by (rule collect_map)
  then show ?thesis
    using assms(2)
    by (simp add: server_turn_def d field_values_table chat_fields_def filter_same_number turn_of_def turn_ok_def comp_def
        first_string_def from_utf8_lossy_str_bytes split: option.split)
qed

definition envelope_fields ::
    "connect_lib \<Rightarrow> serde \<Rightarrow> string \<Rightarrow> string \<Rightarrow> message list \<Rightarrow> string option \<Rightarrow> tool_definition list \<Rightarrow> string \<Rightarrow> string
       \<Rightarrow> proto_field list" where
  "envelope_fields lib sj api_key jwt messages sp tools model cid =
     PBytes 1 (meta_bytes lib api_key jwt)
     # (case sp of None \<Rightarrow> [] | Some s \<Rightarrow> if trim s = [] then [] else [PBytes 2 (str_bytes s)])
     @ map (\<lambda>m. if msg_role m = RSystem then PBytes 2 (str_bytes (text_of m)) else PBytes 3 (chat_msg sj cid m)) messages
     @ map (\<lambda>t. PBytes 10 (chat_tool sj t)) tools
     @ [PVarint 7 5, PBytes 16 (str_bytes cid), PBytes 21 (str_bytes model)]"

lemma envelope_body_fields:
  "envelope_body lib sj api_key jwt messages sp tools model cid =
     message_bytes (envelope_fields lib sj api_key jwt messages sp tools model cid)"
proof -
  have "concat (map (request_msg sj cid) ms) =
      message_bytes (map (\<lambda>m. if msg_role m = RSystem then PBytes 2 (str_bytes (text_of m)) else PBytes 3 (chat_msg sj cid m)) ms)" for ms
    by (induction ms) (simp_all add: request_msg_def field_string_bytes field_message_def)
  moreover have "concat (map (\<lambda>t. field_message 10 (chat_tool sj t)) ts) =
      message_bytes (map (\<lambda>t. PBytes 10 (chat_tool sj t)) ts)" for ts
    by (induction ts) (simp_all add: field_message_def)
  ultimately show ?thesis
    by (simp add: envelope_body_def envelope_fields_def system_field_def field_string_bytes field_message_def
        split: option.split)
qed

lemma envelope_numbers:
  "map field_content (filter (\<lambda>f. field_number f = 3)
       (map (\<lambda>m. if msg_role m = RSystem then PBytes 2 (a m) else PBytes 3 (b m)) ms)) =
     map (\<lambda>m. FBytes (b m)) (filter (\<lambda>m. msg_role m \<noteq> RSystem) ms)"
  "k \<noteq> 2 \<Longrightarrow> k \<noteq> 3 \<Longrightarrow> filter (\<lambda>f. field_number f = k)
       (map (\<lambda>m. if msg_role m = RSystem then PBytes 2 (a m) else PBytes 3 (b m)) ms) = []"
  by (induction ms) auto

text \<open>
  C26.  The request is read back.  The envelope is one Connect frame (below 4 GiB), and a server that decodes it
  with the same codec gets the model, the cascade id and, for every message that is not a system message,
  in order: its source, its text, its tool calls with their arguments, and the id of its tool result.
\<close>

theorem windsurf_request_read_back:
  assumes "length (envelope_body lib sj api_key jwt messages sp tools model cid) < 2 ^ 32"
    and "list_all (turn_ok sj) messages" and "str_ok model" and "str_ok cid"
  shows "\<exists>body fs. decode_frames gunzip (build_envelope lib sj api_key jwt messages sp tools model cid) = [(0, body)]
    \<and> decode_fields body = Value fs \<and> first_string 21 fs = model \<and> first_string 16 fs = cid
    \<and> collect server_turn (field_values 3 fs) = Value (map (turn_of sj) (filter (\<lambda>m. msg_role m \<noteq> RSystem) messages))"
proof -
  let ?body = "envelope_body lib sj api_key jwt messages sp tools model cid"
  let ?fs = "envelope_fields lib sj api_key jwt messages sp tools model cid"
  have "decode_frames gunzip (build_envelope lib sj api_key jwt messages sp tools model cid) = [(0, ?body)]"
    using decode_flagged [of "[(0, ?body)]" gunzip] assms(1) by (simp add: build_envelope_def frame_with_0)
  moreover have "decode_fields ?body = Value (table_of ?fs)"
    unfolding envelope_body_fields by (rule decode_message_bytes) (use assms(1) in \<open>simp add: envelope_body_fields\<close>)
  moreover have "field_values 3 (table_of ?fs) =
      map (\<lambda>m. FBytes (chat_msg sj cid m)) (filter (\<lambda>m. msg_role m \<noteq> RSystem) messages)"
    by (simp add: field_values_table envelope_fields_def envelope_numbers filter_same_number split: option.split)
  moreover have "server_turn (FBytes (chat_msg sj cid m)) = Value [turn_of sj m]"
    if m: "m \<in> set (filter (\<lambda>m. msg_role m \<noteq> RSystem) messages)" for m
  proof (rule server_turn_msg)
    have "PBytes 3 (chat_msg sj cid m) \<in> set ?fs" using m by (auto simp: envelope_fields_def)
    from message_bytes_field [OF this] show "length (chat_msg sj cid m) < 2 ^ 64"
      using assms(1) unfolding envelope_body_fields by simp
    show "turn_ok sj m" using m assms(2) by (simp add: list_all_iff)
  qed
  then have "collect server_turn (map (\<lambda>m. FBytes (chat_msg sj cid m)) (filter (\<lambda>m. msg_role m \<noteq> RSystem) messages)) =
      Value (map (turn_of sj) (filter (\<lambda>m. msg_role m \<noteq> RSystem) messages))"
    by (rule collect_map)
  moreover have "first_string 21 (table_of ?fs) = model" "first_string 16 (table_of ?fs) = cid"
    using assms(3,4)
    by (simp_all add: first_string_def field_values_table envelope_fields_def envelope_numbers filter_same_number
        from_utf8_lossy_str_bytes split: option.split)
  ultimately show ?thesis by auto
qed

definition plain_lib :: connect_lib where
  "plain_lib = \<lparr>cn_sha256 = \<lambda>_. [], cn_gunzip = \<lambda>_. None\<rparr>"

definition windsurf_serde :: serde where
  "windsurf_serde =
     \<lparr>to_compact = \<lambda>_. ''{}'', to_pretty = \<lambda>_. ''{}'', from_text = \<lambda>_. None, stream_next = \<lambda>_. None,
      number_f64 = \<lambda>_. None\<rparr>"

definition sample_talk :: "message list" where
  "sample_talk =
     [message_system ''s'', message_user ''hi'',
      message_assistant_with_tools None [\<lparr>tc_id = ''1'', tc_name = ''f'', tc_arguments = []\<rparr>],
      message_tool_result \<lparr>tr_tool_call_id = ''1'', tr_name = ''f'', tr_content = JString ''42'', tr_is_error = False,
                           tr_structured = None\<rparr>]"

lemma windsurf_request_read_back_witness:
  "\<exists>body fs. decode_frames (cn_gunzip plain_lib)
        (build_envelope plain_lib windsurf_serde ''k'' ''j'' sample_talk None [] ''m'' ''c'') = [(0, body)]
    \<and> decode_fields body = Value fs \<and> first_string 21 fs = ''m''
    \<and> collect server_turn (field_values 3 fs) =
        Value [\<lparr>tn_source = [FVarint 1], tn_text = ''hi'', tn_result = [], tn_calls = []\<rparr>,
               \<lparr>tn_source = [FVarint 2], tn_text = [], tn_result = [], tn_calls = [(''1'', ''f'', ''{}'')]\<rparr>,
               \<lparr>tn_source = [FVarint 4], tn_text = [], tn_result = [FBytes (str_bytes ''1'')], tn_calls = []\<rparr>]"
proof -
  have "length (envelope_body plain_lib windsurf_serde ''k'' ''j'' sample_talk None [] ''m'' ''c'') < 200"
    by code_simp
  then have l: "length (envelope_body plain_lib windsurf_serde ''k'' ''j'' sample_talk None [] ''m'' ''c'') < 2 ^ 32"
    by (rule less_trans) simp
  have ok: "list_all (turn_ok windsurf_serde) sample_talk" "str_ok ''m''" "str_ok ''c''" by code_simp+
  have "map (turn_of windsurf_serde) (filter (\<lambda>m. msg_role m \<noteq> RSystem) sample_talk) =
        [\<lparr>tn_source = [FVarint 1], tn_text = ''hi'', tn_result = [], tn_calls = []\<rparr>,
         \<lparr>tn_source = [FVarint 2], tn_text = [], tn_result = [], tn_calls = [(''1'', ''f'', ''{}'')]\<rparr>,
         \<lparr>tn_source = [FVarint 4], tn_text = [], tn_result = [FBytes (str_bytes ''1'')], tn_calls = []\<rparr>]"
    by (simp add: sample_talk_def turn_of_def message_defs text_of_def chat_source_def call_text_def windsurf_serde_def)
  then show ?thesis
    using windsurf_request_read_back [OF l ok, of "cn_gunzip plain_lib"] by fastforce
qed

text \<open>
  What a tool answered is not sent: the message carries only the id of the call, so transcripts whose results
  differ make the same request.
\<close>

lemma windsurf_forgets_results:
  assumes "tr_tool_call_id r = tr_tool_call_id r'"
  shows "build_envelope lib sj key jwt (ms @ message_tool_result r # ns) sp tools model cid =
    build_envelope lib sj key jwt (ms @ message_tool_result r' # ns) sp tools model cid"
  using assms
  by (simp add: build_envelope_def envelope_body_def request_msg_def chat_msg_def message_defs text_of_def chat_source_def)

section \<open>The reply is put together\<close>

definition reply_payload :: "string list \<times> (string \<times> string \<times> string) list \<Rightarrow> u8 list" where
  "reply_payload r =
     message_bytes (map (\<lambda>t. PBytes 3 (str_bytes t)) (fst r) @ map (\<lambda>c. PBytes 6 (call_bytes c)) (snd r))"

definition payload_ok :: "string list \<times> (string \<times> string \<times> string) list \<Rightarrow> bool" where
  "payload_ok r \<longleftrightarrow> length (reply_payload r) < 2 ^ 32 \<and> list_all str_ok (fst r) \<and> list_all call_ok (snd r)"

lemma windsurf_frame_payload:
  assumes "payload_ok r"
  shows "windsurf_frame sj (0, reply_payload r) = Value (concat (fst r), map (tool_call_from sj) (snd r))"
proof -
  let ?fs = "map (\<lambda>t. PBytes 3 (str_bytes t)) (fst r) @ map (\<lambda>c. PBytes 6 (call_bytes c)) (snd r)"
  have len: "length (message_bytes ?fs) < 2 ^ 64" using assms by (simp add: payload_ok_def reply_payload_def)
  from decode_message_bytes [OF this] have d: "decode_fields (reply_payload r) = Value (table_of ?fs)"
    by (simp add: reply_payload_def)
  have "read_call (FBytes (call_bytes c)) = Value [c]" if c: "c \<in> set (snd r)" for c
  proof (rule read_call_bytes)
    have "PBytes 6 (call_bytes c) \<in> set ?fs" using c by simp
    from message_bytes_field [OF this] show "length (call_bytes c) < 2 ^ 64" using len by simp
    show "call_ok c" using c assms by (simp add: payload_ok_def list_all_iff)
  qed
  then have "collect read_call (map (\<lambda>c. FBytes (call_bytes c)) (snd r)) = Value (map (\<lambda>c. c) (snd r))"
    by (rule collect_map)
  moreover have "map (\<lambda>t. from_utf8_lossy (str_bytes t)) (fst r) = fst r"
    using assms by (simp add: payload_ok_def list_all_iff from_utf8_lossy_str_bytes map_idI)
  ultimately show ?thesis
    by (simp add: windsurf_frame_def d field_values_table filter_same_number comp_def)
qed

lemma windsurf_frames_payloads:
  "list_all payload_ok rs \<Longrightarrow>
   windsurf_frames sj (map (\<lambda>r. (0, reply_payload r)) rs @ [(2, t)]) =
     Value (concat (concat (map fst rs)), map (tool_call_from sj) (concat (map snd rs)))"
  by (induction rs) (simp_all add: windsurf_frame_payload add_reply_def windsurf_frame_def [of sj "(2, t)"])

text \<open>
  The reply is put together.  For a body of data frames (each below 4 GiB) and the end-of-stream frame with
  any trailer, the chat's text is the concatenation of all text tokens and its tool calls are all named
  calls, both in order over the frames, and the trailer adds nothing.
\<close>

theorem windsurf_reply_assembled:
  assumes "list_all payload_ok rs" and "length t < 2 ^ 32"
  shows "windsurf_read lib sj (concat (map (\<lambda>r. encode_frame (reply_payload r)) rs) @ frame_with 2 t) =
    Value (concat (concat (map fst rs)), map (tool_call_from sj) (concat (map snd rs)))"
proof -
  let ?fs = "map (\<lambda>r. (0, reply_payload r)) rs @ [(2, t)]"
  have "list_all (\<lambda>(flag :: u8, p). flag AND 1 = 0 \<and> length p < 2 ^ 32) ?fs"
    using assms by (simp add: list_all_iff payload_ok_def)
  from decode_flagged [OF this, of "cn_gunzip lib"] show ?thesis
    using windsurf_frames_payloads [OF assms(1), of sj t]
    by (simp add: windsurf_read_def comp_def frame_with_0)
qed

lemma windsurf_reply_assembled_witness:
  "windsurf_read plain_lib windsurf_serde
     (encode_frame (reply_payload ([''Hel'', ''l''], [])) @ encode_frame (reply_payload ([''o''], [(''1'', ''f'', ''x'')]))
      @ frame_with 2 [1, 2]) =
     Value (''Hello'', [\<lparr>tc_id = ''1'', tc_name = ''f'', tc_arguments = []\<rparr>])"
proof -
  have l: "length (reply_payload ([''Hel'', ''l''], [])) < 100 \<and> length (reply_payload ([''o''], [(''1'', ''f'', ''x'')])) < 100"
    by code_simp
  have ok: "list_all str_ok [''Hel'', ''l'', ''o''] \<and> call_ok (''1'', ''f'', ''x'')" by code_simp
  have "list_all payload_ok [([''Hel'', ''l''], []), ([''o''], [(''1'', ''f'', ''x'')])]"
    using l ok by (simp add: payload_ok_def)
  from windsurf_reply_assembled [OF this, of "[1, 2]" plain_lib windsurf_serde] show ?thesis
    by (simp add: tool_call_from_def object_or_empty_def windsurf_serde_def)
qed

text \<open>A length that wraps around makes the whole process abort, and so does an embedding frame that is cut off.\<close>

lemma windsurf_read_panics: "windsurf_read lib sj (encode_frame (0x0A # varint (- 1))) = Panics"
proof -
  have "length (varint (- 1 :: u64)) \<le> 10"
    using unsigned_less [of "- 1 :: u64"] by (intro length_varint) (auto elim: less_le_trans)
  then have "list_all (\<lambda>(flag :: u8, p). flag AND 1 = 0 \<and> length p < 2 ^ 32) [(0, 0x0A # varint (- 1))]" by simp
  from decode_flagged [OF this, of "cn_gunzip lib"] show ?thesis
    by (simp add: windsurf_read_def frame_with_0 windsurf_frame_def decode_fields_panics)
qed

lemma embed_frames_cut_off: "embed_frames [0, 0, 0, 0, 1] = Panics"
proof -
  have "unat (be_to_word [0, 0, 0, 1] :: u32) = 1" by code_simp
  then show ?thesis by (simp add: embed_frames.simps)
qed

end
