(* ===== verification/Cursor.thy ===== *)
theory Cursor
  imports Connect Floats Refresh
begin

text \<open>
  The Cursor adapter (\<open>gravity-providers/src/cursor/mod.rs\<close> and \<open>cursor/auth.rs\<close>): the inference request and its
  checksum, the reader of the reply's frames, model discovery, embeddings, sign-in and the provider.  Base64
  and the decompressor are parameters.
\<close>

record cursor_lib =
  cu_base64 :: "u8 list \<Rightarrow> string"
  cu_gunzip :: "u8 list \<Rightarrow> u8 list option"

definition cursor_caps :: provider_capabilities where
  "cursor_caps =
     \<lparr>cap_provider = Cursor, tool_support = ToolNative, structured_output = OutNone,
      remote_session = SessNone, supports_system_prompt = True, supports_stateful_history = False,
      requires_remote_checkpoint = False, default_history_mode = Stateless, supports_image_generation = False\<rparr>"

definition cursor_models :: "string list" where
  "cursor_models = [''claude-4.5-sonnet'', ''gpt-5'', ''auto'']"

section \<open>The checksum\<close>

text \<open>Each byte is combined with the one before it and with its position.\<close>

fun scramble :: "u8 \<Rightarrow> u8 \<Rightarrow> u8 list \<Rightarrow> u8 list" where
  "scramble e i [] = []"
| "scramble e i (b # bs) = (let x = (b XOR e) + i in x # scramble x (i + 1) bs)"

definition stamp_bytes :: "u64 \<Rightarrow> u8 list" where
  "stamp_bytes t =
     [ucast (drop_bit 40 t), ucast (drop_bit 32 t), ucast (drop_bit 24 t), ucast (drop_bit 16 t),
      ucast (drop_bit 8 t), ucast t]"

definition checksum_prefix :: "cursor_lib \<Rightarrow> 'w env \<Rightarrow> 'w \<Rightarrow> string \<times> 'w" where
  "checksum_prefix lib env w =
     (case ev_now_millis env w of (now, w') \<Rightarrow> (cu_base64 lib (scramble 165 0 (stamp_bytes (now div 1000000))), w'))"

definition cursor_checksum :: "cursor_lib \<Rightarrow> 'w env \<Rightarrow> chat_ctx \<Rightarrow> 'w \<Rightarrow> string \<times> 'w" where
  "cursor_checksum lib env cx w =
     (let a = cx_account cx
      in case (case secret_of a ''machine_id'' of Some i \<Rightarrow> (i, w) | None \<Rightarrow> env_uuid env w) of
           (machine_id, w1) \<Rightarrow>
             (case secret_of a ''checksum'' of
                Some c \<Rightarrow> (c, w1)
              | None \<Rightarrow>
                  (case checksum_prefix lib env w1 of
                     (pre, w2) \<Rightarrow>
                       (case secret_of a ''mac_machine_id'' of
                          Some mac \<Rightarrow> (pre @ machine_id @ ''/'' @ mac, w2)
                        | None \<Rightarrow> (pre @ machine_id, w2)))))"

section \<open>Requests\<close>

definition core_role :: "message \<Rightarrow> u64" where
  "core_role m = (case msg_role m of RSystem \<Rightarrow> 4 | RAssistant \<Rightarrow> 2 | RTool \<Rightarrow> 3 | RUser \<Rightarrow> 1)"

definition core_result :: "serde \<Rightarrow> tool_result \<Rightarrow> u8 list" where
  "core_result sj tr =
     field_string 1 (tr_tool_call_id tr) @ field_string 2 (tr_name tr) @ field_message 3 (encode_value sj (tr_content tr))"

definition core_call :: "serde \<Rightarrow> tool_call \<Rightarrow> u8 list" where
  "core_call sj tc =
     field_string 1 (tc_id tc) @ field_string 2 (tc_name tc) @ field_message 3 (encode_struct sj (tc_arguments tc))"

definition message_core :: "serde \<Rightarrow> message \<Rightarrow> u8 list" where
  "message_core sj m =
     field_varint 1 (core_role m)
     @ (if msg_role m = RTool
        then (case msg_tool_result m of None \<Rightarrow> [] | Some tr \<Rightarrow> field_message 6 (field_message 1 (core_result sj tr)))
        else
          (if text_of m = [] then [] else field_string 2 (text_of m))
          @ (if msg_role m = RAssistant
             then concat (map (\<lambda>tc. field_message 4 (core_call sj tc)) (msg_tool_calls m)) else []))"

definition agent_tool :: "serde \<Rightarrow> tool_definition \<Rightarrow> u8 list" where
  "agent_tool sj t =
     field_string 1 (td_name t) @ (if td_description t = [] then [] else field_string 2 (td_description t))
     @ field_message 3 (encode_struct sj
         (fold (\<lambda>(k, v). alist_put k v) (td_input_schema t) [(''type'', JString ''object'')]))"

definition system_core :: "string option \<Rightarrow> u8 list" where
  "system_core sp =
     (case sp of
        None \<Rightarrow> []
      | Some s \<Rightarrow> if trim s = [] then [] else field_message 1 (field_varint 1 4 @ field_string 2 s))"

definition build_inference_request ::
    "serde \<Rightarrow> message list \<Rightarrow> string option \<Rightarrow> tool_definition list \<Rightarrow> string \<Rightarrow> string \<Rightarrow> u8 list" where
  "build_inference_request sj messages system_prompt tools model conversation_id =
     system_core system_prompt
     @ concat (map (\<lambda>m. field_message 1 (message_core sj m)) messages)
     @ concat (map (\<lambda>t. field_message 2 (agent_tool sj t)) tools)
     @ field_message 7 (field_string 1 model) @ field_string 8 conversation_id"

definition cursor_request :: "cursor_lib \<Rightarrow> serde \<Rightarrow> 'w env \<Rightarrow> chat_ctx \<Rightarrow> 'w \<Rightarrow> http_request \<times> 'w" where
  "cursor_request lib sj env cx w =
     (let rq = cx_request cx;
          (conv, w1) = env_uuid env w;
          framed = encode_frame (build_inference_request sj (rq_messages rq) (rq_system_prompt rq) (rq_tools rq)
                                   (mid_model (rq_model rq)) conv);
          (checksum, w2) = cursor_checksum lib env cx w1;
          (session, w3) = env_uuid env w2
      in (with_body framed
            (with_headers
               [(''content-type'', ''application/connect+proto''), (''connect-protocol-version'', ''1''),
                (''authorization'', ''Bearer '' @ cx_secret cx), (''x-cursor-checksum'', checksum),
                (''x-cursor-client-version'', ''3.1.17''), (''x-cursor-client-type'', ''ide''),
                (''x-session-id'', session), (''user-agent'', ''Cursor/1.0.0'')]
               (request_from ''chrome'' cx
                 (request_post ''https://api2.cursor.sh/aiserver.v1.InferenceService/Stream''))), w3))"

section \<open>Replies\<close>

datatype inference_event = IText string | IToolCall "string \<times> string \<times> string" | IError string

definition text_event :: "field \<Rightarrow> inference_event list checked" where
  "text_event raw =
     (case field_payload raw of
        None \<Rightarrow> Value []
      | Some b \<Rightarrow>
          bind_checked (decode_fields b)
            (\<lambda>fs. Value (if first_string 1 fs = [] then [] else [IText (first_string 1 fs)])))"

definition call_event :: "field \<Rightarrow> inference_event list checked" where
  "call_event raw = bind_checked (read_call raw) (\<lambda>cs. Value (map IToolCall cs))"

text \<open>An error's message is nested, or else the field itself.\<close>

definition error_event :: "field \<Rightarrow> inference_event list checked" where
  "error_event raw =
     (case field_payload raw of
        None \<Rightarrow> Value [IError (field_as_string raw)]
      | Some b \<Rightarrow>
          bind_checked (decode_fields b)
            (\<lambda>fs. Value [IError (case field_values 2 fs of f # _ \<Rightarrow> field_as_string f | [] \<Rightarrow> field_as_string raw)]))"

definition parse_inference_frame :: "u8 list \<Rightarrow> inference_event list checked" where
  "parse_inference_frame payload =
     bind_checked (decode_fields payload) (\<lambda>fs.
       bind_checked (collect text_event (field_values 1 fs)) (\<lambda>ts.
         bind_checked (collect call_event (field_values 2 fs)) (\<lambda>cs.
           bind_checked (collect error_event (field_values 8 fs)) (\<lambda>es. Value (ts @ cs @ es)))))"

fun apply_events :: "serde \<Rightarrow> inference_event list \<Rightarrow> reply \<Rightarrow> error + reply" where
  "apply_events sj [] r = Inr r"
| "apply_events sj (IText t # evs) r = apply_events sj evs (fst r @ t, snd r)"
| "apply_events sj (IToolCall c # evs) r = apply_events sj evs (fst r, snd r @ [tool_call_from sj c])"
| "apply_events sj (IError msg # evs) r = Inl (ProviderErr (provider_error_new Cursor OtherKind ''cursor_stream_error'' msg))"

fun cursor_frames :: "serde \<Rightarrow> (u8 \<times> u8 list) list \<Rightarrow> reply \<Rightarrow> (error + reply) checked" where
  "cursor_frames sj [] r = Value (Inr r)"
| "cursor_frames sj ((flag, payload) # frs) r =
     (if flag AND 2 \<noteq> 0 then cursor_frames sj frs r
      else bind_checked (parse_inference_frame payload)
             (\<lambda>evs. case apply_events sj evs r of
                Inl e \<Rightarrow> Value (Inl e)
              | Inr r' \<Rightarrow> cursor_frames sj frs r'))"

definition cursor_read :: "cursor_lib \<Rightarrow> serde \<Rightarrow> u8 list \<Rightarrow> (error + reply) checked" where
  "cursor_read lib sj body = cursor_frames sj (decode_frames (cu_gunzip lib) body) ([], [])"

definition cursor_chat ::
    "cursor_lib \<Rightarrow> 'w net \<Rightarrow> 'w env \<Rightarrow> chat_ctx \<Rightarrow> 'w \<Rightarrow> (error + chat_response) checked \<times> 'w" where
  "cursor_chat lib net env cx w =
     (case cursor_request lib (nt_serde net) env cx w of
        (req, w1) \<Rightarrow>
          (case send_ok net
                  (\<lambda>resp. refused Cursor ''cursor_failed'' (rp_status resp)
                     (''Cursor request failed (status '' @ dec_of (unat (rp_status resp)) @ '')'')) req w1 of
             (Inl e, w2) \<Rightarrow> (Value (Inl e), w2)
           | (Inr resp, w2) \<Rightarrow>
               (bind_checked (cursor_read lib (nt_serde net) (rp_body resp))
                  (\<lambda>r. Value (case r of
                      Inl e \<Rightarrow> Inl e
                    | Inr (s, calls) \<Rightarrow> Inr (stop_response cx (calls_message s calls)))), w2)))"

section \<open>Models and embeddings\<close>

definition model_name :: "field \<Rightarrow> string list checked" where
  "model_name raw =
     (case field_payload raw of
        None \<Rightarrow> Value []
      | Some b \<Rightarrow>
          bind_checked (decode_fields b)
            (\<lambda>fs. Value (case field_values 1 fs of
                FBytes nb # _ \<Rightarrow>
                  (case from_utf8 nb of Some name \<Rightarrow> if name = [] then [] else [name] | None \<Rightarrow> [])
              | _ \<Rightarrow> [])))"

definition models_request :: "chat_ctx \<Rightarrow> string \<Rightarrow> http_request" where
  "models_request cx checksum =
     with_body []
       (with_headers
          [(''content-type'', ''application/proto''), (''connect-protocol-version'', ''1''),
           (''authorization'', ''Bearer '' @ cx_secret cx), (''x-cursor-checksum'', checksum),
           (''x-cursor-client-version'', ''3.1.17''), (''x-cursor-client-type'', ''ide''),
           (''user-agent'', ''Cursor/1.0.0'')]
          (request_from ''chrome'' cx
            (request_post ''https://api2.cursor.sh/aiserver.v1.AiService/GetUsableModels'')))"

definition cursor_discover_models ::
    "cursor_lib \<Rightarrow> 'w net \<Rightarrow> 'w env \<Rightarrow> chat_ctx \<Rightarrow> 'w \<Rightarrow> (error + model_info list) checked \<times> 'w" where
  "cursor_discover_models lib net env cx w =
     (let fallback = map model_info_bare cursor_models
      in if cx_secret cx = [] then (Value (Inr fallback), w)
         else
           (case cursor_checksum lib env cx w of
              (checksum, w1) \<Rightarrow>
                (case nt_send net (models_request cx checksum) w1 of
                   (Inl e, w2) \<Rightarrow> (Value (Inr fallback), w2)
                 | (Inr resp, w2) \<Rightarrow>
                     (if \<not> is_success resp then Value (Inr fallback)
                      else
                        bind_checked (decode_fields (rp_body resp)) (\<lambda>fs.
                          bind_checked (collect model_name (field_values 1 fs)) (\<lambda>names.
                            Value (Inr (if names = [] then fallback else map model_info_bare names)))), w2))))"

definition cursor_embed_request :: "chat_ctx \<Rightarrow> string list \<Rightarrow> http_request" where
  "cursor_embed_request cx texts =
     with_body (build_bulk_embed_request texts)
       (with_headers
          [(''content-type'', ''application/proto''), (''authorization'', ''Bearer '' @ cx_secret cx),
           (''x-cursor-client-version'', ''0.50.0''), (''x-cursor-client-type'', ''ide'')]
          (request_from ''go_tls'' cx (request_post ''https://api2.cursor.sh/aiserver.v1.AiService/BulkEmbed'')))"

definition cursor_embeddings ::
    "'w net \<Rightarrow> chat_ctx \<Rightarrow> string list \<Rightarrow> 'w \<Rightarrow> (error + embedding_response) checked \<times> 'w" where
  "cursor_embeddings net cx texts w =
     (if texts = [] then (Value (Inr (embedding_reply (provider_as_str Cursor) [] [])), w)
      else
        (case send_ok net
                (\<lambda>resp. ProviderErr (provider_error_new Cursor OtherKind ''cursor_embed_failed''
                   (''Cursor embeddings failed (status '' @ dec_of (unat (rp_status resp)) @ '')'')))
                (cursor_embed_request cx texts) w of
           (Inl e, w') \<Rightarrow> (Value (Inl e), w')
         | (Inr resp, w') \<Rightarrow>
             (bind_checked (parse_bulk_embed_response (rp_body resp))
                (\<lambda>vecs. Value (Inr (embedding_reply (provider_as_str Cursor) texts (map (map f64_to_f32) vecs)))), w')))"

section \<open>Sign-in\<close>

definition cursor_validate :: "provider_account \<Rightarrow> 'w \<Rightarrow> (error + bool) \<times> 'w" where
  "cursor_validate a w = (Inr (present (secret_of a ''api_key'')), w)"

definition cursor_token_request :: "serde \<Rightarrow> string option \<Rightarrow> string \<Rightarrow> string \<Rightarrow> http_request" where
  "cursor_token_request sj proxy rt domain =
     with_body (str_bytes (to_compact sj
         (JObject [(''grant_type'', JString ''refresh_token''), (''client_id'', JString ''KbZUR41cY7W6zRSdpSUJ7I7mLYBKOCmB''),
                   (''refresh_token'', JString rt)])))
       (with_proxy proxy
         (with_header ''user-agent'' ''Mozilla/5.0 (compatible; CursorAuth/1.0)''
           (with_header ''content-type'' ''application/json''
             (with_profile Chrome (request_post (''https://'' @ domain @ ''/oauth/token''))))))"

definition try_refresh :: "'w net \<Rightarrow> string option \<Rightarrow> string \<Rightarrow> string \<Rightarrow> 'w \<Rightarrow> (string \<times> string) option \<times> 'w" where
  "try_refresh net proxy rt domain w =
     (case nt_send net (cursor_token_request (nt_serde net) proxy rt domain) w of
        (Inl e, w') \<Rightarrow> (None, w')
      | (Inr resp, w') \<Rightarrow>
          (if rp_status resp \<noteq> 200 then None
           else
             (case value_of_bytes (nt_serde net) (rp_body resp) of
                None \<Rightarrow> None
              | Some data \<Rightarrow>
                  (case Option.bind (either_field data ''access_token'' ''accessToken'') as_str of
                     None \<Rightarrow> None
                   | Some access \<Rightarrow>
                       Some (access, case Option.bind (either_field data ''refresh_token'' ''refreshToken'') as_str of
                                       Some r \<Rightarrow> r | None \<Rightarrow> rt))), w'))"

fun try_domains :: "'w net \<Rightarrow> string option \<Rightarrow> string \<Rightarrow> string list \<Rightarrow> 'w \<Rightarrow> (string \<times> string) option \<times> 'w" where
  "try_domains net proxy rt [] w = (None, w)"
| "try_domains net proxy rt (d # ds) w =
     (case try_refresh net proxy rt d w of
        (Some r, w') \<Rightarrow> (Some r, w')
      | (None, w') \<Rightarrow> try_domains net proxy rt ds w')"

definition cursor_refresh ::
    "'w oauth \<Rightarrow> provider_account \<Rightarrow> 'w \<Rightarrow> (error + unit) \<times> provider_account \<times> 'w" where
  "cursor_refresh oa a w =
     (case secret_of a ''refresh_token'' of
        None \<Rightarrow> (Inl (Configuration ''Cursor: no refresh_token stored''), a, w)
      | Some rt \<Rightarrow>
          (case try_domains (oa_net oa) (tp_proxy_url (pa_transport a)) rt
                  [''authentication.cursor.sh'', ''prod.authentication.cursor.sh''] w of
             (Some (access, new_rt), w') \<Rightarrow>
               (Inr (), set_extra ''refresh_token'' (JString new_rt) (set_extra ''api_key'' (JString access) a), w')
           | (None, w') \<Rightarrow>
               (Inl (ProviderErr (provider_error_new Cursor Authentication ''cursor_refresh_failed''
                  ''Cursor token refresh failed on all endpoints'')), a, w')))"

definition cursor_authenticator :: "'w oauth \<Rightarrow> 'w authenticator" where
  "cursor_authenticator oa = \<lparr>at_validate = cursor_validate, at_refresh = cursor_refresh oa\<rparr>"

lemma cursor_refresh_ok:
  assumes "cursor_refresh oa a w = (Inr u, a', w')"
  shows "same_but_extra a a' \<and> secret_of a' ''api_key'' \<noteq> None \<and> refreshable a \<and> refreshable a'"
  using assms by (auto simp: cursor_refresh_def refreshable_def split: option.splits prod.splits)

lemma cursor_refresh_fails: "cursor_refresh oa a w = (Inl e, a', w') \<Longrightarrow> a' = a"
  by (auto simp: cursor_refresh_def split: option.splits prod.splits)

interpretation cursor: token_refresher "cursor_refresh oa" for oa
  by unfold_locales (blast dest: cursor_refresh_ok cursor_refresh_fails)+

section \<open>The provider\<close>

definition cursor_plain_chat ::
    "(error + chat_response) \<Rightarrow> cursor_lib \<Rightarrow> 'w net \<Rightarrow> 'w env \<Rightarrow> chat_ctx \<Rightarrow> 'w \<Rightarrow> (error + chat_response) \<times> 'w" where
  "cursor_plain_chat gone lib net env cx w =
     (case cursor_chat lib net env cx w of (r, w') \<Rightarrow> (or_gone gone r, w'))"

definition cursor_provider ::
    "(error + chat_response) \<Rightarrow> (error + model_info list) \<Rightarrow> cursor_lib \<Rightarrow> 'w net \<Rightarrow> 'w env \<Rightarrow> 'w oauth \<Rightarrow> 'w provider" where
  "cursor_provider gone gone_models lib net env oa =
     \<lparr>pv_capabilities = cursor_caps, pv_list_models = cursor_models,
      pv_discover_models =
        (\<lambda>cx w. case cursor_discover_models lib net env cx w of (r, w') \<Rightarrow> (or_gone gone_models r, w')),
      pv_normalize_system_prompt = default_normalize_system_prompt,
      pv_open_checkpoint = default_open_checkpoint,
      pv_chat = cursor_plain_chat gone lib net env,
      pv_chat_stream = default_chat_stream (cursor_plain_chat gone lib net env),
      pv_authenticator = Some (cursor_authenticator oa)\<rparr>"

section \<open>The checksum can be undone\<close>

text \<open>The reader's side: every byte of the stamp is recovered from the one before it.\<close>

fun unscramble :: "u8 \<Rightarrow> u8 \<Rightarrow> u8 list \<Rightarrow> u8 list" where
  "unscramble e i [] = []"
| "unscramble e i (x # xs) = ((x - i) XOR e) # unscramble x (i + 1) xs"

lemma unscramble_scramble: "unscramble e i (scramble e i bs) = bs"
  by (induction bs arbitrary: e i) (simp_all add: Let_def xor.assoc)

lemma scramble_inj: "scramble e i bs = scramble e i cs \<Longrightarrow> bs = cs"
  by (metis unscramble_scramble)

section \<open>The reply is read\<close>

fun event_payload :: "inference_event \<Rightarrow> u8 list" where
  "event_payload (IText t) = message_bytes [PBytes 1 (message_bytes [PBytes 1 (str_bytes t)])]"
| "event_payload (IToolCall c) = message_bytes [PBytes 2 (call_bytes c)]"
| "event_payload (IError m) = message_bytes [PBytes 8 (message_bytes [PBytes 2 (str_bytes m)])]"

fun event_ok :: "inference_event \<Rightarrow> bool" where
  "event_ok (IText t) \<longleftrightarrow> t \<noteq> [] \<and> str_ok t"
| "event_ok (IToolCall c) \<longleftrightarrow> call_ok c"
| "event_ok (IError m) \<longleftrightarrow> str_ok m"

lemma one_field:
  assumes "length (message_bytes [PBytes k b]) < 2 ^ 64"
  shows "decode_fields (message_bytes [PBytes k b]) = Value (table_of [PBytes k b])" and "length b < 2 ^ 64"
proof -
  show "decode_fields (message_bytes [PBytes k b]) = Value (table_of [PBytes k b])"
    by (rule decode_message_bytes [OF assms])
  have "length b \<le> length (message_bytes [PBytes k b])" by (rule message_bytes_field) simp
  then show "length b < 2 ^ 64" using assms by simp
qed

lemma values_one: "field_values j (table_of [PBytes k b]) = (if j = k then [FBytes b] else [])"
  by (simp add: field_values_table)

lemma parse_event_payload:
  assumes "length (event_payload ev) < 2 ^ 64" and "event_ok ev"
  shows "parse_inference_frame (event_payload ev) = Value [ev]"
proof (cases ev)
  case (IText t)
  let ?b = "message_bytes [PBytes 1 (str_bytes t)]"
  note outer = one_field [of 1 ?b]
  have len: "length (message_bytes [PBytes 1 ?b]) < 2 ^ 64" using assms(1) IText by simp
  show ?thesis
    using outer(1) [OF len] one_field(1) [OF outer(2) [OF len]] assms(2) IText
    by (simp only: event_payload.simps parse_inference_frame_def bind_checked.simps values_one)
      (simp add: text_event_def values_one first_string_def from_utf8_lossy_str_bytes del: message_bytes_simps)
next
  case (IToolCall c)
  note outer = one_field [of 2 "call_bytes c"]
  have len: "length (message_bytes [PBytes 2 (call_bytes c)]) < 2 ^ 64" using assms(1) IToolCall by simp
  have ok: "call_ok c" using assms(2) IToolCall by simp
  show ?thesis
    using outer(1) [OF len] read_call_bytes [OF outer(2) [OF len] ok] IToolCall
    by (simp only: event_payload.simps parse_inference_frame_def bind_checked.simps values_one)
      (simp add: call_event_def del: message_bytes_simps)
next
  case (IError m)
  let ?b = "message_bytes [PBytes 2 (str_bytes m)]"
  note outer = one_field [of 8 ?b]
  have len: "length (message_bytes [PBytes 8 ?b]) < 2 ^ 64" using assms(1) IError by simp
  show ?thesis
    using outer(1) [OF len] one_field(1) [OF outer(2) [OF len]] assms(2) IError
    by (simp only: event_payload.simps parse_inference_frame_def bind_checked.simps values_one)
      (simp add: error_event_def values_one from_utf8_lossy_str_bytes del: message_bytes_simps)
qed

lemma cursor_frames_events:
  "list_all (\<lambda>ev. event_ok ev \<and> length (event_payload ev) < 2 ^ 32) evs \<Longrightarrow>
   cursor_frames sj (map (\<lambda>ev. (0, event_payload ev)) evs @ [(2, t)]) r = Value (apply_events sj evs r)"
proof (induction evs arbitrary: r)
  case (Cons ev evs)
  then have "parse_inference_frame (event_payload ev) = Value [ev]" by (intro parse_event_payload) simp_all
  then show ?case using Cons by (cases ev) (simp_all del: event_payload.simps)
qed simp

fun is_ierror :: "inference_event \<Rightarrow> bool" where
  "is_ierror (IError m) = True"
| "is_ierror _ = False"

fun event_text :: "inference_event \<Rightarrow> string" where
  "event_text (IText t) = t"
| "event_text _ = []"

fun event_call :: "inference_event \<Rightarrow> (string \<times> string \<times> string) option" where
  "event_call (IToolCall c) = Some c"
| "event_call _ = None"

lemma apply_events_eq:
  "apply_events sj evs r =
     (case find is_ierror evs of
        Some (IError m) \<Rightarrow> Inl (ProviderErr (provider_error_new Cursor OtherKind ''cursor_stream_error'' m))
      | _ \<Rightarrow> Inr (fst r @ concat (map event_text evs), snd r @ map (tool_call_from sj) (List.map_filter event_call evs)))"
  by (induction sj evs r rule: apply_events.induct) (simp_all add: List.map_filter_simps split: option.split inference_event.split)

text \<open>
  The reply is the stream's events.  For a body of frames that carry text, tool calls and errors, ended by
  a trailer frame, the reply has all text and all calls in order when no frame is an error; otherwise it is
  the first error, and nothing of the rest is returned.
\<close>

theorem cursor_reply_assembled:
  assumes "list_all (\<lambda>ev. event_ok ev \<and> length (event_payload ev) < 2 ^ 32) evs" and "length t < 2 ^ 32"
  shows "cursor_read lib sj (concat (map (\<lambda>ev. encode_frame (event_payload ev)) evs) @ frame_with 2 t) =
    Value (case find is_ierror evs of
        Some (IError m) \<Rightarrow> Inl (ProviderErr (provider_error_new Cursor OtherKind ''cursor_stream_error'' m))
      | _ \<Rightarrow> Inr (concat (map event_text evs), map (tool_call_from sj) (List.map_filter event_call evs)))"
proof -
  let ?fs = "map (\<lambda>ev. (0, event_payload ev)) evs @ [(2, t)]"
  have "list_all (\<lambda>(flag :: u8, p). flag AND 1 = 0 \<and> length p < 2 ^ 32) ?fs"
    using assms by (simp add: list_all_iff)
  from decode_flagged [OF this, of "cu_gunzip lib"] show ?thesis
    using cursor_frames_events [OF assms(1), of sj t "([], [])"]
    unfolding apply_events_eq fst_conv snd_conv append_Nil
    by (simp add: cursor_read_def comp_def frame_with_0)
qed

definition plain_cursor :: cursor_lib where
  "plain_cursor = \<lparr>cu_base64 = \<lambda>_. [], cu_gunzip = \<lambda>_. None\<rparr>"

definition cursor_serde :: serde where
  "cursor_serde =
     \<lparr>to_compact = \<lambda>_. ''{}'', to_pretty = \<lambda>_. ''{}'', from_text = \<lambda>_. None, stream_next = \<lambda>_. None,
      number_f64 = \<lambda>_. None\<rparr>"

lemma cursor_reply_assembled_witness:
  "cursor_read plain_cursor cursor_serde
     (encode_frame (event_payload (IText ''Hel'')) @ encode_frame (event_payload (IToolCall (''1'', ''f'', ''x'')))
      @ encode_frame (event_payload (IText ''lo'')) @ frame_with 2 [1]) =
     Value (Inr (''Hello'', [\<lparr>tc_id = ''1'', tc_name = ''f'', tc_arguments = []\<rparr>]))
   \<and> cursor_read plain_cursor cursor_serde
     (encode_frame (event_payload (IText ''Hel'')) @ encode_frame (event_payload (IError ''limit'')) @ frame_with 2 []) =
     Value (Inl (ProviderErr (provider_error_new Cursor OtherKind ''cursor_stream_error'' ''limit'')))"
proof -
  let ?a = "[IText ''Hel'', IToolCall (''1'', ''f'', ''x''), IText ''lo'']" and ?b = "[IText ''Hel'', IError ''limit'']"
  have "list_all (\<lambda>ev. event_ok ev \<and> length (event_payload ev) < 100) ?a"
    "list_all (\<lambda>ev. event_ok ev \<and> length (event_payload ev) < 100) ?b" by code_simp+
  then have ok: "list_all (\<lambda>ev. event_ok ev \<and> length (event_payload ev) < 2 ^ 32) ?a"
    "list_all (\<lambda>ev. event_ok ev \<and> length (event_payload ev) < 2 ^ 32) ?b"
    by (fastforce simp: list_all_iff simp del: event_payload.simps intro: less_trans)+
  from cursor_reply_assembled [OF ok(1), of "[1]" plain_cursor cursor_serde]
    cursor_reply_assembled [OF ok(2), of "[]" plain_cursor cursor_serde] show ?thesis
    by (simp add: List.map_filter_simps tool_call_from_def object_or_empty_def cursor_serde_def del: event_payload.simps)
qed

section \<open>The request is read back\<close>

text \<open>What a server that reads with the same codec learns of a message.\<close>

type_synonym named_value = "string \<times> string \<times> field list"

record core =
  co_role :: "field list"
  co_text :: string
  co_calls :: "named_value list"
  co_results :: "named_value list"

definition read_named :: "field \<Rightarrow> named_value list checked" where
  "read_named raw =
     (case field_payload raw of
        None \<Rightarrow> Value []
      | Some b \<Rightarrow>
          bind_checked (decode_fields b) (\<lambda>fs. Value [(first_string 1 fs, first_string 2 fs, field_values 3 fs)]))"

definition read_results :: "field \<Rightarrow> named_value list checked" where
  "read_results raw =
     (case field_payload raw of
        None \<Rightarrow> Value []
      | Some b \<Rightarrow> bind_checked (decode_fields b) (\<lambda>fs. collect read_named (field_values 1 fs)))"

definition server_core :: "field \<Rightarrow> core list checked" where
  "server_core raw =
     (case field_payload raw of
        None \<Rightarrow> Value []
      | Some b \<Rightarrow>
          bind_checked (decode_fields b) (\<lambda>fs.
            bind_checked (collect read_named (field_values 4 fs)) (\<lambda>calls.
              bind_checked (collect read_results (field_values 6 fs)) (\<lambda>results.
                Value [\<lparr>co_role = field_values 1 fs, co_text = first_string 2 fs, co_calls = calls,
                        co_results = results\<rparr>]))))"

definition named_call :: "serde \<Rightarrow> tool_call \<Rightarrow> named_value" where
  "named_call sj tc = (tc_id tc, tc_name tc, [FBytes (encode_struct sj (tc_arguments tc))])"

definition named_result :: "serde \<Rightarrow> tool_result \<Rightarrow> named_value" where
  "named_result sj tr = (tr_tool_call_id tr, tr_name tr, [FBytes (encode_value sj (tr_content tr))])"

definition sent_calls :: "message \<Rightarrow> tool_call list" where
  "sent_calls m = (if msg_role m = RAssistant then msg_tool_calls m else [])"

definition sent_results :: "message \<Rightarrow> tool_result list" where
  "sent_results m =
     (if msg_role m = RTool then (case msg_tool_result m of None \<Rightarrow> [] | Some tr \<Rightarrow> [tr]) else [])"

definition sent_text :: "message \<Rightarrow> string" where
  "sent_text m = (if msg_role m = RTool then [] else text_of m)"

definition core_of :: "serde \<Rightarrow> message \<Rightarrow> core" where
  "core_of sj m =
     \<lparr>co_role = [FVarint (core_role m)], co_text = sent_text m, co_calls = map (named_call sj) (sent_calls m),
      co_results = map (named_result sj) (sent_results m)\<rparr>"

definition core_ok :: "message \<Rightarrow> bool" where
  "core_ok m \<longleftrightarrow>
     str_ok (sent_text m)
     \<and> list_all (\<lambda>tc. str_ok (tc_id tc) \<and> str_ok (tc_name tc)) (sent_calls m)
     \<and> list_all (\<lambda>tr. str_ok (tr_tool_call_id tr) \<and> str_ok (tr_name tr)) (sent_results m)"

definition named_bytes :: "string \<Rightarrow> string \<Rightarrow> u8 list \<Rightarrow> u8 list" where
  "named_bytes i n b = message_bytes [PBytes 1 (str_bytes i), PBytes 2 (str_bytes n), PBytes 3 b]"

lemma core_bytes:
  "core_call sj tc = named_bytes (tc_id tc) (tc_name tc) (encode_struct sj (tc_arguments tc))"
  "core_result sj tr = named_bytes (tr_tool_call_id tr) (tr_name tr) (encode_value sj (tr_content tr))"
  by (simp_all add: core_call_def core_result_def named_bytes_def field_string_bytes field_message_def)

lemma read_named_bytes:
  assumes "length (named_bytes i n b) < 2 ^ 64" and "str_ok i" and "str_ok n"
  shows "read_named (FBytes (named_bytes i n b)) = Value [(i, n, [FBytes b])]"
proof -
  have "decode_fields (named_bytes i n b) = Value (table_of [PBytes 1 (str_bytes i), PBytes 2 (str_bytes n), PBytes 3 b])"
    using assms(1) unfolding named_bytes_def by (rule decode_message_bytes)
  then show ?thesis
    using assms(2,3) by (simp add: read_named_def first_string_def field_values_table from_utf8_lossy_str_bytes)
qed

lemma read_results_bytes:
  assumes "length (message_bytes [PBytes 1 (named_bytes i n b)]) < 2 ^ 64" and "str_ok i" and "str_ok n"
  shows "read_results (FBytes (message_bytes [PBytes 1 (named_bytes i n b)])) = Value [(i, n, [FBytes b])]"
  using one_field [OF assms(1)] read_named_bytes [OF _ assms(2,3), of b]
  by (simp add: read_results_def values_one del: message_bytes_simps)

definition core_fields :: "serde \<Rightarrow> message \<Rightarrow> proto_field list" where
  "core_fields sj m =
     [PVarint 1 (core_role m)]
     @ (if sent_text m = [] then [] else [PBytes 2 (str_bytes (sent_text m))])
     @ map (\<lambda>tc. PBytes 4 (core_call sj tc)) (sent_calls m)
     @ map (\<lambda>tr. PBytes 6 (message_bytes [PBytes 1 (core_result sj tr)])) (sent_results m)"

lemma message_core_fields: "message_core sj m = message_bytes (core_fields sj m)"
proof -
  have "concat (map (\<lambda>tc. field_message 4 (core_call sj tc)) cs) =
      message_bytes (map (\<lambda>tc. PBytes 4 (core_call sj tc)) cs)" for cs
    by (induction cs) (simp_all add: field_message_def)
  then show ?thesis
    by (simp add: message_core_def core_fields_def sent_text_def sent_calls_def sent_results_def field_string_bytes
        field_message_def split: option.split)
qed

lemma server_core_message:
  assumes "length (message_core sj m) < 2 ^ 64" and "core_ok m"
  shows "server_core (FBytes (message_core sj m)) = Value [core_of sj m]"
proof -
  let ?fs = "core_fields sj m"
  have d: "decode_fields (message_core sj m) = Value (table_of ?fs)"
    using assms(1) unfolding message_core_fields by (rule decode_message_bytes)
  have small: "PBytes k b \<in> set ?fs \<Longrightarrow> length b < 2 ^ 64" for k b
    using message_bytes_field [of k b ?fs] assms(1) unfolding message_core_fields by simp
  have "read_named (FBytes (core_call sj tc)) = Value [named_call sj tc]" if tc: "tc \<in> set (sent_calls m)" for tc
    unfolding core_bytes named_call_def
  proof (rule read_named_bytes)
    have "PBytes 4 (core_call sj tc) \<in> set ?fs" using tc by (simp add: core_fields_def)
    from small [OF this] show "length (named_bytes (tc_id tc) (tc_name tc) (encode_struct sj (tc_arguments tc))) < 2 ^ 64"
      by (simp add: core_bytes)
  qed (use tc assms(2) in \<open>simp_all add: core_ok_def list_all_iff\<close>)
  then have calls: "collect read_named (map (\<lambda>tc. FBytes (core_call sj tc)) (sent_calls m)) = Value (map (named_call sj) (sent_calls m))"
    by (rule collect_map)
  have "read_results (FBytes (message_bytes [PBytes 1 (core_result sj tr)])) = Value [named_result sj tr]"
    if tr: "tr \<in> set (sent_results m)" for tr
    unfolding core_bytes named_result_def
  proof (rule read_results_bytes)
    have "PBytes 6 (message_bytes [PBytes 1 (core_result sj tr)]) \<in> set ?fs"
      using tr by (simp add: core_fields_def del: message_bytes_simps)
    from small [OF this] show
      "length (message_bytes [PBytes 1 (named_bytes (tr_tool_call_id tr) (tr_name tr) (encode_value sj (tr_content tr)))]) < 2 ^ 64"
      by (simp only: core_bytes)
  qed (use tr assms(2) in \<open>simp_all add: core_ok_def list_all_iff\<close>)
  then have results: "collect read_results (map (\<lambda>tr. FBytes (message_bytes [PBytes 1 (core_result sj tr)])) (sent_results m)) =
      Value (map (named_result sj) (sent_results m))"
    by (rule collect_map)
  have vals: "field_values 1 (table_of ?fs) = [FVarint (core_role m)]"
    "first_string 2 (table_of ?fs) = sent_text m"
    "field_values 4 (table_of ?fs) = map (\<lambda>tc. FBytes (core_call sj tc)) (sent_calls m)"
    "field_values 6 (table_of ?fs) = map (\<lambda>tr. FBytes (message_bytes [PBytes 1 (core_result sj tr)])) (sent_results m)"
    using assms(2)
    by (simp_all add: first_string_def field_values_table core_fields_def filter_same_number comp_def core_ok_def
        from_utf8_lossy_str_bytes del: message_bytes_simps)
  show ?thesis
    unfolding server_core_def field_payload.simps option.case d bind_checked.simps vals calls results core_of_def ..
qed

definition inference_fields ::
    "serde \<Rightarrow> message list \<Rightarrow> tool_definition list \<Rightarrow> string \<Rightarrow> string \<Rightarrow> proto_field list" where
  "inference_fields sj messages tools model cid =
     map (\<lambda>m. PBytes 1 (message_core sj m)) messages
     @ map (\<lambda>t. PBytes 2 (agent_tool sj t)) tools
     @ [PBytes 7 (field_string 1 model), PBytes 8 (str_bytes cid)]"

text \<open>A system prompt is a leading system message.\<close>

definition with_system :: "string option \<Rightarrow> message list \<Rightarrow> message list" where
  "with_system sp ms = (case sp of None \<Rightarrow> ms | Some s \<Rightarrow> if trim s = [] then ms else message_system s # ms)"

lemma system_core_message: "trim s \<noteq> [] \<Longrightarrow> message_core sj (message_system s) = field_varint 1 4 @ field_string 2 s"
  by (auto simp: message_core_def message_defs text_of_def core_role_def)

lemma inference_request_fields:
  "build_inference_request sj messages sp tools model cid =
     message_bytes (inference_fields sj (with_system sp messages) tools model cid)"
proof -
  have m: "concat (map (\<lambda>x. field_message k (g x)) xs) = message_bytes (map (\<lambda>x. PBytes k (g x)) xs)" for k g and xs :: "'x list"
    by (induction xs) (simp_all add: field_message_def)
  show ?thesis
    by (simp add: build_inference_request_def inference_fields_def m [unfolded field_message_def] with_system_def system_core_def field_string_bytes
        system_core_message field_message_def split: option.split)
qed

text \<open>
  C25.  The request is read back.  A server that decodes the inference request with the same codec gets, for the
  system prompt and every message, in order: its role, its text, its tool calls with id, name and encoded
  arguments, and its tool result with id, name and encoded content; and the conversation id.
\<close>

theorem cursor_request_read_back:
  assumes "length (build_inference_request sj messages sp tools model cid) < 2 ^ 32"
    and "list_all core_ok (with_system sp messages)" and "str_ok cid"
  shows "\<exists>fs. decode_frames gunzip (encode_frame (build_inference_request sj messages sp tools model cid)) =
       [(0, build_inference_request sj messages sp tools model cid)]
    \<and> decode_fields (build_inference_request sj messages sp tools model cid) = Value fs
    \<and> collect server_core (field_values 1 fs) = Value (map (core_of sj) (with_system sp messages))
    \<and> length (field_values 2 fs) = length tools \<and> first_string 8 fs = cid"
proof -
  let ?b = "build_inference_request sj messages sp tools model cid"
  let ?fs = "inference_fields sj (with_system sp messages) tools model cid"
  have "decode_frames gunzip (encode_frame ?b) = [(0, ?b)]"
    using decode_flagged [of "[(0, ?b)]" gunzip] assms(1) by (simp add: frame_with_0)
  moreover have "decode_fields ?b = Value (table_of ?fs)"
    unfolding inference_request_fields by (rule decode_message_bytes) (use assms(1) in \<open>simp add: inference_request_fields\<close>)
  moreover have "server_core (FBytes (message_core sj m)) = Value [core_of sj m]"
    if m: "m \<in> set (with_system sp messages)" for m
  proof (rule server_core_message)
    have "PBytes 1 (message_core sj m) \<in> set ?fs" using m by (simp add: inference_fields_def)
    from message_bytes_field [OF this] show "length (message_core sj m) < 2 ^ 64"
      using assms(1) unfolding inference_request_fields by simp
    show "core_ok m" using m assms(2) by (simp add: list_all_iff)
  qed
  then have "collect server_core (map (\<lambda>m. FBytes (message_core sj m)) (with_system sp messages)) =
      Value (map (core_of sj) (with_system sp messages))"
    by (rule collect_map)
  moreover have "field_values 1 (table_of ?fs) = map (\<lambda>m. FBytes (message_core sj m)) (with_system sp messages)"
    "length (field_values 2 (table_of ?fs)) = length tools" "first_string 8 (table_of ?fs) = cid"
    using assms(3)
    by (simp_all add: first_string_def field_values_table inference_fields_def filter_same_number comp_def
        from_utf8_lossy_str_bytes)
  ultimately show ?thesis by auto
qed

definition cursor_talk :: "message list" where
  "cursor_talk =
     [message_user ''hi'',
      message_tool_result \<lparr>tr_tool_call_id = ''1'', tr_name = ''f'', tr_content = JString ''42'', tr_is_error = False,
                           tr_structured = None\<rparr>]"

lemma cursor_request_read_back_witness:
  "\<exists>fs. decode_fields (build_inference_request cursor_serde cursor_talk (Some ''s'') [] ''m'' ''c'') = Value fs
    \<and> first_string 8 fs = ''c''
    \<and> collect server_core (field_values 1 fs) =
        Value [\<lparr>co_role = [FVarint 4], co_text = ''s'', co_calls = [], co_results = []\<rparr>,
               \<lparr>co_role = [FVarint 1], co_text = ''hi'', co_calls = [], co_results = []\<rparr>,
               \<lparr>co_role = [FVarint 3], co_text = [], co_calls = [],
                co_results = [(''1'', ''f'', [FBytes (field_string 3 ''42'')])]\<rparr>]"
proof -
  have "length (build_inference_request cursor_serde cursor_talk (Some ''s'') [] ''m'' ''c'') < 200" by code_simp
  then have l: "length (build_inference_request cursor_serde cursor_talk (Some ''s'') [] ''m'' ''c'') < 2 ^ 32"
    by (rule less_trans) simp
  have "trim ''s'' = ''s''" by code_simp
  then have w: "with_system (Some ''s'') cursor_talk = message_system ''s'' # cursor_talk"
    by (simp add: with_system_def)
  have ok: "list_all core_ok (with_system (Some ''s'') cursor_talk)" "str_ok ''c''" by code_simp+
  have "map (core_of cursor_serde) (with_system (Some ''s'') cursor_talk) =
        [\<lparr>co_role = [FVarint 4], co_text = ''s'', co_calls = [], co_results = []\<rparr>,
         \<lparr>co_role = [FVarint 1], co_text = ''hi'', co_calls = [], co_results = []\<rparr>,
         \<lparr>co_role = [FVarint 3], co_text = [], co_calls = [],
          co_results = [(''1'', ''f'', [FBytes (field_string 3 ''42'')])]\<rparr>]"
    unfolding w by (simp add: cursor_talk_def core_of_def message_defs text_of_def core_role_def sent_text_def sent_calls_def
        sent_results_def named_result_def)
  then show ?thesis using cursor_request_read_back [OF l ok] by fastforce
qed

end
