(* ===== verification/Perplexity.thy ===== *)
theory Perplexity
  imports Adapters Auth
begin

text \<open>
  The Perplexity web adapter (\<open>gravity-providers/src/perplexity/mod.rs\<close>): the query with its inlined history, the
  ask request, the reader of the event stream, and the provider.
\<close>

definition ppl_caps :: provider_capabilities where
  "ppl_caps =
     \<lparr>cap_provider = Perplexity, tool_support = ToolJsonEmulated, structured_output = OutJsonInstruction,
      remote_session = SessOptional, supports_system_prompt = False, supports_stateful_history = False,
      requires_remote_checkpoint = False, default_history_mode = Stateless, supports_image_generation = False\<rparr>"

definition ppl_models :: "string list" where
  "ppl_models = [''sonar'', ''sonar-pro'', ''sonar-reasoning'', ''sonar-deep-research'']"

definition ppl_base_url :: string where
  "ppl_base_url = ''https://www.perplexity.ai''"

definition ppl_user_agent :: string where
  "ppl_user_agent =
     ''Mozilla/5.0 (Windows NT 10.0; Win64; x64) AppleWebKit/537.36 (KHTML, like Gecko) Chrome/136.0.0.0 Safari/537.36''"

definition ppl_err :: "string \<Rightarrow> u16 \<Rightarrow> string \<Rightarrow> error" where
  "ppl_err code status body = refused Perplexity code status (take_chars 400 body)"

section \<open>Requests\<close>

definition query_text :: "serde \<Rightarrow> message \<Rightarrow> string" where
  "query_text sj m =
     (case msg_content m of
        Some c \<Rightarrow> text_of m
      | None \<Rightarrow> (case msg_tool_result m of Some r \<Rightarrow> to_compact sj (tr_content r) | None \<Rightarrow> []))"

fun role_label :: "role \<Rightarrow> string" where
  "role_label RUser = ''USER''"
| "role_label RAssistant = ''ASSISTANT''"
| "role_label RSystem = ''SYSTEM''"
| "role_label RTool = ''TOOL_RESULT''"

definition history_part :: "serde \<Rightarrow> message \<Rightarrow> string option" where
  "history_part sj m =
     (if query_text sj m = [] then None else Some (role_label (msg_role m) @ '': '' @ query_text sj m))"

definition render_history :: "serde \<Rightarrow> message list \<Rightarrow> string" where
  "render_history sj messages = join_with [CHR 0x0A, CHR 0x0A] (List.map_filter (history_part sj) messages)"

definition build_query :: "serde \<Rightarrow> message list \<Rightarrow> string" where
  "build_query sj messages =
     (if 1 < length messages then render_history sj messages
      else case messages of [] \<Rightarrow> [] | _ \<Rightarrow> query_text sj (last messages))"

definition or_str :: "string option \<Rightarrow> string \<Rightarrow> string" where
  "or_str s dflt = (case s of Some x \<Rightarrow> x | None \<Rightarrow> dflt)"

definition ask_payload :: "serde \<Rightarrow> 'w env \<Rightarrow> chat_ctx \<Rightarrow> 'w \<Rightarrow> json \<times> 'w" where
  "ask_payload sj env cx w =
     (let a = cx_account cx;
          mode = or_str (secret_of a ''mode'') ''auto'';
          sources = (case secret_of a ''sources'' of
                       Some s \<Rightarrow> map trim (split_on (CHR '','') s) | None \<Rightarrow> [''web'']);
          (context_uuid, w1) = env_uuid env w;
          (frontend_uuid, w2) = env_uuid env w1;
          params =
            [(''attachments'', JArray []), (''frontend_context_uuid'', JString context_uuid),
             (''frontend_uuid'', JString frontend_uuid), (''is_incognito'', JBool (au_kind (pa_auth a) = ''anonymous'')),
             (''language'', JString (or_str (secret_of a ''language'') ''en-US'')),
             (''last_backend_uuid'', case secret_of a ''last_backend_uuid'' of Some u \<Rightarrow> JString u | None \<Rightarrow> JNull),
             (''mode'', JString (if mode = ''auto'' \<or> mode = ''concise'' then ''concise'' else ''copilot'')),
             (''model_preference'', JString (or_str (secret_of a ''model_preference'') ''default'')),
             (''source'', JString ''default''), (''sources'', JArray (map JString sources)),
             (''version'', JString ''2.18'')]
            @ (case secret_of a ''search_recency_filter'' of
                 None \<Rightarrow> [] | Some r \<Rightarrow> [(''search_recency_filter'', JString r)])
      in (JObject [(''query_str'', JString (build_query sj (rq_messages (cx_request cx)))), (''params'', JObject params)],
          w2))"

definition bootstrap_request :: "chat_ctx \<Rightarrow> http_request" where
  "bootstrap_request cx =
     with_cookie_store True (request_from ''chrome136'' cx (request_get (ppl_base_url @ ''/api/auth/session'')))"

text \<open>The outcome of the bootstrap is ignored.\<close>

definition bootstrap :: "'w net \<Rightarrow> chat_ctx \<Rightarrow> 'w \<Rightarrow> 'w" where
  "bootstrap net cx w = snd (nt_send net (bootstrap_request cx) w)"

definition ask_request :: "serde \<Rightarrow> chat_ctx \<Rightarrow> json \<Rightarrow> http_request" where
  "ask_request sj cx payload =
     with_body (str_bytes (to_compact sj payload))
       (with_headers
          ([(''accept'', ''text/event-stream''), (''content-type'', ''application/json''), (''origin'', ppl_base_url),
            (''referer'', ''https://www.perplexity.ai/''), (''user-agent'', ppl_user_agent)]
           @ (case secret_of (cx_account cx) ''cookies'' of None \<Rightarrow> [] | Some c \<Rightarrow> [(''cookie'', c)]))
          (with_cookie_store True
            (request_from ''chrome136'' cx (request_post (ppl_base_url @ ''/rest/sse/perplexity_ask'')))))"

section \<open>The event stream\<close>

record ppl_parsed =
  pp_answer :: string
  pp_tool_calls :: "(string \<times> jmap) list"
  pp_backend_uuid :: "string option"

definition ppl_parsed_new :: ppl_parsed where
  "ppl_parsed_new = \<lparr>pp_answer = [], pp_tool_calls = [], pp_backend_uuid = None\<rparr>"

definition ppl_tool_call :: "serde \<Rightarrow> json \<Rightarrow> (string \<times> jmap) option" where
  "ppl_tool_call sj tc =
     (let func = jget tc ''function'';
          name = or_str (Option.bind func (\<lambda>f. jget_str f ''name'')) [];
          args = or_str (Option.bind func (\<lambda>f. jget_str f ''arguments'')) ''{}''
      in if name = [] then None else Some (name, object_or_empty sj args))"

text \<open>The answer of the first \<open>FINAL\<close> step, which may itself be the text of a value with an answer.\<close>

definition final_answer :: "serde \<Rightarrow> string \<Rightarrow> string option" where
  "final_answer sj text_raw =
     (case Option.bind (from_text sj text_raw) as_array of
        None \<Rightarrow> None
      | Some steps \<Rightarrow>
          (case find (\<lambda>s. jget_str s ''step_type'' = Some ''FINAL'') steps of
             None \<Rightarrow> None
           | Some step \<Rightarrow>
               map_option
                 (\<lambda>blob. case from_text sj blob of
                            Some inner \<Rightarrow> or_str (jget_str inner ''answer'') blob | None \<Rightarrow> blob)
                 (Option.bind (jget step ''content'') (\<lambda>c. jget_str c ''answer''))))"

definition set_answer :: "string option \<Rightarrow> ppl_parsed \<Rightarrow> ppl_parsed" where
  "set_answer a st = (case a of Some t \<Rightarrow> if t = [] then st else st\<lparr>pp_answer := t\<rparr> | None \<Rightarrow> st)"

definition ppl_value :: "serde \<Rightarrow> json \<Rightarrow> ppl_parsed \<Rightarrow> ppl_parsed" where
  "ppl_value sj v st =
     (let st1 = (case jget_str v ''backend_uuid'' of Some u \<Rightarrow> st\<lparr>pp_backend_uuid := Some u\<rparr> | None \<Rightarrow> st);
          st2 = (case Option.bind (jget v ''tool_calls'') as_array of
                   Some tcs \<Rightarrow> st1\<lparr>pp_tool_calls := pp_tool_calls st1 @ List.map_filter (ppl_tool_call sj) tcs\<rparr>
                 | None \<Rightarrow> st1);
          st3 = set_answer (Option.bind (jget_str v ''text'') (final_answer sj)) st2
      in set_answer (jget_str v ''answer'') st3)"

text \<open>The data of an event, if it is not one to skip.\<close>

definition event_data :: "string \<Rightarrow> string option" where
  "event_data ev =
     (let event = trim ev
      in if event = [] \<or> contains_str ''end_of_stream'' event then None
         else
           (case find_str ([CHR 0x0D, CHR 0x0A] @ ''data: '') event of
              Some pos \<Rightarrow> Some (drop (pos + 8) event)
            | None \<Rightarrow> strip_prefix ''data: '' event))"

definition ppl_event :: "serde \<Rightarrow> string \<Rightarrow> ppl_parsed \<Rightarrow> ppl_parsed" where
  "ppl_event sj ev st =
     (case Option.bind (event_data ev) (from_text sj) of
        None \<Rightarrow> st | Some v \<Rightarrow> ppl_value sj v st)"

definition event_gap :: string where
  "event_gap = [CHR 0x0D, CHR 0x0A, CHR 0x0D, CHR 0x0A]"

definition parse_sse_response :: "serde \<Rightarrow> string \<Rightarrow> ppl_parsed" where
  "parse_sse_response sj body = fold (ppl_event sj) (split_str event_gap body) ppl_parsed_new"

section \<open>The provider\<close>

definition ask :: "'w net \<Rightarrow> 'w env \<Rightarrow> chat_ctx \<Rightarrow> 'w \<Rightarrow> (error + ppl_parsed) \<times> 'w" where
  "ask net env cx w =
     (case ask_payload (nt_serde net) env cx w of
        (payload, w1) \<Rightarrow>
          (case send_ok net (\<lambda>resp. ppl_err ''perplexity_ask_failed'' (rp_status resp) (response_text_lossy resp))
                  (ask_request (nt_serde net) cx payload) w1 of
             (Inl e, w2) \<Rightarrow> (Inl e, w2)
           | (Inr resp, w2) \<Rightarrow> (Inr (parse_sse_response (nt_serde net) (response_text_lossy resp)), w2)))"

primrec with_call_ids :: "'w env \<Rightarrow> (string \<times> jmap) list \<Rightarrow> 'w \<Rightarrow> tool_call list \<times> 'w" where
  "with_call_ids env [] w = ([], w)"
| "with_call_ids env (c # cs) w =
     (case env_uuid env w of
        (i, w1) \<Rightarrow>
          (case with_call_ids env cs w1 of
             (tcs, w2) \<Rightarrow> (\<lparr>tc_id = i, tc_name = fst c, tc_arguments = snd c\<rparr> # tcs, w2)))"

definition ppl_message :: "'w env \<Rightarrow> tool_definition list \<Rightarrow> ppl_parsed \<Rightarrow> 'w \<Rightarrow> (message \<times> string) \<times> 'w" where
  "ppl_message env tools p w =
     (if tools \<noteq> [] \<and> pp_tool_calls p \<noteq> []
      then (case with_call_ids env (pp_tool_calls p) w of
              (tcs, w') \<Rightarrow> ((message_assistant_with_tools None tcs, ''tool_calls''), w'))
      else ((message_assistant (pp_answer p), ''stop''), w))"

definition ppl_chat :: "'w net \<Rightarrow> 'w env \<Rightarrow> chat_ctx \<Rightarrow> 'w \<Rightarrow> (error + chat_response) \<times> 'w" where
  "ppl_chat net env cx w =
     (case ask net env cx (bootstrap net cx w) of
        (Inl e, w1) \<Rightarrow> (Inl e, w1)
      | (Inr p, w1) \<Rightarrow>
          (case ppl_message env (rq_tools (cx_request cx)) p w1 of
             ((m, reason), w2) \<Rightarrow>
               (Inr \<lparr>rs_model = model_id_full_name (rq_model (cx_request cx)), rs_message = m,
                     rs_usage = usage_default, rs_tool_calls_executed = [],
                     rs_provider_response_id = pp_backend_uuid p, rs_finish_reason = Some reason,
                     rs_metadata = (case pp_backend_uuid p of
                                      None \<Rightarrow> metadata_new
                                    | Some u \<Rightarrow> metadata_insert ''backend_uuid'' (JString u) metadata_new)\<rparr>, w2)))"

definition ppl_chat_stream :: "'w net \<Rightarrow> 'w env \<Rightarrow> chat_ctx \<Rightarrow> 'w \<Rightarrow> (error + event_stream) \<times> 'w" where
  "ppl_chat_stream net env cx w = replay (ppl_chat net env cx w)"

definition ppl_provider :: "'w net \<Rightarrow> 'w env \<Rightarrow> 'w provider" where
  "ppl_provider net env =
     \<lparr>pv_capabilities = ppl_caps, pv_list_models = ppl_models,
      pv_discover_models = default_discover_models ppl_models,
      pv_normalize_system_prompt = default_normalize_system_prompt,
      pv_open_checkpoint = default_open_checkpoint,
      pv_chat = ppl_chat net env, pv_chat_stream = ppl_chat_stream net env,
      pv_authenticator = None\<rparr>"

section \<open>Events are taken apart\<close>

definition message_event :: "string \<Rightarrow> string" where
  "message_event l = ''event: message'' @ [CHR 0x0D, CHR 0x0A] @ ''data: '' @ l"

definition end_event :: string where
  "end_event = ''event: end_of_stream'' @ [CHR 0x0D, CHR 0x0A] @ ''data: {}'' @ event_gap"

definition event_stream_text :: "string list \<Rightarrow> string" where
  "event_stream_text ls = concat (map (\<lambda>l. message_event l @ event_gap) ls) @ end_event"

lemma find_gap:
  assumes "CHR 0x0D \<notin> set h" and "CHR 0x0D \<notin> set t" and "t \<noteq> []"
  shows "find_str event_gap (h @ CHR 0x0D # CHR 0x0A # t @ event_gap @ rest) = Some (length h + (2 + length t))"
proof -
  let ?s = "t @ event_gap @ rest"
  have first: "find_str event_gap (event_gap @ rest) = Some 0" by (simp add: event_gap_def)
  have t: "find_str event_gap ?s = Some (length t)"
    using find_str_skip [OF assms(2), of "[CHR 0x0A, CHR 0x0D, CHR 0x0A]" "event_gap @ rest"] first
    by (simp add: event_gap_def)
  obtain c u where tc: "t = c # u" "c \<noteq> CHR 0x0D" using assms(2,3) by (cases t) auto
  have "\<not> starts_with event_gap (CHR 0x0D # CHR 0x0A # ?s)" using tc by (simp add: event_gap_def)
  moreover have "\<not> starts_with event_gap (CHR 0x0A # ?s)" by (simp add: event_gap_def)
  ultimately have "find_str event_gap (CHR 0x0D # CHR 0x0A # ?s) = Some (2 + length t)" using t by simp
  then show ?thesis
    using find_str_skip [OF assms(1), of "[CHR 0x0A, CHR 0x0D, CHR 0x0A]" "CHR 0x0D # CHR 0x0A # ?s"]
    by (simp add: event_gap_def [symmetric])
qed

lemma event_gap_ne [simp]: "event_gap \<noteq> []" "length event_gap = 4"
  by (simp_all add: event_gap_def)

lemma split_str_event:
  assumes "CHR 0x0D \<notin> set h" and "CHR 0x0D \<notin> set t" and "t \<noteq> []"
  shows "split_str event_gap ((h @ CHR 0x0D # CHR 0x0A # t) @ event_gap @ rest) =
    (h @ CHR 0x0D # CHR 0x0A # t) # split_str event_gap rest"
proof -
  have len: "length h + (2 + length t) = length (h @ CHR 0x0D # CHR 0x0A # t)" by simp
  have "find_str event_gap ((h @ CHR 0x0D # CHR 0x0A # t) @ event_gap @ rest) =
      Some (length (h @ CHR 0x0D # CHR 0x0A # t))"
    using find_gap [OF assms, of rest] unfolding len by simp
  then show ?thesis by (subst split_str.simps) (simp del: append_Cons append_assoc)
qed

text \<open>The data of an event that carries a value.\<close>

definition ppl_carries :: "serde \<Rightarrow> json \<Rightarrow> string \<Rightarrow> bool" where
  "ppl_carries sj v l \<longleftrightarrow>
     from_text sj l = Some v \<and> l \<noteq> [] \<and> CHR 0x0D \<notin> set l \<and> plain_char (last l)
     \<and> \<not> contains_str ''end_of_stream'' (message_event l)"

lemma split_message_event:
  assumes "CHR 0x0D \<notin> set l"
  shows "split_str event_gap (message_event l @ event_gap @ rest) = message_event l # split_str event_gap rest"
proof -
  have e: "message_event l = ''event: message'' @ CHR 0x0D # CHR 0x0A # (''data: '' @ l)"
    by (simp add: message_event_def)
  show ?thesis unfolding e by (rule split_str_event) (use assms in auto)
qed

lemma trim_message_event: "l \<noteq> [] \<Longrightarrow> plain_char (last l) \<Longrightarrow> trim (message_event l) = message_event l"
proof -
  assume l: "l \<noteq> []" "plain_char (last l)"
  have "plain_char (CHR ''e'')" by code_simp
  then show ?thesis using l by (intro trim_plain) (simp_all add: message_event_def)
qed

lemma find_message_data: "find_str ([CHR 0x0D, CHR 0x0A] @ ''data: '') (message_event l) = Some 14"
  using find_str_skip [of "CHR 0x0D" "''event: message''" "CHR 0x0A # ''data: ''" "CHR 0x0D # CHR 0x0A # ''data: '' @ l"]
  by (simp add: message_event_def)

lemma event_data_message:
  assumes "ppl_carries sj v l"
  shows "event_data (message_event l) = Some l"
proof -
  have "drop (14 + 8) (message_event l) = l" by (simp add: message_event_def)
  moreover have "message_event l \<noteq> []" by (simp add: message_event_def)
  ultimately show ?thesis
    using assms trim_message_event [of l] find_message_data [of l]
    by (simp only: event_data_def ppl_carries_def Let_def if_False option.case)
      (simp add: find_message_data)
qed

lemma ppl_event_carried: "ppl_carries sj v l \<Longrightarrow> ppl_event sj (message_event l) st = ppl_value sj v st"
  by (simp add: ppl_event_def event_data_message) (simp add: ppl_carries_def)

lemma split_end_event: "split_str event_gap end_event = [''event: end_of_stream'' @ [CHR 0x0D, CHR 0x0A] @ ''data: {}'', []]"
  by code_simp

lemma end_event_skipped:
  "ppl_event sj (''event: end_of_stream'' @ [CHR 0x0D, CHR 0x0A] @ ''data: {}'') st = st" "ppl_event sj [] st = st"
proof -
  have "event_data (''event: end_of_stream'' @ [CHR 0x0D, CHR 0x0A] @ ''data: {}'') = None" "event_data [] = None"
    by code_simp+
  then show "ppl_event sj (''event: end_of_stream'' @ [CHR 0x0D, CHR 0x0A] @ ''data: {}'') st = st" "ppl_event sj [] st = st"
    by (simp_all add: ppl_event_def del: append.simps)
qed

lemma events_fold:
  assumes "list_all (\<lambda>l. CHR 0x0D \<notin> set l) ls"
  shows "fold (ppl_event sj) (split_str event_gap (event_stream_text ls)) st = fold (\<lambda>l. ppl_event sj (message_event l)) ls st"
  using assms
proof (induction ls arbitrary: st)
  case Nil
  show ?case unfolding event_stream_text_def by (simp add: split_end_event end_event_skipped del: append_Cons)
next
  case (Cons l ls)
  have "event_stream_text (l # ls) = message_event l @ event_gap @ event_stream_text ls"
    by (simp add: event_stream_text_def)
  then show ?case using Cons split_message_event [of l "event_stream_text ls"] by simp
qed

lemma carried_fold:
  "list_all2 (ppl_carries sj) vs ls \<Longrightarrow>
   fold (\<lambda>l. ppl_event sj (message_event l)) ls st = fold (ppl_value sj) vs st"
  by (induction arbitrary: st rule: list_all2_induct) (simp_all add: ppl_event_carried)

text \<open>An event with the answer so far and the id of the exchange.\<close>

definition answer_value :: "string \<times> string \<Rightarrow> json" where
  "answer_value s = JObject [(''answer'', JString (fst s)), (''backend_uuid'', JString (snd s))]"

lemma ppl_value_answer:
  "ppl_value sj (answer_value s) st =
     st\<lparr>pp_answer := if fst s = [] then pp_answer st else fst s, pp_backend_uuid := Some (snd s)\<rparr>"
  by (simp add: ppl_value_def answer_value_def jget_str_def set_answer_def)

lemma fold_answers:
  "fold (ppl_value sj) (map answer_value ss) st =
     (if ss = [] then st
      else st\<lparr>pp_answer := last (pp_answer st # filter (\<lambda>a. a \<noteq> []) (map fst ss)),
              pp_backend_uuid := Some (snd (last ss))\<rparr>)"
  by (induction ss arbitrary: st) (auto simp: ppl_value_answer)

text \<open>
  C28.  The answer is the last one.  For a stream of message events that each carry an answer so far and end with
  the end event, the answer is the last that is not empty and the id that of the last event; but an event
  whose text mentions the name of the end event is skipped, and its answer is lost.
\<close>

theorem ppl_answer_assembled:
  assumes "list_all2 (ppl_carries sj) (map answer_value ss) ls"
    and "CHR 0x0D \<notin> set l" and "contains_str ''end_of_stream'' (trim (message_event l))"
  shows "parse_sse_response sj (event_stream_text ls) =
      (if ss = [] then ppl_parsed_new
       else \<lparr>pp_answer = last ([] # filter (\<lambda>a. a \<noteq> []) (map fst ss)), pp_tool_calls = [],
             pp_backend_uuid = Some (snd (last ss))\<rparr>)
   \<and> parse_sse_response sj (event_stream_text (ls @ [l])) = parse_sse_response sj (event_stream_text ls)"
proof -
  have ok: "list_all (\<lambda>l. CHR 0x0D \<notin> set l) ls"
    using assms(1) by (induction rule: list_all2_induct) (simp_all add: ppl_carries_def)
  then have ok': "list_all (\<lambda>l. CHR 0x0D \<notin> set l) (ls @ [l])" using assms(2) by simp
  have "ppl_event sj (message_event l) st = st" for st
    using assms(3) by (simp add: ppl_event_def event_data_def)
  then have "parse_sse_response sj (event_stream_text (ls @ [l])) = parse_sse_response sj (event_stream_text ls)"
    using events_fold [OF ok] events_fold [OF ok'] by (simp add: parse_sse_response_def)
  then show ?thesis
    using events_fold [OF ok] carried_fold [OF assms(1)]
    by (simp add: parse_sse_response_def fold_answers) (simp add: ppl_parsed_new_def)
qed

definition ppl_serde :: serde where
  "ppl_serde =
     \<lparr>to_compact = \<lambda>_. [], to_pretty = \<lambda>_. [],
      from_text = \<lambda>t.
        if t = ''{a}'' then Some (answer_value (''Hel'', ''u1''))
        else if t = ''{b}'' then Some (answer_value (''Hello'', ''u2''))
        else if t = ''{end_of_stream}'' then Some (answer_value (''end_of_stream'', ''u3''))
        else None,
      stream_next = \<lambda>_. None, number_f64 = \<lambda>_. None\<rparr>"

lemma ppl_answer_assembled_witness:
  "pp_answer (parse_sse_response ppl_serde (event_stream_text [''{a}'', ''{b}''])) = ''Hello''
   \<and> pp_answer (parse_sse_response ppl_serde (event_stream_text [''{a}'', ''{b}'', ''{end_of_stream}''])) = ''Hello''
   \<and> pp_answer (ppl_value ppl_serde (the (from_text ppl_serde ''{end_of_stream}'')) ppl_parsed_new) = ''end_of_stream''"
proof -
  have c: "\<not> contains_str ''end_of_stream'' (message_event ''{a}'')" "\<not> contains_str ''end_of_stream'' (message_event ''{b}'')"
    "contains_str ''end_of_stream'' (trim (message_event ''{end_of_stream}''))" "plain_char (CHR ''}'')"
    by code_simp+
  then have h: "list_all2 (ppl_carries ppl_serde) (map answer_value [(''Hel'', ''u1''), (''Hello'', ''u2'')]) [''{a}'', ''{b}'']"
    by (simp add: ppl_carries_def ppl_serde_def)
  have e: "[''{a}'', ''{b}''] @ [''{end_of_stream}''] = [''{a}'', ''{b}'', ''{end_of_stream}'']" by simp
  show ?thesis
    using ppl_answer_assembled [OF h _ c(3), unfolded e]
    by (simp add: ppl_value_answer ppl_serde_def)
qed

text \<open>
  A single message is sent as it is, and a longer transcript as one labelled paragraph per message with text,
  in order.
\<close>

lemma build_query_single: "build_query sj [message_user s] = s"
  by (simp add: build_query_def query_text_def message_defs text_of_def)

text \<open>
  The tools of a request are never part of the payload: the calls that are looked for in the reply have not been
  asked for.
\<close>

lemma payload_ignores_tools:
  "ask_payload sj env (cx\<lparr>cx_request := (cx_request cx)\<lparr>rq_tools := ts\<rparr>\<rparr>) w = ask_payload sj env cx w"
  by (simp add: ask_payload_def)

end
