(* ===== verification/Transient.thy ===== *)
theory Transient
  imports Managed
begin

text \<open>
  Throwaway accounts from a flat request (\<open>gravity-client/src/transient.rs\<close>), the entry of the foreign
  function interface: no accounts file, the defaults of the provider's capabilities, the secret inline.
\<close>

record transient_options =
  to_secret :: string
  to_kind :: "string option"
  to_base_url :: "string option"
  to_impersonate :: "string option"
  to_proxy_url :: "string option"
  to_timeout_ms :: "u32 option"
  to_extra :: metadata
  to_device_id :: "string option"
  to_org_id :: "string option"

definition transient_kind :: "transient_options \<Rightarrow> string" where
  "transient_kind opts = (case to_kind opts of Some k \<Rightarrow> k | None \<Rightarrow> ''api_key'')"

definition secret_field :: "string \<Rightarrow> string" where
  "secret_field kind = (if find_str ''session'' kind \<noteq> None then ''session_key'' else ''api_key'')"

definition transient_extra :: "transient_options \<Rightarrow> metadata" where
  "transient_extra opts =
     (if to_secret opts \<noteq> []
      then metadata_insert (secret_field (transient_kind opts)) (JString (to_secret opts)) (to_extra opts)
      else to_extra opts)"

definition build_transient ::
    "'w registry \<Rightarrow> provider_name \<Rightarrow> transient_options \<Rightarrow> error + resolved_account" where
  "build_transient reg provider opts =
     (case registry_provider reg provider of
        Inl e \<Rightarrow> Inl e
      | Inr p \<Rightarrow>
          Inr \<lparr>ra_account =
                 \<lparr>pa_account_id = ''transient'', pa_provider = provider, pa_enabled = True,
                  pa_pool = ''default'', pa_priority = 100, pa_weight = 1,
                  pa_auth =
                    \<lparr>au_kind = transient_kind opts, au_secret_ref = ''inline'',
                     au_account_label = Some ''transient'', au_org_id = to_org_id opts,
                     au_device_id = to_device_id opts, au_routing_hint = None,
                     au_chatgpt_account_id = None, au_refresh_secret_ref = None,
                     au_extra = transient_extra opts\<rparr>,
                  pa_transport =
                    \<lparr>tp_base_url = (case to_base_url opts of Some u \<Rightarrow> u | None \<Rightarrow> []),
                     tp_timeout_ms = (case to_timeout_ms opts of Some t \<Rightarrow> t | None \<Rightarrow> 60000),
                     tp_impersonate = to_impersonate opts, tp_proxy_url = to_proxy_url opts,
                     tp_verify_ssl = True, tp_extra_headers = Map.empty\<rparr>,
                  pa_rotation_state = rotation_state_default, pa_quota = quota_state_default,
                  pa_defaults = defaults_of_capabilities (pv_capabilities p),
                  pa_metadata = metadata_new\<rparr>,
               ra_secret = to_secret opts\<rparr>)"

lemma inline_transient:
  "inline_secret (a\<lparr>au_extra := transient_extra opts\<rparr>) k =
     (if to_secret opts \<noteq> [] \<and> k = secret_field (transient_kind opts) then Some (to_secret opts)
      else Option.bind (metadata_get (to_extra opts) k) as_str)"
  by (auto simp: inline_secret_def transient_extra_def metadata.look_put)

text \<open>
  A transient account carries its secret.  For a registered provider and a non-empty secret, the
  account is enabled, healthy and of that provider, has the defaults of the provider's capabilities, and
  its secret resolves inline, with no key and no file touched: always for a kind without \<open>session\<close> in it,
  and for a session kind unless the caller's own fields name an API key or a token, which then wins.
\<close>

theorem transient_resolves:
  assumes "reg provider = Some p" and "to_secret opts \<noteq> []"
  shows "\<exists>r. build_transient reg provider opts = Inr r
       \<and> ra_secret r = to_secret opts
       \<and> pa_provider (ra_account r) = provider \<and> pa_enabled (ra_account r)
       \<and> pa_defaults (ra_account r) = defaults_of_capabilities (pv_capabilities p)
       \<and> (\<forall>now. \<not> in_cooldown (ra_account r) now)
       \<and> resolve_secret pl mgr (pa_auth (ra_account r)) h =
           (if secret_field (transient_kind opts) = ''api_key'' then (Inr (to_secret opts), h)
            else (case List.map_filter (\<lambda>k. Option.bind (metadata_get (to_extra opts) k) as_str)
                         [''api_key'', ''token'', ''access_token''] of
                    v # _ \<Rightarrow> (Inr v, h) | [] \<Rightarrow> (Inr (to_secret opts), h)))"
proof -
  obtain r where r: "build_transient reg provider opts = Inr r"
    using assms(1) by (simp add: build_transient_def registry_provider_def)
  have shape: "ra_secret r = to_secret opts" "pa_provider (ra_account r) = provider"
    "pa_enabled (ra_account r)" "pa_defaults (ra_account r) = defaults_of_capabilities (pv_capabilities p)"
    "pa_rotation_state (ra_account r) = rotation_state_default"
    and e: "au_extra (pa_auth (ra_account r)) = transient_extra opts"
    using r assms(1) by (auto simp: build_transient_def registry_provider_def)
  have inl: "inline_secret (pa_auth (ra_account r)) k =
      (if k = secret_field (transient_kind opts) then Some (to_secret opts)
       else Option.bind (metadata_get (to_extra opts) k) as_str)" for k
    using assms(2) e inline_transient [where a = "pa_auth (ra_account r)" and opts = opts and k = k] by (simp add: inline_secret_def)
  have "resolve_secret pl mgr (pa_auth (ra_account r)) h =
       (if secret_field (transient_kind opts) = ''api_key'' then (Inr (to_secret opts), h)
        else (case List.map_filter (\<lambda>k. Option.bind (metadata_get (to_extra opts) k) as_str)
                     [''api_key'', ''token'', ''access_token''] of
                v # _ \<Rightarrow> (Inr v, h) | [] \<Rightarrow> (Inr (to_secret opts), h)))"
    by (auto simp: resolve_secret_def inline_keys_def inl secret_field_def List.map_filter_simps
        split: option.split)
  with r shape show ?thesis
    by (intro exI [of _ r]) (simp add: in_cooldown_def rotation_state_default_def)
qed

definition sample_options :: transient_options where
  "sample_options =
     \<lparr>to_secret = ''sk'', to_kind = Some ''session_cookie'', to_base_url = None, to_impersonate = None,
      to_proxy_url = None, to_timeout_ms = None, to_extra = metadata_new, to_device_id = None,
      to_org_id = None\<rparr>"

lemma transient_resolves_witness:
  "\<exists>r. build_transient (registry_build [scripted_provider False []]) Claude sample_options = Inr r
     \<and> ra_secret r = ''sk''
     \<and> resolve_secret sample_platform (manager_in_memory accounts_file_default) (pa_auth (ra_account r)) sample_host
         = (Inr ''sk'', sample_host)"
proof -
  have reg: "registry_build [scripted_provider False []] Claude = Some (scripted_provider False [])"
    by (simp add: registry_build_def registry_add_def registry_new_def scripted_provider_def sample_caps_def)
  have "to_secret sample_options \<noteq> []" by (simp add: sample_options_def)
  from transient_resolves [where reg = "registry_build [scripted_provider False []]" and provider = Claude, OF reg this]
  obtain r where "build_transient (registry_build [scripted_provider False []]) Claude sample_options = Inr r"
    "ra_secret r = to_secret sample_options"
    "resolve_secret sample_platform (manager_in_memory accounts_file_default) (pa_auth (ra_account r)) sample_host =
       (if secret_field (transient_kind sample_options) = ''api_key'' then (Inr (to_secret sample_options), sample_host)
        else (case List.map_filter (\<lambda>k. Option.bind (metadata_get (to_extra sample_options) k) as_str)
                     [''api_key'', ''token'', ''access_token''] of
                v # _ \<Rightarrow> (Inr v, sample_host) | [] \<Rightarrow> (Inr (to_secret sample_options), sample_host)))"
    by blast
  then show ?thesis
    by (intro exI [of _ r])
      (simp add: sample_options_def metadata_new_def metadata_get_def List.map_filter_simps)
qed

end
