(* ===== verification/Server.thy ===== *)
theory Server
  imports OaiCompat Floats Transient
begin

text \<open>
  The OpenAI-compatible front end (\<open>gravity-server/src/openai.rs\<close>): the parsing of a request into a
  throwaway account and a canonical request, the buffered and the streamed reply, and the error
  statuses.

  The JSON body and the headers are what \<open>axum\<close> hands to the handler; a server-sent event is a frame
  with its data or comment, which \<open>axum\<close> writes to the connection.
\<close>

section \<open>Requests\<close>

record 'w server =
  sv_client :: "'w client"
  sv_debug :: "string \<Rightarrow> string"

definition quoted :: "string \<Rightarrow> string" where
  "quoted s = CHR 0x27 # s @ [CHR 0x27]"

text \<open>\<open>HeaderValue::to_str\<close>: only visible ASCII is text.\<close>

definition header_text :: "string \<Rightarrow> string option" where
  "header_text v =
     (if list_all (\<lambda>c. let n = (of_char c :: nat) in 32 \<le> n \<and> n < 127 \<or> n = 9) v then Some v else None)"

definition bearer_token :: "(string \<times> string) list \<Rightarrow> string option" where
  "bearer_token headers =
     do { v \<leftarrow> map_of headers ''authorization'';
          s \<leftarrow> header_text v;
          if starts_with ''Bearer '' s then Some (drop 7 s) else None }"

definition served_role :: "string option \<Rightarrow> role" where
  "served_role r =
     (if r = Some ''system'' then RSystem else if r = Some ''assistant'' then RAssistant
      else if r = Some ''tool'' then RTool else RUser)"

definition served_message :: "json \<Rightarrow> message" where
  "served_message m =
     \<lparr>msg_role = served_role (jget_str m ''role''),
      msg_content = Some (CText (str_default (jget_str m ''content''))),
      msg_name = None, msg_tool_calls = [], msg_tool_result = None, msg_metadata = metadata_new\<rparr>"

definition parse_messages :: "json option \<Rightarrow> error + message list" where
  "parse_messages v =
     (case Option.bind v as_array of
        None \<Rightarrow> Inl (Validation (''missing '' @ quoted ''messages'') ''missing_messages'')
      | Some arr \<Rightarrow> Inr (map served_message arr))"

definition parse_error_text :: "(string \<Rightarrow> string) \<Rightarrow> model_id_parse_error \<Rightarrow> string" where
  "parse_error_text debug e =
     (case e of
        MissingSeparator \<Rightarrow> ''model ids must look like '' @ quoted ''provider/model_id''
      | EmptyModel \<Rightarrow> ''model component must not be empty''
      | UnknownProviderId p \<Rightarrow> ''unknown provider: '' @ debug p)"

definition server_secret :: "(string \<times> string) list \<Rightarrow> json \<Rightarrow> string" where
  "server_secret headers body =
     str_default (case bearer_token headers of Some s \<Rightarrow> Some s | None \<Rightarrow> jget_str body ''api_key'')"

definition server_kind :: "provider_name \<Rightarrow> string" where
  "server_kind p = (if p = Claude \<or> p = Chatgpt then ''session_cookie'' else ''api_key'')"

definition server_options :: "string \<Rightarrow> string \<Rightarrow> transient_options" where
  "server_options secret kind =
     \<lparr>to_secret = secret, to_kind = Some kind, to_base_url = None, to_impersonate = None,
      to_proxy_url = None, to_timeout_ms = None, to_extra = metadata_new, to_device_id = None,
      to_org_id = None\<rparr>"

definition body_f32 :: "serde \<Rightarrow> json \<Rightarrow> string \<Rightarrow> u32 option" where
  "body_f32 sj body k = map_option f64_to_f32 (Option.bind (jget body k) (as_f64 sj))"

definition server_sampling :: "serde \<Rightarrow> json \<Rightarrow> sampling" where
  "server_sampling sj body =
     \<lparr>sm_temperature = body_f32 sj body ''temperature'',
      sm_max_tokens = map_option (\<lambda>n. ucast n) (Option.bind (jget body ''max_tokens'') as_u64),
      sm_top_p = body_f32 sj body ''top_p'',
      sm_stop = [],
      sm_seed = Option.bind (jget body ''seed'') as_i64,
      sm_frequency_penalty = body_f32 sj body ''frequency_penalty'',
      sm_presence_penalty = body_f32 sj body ''presence_penalty''\<rparr>"

definition server_prepare ::
    "'w server \<Rightarrow> (string \<times> string) list \<Rightarrow> json \<Rightarrow> error + resolved_account \<times> chat_request \<times> bool" where
  "server_prepare sv headers body =
     (case jget_str body ''model'' of
        None \<Rightarrow> Inl (Validation (''missing '' @ quoted ''model'') ''missing_model'')
      | Some model_str \<Rightarrow>
          (case model_id_parse model_str of
             Inl e \<Rightarrow> Inl (Validation (parse_error_text (sv_debug sv) e) ''bad_model'')
           | Inr model \<Rightarrow>
               (case build_transient (cl_registry (sv_client sv)) (mid_provider model)
                       (server_options (server_secret headers body) (server_kind (mid_provider model))) of
                  Inl e \<Rightarrow> Inl e
                | Inr account \<Rightarrow>
                    (case parse_messages (jget body ''messages'') of
                       Inl e \<Rightarrow> Inl e
                     | Inr messages \<Rightarrow>
                         (let stream = (case Option.bind (jget body ''stream'') as_bool of Some b \<Rightarrow> b | None \<Rightarrow> False)
                          in Inr (account,
                               (chat_request_new model messages)
                                 \<lparr>rq_system_prompt := jget_str body ''system'',
                                  rq_sampling := server_sampling (cl_serde (sv_client sv)) body,
                                  rq_stream := stream\<rparr>,
                               stream))))))"

section \<open>Replies\<close>

datatype sse_frame = DataFrame string | CommentFrame string

datatype server_reply = JsonReply nat json | SseReply "sse_frame list"

definition openai_completion :: "chat_response \<Rightarrow> json" where
  "openai_completion resp =
     JObject
       [(''object'', JString ''chat.completion''),
        (''model'', JString (rs_model resp)),
        (''choices'', JArray [JObject
           [(''index'', json_u32 0),
            (''message'', JObject [(''role'', JString ''assistant''), (''content'', JString (response_text resp))]),
            (''finish_reason'', JString (case rs_finish_reason resp of Some fr \<Rightarrow> fr | None \<Rightarrow> ''stop''))]]),
        (''usage'', JObject
           [(''prompt_tokens'', json_u32 (or_zero (us_input_tokens (rs_usage resp)))),
            (''completion_tokens'', json_u32 (or_zero (us_output_tokens (rs_usage resp)))),
            (''total_tokens'', json_u32 (usage_total (rs_usage resp)))])]"

definition error_status :: "error \<Rightarrow> nat" where
  "error_status e =
     (case e of
        Validation _ _ \<Rightarrow> 400 | ModelRouting _ \<Rightarrow> 400
      | ProviderNotRegistered _ \<Rightarrow> 404
      | AccountSelection _ \<Rightarrow> 503
      | _ \<Rightarrow> 502)"

definition error_response :: "error \<Rightarrow> server_reply" where
  "error_response e =
     JsonReply (error_status e) (JObject [(''error'', JObject [(''message'', JString (error_text e))])])"

definition chunk_of :: "string \<Rightarrow> string \<Rightarrow> json" where
  "chunk_of model content =
     JObject
       [(''object'', JString ''chat.completion.chunk''),
        (''model'', JString model),
        (''choices'', JArray [JObject [(''index'', json_u32 0),
                                     (''delta'', JObject [(''content'', JString content)])]])]"

text \<open>The map over the stream; the flag is whether a delta was sent before.\<close>

fun server_frames :: "serde \<Rightarrow> string \<Rightarrow> bool \<Rightarrow> event_stream \<Rightarrow> sse_frame list" where
  "server_frames sj model emitted [] = []"
| "server_frames sj model emitted (Inr (TextDelta bytes) # es) =
     DataFrame (to_compact sj (chunk_of model (from_utf8_lossy bytes))) # server_frames sj model True es"
| "server_frames sj model emitted (Inr (Done resp) # es) =
     DataFrame (if emitted then ''[DONE]'' else to_compact sj (chunk_of model (response_text resp)))
     # server_frames sj model emitted es"
| "server_frames sj model emitted (Inr _ # es) = CommentFrame ''keepalive'' # server_frames sj model emitted es"
| "server_frames sj model emitted (Inl e # es) =
     DataFrame (to_compact sj (JObject [(''error'', JString (error_text e))])) # server_frames sj model emitted es"

text \<open>No reply is a panic of the handler's task.\<close>

definition buffered_response ::
    "'w server \<Rightarrow> resolved_account \<Rightarrow> chat_request \<Rightarrow> conversation \<Rightarrow> 'w \<Rightarrow> server_reply option \<times> 'w" where
  "buffered_response sv account req conv w =
     (case chat_over (sv_client sv) req [account] conv w of
        (Ok resp, w') \<Rightarrow> (Some (JsonReply 200 (openai_completion resp)), w')
      | (Err e, w') \<Rightarrow> (Some (error_response e), w')
      | (Panic, w') \<Rightarrow> (None, w'))"

definition stream_response ::
    "'w server \<Rightarrow> resolved_account \<Rightarrow> chat_request \<Rightarrow> conversation \<Rightarrow> 'w \<Rightarrow> server_reply option \<times> 'w" where
  "stream_response sv account req conv w =
     (case chat_stream_over (sv_client sv) req account conv w of
        (Inl e, w') \<Rightarrow> (Some (error_response e), w')
      | (Inr es, w') \<Rightarrow>
          (Some (SseReply (server_frames (cl_serde (sv_client sv)) (model_id_full_name (rq_model req)) False es)), w'))"

definition chat_completions ::
    "'w server \<Rightarrow> (string \<times> string) list \<Rightarrow> json \<Rightarrow> 'w \<Rightarrow> server_reply option \<times> 'w" where
  "chat_completions sv headers body w =
     (case server_prepare sv headers body of
        Inl e \<Rightarrow> (Some (error_response e), w)
      | Inr (account, req, stream) \<Rightarrow>
          (let conv = conversation_new []
           in if stream then stream_response sv account req conv w
              else buffered_response sv account req conv w))"

section \<open>Listings\<close>

definition server_health :: json where
  "server_health = JObject [(''status'', JString ''ok'')]"

fun tool_support_name :: "tool_support_mode \<Rightarrow> string" where
  "tool_support_name ToolNative = ''native''"
| "tool_support_name ToolJsonEmulated = ''jsonemulated''"
| "tool_support_name ToolNone = ''none''"

definition listed_models :: "'w registry \<Rightarrow> provider_name \<Rightarrow> string list" where
  "listed_models reg name = (case registry_provider reg name of Inr p \<Rightarrow> pv_list_models p | Inl _ \<Rightarrow> [])"

definition server_providers :: "'w registry \<Rightarrow> json" where
  "server_providers reg =
     JArray (map (\<lambda>(name, caps).
       JObject [(''name'', JString (provider_as_str name)),
                (''tool_support'', JString (tool_support_name (tool_support caps))),
                (''supports_system_prompt'', JBool (supports_system_prompt caps)),
                (''models'', JArray (map JString (listed_models reg name)))]) (iter_capabilities reg))"

definition server_models :: "'w registry \<Rightarrow> json" where
  "server_models reg =
     JObject [(''object'', JString ''list''),
       (''data'', JArray (concat (map (\<lambda>(name, _).
          map (\<lambda>m. JObject [(''id'', JString (provider_as_str name @ ''/'' @ m)),
                            (''object'', JString ''model''),
                            (''owned_by'', JString (provider_as_str name))]) (listed_models reg name))
          (iter_capabilities reg))))]"

section \<open>A gateway behind a gateway\<close>

definition completion_usage :: "usage \<Rightarrow> usage" where
  "completion_usage u =
     usage_of (Some (or_zero (us_input_tokens u))) (Some (or_zero (us_output_tokens u))) (Some (usage_total u))"

text \<open>
  What the server answers, the OpenAI adapter understands.  For every canonical response, the
  adapter reads the buffered reply back as the same text, with the same finish reason (\<open>stop\<close> when there
  was none), the counters with 0 for an absent one, and their total; tool calls, the provider's
  response id and the metadata are not part of the reply.
\<close>

theorem server_reply_roundtrip:
  "map_option (response_to_chat sj p model_full) (de_response (openai_completion resp)) =
     Some (Inr \<lparr>rs_model = model_full, rs_message = message_assistant (response_text resp),
                rs_usage = completion_usage (rs_usage resp), rs_tool_calls_executed = [],
                rs_provider_response_id = None,
                rs_finish_reason = Some (case rs_finish_reason resp of Some fr \<Rightarrow> fr | None \<Rightarrow> ''stop''),
                rs_metadata = metadata_new\<rparr>)"
proof -
  let ?fr = "case rs_finish_reason resp of Some fr \<Rightarrow> fr | None \<Rightarrow> ''stop''"
  let ?m = "\<lparr>orm_content = Some (response_text resp), orm_tool_calls = []\<rparr>"
  let ?choice = "\<lparr>och_message = Some ?m, och_delta = None, och_finish_reason = Some ?fr\<rparr>"
  let ?u = "JObject [(''prompt_tokens'', json_u32 (or_zero (us_input_tokens (rs_usage resp)))),
            (''completion_tokens'', json_u32 (or_zero (us_output_tokens (rs_usage resp)))),
            (''total_tokens'', json_u32 (usage_total (rs_usage resp)))]"
  obtain v where v: "de_usage ?u = Some v" "oai_usage_of v = completion_usage (rs_usage resp)"
    by (simp add: de_usage_def oai_usage_of_def completion_usage_def)
  have "de_resp_message (JObject [(''role'', JString ''assistant''), (''content'', JString (response_text resp))]) = Some ?m"
    by (simp add: de_resp_message_def) (simp add: de_default_def)
  then have "de_choice (JObject [(''index'', json_u32 0),
      (''message'', JObject [(''role'', JString ''assistant''), (''content'', JString (response_text resp))]),
      (''finish_reason'', JString ?fr)]) = Some ?choice"
    by (simp add: de_choice_def) (simp add: de_default_def de_option_def)
  then have "de_response (openai_completion resp) =
      Some \<lparr>ore_id = None, ore_model = Some (rs_model resp), ore_choices = [?choice], ore_usage = Some v\<rparr>"
    using v(1) by (simp add: de_response_def openai_completion_def) (simp add: de_default_def de_list_def de_option_def)
  then show ?thesis
    by (simp add: response_to_chat_def Let_def v(2) str_default_def reply_message_def)
qed

lemma reads_as_chunk:
  assumes "from_text sj t = Some (chunk_of model s)" and "trim t \<noteq> ''[DONE]''"
  shows "reads_as sj \<lparr>pc_content = Some s, pc_finish = None, pc_usage = None\<rparr> t"
proof -
  let ?delta = "\<lparr>orm_content = Some s, orm_tool_calls = []\<rparr>"
  let ?choice = "\<lparr>och_message = None, och_delta = Some ?delta, och_finish_reason = None\<rparr>"
  have "de_resp_message (JObject [(''content'', JString s)]) = Some ?delta"
    by (simp add: de_resp_message_def) (simp add: de_default_def)
  then have "de_choice (JObject [(''index'', json_u32 0), (''delta'', JObject [(''content'', JString s)])]) = Some ?choice"
    by (simp add: de_choice_def) (simp add: de_default_def de_option_def)
  then have "de_response (chunk_of model s) =
      Some \<lparr>ore_id = None, ore_model = Some model, ore_choices = [?choice], ore_usage = None\<rparr>"
    by (simp add: de_response_def chunk_of_def) (simp add: de_default_def de_list_def)
  then show ?thesis
    using assms by (simp add: reads_as_def oai_chunk_def Let_def piece_after_def piece_text_def)
qed

text \<open>
  The frames as they go over the connection, and the laws of the printer on the chunks of the stream:
  the printed JSON is text without line breaks that reads back as the chunk.
\<close>

fun frame_data :: "sse_frame \<Rightarrow> string option" where
  "frame_data (DataFrame t) = Some t"
| "frame_data (CommentFrame _) = None"

definition frame_lines :: "sse_frame \<Rightarrow> string list" where
  "frame_lines f =
     (case f of DataFrame t \<Rightarrow> event_lines (data_event t) | CommentFrame c \<Rightarrow> ['': '' @ c, []])"

definition chunk_printed :: "serde \<Rightarrow> string \<Rightarrow> string \<Rightarrow> bool" where
  "chunk_printed sj model s \<longleftrightarrow>
     (let t = to_compact sj (chunk_of model s)
      in from_text sj t = Some (chunk_of model s) \<and> trim t \<noteq> ''[DONE]'' \<and> event_ok (data_event t))"

definition streamed_reply :: "string list \<Rightarrow> chat_response \<Rightarrow> event_stream" where
  "streamed_reply ss resp = map (\<lambda>s. Inr (TextDelta (str_bytes s))) ss @ [Inr (Done resp)]"

lemma server_frames_reply:
  "list_all str_ok ss \<Longrightarrow>
   server_frames sj model emitted (streamed_reply ss resp) =
     map DataFrame (map (\<lambda>s. to_compact sj (chunk_of model s)) ss
       @ [if emitted \<or> ss \<noteq> [] then ''[DONE]'' else to_compact sj (chunk_of model (response_text resp))])"
  by (induction ss arbitrary: emitted) (auto simp: streamed_reply_def from_utf8_lossy_str_bytes)

text \<open>
  C21.  A streamed answer passes through a second gateway.  When a provider behind the server streams the
  texts \<open>ss\<close> and then its final response, the adapter of a client in front of it, reading the server's
  bytes cut anywhere, yields the non-empty texts as deltas in the same order and ends with their
  concatenation; when the provider only gave a final response, its text arrives as one delta.
\<close>

theorem server_stream_relayed:
  assumes "list_all str_ok ss" and "list_all (chunk_printed sj model) (response_text resp # ss)"
    and "frames = server_frames sj model False (streamed_reply ss resp)"
    and "concat reads = concat (map (wire_lines \<circ> frame_lines) frames)"
  shows "\<exists>final. oai_stream_loop sj full oai_progress_new (events (map Inr reads)) =
           text_deltas (if ss = [] then [response_text resp] else ss) @ [Inr (Done final)]
         \<and> response_text final = (if ss = [] then response_text resp else concat ss)
         \<and> response_tool_calls final = []"
proof -
  let ?print = "\<lambda>s. to_compact sj (chunk_of model s)"
  let ?piece = "\<lambda>s. \<lparr>pc_content = Some s, pc_finish = None, pc_usage = None\<rparr>"
  define xs where "xs = (if ss = [] then [response_text resp] else ss)"
  define rest where "rest = (if ss = [] then [] else [''[DONE]''])"
  have frames: "frames = map DataFrame (map ?print xs @ rest)"
    using assms(1,3) server_frames_reply [of ss sj model False resp] by (auto simp: xs_def rest_def)
  have printed: "list_all (chunk_printed sj model) xs" using assms(2) by (auto simp: xs_def)
  have ok: "\<forall>ev\<in>set (map data_event (map ?print xs @ rest)). event_ok ev"
    using printed done_event(2) by (auto simp: list_all_iff chunk_printed_def Let_def rest_def)
  have wire: "map (wire_lines \<circ> frame_lines) (map DataFrame ts) = map (\<lambda>ev. wire_lines (event_lines ev)) (map data_event ts)" for ts
    by (simp add: frame_lines_def comp_def)
  have "concat reads = concat (map (\<lambda>ev. wire_lines (event_lines ev)) (map data_event (map ?print xs @ rest)))"
    using assms(4) unfolding frames wire .
  from events_wire [OF ok this]
  have ev: "events (map Inr reads) = map Inr (map data_event (map ?print xs)) @ map Inr (map data_event rest)"
    by simp
  have "list_all2 (reads_as sj) (map ?piece xs) (map ?print xs)"
    using printed by (auto simp: list_all2_conv_all_nth list_all_length chunk_printed_def Let_def intro!: reads_as_chunk)
  from oai_stream_loop_reads [OF this, of full oai_progress_new "map Inr (map data_event rest)"]
  have "oai_stream_loop sj full oai_progress_new (events (map Inr reads)) =
      text_deltas xs @ [Inr (Done (oai_done full (fold piece_after (map ?piece xs) oai_progress_new)))]"
    using done_event(1) by (simp add: ev rest_def piece_text_def str_default_def comp_def)
  moreover have "op_text (fold piece_after (map ?piece xs) oai_progress_new) = concat xs"
    by (simp add: pieces_after oai_progress_new_def piece_text_def str_default_def comp_def)
  moreover have "response_text (oai_done full st) = op_text st" "response_tool_calls (oai_done full st) = []" for st
    by (simp_all add: oai_done_def response_text_def response_tool_calls_def message_defs message_text_def)
  moreover have "concat xs = (if ss = [] then response_text resp else concat ss)" by (simp add: xs_def)
  ultimately show ?thesis unfolding xs_def [symmetric] by metis
qed

text \<open>
  A stream that fails after it started sends the error as a data frame, which the adapter reads as a
  chunk without choices: the answer is cut short and still ends as if it were complete.
\<close>

lemma stream_error_unnoticed:
  assumes "from_text sj t = Some (JObject [(''error'', JString msg)])" and "trim t \<noteq> ''[DONE]''"
  shows "oai_stream_loop sj full st [Inr (data_event t)] = [Inr (Done (oai_done full st))]"
  using assms by (simp add: is_done_def data_event_def de_response_def oai_chunk_def de_default_def)

definition echo_serde :: "json \<Rightarrow> serde" where
  "echo_serde v =
     \<lparr>to_compact = \<lambda>_. ''x'', to_pretty = \<lambda>_. ''x'', from_text = \<lambda>_. Some v, stream_next = \<lambda>_. None,
      number_f64 = \<lambda>n. (case n of Float b \<Rightarrow> Some b | _ \<Rightarrow> None)\<rparr>"

lemma server_stream_relayed_witness:
  "\<exists>final. oai_stream_loop (echo_serde (chunk_of ''m'' ''hi'')) ''p/m'' oai_progress_new
       (events (map Inr [wire_lines [''data: x'', []], wire_lines [''data: [DONE]'', []]])) =
     [Inr (TextDelta (str_bytes ''hi'')), Inr (Done final)] \<and> response_text final = ''hi''"
proof -
  let ?sj = "echo_serde (chunk_of ''m'' ''hi'')" and ?resp = "sample_reply [] :: chat_response"
  let ?r = "?resp\<lparr>rs_message := message_assistant ''hi''\<rparr>"
  have ok: "str_ok ''hi'' \<and> trim ''x'' \<noteq> ''[DONE]'' \<and> event_ok (data_event ''x'')
      \<and> event_lines (data_event ''x'') = [''data: x'', []]
      \<and> event_lines (data_event ''[DONE]'') = [''data: [DONE]'', []]" by code_simp
  have t: "response_text ?r = ''hi''" by (simp add: response_text_def core_simps)
  have p: "list_all (chunk_printed ?sj ''m'') [response_text ?r, ''hi'']"
    using ok by (simp add: t chunk_printed_def echo_serde_def)
  have f: "server_frames ?sj ''m'' False (streamed_reply [''hi''] ?r) = [DataFrame ''x'', DataFrame ''[DONE]'']"
    using server_frames_reply [of "[''hi'']" ?sj "''m''" False ?r] ok by (simp add: echo_serde_def)
  from server_stream_relayed [OF _ p refl, of "[wire_lines [''data: x'', []], wire_lines [''data: [DONE]'', []]]" "''p/m''"]
  show ?thesis using ok unfolding f by (auto simp: frame_lines_def text_deltas_def)
qed

section \<open>A request through two gateways\<close>

lemma as_i64_json [simp]: "as_i64 (json_i64 n) = Some n"
proof (cases "sint n < 0")
  case False
  then have "\<not> bit (uint n) 63" by (simp add: sint_uint)
  then have "even (uint n div 2 ^ 63)" by (simp add: bit_iff_odd)
  moreover have "0 \<le> uint n div 2 ^ 63" "uint n div 2 ^ 63 < 2"
    using uint_bounded [of n] by (simp_all add: pos_imp_zdiv_nonneg_iff)
  moreover have "d = 0" if "even d" "0 \<le> d" "d < 2" for d :: int using that by presburger
  ultimately have "uint n div 2 ^ 63 = 0" by blast
  then have "n < 0x8000000000000000"
    using uint_bounded [of n] by (simp add: word_less_alt)
  then show ?thesis using False by (simp add: json_i64_def)
qed (simp add: json_i64_def)

lemma request_value_fields:
  "jget (oai_request_value f32 q) ''model'' = Some (JString (oq_model q))"
  "jget (oai_request_value f32 q) ''messages'' = Some (JArray (map oai_message_value (oq_messages q)))"
  "jget (oai_request_value f32 q) ''temperature'' = map_option f32 (oq_temperature q)"
  "jget (oai_request_value f32 q) ''max_tokens'' = map_option json_u32 (oq_max_tokens q)"
  "jget (oai_request_value f32 q) ''top_p'' = map_option f32 (oq_top_p q)"
  "jget (oai_request_value f32 q) ''seed'' = map_option json_i64 (oq_seed q)"
  "jget (oai_request_value f32 q) ''frequency_penalty'' = map_option f32 (oq_frequency_penalty q)"
  "jget (oai_request_value f32 q) ''presence_penalty'' = map_option f32 (oq_presence_penalty q)"
  "jget (oai_request_value f32 q) ''stream'' = Some (JBool (oq_stream q))"
  "jget (oai_request_value f32 q) ''system'' = None"
  "jget (oai_request_value f32 q) ''api_key'' = None"
  by (simp_all add: oai_request_value_def map_add_def split: option.split)

lemma build_request_sampling:
  "oq_temperature (build_request sj req stream) = sm_temperature (rq_sampling req)"
  "oq_max_tokens (build_request sj req stream) = sm_max_tokens (rq_sampling req)"
  "oq_top_p (build_request sj req stream) = sm_top_p (rq_sampling req)"
  "oq_seed (build_request sj req stream) = sm_seed (rq_sampling req)"
  "oq_frequency_penalty (build_request sj req stream) = sm_frequency_penalty (rq_sampling req)"
  "oq_presence_penalty (build_request sj req stream) = sm_presence_penalty (rq_sampling req)"
  by (simp_all add: build_request_def Let_def)

text \<open>What of a message is left: the role, and the text when it is plain.\<close>

definition relayed_message :: "serde \<Rightarrow> message \<Rightarrow> message" where
  "relayed_message sj m =
     message_bare (msg_role m)
       (Some (CText (case (msg_role m, msg_tool_result m) of
                       (RTool, Some tr) \<Rightarrow> content_string sj (tr_content tr)
                     | _ \<Rightarrow> message_text m)))"

lemma served_written: "served_message (oai_message_value (to_oai_message sj m)) = relayed_message sj m"
proof -
  have role: "served_role (Some (oai_role r)) = r" for r by (cases r) (simp_all add: served_role_def)
  have content_text: "str_default (Option.bind (map_option oai_content_value (Option.bind c to_oai_content)) as_str) =
      (case c of None \<Rightarrow> [] | Some c \<Rightarrow> content_as_text c)" for c
  proof (cases c)
    case (Some x)
    then show ?thesis by (cases x) (simp_all add: str_default_def Let_def)
  qed (simp add: str_default_def)
  have fields: "jget_str (oai_message_value om) ''role'' = Some (om_role om)"
    "jget_str (oai_message_value om) ''content'' = Option.bind (map_option oai_content_value (om_content om)) as_str"
    for om
    by (simp_all add: jget_str_def oai_message_value_def map_add_def split: option.split)
  show ?thesis
  proof (cases "msg_role m = RTool \<and> msg_tool_result m \<noteq> None")
    case True
    then show ?thesis
      by (auto simp: served_message_def fields to_oai_message_def relayed_message_def message_bare_def
          role [of RTool, simplified] str_default_def)
  next
    case False
    then have "to_oai_message sj m =
        \<lparr>om_role = oai_role (msg_role m), om_content = Option.bind (msg_content m) to_oai_content,
         om_tool_calls = map (to_oai_tool_call sj) (msg_tool_calls m), om_tool_call_id = None\<rparr>"
      by (auto simp: to_oai_message_def split: role.split option.split)
    then show ?thesis using False
      by (auto simp: served_message_def fields relayed_message_def message_bare_def role content_text
          message_text_def split: role.split option.split)
  qed
qed

definition relayed_request :: "serde \<Rightarrow> model_id \<Rightarrow> bool \<Rightarrow> chat_request \<Rightarrow> chat_request" where
  "relayed_request sj target stream req =
     (chat_request_new target
        ((case rq_system_prompt req of None \<Rightarrow> [] | Some s \<Rightarrow> [message_system s])
         @ map (relayed_message sj) (rq_messages req)))
       \<lparr>rq_sampling := (rq_sampling req)\<lparr>sm_stop := []\<rparr>, rq_stream := stream\<rparr>"

definition sampling_readable :: "serde \<Rightarrow> (u32 \<Rightarrow> json) \<Rightarrow> sampling \<Rightarrow> bool" where
  "sampling_readable sj f32 s \<longleftrightarrow>
     list_all (\<lambda>x. Option.bind (map_option f32 x) (\<lambda>v. map_option f64_to_f32 (as_f64 sj v)) = x)
       [sm_temperature s, sm_top_p s, sm_frequency_penalty s, sm_presence_penalty s]"

text \<open>
  A request through two gateways.  When the model of a canonical request is itself a gateway id
  \<open>provider/model\<close>, the server reads the adapter's request as a request to that provider with the system
  prompt as a first message, each message's role and plain text, and all sampling parameters but the
  stop sequences; tools, tool calls, images and the response format do not pass.
\<close>

theorem request_relayed:
  assumes "mid_model (rq_model req) = model_id_full_name target" and "model_id_ok target"
    and "registry_provider (cl_registry (sv_client sv)) (mid_provider target) = Inr p"
    and "sampling_readable (cl_serde (sv_client sv)) f32 (rq_sampling req)"
  shows "\<exists>account. server_prepare sv headers (oai_request_value f32 (build_request sj req stream)) =
       Inr (account, relayed_request sj target stream req, stream)
     \<and> ra_secret account = str_default (bearer_token headers)
     \<and> pa_provider (ra_account account) = mid_provider target"
proof -
  let ?q = "build_request sj req stream" and ?v = "oai_request_value f32 (build_request sj req stream)"
  have model: "jget_str ?v ''model'' = Some (model_id_full_name target)"
    using assms(1) by (simp add: jget_str_def request_value_fields build_request_def Let_def)
  have sys: "map served_message (map oai_message_value (oai_system sp)) =
      (case sp of None \<Rightarrow> [] | Some s \<Rightarrow> [message_system s])" for sp
    by (auto simp: oai_system_def served_message_def oai_message_value_def jget_str_def message_defs
        served_role_def str_default_def split: option.split)
  have msgs: "parse_messages (jget ?v ''messages'') =
      Inr ((case rq_system_prompt req of None \<Rightarrow> [] | Some s \<Rightarrow> [message_system s])
           @ map (relayed_message sj) (rq_messages req))"
    unfolding sys [symmetric]
    by (simp add: parse_messages_def request_value_fields build_request_def Let_def served_written comp_def)
  have f32: "body_f32 (cl_serde (sv_client sv)) ?v k = x"
    if "jget ?v k = map_option f32 x"
      "Option.bind (map_option f32 x) (\<lambda>v. map_option f64_to_f32 (as_f64 (cl_serde (sv_client sv)) v)) = x" for k x
    using that by (cases x) (simp_all add: body_f32_def)
  have tokens: "map_option (\<lambda>n. ucast n) (Option.bind (map_option json_u32 x) as_u64) = x" for x :: "u32 option"
    by (cases x) (simp_all add: json_u32_def ucast_up_ucast_id is_up)
  have seed: "Option.bind (map_option json_i64 x) as_i64 = x" for x by (cases x) simp_all
  have sampling: "server_sampling (cl_serde (sv_client sv)) ?v = (rq_sampling req)\<lparr>sm_stop := []\<rparr>"
    using assms(4) unfolding server_sampling_def sampling_readable_def
    by (simp add: f32 [OF request_value_fields(3)] f32 [OF request_value_fields(5)]
        f32 [OF request_value_fields(7)] f32 [OF request_value_fields(8)] request_value_fields tokens seed
        build_request_sampling)
  have "Option.bind (jget ?v ''stream'') as_bool = Some stream" "jget_str ?v ''system'' = None"
    "server_secret headers ?v = str_default (bearer_token headers)"
    by (simp_all add: request_value_fields jget_str_def server_secret_def build_request_def Let_def split: option.split)
  then show ?thesis
    using model_id_parse_full_name [OF assms(2)] assms(3) model msgs sampling
    by (auto simp: server_prepare_def build_transient_def server_options_def relayed_request_def
        chat_request_new_def Let_def)
qed

lemma request_relayed_witness:
  "\<exists>account. server_prepare
       \<lparr>sv_client = (sample_client False [])\<lparr>cl_serde := echo_serde JNull\<rparr>, sv_debug = \<lambda>s. s\<rparr>
       [(''authorization'', ''Bearer k'')]
       (oai_request_value (\<lambda>x. JNumber (Float (f32_to_f64 x)))
         (build_request (echo_serde JNull)
           ((chat_request_new \<lparr>mid_provider = Litellm, mid_model = ''claude/x''\<rparr> [message_user ''hi''])
              \<lparr>rq_sampling := sampling_default\<lparr>sm_temperature := Some 0x3F000000\<rparr>\<rparr>) False)) =
     Inr (account,
       (chat_request_new \<lparr>mid_provider = Claude, mid_model = ''x''\<rparr> [message_user ''hi''])
         \<lparr>rq_sampling := sampling_default\<lparr>sm_temperature := Some 0x3F000000\<rparr>\<rparr>, False)
   \<and> ra_secret account = ''k''"
proof -
  let ?sv = "\<lparr>sv_client = (sample_client False [])\<lparr>cl_serde := echo_serde JNull\<rparr>, sv_debug = \<lambda>s. s\<rparr> :: call_log server"
  let ?req = "(chat_request_new \<lparr>mid_provider = Litellm, mid_model = ''claude/x''\<rparr> [message_user ''hi''])
              \<lparr>rq_sampling := sampling_default\<lparr>sm_temperature := Some 0x3F000000\<rparr>\<rparr>"
  let ?target = "\<lparr>mid_provider = Claude, mid_model = ''x''\<rparr>"
  have "f32_finite 0x3F000000" by (simp add: f32_finite_def f32_exponent_def)
  then have "sampling_readable (echo_serde JNull) (\<lambda>x. JNumber (Float (f32_to_f64 x))) (rq_sampling ?req)"
    by (simp add: sampling_readable_def sampling_default_def echo_serde_def narrow_widen)
  moreover have "mid_model (rq_model ?req) = model_id_full_name ?target"
    by (simp add: chat_request_new_def model_id_full_name_def)
  moreover have "model_id_ok ?target" by (simp add: model_id_ok_def)
  moreover have "registry_provider (cl_registry (sv_client ?sv)) (mid_provider ?target) = Inr (scripted_provider False [])"
    by (simp add: sample_registry)
  moreover have "relayed_request (echo_serde JNull) ?target False ?req =
      (chat_request_new ?target [message_user ''hi''])
         \<lparr>rq_sampling := sampling_default\<lparr>sm_temperature := Some 0x3F000000\<rparr>\<rparr>"
    by (simp add: relayed_request_def chat_request_new_def relayed_message_def message_defs
        message_text_def sampling_default_def)
  moreover have "bearer_token [(''authorization'', ''Bearer k'')] = Some ''k''" by code_simp
  ultimately show ?thesis
    using request_relayed [of ?req ?target ?sv "scripted_provider False []" "\<lambda>x. JNumber (Float (f32_to_f64 x))"
        "[(''authorization'', ''Bearer k'')]" "echo_serde JNull" False]
    by (auto simp: str_default_def)
qed

text \<open>
  A transcript with a tool message never gets through: the role is kept but the result is not, so the
  client refuses the request before any provider is asked.
\<close>

lemma server_rejects_tool_messages:
  assumes "jget body ''messages'' = Some (JArray ms)" and "m \<in> set ms" and "jget_str m ''role'' = Some ''tool''"
  shows "\<exists>e. chat_completions sv headers body w = (Some (error_response e), w) \<and> error_status e \<in> {400, 404}"
proof (cases "server_prepare sv headers body")
  case (Inl e)
  then show ?thesis
    by (auto simp: chat_completions_def server_prepare_def build_transient_def registry_provider_def
        parse_messages_def error_status_def split: option.splits sum.splits)
next
  case (Inr r)
  obtain account req stream where r: "r = (account, req, stream)" by (cases r)
  have "served_message m \<in> set (rq_messages req)"
    using Inr r assms(1,2)
    by (auto simp: server_prepare_def parse_messages_def Let_def chat_request_new_def
        split: option.splits sum.splits)
  moreover have "msg_role (served_message m) = RTool" "msg_tool_result (served_message m) = None"
    using assms(3) by (simp_all add: served_message_def served_role_def)
  ultimately have "request_validate req \<noteq> Inr ()"
    by (auto simp: request_validate_iff transcript_ok_def)
  then obtain msg where "request_validate req = Inl msg" by (cases "request_validate req") auto
  then show ?thesis using Inr r
    by (auto simp: chat_completions_def buffered_response_def stream_response_def chat_over_def
        chat_stream_over_def error_status_def Let_def)
qed

end
