(* ===== verification/Ffi.thy ===== *)
theory Ffi
  imports Server
begin

text \<open>
  The C interface, \<open>gravity-ffi/src/convert.rs\<close> and \<open>lib.rs\<close>: the flat JSON of requests and responses, the strings
  that are handed over and given back, and the two forms of streaming, by callback and by pulling from a channel
  that a task of the runtime fills.

  The JSON reader's words and the debug printer are parameters of the engine.  A panic inside an exported
  function aborts the process: it has no result then.
\<close>

section \<open>Requests and responses as JSON\<close>

record 'w engine =
  en_client :: "'w client"
  en_debug :: "string \<Rightarrow> string"
  en_bad_json :: "string \<Rightarrow> string"

definition first_field :: "json \<Rightarrow> string list \<Rightarrow> string option" where
  "first_field v ks = (case List.map_filter (jget_str v) ks of s # _ \<Rightarrow> Some s | [] \<Rightarrow> None)"

definition secret_fields :: "string list" where
  "secret_fields = [''api_key'', ''session_key'', ''token'', ''access_token'']"

definition ffi_secret :: "json \<Rightarrow> string" where
  "ffi_secret v = str_default (first_field v secret_fields)"

definition chat_kind :: "provider_name \<Rightarrow> string" where
  "chat_kind p = (if p = Claude \<or> p = Chatgpt then ''session_cookie'' else ''api_key'')"

definition discover_kind :: "provider_name \<Rightarrow> string \<Rightarrow> string" where
  "discover_kind p secret =
     (if secret = [] then ''anonymous''
      else if p = Claude \<or> p = Chatgpt \<or> p = Gemini then ''session_cookie'' else ''api_key'')"

text \<open>\<open>as u32\<close> keeps the low half of the number.\<close>

definition field_u32 :: "json \<Rightarrow> string \<Rightarrow> u32 option" where
  "field_u32 v k = map_option (\<lambda>n. ucast n) (Option.bind (jget v k) as_u64)"

definition ffi_options :: "json \<Rightarrow> string \<Rightarrow> transient_options" where
  "ffi_options v kind =
     \<lparr>to_secret = ffi_secret v, to_kind = Some kind, to_base_url = jget_str v ''base_url'',
      to_impersonate = jget_str v ''impersonate'', to_proxy_url = first_field v [''proxy'', ''proxy_url''],
      to_timeout_ms = field_u32 v ''timeout_ms'', to_extra = metadata_new, to_device_id = jget_str v ''device_id'',
      to_org_id = jget_str v ''org_id''\<rparr>"

definition ffi_message :: "json \<Rightarrow> message" where
  "ffi_message m =
     message_bare (served_role (jget_str m ''role'')) (Some (CText (str_default (jget_str m ''content''))))"

definition ffi_messages :: "json option \<Rightarrow> error + message list" where
  "ffi_messages v =
     (case Option.bind v as_array of
        None \<Rightarrow> Inl (Validation (''missing '' @ quoted ''messages'' @ '' array'') ''ffi_missing_messages'')
      | Some arr \<Rightarrow> Inr (map ffi_message arr))"

definition ffi_tool :: "json \<Rightarrow> tool_definition option" where
  "ffi_tool t =
     map_option
       (\<lambda>name. \<lparr>td_name = name, td_description = str_default (jget_str t ''description''),
               td_input_schema =
                 (case Option.bind (case jget t ''input_schema'' of Some s \<Rightarrow> Some s | None \<Rightarrow> jget t ''parameters'') as_object of
                    Some m \<Rightarrow> m | None \<Rightarrow> [])\<rparr>)
       (jget_str t ''name'')"

definition ffi_tools :: "json option \<Rightarrow> tool_definition list" where
  "ffi_tools v = (case Option.bind v as_array of None \<Rightarrow> [] | Some arr \<Rightarrow> List.map_filter ffi_tool arr)"

definition ffi_sampling :: "serde \<Rightarrow> json \<Rightarrow> sampling" where
  "ffi_sampling sj v =
     \<lparr>sm_temperature = body_f32 sj v ''temperature'', sm_max_tokens = field_u32 v ''max_tokens'',
      sm_top_p = body_f32 sj v ''top_p'', sm_stop = [], sm_seed = Option.bind (jget v ''seed'') as_i64,
      sm_frequency_penalty = body_f32 sj v ''frequency_penalty'',
      sm_presence_penalty = body_f32 sj v ''presence_penalty''\<rparr>"

definition ffi_value :: "'w engine \<Rightarrow> string \<Rightarrow> error + json" where
  "ffi_value en body =
     (case from_text (cl_serde (en_client en)) body of
        None \<Rightarrow> Inl (Validation (''invalid request JSON: '' @ en_bad_json en body) ''ffi_bad_json'')
      | Some v \<Rightarrow> Inr v)"

definition ffi_provider :: "'w engine \<Rightarrow> json \<Rightarrow> error + provider_name" where
  "ffi_provider en v =
     (case jget_str v ''provider'' of
        None \<Rightarrow> Inl (Validation (''missing '' @ quoted ''provider'') ''ffi_missing_provider'')
      | Some s \<Rightarrow>
          (case provider_from_str s of
             Inl _ \<Rightarrow> Inl (Validation (''unknown provider '' @ en_debug en s) ''ffi_unknown_provider'')
           | Inr p \<Rightarrow> Inr p))"

definition parse_chat_request :: "'w engine \<Rightarrow> string \<Rightarrow> error + resolved_account \<times> chat_request" where
  "parse_chat_request en body =
     (case ffi_value en body of
        Inl e \<Rightarrow> Inl e
      | Inr v \<Rightarrow>
          (case ffi_provider en v of
             Inl e \<Rightarrow> Inl e
           | Inr provider \<Rightarrow>
               (case jget_str v ''model'' of
                  None \<Rightarrow> Inl (Validation (''missing '' @ quoted ''model'') ''ffi_missing_model'')
                | Some name \<Rightarrow>
                    (case model_id_new provider name of
                       Inl e \<Rightarrow> Inl (Validation (parse_error_text (en_debug en) e) ''ffi_bad_model'')
                     | Inr model \<Rightarrow>
                         (case ffi_messages (jget v ''messages'') of
                            Inl e \<Rightarrow> Inl e
                          | Inr messages \<Rightarrow>
                              (case build_transient (cl_registry (en_client en)) provider
                                      (ffi_options v (chat_kind provider)) of
                                 Inl e \<Rightarrow> Inl e
                               | Inr account \<Rightarrow>
                                   Inr (account,
                                     (chat_request_new model messages)
                                       \<lparr>rq_system_prompt := jget_str v ''system_prompt'',
                                        rq_sampling := ffi_sampling (cl_serde (en_client en)) v,
                                        rq_tools := ffi_tools (jget v ''tools''),
                                        rq_stream := (case Option.bind (jget v ''stream'') as_bool of
                                                        Some b \<Rightarrow> b | None \<Rightarrow> False)\<rparr>)))))))"

definition parse_discover_request :: "'w engine \<Rightarrow> string \<Rightarrow> error + provider_name \<times> resolved_account" where
  "parse_discover_request en body =
     (case ffi_value en body of
        Inl e \<Rightarrow> Inl e
      | Inr v \<Rightarrow>
          (case ffi_provider en v of
             Inl e \<Rightarrow> Inl e
           | Inr provider \<Rightarrow>
               (case build_transient (cl_registry (en_client en)) provider
                       (ffi_options v (discover_kind provider (ffi_secret v))) of
                  Inl e \<Rightarrow> Inl e
                | Inr account \<Rightarrow> Inr (provider, account))))"

text \<open>The JSON of an optional value.\<close>

definition or_null :: "('a \<Rightarrow> json) \<Rightarrow> 'a option \<Rightarrow> json" where
  "or_null f x = (case x of None \<Rightarrow> JNull | Some y \<Rightarrow> f y)"

definition model_entry :: "provider_name \<Rightarrow> model_info \<Rightarrow> json" where
  "model_entry p m =
     JObject [(''id'', JString (provider_as_str p @ ''/'' @ mi_id m)), (''model'', JString (mi_id m)),
              (''provider'', JString (provider_as_str p)), (''display_name'', or_null JString (mi_display_name m)),
              (''description'', or_null JString (mi_description m)), (''tags'', JArray (map JString (mi_tags m)))]"

definition models_to_json :: "provider_name \<Rightarrow> model_info list \<Rightarrow> json" where
  "models_to_json p models =
     JObject [(''object'', JString ''list''), (''provider'', JString (provider_as_str p)),
              (''data'', JArray (map (model_entry p) models))]"

definition call_to_json :: "tool_call \<Rightarrow> json" where
  "call_to_json tc =
     JObject [(''id'', JString (tc_id tc)), (''name'', JString (tc_name tc)), (''arguments'', JObject (tc_arguments tc))]"

definition response_to_json :: "chat_response \<Rightarrow> json" where
  "response_to_json resp =
     JObject [(''content'', JString (response_text resp)), (''model'', JString (rs_model resp)),
              (''finish_reason'', or_null JString (rs_finish_reason resp)),
              (''tool_calls'', JArray (map call_to_json (response_tool_calls resp))),
              (''input_tokens'', or_null json_u32 (us_input_tokens (rs_usage resp))),
              (''output_tokens'', or_null json_u32 (us_output_tokens (rs_usage resp)))]"

fun tool_support_str :: "tool_support_mode \<Rightarrow> string" where
  "tool_support_str ToolNative = ''native''"
| "tool_support_str ToolJsonEmulated = ''json_emulated''"
| "tool_support_str ToolNone = ''none''"

fun structured_str :: "structured_output_mode \<Rightarrow> string" where
  "structured_str OutNative = ''native''"
| "structured_str OutJsonInstruction = ''json_instruction''"
| "structured_str OutNone = ''none''"

definition providers_list_json :: "'w registry \<Rightarrow> json" where
  "providers_list_json reg =
     JArray (map (\<lambda>(name, caps).
       JObject [(''name'', JString (provider_as_str name)),
                (''tool_support'', JString (tool_support_str (tool_support caps))),
                (''structured_output'', JString (structured_str (structured_output caps))),
                (''supports_system_prompt'', JBool (supports_system_prompt caps))]) (iter_capabilities reg))"

definition error_json :: "error \<Rightarrow> json" where
  "error_json e = JObject [(''error'', JString (error_text e))]"

section \<open>Strings that change hands\<close>

text \<open>
  The strings the library has given out and not got back, by their address.  The world is that of the client.
\<close>

record 'w process =
  pr_world :: 'w
  pr_strings :: "nat \<rightharpoonup> string"
  pr_next :: nat

definition into_c_string :: "string \<Rightarrow> string" where
  "into_c_string s =
     (if CHR 0x00 \<in> set s
      then ''{'' @ [CHR 0x22] @ ''error'' @ [CHR 0x22] @ '':'' @ [CHR 0x22] @ ''response contained interior NUL''
             @ [CHR 0x22] @ ''}''
      else s)"

definition give_out :: "string \<Rightarrow> 'w process \<Rightarrow> nat \<times> 'w process" where
  "give_out s pr =
     (pr_next pr, pr\<lparr>pr_strings := (pr_strings pr)(pr_next pr \<mapsto> into_c_string s), pr_next := Suc (pr_next pr)\<rparr>)"

definition json_c_string :: "serde \<Rightarrow> json \<Rightarrow> 'w process \<Rightarrow> nat \<times> 'w process" where
  "json_c_string sj v pr = give_out (to_compact sj v) pr"

definition gravity_version :: string where
  "gravity_version = ''gravity/2.0.0''"

text \<open>A null pointer is \<open>None\<close>; giving back what was not given out is undefined, and has no result.\<close>

definition gravity_free_string :: "nat option \<Rightarrow> 'w process \<Rightarrow> 'w process option" where
  "gravity_free_string ptr pr =
     (case ptr of
        None \<Rightarrow> Some pr
      | Some p \<Rightarrow> (if pr_strings pr p = None then None else Some (pr\<lparr>pr_strings := (pr_strings pr)(p := None)\<rparr>)))"

definition null_request :: json where
  "null_request = JObject [(''error'', JString ''null or invalid request_json'')]"

text \<open>A request that is null or not UTF-8 is \<open>None\<close>.\<close>

definition gravity_chat :: "'w engine \<Rightarrow> string option \<Rightarrow> 'w process \<Rightarrow> (nat \<times> 'w process) option" where
  "gravity_chat en request pr =
     (let sj = cl_serde (en_client en)
      in case request of
           None \<Rightarrow> Some (json_c_string sj null_request pr)
         | Some body \<Rightarrow>
             (case parse_chat_request en body of
                Inl e \<Rightarrow> Some (json_c_string sj (error_json e) pr)
              | Inr (account, req) \<Rightarrow>
                  (case chat_over (en_client en) req [account] (conversation_new []) (pr_world pr) of
                     (Ok resp, w) \<Rightarrow> Some (json_c_string sj (response_to_json resp) (pr\<lparr>pr_world := w\<rparr>))
                   | (Err e, w) \<Rightarrow> Some (json_c_string sj (error_json e) (pr\<lparr>pr_world := w\<rparr>))
                   | (Panic, w) \<Rightarrow> None)))"

definition gravity_list_providers :: "'w engine \<Rightarrow> 'w process \<Rightarrow> nat \<times> 'w process" where
  "gravity_list_providers en pr =
     json_c_string (cl_serde (en_client en)) (providers_list_json (cl_registry (en_client en))) pr"

definition gravity_discover_models :: "'w engine \<Rightarrow> string option \<Rightarrow> 'w process \<Rightarrow> nat \<times> 'w process" where
  "gravity_discover_models en request pr =
     (let sj = cl_serde (en_client en)
      in case request of
           None \<Rightarrow> json_c_string sj null_request pr
         | Some body \<Rightarrow>
             (case parse_discover_request en body of
                Inl e \<Rightarrow> json_c_string sj (error_json e) pr
              | Inr (provider, account) \<Rightarrow>
                  (case discover_models_over (en_client en) provider account (pr_world pr) of
                     (Inr models, w) \<Rightarrow> json_c_string sj (models_to_json provider models) (pr\<lparr>pr_world := w\<rparr>)
                   | (Inl e, w) \<Rightarrow> json_c_string sj (error_json e) (pr\<lparr>pr_world := w\<rparr>))))"

definition gravity_embeddings :: "'w engine \<Rightarrow> string option \<Rightarrow> 'w process \<Rightarrow> nat \<times> 'w process" where
  "gravity_embeddings en request pr =
     json_c_string (cl_serde (en_client en))
       (case request of
          None \<Rightarrow> null_request
        | Some _ \<Rightarrow> JObject [(''error'', JString ''embeddings not yet supported for this provider'')]) pr"

text \<open>The strings out there are C strings, at addresses that will not be given again.\<close>

definition process_ok :: "'w process \<Rightarrow> bool" where
  "process_ok pr \<longleftrightarrow> (\<forall>p t. pr_strings pr p = Some t \<longrightarrow> p < pr_next pr \<and> CHR 0x00 \<notin> set t)"

definition handed_over :: "'w process \<Rightarrow> nat \<times> 'w process \<Rightarrow> bool" where
  "handed_over pr r \<longleftrightarrow>
     (\<exists>t. CHR 0x00 \<notin> set t \<and> fst r = pr_next pr \<and> pr_strings (snd r) = (pr_strings pr)(pr_next pr \<mapsto> t)
        \<and> pr_next (snd r) = Suc (pr_next pr))"

lemma into_c_string_clean: "CHR 0x00 \<notin> set (into_c_string s)"
  by (simp add: into_c_string_def)

lemma json_handed_over:
  "handed_over pr (json_c_string sj v pr)" "handed_over pr (json_c_string sj v (pr\<lparr>pr_world := w\<rparr>))"
  using into_c_string_clean [of "to_compact sj v"] by (auto simp: handed_over_def json_c_string_def give_out_def)

lemma exported_hand_over:
  "pred_option (handed_over pr) (gravity_chat en request pr)"
  "handed_over pr (gravity_list_providers en pr)" "handed_over pr (gravity_discover_models en request pr)"
  "handed_over pr (gravity_embeddings en request pr)"
  by (simp_all add: gravity_chat_def gravity_list_providers_def gravity_discover_models_def gravity_embeddings_def
      json_handed_over Let_def split_beta split: option.split sum.split outcome.split)

lemma handed_over_owned:
  assumes "process_ok pr" and "handed_over pr (p, pr')"
  shows "process_ok pr' \<and> pr_strings pr p = None
     \<and> (\<exists>pr''. gravity_free_string (Some p) pr' = Some pr'' \<and> process_ok pr'' \<and> pr_strings pr'' = pr_strings pr
          \<and> gravity_free_string (Some p) pr'' = None)"
proof -
  obtain t where t: "CHR 0x00 \<notin> set t" "p = pr_next pr" "pr_strings pr' = (pr_strings pr)(p \<mapsto> t)" "pr_next pr' = Suc p"
    using assms(2) by (auto simp: handed_over_def)
  have none: "pr_strings pr p = None"
    using assms(1) t(2) by (metis less_irrefl not_None_eq process_ok_def)
  have "process_ok pr'" using assms(1) t by (auto simp: process_ok_def less_Suc_eq)
  moreover have "process_ok (pr'\<lparr>pr_strings := pr_strings pr\<rparr>)"
    using assms(1) t(2,4) by (auto simp: process_ok_def less_Suc_eq)
  moreover have "gravity_free_string (Some p) pr' = Some (pr'\<lparr>pr_strings := pr_strings pr\<rparr>)"
    using t(3) none by (simp add: gravity_free_string_def fun_upd_idem)
  ultimately show ?thesis using none by (auto simp: gravity_free_string_def)
qed



section \<open>Streaming by callback\<close>

text \<open>
  The tokens the callback is called with, and whether the stream ended without an error.  A text with a null
  byte is no C string and is passed over.
\<close>

definition token_of :: "string \<Rightarrow> string list" where
  "token_of s = (if CHR 0x00 \<in> set s then [] else [s])"

definition heard :: "string list \<Rightarrow> string list \<times> bool \<Rightarrow> string list \<times> bool" where
  "heard ts r = (ts @ fst r, snd r)"

fun callback_tokens :: "bool \<Rightarrow> event_stream \<Rightarrow> string list \<times> bool" where
  "callback_tokens emitted [] = ([], True)"
| "callback_tokens emitted (Inl e # es) = ([], False)"
| "callback_tokens emitted (Inr (TextDelta b) # es) = heard (token_of (bytes_str b)) (callback_tokens True es)"
| "callback_tokens emitted (Inr (Done resp) # es) =
     heard (if emitted then [] else token_of (response_text resp)) (callback_tokens emitted es)"
| "callback_tokens emitted (Inr _ # es) = callback_tokens emitted es"

text \<open>The calls of the callback and the code that is returned.\<close>

definition gravity_chat_stream :: "'w engine \<Rightarrow> string option \<Rightarrow> 'w \<Rightarrow> (string list \<times> int) \<times> 'w" where
  "gravity_chat_stream en request w =
     (case request of
        None \<Rightarrow> (([], -1), w)
      | Some body \<Rightarrow>
          (case parse_chat_request en body of
             Inl e \<Rightarrow> (([], -1), w)
           | Inr (account, req) \<Rightarrow>
               (case chat_stream_over (en_client en) req account (conversation_new []) w of
                  (Inl e, w') \<Rightarrow> (([], -1), w')
                | (Inr es, w') \<Rightarrow>
                    (case callback_tokens False es of (ts, ok) \<Rightarrow> ((ts, if ok then 0 else -1), w')))))"

section \<open>Streaming by pulling\<close>

text \<open>
  A task reads the events and sends items, the text of a token or of an error, over a channel; the caller takes
  them.  One turn of the task's loop: what is sent, whether the loop ends when nobody can receive it any more,
  and whether a text has been sent when the loop goes on.
\<close>

type_synonym pull_item = "string + string"

record loop_turn =
  lt_send :: "pull_item option"
  lt_needs_receiver :: bool
  lt_next :: "bool option"

definition c_turn :: "bool \<Rightarrow> error + stream_event \<Rightarrow> loop_turn" where
  "c_turn emitted ev =
     (case ev of
        Inr (TextDelta b) \<Rightarrow>
          \<lparr>lt_send = Some (Inr (from_utf8_lossy b)), lt_needs_receiver = True, lt_next = Some True\<rparr>
      | Inr (Done resp) \<Rightarrow>
          \<lparr>lt_send = (if emitted then None else Some (Inr (response_text resp))), lt_needs_receiver = False,
           lt_next = Some emitted\<rparr>
      | Inr _ \<Rightarrow> \<lparr>lt_send = None, lt_needs_receiver = False, lt_next = Some emitted\<rparr>
      | Inl e \<Rightarrow> \<lparr>lt_send = Some (Inl (error_text e)), lt_needs_receiver = False, lt_next = None\<rparr>)"

text \<open>The state of a stream: the task's rest, the channel, what was taken, whether the receiver is there.\<close>

record pull_state =
  ps_task :: "(bool \<times> event_stream) option"
  ps_queue :: "pull_item list"
  ps_taken :: "pull_item list"
  ps_open :: bool

definition send_item :: "pull_item option \<Rightarrow> pull_state \<Rightarrow> pull_state" where
  "send_item x st =
     (case x of None \<Rightarrow> st | Some i \<Rightarrow> (if ps_open st then st\<lparr>ps_queue := ps_queue st @ [i]\<rparr> else st))"

fun produce :: "(bool \<Rightarrow> error + stream_event \<Rightarrow> loop_turn) \<Rightarrow> pull_state \<Rightarrow> pull_state option" where
  "produce turn st =
     (case ps_task st of
        None \<Rightarrow> None
      | Some (emitted, []) \<Rightarrow> Some (st\<lparr>ps_task := None\<rparr>)
      | Some (emitted, ev # es) \<Rightarrow>
          (let t = turn emitted ev
           in Some ((send_item (lt_send t) st)
                \<lparr>ps_task := (if lt_needs_receiver t \<and> \<not> ps_open st then None
                             else map_option (\<lambda>em. (em, es)) (lt_next t))\<rparr>)))"

definition take_item :: "pull_state \<Rightarrow> pull_state option" where
  "take_item st =
     (case ps_queue st of
        [] \<Rightarrow> None
      | i # q \<Rightarrow> (if ps_open st then Some (st\<lparr>ps_queue := q, ps_taken := ps_taken st @ [i]\<rparr>) else None))"

definition close_pull :: "pull_state \<Rightarrow> pull_state" where
  "close_pull st = st\<lparr>ps_open := False, ps_queue := []\<rparr>"

inductive pull_step :: "(bool \<Rightarrow> error + stream_event \<Rightarrow> loop_turn) \<Rightarrow> pull_state \<Rightarrow> pull_state \<Rightarrow> bool" for turn where
  task_runs: "produce turn st = Some st' \<Longrightarrow> pull_step turn st st'"
| item_taken: "take_item st = Some st' \<Longrightarrow> pull_step turn st st'"
| closed: "ps_open st \<Longrightarrow> pull_step turn st (close_pull st)"

inductive_cases pull_stepE: "pull_step turn st st'"

text \<open>A failure to open the stream is sent as an error of the stream is.\<close>

definition pull_start :: "error + event_stream \<Rightarrow> pull_state" where
  "pull_start r =
     \<lparr>ps_task = Some (False, case r of Inl e \<Rightarrow> [Inl e] | Inr es \<Rightarrow> es), ps_queue = [], ps_taken = [], ps_open = True\<rparr>"

definition gravity_stream_open :: "'w engine \<Rightarrow> string option \<Rightarrow> 'w \<Rightarrow> pull_state option \<times> 'w" where
  "gravity_stream_open en request w =
     (case request of
        None \<Rightarrow> (None, w)
      | Some body \<Rightarrow>
          (case parse_chat_request en body of
             Inl e \<Rightarrow> (None, w)
           | Inr (account, req) \<Rightarrow>
               (case chat_stream_over (en_client en) req account (conversation_new []) w of
                  (r, w') \<Rightarrow> (Some (pull_start r), w'))))"

text \<open>What an item is given out as; the end of the channel is the null pointer.\<close>

definition item_text :: "serde \<Rightarrow> pull_item \<Rightarrow> string" where
  "item_text sj i =
     (case i of Inr token \<Rightarrow> token | Inl e \<Rightarrow> to_compact sj (JObject [(''error'', JString e)]))"

definition pull_ended :: "pull_state \<Rightarrow> bool" where
  "pull_ended st \<longleftrightarrow> ps_open st \<and> ps_queue st = [] \<and> ps_task st = None"

section \<open>What a stream delivers\<close>

fun task_items :: "(bool \<Rightarrow> error + stream_event \<Rightarrow> loop_turn) \<Rightarrow> bool \<Rightarrow> event_stream \<Rightarrow> pull_item list" where
  "task_items turn emitted [] = []"
| "task_items turn emitted (ev # es) =
     (case lt_send (turn emitted ev) of None \<Rightarrow> [] | Some i \<Rightarrow> [i])
     @ (case lt_next (turn emitted ev) of None \<Rightarrow> [] | Some em \<Rightarrow> task_items turn em es)"

definition undelivered :: "(bool \<Rightarrow> error + stream_event \<Rightarrow> loop_turn) \<Rightarrow> pull_state \<Rightarrow> pull_item list" where
  "undelivered turn st =
     ps_queue st @ (case ps_task st of None \<Rightarrow> [] | Some (em, es) \<Rightarrow> task_items turn em es)"

lemma pull_step_open:
  assumes "pull_step turn st st'" and "ps_open st'"
  shows "ps_open st \<and> ps_taken st' @ undelivered turn st' = ps_taken st @ undelivered turn st"
  using assms
proof cases
  case task_runs
  then show ?thesis
    using assms(2)
    by (auto simp: undelivered_def send_item_def Let_def split: option.splits prod.splits list.splits if_splits)
next
  case item_taken
  then show ?thesis using assms(2) by (auto simp: take_item_def undelivered_def split: list.splits if_splits)
next
  case closed
  then show ?thesis using assms(2) by (simp add: close_pull_def)
qed

definition pull_work :: "pull_state \<Rightarrow> nat" where
  "pull_work st =
     length (ps_queue st) + (case ps_task st of None \<Rightarrow> 0 | Some (em, es) \<Rightarrow> 2 * length es + 1)
     + (if ps_open st then 1 else 0)"

lemma pull_step_work: "pull_step turn st st' \<Longrightarrow> pull_work st' < pull_work st"
  by (erule pull_stepE)
    (auto simp: pull_work_def send_item_def take_item_def close_pull_def Let_def
      split: option.splits prod.splits list.splits if_splits)

lemma pull_open_progress:
  assumes "ps_open st" and "\<not> pull_ended st"
  shows "(\<exists>st'. produce turn st = Some st') \<or> (\<exists>st'. take_item st = Some st')"
  using assms by (auto simp: pull_ended_def take_item_def Let_def split: option.splits prod.splits list.splits)

text \<open>
  C7.  A pulled stream is delivered in order under every schedule.  However the runs of the task and the takes of the
  caller interleave, as long as the caller has not closed the stream: what was taken, what is in the channel and
  what the task has still to send are together the items of the stream; when the caller is told the end, it has
  them all; until then the task can run or an item can be taken.  Every run ends, and once the stream is
  closed nothing is taken any more.
\<close>

theorem pull_stream_delivers:
  assumes "(pull_step turn)\<^sup>*\<^sup>* (pull_start r) st"
  defines "items \<equiv> task_items turn False (case r of Inl e \<Rightarrow> [Inl e] | Inr es \<Rightarrow> es)"
  shows "(ps_open st \<longrightarrow> ps_taken st @ undelivered turn st = items)
   \<and> (pull_ended st \<longrightarrow> ps_taken st = items)
   \<and> (ps_open st \<longrightarrow> pull_ended st \<or> (\<exists>st'. produce turn st = Some st') \<or> (\<exists>st'. take_item st = Some st'))
   \<and> (\<forall>st'. pull_step turn st st' \<longrightarrow> pull_work st' < pull_work st)
   \<and> (\<not> ps_open st \<longrightarrow> take_item st = None)"
proof -
  have inv: "ps_open st \<longrightarrow> ps_taken st @ undelivered turn st = items"
    using assms(1)
  proof (induction rule: rtranclp_induct)
    case base
    show ?case by (simp add: pull_start_def undelivered_def items_def)
  next
    case (step st st')
    then show ?case using pull_step_open [of turn st st'] by auto
  qed
  moreover have "pull_ended st \<longrightarrow> ps_taken st = items"
    using inv by (auto simp: pull_ended_def undelivered_def)
  moreover have "\<not> ps_open st \<longrightarrow> take_item st = None" by (simp add: take_item_def split: list.split)
  ultimately show ?thesis using pull_open_progress [of st turn] pull_step_work [of turn st] by blast
qed

text \<open>The answer of a provider that streams the texts \<open>ss\<close> and ends with the response: its texts, or the whole.\<close>

lemma c_items_reply:
  "list_all str_ok ss \<Longrightarrow>
   task_items c_turn emitted (streamed_reply ss resp) =
     map Inr (if emitted \<or> ss \<noteq> [] then ss else [response_text resp])"
  by (induction ss arbitrary: emitted) (auto simp: streamed_reply_def c_turn_def from_utf8_lossy_str_bytes)

lemma callback_reply:
  "list_all (\<lambda>s. CHR 0x00 \<notin> set s) ss \<Longrightarrow> CHR 0x00 \<notin> set (response_text resp) \<Longrightarrow>
   callback_tokens emitted (streamed_reply ss resp) =
     (if emitted \<or> ss \<noteq> [] then ss else [response_text resp], True)"
  by (induction ss arbitrary: emitted) (auto simp: streamed_reply_def token_of_def heard_def)

lemma pull_stream_delivers_witness:
  "\<exists>st. (pull_step c_turn)\<^sup>*\<^sup>* (pull_start (Inr [Inr (TextDelta (str_bytes ''a'')), Inl (Network ''down'')])) st
     \<and> pull_ended st \<and> ps_taken st = [Inr ''a'', Inl (error_text (Network ''down''))]"
proof -
  let ?es = "[Inr (TextDelta (str_bytes ''a'')), Inl (Network ''down'')] :: event_stream"
  let ?e = "Inl (error_text (Network ''down'')) :: pull_item"
  have a: "from_utf8_lossy (str_bytes ''a'') = ''a''" by code_simp
  let ?s1 = "\<lparr>ps_task = Some (True, [Inl (Network ''down'')]), ps_queue = [Inr ''a''], ps_taken = [], ps_open = True\<rparr>"
  let ?s2 = "\<lparr>ps_task = Some (True, [Inl (Network ''down'')]), ps_queue = [], ps_taken = [Inr ''a''], ps_open = True\<rparr>"
  let ?s3 = "\<lparr>ps_task = None, ps_queue = [?e], ps_taken = [Inr ''a''], ps_open = True\<rparr>"
  let ?s4 = "\<lparr>ps_task = None, ps_queue = [], ps_taken = [Inr ''a'', ?e], ps_open = True\<rparr>"
  have "pull_step c_turn (pull_start (Inr ?es)) ?s1"
    by (rule task_runs) (simp add: pull_start_def c_turn_def send_item_def a)
  moreover have "pull_step c_turn ?s1 ?s2" by (rule item_taken) (simp add: take_item_def)
  moreover have "pull_step c_turn ?s2 ?s3" by (rule task_runs) (simp add: c_turn_def send_item_def)
  moreover have "pull_step c_turn ?s3 ?s4" by (rule item_taken) (simp add: take_item_def)
  ultimately have run: "(pull_step c_turn)\<^sup>*\<^sup>* (pull_start (Inr ?es)) ?s4"
    by (meson rtranclp.rtrancl_into_rtrancl rtranclp.rtrancl_refl)
  moreover have "pull_ended ?s4" by (simp add: pull_ended_def)
  ultimately show ?thesis
    using pull_stream_delivers [OF run] by (intro exI [of _ ?s4]) (simp add: c_turn_def a)
qed

section \<open>What crosses the boundary\<close>

text \<open>
  An empty delta counts as a text that was sent: the text of a response after it is never handed over, by
  neither form, while the blocking collector of the client hands it over.
\<close>

lemma empty_delta_silences:
  "callback_tokens False [Inr (TextDelta []), Inr (Done resp)] = ([[]], True)
   \<and> task_items c_turn False [Inr (TextDelta []), Inr (Done resp)] = [Inr []]
   \<and> collect_chunks [] [Inr (TextDelta []), Inr (Done resp)] =
       Inr (if response_text resp = [] then [] else [response_text resp])"
proof -
  have "from_utf8_lossy [] = []" "bytes_str [] = []" by code_simp+
  then show ?thesis by (simp add: token_of_def heard_def c_turn_def)
qed

text \<open>A message of the role \<open>tool\<close> has no result in this form of a request, so that every request with one is refused.\<close>

lemma ffi_rejects_tool_messages:
  assumes "parse_chat_request en body = Inr (account, req)" and "from_text (cl_serde (en_client en)) body = Some v"
    and "jget v ''messages'' = Some (JArray ms)" and "m \<in> set ms" and "jget_str m ''role'' = Some ''tool''"
  shows "\<exists>e. chat_over (en_client en) req [account] conv w = (Err e, w)"
proof -
  have "rq_messages req = map ffi_message ms"
    using assms(1-3)
    by (auto simp: parse_chat_request_def ffi_value_def ffi_messages_def chat_request_new_def
        split: sum.splits option.splits)
  moreover have "msg_role (ffi_message m) = RTool \<and> msg_tool_result (ffi_message m) = None"
    using assms(5) by (simp add: ffi_message_def served_role_def message_bare_def)
  ultimately have "\<not> transcript_ok (rq_messages req)" using assms(4) by (auto simp: transcript_ok_def)
  then have "request_validate req \<noteq> Inr ()" by (simp add: request_validate_iff)
  then show ?thesis by (auto simp: chat_over_def split: sum.split)
qed


end
