(* ===== verification/Bindings.thy ===== *)
theory Bindings
  imports Ffi
begin

text \<open>
  The Python interface (\<open>gravity-pyo3/src/lib.rs\<close>) and the Node interface (\<open>gravity-node/src/lib.rs\<close>): how they
  read the arguments of a chat, what they give back, and how they stream.

  A Python dictionary with string keys is the list of its items, as JSON values, of which only strings are
  looked at; the objects of Node are records of the declared fields.  The crates that convert values between the
  languages are not part of the model.
\<close>

section \<open>Common parts\<close>

definition parse_role :: "string \<Rightarrow> role" where
  "parse_role s =
     (if s = ''system'' then RSystem else if s = ''assistant'' then RAssistant else if s = ''tool'' then RTool else RUser)"

definition plain_message :: "role \<Rightarrow> string \<Rightarrow> message" where
  "plain_message r s = message_bare r (Some (CText s))"

definition default_schema :: jmap where
  "default_schema = [(''type'', JString ''object'')]"

definition default_schema_text :: string where
  "default_schema_text =
     ''{'' @ [CHR 0x22] @ ''type'' @ [CHR 0x22] @ '':'' @ [CHR 0x22] @ ''object'' @ [CHR 0x22] @ ''}''"

text \<open>\<open>ToolSupportMode\<close> as its debug printer writes it, in lower case, is \<open>tool_support_name\<close>.\<close>

section \<open>Python\<close>

datatype py_error = PyValue string | PyRuntime string | PyStop

record py_args =
  py_provider :: string
  py_model :: string
  py_messages :: "jmap list"
  py_api_key :: string
  py_system :: "string option"
  py_temperature :: "u32 option"
  py_max_tokens :: "u32 option"
  py_tools :: "jmap list option"
  py_seed :: "u64 option"
  py_frequency_penalty :: "u32 option"
  py_presence_penalty :: "u32 option"

definition py_str :: "jmap \<Rightarrow> string \<Rightarrow> string option" where
  "py_str d k = Option.bind (map_of d k) as_str"

definition py_message :: "jmap \<Rightarrow> message" where
  "py_message d =
     plain_message (parse_role (case py_str d ''role'' of Some r \<Rightarrow> r | None \<Rightarrow> ''user''))
       (str_default (py_str d ''content''))"

definition py_tool :: "'w engine \<Rightarrow> jmap \<Rightarrow> py_error + tool_definition" where
  "py_tool en d =
     (case py_str d ''name'' of
        None \<Rightarrow> Inl (PyValue (''tool missing '' @ quoted ''name''))
      | Some name \<Rightarrow>
          (let schema = (case py_str d ''input_schema'' of Some s \<Rightarrow> s | None \<Rightarrow> default_schema_text)
           in case Option.bind (from_text (cl_serde (en_client en)) schema) as_object of
                None \<Rightarrow> Inl (PyValue (''invalid tool schema: '' @ en_bad_json en schema))
              | Some m \<Rightarrow>
                  Inr \<lparr>td_name = name, td_description = str_default (py_str d ''description''), td_input_schema = m\<rparr>))"

fun py_tool_list :: "'w engine \<Rightarrow> jmap list \<Rightarrow> py_error + tool_definition list" where
  "py_tool_list en [] = Inr []"
| "py_tool_list en (d # ds) =
     (case py_tool en d of
        Inl e \<Rightarrow> Inl e
      | Inr t \<Rightarrow> (case py_tool_list en ds of Inl e \<Rightarrow> Inl e | Inr ts \<Rightarrow> Inr (t # ts)))"

definition py_tool_defs :: "'w engine \<Rightarrow> jmap list option \<Rightarrow> py_error + tool_definition list" where
  "py_tool_defs en tools = (case tools of None \<Rightarrow> Inr [] | Some ds \<Rightarrow> py_tool_list en ds)"

definition py_provider_name :: "string \<Rightarrow> py_error + provider_name" where
  "py_provider_name s =
     (case provider_from_str s of Inl _ \<Rightarrow> Inl (PyValue (''unknown provider: '' @ s)) | Inr p \<Rightarrow> Inr p)"

definition py_request :: "'w engine \<Rightarrow> py_args \<Rightarrow> py_error + provider_name \<times> chat_request" where
  "py_request en args =
     (case py_provider_name (py_provider args) of
        Inl e \<Rightarrow> Inl e
      | Inr p \<Rightarrow>
          (case model_id_new p (py_model args) of
             Inl e \<Rightarrow> Inl (PyValue (parse_error_text (en_debug en) e))
           | Inr model \<Rightarrow>
               (case py_tool_defs en (py_tools args) of
                  Inl e \<Rightarrow> Inl e
                | Inr tools \<Rightarrow>
                    Inr (p, (chat_request_new model (map py_message (py_messages args)))
                      \<lparr>rq_system_prompt := py_system args, rq_tools := tools,
                       rq_sampling :=
                         \<lparr>sm_temperature = py_temperature args, sm_max_tokens = py_max_tokens args, sm_top_p = None,
                          sm_stop = [], sm_seed = py_seed args, sm_frequency_penalty = py_frequency_penalty args,
                          sm_presence_penalty = py_presence_penalty args\<rparr>\<rparr>))))"

definition runtime_error :: "error + 'a \<Rightarrow> py_error + 'a" where
  "runtime_error r = map_sum (\<lambda>e. PyRuntime (error_text e)) id r"

definition py_account :: "'w engine \<Rightarrow> provider_name \<Rightarrow> string \<Rightarrow> string \<Rightarrow> py_error + resolved_account" where
  "py_account en p key kind = runtime_error (build_transient (cl_registry (en_client en)) p (server_options key kind))"

definition py_call :: "serde \<Rightarrow> tool_call \<Rightarrow> json" where
  "py_call sj tc =
     JObject [(''id'', JString (tc_id tc)), (''name'', JString (tc_name tc)),
              (''arguments'', JString (to_compact sj (JObject (tc_arguments tc))))]"

definition py_response :: "serde \<Rightarrow> chat_response \<Rightarrow> jmap" where
  "py_response sj resp =
     [(''content'', JString (response_text resp)), (''model'', JString (rs_model resp)),
      (''finish_reason'', or_null JString (rs_finish_reason resp)),
      (''input_tokens'', or_null json_u32 (us_input_tokens (rs_usage resp))),
      (''output_tokens'', or_null json_u32 (us_output_tokens (rs_usage resp))),
      (''tool_calls'', JArray (map (py_call sj) (response_tool_calls resp)))]"

text \<open>No result is a panic of the call.\<close>

definition py_chat :: "'w engine \<Rightarrow> py_args \<Rightarrow> 'w \<Rightarrow> (py_error + jmap) option \<times> 'w" where
  "py_chat en args w =
     (case py_request en args of
        Inl e \<Rightarrow> (Some (Inl e), w)
      | Inr (p, req) \<Rightarrow>
          (case py_account en p (py_api_key args) (chat_kind p) of
             Inl e \<Rightarrow> (Some (Inl e), w)
           | Inr account \<Rightarrow>
               (case chat_over (en_client en) req [account] (conversation_new []) w of
                  (Ok resp, w') \<Rightarrow> (Some (Inr (py_response (cl_serde (en_client en)) resp)), w')
                | (Err e, w') \<Rightarrow> (Some (Inl (PyRuntime (error_text e))), w')
                | (Panic, w') \<Rightarrow> (None, w'))))"

definition py_list_providers :: "'w engine \<Rightarrow> jmap list" where
  "py_list_providers en =
     map (\<lambda>(name, caps).
       [(''name'', JString (provider_as_str name)), (''tool_support'', JString (tool_support_name (tool_support caps))),
        (''supports_system_prompt'', JBool (supports_system_prompt caps))]) (iter_capabilities (cl_registry (en_client en)))"

definition py_model_entry :: "provider_name \<Rightarrow> model_info \<Rightarrow> jmap" where
  "py_model_entry p m =
     [(''id'', JString (provider_as_str p @ ''/'' @ mi_id m)), (''model'', JString (mi_id m)),
      (''provider'', JString (provider_as_str p)), (''display_name'', or_null JString (mi_display_name m)),
      (''description'', or_null JString (mi_description m)), (''tags'', JArray (map JString (mi_tags m)))]"

definition py_discover_models :: "'w engine \<Rightarrow> string \<Rightarrow> string \<Rightarrow> 'w \<Rightarrow> (py_error + jmap list) \<times> 'w" where
  "py_discover_models en provider key w =
     (case py_provider_name provider of
        Inl e \<Rightarrow> (Inl e, w)
      | Inr p \<Rightarrow>
          (case py_account en p key (discover_kind p key) of
             Inl e \<Rightarrow> (Inl e, w)
           | Inr account \<Rightarrow>
               (case discover_models_over (en_client en) p account w of
                  (r, w') \<Rightarrow> (map_sum id (map (py_model_entry p)) (runtime_error r), w'))))"

text \<open>One turn of the task behind a Python stream; the channel and its steps are those of the C interface.\<close>

definition py_turn :: "bool \<Rightarrow> error + stream_event \<Rightarrow> loop_turn" where
  "py_turn emitted ev =
     (case ev of
        Inr (TextDelta b) \<Rightarrow>
          \<lparr>lt_send = (if from_utf8_lossy b = [] then None else Some (Inr (from_utf8_lossy b))),
           lt_needs_receiver = (from_utf8_lossy b \<noteq> []), lt_next = Some emitted\<rparr>
      | Inr (Done resp) \<Rightarrow>
          \<lparr>lt_send = (if response_text resp = [] then None else Some (Inr (response_text resp))),
           lt_needs_receiver = False, lt_next = None\<rparr>
      | Inr _ \<Rightarrow> \<lparr>lt_send = None, lt_needs_receiver = False, lt_next = Some emitted\<rparr>
      | Inl e \<Rightarrow> \<lparr>lt_send = Some (Inl (error_text e)), lt_needs_receiver = False, lt_next = None\<rparr>)"

definition py_chat_stream :: "'w engine \<Rightarrow> py_args \<Rightarrow> 'w \<Rightarrow> (py_error + pull_state) \<times> 'w" where
  "py_chat_stream en args w =
     (case py_request en args of
        Inl e \<Rightarrow> (Inl e, w)
      | Inr (p, req) \<Rightarrow>
          (case py_account en p (py_api_key args) (chat_kind p) of
             Inl e \<Rightarrow> (Inl e, w)
           | Inr account \<Rightarrow>
               (case chat_stream_over (en_client en) (req\<lparr>rq_stream := True\<rparr>) account (conversation_new []) w of
                  (r, w') \<Rightarrow> (Inr (pull_start r), w'))))"

text \<open>What \<open>__next__\<close> makes of an item; the end of the channel is the end of the iteration.\<close>

definition py_next :: "pull_item option \<Rightarrow> py_error + string" where
  "py_next i = (case i of Some (Inr t) \<Rightarrow> Inr t | Some (Inl e) \<Rightarrow> Inl (PyRuntime e) | None \<Rightarrow> Inl PyStop)"

section \<open>Node\<close>

record node_message =
  nm_role :: string
  nm_content :: string

record node_tool =
  nt_name :: string
  nt_description :: string
  nt_input_schema :: string

record node_options =
  no_provider :: string
  no_model :: string
  no_messages :: "node_message list"
  no_api_key :: "string option"
  no_system :: "string option"
  no_temperature :: "u64 option"
  no_max_tokens :: "u32 option"
  no_seed :: "u64 option"
  no_frequency_penalty :: "u64 option"
  no_presence_penalty :: "u64 option"
  no_tools :: "node_tool list option"

record node_call =
  nc_id :: string
  nc_name :: string
  nc_arguments :: string

record node_result =
  nr_content :: string
  nr_model :: string
  nr_finish_reason :: "string option"
  nr_input_tokens :: "u32 option"
  nr_output_tokens :: "u32 option"
  nr_tool_calls :: "node_call list"

text \<open>A schema that is not an object is replaced without notice.\<close>

definition node_tool_def :: "serde \<Rightarrow> node_tool \<Rightarrow> tool_definition" where
  "node_tool_def sj t =
     \<lparr>td_name = nt_name t, td_description = nt_description t,
      td_input_schema =
        (case Option.bind (from_text sj (nt_input_schema t)) as_object of Some m \<Rightarrow> m | None \<Rightarrow> default_schema)\<rparr>"

definition node_request :: "'w engine \<Rightarrow> node_options \<Rightarrow> string + provider_name \<times> chat_request" where
  "node_request en opts =
     (case provider_from_str (no_provider opts) of
        Inl _ \<Rightarrow> Inl (''unknown provider: '' @ no_provider opts)
      | Inr p \<Rightarrow>
          (case model_id_new p (no_model opts) of
             Inl e \<Rightarrow> Inl (parse_error_text (en_debug en) e)
           | Inr model \<Rightarrow>
               Inr (p, (chat_request_new model
                         (map (\<lambda>m. plain_message (parse_role (nm_role m)) (nm_content m)) (no_messages opts)))
                 \<lparr>rq_system_prompt := no_system opts,
                  rq_tools := map (node_tool_def (cl_serde (en_client en))) (case no_tools opts of Some ts \<Rightarrow> ts | None \<Rightarrow> []),
                  rq_sampling :=
                    \<lparr>sm_temperature = map_option f64_to_f32 (no_temperature opts), sm_max_tokens = no_max_tokens opts,
                     sm_top_p = None, sm_stop = [], sm_seed = no_seed opts,
                     sm_frequency_penalty = map_option f64_to_f32 (no_frequency_penalty opts),
                     sm_presence_penalty = map_option f64_to_f32 (no_presence_penalty opts)\<rparr>\<rparr>)))"

definition node_account :: "'w engine \<Rightarrow> node_options \<Rightarrow> provider_name \<Rightarrow> string + resolved_account" where
  "node_account en opts p =
     map_sum error_text id
       (build_transient (cl_registry (en_client en)) p (server_options (str_default (no_api_key opts)) (chat_kind p)))"

definition node_result_of :: "serde \<Rightarrow> chat_response \<Rightarrow> node_result" where
  "node_result_of sj resp =
     \<lparr>nr_content = response_text resp, nr_model = rs_model resp, nr_finish_reason = rs_finish_reason resp,
      nr_input_tokens = us_input_tokens (rs_usage resp), nr_output_tokens = us_output_tokens (rs_usage resp),
      nr_tool_calls =
        map (\<lambda>tc. \<lparr>nc_id = tc_id tc, nc_name = tc_name tc, nc_arguments = to_compact sj (JObject (tc_arguments tc))\<rparr>)
          (response_tool_calls resp)\<rparr>"

definition node_chat :: "'w engine \<Rightarrow> node_options \<Rightarrow> 'w \<Rightarrow> (string + node_result) option \<times> 'w" where
  "node_chat en opts w =
     (case node_request en opts of
        Inl e \<Rightarrow> (Some (Inl e), w)
      | Inr (p, req) \<Rightarrow>
          (case node_account en opts p of
             Inl e \<Rightarrow> (Some (Inl e), w)
           | Inr account \<Rightarrow>
               (case chat_over (en_client en) req [account] (conversation_new []) w of
                  (Ok resp, w') \<Rightarrow> (Some (Inr (node_result_of (cl_serde (en_client en)) resp)), w')
                | (Err e, w') \<Rightarrow> (Some (Inl (error_text e)), w')
                | (Panic, w') \<Rightarrow> (None, w'))))"

text \<open>The object a promise resolves to.\<close>

definition node_resolved :: "node_result \<Rightarrow> jmap" where
  "node_resolved r =
     [(''content'', JString (nr_content r)), (''model'', JString (nr_model r)),
      (''finishReason'', or_null JString (nr_finish_reason r)), (''inputTokens'', or_null json_u32 (nr_input_tokens r)),
      (''outputTokens'', or_null json_u32 (nr_output_tokens r))]"

definition node_chat_async :: "'w engine \<Rightarrow> node_options \<Rightarrow> 'w \<Rightarrow> (string + jmap) option \<times> 'w" where
  "node_chat_async en opts w =
     (case node_chat en opts w of (r, w') \<Rightarrow> (map_option (map_sum id node_resolved) r, w'))"

text \<open>The calls of the callback: a chunk, or null.\<close>

fun node_calls :: "event_stream \<Rightarrow> string option list" where
  "node_calls [] = [None]"
| "node_calls (Inl e # es) = [None]"
| "node_calls (Inr (TextDelta b) # es) =
     (if from_utf8_lossy b = [] then node_calls es else Some (from_utf8_lossy b) # node_calls es)"
| "node_calls (Inr (Done resp) # es) = (if response_text resp = [] then [None] else [Some (response_text resp), None])"
| "node_calls (Inr _ # es) = node_calls es"

definition node_chat_stream :: "'w engine \<Rightarrow> node_options \<Rightarrow> 'w \<Rightarrow> (string + string option list) \<times> 'w" where
  "node_chat_stream en opts w =
     (case node_request en opts of
        Inl e \<Rightarrow> (Inl e, w)
      | Inr (p, req) \<Rightarrow>
          (case node_account en opts p of
             Inl e \<Rightarrow> (Inl e, w)
           | Inr account \<Rightarrow>
               (case chat_stream_over (en_client en) (req\<lparr>rq_stream := True\<rparr>) account (conversation_new []) w of
                  (Inl e, w') \<Rightarrow> (Inr [None], w')
                | (Inr es, w') \<Rightarrow> (Inr (node_calls es), w'))))"

section \<open>The interfaces compared\<close>

text \<open>A plain chat, and how it is said to each interface.\<close>

record plain_chat =
  pc_provider :: provider_name
  pc_model :: string
  pc_turns :: "(string \<times> string) list"
  pc_key :: string
  pc_system :: "string option"
  pc_max_tokens :: "u32 option"

definition text_field :: "string \<Rightarrow> string option \<Rightarrow> jmap" where
  "text_field k v = (case v of None \<Rightarrow> [] | Some s \<Rightarrow> [(k, JString s)])"

definition turn_fields :: "string \<times> string \<Rightarrow> jmap" where
  "turn_fields t = [(''role'', JString (fst t)), (''content'', JString (snd t))]"

definition said_in_json :: "plain_chat \<Rightarrow> json" where
  "said_in_json c =
     JObject ([(''provider'', JString (provider_as_str (pc_provider c))), (''model'', JString (pc_model c)),
               (''api_key'', JString (pc_key c)), (''messages'', JArray (map (\<lambda>t. JObject (turn_fields t)) (pc_turns c)))]
              @ text_field ''system_prompt'' (pc_system c)
              @ (case pc_max_tokens c of None \<Rightarrow> [] | Some n \<Rightarrow> [(''max_tokens'', json_u32 n)]))"

definition said_in_python :: "plain_chat \<Rightarrow> py_args" where
  "said_in_python c =
     \<lparr>py_provider = provider_as_str (pc_provider c), py_model = pc_model c, py_messages = map turn_fields (pc_turns c),
      py_api_key = pc_key c, py_system = pc_system c, py_temperature = None, py_max_tokens = pc_max_tokens c,
      py_tools = None, py_seed = None, py_frequency_penalty = None, py_presence_penalty = None\<rparr>"

definition said_in_node :: "plain_chat \<Rightarrow> node_options" where
  "said_in_node c =
     \<lparr>no_provider = provider_as_str (pc_provider c), no_model = pc_model c,
      no_messages = map (\<lambda>t. \<lparr>nm_role = fst t, nm_content = snd t\<rparr>) (pc_turns c),
      no_api_key = Some (pc_key c), no_system = pc_system c, no_temperature = None, no_max_tokens = pc_max_tokens c,
      no_seed = None, no_frequency_penalty = None, no_presence_penalty = None, no_tools = None\<rparr>"

definition meant :: "plain_chat \<Rightarrow> chat_request" where
  "meant c =
     (chat_request_new \<lparr>mid_provider = pc_provider c, mid_model = pc_model c\<rparr>
        (map (\<lambda>t. plain_message (parse_role (fst t)) (snd t)) (pc_turns c)))
       \<lparr>rq_system_prompt := pc_system c, rq_sampling := sampling_default\<lparr>sm_max_tokens := pc_max_tokens c\<rparr>\<rparr>"

lemma provider_from_name: "provider_from_str (provider_as_str p) = Inr p"
  by (simp add: provider_from_str_iff)

lemma ucast_json_u32: "(ucast (ucast (n :: u32) :: u64) :: u32) = n"
  by (simp add: ucast_up_ucast_id is_up)

lemma said_in_json_fields:
  "jget_str (said_in_json c) ''provider'' = Some (provider_as_str (pc_provider c))"
  "jget_str (said_in_json c) ''model'' = Some (pc_model c)"
  "jget (said_in_json c) ''messages'' = Some (JArray (map (\<lambda>t. JObject (turn_fields t)) (pc_turns c)))"
  "jget_str (said_in_json c) ''system_prompt'' = pc_system c"
  "ffi_secret (said_in_json c) = pc_key c"
  "field_u32 (said_in_json c) ''max_tokens'' = pc_max_tokens c"
  by (simp_all add: said_in_json_def jget_str_def text_field_def ffi_secret_def first_field_def secret_fields_def
      List.map_filter_simps str_default_def field_u32_def json_u32_def ucast_json_u32 split: option.split)

lemma said_in_json_absent:
  assumes "k \<notin> {''provider'', ''model'', ''api_key'', ''messages'', ''system_prompt'', ''max_tokens''}"
  shows "jget (said_in_json c) k = None"
  using assms by (auto simp: said_in_json_def text_field_def split: option.split)

lemma ffi_message_turn: "ffi_message (JObject (turn_fields t)) = plain_message (parse_role (fst t)) (snd t)"
  by (simp add: ffi_message_def turn_fields_def jget_str_def served_role_def parse_role_def plain_message_def str_default_def)

lemma py_message_turn: "py_message (turn_fields t) = plain_message (parse_role (fst t)) (snd t)"
  by (simp add: py_message_def turn_fields_def py_str_def str_default_def)

definition stop_reply :: "string \<Rightarrow> chat_response" where
  "stop_reply t =
     \<lparr>rs_model = ''m'', rs_message = message_assistant t, rs_usage = usage_default, rs_tool_calls_executed = [],
      rs_provider_response_id = None, rs_finish_reason = Some ''stop'', rs_metadata = metadata_new\<rparr>"

text \<open>
  C14.  The interfaces say the same.  One chat, said as JSON to the C interface, as arguments to the Python interface
  or as options to the Node interface, becomes the same canonical request and the same throwaway account, with
  the caller's secret: whoever of the three a caller uses, the client runs the same call.
\<close>

theorem interfaces_agree:
  assumes "from_text (cl_serde (en_client en)) body = Some (said_in_json c)"
    and "cl_registry (en_client en) (pc_provider c) = Some p" and "pc_model c \<noteq> []"
  shows "\<exists>account. parse_chat_request en body = Inr (account, meant c)
     \<and> py_request en (said_in_python c) = Inr (pc_provider c, meant c)
     \<and> py_account en (pc_provider c) (py_api_key (said_in_python c)) (chat_kind (pc_provider c)) = Inr account
     \<and> node_request en (said_in_node c) = Inr (pc_provider c, meant c)
     \<and> node_account en (said_in_node c) (pc_provider c) = Inr account
     \<and> ra_secret account = pc_key c"
proof -
  let ?kind = "chat_kind (pc_provider c)"
  have none: "jget (said_in_json c) k = None"
    if "k \<in> {''temperature'', ''top_p'', ''seed'', ''frequency_penalty'', ''presence_penalty'', ''tools'', ''stream'',
             ''base_url'', ''impersonate'', ''proxy'', ''proxy_url'', ''timeout_ms'', ''device_id'', ''org_id''}" for k
    by (rule said_in_json_absent) (use that in auto)
  then have opts: "ffi_options (said_in_json c) ?kind = server_options (pc_key c) ?kind"
    by (simp add: ffi_options_def server_options_def said_in_json_fields jget_str_def first_field_def field_u32_def
        List.map_filter_simps)
  have sampling: "ffi_sampling sj (said_in_json c) = sampling_default\<lparr>sm_max_tokens := pc_max_tokens c\<rparr>" for sj
    using none by (simp add: ffi_sampling_def body_f32_def said_in_json_fields sampling_default_def)
  have messages: "ffi_messages (jget (said_in_json c) ''messages'') =
      Inr (map (\<lambda>t. plain_message (parse_role (fst t)) (snd t)) (pc_turns c))"
    by (simp add: said_in_json_fields ffi_messages_def ffi_message_turn)
  obtain account where account:
    "build_transient (cl_registry (en_client en)) (pc_provider c) (server_options (pc_key c) ?kind) = Inr account"
    "ra_secret account = pc_key c"
    using assms(2) by (simp add: build_transient_def registry_provider_def server_options_def)
  have "parse_chat_request en body = Inr (account, meant c)"
    using assms account(1) none
    by (simp add: parse_chat_request_def ffi_value_def ffi_provider_def said_in_json_fields(1,2,4) provider_from_name
        model_id_new_def messages opts sampling meant_def ffi_tools_def chat_request_new_def)
  moreover have "py_request en (said_in_python c) = Inr (pc_provider c, meant c)"
    using assms(3)
    by (simp add: py_request_def said_in_python_def py_provider_name_def provider_from_name model_id_new_def
        py_tool_defs_def py_message_turn meant_def comp_def chat_request_new_def sampling_default_def)
  moreover have "node_request en (said_in_node c) = Inr (pc_provider c, meant c)"
    using assms(3)
    by (simp add: node_request_def said_in_node_def provider_from_name model_id_new_def meant_def comp_def
        chat_request_new_def sampling_default_def)
  ultimately show ?thesis
    using account
    by (simp add: py_account_def node_account_def runtime_error_def said_in_python_def said_in_node_def str_default_def)
qed

definition sample_chat :: plain_chat where
  "sample_chat =
     \<lparr>pc_provider = Claude, pc_model = ''m'', pc_turns = [(''user'', ''hi'')], pc_key = ''k'', pc_system = None,
      pc_max_tokens = Some 9\<rparr>"

definition sample_engine :: "call_log engine" where
  "sample_engine =
     \<lparr>en_client = (sample_client False [])\<lparr>cl_serde := envelope_serde\<lparr>from_text := \<lambda>_. Some (said_in_json sample_chat)\<rparr>\<rparr>,
      en_debug = id, en_bad_json = id\<rparr>"

lemma interfaces_agree_witness:
  "\<exists>account. parse_chat_request sample_engine ''{}'' = Inr (account, meant sample_chat)
     \<and> node_request sample_engine (said_in_node sample_chat) = Inr (Claude, meant sample_chat) \<and> ra_secret account = ''k''"
proof -
  have f: "pc_provider sample_chat = Claude" "pc_model sample_chat \<noteq> []" "pc_key sample_chat = ''k''"
    by (simp_all add: sample_chat_def)
  have "from_text (cl_serde (en_client sample_engine)) ''{}'' = Some (said_in_json sample_chat)"
    by (simp add: sample_engine_def)
  moreover have "cl_registry (en_client sample_engine) (pc_provider sample_chat) = Some (scripted_provider False [])"
    by (simp add: sample_engine_def f sample_client_def registry_build_def registry_add_def registry_new_def
        scripted_provider_def sample_caps_def)
  ultimately show ?thesis using interfaces_agree [of sample_engine "''{}''" sample_chat] f by auto
qed

text \<open>
  C15.  What a streamed answer sounds like.  A provider streams the texts \<open>ss\<close> and ends with a response that has their
  concatenation.  The C interface hands over exactly these texts, by callback and by pulling, as the blocking
  collector does; the Python and the Node interface hand over the texts and then the whole text again, so that
  a caller that puts the pieces together has the answer twice.
\<close>

theorem streamed_text_heard:
  assumes "list_all (\<lambda>s. str_ok s \<and> s \<noteq> [] \<and> CHR 0x00 \<notin> set s) ss" and "response_text resp = concat ss" and "ss \<noteq> []"
  shows "callback_tokens False (streamed_reply ss resp) = (ss, True)
     \<and> task_items c_turn False (streamed_reply ss resp) = map Inr ss
     \<and> collect_chunks [] (streamed_reply ss resp) = Inr ss
     \<and> task_items py_turn False (streamed_reply ss resp) = map Inr (ss @ [concat ss])
     \<and> node_calls (streamed_reply ss resp) = map Some (ss @ [concat ss]) @ [None]
     \<and> concat (ss @ [concat ss]) = response_text resp @ response_text resp"
proof -
  have ok: "list_all str_ok ss" "list_all (\<lambda>s. CHR 0x00 \<notin> set s) ss" "list_all (\<lambda>s. str_ok s \<and> s \<noteq> []) ss"
    using assms(1) by (simp_all add: list_all_iff)
  have whole: "response_text resp \<noteq> []" "CHR 0x00 \<notin> set (response_text resp)"
    using assms ok(2) by (auto simp: list_all_iff neq_Nil_conv)
  have collect: "collect_chunks chunks (streamed_reply ss resp) =
      Inr (chunks @ (if chunks = [] \<and> ss = [] then [response_text resp] else ss))" for chunks
    using ok(3) whole(1)
    by (induction ss arbitrary: chunks) (auto simp: streamed_reply_def from_utf8_lossy_str_bytes Let_def)
  have py: "task_items py_turn b (streamed_reply ss resp) = map Inr (ss @ [response_text resp])" for b
    using ok(3) whole(1)
    by (induction ss arbitrary: b) (auto simp: streamed_reply_def py_turn_def from_utf8_lossy_str_bytes)
  have node: "node_calls (streamed_reply ss resp) = map Some (ss @ [response_text resp]) @ [None]"
    using ok(3) whole(1) by (induction ss) (auto simp: streamed_reply_def from_utf8_lossy_str_bytes)
  show ?thesis
    using callback_reply [OF ok(2) whole(2), of False] c_items_reply [OF ok(1), of False resp] collect [of "[]"] py [of False] node
      assms(2,3) by simp
qed

lemma streamed_text_heard_witness:
  "task_items py_turn False (streamed_reply [''he'', ''y''] (stop_reply ''hey'')) = [Inr ''he'', Inr ''y'', Inr ''hey'']
   \<and> callback_tokens False (streamed_reply [''he'', ''y''] (stop_reply ''hey'')) = ([''he'', ''y''], True)"
proof -
  have "list_all (\<lambda>s. str_ok s \<and> s \<noteq> [] \<and> CHR 0x00 \<notin> set s) [''he'', ''y'']" by code_simp
  moreover have "response_text (stop_reply ''hey'') = concat [''he'', ''y'']"
    by (simp add: stop_reply_def response_text_def core_simps)
  ultimately show ?thesis using streamed_text_heard [of "[''he'', ''y'']" "stop_reply ''hey''"] by simp
qed

text \<open>The answer of a promise has no tool calls, whatever the response has; that of the blocking call has them.\<close>

lemma node_promise_drops_calls:
  "node_chat en opts w = (Some (Inr r), w') \<Longrightarrow>
   node_chat_async en opts w = (Some (Inr (node_resolved r)), w') \<and> map_of (node_resolved r) ''toolCalls'' = None"
  by (simp add: node_chat_async_def node_resolved_def)

text \<open>A stream that fails, at once or on the way, ends for the Node callback as one that is complete.\<close>

lemma node_stream_hides_errors:
  "list_all str_ok ss \<Longrightarrow> list_all (\<lambda>s. s \<noteq> []) ss \<Longrightarrow>
   node_calls (map (\<lambda>s. Inr (TextDelta (str_bytes s))) ss @ [Inl e]) =
   node_calls (map (\<lambda>s. Inr (TextDelta (str_bytes s))) ss)"
  by (induction ss) (simp_all add: from_utf8_lossy_str_bytes)

end
