(* ===== verification/Cli.thy ===== *)
theory Cli
  imports Ffi "HOL-Library.List_Lexorder" "HOL-Library.Char_ord" "HOL-Library.Product_Lexorder"
begin

text \<open>
  The command line (\<open>gravity-cli/src/main.rs\<close>) after its arguments are parsed: what a command prints, and how the
  process exits.  The variable of the environment that holds a key, and whether the runtime of the
  blocking client starts, are parameters.
\<close>

datatype command =
    CmdProviders
  | CmdModels string
  | CmdChat string "string option" "string option" bool string

record 'w cli =
  ci_engine :: "'w engine"
  ci_env_key :: "string option"
  ci_runtime_error :: "string option"

definition newline :: string where
  "newline = [CHR 0x0A]"

fun tool_support_debug :: "tool_support_mode \<Rightarrow> string" where
  "tool_support_debug ToolNative = ''Native''"
| "tool_support_debug ToolJsonEmulated = ''JsonEmulated''"
| "tool_support_debug ToolNone = ''None''"

definition bool_text :: "bool \<Rightarrow> string" where
  "bool_text b = (if b then ''true'' else ''false'')"

definition pad_right :: "nat \<Rightarrow> string \<Rightarrow> string" where
  "pad_right n s = s @ replicate (n - length (chars s)) (CHR '' '')"

definition provider_rows :: "'w registry \<Rightarrow> (string \<times> string) list" where
  "provider_rows reg =
     sort (map (\<lambda>(name, caps).
       (provider_as_str name,
        ''tools='' @ tool_support_debug (tool_support caps) @ '' system_prompt='' @ bool_text (supports_system_prompt caps)))
       (iter_capabilities reg))"

definition cli_list_providers :: "'w registry \<Rightarrow> string" where
  "cli_list_providers reg =
     dec_of (length (provider_rows reg)) @ '' providers registered:'' @ newline @ newline
     @ concat (map (\<lambda>(name, info). ''  '' @ pad_right 20 name @ '' '' @ info @ newline) (provider_rows reg))"

definition cli_list_models :: "'w cli \<Rightarrow> string \<Rightarrow> string + string" where
  "cli_list_models ci provider =
     (case provider_from_str provider of
        Inl _ \<Rightarrow> Inl (''unknown provider: '' @ en_debug (ci_engine ci) provider)
      | Inr p \<Rightarrow>
          (case registry_provider (cl_registry (en_client (ci_engine ci))) p of
             Inl e \<Rightarrow> Inl (error_text e)
           | Inr adapter \<Rightarrow>
               (let models = pv_list_models adapter
                in Inr (if models = []
                        then provider @ '': (models discovered dynamically; none listed statically)'' @ newline
                        else concat (map (\<lambda>m. provider @ ''/'' @ m @ newline) models)))))"

definition cli_secret :: "'w cli \<Rightarrow> string option \<Rightarrow> string" where
  "cli_secret ci key = str_default (case key of Some k \<Rightarrow> Some k | None \<Rightarrow> ci_env_key ci)"

definition runtime_failure :: "string \<Rightarrow> error" where
  "runtime_failure m = Configuration (''failed to start runtime: '' @ m)"

text \<open>What is printed, or the message of the failure; no result is a panic.\<close>

definition cli_chat ::
    "'w cli \<Rightarrow> string \<Rightarrow> string option \<Rightarrow> string option \<Rightarrow> bool \<Rightarrow> string \<Rightarrow> 'w \<Rightarrow> (string + string) option \<times> 'w" where
  "cli_chat ci model key system stream prompt w =
     (let cl = en_client (ci_engine ci)
      in case model_id_parse model of
           Inl e \<Rightarrow> (Some (Inl (parse_error_text (en_debug (ci_engine ci)) e)), w)
         | Inr mid \<Rightarrow>
             (case build_transient (cl_registry cl) (mid_provider mid)
                     (server_options (cli_secret ci key) (chat_kind (mid_provider mid))) of
                Inl e \<Rightarrow> (Some (Inl (error_text e)), w)
              | Inr account \<Rightarrow>
                  (let req = (chat_request_new mid [message_user prompt])\<lparr>rq_system_prompt := system, rq_stream := stream\<rparr>
                   in case ci_runtime_error ci of
                        Some m \<Rightarrow> (Some (Inl (error_text (runtime_failure m))), w)
                      | None \<Rightarrow>
                          (if stream
                           then (case chat_stream_chunks cl req account (conversation_new []) w of
                                   (Inl e, w') \<Rightarrow> (Some (Inl (error_text e)), w')
                                 | (Inr chunks, w') \<Rightarrow> (Some (Inr (concat chunks @ newline)), w'))
                           else (case chat_over cl req [account] (conversation_new []) w of
                                   (Ok resp, w') \<Rightarrow> (Some (Inr (response_text resp @ newline)), w')
                                 | (Err e, w') \<Rightarrow> (Some (Inl (error_text e)), w')
                                 | (Panic, w') \<Rightarrow> (None, w'))))))"

definition cli_run :: "'w cli \<Rightarrow> command \<Rightarrow> 'w \<Rightarrow> (string + string) option \<times> 'w" where
  "cli_run ci cmd w =
     (case cmd of
        CmdProviders \<Rightarrow> (Some (Inr (cli_list_providers (cl_registry (en_client (ci_engine ci))))), w)
      | CmdModels provider \<Rightarrow> (Some (cli_list_models ci provider), w)
      | CmdChat model key system stream prompt \<Rightarrow> cli_chat ci model key system stream prompt w)"

text \<open>The standard output, the standard error, and the exit code; a panic has none.\<close>

definition cli_main :: "'w cli \<Rightarrow> command \<Rightarrow> 'w \<Rightarrow> (string \<times> string \<times> nat) option \<times> 'w" where
  "cli_main ci cmd w =
     (case cli_run ci cmd w of
        (Some (Inr out), w') \<Rightarrow> (Some (out, [], 0), w')
      | (Some (Inl msg), w') \<Rightarrow> (Some ([], ''error: '' @ msg @ newline, 1), w')
      | (None, w') \<Rightarrow> (None, w'))"

section \<open>What the listing shows\<close>

text \<open>
  Each registered provider has one row, and the rows are in the order of the names, whatever the order of the
  registry.
\<close>

lemma capability_names: "map fst (iter_capabilities reg) = filter (registry_has reg) provider_all"
proof -
  have "map fst (List.map_filter (\<lambda>n. map_option (\<lambda>p. (n, pv_capabilities p)) (reg n)) ns) = filter (registry_has reg) ns" for ns
    by (induction ns) (auto simp: List.map_filter_simps registry_has_def split: option.split)
  then show ?thesis by (simp add: iter_capabilities_def)
qed

lemma distinct_capability_names: "distinct (map fst (iter_capabilities reg))"
proof -
  have "distinct provider_all" by code_simp
  then show ?thesis by (simp add: capability_names)
qed

lemma provider_as_str_inj: "inj provider_as_str"
  by (rule injI) (metis provider_from_str_iff sum.inject(2))

lemma sorted_fst: "sorted (xs :: ('a :: linorder \<times> 'b :: linorder) list) \<Longrightarrow> sorted (map fst xs)"
  by (induction xs) (auto simp: less_eq_prod_def)

lemma provider_rows_listed:
  "sorted (map fst (provider_rows reg)) \<and> distinct (map fst (provider_rows reg))
   \<and> set (map fst (provider_rows reg)) = provider_as_str ` {p. registry_has reg p}
   \<and> length (provider_rows reg) = registry_len reg"
proof -
  let ?row = "\<lambda>(name, caps). (provider_as_str name,
     ''tools='' @ tool_support_debug (tool_support caps) @ '' system_prompt='' @ bool_text (supports_system_prompt caps))"
  have rows: "provider_rows reg = sort (map ?row (iter_capabilities reg))" by (simp add: provider_rows_def)
  have names: "map fst (map ?row (iter_capabilities reg)) = map provider_as_str (map fst (iter_capabilities reg))"
    by (simp add: split_beta comp_def)
  have d: "distinct (map fst (map ?row (iter_capabilities reg)))"
    unfolding names using distinct_capability_names inj_on_subset [OF provider_as_str_inj]
    by (simp add: distinct_map del: map_map)
  have "mset (map fst (provider_rows reg)) = mset (map fst (map ?row (iter_capabilities reg)))"
    unfolding rows by (simp only: mset_map mset_sort)
  then have "distinct (map fst (provider_rows reg))"
    and set: "set (map fst (provider_rows reg)) = set (map fst (map ?row (iter_capabilities reg)))"
    using d mset_eq_imp_distinct_iff mset_eq_setD by blast+
  moreover have "p \<in> set provider_all" for p by (cases p) (simp_all add: provider_all_def)
  then have "set (map fst (provider_rows reg)) = provider_as_str ` {p. registry_has reg p}"
    unfolding set names capability_names by auto
  moreover have "sorted (map fst (provider_rows reg))" unfolding rows by (rule sorted_fst) simp
  moreover have "length (provider_rows reg) = registry_len reg" by (simp add: rows registry_len_iter)
  ultimately show ?thesis by blast
qed

text \<open>
  The streamed form prints when the answer is complete, not as it arrives: when the stream fails on the way,
  none of the text that came before is printed.
\<close>

lemma cli_stream_prints_late:
  assumes "model_id_parse model = Inr mid" and "ci_runtime_error ci = None"
    and "build_transient (cl_registry (en_client (ci_engine ci))) (mid_provider mid)
           (server_options (cli_secret ci key) (chat_kind (mid_provider mid))) = Inr account"
    and "chat_stream_over (en_client (ci_engine ci))
           ((chat_request_new mid [message_user prompt])\<lparr>rq_system_prompt := system, rq_stream := True\<rparr>)
           account (conversation_new []) w = (Inr (Inr (TextDelta b) # Inl e # es), w')"
  shows "cli_main ci (CmdChat model key system True prompt) w = (Some ([], ''error: '' @ error_text e @ newline, 1), w')"
  using assms by (simp add: cli_main_def cli_run_def cli_chat_def chat_stream_chunks_def Let_def)

end
