(* ===== verification/Builtin.thy ===== *)
theory Builtin
  imports Anthropic Chatgpt Glm Claude Gemini Kiro Codex Google Windsurf Cursor Perplexity Bindings Cli
begin

text \<open>
  The program put together: the process-wide registry of all adapters (\<open>builtin\<close> of
  \<open>gravity-providers/src/registry.rs\<close>), the client over it (\<open>new\<close>, \<open>with_registry\<close>, \<open>with_policy\<close>, \<open>tools_mut\<close> and
  the blocking facade of \<open>gravity-client/src/client.rs\<close>), and the server's routes (\<open>gravity-server/src/lib.rs\<close>).
\<close>

section \<open>The registry\<close>

text \<open>What the adapters are built over: the network, the environment and the libraries they call.\<close>

record 'w surroundings =
  su_net :: "'w net"
  su_env :: "'w env"
  su_oauth :: "'w oauth"
  su_gemini_cli_app :: oauth_app
  su_antigravity_app :: oauth_app
  su_from_millis :: "int \<Rightarrow> datetime option"
  su_debug :: "string \<Rightarrow> string"
  su_glm :: glm_lib
  su_pow :: pow_lib
  su_connect :: connect_lib
  su_cursor :: cursor_lib
  su_to_vec :: "oai_request \<Rightarrow> string + string"
  su_gone :: "error + chat_response"
  su_gone_models :: "error + model_info list"
  su_serde :: serde
  su_bad_json :: "string \<Rightarrow> string"
  su_schedule :: "tool_call list \<Rightarrow> 'w \<Rightarrow> nat list"
  su_sleep :: "duration \<Rightarrow> 'w \<Rightarrow> 'w"
  su_runtime_error :: "string option"

definition own_adapters :: "'w surroundings \<Rightarrow> 'w provider list" where
  "own_adapters su =
     [claude_provider (su_from_millis su) (su_net su) (su_env su),
      glm_provider (su_glm su) (su_net su) (su_env su),
      kiro_provider (su_net su) (su_env su) (su_oauth su),
      gemini_provider (su_debug su) (su_net su) (su_env su),
      chatgpt_provider (su_net su) (su_env su) (su_pow su),
      gemini_cli_provider (su_net su) (su_env su) (su_gemini_cli_app su) (su_oauth su),
      codex_provider (su_net su) (su_oauth su),
      cursor_provider (su_gone su) (su_gone_models su) (su_cursor su) (su_net su) (su_env su) (su_oauth su),
      windsurf_provider (su_gone su) (su_connect su) (su_net su) (su_env su),
      antigravity_provider (su_net su) (su_env su) (su_antigravity_app su) (su_oauth su),
      anthropic_provider (su_net su),
      ppl_provider (su_net su) (su_env su)]"

definition builtin_adapters :: "'w surroundings \<Rightarrow> 'w provider list" where
  "builtin_adapters su = own_adapters su @ oai_all (su_net su) (su_to_vec su)"

definition builtin :: "'w surroundings \<Rightarrow> 'w registry" where
  "builtin su = registry_build (builtin_adapters su)"

definition adapter_name :: "'w provider \<Rightarrow> provider_name" where
  "adapter_name p = cap_provider (pv_capabilities p)"

lemma own_adapter_names:
  "map adapter_name (own_adapters su) =
     [Claude, Glm, Kiro, Gemini, Chatgpt, GeminiCli, Codex, Cursor, Windsurf, Antigravity, AnthropicApi, Perplexity]"
  by (simp add: own_adapters_def adapter_name_def claude_provider_def claude_caps_def glm_provider_def glm_caps_def
      kiro_provider_def kiro_caps_def gemini_provider_def gemini_caps_def chatgpt_provider_def chatgpt_caps_def
      gemini_cli_provider_def gemini_cli_caps_def codex_provider_def codex_caps_def cursor_provider_def cursor_caps_def
      windsurf_provider_def windsurf_caps_def antigravity_provider_def antigravity_caps_def anthropic_provider_def
      anthropic_caps_def standard_caps_def ppl_provider_def ppl_caps_def)

lemma catalog_names:
  "map (\<lambda>c. cap_provider (oc_capabilities c)) oai_catalog =
     [Groq, OpenaiApi, Mistral, Deepseek, Xai, Together, Openrouter, Fireworks, Cerebras, Sambanova, Hyperbolic,
      NvidiaNim, Qwen, Minimax, Cohere, Litellm, Huggingface, Ollama, LlamaCpp, LocalTransformers, Vertex]"
  by code_simp

lemma builtin_names:
  "distinct (map adapter_name (builtin_adapters su)) \<and> set (map adapter_name (builtin_adapters su)) = set provider_all"
proof -
  have "map adapter_name (oai_all (su_net su) (su_to_vec su)) = map (\<lambda>c. cap_provider (oc_capabilities c)) oai_catalog"
    by (simp add: oai_all_def adapter_name_def oai_provider_def)
  then have "map adapter_name (builtin_adapters su) =
      [Claude, Glm, Kiro, Gemini, Chatgpt, GeminiCli, Codex, Cursor, Windsurf, Antigravity, AnthropicApi, Perplexity]
      @ [Groq, OpenaiApi, Mistral, Deepseek, Xai, Together, Openrouter, Fireworks, Cerebras, Sambanova, Hyperbolic,
         NvidiaNim, Qwen, Minimax, Cohere, Litellm, Huggingface, Ollama, LlamaCpp, LocalTransformers, Vertex]"
    by (simp only: builtin_adapters_def map_append own_adapter_names catalog_names)
  moreover have "distinct ... \<and> set ... = set provider_all" by code_simp
  ultimately show ?thesis by simp
qed

lemma find_distinct:
  "distinct (map f xs) \<Longrightarrow> x \<in> set xs \<Longrightarrow> find (\<lambda>y. f y = f x) (rev xs) = Some x"
  by (rule find_unique) (auto simp: distinct_map inj_on_def)

lemma builtin_lookup: "p \<in> set (builtin_adapters su) \<Longrightarrow> builtin su (adapter_name p) = Some p"
  using find_distinct [of adapter_name "builtin_adapters su" p] builtin_names [of su]
  by (simp add: builtin_def registry_build_lookup adapter_name_def)

lemma builtin_total: "\<exists>p\<in>set (builtin_adapters su). builtin su n = Some p \<and> adapter_name p = n"
proof -
  have "n \<in> set provider_all" by (cases n) (simp_all add: provider_all_def)
  then obtain p where "p \<in> set (builtin_adapters su)" "adapter_name p = n"
    using builtin_names [of su] by (metis image_iff list.set_map)
  then show ?thesis using builtin_lookup by blast
qed

text \<open>
  C23.  The built-in registry is complete.  Every provider name finds an adapter, which is one of those that
  were added and declares that name; every adapter that was added is found under the name it declares, none is
  replaced by a later one; and the capability listing has the names in the order of their declaration, all
  of them.
\<close>

theorem builtin_complete:
  "(\<forall>n. \<exists>p\<in>set (builtin_adapters su). registry_provider (builtin su) n = Inr p \<and> adapter_name p = n)
   \<and> (\<forall>p\<in>set (builtin_adapters su). registry_provider (builtin su) (adapter_name p) = Inr p)
   \<and> map fst (iter_capabilities (builtin su)) = provider_all
   \<and> registry_len (builtin su) = length (builtin_adapters su)"
proof -
  have all: "builtin su n \<noteq> None" for n using builtin_total [of su n] by auto
  then have names: "map fst (iter_capabilities (builtin su)) = provider_all"
    by (simp add: capability_names registry_has_def)
  have "length (builtin_adapters su) = length provider_all"
  proof -
    have "distinct provider_all" by code_simp
    then show ?thesis using builtin_names [of su] distinct_card by (metis length_map)
  qed
  moreover have "registry_len (builtin su) = length provider_all"
    using names registry_len_iter [of "builtin su"] by (metis length_map)
  moreover have "\<exists>p\<in>set (builtin_adapters su). registry_provider (builtin su) n = Inr p \<and> adapter_name p = n" for n
    using builtin_total [of su n] by (auto simp: registry_provider_def)
  moreover have "registry_provider (builtin su) (adapter_name p) = Inr p" if "p \<in> set (builtin_adapters su)" for p
    using builtin_lookup [OF that] by (simp add: registry_provider_def)
  ultimately show ?thesis using names by simp
qed

lemma builtin_complete_witness:
  "\<forall>su :: unit surroundings.
     (\<exists>p. registry_provider (builtin su) Vertex = Inr p \<and> adapter_name p = Vertex)
   \<and> registry_provider (builtin su) AnthropicApi = Inr (anthropic_provider (su_net su))
   \<and> registry_len (builtin su) = 33"
proof
  fix su :: "unit surroundings"
  have "anthropic_provider (su_net su) \<in> set (builtin_adapters su)"
    by (simp add: builtin_adapters_def own_adapters_def)
  moreover have "adapter_name (anthropic_provider (su_net su)) = AnthropicApi"
    by (simp add: adapter_name_def anthropic_provider_def anthropic_caps_def standard_caps_def)
  moreover have "length (builtin_adapters su) = 33"
    by (simp add: builtin_adapters_def own_adapters_def oai_all_def oai_catalog_def)
  ultimately show "(\<exists>p. registry_provider (builtin su) Vertex = Inr p \<and> adapter_name p = Vertex)
   \<and> registry_provider (builtin su) AnthropicApi = Inr (anthropic_provider (su_net su))
   \<and> registry_len (builtin su) = 33"
    using builtin_complete [of su] by metis
qed

section \<open>The client\<close>

definition client_with_registry :: "'w registry \<Rightarrow> 'w surroundings \<Rightarrow> 'w client" where
  "client_with_registry reg su =
     \<lparr>cl_registry = reg, cl_tools = tools_new, cl_policy = retry_policy_default, cl_serde = su_serde su,
      cl_schedule = su_schedule su, cl_sleep = su_sleep su\<rparr>"

definition client_new :: "'w surroundings \<Rightarrow> 'w client" where
  "client_new su = client_with_registry (builtin su) su"

definition client_with_policy :: "retry_policy \<Rightarrow> 'w client \<Rightarrow> 'w client" where
  "client_with_policy policy cl = cl\<lparr>cl_policy := policy\<rparr>"

definition client_tools_mut :: "('w tool_registry \<Rightarrow> 'w tool_registry) \<Rightarrow> 'w client \<Rightarrow> 'w client" where
  "client_tools_mut f cl = cl\<lparr>cl_tools := f (cl_tools cl)\<rparr>"

text \<open>The blocking facade: a runtime, which may fail to start, around the client.\<close>

definition gravity_new :: "'w surroundings \<Rightarrow> error + 'w client" where
  "gravity_new su =
     (case su_runtime_error su of
        Some e \<Rightarrow> Inl (Configuration (''failed to start runtime: '' @ e))
      | None \<Rightarrow> Inr (client_new su))"

definition gravity_chat_over ::
    "'w client \<Rightarrow> chat_request \<Rightarrow> resolved_account list \<Rightarrow> conversation \<Rightarrow> 'w \<Rightarrow> chat_response outcome \<times> 'w" where
  "gravity_chat_over = chat_over"

definition gravity_discover_models_over ::
    "'w client \<Rightarrow> provider_name \<Rightarrow> resolved_account \<Rightarrow> 'w \<Rightarrow> (error + model_info list) \<times> 'w" where
  "gravity_discover_models_over = discover_models_over"

text \<open>
  The process-wide engine of the C interface, built at its first use; without a runtime the process panics,
  \<open>None\<close>.
\<close>

definition engine_of :: "'w surroundings \<Rightarrow> 'w engine" where
  "engine_of su = \<lparr>en_client = client_new su, en_debug = su_debug su, en_bad_json = su_bad_json su\<rparr>"

definition gravity_init :: "'w surroundings \<Rightarrow> (int \<times> 'w engine) option" where
  "gravity_init su = (if su_runtime_error su = None then Some (0, engine_of su) else None)"

text \<open>However a client was built up from \<open>new\<close>, its registry is the built-in one.\<close>

lemma client_registry [simp]:
  "cl_registry (client_new su) = builtin su"
  "cl_registry (client_with_policy policy cl) = cl_registry cl"
  "cl_registry (client_tools_mut f cl) = cl_registry cl"
  "en_client (engine_of su) = client_new su"
  by (simp_all add: engine_of_def client_new_def client_with_registry_def client_with_policy_def client_tools_mut_def)

text \<open>No request to such a client fails for want of a provider.\<close>

lemma transient_for_every_provider:
  "\<exists>account. build_transient (builtin su) provider opts = Inr account
     \<and> pa_provider (ra_account account) = provider \<and> ra_secret account = to_secret opts"
  using builtin_total [of su provider] by (auto simp: build_transient_def registry_provider_def)

section \<open>The server's routes\<close>

datatype route_method = MGet | MPost

datatype endpoint = EpHealth | EpProviders | EpModels | EpChat

definition served_routes :: "((string \<times> route_method) \<times> endpoint) list" where
  "served_routes =
     [((''/health'', MGet), EpHealth), ((''/providers'', MGet), EpProviders), ((''/v1/models'', MGet), EpModels),
      ((''/v1/chat/completions'', MPost), EpChat)]"

definition server_state :: "'w surroundings \<Rightarrow> 'w server" where
  "server_state su = \<lparr>sv_client = client_new su, sv_debug = su_debug su\<rparr>"

text \<open>The listings read the built-in registry, whatever client the state holds.\<close>

fun serve ::
    "'w surroundings \<Rightarrow> 'w server \<Rightarrow> endpoint \<Rightarrow> (string \<times> string) list \<Rightarrow> json \<Rightarrow> 'w \<Rightarrow> server_reply option \<times> 'w" where
  "serve su sv EpHealth headers body w = (Some (JsonReply 200 server_health), w)"
| "serve su sv EpProviders headers body w = (Some (JsonReply 200 (server_providers (builtin su))), w)"
| "serve su sv EpModels headers body w = (Some (JsonReply 200 (server_models (builtin su))), w)"
| "serve su sv EpChat headers body w = chat_completions sv headers body w"

text \<open>A path and method without a route are answered by \<open>axum\<close>.\<close>

definition router_with ::
    "'w surroundings \<Rightarrow> 'w server \<Rightarrow> string \<Rightarrow> route_method \<Rightarrow> (string \<times> string) list \<Rightarrow> json \<Rightarrow> 'w
       \<Rightarrow> (server_reply option \<times> 'w) option" where
  "router_with su sv path m headers body w =
     map_option (\<lambda>ep. serve su sv ep headers body w) (map_of served_routes (path, m))"

definition router ::
    "'w surroundings \<Rightarrow> string \<Rightarrow> route_method \<Rightarrow> (string \<times> string) list \<Rightarrow> json \<Rightarrow> 'w
       \<Rightarrow> (server_reply option \<times> 'w) option" where
  "router su = router_with su (server_state su)"

lemma listings_ignore_state:
  "router_with su sv ''/providers'' MGet headers body w = router_with su sv' ''/providers'' MGet headers body w"
  "router_with su sv ''/v1/models'' MGet headers body w = router_with su sv' ''/v1/models'' MGet headers body w"
  by (simp_all add: router_with_def served_routes_def)

section \<open>Starting the server\<close>

text \<open>\<open>u16::from_str\<close>: digits, after at most one plus sign, within 16 bits.\<close>

definition parse_u16 :: "string \<Rightarrow> u16 option" where
  "parse_u16 s =
     (let ds = (case s of [] \<Rightarrow> [] | c # cs \<Rightarrow> if c = CHR ''+'' then cs else s)
      in if ds = [] \<or> \<not> list_all is_digit ds \<or> 2 ^ 16 \<le> dec_value ds then None else Some (of_nat (dec_value ds)))"

text \<open>\<open>env::var\<close>: \<open>None\<close> when the variable is not set or not UTF-8.  The address text is parsed and bound by the library.\<close>

definition server_port :: "(string \<Rightarrow> string option) \<Rightarrow> u16" where
  "server_port vars = (case Option.bind (vars ''GRAVITY_PORT'') parse_u16 of Some p \<Rightarrow> p | None \<Rightarrow> 8080)"

definition server_address :: "(string \<Rightarrow> string option) \<Rightarrow> string" where
  "server_address vars =
     (case vars ''GRAVITY_HOST'' of Some h \<Rightarrow> h | None \<Rightarrow> ''127.0.0.1'') @ '':'' @ dec_of (unat (server_port vars))"

lemma parse_u16_dec: "parse_u16 (dec_of n) = (if n < 2 ^ 16 then Some (of_nat n) else None)"
proof -
  obtain c cs where n: "dec_of n = c # cs" using dec_of_nonempty by (meson list.exhaust)
  moreover have "is_digit c" using dec_of_digits [of n] n by simp
  then have "c \<noteq> CHR ''+''" by (auto simp: is_digit_def)
  moreover have "list_all is_digit (dec_of n)" using dec_of_digits by (auto simp: list_all_iff)
  ultimately show ?thesis by (simp add: parse_u16_def dec_value_dec_of [of n, unfolded n] not_le)
qed

text \<open>A port that is set is taken as it is written; a number that is no port is silently the default one.\<close>

lemma server_port_of:
  "vars ''GRAVITY_PORT'' = Some (dec_of n) \<Longrightarrow> server_port vars = (if n < 2 ^ 16 then of_nat n else 8080)"
  by (simp add: server_port_def parse_u16_dec)

section \<open>Every listed model is served\<close>

definition model_entries :: "'w registry \<Rightarrow> (provider_name \<times> string) list" where
  "model_entries reg =
     concat (map (\<lambda>(name, _). map (Pair name) (listed_models reg name)) (iter_capabilities reg))"

lemma server_models_entries:
  "server_models reg =
     JObject [(''object'', JString ''list''),
       (''data'', JArray (map (\<lambda>(name, m).
          JObject [(''id'', JString (provider_as_str name @ ''/'' @ m)), (''object'', JString ''model''),
                   (''owned_by'', JString (provider_as_str name))]) (model_entries reg)))]"
  by (simp add: server_models_def model_entries_def map_concat comp_def case_prod_unfold)

lemma own_models_named: "list_all (\<lambda>p. [] \<notin> set (pv_list_models p)) (own_adapters su)"
  by (simp add: own_adapters_def claude_provider_def claude_models_def glm_provider_def glm_models_def
      kiro_provider_def kiro_models_def gemini_provider_def gemini_models_def chatgpt_provider_def chatgpt_models_def
      gemini_cli_provider_def code_assist_models_def codex_provider_def codex_models_def cursor_provider_def
      cursor_models_def windsurf_provider_def windsurf_models_def antigravity_provider_def anthropic_provider_def
      anthropic_models_def ppl_provider_def ppl_models_def)

lemma models_named: "p \<in> set (builtin_adapters su) \<Longrightarrow> m \<in> set (pv_list_models p) \<Longrightarrow> m \<noteq> []"
proof -
  assume p: "p \<in> set (builtin_adapters su)" and m: "m \<in> set (pv_list_models p)"
  have "list_all (\<lambda>c. [] \<notin> set (oc_models c)) oai_catalog" by code_simp
  then have "list_all (\<lambda>p. [] \<notin> set (pv_list_models p)) (oai_all (su_net su) (su_to_vec su))"
    by (simp add: oai_all_def oai_provider_def list_all_iff)
  then show "m \<noteq> []" using p m own_models_named [of su] by (auto simp: builtin_adapters_def list_all_iff)
qed

text \<open>
  C22.  Every listed model is served.  An entry that \<open>GET /v1/models\<close> lists is a model that the adapter of its owner
  lists; its id parses to that owner and model; and a chat request that names it, with any messages and
  headers, is taken for that model and an account of that provider with the secret of the request.
\<close>

theorem listed_models_served:
  assumes "(name, m) \<in> set (model_entries (builtin su))"
  shows "(\<exists>p. registry_provider (builtin su) name = Inr p \<and> adapter_name p = name \<and> m \<in> set (pv_list_models p))
       \<and> model_id_parse (provider_as_str name @ ''/'' @ m) = Inr \<lparr>mid_provider = name, mid_model = m\<rparr>
       \<and> (\<exists>account req.
            server_prepare (server_state su) headers
              (JObject [(''model'', JString (provider_as_str name @ ''/'' @ m)), (''messages'', JArray ms)]) =
              Inr (account, req, False)
          \<and> rq_model req = \<lparr>mid_provider = name, mid_model = m\<rparr> \<and> rq_messages req = map served_message ms
          \<and> pa_provider (ra_account account) = name \<and> ra_secret account = str_default (bearer_token headers))"
proof -
  obtain p where p: "p \<in> set (builtin_adapters su)" "builtin su name = Some p" "adapter_name p = name"
    using builtin_total [of su name] by blast
  have m: "m \<in> set (pv_list_models p)"
    using assms p(2) by (auto simp: model_entries_def listed_models_def registry_provider_def)
  have parse: "model_id_parse (provider_as_str name @ ''/'' @ m) = Inr \<lparr>mid_provider = name, mid_model = m\<rparr>"
    using model_id_parse_full_name [of "\<lparr>mid_provider = name, mid_model = m\<rparr>"] models_named [OF p(1) m]
    by (simp add: model_id_full_name_def model_id_ok_def)
  let ?body = "JObject [(''model'', JString (provider_as_str name @ ''/'' @ m)), (''messages'', JArray ms)]"
  have secret: "server_secret headers ?body = str_default (bearer_token headers)"
    by (simp add: server_secret_def jget_str_def split: option.split)
  obtain account where account:
    "build_transient (builtin su) name (server_options (server_secret headers ?body) (server_kind name)) = Inr account"
    "pa_provider (ra_account account) = name" "ra_secret account = str_default (bearer_token headers)"
    using transient_for_every_provider
      [of su name "server_options (server_secret headers ?body) (server_kind name)"] secret
    by (auto simp: server_options_def)
  have field: "jget_str ?body ''model'' = Some (provider_as_str name @ ''/'' @ m)"
    "jget ?body ''messages'' = Some (JArray ms)" "jget ?body ''stream'' = None"
    by (simp_all add: jget_str_def)
  show ?thesis
    using p m parse account field
    by (simp add: registry_provider_def server_prepare_def server_state_def parse_messages_def chat_request_new_def)
qed

lemma in_provider_all: "n \<in> set provider_all"
  by (cases n) (simp_all add: provider_all_def)

lemma model_entries_builtin:
  assumes "p \<in> set (builtin_adapters su)" and "m \<in> set (pv_list_models p)"
  shows "(adapter_name p, m) \<in> set (model_entries (builtin su))"
proof -
  have b: "builtin su (adapter_name p) = Some p" using builtin_lookup [OF assms(1)] .
  have "adapter_name p \<in> set (filter (registry_has (builtin su)) provider_all)"
    using b in_provider_all by (simp add: registry_has_def)
  then have "adapter_name p \<in> set (map fst (iter_capabilities (builtin su)))" by (simp only: capability_names)
  then obtain caps where "(adapter_name p, caps) \<in> set (iter_capabilities (builtin su))" by auto
  moreover have "m \<in> set (listed_models (builtin su) (adapter_name p))"
    using assms(2) b by (simp add: listed_models_def registry_provider_def)
  ultimately show ?thesis unfolding model_entries_def by fastforce
qed

lemma listed_models_served_witness:
  "\<forall>su :: unit surroundings. \<exists>account req.
     server_prepare (server_state su) []
       (JObject [(''model'', JString ''anthropic_api/claude-opus-4-1''), (''messages'', JArray [])]) = Inr (account, req, False)
   \<and> pa_provider (ra_account account) = AnthropicApi"
proof
  fix su :: "unit surroundings"
  have p: "anthropic_provider (su_net su) \<in> set (builtin_adapters su)"
    by (simp add: builtin_adapters_def own_adapters_def)
  have m: "''claude-opus-4-1'' \<in> set (pv_list_models (anthropic_provider (su_net su)))"
    by (simp add: anthropic_provider_def anthropic_models_def)
  have n: "adapter_name (anthropic_provider (su_net su)) = AnthropicApi"
    by (simp add: adapter_name_def anthropic_provider_def anthropic_caps_def standard_caps_def)
  have "(AnthropicApi, ''claude-opus-4-1'') \<in> set (model_entries (builtin su))"
    using model_entries_builtin [OF p m] unfolding n .
  from listed_models_served [OF this, of "[]" "[]"]
  show "\<exists>account req.
     server_prepare (server_state su) []
       (JObject [(''model'', JString ''anthropic_api/claude-opus-4-1''), (''messages'', JArray [])]) = Inr (account, req, False)
   \<and> pa_provider (ra_account account) = AnthropicApi" by auto
qed

section \<open>From the bytes of a service to the caller's callback\<close>

text \<open>The tokens of the texts of a stream: the non-empty ones, or one empty token when there is no text at all.\<close>

definition spoken :: "string list \<Rightarrow> string list" where
  "spoken texts =
     (let ts = filter (\<lambda>s. s \<noteq> []) texts in if ts = [] then [[]] else concat (map token_of ts))"

lemma callback_text_deltas:
  "callback_tokens emitted (text_deltas texts @ [Inr (Done resp)]) =
     (concat (map token_of (filter (\<lambda>s. s \<noteq> []) texts))
        @ (if emitted \<or> filter (\<lambda>s. s \<noteq> []) texts \<noteq> [] then [] else token_of (response_text resp)), True)"
proof (induction texts arbitrary: emitted)
  case Nil
  show ?case by (simp add: text_deltas_def heard_def)
next
  case (Cons s texts)
  show ?case
  proof (cases "s = []")
    case True
    then show ?thesis using Cons [of emitted] by (simp add: text_deltas_def)
  next
    case False
    have "text_deltas (s # texts) = Inr (TextDelta (str_bytes s)) # text_deltas texts"
      using False by (simp add: text_deltas_def)
    moreover have "bytes_str (str_bytes s) = s" by (simp add: bytes_str_def str_bytes_def comp_def)
    ultimately show ?thesis using False Cons [of True] by (simp add: heard_def)
  qed
qed

lemma empty_texts: "filter (\<lambda>s. s \<noteq> []) texts = [] \<Longrightarrow> concat texts = []"
  by (auto simp: filter_empty_conv concat_eq_Nil_conv)

text \<open>
  C8.  From the bytes of a service to the callback of a C caller.  A request that the C interface reads, for a
  model of a provider of the catalog, goes through the client and the built-in registry to that provider's
  adapter; when the service answers it with a stream of chunks, cut into network reads anywhere, the callback is
  called once with each non-empty text, in order (a text with a null byte is passed over), or once with the
  empty text when there is none, and the call returns 0.
\<close>

theorem bytes_to_callback:
  assumes "c \<in> set oai_catalog" and "cl_registry (en_client en) = builtin su"
    and "parse_chat_request en body = Inr (account, req)" and "mid_provider (rq_model req) = oc_provider c"
    and "request_validate req = Inr ()"
    and "build_http_request (nt_serde (su_net su)) (su_to_vec su) c
           (client_ctx req account (conversation_new []) None) True = Inr hreq"
    and "nt_stream (su_net su) hreq w = (Inr (200, hs, map Inr reads), w')"
    and "list_all2 (piece_written (nt_serde (su_net su))) pcs ts"
    and "concat reads = concat (map (\<lambda>t. wire_lines (event_lines (data_event t))) (ts @ [''[DONE]'']))"
  shows "gravity_chat_stream en (Some body) w = ((spoken (map piece_text pcs), 0), w')"
proof -
  have reg: "registry_provider (cl_registry (en_client en)) (mid_provider (rq_model req)) =
      Inr (oai_provider (su_net su) (su_to_vec su) c)"
    using oai_all_registered [OF assms(1), of "own_adapters su" "su_net su" "su_to_vec su"]
    by (simp add: registry_provider_def builtin_def builtin_adapters_def assms(2,4))
  have "\<not> requires_remote_checkpoint (oc_capabilities c)"
  proof -
    have "list_all (\<lambda>c. \<not> requires_remote_checkpoint (oc_capabilities c)) oai_catalog" by code_simp
    then show ?thesis using assms(1) by (simp add: list_all_iff)
  qed
  then have "chat_stream_over (en_client en) req account (conversation_new []) w =
      oai_chat_stream (su_net su) (su_to_vec su) c (client_ctx req account (conversation_new []) None) w"
    using assms(5) reg by (simp add: chat_stream_over_def oai_provider_def)
  also note oai_stream_events [OF assms(6-9)]
  finally have over: "chat_stream_over (en_client en) req account (conversation_new []) w =
      (Inr (text_deltas (map piece_text pcs)
        @ [Inr (Done \<lparr>rs_model = model_id_full_name (rq_model req),
             rs_message = message_assistant (concat (map piece_text pcs)),
             rs_usage = the (or_last (Some usage_default) (map (\<lambda>pc. map_option oai_counts (pc_usage pc)) pcs)),
             rs_tool_calls_executed = [], rs_provider_response_id = None,
             rs_finish_reason = or_last None (map pc_finish pcs), rs_metadata = metadata_new\<rparr>)]), w')"
    by (simp add: client_ctx_def)
  show ?thesis
  proof (cases "filter (\<lambda>s. s \<noteq> []) (map piece_text pcs) = []")
    case True
    then have "concat (map piece_text pcs) = []" by (rule empty_texts)
    with over True assms(3) show ?thesis
      by (simp add: gravity_chat_stream_def callback_text_deltas spoken_def token_of_def response_text_def core_simps)
  next
    case False
    with over assms(3) show ?thesis
      by (simp add: gravity_chat_stream_def callback_text_deltas spoken_def Let_def)
  qed
qed

text \<open>A caller of a Groq model, whose service streams the pieces of \<open>sample_net\<close>.\<close>

definition groq_body :: json where
  "groq_body =
     JObject [(''provider'', JString ''groq''), (''model'', JString ''m''),
              (''messages'', JArray [JObject [(''role'', JString ''user''), (''content'', JString ''hi'')]])]"

definition groq_surroundings :: "unit surroundings \<Rightarrow> unit surroundings" where
  "groq_surroundings su =
     su\<lparr>su_net := sample_net, su_to_vec := \<lambda>_. Inr ''{}'',
        su_serde := \<lparr>to_compact = \<lambda>_. [], to_pretty = \<lambda>_. [], from_text = \<lambda>_. Some groq_body,
                      stream_next = \<lambda>_. None, number_f64 = \<lambda>_. None\<rparr>\<rparr>"

lemma bytes_to_callback_witness:
  "\<forall>su. gravity_chat_stream (engine_of (groq_surroundings su)) (Some ''{}'') () =
     (([''he'', ''y''], 0), ())"
proof
  fix su :: "unit surroundings"
  let ?su = "groq_surroundings su"
  let ?c = "hd oai_catalog"
  let ?ts = "[''0'', ''1'', ''2'']"
  have c: "?c \<in> set oai_catalog" "oc_provider ?c = Groq" by (simp_all add: oai_catalog_def oai_entry_def)
  have fields: "jget_str groq_body ''provider'' = Some ''groq''" "provider_from_str ''groq'' = Inr Groq"
    "jget_str groq_body ''model'' = Some ''m''"
    "jget groq_body ''messages'' = Some (JArray [JObject [(''role'', JString ''user''), (''content'', JString ''hi'')]])"
    by code_simp+
  have user: "served_role (jget_str (JObject [(''role'', JString ''user''), (''content'', JString ''hi'')]) ''role'') = RUser"
    by code_simp
  obtain account where "build_transient (builtin ?su) Groq (ffi_options groq_body (chat_kind Groq)) = Inr account"
    using transient_for_every_provider [of ?su Groq] by blast
  then have "\<exists>req. parse_chat_request (engine_of ?su) ''{}'' = Inr (account, req) \<and> mid_provider (rq_model req) = Groq
      \<and> map msg_role (rq_messages req) = [RUser]"
    by (simp add: parse_chat_request_def ffi_value_def client_new_def client_with_registry_def groq_surroundings_def ffi_provider_def fields model_id_new_def
        ffi_messages_def ffi_message_def chat_request_new_def user message_bare_def)
  then obtain req where req: "parse_chat_request (engine_of ?su) ''{}'' = Inr (account, req)"
    "mid_provider (rq_model req) = oc_provider ?c" "map msg_role (rq_messages req) = [RUser]"
    using c(2) by auto
  have valid: "request_validate req = Inr ()"
    using req(3) by (auto simp: request_validate_iff transcript_ok_def map_eq_Cons_conv)
  obtain hreq where hreq:
    "build_http_request (nt_serde (su_net ?su)) (su_to_vec ?su) ?c (client_ctx req account (conversation_new []) None) True =
      Inr hreq"
    by (simp add: build_http_request_def groq_surroundings_def)
  have "trim ''0'' \<noteq> ''[DONE]'' \<and> Sse.event_ok (data_event ''0'') \<and> trim ''1'' \<noteq> ''[DONE]''
      \<and> Sse.event_ok (data_event ''1'') \<and> trim ''2'' \<noteq> ''[DONE]'' \<and> Sse.event_ok (data_event ''2'')
      \<and> dec_value ''0'' = 0 \<and> dec_value ''1'' = 1 \<and> dec_value ''2'' = 2" by code_simp
  then have pieces: "list_all2 (piece_written (nt_serde (su_net ?su))) sample_pieces ?ts"
    by (simp add: groq_surroundings_def piece_written_def sample_net_def sample_pieces_def)
  have stream: "nt_stream (su_net ?su) hreq () =
      (Inr (200, [], map Inr (map (\<lambda>t. wire_lines (event_lines (data_event t))) (?ts @ [''[DONE]'']))), ())"
    by (simp add: groq_surroundings_def sample_net_def)
  have reg: "cl_registry (en_client (engine_of ?su)) = builtin ?su" by simp
  have "gravity_chat_stream (engine_of ?su) (Some ''{}'') () = ((spoken (map piece_text sample_pieces), 0), ())"
    by (rule bytes_to_callback [OF c(1) reg req(1,2) valid hreq stream pieces refl])
  moreover have "spoken (map piece_text sample_pieces) = [''he'', ''y'']" by code_simp
  ultimately show "gravity_chat_stream (engine_of ?su) (Some ''{}'') () = (([''he'', ''y''], 0), ())" by simp
qed

end
