(* ===== verification/Spec2Isabelle.thy ===== *)
theory Spec2Isabelle
  imports Stored Transport Refresh Builtin
begin

text \<open>
  Gravity: a gateway that gives one interface to many AI services, the Rust workspace
  \<open>src/API/gravity/crates\<close>.  Paths below are relative to it.

  \<^bold>\<open>The program.\<close>  A caller (the foreign-function layers, the command line or the HTTP server) hands a
  canonical request to the client.  The client asks the account manager for the accounts of the model's
  provider in order of preference, and runs the request against them one after another: each run is a loop
  of provider calls and tool executions, and an error decides whether the same account is tried again,
  whether it rests, and whether the next one is tried.  A provider adapter turns the canonical request into
  its service's wire format, sends it through the HTTP layer, and reads the answer, buffered or as a stream
  of events.  Accounts, secrets, counters and conversations are kept in files, secrets encrypted.

  \<^bold>\<open>The theories\<close>, in the order in which they build on one another.
  \<^item> Shared ground.  \<open>Prelude\<close>: words, lists, association lists, the \<open>named_theorems\<close> collections.  \<open>Text\<close>,
    \<open>Bytes\<close>, \<open>Utf8\<close>, \<open>Floats\<close>: what the code uses of the standard library's strings, integers, UTF-8 decoding
    and float casts.  \<open>Json\<close>: \<open>serde_json::Value\<close> and \<open>gravity-core/src/metadata.rs\<close>, with the locale of
    key-value stores.  \<open>Derive\<close>: the readers and writers that \<open>serde\<close> derives, and the network an adapter sends
    through.  \<open>WebEnv\<close>, \<open>Urls\<close>: the environment of the browser adapters and the form encoding.
  \<^item> \<open>gravity-core\<close>.  \<open>Capabilities\<close> (\<open>capabilities.rs\<close>, \<open>model_id.rs\<close>), \<open>Core\<close> (\<open>message.rs\<close>, \<open>tool.rs\<close>, \<open>request.rs\<close>,
    \<open>response.rs\<close>, \<open>stream.rs\<close>, \<open>model_info.rs\<close>), \<open>Schema\<close> (what \<open>serde\<close> derives for these types and for those of
    \<open>conversation.rs\<close>, and the image and embedding types), \<open>Errors\<close> (\<open>error.rs\<close>), \<open>Conversations\<close> (\<open>conversation.rs\<close>), \<open>Clock\<close>
    (\<open>clock.rs\<close>), \<open>Accounts\<close> (\<open>accounts.rs\<close>), \<open>StructuredOutput\<close> (\<open>structured_output.rs\<close>, \<open>tool_emulation.rs\<close>).
  \<^item> \<open>gravity-accounts\<close>.  \<open>Fernet\<close> (\<open>crypto.rs\<close>, \<open>store.rs\<close>), \<open>AccountsIo\<close> (\<open>io.rs\<close>), \<open>UserFiles\<close> (\<open>config.rs\<close>,
    \<open>metrics.rs\<close>), \<open>Manager\<close> (\<open>manager.rs\<close>), \<open>Stored\<close> (the derived serializers of all files, and the operations on
    the files with them).
  \<^item> \<open>gravity-http\<close>.  \<open>Sse\<close> (\<open>sse.rs\<close>) and \<open>Http\<close> (\<open>profile.rs\<close>, \<open>client.rs\<close>, \<open>transport.rs\<close>), \<open>Transport\<close> (sending
    and streaming, and the environments of \<open>clock.rs\<close>).
  \<^item> \<open>gravity-client\<close>.  \<open>Afc\<close> (\<open>afc.rs\<close>), \<open>Client\<close> and \<open>Failover\<close> (the tool loops and \<open>chat_over\<close> of \<open>client.rs\<close>),
    \<open>Managed\<close> (its stateful entry points), \<open>Sessions\<close> (its conversation store), \<open>Transient\<close> (\<open>transient.rs\<close>).
  \<^item> \<open>gravity-providers\<close>.  \<open>Providers\<close> (\<open>provider.rs\<close>, \<open>context.rs\<close>, \<open>registry.rs\<close>), \<open>OaiWire\<close> and \<open>OaiCompat\<close>
    (\<open>openai_compat\<close>), \<open>Anthropic\<close> (\<open>anthropic\<close>), \<open>Pow\<close> and \<open>Chatgpt\<close> (\<open>chatgpt\<close>), \<open>Glm\<close> (\<open>glm\<close>); the parsers
    \<open>Proto\<close> (\<open>cursor/proto.rs\<close>), \<open>ClaudeParser\<close> (\<open>claude/parser.rs\<close>), \<open>KiroParser\<close> (\<open>kiro/parser.rs\<close>), \<open>GeminiParser\<close>
    (\<open>gemini/parser.rs\<close>).  \<open>Adapters\<close> has what the remaining adapters share; \<open>Auth\<close> their authenticators
    (\<open>codex/auth.rs\<close>, \<open>gemini_cli/auth.rs\<close>, \<open>antigravity/auth.rs\<close>, \<open>kiro/auth.rs\<close>) and \<open>Refresh\<close> the managed chat over
    them; \<open>Claude\<close> (\<open>claude\<close>), \<open>Gemini\<close> (\<open>gemini\<close>), \<open>Kiro\<close> (\<open>kiro\<close>), \<open>Codex\<close> (\<open>codex\<close>), \<open>Google\<close> (\<open>gemini_cli\<close>,
    \<open>antigravity\<close>), \<open>Perplexity\<close> (\<open>perplexity\<close>), and over the Connect protocol of \<open>Connect\<close>, \<open>Windsurf\<close> (\<open>windsurf\<close>)
    and \<open>Cursor\<close> (\<open>cursor\<close>).
  \<^item> \<open>gravity-server\<close>.  \<open>Server\<close> (\<open>openai.rs\<close>).
  \<^item> The other interfaces.  \<open>Ffi\<close> (\<open>gravity-ffi\<close>: the JSON boundary, the strings that change hands, the two forms of
    streaming), \<open>Bindings\<close> (\<open>gravity-pyo3\<close>, \<open>gravity-node\<close>), \<open>Cli\<close> (\<open>gravity-cli\<close>).
  \<^item> The program put together.  \<open>Builtin\<close>: the built-in registry (\<open>registry.rs\<close>), the client, its facade and the engine
    over it (\<open>client.rs\<close>, \<open>gravity-ffi/src/lib.rs\<close>), the routes and the address of the server (\<open>gravity-server\<close>).

  \<^bold>\<open>How the model reads the code.\<close>  A struct is a record with the fields in the code's order, an enum a
  datatype; \<open>Result\<close> is a sum with the error on the left, \<open>Option\<close> an option.  A method that mutates or awaits
  is a function that passes the state on: the manager, the host (time, entropy, files) or, for providers, an
  arbitrary world \<open>'w\<close> in which the network and the remote sessions live.  An event stream is the list of
  what it yields.  Tool executions that run in parallel are a step relation (\<open>Afc\<close>), and the tool loop uses
  the result it is proved to have in every order; so is the task behind a pulled stream (\<open>Ffi\<close>).  A panic is \<open>None\<close> where the code can reach it.  A string is
  the list of its UTF-8 bytes, so indices and lengths are those of Rust.  Integers keep their width and wrap
  around as a release build does.  An error that the code makes of a foreign library's error keeps the
  code's own words and takes the library's from a parameter, or leaves them out.

  \<^bold>\<open>Parameters.\<close>  Code that is not in the repository is an argument: the text of JSON (\<open>serde\<close>), AES, HMAC, SHA-2, SHA-3 and base64, the operating system's files, clock and
  entropy, gzip, \<open>chrono\<close>'s conversions and formatting, the language's debug printer of a text, the client
  credentials fixed when the program is built, the state an aborted process leaves behind, and the transport
  (\<open>wreq\<close>).  The operations on files are stated over a \<open>codec\<close>, which \<open>Stored\<close> instantiates with the serializers
  that \<open>serde\<close> derives; the adapters over a network and an environment, which \<open>Transport\<close> instantiates with the
  client's and the system's.  What a theorem needs of them is a hypothesis of
  its statement, and its witness instantiates them with concrete functions.

  \<^bold>\<open>Bounds and fuel.\<close>  The tool loops are recursive on the rounds left, which the code bounds with
  \<open>max_iterations\<close> (at least one); \<open>chat_over\<close> is recursive on the tries left on an account, \<open>max_attempts\<close>, and on
  the list of accounts; both are total functions, and \<open>Client.chat_over_bounded\<close> counts the provider calls.  The proof of work
  is recursive on the attempts left, with the code's \<open>MAX_ITERS\<close>.  The decoders are recursive on the bytes left,
  with a measure where a step consumes more than one.

  \<^bold>\<open>What is shown.\<close>
  \<^item> Orchestration: where an outcome of \<open>chat_over\<close> comes from, what an outage does, how many calls are made,
    that the tool loop is the dialogue it should be and that parallel tools answer in the order of the calls
    under every schedule with a bounded number at a time; that the managed chat writes back what happened to the
    accounts, that a rate-limited account rests, and that histories accumulate and survive a restart.
  \<^item> Accounts: selection is the sorted list of the selectable accounts, the cooldown window after a failure, the
    order in which a secret is looked for, loading after saving, the migration of old files, the authenticity
    and round trip of encryption at rest.
  \<^item> Serialization: for every message, request and stored conversation, exactly when it is read back from what is
    written; with it, the health of the accounts and the history of a persistent conversation are the same after a
    restart.
  \<^item> Composition: the registry has an adapter for every name and loses none; a model that the server lists is
    served; and the bytes of a service come out of the C interface as the texts that were sent.
  \<^item> Wire formats: for each adapter that streams, the path from the bytes of the body, cut anywhere, to the
    deltas, tool calls and counters; what one side writes the other reads back; a stream passed on by the server
    is unchanged at a second gateway; a signed request is accepted by a check recomputed from what travels; a proof
    of work is never sent unsolved.  The requests of Windsurf, Cursor and Gemini are read back by a server that
    decodes them; Kiro's history alternates whatever the transcript; a Claude turn sends its requests in order and
    stops at a refusal, and its two forms read the same answer.
  \<^item> Interfaces: the C, the Python and the Node interface make the same call of the same chat; a pulled stream
    arrives in order under every schedule; every result is a C string of its own; what each makes of a streamed
    answer.
  \<^item> Sign-in: after a refused call the managed chat refreshes the account once and goes on with the new token, and
    no run of refreshes touches anything but the stored credentials.
  \<^item> Findings are lemmas beside the component they concern, named in the manifest.

  \<^bold>\<open>Not modelled.\<close>  \<open>gravity-testkit\<close> is a test fixture; \<open>gravity-core/src/schema.rs\<close> is a trait without an
  implementation.  Of the interfaces, the crates that convert values between languages (\<open>pyo3\<close>, \<open>napi\<close>, \<open>clap\<close>) and the
  threads on which callbacks run.  The exchange of a prepared request, TLS, the listening socket and the shutdown
  signal are \<open>wreq\<close>, \<open>tokio\<close> and \<open>axum\<close>.  A derived serializer is modelled on the value of a text: a text that
  repeats a field has none here.
\<close>

end
